(* ===== verification/Prelude.thy ===== *)
theory Prelude
  imports Main "HOL-Library.Word" "HOL-Library.Signed_Division" "HOL-Library.While_Combinator"
begin

text \<open>
  Shared vocabulary of the development: the C integer types of the simulator as machine
  words, the fact collections the component theories fill, and the generic lemmas on words
  and function updates that their proofs use.

  \<^item> \<open>frame\<close>: which parts of the state an operation leaves alone;
  \<^item> \<open>regs_defs\<close>: the definitions of the register-level operations, unfolded
    together when a concrete run is evaluated.
\<close>

unbundle bit_operations_syntax

type_synonym u8 = "8 word"
type_synonym u16 = "16 word"
type_synonym u32 = "32 word"
type_synonym u64 = "64 word"

named_theorems frame
named_theorems regs_defs

section \<open>Words\<close>

lemma and_eq_self_iff_bits:
  fixes v m :: "'a::len word"
  shows "v AND m = v \<longleftrightarrow> v AND NOT m = 0"
proof -
  have "(v AND m) OR (v AND NOT m) = v"
    by (rule bit_word_eqI) (auto simp: bit_simps)
  moreover have "v AND NOT m = 0" if "v AND m = v"
    by (subst that [symmetric], rule bit_word_eqI) (auto simp: bit_simps)
  ultimately show ?thesis by auto
qed

lemma and_or_split:
  fixes a m :: "'a::len word"
  shows "(a AND m) OR (a AND NOT m) = a"
  by (rule bit_word_eqI) (auto simp: bit_simps)

lemma and_mask_or_cancel:
  fixes a b m :: "'a::len word"
  shows "((a AND NOT m) OR (b AND m)) AND m = b AND m"
  by (rule bit_word_eqI) (auto simp: bit_simps)

lemma and_not_mask_or_cancel:
  fixes a b m :: "'a::len word"
  shows "((a AND NOT m) OR (b AND m)) AND NOT m = a AND NOT m"
  by (rule bit_word_eqI) (auto simp: bit_simps)

text \<open>A flag copied from a register: \<open>if (v & bit) x |= bit\<close>.\<close>

lemma or_flag:
  fixes v x :: "'a::len word"
  shows "(if v AND 2 ^ k \<noteq> 0 then x OR 2 ^ k else x) = x OR (v AND 2 ^ k)"
  by (rule bit_word_eqI) (auto simp: bit_simps and_exp_eq_0_iff_not_bit)

text \<open>Bit by bit, without the arithmetic the simplifier does on shifted masks.\<close>

lemmas bit_ops =
  bit_or_iff bit_and_iff bit_xor_iff bit_push_bit_iff bit_drop_bit_eq bit_unsigned_iff comp_apply

text \<open>The numerals of the code's masks, bit by bit.\<close>

text \<open>A run of \<open>l\<close> ones from bit \<open>k\<close>, as the code writes it.\<close>

lemma bit_ones: "bit (push_bit k (mask l) :: int) n \<longleftrightarrow> k \<le> n \<and> n < k + l"
  by (auto simp: bit_push_bit_iff bit_mask_iff)

lemma bit_mask_numerals [simp]:
  "bit (0x3 :: int) n \<longleftrightarrow> n < 2"
  "bit (0xff :: int) n \<longleftrightarrow> n < 8"
  "bit (0xfff :: int) n \<longleftrightarrow> n < 12"
  "bit (0xffff :: int) n \<longleftrightarrow> n < 16"
  "bit (0xfc0 :: int) n \<longleftrightarrow> 6 \<le> n \<and> n < 12"
  "bit (0xff00 :: int) n \<longleftrightarrow> 8 \<le> n \<and> n < 16"
  "bit (0xff0000 :: int) n \<longleftrightarrow> 16 \<le> n \<and> n < 24"
  "bit (0xff000000 :: int) n \<longleftrightarrow> 24 \<le> n \<and> n < 32"
  "bit (0xffffff00 :: int) n \<longleftrightarrow> 8 \<le> n \<and> n < 32"
  "bit (0xffff0000 :: int) n \<longleftrightarrow> 16 \<le> n \<and> n < 32"
  "bit (0xffffff :: int) n \<longleftrightarrow> n < 24"
  "bit (0xfffff000 :: int) n \<longleftrightarrow> 12 \<le> n \<and> n < 32"
  "bit (0xfffffffc :: int) n \<longleftrightarrow> 2 \<le> n \<and> n < 32"
  using
    bit_ones [of 0 2 n]
    bit_ones [of 0 8 n]
    bit_ones [of 0 12 n]
    bit_ones [of 0 16 n]
    bit_ones [of 6 6 n]
    bit_ones [of 8 8 n]
    bit_ones [of 16 8 n]
    bit_ones [of 24 8 n]
    bit_ones [of 8 24 n]
    bit_ones [of 16 16 n]
    bit_ones [of 0 24 n]
    bit_ones [of 12 20 n]
    bit_ones [of 2 30 n]
  by (simp_all add: mask_eq_exp_minus_1 push_bit_eq_mult numeral_2_eq_2)

text \<open>One bit of a mask, in the simplifier's normal form \<open>2 ^ i\<close> for \<open>1 << i\<close>.\<close>

lemma bit_or_single [simp]:
  "bit (m OR 2 ^ i :: 'a::len word) j \<longleftrightarrow> bit m j \<or> (i = j \<and> j < LENGTH('a))"
  by (auto simp: bit_simps)

lemma bit_and_not_single [simp]:
  "bit (m AND NOT (2 ^ i) :: 'a::len word) j \<longleftrightarrow> bit m j \<and> i \<noteq> j"
  by (auto simp: bit_simps dest: bit_imp_le_length)

lemma and_single_zero_iff [simp]:
  "(m AND 2 ^ j = (0::'a::len word)) \<longleftrightarrow> \<not> bit m j"
  by (simp add: and_exp_eq_0_iff_not_bit)

text \<open>The bits of a word one by one.\<close>

lemma word_bits_eqI:
  assumes "list_all (\<lambda>i. bit v i = Q i)
     [0, 1, 2, 3, 4, 5, 6, 7, 8, 9, 10, 11, 12, 13, 14, 15, 16, 17, 18, 19, 20, 21, 22, 23, 24,
      25, 26, 27, 28, 29, 30, 31]"
    and "\<And>i. Q i \<Longrightarrow> i < 32"
  shows "bit (v::u32) i \<longleftrightarrow> Q i"
proof (cases "i < 32")
  case True
  have "[0..<32] = ([0, 1, 2, 3, 4, 5, 6, 7, 8, 9, 10, 11, 12, 13, 14, 15, 16, 17, 18, 19, 20, 21, 22, 23, 24,
      25, 26, 27, 28, 29, 30, 31] :: nat list)" by (simp add: upt_rec)
  then have "list_all (\<lambda>i. bit v i = Q i) [0..<32]" using assms(1) by simp
  then show ?thesis using True by (simp add: list_all_iff)
next
  case False
  then show ?thesis using bit_imp_le_length [of v i] assms(2) by auto
qed

text \<open>The unsigned value of a field.\<close>

lemma unat_and_mask: "unat (a AND mask n :: u32) = unat a mod 2 ^ n"
proof -
  have "unat (take_bit n a) = take_bit n (unat a)" by (rule unsigned_take_bit_eq)
  then show ?thesis by (simp only: take_bit_eq_mask flip: take_bit_eq_mod)
qed

lemma unat_of_small: "n < 2 ^ 32 \<Longrightarrow> unat (of_nat n :: u32) = n"
  by (simp add: unsigned_of_nat take_bit_nat_eq_self)

lemma unat_drop: "unat (drop_bit n (a :: u32)) = unat a div 2 ^ n"
proof -
  have "unat (drop_bit n a) = drop_bit n (take_bit LENGTH(32) (unat a))" by (rule unsigned_drop_bit_eq)
  moreover have "take_bit LENGTH(32) (unat a) = unat a"
    using unsigned_less [of a, where 'a = nat] by (intro take_bit_nat_eq_self) simp
  ultimately show ?thesis by (simp only: drop_bit_eq_div)
qed

text \<open>The signed value of a word.\<close>

lemma shift_mod:
  fixes u n :: int
  assumes "0 \<le> u" "u < 2 * n"
  shows "(u + n) mod (2 * n) - n = u - (if u < n then 0 else 2 * n)"
proof (cases "u < n")
  case True
  then show ?thesis using assms by (simp add: mod_pos_pos_trivial)
next
  case False
  have "(u + n) mod (2 * n) = ((u - n) + 2 * n) mod (2 * n)" by (simp add: add.commute)
  also have "\<dots> = u - n" using assms False by (simp only: mod_add_self2) (simp add: mod_pos_pos_trivial)
  finally show ?thesis using False by simp
qed

lemma sint32: "sint (w::u32) = uint w - (if uint w < 2 ^ 31 then 0 else 2 ^ 32)"
  using shift_mod [of "uint w" "2 ^ 31"] uint_lt2p [of w]
  by (simp add: sint_uint signed_take_bit_eq_take_bit_shift take_bit_eq_mod)

lemma sint64: "sint (w::u64) = uint w - (if uint w < 2 ^ 63 then 0 else 2 ^ 64)"
  using shift_mod [of "uint w" "2 ^ 63"] uint_lt2p [of w]
  by (simp add: sint_uint signed_take_bit_eq_take_bit_shift take_bit_eq_mod)

lemma sint32_range: "- (2 ^ 31) \<le> sint (w::u32)" "sint (w::u32) < 2 ^ 31"
  using sint_ge [of w] sint_lt [of w] by simp_all

section \<open>Counted loops\<close>

lemma less_plus1: "i < (n::u64) \<Longrightarrow> i + 1 \<le> n \<and> unat (n - (i + 1)) < unat (n - i)"
proof -
  assume i: "i < n"
  then have "unat (i + 1) = unat i + 1"
    using unsigned_less [of n, where ?'a = nat] by (simp add: unat_plus_if_size word_size word_less_nat_alt)
  then have "i + 1 \<le> n" "unat (n - (i + 1)) = unat n - (unat i + 1)" "unat (n - i) = unat n - unat i"
    using i by (simp_all add: word_le_nat_alt word_less_nat_alt unat_sub)
  then show ?thesis using i by (simp add: word_less_nat_alt)
qed

text \<open>A loop over a state and a counter below \<open>n\<close>, in which every round that does not move the
  counter is the last, ends.\<close>

lemma counted_loop:
  fixes b :: "'s \<times> u64 \<Rightarrow> bool"
  assumes less: "\<And>r. b r \<Longrightarrow> snd r < n"
    and step: "\<And>r. b r \<Longrightarrow> snd (c r) = n \<or> snd (c r) = snd r + 1 \<or> snd (c r) = snd r \<and> \<not> b (c r)"
  shows "\<exists>r'. while_option b c (s, 0) = Some r' \<and> snd r' \<le> n \<and> \<not> b r'"
proof -
  let ?left = "\<lambda>r. if b r then Suc (unat (n - snd r)) else 0"
  have "?left (c r) < ?left r" if "b r" for r
    using step [OF that] less_plus1 [OF less [OF that]] less [of "c r"] that by auto
  then obtain r' where r': "while_option b c (s, 0) = Some r'"
    using measure_while_option_Some [of "\<lambda>_. True" b c ?left] by blast
  have "snd (c r) \<le> n" if "b r" for r
    using step [OF that] less_plus1 [OF less [OF that]] less [OF that] by auto
  then have "snd r' \<le> n"
    by (intro while_option_rule [OF _ r', where P = "\<lambda>r. snd r \<le> n"]) simp_all
  then show ?thesis using r' while_option_stop [OF r'] by blast
qed

section \<open>Signed division\<close>

text \<open>The quotient of two registers fits a register, but for one case.\<close>

lemma sdiv_range:
  fixes a b :: int
  assumes "- (2 ^ 31) \<le> a" "a < 2 ^ 31" "b \<noteq> 0" "\<not> (a = - (2 ^ 31) \<and> b = -1)"
  shows "- (2 ^ 31) \<le> a sdiv b" "a sdiv b < 2 ^ 31"
proof -
  have s: "a sdiv b = sgn a * sgn b * (\<bar>a\<bar> div \<bar>b\<bar>)" by (simp add: signed_divide_int_def)
  have "- (2 ^ 31) \<le> a sdiv b \<and> a sdiv b < 2 ^ 31"
  proof (cases "\<bar>b\<bar> = 1")
    case True
    then have "a sdiv b = (if b = 1 then a else - a)" by (auto simp: s abs_if sgn_if split: if_splits)
    then show ?thesis using assms True by (auto split: if_splits)
  next
    case False
    then have b: "2 \<le> \<bar>b\<bar>" using assms(3) by linarith
    have "\<bar>a\<bar> div \<bar>b\<bar> \<le> \<bar>a\<bar> div 2" using b by (intro zdiv_mono2) simp_all
    also have "\<dots> \<le> 2 ^ 31 div 2" using assms(1,2) by (intro zdiv_mono1) (auto simp: abs_le_iff)
    also have "\<dots> = 2 ^ 30" by simp
    finally have q: "\<bar>a\<bar> div \<bar>b\<bar> \<le> 2 ^ 30" .
    have "0 \<le> \<bar>a\<bar> div \<bar>b\<bar>" using b by (simp add: pos_imp_zdiv_nonneg_iff)
    then have "\<bar>a sdiv b\<bar> \<le> 2 ^ 30" using q by (simp add: s abs_mult abs_sgn_eq)
    then show ?thesis by (auto simp: abs_if split: if_splits)
  qed
  then show "- (2 ^ 31) \<le> a sdiv b" "a sdiv b < 2 ^ 31" by simp_all
qed

lemma smod_range:
  fixes a b :: int
  assumes "b \<noteq> 0"
  shows "\<bar>a smod b\<bar> < \<bar>b\<bar>" "a smod b = 0 \<or> sgn (a smod b) = sgn a" "(a sdiv b) * b + a smod b = a"
proof -
  have m: "a smod b = sgn a * (\<bar>a\<bar> mod \<bar>b\<bar>)" by (simp add: signed_modulo_int_def)
  have "0 \<le> \<bar>a\<bar> mod \<bar>b\<bar>" "\<bar>a\<bar> mod \<bar>b\<bar> < \<bar>b\<bar>" using assms by simp_all
  then show "\<bar>a smod b\<bar> < \<bar>b\<bar>" "a smod b = 0 \<or> sgn (a smod b) = sgn a"
    by (auto simp: m abs_mult abs_sgn_eq sgn_mult)
  show "(a sdiv b) * b + a smod b = a" by (rule sdiv_mult_smod_eq)
qed

lemma sint_of_range: "- (2 ^ 31) \<le> v \<Longrightarrow> v < 2 ^ 31 \<Longrightarrow> sint (word_of_int v :: u32) = v"
  by (simp only: sint_sbintrunc' signed_take_bit_int_eq_self_iff) simp

section \<open>Tables\<close>

text \<open>A \<open>switch\<close>: the entry of the table, or the default.\<close>

definition switch :: "(u32 \<times> 'f) list \<Rightarrow> 'f \<Rightarrow> u32 \<Rightarrow> 'f" where
  "switch table dflt op = (case map_of table op of Some f \<Rightarrow> f | None \<Rightarrow> dflt)"

end
