(* ===== verification/Machine.thy ===== *)
theory Machine
  imports Prelude
begin

text \<open>
  The state of the whole simulator: the records and enumerations of the C files, and the
  record \<open>machine\<close> that holds every static and global variable the modelled code
  reads or writes. A C pointer to a cpu is the index of that cpu; a pointer to a device's
  private data is the number of the slot that holds it; a pointer to a mapped page of
  memory says which memory it points into and at which offset.

  A C flag of type \<open>int\<close> that is only tested for being zero is a \<open>bool\<close>. General
  registers are kept as 32-bit words and read as signed with \<open>sint\<close> where the C does.
\<close>

section \<open>The MIPS processor\<close>

text \<open>\<open>struct mipstlb\<close>\<close>
record mipstlb =
  mt_global :: bool
  mt_valid :: bool
  mt_dirty :: bool
  mt_nocache :: bool
  mt_pfn :: u32
  mt_vpn :: u32
  mt_pid :: u32

text \<open>\<open>enum cpustates\<close>\<close>
datatype cpustates = CPU_DISABLED | CPU_IDLE | CPU_RUNNING

text \<open>The pointers \<open>bus_mem_map\<close> and \<open>bootrom_map\<close> return: into \<open>ram\<close> or into the
  boot ROM, at a byte offset.\<close>
datatype page = Ram_page u32 | Rom_page u32

text \<open>\<open>struct mipscpu\<close>. The fields \<open>r\<close>, \<open>lo\<close>, \<open>hi\<close> and \<open>state\<close> are called \<open>regs\<close>,
  \<open>lo_reg\<close>, \<open>hi_reg\<close> and \<open>cpu_state\<close> here.\<close>
record mipscpu =
  cpu_state :: cpustates
  cpunum :: nat
  regs :: "nat \<Rightarrow> u32"
  lo_reg :: u32
  hi_reg :: u32
  lowait :: int
  hiwait :: int
  jumping :: bool
  in_jumpdelay :: bool
  expc :: u32
  pc :: u32
  nextpc :: u32
  pcoff :: u32
  nextpcoff :: u32
  pcpage :: "page option"
  nextpcpage :: "page option"
  tlb :: "nat \<Rightarrow> mipstlb"
  tlbentry :: mipstlb
  tlbindex :: nat
  tlbpf :: bool
  tlbrandom :: int
  old_usermode :: bool
  old_irqon :: bool
  prev_usermode :: bool
  prev_irqon :: bool
  current_usermode :: bool
  current_irqon :: bool
  status_hardmask_lb :: u32
  status_hardmask_ipi :: u32
  status_hardmask_fpu :: u32
  status_hardmask_void :: u32
  status_hardmask_timer :: u32
  status_softmask :: u32
  status_bootvectors :: u32
  status_copenable :: u32
  cause_bd :: bool
  cause_ce :: u32
  cause_softirq :: u32
  cause_code :: u32
  ex_config0 :: u32
  ex_config1 :: u32
  ex_config2 :: u32
  ex_config3 :: u32
  ex_config4 :: u32
  ex_config5 :: u32
  ex_config6 :: u32
  ex_config7 :: u32
  ex_context :: u32
  ex_epc :: u32
  ex_vaddr :: u32
  ex_prid :: u32
  ex_cfeat :: u32
  ex_ifeat :: u32
  ex_count :: u32
  ex_compare :: u32
  ex_compare_used :: bool
  irq_lamebus :: bool
  irq_ipi :: bool
  irq_timer :: bool
  ll_active :: bool
  ll_addr :: u32
  ll_value :: u32
  hit_breakpoint :: bool

section \<open>The bus and its devices\<close>

text \<open>\<open>struct lamebus_cpu\<close>. \<open>cpu_cram\<close> points to \<open>LAMEBUS_CRAM_SIZE\<close> bytes.\<close>
record lamebus_cpu =
  cpu_enabled_flag :: bool
  cpu_enabled_interrupts :: u32
  cpu_interrupting :: bool
  cpu_ipi :: bool
  cpu_cram :: "u32 \<Rightarrow> u8"

text \<open>\<open>struct timer_data\<close>; \<open>td_restartflag\<close> is an \<open>int\<close> that holds the stored word.\<close>
record timer_data =
  td_slot :: nat
  td_restartflag :: u32
  td_count_usecs :: u32
  td_generation :: u32

text \<open>\<open>struct serirq\<close> and \<open>struct ser_data\<close>\<close>
record serirq =
  si_on :: bool
  si_ready :: bool
  si_force :: bool

record ser_data =
  sd_slot :: nat
  sd_wbusy :: bool
  sd_rbusy :: bool
  sd_rirq :: serirq
  sd_wirq :: serirq
  sd_readch :: u32
  sd_didread :: bool
  sd_droppedreads :: u32
  sd_inbuf :: "nat \<Rightarrow> u8"
  sd_inbufhead :: nat
  sd_inbuftail :: nat

text \<open>\<open>struct disk_data\<close>. The open file behind \<open>dd_fd\<close> is its contents \<open>dd_file\<close> as a map
  from byte offsets, with \<open>None\<close> past the end of the file, and the sectors on which the
  host's \<open>read\<close> or \<open>write\<close> reports an I/O error.\<close>
record disk_data =
  dd_slot :: nat
  dd_file :: "nat \<Rightarrow> u8 option"
  dd_badsects :: "u32 list"
  dd_paranoid :: bool
  dd_sectors :: "u32 list"
  dd_tracks :: nat
  dd_totsectors :: u32
  dd_rpm :: u32
  dd_nsecs_per_rev :: u32
  dd_usedoom :: bool
  dd_current_track :: nat
  dd_trackarrival_secs :: u32
  dd_trackarrival_nsecs :: u32
  dd_iostatus :: int
  dd_timedop :: bool
  dd_worktries :: nat
  dd_stat :: u32
  dd_sect :: u32
  dd_buf :: "u32 \<Rightarrow> u8"

text \<open>\<open>struct net_data\<close>; the address of the hub is the configured one of the slot.\<close>
record net_data =
  nd_slot :: nat
  nd_socket :: int
  nd_lostcarrier :: bool
  nd_rirq :: u32
  nd_wirq :: u32
  nd_control :: u32
  nd_status :: u32
  nd_rbuf :: "u32 \<Rightarrow> u8"
  nd_wbuf :: "u32 \<Rightarrow> u8"

text \<open>\<open>struct emufs_handleinfo\<close> and \<open>struct emufs_data\<close>\<close>
record emufs_handleinfo =
  eh_fd :: int
  eh_dev :: nat
  eh_ino :: nat

record emufs_data =
  ed_slot :: nat
  ed_buf :: "u32 \<Rightarrow> u8"
  ed_handle :: u32
  ed_offset :: u32
  ed_iolen :: u32
  ed_result :: u32
  ed_handles :: "nat \<Rightarrow> emufs_handleinfo"
  ed_busy :: bool
  ed_busyresult :: u32

text \<open>What a configured slot holds: the device's \<open>ls_info\<close> is the constructor, its
  \<open>ls_devdata\<close> the argument. The argument of \<open>Mainboard\<close> is \<open>isold\<close>, that is, whether the
  data pointer is not \<open>NULL\<close>.\<close>
datatype device =
    Mainboard bool
  | Timer timer_data
  | Serial ser_data
  | Random
  | Disk disk_data
  | Net net_data
  | Emufs emufs_data
  | Trace

section \<open>The host\<close>

text \<open>The system calls the devices and the loader make, with the arguments that matter, and what
  the host answers: a return value, the error when it is negative, the bytes that were read or the
  name of a directory entry, and what \<open>stat\<close> says of a file.\<close>

datatype syscall =
    Sys_open "u8 list" u32
  | Sys_close int
  | Sys_stat "u8 list"
  | Sys_fstat int
  | Sys_lseek int u32
  | Sys_read int nat
  | Sys_write int "u8 list"
  | Sys_ftruncate int u32
  | Sys_fchdir int
  | Sys_opendir "u8 list"
  | Sys_readdir
  | Sys_closedir
  | Sys_sendto int "u8 list"

datatype errno =
    EBADF | EINVAL | ENOENT | EIO | ENOTDIR | EISDIR | EEXIST | ENOSPC
  | ECONNREFUSED | ENOTSOCK | EOTHER

record sys_answer =
  sys_ret :: int
  sys_errno :: errno
  sys_data :: "u8 list"
  sys_dev :: nat
  sys_ino :: nat
  sys_isdir :: bool
  sys_size :: nat

section \<open>The profiler\<close>

text \<open>\<open>struct cgentry\<close> without its link, and the static variables of \<open>main/prof.c\<close>. A bin of the
  call graph is the list of its entries.\<close>

record cgentry =
  gce_from :: u32
  gce_to :: u32
  gce_count :: u32

record prof_data =
  prof_textbase :: u32
  prof_textend :: u32
  prof_samplenum :: u32
  prof_sampledata :: "u32 \<Rightarrow> u16"
  prof_cg :: "u32 \<Rightarrow> cgentry list"
  prof_on :: bool
  prof_active :: bool

section \<open>The clock\<close>

text \<open>The functions handed to \<open>schedule_event\<close>.\<close>
datatype ta_func =
    F_dopoweroff | F_timer_interrupt | F_serial_writedone | F_serial_pushinput
  | F_disk_seekdone | F_disk_waitdone | F_keepalive | F_triggersend | F_emufs_done
  | F_prof_sample | F_meter_update

text \<open>\<open>struct timed_action\<close>; \<open>ta_data\<close> is the slot of the device or the meter, and the queue is a list,
  so there is no \<open>ta_next\<close>.\<close>
record timed_action =
  ta_vtime :: u64
  ta_data :: nat
  ta_code :: u32
  ta_call :: ta_func
  ta_runningto :: bool

section \<open>Statistics and the machine\<close>

text \<open>\<open>struct stats_percpu\<close> and \<open>struct stats\<close>\<close>
record stats_percpu =
  sp_ucycles :: u64
  sp_kcycles :: u64
  sp_icycles :: u64
  sp_uretired :: u64
  sp_kretired :: u64
  sp_lls :: u64
  sp_okscs :: u64
  sp_badscs :: u64
  sp_syncs :: u64

record stats =
  s_tot_rcycles :: u64
  s_tot_icycles :: u64
  s_percpu :: "nat \<Rightarrow> stats_percpu"
  s_irqs :: u32
  s_exns :: u32
  s_rsects :: u32
  s_wsects :: u32
  s_rchars :: u32
  s_wchars :: u32
  s_remu :: u32
  s_wemu :: u32
  s_memu :: u32
  s_rpkts :: u32
  s_wpkts :: u32
  s_dpkts :: u32
  s_epkts :: u32

text \<open>\<open>struct meter\<close>: a client that watches the statistics. The buffer is all its 128 bytes; what was
  never written is what the memory held.\<close>

record meter_data =
  me_interval :: u64
  me_fd :: int
  me_buf :: "u8 list"
  me_bufpos :: nat

text \<open>Ways the simulator process stops doing what its C says: \<open>smoke\<close> and failed
  assertions (abort), \<open>reqdie\<close>, \<open>die\<close> and
  \<open>crashdie\<close> (exit), a call that never returns, and an operation whose
  behaviour C leaves undefined.\<close>
datatype fault = Smoke | Exit_requested | Exit_crash | Exit_error | No_return | Undefined

text \<open>
  The machine, file by file: \<open>mips.c\<close>; \<open>lamebus.c\<close>; \<open>clock.c\<close> and \<open>onsel.c\<close>; \<open>main.c\<close>,
  \<open>gdb_fe.c\<close> and \<open>gdb_be.c\<close>; \<open>console.c\<close> and the host. \<open>gdb_buf\<close> is the used part of the
  debugger connection's input buffer, \<open>gdb_out\<close> what was written to the connection, \<open>console_key\<close>
  the serial port that gets the keys. Of the host the code reads a stream of \<open>random()\<close> values, the
  rounding of a floating point product (\<open>host_jitter\<close>, used by \<open>schedule_event\<close>), and writes
  console characters. Its system calls are answered by \<open>host_sys\<close>, which sees the calls made
  before, the latest first, in \<open>host_log\<close>: any behaviour of the host is such a function.
\<close>
record machine =
  mycpus :: "nat \<Rightarrow> mipscpu"
  ncpus :: nat
  cpu_running_mask :: u32
  cpu_cycles_count :: u64
  cpu_cycling :: bool
  bus_ramsize :: u32
  ram :: "u32 \<Rightarrow> u8"
  bus_raised_interrupts :: u32
  bus_enabled_interrupts :: u32
  lb_cpus :: "nat \<Rightarrow> lamebus_cpu"
  devices :: "nat \<Rightarrow> device option"
  doom_counter :: nat
  virtual_now :: u64
  extra_selecttime :: u64
  start_secs :: u32
  start_nsecs :: u32
  progress :: bool
  check_progress :: bool
  progress_warned :: bool
  progress_timeout :: u64
  progress_deadline :: u64
  idleslop :: u32
  ta_free :: nat
  event_queue :: "timed_action list"
  g_stats :: stats
  shutoff_flag :: bool
  stopped_in_debugger :: bool
  stop_is_lethal :: bool
  gdb_listening :: bool
  gdb_ctx_inuse :: bool
  gdb_dontwait_flag :: bool
  no_debugger_wait :: bool
  debug_cpu :: nat
  gdb_buf :: string
  gdb_out :: string
  console_key :: "nat option"
  console_out :: "u32 list"
  prof :: prof_data
  g_traceflags :: "nat \<Rightarrow> bool"
  tracing :: bool
  got_debugrequest :: bool
  meters :: "nat \<Rightarrow> meter_data option"
  host_random :: "nat \<Rightarrow> u32"
  random_pos :: nat
  host_jitter :: "u32 \<Rightarrow> u64 \<Rightarrow> u64"
  host_sys :: "syscall list \<Rightarrow> syscall \<Rightarrow> sys_answer"
  host_log :: "syscall list"
  fault_state :: "fault option"

section \<open>Static storage\<close>

text \<open>Static variables start out as zero; the three host functions are parameters.\<close>

definition zero_tlb :: "mipstlb" where
  "zero_tlb = \<lparr>
     mt_global = False, mt_valid = False, mt_dirty = False, mt_nocache = False, mt_pfn = 0,
     mt_vpn = 0, mt_pid = 0\<rparr>"

definition zero_cpu :: "mipscpu" where
  "zero_cpu = \<lparr>
     cpu_state = CPU_DISABLED, cpunum = 0, regs = (\<lambda>_. 0), lo_reg = 0, hi_reg = 0,
     lowait = 0, hiwait = 0, jumping = False, in_jumpdelay = False, expc = 0, pc = 0,
     nextpc = 0, pcoff = 0, nextpcoff = 0, pcpage = None, nextpcpage = None,
     tlb = (\<lambda>_. zero_tlb), tlbentry = zero_tlb, tlbindex = 0, tlbpf = False,
     tlbrandom = 0, old_usermode = False, old_irqon = False, prev_usermode = False,
     prev_irqon = False, current_usermode = False, current_irqon = False,
     status_hardmask_lb = 0, status_hardmask_ipi = 0, status_hardmask_fpu = 0,
     status_hardmask_void = 0, status_hardmask_timer = 0, status_softmask = 0,
     status_bootvectors = 0, status_copenable = 0, cause_bd = False, cause_ce = 0,
     cause_softirq = 0, cause_code = 0, ex_config0 = 0, ex_config1 = 0, ex_config2 = 0,
     ex_config3 = 0, ex_config4 = 0, ex_config5 = 0, ex_config6 = 0, ex_config7 = 0,
     ex_context = 0, ex_epc = 0, ex_vaddr = 0, ex_prid = 0, ex_cfeat = 0, ex_ifeat = 0,
     ex_count = 0, ex_compare = 0, ex_compare_used = False, irq_lamebus = False,
     irq_ipi = False, irq_timer = False, ll_active = False, ll_addr = 0, ll_value = 0,
     hit_breakpoint = False\<rparr>"

definition zero_lamebus_cpu :: "lamebus_cpu" where
  "zero_lamebus_cpu = \<lparr>
     cpu_enabled_flag = False, cpu_enabled_interrupts = 0, cpu_interrupting = False,
     cpu_ipi = False, cpu_cram = (\<lambda>_. 0)\<rparr>"

definition zero_percpu :: "stats_percpu" where
  "zero_percpu = \<lparr>
     sp_ucycles = 0, sp_kcycles = 0, sp_icycles = 0, sp_uretired = 0, sp_kretired = 0,
     sp_lls = 0, sp_okscs = 0, sp_badscs = 0, sp_syncs = 0\<rparr>"

definition zero_stats :: "stats" where
  "zero_stats = \<lparr>
     s_tot_rcycles = 0, s_tot_icycles = 0, s_percpu = (\<lambda>_. zero_percpu), s_irqs = 0,
     s_exns = 0, s_rsects = 0, s_wsects = 0, s_rchars = 0, s_wchars = 0,
     s_remu = 0, s_wemu = 0, s_memu = 0, s_rpkts = 0, s_wpkts = 0, s_dpkts = 0, s_epkts = 0\<rparr>"

definition zero_prof :: prof_data where
  "zero_prof = \<lparr>prof_textbase = 0, prof_textend = 0, prof_samplenum = 0, prof_sampledata = (\<lambda>_. 0),
     prof_cg = (\<lambda>_. []), prof_on = False, prof_active = False\<rparr>"

text \<open>A host on which every call fails.\<close>

definition no_answer :: sys_answer where
  "no_answer = \<lparr>sys_ret = -1, sys_errno = EOTHER, sys_data = [], sys_dev = 0, sys_ino = 0,
     sys_isdir = False, sys_size = 0\<rparr>"

definition zero_machine ::
  "(nat \<Rightarrow> u32) \<Rightarrow> (u32 \<Rightarrow> u64 \<Rightarrow> u64) \<Rightarrow> (syscall list \<Rightarrow> syscall \<Rightarrow> sys_answer) \<Rightarrow> machine" where
  "zero_machine rnd jit sys = \<lparr>
     mycpus = (\<lambda>_. zero_cpu), ncpus = 0, cpu_running_mask = 0, cpu_cycles_count = 0,
     cpu_cycling = False, bus_ramsize = 0, ram = (\<lambda>_. 0), bus_raised_interrupts = 0,
     bus_enabled_interrupts = 0, lb_cpus = (\<lambda>_. zero_lamebus_cpu), devices = (\<lambda>_. None),
     doom_counter = 0, virtual_now = 0, extra_selecttime = 0, start_secs = 0,
     start_nsecs = 0, progress = False, check_progress = False, progress_warned = False,
     progress_timeout = 0, progress_deadline = 0, idleslop = 0, ta_free = 0, event_queue = [],
     g_stats = zero_stats, shutoff_flag = False, stopped_in_debugger = False,
     stop_is_lethal = False, gdb_listening = False, gdb_ctx_inuse = False,
     gdb_dontwait_flag = False, no_debugger_wait = False, debug_cpu = 0, gdb_buf = [],
     gdb_out = [], console_key = None, console_out = [], prof = zero_prof, g_traceflags = (\<lambda>_. False),
     tracing = False, got_debugrequest = False, meters = (\<lambda>_. None), host_random = rnd,
     random_pos = 0, host_jitter = jit, host_sys = sys, host_log = [], fault_state = None\<rparr>"

end
