(* ===== verification/Control.thy ===== *)
theory Control
  imports Machine
begin

text \<open>
  The operations every other component calls to stop the machine: \<open>smoke\<close> and \<open>hang\<close>
  (\<open>main/console.c\<close>), the main loop's flags (\<open>main/main.c\<close>), \<open>cpu_stopcycling\<close>
  (\<open>mipseb/mips.c\<close>), and \<open>gdb_canhandle\<close> (\<open>gdb/gdb_fe.c\<close>). Also the access to one cpu of
  the array \<open>mycpus\<close> through its index.

  \<open>smoke\<close> does not return. A machine whose \<open>fault_state\<close> is set is one whose simulator
  process has stopped (or done something C gives no meaning to); the first fault is kept.
\<close>

section \<open>Faults\<close>

definition raise_fault :: "fault \<Rightarrow> machine \<Rightarrow> machine" where
  "raise_fault f m =
     m\<lparr>fault_state := (case fault_state m of None \<Rightarrow> Some f | Some g \<Rightarrow> Some g)\<rparr>"

definition smoke :: "machine \<Rightarrow> machine" where
  "smoke m = raise_fault Smoke m"

section \<open>One cpu\<close>

abbreviation mycpu :: "machine \<Rightarrow> nat \<Rightarrow> mipscpu" where
  "mycpu m cn \<equiv> mycpus m cn"

definition upd_cpu :: "nat \<Rightarrow> (mipscpu \<Rightarrow> mipscpu) \<Rightarrow> machine \<Rightarrow> machine" where
  "upd_cpu cn f m = m\<lparr>mycpus := (mycpus m)(cn := f (mycpus m cn))\<rparr>"

lemma mycpu_upd_cpu [simp]:
  "mycpus (upd_cpu cn f m) i = (if i = cn then f (mycpus m cn) else mycpus m i)"
  by (simp add: upd_cpu_def)

lemma upd_cpu_upd_cpu [simp]: "upd_cpu cn f (upd_cpu cn g m) = upd_cpu cn (\<lambda>c. f (g c)) m"
  by (simp add: upd_cpu_def)

lemma upd_cpu_cong:
  "cn = cn' \<Longrightarrow> f (mycpus m cn') = g (mycpus m cn') \<Longrightarrow> m = m' \<Longrightarrow>
    upd_cpu cn f m = upd_cpu cn' g m'"
  by (simp add: upd_cpu_def)

lemma upd_cpu_frame [simp]:
  "ncpus (upd_cpu cn f m) = ncpus m"
  "cpu_running_mask (upd_cpu cn f m) = cpu_running_mask m"
  "cpu_cycles_count (upd_cpu cn f m) = cpu_cycles_count m"
  "cpu_cycling (upd_cpu cn f m) = cpu_cycling m"
  "bus_ramsize (upd_cpu cn f m) = bus_ramsize m"
  "ram (upd_cpu cn f m) = ram m"
  "bus_raised_interrupts (upd_cpu cn f m) = bus_raised_interrupts m"
  "bus_enabled_interrupts (upd_cpu cn f m) = bus_enabled_interrupts m"
  "lb_cpus (upd_cpu cn f m) = lb_cpus m"
  "devices (upd_cpu cn f m) = devices m"
  "virtual_now (upd_cpu cn f m) = virtual_now m"
  "extra_selecttime (upd_cpu cn f m) = extra_selecttime m"
  "start_secs (upd_cpu cn f m) = start_secs m"
  "start_nsecs (upd_cpu cn f m) = start_nsecs m"
  "progress (upd_cpu cn f m) = progress m"
  "ta_free (upd_cpu cn f m) = ta_free m"
  "event_queue (upd_cpu cn f m) = event_queue m"
  "g_stats (upd_cpu cn f m) = g_stats m"
  "stopped_in_debugger (upd_cpu cn f m) = stopped_in_debugger m"
  "stop_is_lethal (upd_cpu cn f m) = stop_is_lethal m"
  "shutoff_flag (upd_cpu cn f m) = shutoff_flag m"
  "console_out (upd_cpu cn f m) = console_out m"
  "gdb_listening (upd_cpu cn f m) = gdb_listening m"
  "gdb_ctx_inuse (upd_cpu cn f m) = gdb_ctx_inuse m"
  "gdb_dontwait_flag (upd_cpu cn f m) = gdb_dontwait_flag m"
  "fault_state (upd_cpu cn f m) = fault_state m"
  by (simp_all add: upd_cpu_def)

section \<open>Stopping and hanging\<close>

definition cpu_stopcycling :: "machine \<Rightarrow> machine" where
  "cpu_stopcycling m = m\<lparr>cpu_cycling := False\<rparr>"

definition main_poweroff :: "machine \<Rightarrow> machine" where
  "main_poweroff m = m\<lparr>shutoff_flag := True\<rparr>"

definition main_enter_debugger :: "bool \<Rightarrow> machine \<Rightarrow> machine" where
  "main_enter_debugger lethal m = m\<lparr>stopped_in_debugger := True, stop_is_lethal := lethal\<rparr>"

definition main_leave_debugger :: "machine \<Rightarrow> machine" where
  "main_leave_debugger m = m\<lparr>stopped_in_debugger := False, stop_is_lethal := False\<rparr>"

definition hang :: "machine \<Rightarrow> machine" where
  "hang m = main_enter_debugger True (cpu_stopcycling m)"

lemma hang_simps [simp]:
  "cpu_cycling (hang m) = False"
  "stopped_in_debugger (hang m) = True"
  "stop_is_lethal (hang m) = True"
  "mycpus (hang m) = mycpus m"
  "ncpus (hang m) = ncpus m"
  "cpu_running_mask (hang m) = cpu_running_mask m"
  "bus_ramsize (hang m) = bus_ramsize m"
  "ram (hang m) = ram m"
  "bus_raised_interrupts (hang m) = bus_raised_interrupts m"
  "bus_enabled_interrupts (hang m) = bus_enabled_interrupts m"
  "lb_cpus (hang m) = lb_cpus m"
  "devices (hang m) = devices m"
  "event_queue (hang m) = event_queue m"
  "ta_free (hang m) = ta_free m"
  "virtual_now (hang m) = virtual_now m"
  "g_stats (hang m) = g_stats m"
  "fault_state (hang m) = fault_state m"
  by (simp_all add: hang_def main_enter_debugger_def cpu_stopcycling_def)

lemma hang_hang [simp]: "hang (hang m) = hang m"
  by (simp add: hang_def main_enter_debugger_def cpu_stopcycling_def)

section \<open>Counters\<close>

definition upd_stats :: "(stats \<Rightarrow> stats) \<Rightarrow> machine \<Rightarrow> machine" where
  "upd_stats f m = m\<lparr>g_stats := f (g_stats m)\<rparr>"

definition upd_percpu :: "nat \<Rightarrow> (stats_percpu \<Rightarrow> stats_percpu) \<Rightarrow> machine \<Rightarrow> machine" where
  "upd_percpu cn f m =
     upd_stats (\<lambda>s. s\<lparr>s_percpu := (s_percpu s)(cn := f (s_percpu s cn))\<rparr>) m"

section \<open>Breakpoints the debugger can take\<close>

definition KSEG0 :: u32 where "KSEG0 = 0x80000000"
definition KSEG1 :: u32 where "KSEG1 = 0xa0000000"
definition KSEG2 :: u32 where "KSEG2 = 0xc0000000"

definition cpudebug_get_bp_region :: "u32 \<times> u32" where
  "cpudebug_get_bp_region = (KSEG0, KSEG2)"

definition gdb_canhandle :: "u32 \<Rightarrow> machine \<Rightarrow> bool" where
  "gdb_canhandle pcaddr m =
     (if \<not> gdb_listening m then False
      else if \<not> gdb_ctx_inuse m \<and> gdb_dontwait_flag m then False
      else fst cpudebug_get_bp_region \<le> pcaddr \<and> pcaddr < snd cpudebug_get_bp_region)"

end
