(* ===== verification/Memory.thy ===== *)
theory Memory
  imports Machine
begin

text \<open>
  Physical memory: byte swapping (\<open>include/bswap.h\<close>, built for a little-endian host and the
  big-endian MIPS), the accessors of \<open>include/inlinemem.h\<close> over \<open>ram\<close>, and the boot ROM of
  \<open>mipseb/bootrom.c\<close>. The locale \<open>word_store\<close> is the contract of a word-addressed store:
  what a fetch returns after a store, at the same word and at any other. RAM provides it here,
  the disk's transfer buffer in \<open>Disk_Dev\<close>.
\<close>

section \<open>The bus protocol\<close>

text \<open>What a device's fetch gives back: a value and 0; 0, with the caller's variable not
  written; or the error return.\<close>

datatype fetched = Fetched u32 | Not_written | Bus_error

section \<open>Byte swapping\<close>

definition bswap16 :: "u16 \<Rightarrow> u16" where
  "bswap16 x = push_bit 8 (x AND 0xff) OR drop_bit 8 x"

definition bswap32 :: "u32 \<Rightarrow> u32" where
  "bswap32 x =
     push_bit 16 (ucast (bswap16 (ucast (x AND 0xffff)))) OR ucast (bswap16 (ucast (drop_bit 16 x)))"

definition ctoh32 :: "u32 \<Rightarrow> u32" where
  "ctoh32 x = bswap32 x"

definition htoc32 :: "u32 \<Rightarrow> u32" where
  "htoc32 x = bswap32 x"

lemma bit_bswap16:
  "bit (bswap16 x) n \<longleftrightarrow>
     (if n < 8 then bit x (n + 8) else n < 16 \<and> bit x (n - 8))"
  unfolding bswap16_def bit_ops by (auto simp: add.commute dest: bit_imp_le_length)

lemma bit_bswap32:
  "bit (bswap32 x) n \<longleftrightarrow>
     (if n < 8 then bit x (n + 24) else if n < 16 then bit x (n + 8)
      else if n < 24 then bit x (n - 8) else n < 32 \<and> bit x (n - 24))"
  unfolding bswap32_def bit_ops bit_bswap16
  by (auto simp: add.commute dest: bit_imp_le_length)

lemma bswap32_bswap32 [simp]: "bswap32 (bswap32 x) = x"
  by (rule bit_word_eqI) (auto simp: bit_bswap32)

lemma ctoh32_htoc32 [simp]: "ctoh32 (htoc32 x) = x"
  by (simp add: ctoh32_def htoc32_def)

section \<open>Words in a byte memory\<close>

text \<open>What the host's \<open>*(uint32_t * )ptr\<close> reads and writes on a little-endian machine.\<close>

definition host_load32 :: "(u32 \<Rightarrow> u8) \<Rightarrow> u32 \<Rightarrow> u32" where
  "host_load32 b a =
     ucast (b a) OR push_bit 8 (ucast (b (a + 1))) OR push_bit 16 (ucast (b (a + 2)))
       OR push_bit 24 (ucast (b (a + 3)))"

definition host_store32 :: "(u32 \<Rightarrow> u8) \<Rightarrow> u32 \<Rightarrow> u32 \<Rightarrow> (u32 \<Rightarrow> u8)" where
  "host_store32 b a v =
     b(a := ucast v, a + 1 := ucast (drop_bit 8 v), a + 2 := ucast (drop_bit 16 v),
       a + 3 := ucast (drop_bit 24 v))"

lemma bit_host_load32:
  "bit (host_load32 b a) n \<longleftrightarrow>
     (if n < 8 then bit (b a) n else if n < 16 then bit (b (a + 1)) (n - 8)
      else if n < 24 then bit (b (a + 2)) (n - 16) else n < 32 \<and> bit (b (a + 3)) (n - 24))"
  unfolding host_load32_def bit_ops
  by (auto dest: bit_imp_le_length)

lemma host_load32_store32 [simp]: "host_load32 (host_store32 b a v) a = v"
  by (rule bit_word_eqI)
    (auto simp: bit_host_load32 host_store32_def bit_ops not_less)

lemma aligned_offset:
  fixes a i :: u32
  assumes "a AND 3 = 0" "i = 0 \<or> i = 1 \<or> i = 2 \<or> i = 3"
  shows "(a + i) AND NOT 3 = a"
proof -
  have i: "3 AND i = i" "i AND NOT 3 = 0" using assms(2) by auto
  have "a AND i = (a AND 3) AND i" by (simp only: and.assoc i)
  then have "a AND i = 0" by (simp only: assms(1)) simp
  then have "(a + i) AND NOT 3 = (a AND NOT 3) OR (i AND NOT 3)"
    by (simp only: disjunctive_add_eq_or bit.conj_disj_distrib2)
  also have "a AND NOT 3 = a"
  proof -
    from and_or_split [of a 3] have "0 OR (a AND NOT 3) = a" by (simp only: assms(1))
    then show ?thesis by simp
  qed
  finally show ?thesis by (simp only: i) simp
qed

text \<open>An address is its word and the place in it.\<close>

lemma and3_cases:
  fixes a :: u32
  obtains "a AND 3 = 0" | "a AND 3 = 1" | "a AND 3 = 2" | "a AND 3 = 3"
proof -
  have "unat (a AND mask 2) < 4" by (simp only: unat_and_mask) simp
  then have "unat (a AND 3) = 0 \<or> unat (a AND 3) = 1 \<or> unat (a AND 3) = 2 \<or> unat (a AND 3) = 3"
    by (simp add: mask_eq_exp_minus_1) arith
  then show ?thesis using that by (auto simp: word_unat_eq_iff)
qed

lemma not_3: "(0xfffffffc :: u32) = NOT 3"
  by simp

lemma align_and [simp]:
  "(a AND 0xfffffffc) AND 3 = (0::u32)" "(a AND 0xfffffffc) AND 0xfffffffc = (a AND 0xfffffffc :: u32)"
  by (simp_all add: and.assoc)

lemma align_split: "a = (a AND 0xfffffffc) + (a AND 3 :: u32)"
proof -
  have "(a AND 0xfffffffc) + (a AND 3) = (a AND 0xfffffffc) OR (a AND 3)"
    by (rule disjunctive_add_eq_or) (metis align_and(1) and.assoc and.commute and_zero_eq)
  also have "\<dots> = a"
    by (simp only: not_3 and_or_split or.commute)
  finally show ?thesis by simp
qed

lemma aligned_low:
  fixes b i :: u32
  assumes "b AND 3 = 0" "i = 0 \<or> i = 1 \<or> i = 2 \<or> i = 3"
  shows "(b + i) AND 0xfffffffc = b" "(b + i) AND 3 = i"
proof -
  show 1: "(b + i) AND 0xfffffffc = b" using aligned_offset [OF assms] by (simp only: not_3)
  show "(b + i) AND 3 = i" using align_split [of "b + i"] by (simp add: 1)
qed

lemma aligned_apart:
  fixes a b i j :: u32
  assumes "a AND 3 = 0" "b AND 3 = 0" "a \<noteq> b"
    and "i = 0 \<or> i = 1 \<or> i = 2 \<or> i = 3" "j = 0 \<or> j = 1 \<or> j = 2 \<or> j = 3"
  shows "a + i \<noteq> b + j"
  using aligned_offset [OF assms(1,4)] aligned_offset [OF assms(2,5)] assms(3) by metis

lemma host_load32_store32_other:
  assumes "a AND 3 = 0" "b AND 3 = 0" "a \<noteq> b"
  shows "host_load32 (host_store32 m a v) b = host_load32 m b"
proof -
  note ap = aligned_apart [OF assms]
  have o0: "b \<noteq> a" "b \<noteq> a + 1" "b \<noteq> a + 2" "b \<noteq> a + 3"
    using ap [of 0 0] ap [of 1 0] ap [of 2 0] ap [of 3 0] by simp_all
  have o1: "b + 1 \<noteq> a" "b + 1 \<noteq> a + 1" "b + 1 \<noteq> a + 2" "b + 1 \<noteq> a + 3"
    using ap [of 0 1] ap [of 1 1] ap [of 2 1] ap [of 3 1] by simp_all
  have o2: "b + 2 \<noteq> a" "b + 2 \<noteq> a + 1" "b + 2 \<noteq> a + 2" "b + 2 \<noteq> a + 3"
    using ap [of 0 2] ap [of 1 2] ap [of 2 2] ap [of 3 2] by simp_all
  have o3: "b + 3 \<noteq> a" "b + 3 \<noteq> a + 1" "b + 3 \<noteq> a + 2" "b + 3 \<noteq> a + 3"
    using ap [of 0 3] ap [of 1 3] ap [of 2 3] ap [of 3 3] by simp_all
  show ?thesis by (simp add: host_load32_def host_store32_def o0 o1 o2 o3)
qed

section \<open>RAM\<close>

text \<open>The accessors of \<open>inlinemem.h\<close>; \<open>None\<close> is the error return.\<close>

definition bus_mem_fetch :: "machine \<Rightarrow> u32 \<Rightarrow> u32 option" where
  "bus_mem_fetch m offset =
     (if offset \<ge> bus_ramsize m then None
      else Some (ctoh32 (host_load32 (ram m) offset)))"

definition bus_mem_fetchbyte :: "machine \<Rightarrow> u32 \<Rightarrow> u8 option" where
  "bus_mem_fetchbyte m offset =
     (if offset \<ge> bus_ramsize m then None else Some (ram m offset))"

definition bus_mem_store :: "u32 \<Rightarrow> u32 \<Rightarrow> machine \<Rightarrow> machine option" where
  "bus_mem_store offset val m =
     (if offset \<ge> bus_ramsize m then None
      else Some (m\<lparr>ram := host_store32 (ram m) offset (htoc32 val)\<rparr>))"

definition bus_mem_storebyte :: "u32 \<Rightarrow> u8 \<Rightarrow> machine \<Rightarrow> machine option" where
  "bus_mem_storebyte offset val m =
     (if offset \<ge> bus_ramsize m then None
      else Some (m\<lparr>ram := (ram m)(offset := val)\<rparr>))"

definition bus_mem_map :: "machine \<Rightarrow> u32 \<Rightarrow> page option" where
  "bus_mem_map m offset = (if offset \<ge> bus_ramsize m then None else Some (Ram_page offset))"

section \<open>The boot ROM\<close>

definition ROMWORDS :: nat where
  "ROMWORDS = 1024"

text \<open>\<open>fakerom\<close>: no-ops, and a \<open>BREAK\<close> in the last word.\<close>

definition fakerom :: "nat \<Rightarrow> u32" where
  "fakerom i = (if i = 1023 then 0x0d000000 else 0)"

definition bootrom_fetch :: "u32 \<Rightarrow> u32 option" where
  "bootrom_fetch offset =
     (if offset \<ge> of_nat (ROMWORDS * 4) then None
      else Some (ctoh32 (fakerom (unat offset div 4))))"

definition bootrom_map :: "u32 \<Rightarrow> page option" where
  "bootrom_map offset =
     (if offset \<ge> of_nat (ROMWORDS * 4) then None
      else Some (Rom_page (of_nat (4 * (unat offset div 4)))))"

text \<open>\<open>bus_use_map\<close>: the word at an offset into a mapped page. A page pointer into RAM is
  not a copy: it sees later stores. Dereferencing \<open>NULL\<close> has no value here; the callers that
  may hold \<open>NULL\<close> say so themselves.\<close>

fun bus_use_map :: "machine \<Rightarrow> page \<Rightarrow> u32 \<Rightarrow> u32" where
  "bus_use_map m (Ram_page base) pageoffset =
     ctoh32 (host_load32 (ram m) (base + (pageoffset AND NOT 3)))"
| "bus_use_map m (Rom_page base) pageoffset =
     ctoh32 (fakerom (unat base div 4 + unat pageoffset div 4))"

section \<open>The contract of a word store\<close>

text \<open>
  A component that serves 32-bit words at 4-byte aligned addresses. \<open>fetch\<close> returns \<open>None\<close>
  for an address it does not serve, \<open>store\<close> likewise.
\<close>

locale word_store =
  fixes fetch :: "'m \<Rightarrow> u32 \<Rightarrow> u32 option"
    and store :: "u32 \<Rightarrow> u32 \<Rightarrow> 'm \<Rightarrow> 'm option"
  assumes store_defined: "store a v m = None \<longleftrightarrow> fetch m a = None"
    and fetch_store: "store a v m = Some m' \<Longrightarrow> fetch m' a = Some v"
    and fetch_other: "store a v m = Some m' \<Longrightarrow> a AND 3 = 0 \<Longrightarrow> b AND 3 = 0 \<Longrightarrow> a \<noteq> b \<Longrightarrow>
      fetch m' b = fetch m b"
begin

lemma store_ok: "fetch m a = Some w \<Longrightarrow> \<exists>m'. store a v m = Some m'"
  using store_defined [of a v m] by (cases "store a v m") auto

text \<open>Storing twice at one address: the last one counts, whatever came between it and the
  fetch at other addresses.\<close>

lemma store_store:
  assumes "store a v m = Some m1" "store b w m1 = Some m2" "a AND 3 = 0" "b AND 3 = 0"
  shows "fetch m2 a = Some (if a = b then w else v)"
  using assms fetch_store [of a v m m1] fetch_store [of b w m1 m2] fetch_other [of b w m1 m2 a]
  by (cases "a = b") auto

text \<open>Read, replace the bits under a mask, write back: what a sub-word store does.\<close>

lemma masked_update:
  assumes "fetch m a = Some w" "store a ((w AND NOT msk) OR (v AND msk)) m = Some m'"
  obtains w' where "fetch m' a = Some w'" "w' AND msk = v AND msk"
    "w' AND NOT msk = w AND NOT msk"
  using fetch_store [OF assms(2)] and_mask_or_cancel [of w msk v]
    and_not_mask_or_cancel [of w msk v] by blast

end

interpretation ram_store: word_store bus_mem_fetch bus_mem_store
proof
  show "bus_mem_store a v m = None \<longleftrightarrow> bus_mem_fetch m a = None" for a v m
    by (simp add: bus_mem_store_def bus_mem_fetch_def)
  show "bus_mem_fetch m' a = Some v" if "bus_mem_store a v m = Some m'" for a v m m'
    using that by (auto simp: bus_mem_store_def bus_mem_fetch_def split: if_splits)
  show "bus_mem_fetch m' b = bus_mem_fetch m b"
    if "bus_mem_store a v m = Some m'" "a AND 3 = 0" "b AND 3 = 0" "a \<noteq> b" for a v m m' b
    using that
    by (auto simp: bus_mem_store_def bus_mem_fetch_def host_load32_store32_other split: if_splits)
qed

lemma bus_mem_store_frame:
  assumes "bus_mem_store offset val m = Some m'"
  shows "m' = m\<lparr>ram := ram m'\<rparr>"
  using assms by (auto simp: bus_mem_store_def split: if_splits)

end
