(* ===== verification/Mips_Tlb.thy ===== *)
theory Mips_Tlb
  imports Control Memory
begin

text \<open>
  The TLB of the MIPS-161: the entry format, lookup, the duplicate check and the reset value
  (\<open>mipseb/mips.c\<close> and the first functions of \<open>mipseb/mipscore.h\<close>). A cpu has \<open>NTLB\<close> entries
  and one staging entry \<open>tlbentry\<close>, the cop0 registers \<open>TLBLO\<close> and \<open>TLBHI\<close>.
\<close>

definition NTLB :: nat where "NTLB = 64"

definition TLBLO_GLOBAL :: u32 where "TLBLO_GLOBAL = 0x00000100"
definition TLBLO_VALID :: u32 where "TLBLO_VALID = 0x00000200"
definition TLBLO_DIRTY :: u32 where "TLBLO_DIRTY = 0x00000400"
definition TLBLO_NOCACHE :: u32 where "TLBLO_NOCACHE = 0x00000800"
definition TLBHI_PID :: u32 where "TLBHI_PID = 0x00000fc0"
definition TLB_PAGEFRAME :: u32 where "TLB_PAGEFRAME = 0xfffff000"

lemmas tlb_fields =
  TLBLO_GLOBAL_def TLBLO_VALID_def TLBLO_DIRTY_def TLBLO_NOCACHE_def TLBHI_PID_def
  TLB_PAGEFRAME_def

section \<open>Entries\<close>

definition reset_tlbentry :: "nat \<Rightarrow> mipstlb" where
  "reset_tlbentry index =
     \<lparr>mt_global = False, mt_valid = False, mt_dirty = False, mt_nocache = False, mt_pfn = 0,
      mt_vpn = 0x81000000 + of_nat (index * 0x1000), mt_pid = 0\<rparr>"

definition tlbgetlo :: "mipstlb \<Rightarrow> u32" where
  "tlbgetlo mt =
     (let val = mt_pfn mt;
          val = (if mt_global mt then val OR TLBLO_GLOBAL else val);
          val = (if mt_valid mt then val OR TLBLO_VALID else val);
          val = (if mt_dirty mt then val OR TLBLO_DIRTY else val);
          val = (if mt_nocache mt then val OR TLBLO_NOCACHE else val)
      in val)"

definition tlbgethi :: "mipstlb \<Rightarrow> u32" where
  "tlbgethi mt = mt_vpn mt OR push_bit 6 (mt_pid mt)"

definition tlbsetlo :: "u32 \<Rightarrow> mipstlb \<Rightarrow> mipstlb" where
  "tlbsetlo val mt = mt\<lparr>
     mt_global := val AND TLBLO_GLOBAL \<noteq> 0,
     mt_valid := val AND TLBLO_VALID \<noteq> 0,
     mt_dirty := val AND TLBLO_DIRTY \<noteq> 0,
     mt_nocache := val AND TLBLO_NOCACHE \<noteq> 0,
     mt_pfn := val AND TLB_PAGEFRAME\<rparr>"

definition tlbsethi :: "u32 \<Rightarrow> mipstlb \<Rightarrow> mipstlb" where
  "tlbsethi val mt = mt\<lparr>
     mt_vpn := val AND TLB_PAGEFRAME,
     mt_pid := drop_bit 6 (val AND TLBHI_PID)\<rparr>"

section \<open>Lookup\<close>

text \<open>The test of one iteration of the loop in \<open>findtlb\<close>.\<close>

definition tlb_match :: "mipscpu \<Rightarrow> u32 \<Rightarrow> nat \<Rightarrow> bool" where
  "tlb_match c vpage i \<longleftrightarrow>
     mt_vpn (tlb c i) = vpage \<and> (mt_pid (tlb c i) = mt_pid (tlbentry c) \<or> mt_global (tlb c i))"

definition findtlb :: "mipscpu \<Rightarrow> u32 \<Rightarrow> nat option" where
  "findtlb c vpage = find (tlb_match c vpage) [0..<NTLB]"

definition probetlb :: "nat \<Rightarrow> machine \<Rightarrow> machine" where
  "probetlb cn m =
     (let vpage = mt_vpn (tlbentry (mycpu m cn)) in
      case findtlb (mycpu m cn) vpage of
        None \<Rightarrow> upd_cpu cn (\<lambda>c. c\<lparr>tlbpf := True\<rparr>) m
      | Some ix \<Rightarrow> upd_cpu cn (\<lambda>c. c\<lparr>tlbindex := ix, tlbpf := False\<rparr>) m)"

section \<open>Duplicates\<close>

text \<open>One iteration of \<open>check_tlb_dups\<close>: would entry \<open>i\<close> and the new entry ever match at
  once?\<close>

definition tlb_conflict :: "mipscpu \<Rightarrow> nat \<Rightarrow> nat \<Rightarrow> bool" where
  "tlb_conflict c newix i \<longleftrightarrow>
     i \<noteq> newix \<and> mt_vpn (tlb c newix) = mt_vpn (tlb c i) \<and>
     (mt_global (tlb c newix) \<or> mt_global (tlb c i) \<or> mt_pid (tlb c newix) = mt_pid (tlb c i))"

definition check_tlb_dups :: "nat \<Rightarrow> nat \<Rightarrow> machine \<Rightarrow> machine" where
  "check_tlb_dups cn newix m =
     fold (\<lambda>i m. if tlb_conflict (mycpu m cn) newix i then hang m else m) [0..<NTLB] m"

section \<open>Lemmas\<close>

lemma findtlb_Some:
  "findtlb c vpage = Some i \<Longrightarrow> i < NTLB \<and> tlb_match c vpage i \<and> (\<forall>j<i. \<not> tlb_match c vpage j)"
  by (auto simp: findtlb_def find_Some_iff)

lemma findtlb_None: "findtlb c vpage = None \<longleftrightarrow> (\<forall>i<NTLB. \<not> tlb_match c vpage i)"
  by (auto simp: findtlb_def find_None_iff)

lemma findtlb_cong:
  "tlb c' = tlb c \<Longrightarrow> mt_pid (tlbentry c') = mt_pid (tlbentry c) \<Longrightarrow> findtlb c' v = findtlb c v"
  by (simp add: findtlb_def tlb_match_def [abs_def])

lemma fold_hang:
  assumes "\<And>m. P (hang m) = P m"
  shows "fold (\<lambda>i m. if P m i then hang m else m) xs m =
     (if \<exists>i\<in>set xs. P m i then hang m else m)"
  by (induction xs arbitrary: m) (auto simp: assms)

lemma check_tlb_dups_eq:
  "check_tlb_dups cn newix m =
     (if \<exists>i<NTLB. tlb_conflict (mycpu m cn) newix i then hang m else m)"
  unfolding check_tlb_dups_def by (subst fold_hang) auto

text \<open>A TLB without conflicts: no lookup can match two entries.\<close>

definition tlb_wf :: "mipscpu \<Rightarrow> bool" where
  "tlb_wf c \<longleftrightarrow> (\<forall>i<NTLB. \<forall>j<NTLB. \<not> tlb_conflict c i j)"

lemma tlb_wf_unique:
  assumes "tlb_wf c" "i < NTLB" "j < NTLB" "tlb_match c v i" "tlb_match c v j"
  shows "i = j"
proof (rule ccontr)
  assume "i \<noteq> j"
  with assms(4,5) have "tlb_conflict c i j" by (auto simp: tlb_match_def tlb_conflict_def)
  with assms(1-3) show False by (auto simp: tlb_wf_def)
qed

lemma findtlb_wf:
  assumes "tlb_wf c"
  shows "findtlb c v = Some i \<longleftrightarrow> i < NTLB \<and> tlb_match c v i"
proof
  assume "findtlb c v = Some i"
  then show "i < NTLB \<and> tlb_match c v i" using findtlb_Some by blast
next
  assume i: "i < NTLB \<and> tlb_match c v i"
  then obtain j where j: "findtlb c v = Some j" using findtlb_None [of c v] by (cases "findtlb c v") auto
  with i show "findtlb c v = Some i" using tlb_wf_unique [OF assms] findtlb_Some [OF j] by auto
qed

text \<open>Writing one entry keeps the TLB free of conflicts exactly when the check passes.\<close>

lemma tlb_wf_write:
  assumes "tlb_wf c" "ix < NTLB"
  shows "tlb_wf (c\<lparr>tlb := (tlb c)(ix := e)\<rparr>) \<longleftrightarrow>
    \<not> (\<exists>i<NTLB. tlb_conflict (c\<lparr>tlb := (tlb c)(ix := e)\<rparr>) ix i)"
  using assms by (auto simp: tlb_wf_def tlb_conflict_def)

text \<open>The reset entries are pairwise different pages, all in the direct-mapped segment.\<close>

lemma reset_vpn_inj:
  assumes "i < 128" "j < 128" "mt_vpn (reset_tlbentry i) = mt_vpn (reset_tlbentry j)"
  shows "i = j"
proof -
  have "unat (of_nat (i * 0x1000) :: u32) = unat (of_nat (j * 0x1000) :: u32)"
    using assms(3) by (simp add: reset_tlbentry_def)
  with assms(1,2) show ?thesis by (simp only: unat_of_nat) simp
qed

lemma tlb_wf_reset:
  assumes "\<And>i. i < NTLB \<Longrightarrow> tlb c i = reset_tlbentry i"
  shows "tlb_wf c"
  using assms reset_vpn_inj by (fastforce simp: tlb_wf_def tlb_conflict_def NTLB_def)

text \<open>Reading back what was written to the two halves of the staging entry.\<close>

lemma tlbgetlo_flags:
  "tlbgetlo mt =
     mt_pfn mt OR (if mt_global mt then 0x100 else 0) OR (if mt_valid mt then 0x200 else 0)
       OR (if mt_dirty mt then 0x400 else 0) OR (if mt_nocache mt then 0x800 else 0)"
  by (simp add: tlbgetlo_def tlb_fields Let_def or.assoc)

lemma flag_and: "(if (v::u32) AND 2 ^ k \<noteq> 0 then 2 ^ k else 0) = v AND 2 ^ k"
  by (rule bit_word_eqI) (auto simp: bit_simps)

lemma tlbgetlo_tlbsetlo: "tlbgetlo (tlbsetlo v mt) = v AND 0xffffff00"
proof -
  have "tlbgetlo (tlbsetlo v mt) =
      (v AND 0xfffff000) OR (v AND 0x100) OR (v AND 0x200) OR (v AND 0x400) OR (v AND 0x800)"
    using flag_and [of v 8] flag_and [of v 9] flag_and [of v 10] flag_and [of v 11]
    by (simp add: tlbgetlo_flags tlbsetlo_def tlb_fields cong: if_cong)
  also have "\<dots> = v AND (0xfffff000 OR 0x100 OR 0x200 OR 0x400 OR 0x800)"
    by (simp only: bit.conj_disj_distrib)
  finally show ?thesis by simp
qed

lemma tlbgethi_tlbsethi: "tlbgethi (tlbsethi v mt) = v AND 0xffffffc0"
proof -
  have "push_bit 6 (drop_bit 6 (v AND 0xfc0)) = v AND (0xfc0 :: u32)"
    by (rule bit_word_eqI) (auto simp: bit_simps)
  then have "tlbgethi (tlbsethi v mt) = (v AND 0xfffff000) OR (v AND 0xfc0)"
    by (simp add: tlbgethi_def tlbsethi_def tlb_fields)
  also have "\<dots> = v AND (0xfffff000 OR 0xfc0)" by (simp only: bit.conj_disj_distrib)
  finally show ?thesis by simp
qed

end
