(* ===== verification/Mips_Exn.thy ===== *)
theory Mips_Exn
  imports Mips_Tlb
begin

text \<open>
  Address translation and exceptions of the MIPS-161 (\<open>mipseb/mipscore.h\<close>): the hardwired
  segments, the TLB path, exception entry, return from exception, and the cached translations
  of the two program counters.

  In the C, \<open>exception\<close> calls \<open>precompute_pc\<close>, which calls \<open>translatemem\<close>, which may call
  \<open>exception\<close>. Here \<open>translatemem_with\<close>, \<open>precompute_pc_with\<close> and \<open>precompute_nextpc_with\<close>
  take the exception handler as an argument and \<open>exception_f\<close> ties the knot with fuel; out of
  fuel is the fault \<open>No_return\<close>. The lemmas below show that one level is enough whenever the page
  of the exception vector exists, and that no fuel is enough otherwise.
\<close>

section \<open>Exception codes\<close>

definition EX_IRQ :: u32 where "EX_IRQ = 0"
definition EX_MOD :: u32 where "EX_MOD = 1"
definition EX_TLBL :: u32 where "EX_TLBL = 2"
definition EX_TLBS :: u32 where "EX_TLBS = 3"
definition EX_ADEL :: u32 where "EX_ADEL = 4"
definition EX_ADES :: u32 where "EX_ADES = 5"
definition EX_IBE :: u32 where "EX_IBE = 6"
definition EX_DBE :: u32 where "EX_DBE = 7"
definition EX_SYS :: u32 where "EX_SYS = 8"
definition EX_BP :: u32 where "EX_BP = 9"
definition EX_RI :: u32 where "EX_RI = 10"
definition EX_CPU :: u32 where "EX_CPU = 11"
definition EX_OVF :: u32 where "EX_OVF = 12"

lemmas EX_defs =
  EX_IRQ_def EX_MOD_def EX_TLBL_def EX_TLBS_def EX_ADEL_def EX_ADES_def EX_IBE_def EX_DBE_def
  EX_SYS_def EX_BP_def EX_RI_def EX_CPU_def EX_OVF_def

section \<open>Translation\<close>

text \<open>\<open>mapmem\<close>: the page of physical memory an instruction fetch may use.\<close>

definition mapmem :: "machine \<Rightarrow> u32 \<Rightarrow> page option" where
  "mapmem m paddr0 =
     (let paddr = paddr0 AND 0xfffff000 in
      if paddr < 0x1fc00000 then bus_mem_map m paddr
      else if paddr < 0x1fe00000 then bootrom_map (paddr - 0x1fc00000)
      else if paddr < 0x20000000 then None
      else bus_mem_map m (paddr - 0x00400000))"

text \<open>The result is the machine and, if the function returned 0, the physical address.\<close>

definition translatemem_with ::
  "(u32 \<Rightarrow> u32 \<Rightarrow> u32 \<Rightarrow> machine \<Rightarrow> machine) \<Rightarrow> nat \<Rightarrow> u32 \<Rightarrow> bool \<Rightarrow> machine \<Rightarrow>
   machine \<times> u32 option" where
  "translatemem_with exc cn vaddr iswrite m =
     (let seg = drop_bit 30 vaddr in
      if (vaddr \<ge> 0x80000000 \<and> current_usermode (mycpu m cn)) \<or> vaddr AND 3 \<noteq> 0 then
        (exc (if iswrite then EX_ADES else EX_ADEL) 0 vaddr m, None)
      else if seg = 2 then (m, Some (vaddr AND 0x1fffffff))
      else
        let vpage = vaddr AND 0xfffff000;
            off = vaddr AND 0x00000fff;
            m1 = upd_cpu cn (\<lambda>c. c\<lparr>tlbentry := (tlbentry c)\<lparr>mt_vpn := vpage\<rparr>\<rparr>) m;
            miss = (if iswrite then EX_TLBS else EX_TLBL)
        in case findtlb (mycpu m1 cn) vpage of
             None \<Rightarrow> (exc miss (if vaddr < 0x80000000 then 1 else 0) vaddr m1, None)
           | Some ix \<Rightarrow>
               let e = tlb (mycpu m1 cn) ix in
               if \<not> mt_valid e then (exc miss 0 vaddr m1, None)
               else if iswrite \<and> \<not> mt_dirty e then (exc EX_MOD 0 vaddr m1, None)
               else (m1, Some (mt_pfn e OR off)))"

definition debug_translatemem :: "mipscpu \<Rightarrow> u32 \<Rightarrow> bool \<Rightarrow> u32 option" where
  "debug_translatemem c vaddr iswrite =
     (if vaddr AND 3 \<noteq> 0 then None
      else if drop_bit 30 vaddr = 2 then Some (vaddr AND 0x1fffffff)
      else
        let vpage = vaddr AND 0xfffff000;
            off = vaddr AND 0x00000fff
        in case findtlb c vpage of
             None \<Rightarrow> None
           | Some ix \<Rightarrow>
               let e = tlb c ix in
               if \<not> mt_valid e then None
               else if iswrite \<and> \<not> mt_dirty e then None
               else Some (mt_pfn e OR off))"

text \<open>The flag is true when the function returned 0.\<close>

definition precompute_pc_with ::
  "(u32 \<Rightarrow> u32 \<Rightarrow> u32 \<Rightarrow> machine \<Rightarrow> machine) \<Rightarrow> nat \<Rightarrow> machine \<Rightarrow> machine \<times> bool" where
  "precompute_pc_with exc cn m =
     (case translatemem_with exc cn (pc (mycpu m cn)) False m of
        (m1, None) \<Rightarrow> (m1, False)
      | (m1, Some physpc) \<Rightarrow>
          let m2 = upd_cpu cn (\<lambda>c. c\<lparr>pcpage := mapmem m1 physpc\<rparr>) m1 in
          if pcpage (mycpu m2 cn) = None then
            let m3 = exc EX_IBE 0 0 m2 in
            (if pcpage (mycpu m3 cn) = None then smoke m3 else m3, False)
          else (upd_cpu cn (\<lambda>c. c\<lparr>pcoff := physpc AND 0xfff\<rparr>) m2, True))"

definition precompute_nextpc_with ::
  "(u32 \<Rightarrow> u32 \<Rightarrow> u32 \<Rightarrow> machine \<Rightarrow> machine) \<Rightarrow> nat \<Rightarrow> machine \<Rightarrow> machine \<times> bool" where
  "precompute_nextpc_with exc cn m =
     (case translatemem_with exc cn (nextpc (mycpu m cn)) False m of
        (m1, None) \<Rightarrow> (m1, False)
      | (m1, Some physnext) \<Rightarrow>
          let m2 = upd_cpu cn (\<lambda>c. c\<lparr>nextpcpage := mapmem m1 physnext\<rparr>) m1 in
          if nextpcpage (mycpu m2 cn) = None then
            let m3 = exc EX_IBE 0 0 m2 in
            (if nextpcpage (mycpu m3 cn) = None then smoke m3 else m3, False)
          else (upd_cpu cn (\<lambda>c. c\<lparr>nextpcoff := physnext AND 0xfff\<rparr>) m2, True))"

section \<open>Exceptions\<close>

text \<open>The vector: user TLB misses have their own.\<close>

definition exn_vector :: "bool \<Rightarrow> u32 \<Rightarrow> u32 \<Rightarrow> u32" where
  "exn_vector boot code cn_or_user =
     (if (code = EX_TLBL \<or> code = EX_TLBS) \<and> cn_or_user \<noteq> 0
      then (if boot then 0xbfc00100 else 0x80000000)
      else (if boot then 0xbfc00180 else 0x80000080))"

text \<open>\<open>exception\<close> up to the two calls at its end.\<close>

definition exn_regs :: "u32 \<Rightarrow> u32 \<Rightarrow> u32 \<Rightarrow> mipscpu \<Rightarrow> mipscpu" where
  "exn_regs code cn_or_user vaddr c =
     (let boot = status_bootvectors c \<noteq> 0;
          vec = exn_vector boot code cn_or_user
      in c\<lparr>
        cause_bd := in_jumpdelay c,
        cause_ce := (if code = EX_CPU then push_bit 28 cn_or_user else 0),
        cause_code := push_bit 2 code,
        jumping := False,
        in_jumpdelay := False,
        ll_active := False,
        old_usermode := prev_usermode c,
        old_irqon := prev_irqon c,
        prev_usermode := current_usermode c,
        prev_irqon := current_irqon c,
        current_usermode := False,
        current_irqon := False,
        ex_vaddr := vaddr,
        ex_context := (ex_context c AND 0xffe00000) OR drop_bit 10 (vaddr AND 0x7ffff000),
        ex_epc := expc c,
        pc := vec,
        nextpc := vec + 4\<rparr>)"

definition exn_count :: "u32 \<Rightarrow> machine \<Rightarrow> machine" where
  "exn_count code m =
     (if code = EX_IRQ then upd_stats (\<lambda>s. s\<lparr>s_irqs := s_irqs s + 1\<rparr>) m
      else upd_stats (\<lambda>s. s\<lparr>s_exns := s_exns s + 1\<rparr>) m)"

primrec exception_f :: "nat \<Rightarrow> nat \<Rightarrow> u32 \<Rightarrow> u32 \<Rightarrow> u32 \<Rightarrow> machine \<Rightarrow> machine" where
  "exception_f 0 cn code cn_or_user vaddr m = raise_fault No_return m"
| "exception_f (Suc n) cn code cn_or_user vaddr m =
     (let m1 = upd_cpu cn (exn_regs code cn_or_user vaddr) (exn_count code m);
          m2 = fst (precompute_pc_with (exception_f n cn) cn m1);
          m3 = fst (precompute_nextpc_with (exception_f n cn) cn m2)
      in m3)"

text \<open>The functions the rest of the model calls. Four levels are more than ever returns.\<close>

definition exception :: "nat \<Rightarrow> u32 \<Rightarrow> u32 \<Rightarrow> u32 \<Rightarrow> machine \<Rightarrow> machine" where
  "exception = exception_f 4"

definition translatemem :: "nat \<Rightarrow> u32 \<Rightarrow> bool \<Rightarrow> machine \<Rightarrow> machine \<times> u32 option" where
  "translatemem cn = translatemem_with (exception cn) cn"

definition precompute_pc :: "nat \<Rightarrow> machine \<Rightarrow> machine \<times> bool" where
  "precompute_pc cn = precompute_pc_with (exception cn) cn"

definition precompute_nextpc :: "nat \<Rightarrow> machine \<Rightarrow> machine \<times> bool" where
  "precompute_nextpc cn = precompute_nextpc_with (exception cn) cn"

section \<open>Waiting, returning, and breakpoints\<close>

definition running_mask_off :: "nat \<Rightarrow> machine \<Rightarrow> machine" where
  "running_mask_off cn m =
     m\<lparr>cpu_running_mask := cpu_running_mask m AND NOT (push_bit cn 1)\<rparr>"

definition running_mask_on :: "nat \<Rightarrow> machine \<Rightarrow> machine" where
  "running_mask_on cn m = m\<lparr>cpu_running_mask := cpu_running_mask m OR push_bit cn 1\<rparr>"

definition do_wait :: "nat \<Rightarrow> machine \<Rightarrow> machine" where
  "do_wait cn m =
     (let c = mycpu m cn in
      if \<not> irq_lamebus c \<and> \<not> irq_ipi c \<and> \<not> irq_timer c then
        running_mask_off (cpunum c) (upd_cpu cn (\<lambda>c. c\<lparr>cpu_state := CPU_IDLE\<rparr>) m)
      else m)"

definition rfe_regs :: "mipscpu \<Rightarrow> mipscpu" where
  "rfe_regs c = c\<lparr>
     current_usermode := prev_usermode c,
     current_irqon := prev_irqon c,
     prev_usermode := old_usermode c,
     prev_irqon := old_irqon c,
     in_jumpdelay := False,
     expc := pc c\<rparr>"

definition do_rfe :: "nat \<Rightarrow> machine \<Rightarrow> machine" where
  "do_rfe cn m =
     (if current_usermode (mycpu m cn) then smoke m
      else
        let m1 = upd_cpu cn rfe_regs m;
            m2 = fst (precompute_pc cn m1);
            m3 = fst (precompute_nextpc cn m2)
        in m3)"

definition phony_exception :: "nat \<Rightarrow> machine \<Rightarrow> machine" where
  "phony_exception cn m =
     (let m1 = upd_cpu cn (\<lambda>c. c\<lparr>jumping := False, in_jumpdelay := False,
                 pc := expc c, nextpc := expc c + 4\<rparr>) m;
          (m2, ok2) = precompute_pc cn m1;
          m2' = (if ok2 then m2 else smoke m2);
          (m3, ok3) = precompute_nextpc cn m2'
      in if ok3 then m3 else smoke m3)"

section \<open>Writing the TLB\<close>

text \<open>A negative or too large index is a write outside the array.\<close>

definition writetlb :: "nat \<Rightarrow> int \<Rightarrow> machine \<Rightarrow> machine" where
  "writetlb cn ix m =
     (if ix < 0 \<or> int NTLB \<le> ix then raise_fault Undefined m
      else
        let m1 = upd_cpu cn (\<lambda>c. c\<lparr>tlb := (tlb c)(nat ix := tlbentry c)\<rparr>) m;
            m2 = check_tlb_dups cn (nat ix) m1;
            m3 = fst (precompute_pc cn m2);
            m4 = fst (precompute_nextpc cn m3)
        in m4)"

section \<open>Entering an exception\<close>

lemma upd_stats_simps [simp]:
  "mycpus (upd_stats f m) = mycpus m"
  "ncpus (upd_stats f m) = ncpus m"
  "cpu_running_mask (upd_stats f m) = cpu_running_mask m"
  "cpu_cycling (upd_stats f m) = cpu_cycling m"
  "bus_ramsize (upd_stats f m) = bus_ramsize m"
  "ram (upd_stats f m) = ram m"
  "bus_raised_interrupts (upd_stats f m) = bus_raised_interrupts m"
  "bus_enabled_interrupts (upd_stats f m) = bus_enabled_interrupts m"
  "lb_cpus (upd_stats f m) = lb_cpus m"
  "devices (upd_stats f m) = devices m"
  "event_queue (upd_stats f m) = event_queue m"
  "ta_free (upd_stats f m) = ta_free m"
  "virtual_now (upd_stats f m) = virtual_now m"
  "fault_state (upd_stats f m) = fault_state m"
  "stopped_in_debugger (upd_stats f m) = stopped_in_debugger m"
  "g_stats (upd_stats f m) = f (g_stats m)"
  by (simp_all add: upd_stats_def)

lemma exn_count_simps [simp]:
  "mycpus (exn_count code m) = mycpus m"
  "ncpus (exn_count code m) = ncpus m"
  "cpu_running_mask (exn_count code m) = cpu_running_mask m"
  "cpu_cycling (exn_count code m) = cpu_cycling m"
  "bus_ramsize (exn_count code m) = bus_ramsize m"
  "ram (exn_count code m) = ram m"
  "bus_raised_interrupts (exn_count code m) = bus_raised_interrupts m"
  "bus_enabled_interrupts (exn_count code m) = bus_enabled_interrupts m"
  "lb_cpus (exn_count code m) = lb_cpus m"
  "devices (exn_count code m) = devices m"
  "event_queue (exn_count code m) = event_queue m"
  "ta_free (exn_count code m) = ta_free m"
  "virtual_now (exn_count code m) = virtual_now m"
  "fault_state (exn_count code m) = fault_state m"
  by (simp_all add: exn_count_def)

text \<open>The page of the exception vectors exists.\<close>

definition vec_mapped :: "machine \<Rightarrow> nat \<Rightarrow> bool" where
  "vec_mapped m cn \<longleftrightarrow> status_bootvectors (mycpu m cn) \<noteq> 0 \<or> 0 < bus_ramsize m"



lemma exn_regs_simps [simp]:
  "status_bootvectors (exn_regs code u va c) = status_bootvectors c"
  "current_usermode (exn_regs code u va c) = False"
  "current_irqon (exn_regs code u va c) = False"
  "pc (exn_regs code u va c) = exn_vector (status_bootvectors c \<noteq> 0) code u"
  "nextpc (exn_regs code u va c) = exn_vector (status_bootvectors c \<noteq> 0) code u + 4"
  "tlb (exn_regs code u va c) = tlb c"
  "tlbentry (exn_regs code u va c) = tlbentry c"
  "regs (exn_regs code u va c) = regs c"
  "cpu_state (exn_regs code u va c) = cpu_state c"
  "cpunum (exn_regs code u va c) = cpunum c"
  by (simp_all add: exn_regs_def Let_def)

lemma exn_vector_cases:
  "exn_vector boot code u \<in>
     (if boot then {0xbfc00100, 0xbfc00180} else {0x80000000, 0x80000080})"
  by (simp add: exn_vector_def)


lemma mapmem_vector_None:
  assumes "\<not> boot" "bus_ramsize m = 0" "v \<in> {0, 4}"
  shows "mapmem m ((exn_vector boot code u + v) AND 0x1fffffff) = None"
  using exn_vector_cases [of boot code u] assms
  by (auto simp: mapmem_def bus_mem_map_def split: if_splits)

lemma vector_translates:
  assumes "\<not> current_usermode (mycpu m cn)" "v \<in> {0, 4}"
  shows "translatemem_with exc cn (exn_vector boot code u + v) w m =
    (m, Some ((exn_vector boot code u + v) AND 0x1fffffff))"
  using exn_vector_cases [of boot code u] assms
  by (auto simp: translatemem_with_def Let_def split: if_splits)


lemma precompute_pc_ok:
  assumes "translatemem_with exc cn (pc (mycpu m cn)) False m = (m1, Some pa)"
    and "mapmem m1 pa = Some pg"
  shows "precompute_pc_with exc cn m =
    (upd_cpu cn (\<lambda>c. c\<lparr>pcpage := Some pg, pcoff := pa AND 0xfff\<rparr>) m1, True)"
  using assms by (simp add: precompute_pc_with_def Let_def)

lemma precompute_nextpc_ok:
  assumes "translatemem_with exc cn (nextpc (mycpu m cn)) False m = (m1, Some pa)"
    and "mapmem m1 pa = Some pg"
  shows "precompute_nextpc_with exc cn m =
    (upd_cpu cn (\<lambda>c. c\<lparr>nextpcpage := Some pg, nextpcoff := pa AND 0xfff\<rparr>) m1, True)"
  using assms by (simp add: precompute_nextpc_with_def Let_def)





section \<open>An exception whose vector has no page\<close>

text \<open>A fault that has been raised stays the first.\<close>

lemma raise_fault_keeps [simp]: "fault_state m = Some f \<Longrightarrow> fault_state (raise_fault g m) = Some f"
  by (simp add: raise_fault_def)

lemma smoke_keeps [simp]: "fault_state m = Some f \<Longrightarrow> fault_state (smoke m) = Some f"
  by (simp add: smoke_def)

lemma precompute_pc_with_rule:
  assumes t: "translatemem_with exc cn (pc (mycpu m cn)) False m = (m1, r)"
    and "P m1"
    and "\<And>pg off. P (upd_cpu cn (\<lambda>c. c\<lparr>pcpage := Some pg, pcoff := off\<rparr>) m1)"
    and "P (exc EX_IBE 0 0 (upd_cpu cn (\<lambda>c. c\<lparr>pcpage := None\<rparr>) m1))"
    and "P (raise_fault Smoke (exc EX_IBE 0 0 (upd_cpu cn (\<lambda>c. c\<lparr>pcpage := None\<rparr>) m1)))"
  shows "P (fst (precompute_pc_with exc cn m))"
proof (cases r)
  case None
  then show ?thesis using t assms(2) by (simp add: precompute_pc_with_def)
next
  case (Some pa)
  show ?thesis
  proof (cases "mapmem m1 pa")
    case None
    then show ?thesis
      using t assms(4,5) Some by (simp add: precompute_pc_with_def Let_def smoke_def)
  next
    case (Some pg)
    then show ?thesis
      using precompute_pc_ok [OF t [unfolded \<open>r = Some pa\<close>] Some] assms(3) by simp
  qed
qed

lemma precompute_nextpc_with_rule:
  assumes t: "translatemem_with exc cn (nextpc (mycpu m cn)) False m = (m1, r)"
    and "P m1"
    and "\<And>pg off. P (upd_cpu cn (\<lambda>c. c\<lparr>nextpcpage := Some pg, nextpcoff := off\<rparr>) m1)"
    and "P (exc EX_IBE 0 0 (upd_cpu cn (\<lambda>c. c\<lparr>nextpcpage := None\<rparr>) m1))"
    and "P (raise_fault Smoke (exc EX_IBE 0 0 (upd_cpu cn (\<lambda>c. c\<lparr>nextpcpage := None\<rparr>) m1)))"
  shows "P (fst (precompute_nextpc_with exc cn m))"
proof (cases r)
  case None
  then show ?thesis using t assms(2) by (simp add: precompute_nextpc_with_def)
next
  case (Some pa)
  show ?thesis
  proof (cases "mapmem m1 pa")
    case None
    then show ?thesis
      using t assms(4,5) Some by (simp add: precompute_nextpc_with_def Let_def smoke_def)
  next
    case (Some pg)
    then show ?thesis
      using precompute_nextpc_ok [OF t [unfolded \<open>r = Some pa\<close>] Some] assms(3) by simp
  qed
qed

text \<open>The contract between the exception code and any property of the machine: a property that
  survives the single updates the code makes survives the code.\<close>

locale exn_closed =
  fixes P :: "machine \<Rightarrow> bool" and cn :: nat
  assumes upd_tlbentry: "P m \<Longrightarrow> P (upd_cpu cn (\<lambda>c. c\<lparr>tlbentry := (tlbentry c)\<lparr>mt_vpn := v\<rparr>\<rparr>) m)"
    and upd_pcpage: "P m \<Longrightarrow> P (upd_cpu cn (\<lambda>c. c\<lparr>pcpage := Some pg, pcoff := off\<rparr>) m)"
    and upd_pcpage_none: "P m \<Longrightarrow> P (upd_cpu cn (\<lambda>c. c\<lparr>pcpage := None\<rparr>) m)"
    and upd_nextpcpage:
      "P m \<Longrightarrow> P (upd_cpu cn (\<lambda>c. c\<lparr>nextpcpage := Some pg, nextpcoff := off\<rparr>) m)"
    and upd_nextpcpage_none: "P m \<Longrightarrow> P (upd_cpu cn (\<lambda>c. c\<lparr>nextpcpage := None\<rparr>) m)"
    and upd_exn_regs: "P m \<Longrightarrow> P (upd_cpu cn (exn_regs code u va) m)"
    and upd_exn_count: "P m \<Longrightarrow> P (exn_count code m)"
    and upd_fault: "P m \<Longrightarrow> P (raise_fault f m)"
begin

lemma translatemem_with_closed:
  assumes "\<And>c u v m. P m \<Longrightarrow> P (exc c u v m)" "P m"
  shows "P (fst (translatemem_with exc cn va w m))"
  using assms by (auto simp: translatemem_with_def Let_def upd_tlbentry split: option.splits)

lemma precompute_pc_with_closed:
  assumes "\<And>c u v m. P m \<Longrightarrow> P (exc c u v m)" "P m"
  shows "P (fst (precompute_pc_with exc cn m))"
proof -
  obtain m1 r where t: "translatemem_with exc cn (pc (mycpu m cn)) False m = (m1, r)" by fastforce
  have "P (fst (m1, r))" unfolding t [symmetric] by (rule translatemem_with_closed) (fact assms)+
  then have 1: "P m1" by simp
  show ?thesis
    by (rule precompute_pc_with_rule [where P = P, OF t])
      (intro 1 upd_fault assms(1) upd_pcpage upd_pcpage_none)+
qed

lemma precompute_nextpc_with_closed:
  assumes "\<And>c u v m. P m \<Longrightarrow> P (exc c u v m)" "P m"
  shows "P (fst (precompute_nextpc_with exc cn m))"
proof -
  obtain m1 r where t: "translatemem_with exc cn (nextpc (mycpu m cn)) False m = (m1, r)" by fastforce
  have "P (fst (m1, r))" unfolding t [symmetric] by (rule translatemem_with_closed) (fact assms)+
  then have 1: "P m1" by simp
  show ?thesis
    by (rule precompute_nextpc_with_rule [where P = P, OF t])
      (intro 1 upd_fault assms(1) upd_nextpcpage upd_nextpcpage_none)+
qed

lemma exception_f_closed: "P m \<Longrightarrow> P (exception_f n cn code u va m)"
proof (induction n arbitrary: code u va m)
  case (Suc n)
  show ?case
    by (simp only: exception_f.simps Let_def)
      (intro precompute_nextpc_with_closed precompute_pc_with_closed upd_exn_regs upd_exn_count
        Suc.IH Suc.prems; assumption)
qed (simp add: upd_fault)

lemma exception_closed: "P m \<Longrightarrow> P (exception cn code u va m)"
  by (simp add: exception_def exception_f_closed)

lemma translatemem_closed: "P m \<Longrightarrow> P (fst (translatemem cn va w m))"
  by (simp add: translatemem_def translatemem_with_closed exception_closed)

lemma precompute_pc_closed: "P m \<Longrightarrow> P (fst (precompute_pc cn m))"
  by (simp add: precompute_pc_def precompute_pc_with_closed exception_closed)

lemma precompute_nextpc_closed: "P m \<Longrightarrow> P (fst (precompute_nextpc cn m))"
  by (simp add: precompute_nextpc_def precompute_nextpc_with_closed exception_closed)

end

text \<open>A fault that has been raised stays the first.\<close>

interpretation exn_fault: exn_closed "\<lambda>m. fault_state m = Some f" cn for f cn
  by unfold_locales simp_all

text \<open>What the exception code may change: of the machine one cpu, the statistics and the
  fault; of the cpu the program counters and their pages, the staging TLB entry, the mode and
  the exception registers.\<close>

definition exn_cpu_frame :: "mipscpu \<Rightarrow> mipscpu \<Rightarrow> bool" where
  "exn_cpu_frame c0 c \<longleftrightarrow>
     cpu_state c = cpu_state c0 \<and> cpunum c = cpunum c0 \<and> regs c = regs c0 \<and>
     lo_reg c = lo_reg c0 \<and> hi_reg c = hi_reg c0 \<and> lowait c = lowait c0 \<and> hiwait c = hiwait c0 \<and>
     expc c = expc c0 \<and> tlb c = tlb c0 \<and> tlbindex c = tlbindex c0 \<and> tlbpf c = tlbpf c0 \<and>
     tlbrandom c = tlbrandom c0 \<and> status_bootvectors c = status_bootvectors c0 \<and>
     status_hardmask_lb c = status_hardmask_lb c0 \<and>
     status_hardmask_ipi c = status_hardmask_ipi c0 \<and>
     status_hardmask_timer c = status_hardmask_timer c0 \<and>
     status_softmask c = status_softmask c0 \<and> status_copenable c = status_copenable c0 \<and>
     cause_softirq c = cause_softirq c0 \<and>
     irq_lamebus c = irq_lamebus c0 \<and> irq_ipi c = irq_ipi c0 \<and> irq_timer c = irq_timer c0 \<and>
     ex_count c = ex_count c0 \<and> ex_compare c = ex_compare c0 \<and>
     ll_addr c = ll_addr c0 \<and> ll_value c = ll_value c0 \<and>
     mt_pid (tlbentry c) = mt_pid (tlbentry c0)"

text \<open>The machine after is the machine before with one cpu, the statistics and the fault
  replaced.\<close>

definition put_exn :: "nat \<Rightarrow> mipscpu \<Rightarrow> stats \<Rightarrow> fault option \<Rightarrow> machine \<Rightarrow> machine" where
  "put_exn cn c s f m = m\<lparr>mycpus := (mycpus m)(cn := c), g_stats := s, fault_state := f\<rparr>"

definition exn_frame :: "nat \<Rightarrow> machine \<Rightarrow> machine \<Rightarrow> bool" where
  "exn_frame cn m0 m \<longleftrightarrow>
     m = put_exn cn (mycpu m cn) (g_stats m) (fault_state m) m0 \<and>
     exn_cpu_frame (mycpu m0 cn) (mycpu m cn)"

lemma exn_cpu_frame_refl [simp]: "exn_cpu_frame c c"
  by (simp add: exn_cpu_frame_def)

lemma exn_cpu_frame_trans: "exn_cpu_frame a b \<Longrightarrow> exn_cpu_frame b c \<Longrightarrow> exn_cpu_frame a c"
  by (simp add: exn_cpu_frame_def)

lemma put_exn_put_exn [simp]: "put_exn cn c s f (put_exn cn c' s' f' m) = put_exn cn c s f m"
  by (simp add: put_exn_def)

lemma put_exn_sels [simp]:
  "mycpus (put_exn cn c s f m) = (mycpus m)(cn := c)"
  "g_stats (put_exn cn c s f m) = s"
  "fault_state (put_exn cn c s f m) = f"
  by (simp_all add: put_exn_def)

lemma put_exn_frame [simp]:
  "ncpus (put_exn cn c s f m) = ncpus m"
  "cpu_running_mask (put_exn cn c s f m) = cpu_running_mask m"
  "cpu_cycles_count (put_exn cn c s f m) = cpu_cycles_count m"
  "cpu_cycling (put_exn cn c s f m) = cpu_cycling m"
  "bus_ramsize (put_exn cn c s f m) = bus_ramsize m"
  "ram (put_exn cn c s f m) = ram m"
  "bus_raised_interrupts (put_exn cn c s f m) = bus_raised_interrupts m"
  "bus_enabled_interrupts (put_exn cn c s f m) = bus_enabled_interrupts m"
  "lb_cpus (put_exn cn c s f m) = lb_cpus m"
  "devices (put_exn cn c s f m) = devices m"
  "virtual_now (put_exn cn c s f m) = virtual_now m"
  "event_queue (put_exn cn c s f m) = event_queue m"
  "ta_free (put_exn cn c s f m) = ta_free m"
  "stopped_in_debugger (put_exn cn c s f m) = stopped_in_debugger m"
  "stop_is_lethal (put_exn cn c s f m) = stop_is_lethal m"
  "console_out (put_exn cn c s f m) = console_out m"
  "shutoff_flag (put_exn cn c s f m) = shutoff_flag m"
  by (simp_all add: put_exn_def)

lemma exn_frame_put_exn:
  assumes "exn_frame cn m0 m"
  obtains c s f where "m = put_exn cn c s f m0"
  using assms by (auto simp: exn_frame_def)

lemma exn_frame_sels:
  assumes "exn_frame cn m0 m"
  shows
    "ncpus m = ncpus m0"
    "cpu_running_mask m = cpu_running_mask m0"
    "cpu_cycles_count m = cpu_cycles_count m0"
    "cpu_cycling m = cpu_cycling m0"
    "bus_ramsize m = bus_ramsize m0"
    "ram m = ram m0"
    "bus_raised_interrupts m = bus_raised_interrupts m0"
    "bus_enabled_interrupts m = bus_enabled_interrupts m0"
    "lb_cpus m = lb_cpus m0"
    "devices m = devices m0"
    "virtual_now m = virtual_now m0"
    "event_queue m = event_queue m0"
    "ta_free m = ta_free m0"
    "stopped_in_debugger m = stopped_in_debugger m0"
    "stop_is_lethal m = stop_is_lethal m0"
    "console_out m = console_out m0"
    "shutoff_flag m = shutoff_flag m0"
    "i \<noteq> cn \<Longrightarrow> mycpu m i = mycpu m0 i"
  using assms by (elim exn_frame_put_exn; simp)+

lemma exn_frame_refl [simp]: "exn_frame cn m m"
  by (simp add: exn_frame_def put_exn_def)

lemma exn_frame_put:
  "exn_frame cn m0 m \<Longrightarrow> exn_cpu_frame (mycpu m cn) c \<Longrightarrow> exn_frame cn m0 (put_exn cn c s f m)"
  unfolding exn_frame_def
  by (metis exn_cpu_frame_trans put_exn_put_exn put_exn_sels fun_upd_same)

lemma upd_cpu_put_exn:
  "upd_cpu cn g m = put_exn cn (g (mycpu m cn)) (g_stats m) (fault_state m) m"
  by (simp add: upd_cpu_def put_exn_def)

lemma exn_frame_upd_cpu:
  "exn_frame cn m0 m \<Longrightarrow> exn_cpu_frame (mycpu m cn) (g (mycpu m cn)) \<Longrightarrow>
    exn_frame cn m0 (upd_cpu cn g m)"
  unfolding upd_cpu_put_exn by (rule exn_frame_put)

lemma exn_count_put_exn:
  "exn_count code m = put_exn cn (mycpu m cn) (g_stats (exn_count code m)) (fault_state m) m"
  by (simp add: exn_count_def upd_stats_def put_exn_def)

lemma raise_fault_put_exn:
  "raise_fault f m = put_exn cn (mycpu m cn) (g_stats m) (fault_state (raise_fault f m)) m"
  by (simp add: raise_fault_def put_exn_def)

lemma exn_frame_exn_count: "exn_frame cn m0 m \<Longrightarrow> exn_frame cn m0 (exn_count code m)"
  by (subst exn_count_put_exn [of _ _ cn]) (simp add: exn_frame_put)

lemma exn_frame_raise_fault: "exn_frame cn m0 m \<Longrightarrow> exn_frame cn m0 (raise_fault f m)"
  by (subst raise_fault_put_exn [of _ _ cn]) (simp add: exn_frame_put)

interpretation exn_fr: exn_closed "\<lambda>m. exn_frame cn m0 m" cn for m0 cn
  by unfold_locales
    (auto intro!: exn_frame_upd_cpu exn_frame_exn_count exn_frame_raise_fault
      simp: exn_cpu_frame_def exn_regs_def Let_def)

lemmas exn_frames =
  exn_fr.exception_closed [OF exn_frame_refl] exn_fr.translatemem_closed [OF exn_frame_refl]
  exn_fr.precompute_pc_closed [OF exn_frame_refl] exn_fr.precompute_nextpc_closed [OF exn_frame_refl]

lemma precompute_pc_unmapped:
  assumes "\<not> current_usermode (mycpu m cn)" "bus_ramsize m = 0"
    and "pc (mycpu m cn) = exn_vector False code u"
    and "fault_state (exc EX_IBE 0 0 (upd_cpu cn (\<lambda>c. c\<lparr>pcpage := None\<rparr>) m)) = Some f"
  shows "fault_state (fst (precompute_pc_with exc cn m)) = Some f"
  using assms(2-4) vector_translates [OF assms(1), of 0 exc False code u False]
    mapmem_vector_None [of False m 0 code u]
  by (simp add: precompute_pc_with_def Let_def)

lemma exception_f_unmapped:
  assumes "\<not> vec_mapped m cn" "fault_state m = None"
  shows "fault_state (exception_f n cn code u va m) = Some No_return"
  using assms
proof (induction n arbitrary: code u va m)
  case 0
  then show ?case by (simp add: raise_fault_def)
next
  case (Suc n)
  have b: "status_bootvectors (mycpu m cn) = 0" "bus_ramsize m = 0"
    using Suc.prems(1) by (auto simp: vec_mapped_def word_gt_0)
  let ?m1 = "upd_cpu cn (exn_regs code u va) (exn_count code m)"
  have "fault_state (fst (precompute_pc_with (exception_f n cn) cn ?m1)) = Some No_return"
    by (rule precompute_pc_unmapped [where code = code and u = u])
      (use b Suc.prems in \<open>auto intro!: Suc.IH simp: vec_mapped_def\<close>)
  then show ?case
    by (simp only: exception_f.simps Let_def)
      (intro exn_fault.precompute_nextpc_with_closed exn_fault.exception_f_closed; assumption)
qed

section \<open>What a translation computes\<close>

text \<open>The result of translating an address, as the architecture manual puts it: the segments
  are ranges of addresses, the direct-mapped ones subtract their base, and the mapped ones look
  the page up. \<open>Inl\<close> carries the exception and its user-miss argument.\<close>

definition xlate_spec :: "mipscpu \<Rightarrow> u32 \<Rightarrow> bool \<Rightarrow> (u32 \<times> u32) + u32" where
  "xlate_spec c va wr =
     (if 4 dvd unat va \<and> (current_usermode c \<longrightarrow> unat va < 0x80000000) then
        if 0x80000000 \<le> unat va \<and> unat va < 0xa0000000 then Inr (va - KSEG0)
        else if 0xa0000000 \<le> unat va \<and> unat va < 0xc0000000 then Inr (va - KSEG1)
        else case findtlb c (va AND 0xfffff000) of
               None \<Rightarrow> Inl (if wr then EX_TLBS else EX_TLBL, if unat va < 0x80000000 then 1 else 0)
             | Some i \<Rightarrow>
                 if \<not> mt_valid (tlb c i) then Inl (if wr then EX_TLBS else EX_TLBL, 0)
                 else if wr \<and> \<not> mt_dirty (tlb c i) then Inl (EX_MOD, 0)
                 else Inr (mt_pfn (tlb c i) OR (va AND 0xfff))
      else Inl (if wr then EX_ADES else EX_ADEL, 0))"

definition xlate_machine :: "nat \<Rightarrow> u32 \<Rightarrow> machine \<Rightarrow> machine" where
  "xlate_machine cn va m =
     (if (va \<ge> 0x80000000 \<and> current_usermode (mycpu m cn)) \<or> va AND 3 \<noteq> 0 \<or> drop_bit 30 va = 2
      then m
      else upd_cpu cn (\<lambda>c. c\<lparr>tlbentry := (tlbentry c)\<lparr>mt_vpn := va AND 0xfffff000\<rparr>\<rparr>) m)"


lemma seg_drop_bit: "drop_bit 30 (va::u32) = 2 \<longleftrightarrow> 0x80000000 \<le> unat va \<and> unat va < 0xc0000000"
proof -
  have "drop_bit 30 va = 2 \<longleftrightarrow> unat (drop_bit 30 va) = unat (2::u32)"
    by (simp only: word_unat_eq_iff)
  also have "\<dots> \<longleftrightarrow> unat va div 2 ^ 30 = 2"
    by (simp only: unat_drop_bit_eq) (simp add: drop_bit_eq_div)
  finally show ?thesis by auto
qed

lemma dvd4_and: "va AND 3 = 0 \<longleftrightarrow> 4 dvd unat (va::u32)"
  using and_mask_dvd_nat [of 2 va] by (simp only: mask_eq_exp_minus_1) simp

lemma kseg_and:
  assumes "unat base = k * 2 ^ 29" "unat base \<le> unat (va::u32)" "unat va < unat base + 2 ^ 29"
  shows "va AND 0x1fffffff = va - base"
proof -
  have "unat va mod 2 ^ 29 = (unat va - unat base) mod 2 ^ 29"
    using assms(1,2) by (metis le_add_diff_inverse mod_mult_self3)
  then have "unat (va AND mask 29) = unat (va - base)"
    using assms(2,3) by (simp only: unat_and_mask unat_sub word_le_nat_alt) simp
  then show ?thesis by (simp only: mask_eq_exp_minus_1 word_unat_eq_iff) simp
qed

lemma kseg0_and:
  "0x80000000 \<le> unat (va::u32) \<Longrightarrow> unat va < 0xa0000000 \<Longrightarrow> va AND 0x1fffffff = va - KSEG0"
  by (rule kseg_and [where k = 4]) (simp_all add: KSEG0_def)

lemma kseg1_and:
  "0xa0000000 \<le> unat (va::u32) \<Longrightarrow> unat va < 0xc0000000 \<Longrightarrow> va AND 0x1fffffff = va - KSEG1"
  by (rule kseg_and [where k = 5]) (simp_all add: KSEG1_def)

lemma ge_kseg0: "va \<ge> 0x80000000 \<longleftrightarrow> \<not> unat (va::u32) < 0x80000000"
  by (simp add: word_le_nat_alt not_less)

lemma xlate_guard:
  "(va \<ge> 0x80000000 \<and> u) \<or> va AND 3 \<noteq> 0 \<longleftrightarrow> \<not> (4 dvd unat va \<and> (u \<longrightarrow> unat (va::u32) < 0x80000000))"
  unfolding ge_kseg0 dvd4_and by auto

lemma findtlb_vpn [simp]: "findtlb (c\<lparr>tlbentry := (tlbentry c)\<lparr>mt_vpn := v\<rparr>\<rparr>) p = findtlb c p"
  by (rule findtlb_cong) simp_all

lemma xlate_spec_direct:
  assumes "\<not> ((va \<ge> 0x80000000 \<and> current_usermode c) \<or> va AND 3 \<noteq> 0)" "drop_bit 30 va = 2"
  shows "xlate_spec c va wr = Inr (va AND 0x1fffffff)"
  using assms(1) assms(2) [unfolded seg_drop_bit] kseg0_and [of va] kseg1_and [of va]
  unfolding xlate_guard not_not by (simp add: xlate_spec_def not_less)

lemma xlate_spec_mapped:
  assumes "\<not> ((va \<ge> 0x80000000 \<and> current_usermode c) \<or> va AND 3 \<noteq> 0)" "drop_bit 30 va \<noteq> 2"
  shows "xlate_spec c va wr =
    (case findtlb c (va AND 0xfffff000) of
       None \<Rightarrow> Inl (if wr then EX_TLBS else EX_TLBL, if va < 0x80000000 then 1 else 0)
     | Some i \<Rightarrow>
         if \<not> mt_valid (tlb c i) then Inl (if wr then EX_TLBS else EX_TLBL, 0)
         else if wr \<and> \<not> mt_dirty (tlb c i) then Inl (EX_MOD, 0)
         else Inr (mt_pfn (tlb c i) OR (va AND 0xfff)))"
proof -
  have n: "\<not> (0x80000000 \<le> unat va \<and> unat va < 0xa0000000)"
    "\<not> (0xa0000000 \<le> unat va \<and> unat va < 0xc0000000)"
    using assms(2) unfolding seg_drop_bit by auto
  show ?thesis
    using assms(1) unfolding xlate_guard not_not
    by (simp only: xlate_spec_def n if_False if_True simp_thms word_less_nat_alt) simp
qed

lemma translatemem_with_spec:
  "translatemem_with exc cn va wr m =
     (case xlate_spec (mycpu m cn) va wr of
        Inl (code, u) \<Rightarrow> (exc code u va (xlate_machine cn va m), None)
      | Inr pa \<Rightarrow> (xlate_machine cn va m, Some pa))"
proof -
  let ?g = "(va \<ge> 0x80000000 \<and> current_usermode (mycpu m cn)) \<or> va AND 3 \<noteq> 0"
  consider (bad) ?g | (direct) "\<not> ?g" "drop_bit 30 va = 2" | (mapped) "\<not> ?g" "drop_bit 30 va \<noteq> 2"
    by blast
  then show ?thesis
  proof cases
    case bad
    then have "xlate_spec (mycpu m cn) va wr = Inl (if wr then EX_ADES else EX_ADEL, 0)"
      unfolding xlate_guard xlate_spec_def by (simp only: if_False)
    moreover have "xlate_machine cn va m = m"
      using bad by (auto simp: xlate_machine_def)
    ultimately show ?thesis
      using bad by (simp only: translatemem_with_def Let_def if_True) simp
  next
    case direct
    have "xlate_machine cn va m = m" using direct(2) by (simp add: xlate_machine_def)
    then show ?thesis
      using direct by (simp add: translatemem_with_def xlate_spec_direct [OF direct])
  next
    case mapped
    then have "xlate_machine cn va m =
        upd_cpu cn (\<lambda>c. c\<lparr>tlbentry := (tlbentry c)\<lparr>mt_vpn := va AND 0xfffff000\<rparr>\<rparr>) m"
      by (auto simp: xlate_machine_def)
    then show ?thesis
      unfolding translatemem_with_def Let_def if_not_P [OF mapped(1)] if_not_P [OF mapped(2)]
        xlate_spec_mapped [OF mapped]
      by (simp split: option.split)
  qed
qed

section \<open>Properties\<close>

text \<open>C7: Address translation is the specification: the segments of the address map, the TLB entry that
  matches, and for each way to fail the exception the architecture names.\<close>

theorem translatemem_refines:
  "translatemem cn va wr m =
     (case xlate_spec (mycpu m cn) va wr of
        Inl (code, u) \<Rightarrow> (exception cn code u va (xlate_machine cn va m), None)
      | Inr pa \<Rightarrow> (xlate_machine cn va m, Some pa))"
  by (simp add: translatemem_def translatemem_with_spec)

text \<open>The debugger translates an address as the kernel does.\<close>

theorem debug_translatemem_agrees:
  assumes "\<not> current_usermode (mycpu m cn)"
  shows "debug_translatemem (mycpu m cn) va wr = snd (translatemem cn va wr m)"
  using assms
  by (simp add: translatemem_def translatemem_with_def debug_translatemem_def Let_def
      split: option.split)

text \<open>C12: In user mode translation succeeds only below the kernel segments, and only through a valid
  entry of the TLB for that page and this address space (a dirty one for a store).\<close>

theorem translatemem_user_isolation:
  assumes "current_usermode (mycpu m cn)" "snd (translatemem cn va wr m) = Some pa"
  shows "unat va < 0x80000000 \<and> 4 dvd unat va \<and>
    (\<exists>i<NTLB. let e = tlb (mycpu m cn) i in
       mt_vpn e = va AND 0xfffff000 \<and>
       (mt_global e \<or> mt_pid e = mt_pid (tlbentry (mycpu m cn))) \<and>
       mt_valid e \<and> (wr \<longrightarrow> mt_dirty e) \<and> pa = mt_pfn e OR (va AND 0xfff))"
proof -
  have x: "xlate_spec (mycpu m cn) va wr = Inr pa"
    using assms(2) unfolding translatemem_def translatemem_with_spec by (auto split: sum.splits prod.splits)
  have 1: "unat va < 0x80000000" "4 dvd unat va"
    using x assms(1) by (auto simp: xlate_spec_def split: if_splits)
  with x obtain i where f: "findtlb (mycpu m cn) (va AND 0xfffff000) = Some i"
    and "mt_valid (tlb (mycpu m cn) i)" "wr \<longrightarrow> mt_dirty (tlb (mycpu m cn) i)"
      "pa = mt_pfn (tlb (mycpu m cn) i) OR (va AND 0xfff)"
    by (auto simp: xlate_spec_def split: option.splits if_splits)
  with 1 findtlb_Some [OF f] show ?thesis by (auto simp: tlb_match_def Let_def)
qed


text \<open>Without a page at the vector the simulator never returns.\<close>

theorem exception_no_vector:
  assumes "status_bootvectors (mycpu m cn) = 0" "bus_ramsize m = 0" "fault_state m = None"
  shows "fault_state (exception_f n cn code u va m) = Some No_return"
  by (rule exception_f_unmapped) (use assms in \<open>simp_all add: vec_mapped_def\<close>)

lemma exn_cpu_frame_tlb_wf: "exn_frame cn m0 m \<Longrightarrow> tlb (mycpu m cn) = tlb (mycpu m0 cn)"
  by (simp add: exn_frame_def exn_cpu_frame_def)

lemma tlb_wf_cong: "tlb c = tlb c' \<Longrightarrow> tlb_wf c = tlb_wf c'"
  by (simp add: tlb_wf_def tlb_conflict_def)

text \<open>C15: Writing an entry keeps the TLB free of entries that match the same address, or stops
  the machine in the debugger.\<close>

theorem writetlb_keeps_tlb_wf:
  assumes "tlb_wf (mycpu m cn)" "0 \<le> ix" "ix < int NTLB"
  shows "tlb_wf (mycpu (writetlb cn ix m) cn) \<or>
    (stopped_in_debugger (writetlb cn ix m) \<and> stop_is_lethal (writetlb cn ix m) \<and>
     \<not> cpu_cycling (writetlb cn ix m))"
proof -
  let ?m1 = "upd_cpu cn (\<lambda>c. c\<lparr>tlb := (tlb c)(nat ix := tlbentry c)\<rparr>) m"
  let ?m2 = "check_tlb_dups cn (nat ix) ?m1"
  have fr: "exn_frame cn ?m2 (writetlb cn ix m)"
    using assms(2,3)
    by (simp add: writetlb_def Let_def not_le not_less exn_fr.precompute_nextpc_closed
        exn_fr.precompute_pc_closed)
  have ix: "nat ix < NTLB" using assms(2,3) by simp
  show ?thesis
  proof (cases "\<exists>i<NTLB. tlb_conflict (mycpu ?m1 cn) (nat ix) i")
    case True
    then have "?m2 = hang ?m1" by (simp add: check_tlb_dups_eq)
    then show ?thesis using exn_frame_sels [OF fr] by simp
  next
    case False
    then have "tlb_wf (mycpu ?m1 cn)" using tlb_wf_write [OF assms(1) ix] by simp
    moreover have "?m2 = ?m1" using False by (simp only: check_tlb_dups_eq if_False)
    ultimately show ?thesis by (simp only: tlb_wf_cong [OF exn_cpu_frame_tlb_wf [OF fr]] simp_thms)
  qed
qed

end
