(* ===== verification/Mips_Cop0.thy ===== *)
theory Mips_Cop0
  imports Mips_Exn
begin

text \<open>
  The system coprocessor (\<open>mipseb/mips.c\<close>, \<open>mipseb/mipscore.h\<close>): the registers that are kept
  in pieces (status, cause, index, random), and the moves between them and the general
  registers.
\<close>

section \<open>Status register\<close>

definition STATUS_COPENABLE :: u32 where "STATUS_COPENABLE = 0xf0000000"
definition STATUS_BOOTVECTORS :: u32 where "STATUS_BOOTVECTORS = 0x00400000"
definition STATUS_R3KCACHE :: u32 where "STATUS_R3KCACHE = 0x00030000"
definition STATUS_HARDMASK_TIMER :: u32 where "STATUS_HARDMASK_TIMER = 0x00008000"
definition STATUS_HARDMASK_UNUSED4 :: u32 where "STATUS_HARDMASK_UNUSED4 = 0x00004000"
definition STATUS_HARDMASK_FPU :: u32 where "STATUS_HARDMASK_FPU = 0x00002000"
definition STATUS_HARDMASK_UNUSED2 :: u32 where "STATUS_HARDMASK_UNUSED2 = 0x00001000"
definition STATUS_HARDMASK_IPI :: u32 where "STATUS_HARDMASK_IPI = 0x00000800"
definition STATUS_HARDMASK_LB :: u32 where "STATUS_HARDMASK_LB = 0x00000400"
definition STATUS_SOFTMASK :: u32 where "STATUS_SOFTMASK = 0x00000300"
definition STATUS_KUo :: u32 where "STATUS_KUo = 0x00000020"
definition STATUS_IEo :: u32 where "STATUS_IEo = 0x00000010"
definition STATUS_KUp :: u32 where "STATUS_KUp = 0x00000008"
definition STATUS_IEp :: u32 where "STATUS_IEp = 0x00000004"
definition STATUS_KUc :: u32 where "STATUS_KUc = 0x00000002"
definition STATUS_IEc :: u32 where "STATUS_IEc = 0x00000001"

lemmas STATUS_defs =
  STATUS_COPENABLE_def STATUS_BOOTVECTORS_def STATUS_R3KCACHE_def STATUS_HARDMASK_TIMER_def
  STATUS_HARDMASK_UNUSED4_def STATUS_HARDMASK_FPU_def STATUS_HARDMASK_UNUSED2_def
  STATUS_HARDMASK_IPI_def STATUS_HARDMASK_LB_def STATUS_SOFTMASK_def STATUS_KUo_def
  STATUS_IEo_def STATUS_KUp_def STATUS_IEp_def STATUS_KUc_def STATUS_IEc_def

definition getstatus :: "mipscpu \<Rightarrow> u32" where
  "getstatus c =
     (let val = status_copenable c;
          val = val OR status_bootvectors c;
          val = val OR status_hardmask_timer c;
          val = val OR status_hardmask_void c;
          val = val OR status_hardmask_fpu c;
          val = val OR status_hardmask_ipi c;
          val = val OR status_hardmask_lb c;
          val = val OR status_softmask c;
          val = (if old_usermode c then val OR STATUS_KUo else val);
          val = (if old_irqon c then val OR STATUS_IEo else val);
          val = (if prev_usermode c then val OR STATUS_KUp else val);
          val = (if prev_irqon c then val OR STATUS_IEp else val);
          val = (if current_usermode c then val OR STATUS_KUc else val);
          val = (if current_irqon c then val OR STATUS_IEc else val)
      in val)"

definition status_regs :: "u32 \<Rightarrow> mipscpu \<Rightarrow> mipscpu" where
  "status_regs val c = c\<lparr>
     status_copenable := val AND STATUS_COPENABLE,
     status_bootvectors := val AND STATUS_BOOTVECTORS,
     status_hardmask_timer := val AND STATUS_HARDMASK_TIMER,
     status_hardmask_void := val AND (STATUS_HARDMASK_UNUSED2 OR STATUS_HARDMASK_UNUSED4),
     status_hardmask_fpu := val AND STATUS_HARDMASK_FPU,
     status_hardmask_ipi := val AND STATUS_HARDMASK_IPI,
     status_hardmask_lb := val AND STATUS_HARDMASK_LB,
     status_softmask := val AND STATUS_SOFTMASK,
     old_usermode := val AND STATUS_KUo \<noteq> 0,
     old_irqon := val AND STATUS_IEo \<noteq> 0,
     prev_usermode := val AND STATUS_KUp \<noteq> 0,
     prev_irqon := val AND STATUS_IEp \<noteq> 0,
     current_usermode := val AND STATUS_KUc \<noteq> 0,
     current_irqon := val AND STATUS_IEc \<noteq> 0\<rparr>"

definition setstatus :: "nat \<Rightarrow> u32 \<Rightarrow> machine \<Rightarrow> machine" where
  "setstatus cn val m =
     (let m1 = (if val AND STATUS_R3KCACHE \<noteq> 0 then hang m else m)
      in upd_cpu cn (status_regs val) m1)"

section \<open>Cause, index and random registers\<close>

definition CAUSE_BD :: u32 where "CAUSE_BD = 0x80000000"
definition CAUSE_HARDIRQ_TIMER :: u32 where "CAUSE_HARDIRQ_TIMER = 0x00008000"
definition CAUSE_HARDIRQ_IPI :: u32 where "CAUSE_HARDIRQ_IPI = 0x00000800"
definition CAUSE_HARDIRQ_LB :: u32 where "CAUSE_HARDIRQ_LB = 0x00000400"
definition CAUSE_SOFTIRQ :: u32 where "CAUSE_SOFTIRQ = 0x00000300"
definition RANDREG_MAX :: int where "RANDREG_MAX = 56"
definition RANDREG_OFFSET :: int where "RANDREG_OFFSET = 8"

lemmas CAUSE_defs =
  CAUSE_BD_def CAUSE_HARDIRQ_TIMER_def CAUSE_HARDIRQ_IPI_def CAUSE_HARDIRQ_LB_def
  CAUSE_SOFTIRQ_def

definition getcause :: "mipscpu \<Rightarrow> u32" where
  "getcause c =
     (let val = cause_ce c OR cause_softirq c OR cause_code c;
          val = (if cause_bd c then val OR CAUSE_BD else val);
          val = (if irq_lamebus c then val OR CAUSE_HARDIRQ_LB else val);
          val = (if irq_ipi c then val OR CAUSE_HARDIRQ_IPI else val);
          val = (if irq_timer c then val OR CAUSE_HARDIRQ_TIMER else val)
      in val)"

definition setcause :: "u32 \<Rightarrow> mipscpu \<Rightarrow> mipscpu" where
  "setcause val c = c\<lparr>cause_softirq := val AND CAUSE_SOFTIRQ\<rparr>"

definition getindex :: "mipscpu \<Rightarrow> u32" where
  "getindex c =
     (let val = push_bit 8 (of_nat (tlbindex c))
      in if tlbpf c then val OR 0x80000000 else val)"

definition setindex :: "u32 \<Rightarrow> mipscpu \<Rightarrow> mipscpu" where
  "setindex val c = c\<lparr>
     tlbindex := unat (drop_bit 8 val AND 63),
     tlbpf := val AND 0x80000000 \<noteq> 0\<rparr>"

text \<open>C's remainder takes the sign of the dividend.\<close>

definition tlbrandom_reduce :: "mipscpu \<Rightarrow> mipscpu" where
  "tlbrandom_reduce c = c\<lparr>tlbrandom := tlbrandom c smod RANDREG_MAX\<rparr>"

definition getrandom :: "nat \<Rightarrow> machine \<Rightarrow> machine \<times> u32" where
  "getrandom cn m =
     (let m1 = upd_cpu cn tlbrandom_reduce m
      in (m1, push_bit 8 (of_int (tlbrandom (mycpu m1 cn) + RANDREG_OFFSET))))"

section \<open>Moves from and to coprocessor 0\<close>

definition REGSEL :: "nat \<Rightarrow> nat \<Rightarrow> nat" where
  "REGSEL reg sel = push_bit 3 reg OR sel"

text \<open>The registers by their number and select, as \<open>REGSEL\<close> numbers them.\<close>

datatype c0reg =
    C0_INDEX | C0_RANDOM | C0_TLBLO | C0_CONTEXT | C0_VADDR | C0_COUNT | C0_TLBHI | C0_COMPARE
  | C0_STATUS | C0_CAUSE | C0_EPC | C0_PRID | C0_CFEAT | C0_IFEAT | C0_CONFIG nat

definition c0reg_of :: "nat \<Rightarrow> c0reg option" where
  "c0reg_of regsel =
     (if regsel = REGSEL 0 0 then Some C0_INDEX
      else if regsel = REGSEL 1 0 then Some C0_RANDOM
      else if regsel = REGSEL 2 0 then Some C0_TLBLO
      else if regsel = REGSEL 4 0 then Some C0_CONTEXT
      else if regsel = REGSEL 8 0 then Some C0_VADDR
      else if regsel = REGSEL 9 0 then Some C0_COUNT
      else if regsel = REGSEL 10 0 then Some C0_TLBHI
      else if regsel = REGSEL 11 0 then Some C0_COMPARE
      else if regsel = REGSEL 12 0 then Some C0_STATUS
      else if regsel = REGSEL 13 0 then Some C0_CAUSE
      else if regsel = REGSEL 14 0 then Some C0_EPC
      else if regsel = REGSEL 15 0 then Some C0_PRID
      else if regsel = REGSEL 15 1 then Some C0_CFEAT
      else if regsel = REGSEL 15 2 then Some C0_IFEAT
      else if regsel \<in> (\<lambda>i. REGSEL 16 i) ` {0, 1, 2, 3, 4, 5, 6, 7} then Some (C0_CONFIG (regsel - REGSEL 16 0))
      else None)"

text \<open>The value is \<open>None\<close> when an exception was taken and the general register is not
  written.\<close>

definition domf :: "nat \<Rightarrow> u32 \<Rightarrow> nat \<Rightarrow> nat \<Rightarrow> machine \<Rightarrow> machine \<times> u32 option" where
  "domf cn cop reg sel m =
     (let c = mycpu m cn in
      if cop \<noteq> 0 \<or> current_usermode c then (exception cn EX_CPU cop 0 m, None)
      else
        case c0reg_of (REGSEL reg sel) of
          Some C0_INDEX \<Rightarrow> (m, Some (getindex c))
        | Some C0_RANDOM \<Rightarrow> (let (m1, v) = getrandom cn m in (m1, Some v))
        | Some C0_TLBLO \<Rightarrow> (m, Some (tlbgetlo (tlbentry c)))
        | Some C0_CONTEXT \<Rightarrow> (m, Some (ex_context c))
        | Some C0_VADDR \<Rightarrow> (m, Some (ex_vaddr c))
        | Some C0_COUNT \<Rightarrow> (m, Some (ex_count c))
        | Some C0_TLBHI \<Rightarrow> (m, Some (tlbgethi (tlbentry c)))
        | Some C0_COMPARE \<Rightarrow> (m, Some (ex_compare c))
        | Some C0_STATUS \<Rightarrow> (m, Some (getstatus c))
        | Some C0_CAUSE \<Rightarrow> (m, Some (getcause c))
        | Some C0_EPC \<Rightarrow> (m, Some (ex_epc c))
        | Some C0_PRID \<Rightarrow> (m, Some (ex_prid c))
        | Some C0_CFEAT \<Rightarrow> (m, Some (ex_cfeat c))
        | Some C0_IFEAT \<Rightarrow> (m, Some (ex_ifeat c))
        | Some (C0_CONFIG i) \<Rightarrow>
            if i = 0 then (m, Some (ex_config0 c))
            else if i = 1 then (m, Some (ex_config1 c))
            else (exception cn EX_RI cop 0 m, None)
        | None \<Rightarrow> (exception cn EX_RI cop 0 m, None))"

definition set_compare :: "u32 \<Rightarrow> mipscpu \<Rightarrow> mipscpu" where
  "set_compare greg c = c\<lparr>
     ex_compare := greg,
     ex_compare_used := True,
     ex_count := (if ex_count c > greg then 0 else ex_count c),
     irq_timer := False\<rparr>"

definition domt :: "nat \<Rightarrow> u32 \<Rightarrow> nat \<Rightarrow> nat \<Rightarrow> u32 \<Rightarrow> machine \<Rightarrow> machine" where
  "domt cn cop reg sel greg m =
     (if cop \<noteq> 0 \<or> current_usermode (mycpu m cn) then exception cn EX_CPU cop 0 m
      else
        case c0reg_of (REGSEL reg sel) of
          Some C0_INDEX \<Rightarrow> upd_cpu cn (setindex greg) m
        | Some C0_RANDOM \<Rightarrow> m
        | Some C0_TLBLO \<Rightarrow> upd_cpu cn (\<lambda>c. c\<lparr>tlbentry := tlbsetlo greg (tlbentry c)\<rparr>) m
        | Some C0_CONTEXT \<Rightarrow> upd_cpu cn (\<lambda>c. c\<lparr>ex_context := greg\<rparr>) m
        | Some C0_VADDR \<Rightarrow> upd_cpu cn (\<lambda>c. c\<lparr>ex_vaddr := greg\<rparr>) m
        | Some C0_COUNT \<Rightarrow> upd_cpu cn (\<lambda>c. c\<lparr>ex_count := greg\<rparr>) m
        | Some C0_TLBHI \<Rightarrow> upd_cpu cn (\<lambda>c. c\<lparr>tlbentry := tlbsethi greg (tlbentry c)\<rparr>) m
        | Some C0_COMPARE \<Rightarrow> upd_cpu cn (set_compare greg) m
        | Some C0_STATUS \<Rightarrow> setstatus cn greg m
        | Some C0_CAUSE \<Rightarrow> upd_cpu cn (setcause greg) m
        | Some C0_EPC \<Rightarrow> m
        | Some C0_PRID \<Rightarrow> m
        | Some C0_CFEAT \<Rightarrow> m
        | Some C0_IFEAT \<Rightarrow> m
        | Some (C0_CONFIG i) \<Rightarrow> m
        | None \<Rightarrow> exception cn EX_RI cop 0 m)"

definition dolwc :: "nat \<Rightarrow> u32 \<Rightarrow> machine \<Rightarrow> machine" where
  "dolwc cn cop m = exception cn EX_CPU cop 0 m"

definition doswc :: "nat \<Rightarrow> u32 \<Rightarrow> machine \<Rightarrow> machine" where
  "doswc cn cop m = exception cn EX_CPU cop 0 m"

section \<open>Lemmas\<close>

lemmas or_flags6 =
  or_flag [where k = 0, simplified] or_flag [where k = 1, simplified]
  or_flag [where k = 2, simplified] or_flag [where k = 3, simplified]
  or_flag [where k = 4, simplified] or_flag [where k = 5, simplified]

text \<open>Reading the status register returns the bits that were written, less those the
  processor does not keep.\<close>

theorem getstatus_status_regs: "getstatus (status_regs v c) = v AND 0xf040ff3f"
proof -
  have f: "(if v AND 2 ^ k \<noteq> 0 then x OR 2 ^ k else x) = x OR (v AND 2 ^ k)" for k and x :: u32
    by (rule or_flag)
  have "getstatus (status_regs v c) =
      v AND 0xf0000000 OR v AND 0x400000 OR v AND 0x8000 OR v AND (0x1000 OR 0x4000)
        OR v AND 0x2000 OR v AND 0x800 OR v AND 0x400 OR v AND 0x300
        OR v AND 0x20 OR v AND 0x10 OR v AND 8 OR v AND 4 OR v AND 2 OR v AND 1"
    using f [of 5] f [of 4] f [of 3] f [of 2] f [of 1] f [of 0]
    by (simp add: getstatus_def status_regs_def STATUS_defs Let_def or.assoc cong: if_cong)
  also have "\<dots> = v AND (0xf0000000 OR 0x400000 OR 0x8000 OR (0x1000 OR 0x4000) OR 0x2000 OR 0x800
      OR 0x400 OR 0x300 OR 0x20 OR 0x10 OR 8 OR 4 OR 2 OR 1)"
    by (simp only: bit.conj_disj_distrib)
  finally show ?thesis by simp
qed

text \<open>While the counter behind the random register is not negative, the reduced counter
  selects one of the entries 8 to 63.\<close>

lemma tlbrandom_reduce_range:
  assumes "0 \<le> tlbrandom c"
  shows "0 \<le> tlbrandom (tlbrandom_reduce c)" "tlbrandom (tlbrandom_reduce c) < RANDREG_MAX"
    "8 \<le> tlbrandom (tlbrandom_reduce c) + RANDREG_OFFSET"
    "tlbrandom (tlbrandom_reduce c) + RANDREG_OFFSET < int NTLB"
  using assms
  by (auto simp: tlbrandom_reduce_def RANDREG_MAX_def RANDREG_OFFSET_def signed_modulo_int_def NTLB_def
      sgn_if abs_if)

end
