(* ===== verification/Cpu_Control.thy ===== *)
theory Cpu_Control
  imports Mips_Cop0
begin

text \<open>
  The interface of the processor to the rest of the simulator (\<open>mipseb/mips.c\<close>): reset, turning
  cpus on and off, interrupt lines, the start address and stack of a cpu, and the debugger's
  access. \<open>cpus_ok\<close> is the invariant between \<open>cpu_running_mask\<close> and the states of the cpus.
\<close>

section \<open>Reset\<close>

definition reset_config0 :: u32 where
  "reset_config0 = 0x80000000 OR 0x00008000 OR 0x00000000 OR 0x00000000 OR 0x000003f0 OR 3"

definition CONFIG1_MK_CACHE :: "u32 \<Rightarrow> u32 \<Rightarrow> u32 \<Rightarrow> u32" where
  "CONFIG1_MK_CACHE s l a = push_bit 6 s OR push_bit 3 l OR a"

definition reset_config1 :: u32 where
  "reset_config1 =
     push_bit 25 (of_nat NTLB - 1) OR push_bit 16 (CONFIG1_MK_CACHE 0 3 (4 - 1))
       OR push_bit 7 (CONFIG1_MK_CACHE 0 3 (4 - 1))"

text \<open>\<open>mips_init\<close> up to the lookup of the two program counters.\<close>

definition mips_init_regs :: "nat \<Rightarrow> mipscpu \<Rightarrow> mipscpu" where
  "mips_init_regs n c = c\<lparr>
     cpu_state := CPU_DISABLED, cpunum := n,
     regs := (\<lambda>i. if i < 32 then 0 else regs c i),
     lo_reg := 0, hi_reg := 0, lowait := 0, hiwait := 0,
     tlb := (\<lambda>i. if i < NTLB then reset_tlbentry i else tlb c i),
     tlbentry := reset_tlbentry NTLB, tlbindex := 0, tlbpf := False, tlbrandom := RANDREG_MAX - 1,
     old_usermode := False, old_irqon := False, prev_usermode := False, prev_irqon := False,
     current_usermode := False, current_irqon := False,
     status_hardmask_lb := 0, status_hardmask_ipi := 0, status_hardmask_fpu := 0,
     status_hardmask_void := 0, status_hardmask_timer := 0, status_softmask := 0,
     status_bootvectors := STATUS_BOOTVECTORS, status_copenable := 0,
     cause_bd := False, cause_ce := 0, cause_softirq := 0, cause_code := 0,
     ex_config0 := reset_config0, ex_config1 := reset_config1, ex_config2 := 0, ex_config3 := 0,
     ex_config4 := 0, ex_config5 := 0, ex_config6 := 0, ex_config7 := 0,
     ex_context := 0, ex_epc := 0, ex_vaddr := 0, ex_prid := 0x00a1, ex_cfeat := 0, ex_ifeat := 0,
     ex_count := 1, ex_compare := 0, ex_compare_used := False,
     irq_lamebus := False, irq_ipi := False, irq_timer := False,
     ll_active := False, ll_addr := 0, ll_value := 0,
     jumping := False, in_jumpdelay := False, expc := 0,
     pc := 0xbfc00000, nextpc := 0xbfc00004\<rparr>"

definition mips_init :: "nat \<Rightarrow> machine \<Rightarrow> machine" where
  "mips_init n m =
     (let m1 = upd_cpu n (mips_init_regs n) m;
          (m2, ok2) = precompute_pc n m1;
          m2' = (if ok2 then m2 else smoke m2);
          (m3, ok3) = precompute_nextpc n m2'
      in if ok3 then m3 else smoke m3)"

definition cpu_init :: "nat \<Rightarrow> machine \<Rightarrow> machine" where
  "cpu_init numcpus m =
     (if \<not> numcpus \<le> 32 then smoke m
      else
        let m1 = m\<lparr>ncpus := numcpus\<rparr>;
            m2 = fold mips_init [0..<numcpus] m1;
            m3 = upd_cpu 0 (\<lambda>c. c\<lparr>cpu_state := CPU_RUNNING\<rparr>) m2
        in m3\<lparr>cpu_running_mask := 1\<rparr>)"

section \<open>Turning cpus on and off\<close>

definition cpu_numcpus :: "machine \<Rightarrow> nat" where
  "cpu_numcpus m = ncpus m"

definition cpu_enable :: "nat \<Rightarrow> machine \<Rightarrow> machine" where
  "cpu_enable n m =
     (if \<not> n < ncpus m then smoke m
      else running_mask_on n (upd_cpu n (\<lambda>c. c\<lparr>cpu_state := CPU_RUNNING\<rparr>) m))"

definition cpu_disable :: "nat \<Rightarrow> machine \<Rightarrow> machine" where
  "cpu_disable n m =
     (if \<not> n < ncpus m then smoke m
      else running_mask_off n (upd_cpu n (\<lambda>c. c\<lparr>cpu_state := CPU_DISABLED\<rparr>) m))"

definition cpu_enabled :: "nat \<Rightarrow> machine \<Rightarrow> machine \<times> bool" where
  "cpu_enabled n m =
     (if \<not> n < ncpus m then (smoke m, False)
      else (m, cpu_state (mycpu m n) \<noteq> CPU_DISABLED))"

definition cpu_set_irqs :: "nat \<Rightarrow> bool \<Rightarrow> bool \<Rightarrow> machine \<Rightarrow> machine" where
  "cpu_set_irqs n lamebus ipi m =
     (if \<not> n < ncpus m then smoke m
      else
        let m1 = upd_cpu n (\<lambda>c. c\<lparr>irq_lamebus := lamebus, irq_ipi := ipi\<rparr>) m in
        if cpu_state (mycpu m1 n) = CPU_IDLE \<and> (lamebus \<or> ipi)
        then running_mask_on n (upd_cpu n (\<lambda>c. c\<lparr>cpu_state := CPU_RUNNING\<rparr>) m1)
        else m1)"

section \<open>Loading and starting a kernel\<close>

text \<open>\<open>BETWEEN\<close> with its 32-bit arithmetic.\<close>

definition between :: "u32 \<Rightarrow> u32 \<Rightarrow> u32 \<Rightarrow> u32 \<Rightarrow> bool" where
  "between addr sz base lim \<longleftrightarrow> addr \<ge> base \<and> sz \<le> lim - base \<and> addr + sz < lim"

definition cpu_get_load_paddr :: "u32 \<Rightarrow> u32 \<Rightarrow> u32 option" where
  "cpu_get_load_paddr vaddr sz =
     (if \<not> between vaddr sz KSEG0 KSEG2 then None
      else if vaddr \<ge> KSEG1 then Some (vaddr - KSEG1) else Some (vaddr - KSEG0))"

definition cpu_get_load_vaddr :: "u32 \<Rightarrow> u32 \<Rightarrow> u32 option" where
  "cpu_get_load_vaddr paddr sz =
     (if \<not> between paddr sz 0 (KSEG1 - KSEG0) then None else Some (paddr + KSEG0))"

definition cpu_get_ram_paddr :: u32 where
  "cpu_get_ram_paddr = 0"

definition entry_regs :: "u32 \<Rightarrow> mipscpu \<Rightarrow> mipscpu" where
  "entry_regs addr c = c\<lparr>regs := (regs c)(25 := addr), expc := addr, pc := addr, nextpc := addr + 4\<rparr>"

definition cpu_set_entrypoint :: "nat \<Rightarrow> u32 \<Rightarrow> machine \<Rightarrow> machine" where
  "cpu_set_entrypoint n addr0 m =
     (if \<not> n < ncpus m then smoke m
      else
        let bad = addr0 AND 0x3 \<noteq> 0;
            m1 = (if bad then hang m else m);
            addr = (if bad then addr0 AND 0xfffffffc else addr0);
            m2 = upd_cpu n (entry_regs addr) m1;
            (m3, ok3) = precompute_pc n m2;
            m3' = (if ok3 then m3 else hang m3);
            (m4, ok4) = precompute_nextpc n m3'
        in if ok4 then m4 else hang m4)"

definition cpu_set_stack :: "nat \<Rightarrow> u32 \<Rightarrow> u32 \<Rightarrow> machine \<Rightarrow> machine" where
  "cpu_set_stack n stackaddr argument m =
     (if \<not> n < ncpus m then smoke m
      else upd_cpu n (\<lambda>c. c\<lparr>regs := (regs c)(29 := stackaddr, 4 := argument)\<rparr>) m)"

definition cpu_get_secondary_start_stack :: "u32 \<Rightarrow> u32" where
  "cpu_get_secondary_start_stack lboffset = KSEG0 + 0x1fe00000 + lboffset"

section \<open>The debugger's access\<close>

definition cpudebug_get_break_cpu :: "machine \<Rightarrow> nat" where
  "cpudebug_get_break_cpu m =
     (case find (\<lambda>i. hit_breakpoint (mycpu m i)) [0..<ncpus m] of Some i \<Rightarrow> i | None \<Rightarrow> 0)"

definition cpudebug_fetch_byte :: "nat \<Rightarrow> u32 \<Rightarrow> machine \<Rightarrow> machine \<times> u8 option" where
  "cpudebug_fetch_byte n va m =
     (if \<not> n < ncpus m then (smoke m, None)
      else case debug_translatemem (mycpu m n) (va AND 0xfffffffc) False of
        None \<Rightarrow> (m, None)
      | Some pa \<Rightarrow> (m, bus_mem_fetchbyte m (pa OR (va AND 3))))"

definition cpudebug_fetch_word :: "nat \<Rightarrow> u32 \<Rightarrow> machine \<Rightarrow> machine \<times> u32 option" where
  "cpudebug_fetch_word n va m =
     (if \<not> n < ncpus m then (smoke m, None)
      else case debug_translatemem (mycpu m n) va False of
        None \<Rightarrow> (m, None)
      | Some pa \<Rightarrow> (m, bus_mem_fetch m pa))"

text \<open>The flag is true when the function returned 0.\<close>

definition cpudebug_store_byte :: "nat \<Rightarrow> u32 \<Rightarrow> u8 \<Rightarrow> machine \<Rightarrow> machine \<times> bool" where
  "cpudebug_store_byte n va b m =
     (if \<not> n < ncpus m then (smoke m, False)
      else case debug_translatemem (mycpu m n) va True of
        None \<Rightarrow> (m, False)
      | Some pa \<Rightarrow>
          case bus_mem_storebyte pa b m of None \<Rightarrow> (m, False) | Some m1 \<Rightarrow> (m1, True))"

definition cpudebug_store_word :: "nat \<Rightarrow> u32 \<Rightarrow> u32 \<Rightarrow> machine \<Rightarrow> machine \<times> bool" where
  "cpudebug_store_word n va w m =
     (if \<not> n < ncpus m then (smoke m, False)
      else case debug_translatemem (mycpu m n) va True of
        None \<Rightarrow> (m, False)
      | Some pa \<Rightarrow>
          case bus_mem_store pa w m of None \<Rightarrow> (m, False) | Some m1 \<Rightarrow> (m1, True))"

text \<open>The registers in the debugger's order, no more than there is room for, and the number of
  them all.\<close>

definition cpudebug_getregs :: "nat \<Rightarrow> nat \<Rightarrow> machine \<Rightarrow> machine \<times> u32 list \<times> nat" where
  "cpudebug_getregs n maxregs m =
     (let m0 = (if \<not> n < ncpus m then smoke m else m);
          c = mycpu m0 n;
          (m1, rnd) = getrandom n m0;
          vals = map (regs c) [0..<32] @
            [getstatus c, lo_reg c, hi_reg c, ex_vaddr c, getcause c, pc c, 0, 0, 0, getindex c,
             rnd, tlbgetlo (tlbentry c), ex_context c, tlbgethi (tlbentry c), ex_epc c, ex_prid c]
      in (m1, take maxregs vals, length vals))"

definition cpuprof_sample :: "machine \<Rightarrow> u32" where
  "cpuprof_sample m = pc (mycpu m 0)"

section \<open>The running mask\<close>

text \<open>The mask holds one bit for every cpu that is running, and no other bits.\<close>

definition cpus_ok :: "machine \<Rightarrow> bool" where
  "cpus_ok m \<longleftrightarrow>
     ncpus m \<le> 32 \<and> (\<forall>i<ncpus m. cpunum (mycpu m i) = i) \<and>
     (\<forall>i<32. bit (cpu_running_mask m) i \<longleftrightarrow> i < ncpus m \<and> cpu_state (mycpu m i) = CPU_RUNNING)"

text \<open>What the invariant looks at.\<close>

definition cpus_same :: "machine \<Rightarrow> machine \<Rightarrow> bool" where
  "cpus_same m m' \<longleftrightarrow>
     ncpus m' = ncpus m \<and> cpu_running_mask m' = cpu_running_mask m \<and>
     (\<forall>i. cpu_state (mycpu m' i) = cpu_state (mycpu m i) \<and> cpunum (mycpu m' i) = cpunum (mycpu m i))"

lemma cpus_same_ok: "cpus_same m m' \<Longrightarrow> cpus_ok m' = cpus_ok m"
  by (simp add: cpus_same_def cpus_ok_def)

lemma cpus_same_refl [simp]: "cpus_same m m"
  by (simp add: cpus_same_def)

lemma cpus_same_trans: "cpus_same a b \<Longrightarrow> cpus_same b c \<Longrightarrow> cpus_same a c"
  by (simp add: cpus_same_def)

lemma cpus_same_upd_cpu:
  "cpu_state (f (mycpu m cn)) = cpu_state (mycpu m cn) \<Longrightarrow>
   cpunum (f (mycpu m cn)) = cpunum (mycpu m cn) \<Longrightarrow> cpus_same m (upd_cpu cn f m)"
  by (simp add: cpus_same_def)

lemma cpus_same_hang [simp]: "cpus_same m (hang m)"
  by (simp add: cpus_same_def)

lemma cpus_same_raise_fault [simp]: "cpus_same m (raise_fault f m)"
  by (simp add: cpus_same_def raise_fault_def)

lemma cpus_same_smoke [simp]: "cpus_same m (smoke m)"
  by (simp add: smoke_def)

lemma cpus_same_exn_frame:
  assumes "exn_frame cn m m'"
  shows "cpus_same m m'"
proof -
  have "cpu_state (mycpu m' i) = cpu_state (mycpu m i) \<and> cpunum (mycpu m' i) = cpunum (mycpu m i)" for i
    using assms exn_frame_sels(18) [OF assms, of i]
    by (cases "i = cn") (simp_all add: exn_frame_def exn_cpu_frame_def)
  then show ?thesis using exn_frame_sels [OF assms] by (simp add: cpus_same_def)
qed

lemmas cpus_same_exn = exn_frames [THEN cpus_same_exn_frame]

lemma cpus_ok_cpunum: "cpus_ok m \<Longrightarrow> i < ncpus m \<Longrightarrow> cpunum (mycpu m i) = i \<and> i < 32"
  by (auto simp: cpus_ok_def)

text \<open>Changing one cpu's state together with its bit.\<close>

lemma cpus_ok_mask_on:
  assumes "cpus_ok m" "n < ncpus m"
  shows "cpus_ok (running_mask_on n (upd_cpu n (\<lambda>c. c\<lparr>cpu_state := CPU_RUNNING\<rparr>) m))"
  using assms by (auto simp: cpus_ok_def running_mask_on_def)

lemma cpus_ok_mask_off:
  assumes "cpus_ok m" "n < ncpus m" "st \<noteq> CPU_RUNNING"
  shows "cpus_ok (running_mask_off n (upd_cpu n (\<lambda>c. c\<lparr>cpu_state := st\<rparr>) m))"
  using assms by (auto simp: cpus_ok_def running_mask_off_def)

lemma cpus_ok_enable: "cpus_ok m \<Longrightarrow> cpus_ok (cpu_enable n m)"
  by (simp add: cpu_enable_def cpus_ok_mask_on cpus_same_ok [OF cpus_same_smoke])

lemma cpus_ok_disable: "cpus_ok m \<Longrightarrow> cpus_ok (cpu_disable n m)"
  by (simp add: cpu_disable_def cpus_ok_mask_off cpus_same_ok [OF cpus_same_smoke])

lemma cpus_ok_set_irqs: "cpus_ok m \<Longrightarrow> cpus_ok (cpu_set_irqs n lb ipi m)"
proof -
  assume "cpus_ok m"
  then have "cpus_ok (upd_cpu n (\<lambda>c. c\<lparr>irq_lamebus := lb, irq_ipi := ipi\<rparr>) m)"
    by (subst cpus_same_ok [OF cpus_same_upd_cpu]) simp_all
  with \<open>cpus_ok m\<close> show ?thesis
    by (simp add: cpu_set_irqs_def Let_def cpus_ok_mask_on cpus_same_ok [OF cpus_same_smoke]
        del: upd_cpu_upd_cpu)
qed

lemma cpus_ok_do_wait:
  assumes "cpus_ok m" "n < ncpus m"
  shows "cpus_ok (do_wait n m)"
  using assms cpus_ok_mask_off [OF assms, of CPU_IDLE] cpus_ok_cpunum [OF assms]
  by (simp add: do_wait_def Let_def)

section \<open>Reset brings the cpus up\<close>

lemma mips_init_regs_simps:
  "cpu_state (mips_init_regs n c) = CPU_DISABLED" "cpunum (mips_init_regs n c) = n"
  "pc (mips_init_regs n c) = 0xbfc00000" "\<not> current_usermode (mips_init_regs n c)"
  "\<not> current_irqon (mips_init_regs n c)" "\<not> prev_usermode (mips_init_regs n c)"
  "\<not> prev_irqon (mips_init_regs n c)" "\<not> old_usermode (mips_init_regs n c)"
  "\<not> old_irqon (mips_init_regs n c)" "status_copenable (mips_init_regs n c) = 0"
  "status_hardmask_lb (mips_init_regs n c) = 0" "status_hardmask_ipi (mips_init_regs n c) = 0"
  "status_hardmask_fpu (mips_init_regs n c) = 0" "status_hardmask_void (mips_init_regs n c) = 0"
  "status_hardmask_timer (mips_init_regs n c) = 0" "status_softmask (mips_init_regs n c) = 0"
  "status_bootvectors (mips_init_regs n c) = STATUS_BOOTVECTORS"
  by (simp_all add: mips_init_regs_def)

lemma mips_init_lookup:
  "mips_init n m =
    upd_cpu n (\<lambda>c. (mips_init_regs n c)\<lparr>pcpage := Some (Rom_page 0), pcoff := 0,
       nextpcpage := Some (Rom_page 0), nextpcoff := 4\<rparr>) m"
proof -
  let ?m1 = "upd_cpu n (mips_init_regs n) m"
  let ?m2 = "upd_cpu n (\<lambda>c. c\<lparr>pcpage := Some (Rom_page 0), pcoff := 0\<rparr>) ?m1"
  have pc: "pc (mycpu ?m1 n) = 0xbfc00000" "nextpc (mycpu ?m2 n) = 0xbfc00004"
    "current_usermode (mycpu ?m1 n) = False" "current_usermode (mycpu ?m2 n) = False"
    by (simp_all add: mips_init_regs_def)
  have "translatemem_with (exception n) n 0xbfc00000 False ?m1 = (?m1, Some 0x1fc00000)"
    by (simp only: translatemem_with_def Let_def pc) simp
  from precompute_pc_ok [of "exception n" n ?m1, unfolded pc, OF this, of "Rom_page 0"]
  have 1: "precompute_pc n ?m1 = (?m2, True)"
    by (simp add: precompute_pc_def mapmem_def bootrom_map_def ROMWORDS_def)
  have "translatemem_with (exception n) n 0xbfc00004 False ?m2 = (?m2, Some 0x1fc00004)"
    by (simp only: translatemem_with_def Let_def pc) simp
  from precompute_nextpc_ok [of "exception n" n ?m2, unfolded pc, OF this, of "Rom_page 0"]
  have 2: "precompute_nextpc n ?m2 =
      (upd_cpu n (\<lambda>c. c\<lparr>nextpcpage := Some (Rom_page 0), nextpcoff := 4\<rparr>) ?m2, True)"
    by (simp add: precompute_nextpc_def mapmem_def bootrom_map_def ROMWORDS_def)
  show ?thesis
    by (simp only: mips_init_def Let_def 1 2 prod.case if_True) simp
qed

lemma fold_mips_init:
  "mycpus (fold mips_init [0..<n] m) i =
     (if i < n then (mips_init_regs i (mycpus m i))\<lparr>pcpage := Some (Rom_page 0), pcoff := 0,
       nextpcpage := Some (Rom_page 0), nextpcoff := 4\<rparr> else mycpus m i) \<and>
   ncpus (fold mips_init [0..<n] m) = ncpus m \<and>
   fault_state (fold mips_init [0..<n] m) = fault_state m"
  by (induction n) (auto simp: mips_init_lookup less_Suc_eq)

text \<open>After \<open>cpu_init\<close> exactly cpu 0 is running, every cpu starts in kernel mode at the
  boot ROM with interrupts off and a TLB free of duplicates, and the running mask is right.\<close>

theorem cpu_init_establishes:
  assumes "0 < n" "n \<le> 32"
  shows "let m' = cpu_init n m in
    cpus_ok m' \<and> ncpus m' = n \<and> fault_state m' = fault_state m \<and>
    (\<forall>i<n. let c = mycpu m' i in
       (cpu_state c = CPU_RUNNING \<longleftrightarrow> i = 0) \<and> cpunum c = i \<and> tlb_wf c \<and>
       pc c = 0xbfc00000 \<and> pcpage c = Some (Rom_page 0) \<and> \<not> current_usermode c \<and>
       \<not> current_irqon c \<and> getstatus c = STATUS_BOOTVECTORS)"
proof -
  let ?m' = "cpu_init n m"
  have c: "mycpu ?m' i = (let c = (mips_init_regs i (mycpus m i))\<lparr>pcpage := Some (Rom_page 0),
      pcoff := 0, nextpcpage := Some (Rom_page 0), nextpcoff := 4\<rparr>
    in if i = 0 then c\<lparr>cpu_state := CPU_RUNNING\<rparr> else c)" if "i < n" for i
    using that assms fold_mips_init [of n "m\<lparr>ncpus := n\<rparr>" i]
    by (cases "i = 0") (simp_all add: cpu_init_def Let_def)
  have f: "ncpus ?m' = n" "fault_state ?m' = fault_state m" "cpu_running_mask ?m' = 1"
    using assms fold_mips_init [of n "m\<lparr>ncpus := n\<rparr>"] by (simp_all add: cpu_init_def Let_def)
  have t: "tlb_wf (mycpu ?m' i)" if "i < n" for i
    by (rule tlb_wf_reset) (simp add: c that mips_init_regs_def Let_def)
  note mips_init_regs_simps [simp]
  have s: "cpu_state (mycpu ?m' i) = (if i = 0 then CPU_RUNNING else CPU_DISABLED)"
    "cpunum (mycpu ?m' i) = i" "pc (mycpu ?m' i) = 0xbfc00000"
    "pcpage (mycpu ?m' i) = Some (Rom_page 0)" "\<not> current_usermode (mycpu ?m' i)"
    "\<not> current_irqon (mycpu ?m' i)" "getstatus (mycpu ?m' i) = STATUS_BOOTVECTORS" if "i < n" for i
    unfolding c [OF that] by (simp_all add: Let_def getstatus_def)
  have r: "cpu_state (mycpu ?m' i) = CPU_RUNNING \<longleftrightarrow> i = 0" if "i < n" for i
    by (simp add: s(1) [OF that])
  have "cpus_ok ?m'"
    using assms by (auto simp: cpus_ok_def f s(2) r bit_1_iff)
  then show ?thesis using t by (simp add: Let_def f s(2-) r)
qed

section \<open>Loading\<close>

lemma between_iff:
  assumes "unat addr + unat sz < 2 ^ 32"
  shows "between addr sz base lim \<longleftrightarrow>
    unat base \<le> unat addr \<and> sz \<le> lim - base \<and> unat addr + unat sz < unat lim"
proof -
  have "unat (addr + sz) = unat addr + unat sz" using assms by (simp add: unat_plus_if_size word_size)
  then show ?thesis by (simp add: between_def word_le_nat_alt word_less_nat_alt)
qed

text \<open>A physical range that fits in the direct-mapped segment is loaded at the virtual
  address that the processor translates back to it.\<close>

theorem load_vaddr_roundtrip:
  assumes "cpu_get_load_vaddr pa sz = Some va" "unat pa + unat sz < 2 ^ 32"
  shows "cpu_get_load_paddr va sz = Some pa \<and> va AND 0x1fffffff = pa"
proof -
  have b: "unat pa + unat sz < 0x20000000" "va = pa + KSEG0"
    using assms(1) by (auto simp: cpu_get_load_vaddr_def between_iff [OF assms(2)] KSEG0_def KSEG1_def
        split: if_splits)
  have u: "unat va = unat pa + 0x80000000"
    using b by (simp add: unat_plus_if_size word_size KSEG0_def)
  have bt: "between va sz KSEG0 KSEG2"
    using b(1) u by (subst between_iff) (simp_all add: KSEG0_def KSEG2_def word_le_nat_alt)
  have "\<not> va \<ge> KSEG1" using b(1) u by (simp add: word_le_nat_alt KSEG1_def)
  moreover have "va AND 0x1fffffff = va - KSEG0" using b(1) u by (intro kseg0_and) simp_all
  ultimately show ?thesis using bt b(2) by (simp add: cpu_get_load_paddr_def)
qed

text \<open>The range check is about 32-bit sums: a range that wraps past the end of the address
  space passes it.\<close>

theorem load_paddr_accepts_wrapped:
  "cpu_get_load_paddr 0xfffffff0 0x20 = Some 0x5ffffff0"
  by (simp add: cpu_get_load_paddr_def between_def KSEG0_def KSEG1_def KSEG2_def)

section \<open>The debugger and the processor see the same memory\<close>

text \<open>A byte store through the debugger fails at every address that is not a multiple of
  four, where a byte fetch succeeds.\<close>

theorem cpudebug_store_byte_unaligned:
  assumes "n < ncpus m" "va AND 3 \<noteq> 0"
  shows "cpudebug_store_byte n va b m = (m, False)"
  using assms by (simp add: cpudebug_store_byte_def debug_translatemem_def)

end
