(* ===== verification/Clock.thy ===== *)
theory Clock
  imports Cpu_Control "HOL-Library.Multiset"
begin

text \<open>
  The clock (\<open>main/clock.c\<close>, \<open>include/speed.h\<close>): virtual time, the queue of timed events, how
  long the cpus may run before the next one, and the time of day. Dispatching the events needs
  the devices and is in \<open>Dispatch\<close>.

  The pool of 1024 \<open>timed_action\<close> structures is the number \<open>ta_free\<close> of free ones. The delay that
  \<open>schedule_event\<close> adds is computed in floating point from a random number; which number it is
  depends on the host's arithmetic, so it is the parameter \<open>host_jitter\<close>.
\<close>

section \<open>Virtual time\<close>

definition NSECS_PER_CLOCK :: u64 where "NSECS_PER_CLOCK = 40"
definition NSECS_PER_SEC :: u64 where "NSECS_PER_SEC = 1000000000"

definition clock_vnow :: "machine \<Rightarrow> u64" where
  "clock_vnow m = virtual_now m + NSECS_PER_CLOCK * cpu_cycles_count m + extra_selecttime m"

definition clock_vadvance :: "u64 \<Rightarrow> machine \<Rightarrow> machine" where
  "clock_vadvance nsecs m = m\<lparr>virtual_now := virtual_now m + nsecs\<rparr>"

definition clock_newprogressdeadline :: "machine \<Rightarrow> machine" where
  "clock_newprogressdeadline m = m\<lparr>progress_deadline := clock_vnow m + progress_timeout m\<rparr>"

definition clock_coreinit :: "u32 \<Rightarrow> machine \<Rightarrow> machine" where
  "clock_coreinit tv_sec m = m\<lparr>start_secs := tv_sec, start_nsecs := 0, virtual_now := 0\<rparr>"

text \<open>\<open>tv_sec\<close> and \<open>tv_usec\<close> are what \<open>gettimeofday\<close> returned.\<close>

definition clock_vahead :: "int \<Rightarrow> int \<Rightarrow> u64 \<Rightarrow> u64 \<Rightarrow> machine \<Rightarrow> u64" where
  "clock_vahead tv_sec tv_usec vnow vnsecs m =
     (if tv_sec < uint (start_secs m) then 0
      else
        let sec = tv_sec - uint (start_secs m);
            pnsecs = of_int sec * NSECS_PER_SEC + of_int (tv_usec * 1000);
            pnsecs = pnsecs - ucast (start_nsecs m)
        in if vnsecs \<le> pnsecs then 0
           else if vnow \<le> pnsecs then vnsecs - pnsecs
           else vnsecs - vnow)"

section \<open>The event queue\<close>

definition MAXACTIONS :: nat where "MAXACTIONS = 1024"

definition acfree :: "machine \<Rightarrow> machine" where
  "acfree m = m\<lparr>ta_free := ta_free m + 1\<rparr>"

definition acalloc_init :: "machine \<Rightarrow> machine" where
  "acalloc_init m = fold (\<lambda>i. acfree) [0..<MAXACTIONS] m"

text \<open>The sorted insert. The flag says that the event after the new one had told the cpus they
  could run up to it.\<close>

fun event_insert :: "timed_action \<Rightarrow> timed_action list \<Rightarrow> timed_action list \<times> bool" where
  "event_insert n [] = ([n], False)"
| "event_insert n (p # q) =
     (if ta_vtime n < ta_vtime p then (n # p\<lparr>ta_runningto := False\<rparr> # q, ta_runningto p)
      else let (q', stop) = event_insert n q in (p # q', stop))"

definition host_next_random :: "machine \<Rightarrow> machine \<times> u32" where
  "host_next_random m = (m\<lparr>random_pos := Suc (random_pos m)\<rparr>, host_random m (random_pos m))"

definition schedule_event :: "u64 \<Rightarrow> nat \<Rightarrow> u32 \<Rightarrow> ta_func \<Rightarrow> machine \<Rightarrow> machine" where
  "schedule_event nsecs0 data code func m =
     (let (m1, rnd) = host_next_random m;
          nsecs = nsecs0 + host_jitter m rnd nsecs0
      in if ta_free m1 = 0 then smoke m1
         else
           let m2 = m1\<lparr>ta_free := ta_free m1 - 1\<rparr>;
               n = \<lparr>ta_vtime = clock_vnow m2 + nsecs, ta_data = data, ta_code = code,
                    ta_call = func, ta_runningto = False\<rparr>;
               (q, stop) = event_insert n (event_queue m2);
               m3 = m2\<lparr>event_queue := q\<rparr>
           in if stop then cpu_stopcycling m3 else m3)"

section \<open>Running up to the next event\<close>

definition MAXRUN :: u32 where "MAXRUN = 125000"

definition clock_getrunticks :: "machine \<Rightarrow> machine \<times> u32" where
  "clock_getrunticks m =
     (case event_queue m of
        [] \<Rightarrow> (m, MAXRUN)
      | ta # q \<Rightarrow>
          let vnow = clock_vnow m in
          if ta_vtime ta \<le> vnow then (m, 0)
          else if ta_vtime ta < vnow + ucast MAXRUN * NSECS_PER_CLOCK then
            let retnsecs = (ucast (ta_vtime ta - vnow) :: u32);
                retnsecs = retnsecs + (ucast NSECS_PER_CLOCK - 1)
            in (m\<lparr>event_queue := ta\<lparr>ta_runningto := True\<rparr> # q\<rparr>, retnsecs div ucast NSECS_PER_CLOCK)
          else (m, MAXRUN))"

section \<open>Time of day\<close>

text \<open>The products and sums are 64-bit and cut to 32 bits when they are stored.\<close>

definition clock_time :: "machine \<Rightarrow> u32 \<times> u32" where
  "clock_time m =
     (let now = clock_vnow m;
          secs = (ucast (ucast (start_secs m) + now div NSECS_PER_SEC) :: u32);
          nsecs = (ucast (ucast (start_nsecs m) + now mod NSECS_PER_SEC) :: u32)
      in if ucast nsecs > NSECS_PER_SEC then (secs + 1, nsecs - ucast NSECS_PER_SEC)
         else (secs, nsecs))"

definition clock_monotime :: "machine \<Rightarrow> u64" where
  "clock_monotime m = clock_vnow m"

definition clock_setsecs :: "u32 \<Rightarrow> machine \<Rightarrow> machine" where
  "clock_setsecs newsecs m =
     (let now = clock_vnow m;
          oldsecs = (ucast (ucast (start_secs m) + now div NSECS_PER_SEC) :: u32);
          offset = newsecs - oldsecs
      in m\<lparr>start_secs := start_secs m + offset\<rparr>)"

definition clock_setnsecs :: "u32 \<Rightarrow> machine \<Rightarrow> machine" where
  "clock_setnsecs newnsecs m =
     (let now = clock_vnow m;
          oldnsecs = (ucast (ucast (start_nsecs m) + now mod NSECS_PER_SEC) :: u32);
          offset = newnsecs - oldnsecs
      in m\<lparr>start_nsecs := start_nsecs m + offset\<rparr>)"

definition clock_setprogresstimeout :: "u32 \<Rightarrow> machine \<Rightarrow> machine" where
  "clock_setprogresstimeout secs m =
     clock_newprogressdeadline (m\<lparr>check_progress := True,
       progress_timeout := ucast secs * NSECS_PER_SEC\<rparr>)"

section \<open>The queue is a sorted queue\<close>

definition events_sorted :: "timed_action list \<Rightarrow> bool" where
  "events_sorted q \<longleftrightarrow> sorted (map ta_vtime q)"

text \<open>An event without the mark \<open>getrunticks\<close> leaves on it.\<close>

definition unmarked :: "timed_action \<Rightarrow> timed_action" where
  "unmarked e = e\<lparr>ta_runningto := False\<rparr>"

lemma unmarked_simps [simp]:
  "ta_vtime (unmarked e) = ta_vtime e" "ta_data (unmarked e) = ta_data e"
  "ta_code (unmarked e) = ta_code e" "ta_call (unmarked e) = ta_call e"
  "unmarked (e\<lparr>ta_runningto := b\<rparr>) = unmarked e"
  by (simp_all add: unmarked_def)

lemma event_insert_vtimes:
  "map ta_vtime (fst (event_insert n q)) =
     takeWhile (\<lambda>t. t \<le> ta_vtime n) (map ta_vtime q) @ ta_vtime n #
     dropWhile (\<lambda>t. t \<le> ta_vtime n) (map ta_vtime q)"
  by (induction q) (auto simp: not_le split: prod.split)

lemma event_insert_set:
  "ta_vtime ` set (fst (event_insert n q)) = insert (ta_vtime n) (ta_vtime ` set q)"
  by (induction q) (auto split: prod.split)

lemma event_insert_sorted: "events_sorted q \<Longrightarrow> events_sorted (fst (event_insert n q))"
proof (induction q)
  case (Cons p q)
  obtain q' s where q': "event_insert n q = (q', s)" by fastforce
  show ?case
  proof (cases "ta_vtime n < ta_vtime p")
    case True
    with Cons.prems show ?thesis by (auto simp: events_sorted_def intro: order.trans less_imp_le)
  next
    case False
    have "events_sorted q'" using Cons q' by (simp add: events_sorted_def)
    moreover have "\<forall>t\<in>ta_vtime ` set q'. ta_vtime p \<le> t"
      using event_insert_set [of n q] q' False Cons.prems by (auto simp: events_sorted_def)
    ultimately show ?thesis using False q' by (simp add: events_sorted_def)
  qed
qed (simp add: events_sorted_def)

lemma event_insert_mset:
  "image_mset unmarked (mset (fst (event_insert n q))) =
     add_mset (unmarked n) (image_mset unmarked (mset q))"
  by (induction q) (auto split: prod.split)

lemma event_insert_length [simp]: "length (fst (event_insert n q)) = Suc (length q)"
  by (induction q) (auto split: prod.split)

text \<open>Events of the same time stay in the order they were scheduled.\<close>

lemma event_insert_fifo:
  assumes "events_sorted q"
  shows "map unmarked (filter (\<lambda>e. ta_vtime e = t) (fst (event_insert n q))) =
    map unmarked (filter (\<lambda>e. ta_vtime e = t) q) @ (if ta_vtime n = t then [unmarked n] else [])"
  using assms
proof (induction q)
  case (Cons p q)
  obtain q' s where q': "event_insert n q = (q', s)" by fastforce
  show ?case
  proof (cases "ta_vtime n < ta_vtime p")
    case True
    then have "ta_vtime n \<noteq> ta_vtime e" if "e \<in> set (p # q)" for e
      using that Cons.prems by (auto simp: events_sorted_def)
    then have "filter (\<lambda>e. ta_vtime e = ta_vtime n) q = []" "ta_vtime p \<noteq> ta_vtime n"
      by (force simp: filter_empty_conv)+
    then show ?thesis using True by auto
  next
    case False
    then show ?thesis using Cons q' by (simp add: events_sorted_def)
  qed
qed simp

section \<open>Properties\<close>

lemma ta_free_cpu_stopcycling [simp]:
  "ta_free (cpu_stopcycling m) = ta_free m" "event_queue (cpu_stopcycling m) = event_queue m"
  "clock_vnow (cpu_stopcycling m) = clock_vnow m" "fault_state (cpu_stopcycling m) = fault_state m"
  by (simp_all add: cpu_stopcycling_def clock_vnow_def)

lemma schedule_event_eq:
  assumes "0 < ta_free m"
  shows "\<exists>nsecs. event_queue (schedule_event d dat code f m) =
      fst (event_insert \<lparr>ta_vtime = clock_vnow m + d + nsecs, ta_data = dat, ta_code = code,
        ta_call = f, ta_runningto = False\<rparr> (event_queue m)) \<and>
    nsecs = host_jitter m (host_random m (random_pos m)) d \<and>
    ta_free (schedule_event d dat code f m) = ta_free m - 1 \<and>
    clock_vnow (schedule_event d dat code f m) = clock_vnow m \<and>
    fault_state (schedule_event d dat code f m) = fault_state m"
  using assms
  by (auto simp: schedule_event_def host_next_random_def Let_def clock_vnow_def add.assoc cpu_stopcycling_def
      split: prod.split)

text \<open>C35: Scheduling adds exactly the new event, keeps the queue in order of time, puts the
  event behind those due at the same time, and takes one structure from the pool.\<close>

theorem schedule_event_queue:
  assumes "events_sorted (event_queue m)" "0 < ta_free m"
  shows "let m' = schedule_event d dat code f m;
             n = \<lparr>ta_vtime = clock_vnow m + (d + host_jitter m (host_random m (random_pos m)) d),
                  ta_data = dat, ta_code = code, ta_call = f, ta_runningto = False\<rparr>
    in events_sorted (event_queue m') \<and>
       image_mset unmarked (mset (event_queue m')) =
         add_mset n (image_mset unmarked (mset (event_queue m))) \<and>
       map unmarked (filter (\<lambda>e. ta_vtime e = ta_vtime n) (event_queue m')) =
         map unmarked (filter (\<lambda>e. ta_vtime e = ta_vtime n) (event_queue m)) @ [n] \<and>
       ta_free m' + length (event_queue m') = ta_free m + length (event_queue m) \<and>
       fault_state m' = fault_state m"
proof -
  let ?n = "\<lparr>ta_vtime = clock_vnow m + (d + host_jitter m (host_random m (random_pos m)) d),
    ta_data = dat, ta_code = code, ta_call = f, ta_runningto = False\<rparr>"
  have u: "unmarked ?n = ?n" by (simp add: unmarked_def)
  show ?thesis
    using schedule_event_eq [OF assms(2), of d dat code f] assms(2)
      event_insert_sorted [OF assms(1), of ?n] event_insert_mset [of ?n "event_queue m"]
      event_insert_fifo [OF assms(1), of "ta_vtime ?n" ?n] u
    by (auto simp: add.assoc Let_def)
qed

text \<open>An empty pool stops the simulator.\<close>

theorem schedule_event_pool_empty:
  assumes "ta_free m = 0" "fault_state m = None"
  shows "fault_state (schedule_event d dat code f m) = Some Smoke \<and>
    event_queue (schedule_event d dat code f m) = event_queue m"
  using assms by (simp add: schedule_event_def host_next_random_def smoke_def raise_fault_def)

text \<open>The cpus are told to run exactly until the next event is due, rounded up to a whole
  cycle, for at most \<open>MAXRUN\<close> cycles.\<close>

theorem getrunticks_reaches_event:
  assumes "event_queue m = e # q" "unat (clock_vnow m) + 5000000 < 2 ^ 64"
  shows "let t = unat (snd (clock_getrunticks m)); now = unat (clock_vnow m) in
    t \<le> 125000 \<and> (t = 0 \<longleftrightarrow> unat (ta_vtime e) \<le> now) \<and>
    (t < 125000 \<longrightarrow> unat (ta_vtime e) \<le> now + 40 * t) \<and>
    (0 < t \<longrightarrow> now + 40 * (t - 1) < unat (ta_vtime e))"
proof -
  let ?now = "unat (clock_vnow m)" and ?vt = "unat (ta_vtime e)"
  have mx: "unat (clock_vnow m + 5000000) = ?now + 5000000"
    using assms(2) by (simp add: unat_plus_if_size word_size)
  have le: "ta_vtime e \<le> clock_vnow m \<longleftrightarrow> ?vt \<le> ?now" by (simp add: word_le_nat_alt)
  have lt: "ta_vtime e < clock_vnow m + 5000000 \<longleftrightarrow> ?vt < ?now + 5000000"
    by (simp add: word_less_nat_alt mx)
  consider (due) "?vt \<le> ?now" | (soon) "?now < ?vt" "?vt < ?now + 5000000" | (late) "?now + 5000000 \<le> ?vt"
    by linarith
  then show ?thesis
  proof cases
    case due
    then show ?thesis by (simp add: clock_getrunticks_def assms(1) le)
  next
    case late
    then show ?thesis
      using le lt by (simp add: clock_getrunticks_def assms(1) MAXRUN_def NSECS_PER_CLOCK_def)
  next
    case soon
    define d where "d = ?vt - ?now"
    have d: "0 < d" "d < 5000000" using soon by (simp_all add: d_def)
    have "unat (ta_vtime e - clock_vnow m) = d"
      using soon by (simp add: unat_sub d_def word_le_nat_alt)
    then have u: "unat (ucast (ta_vtime e - clock_vnow m) :: u32) = d"
      using d by (simp add: unsigned_ucast_eq take_bit_nat_eq_self)
    have "unat (snd (clock_getrunticks m)) = (d + 39) div 40"
      using soon le lt d
      by (simp add: clock_getrunticks_def assms(1) MAXRUN_def NSECS_PER_CLOCK_def Let_def u
          unat_div_distrib unat_plus_if_size word_size)
    then show ?thesis using d soon by (simp add: Let_def d_def) linarith
  qed
qed

lemma clock_vnow_starts [simp]:
  "clock_vnow (m\<lparr>start_secs := s\<rparr>) = clock_vnow m" "clock_vnow (m\<lparr>start_nsecs := s\<rparr>) = clock_vnow m"
  by (simp_all add: clock_vnow_def)

lemma mod_pow_add:
  "(a mod 4294967296 + x) mod 18446744073709551616 mod 4294967296 =
   (a + x mod 18446744073709551616) mod (4294967296::int)"
proof -
  have "(a + x mod 18446744073709551616) mod 4294967296 = (a + x mod 18446744073709551616 mod 4294967296) mod 4294967296"
    by (simp only: mod_add_right_eq)
  then show ?thesis by (simp add: mod_mod_cancel mod_add_left_eq mod_add_right_eq)
qed

lemma ucast_add_32: "ucast (ucast (a::u32) + (x::u64)) = a + (ucast x :: u32)"
  by transfer (simp add: take_bit_eq_mod mod_pow_add)

lemma nsecs_less: "(now::u64) mod NSECS_PER_SEC < NSECS_PER_SEC"
  by (simp add: word_less_nat_alt unat_mod_distrib NSECS_PER_SEC_def)

lemma nsecs_small:
  "ucast (ucast ((now::u64) mod NSECS_PER_SEC) :: u32) = now mod NSECS_PER_SEC"
proof -
  have "unat (now mod NSECS_PER_SEC) < 2 ^ 32"
    using nsecs_less [of now] by (simp add: word_less_nat_alt NSECS_PER_SEC_def)
  then have "unat (ucast (ucast (now mod NSECS_PER_SEC) :: u32) :: u64) = unat (now mod NSECS_PER_SEC)"
    by (simp add: unsigned_ucast_eq unsigned_take_bit_eq take_bit_nat_eq_self)
  then show ?thesis by (simp only: word_unat_eq_iff)
qed

text \<open>Setting the seconds sets them, while the nanoseconds have never been set.\<close>

theorem clock_setsecs_time:
  assumes "start_nsecs m = 0"
  shows "fst (clock_time (clock_setsecs s m)) = s \<and>
    snd (clock_time (clock_setsecs s m)) = snd (clock_time m)"
  using assms nsecs_less [of "clock_vnow m"]
  by (simp add: clock_time_def clock_setsecs_def Let_def ucast_add_32 nsecs_small not_less less_imp_le)

text \<open>Setting the nanoseconds to zero half a second into a second makes the clock read
  2794967296 nanoseconds half a second later.\<close>

theorem clock_setnsecs_overflows:
  assumes "clock_vnow m = 500000000" "start_nsecs m = 0"
  shows "clock_time (clock_vadvance 500000000 (clock_setnsecs 0 m)) = (start_secs m + 2, 2794967296)"
proof -
  have "clock_vnow (clock_vadvance 500000000 (clock_setnsecs 0 m)) = 1000000000"
    using assms by (simp add: clock_vadvance_def clock_vnow_def clock_setnsecs_def Let_def algebra_simps)
  then show ?thesis
    using assms by (simp add: clock_time_def clock_vadvance_def clock_setnsecs_def Let_def NSECS_PER_SEC_def
        ucast_add_32)
qed

end
