(* ===== verification/Irq.thy ===== *)
theory Irq
  imports Clock
begin

text \<open>
  The interrupt dispatcher of the bus (\<open>bus/lamebus.c\<close>): the raised and enabled slots, and the
  lines to the cpus that follow from them. The locale \<open>irq_lines\<close> is what a device relies on when
  it raises, lowers and tests its own line; \<open>irq_ok\<close> is the consistency of lines and cpus,
  including that no cpu sleeps with an interrupt pending.
\<close>

section \<open>Operations\<close>

definition upd_lbcpu :: "nat \<Rightarrow> (lamebus_cpu \<Rightarrow> lamebus_cpu) \<Rightarrow> machine \<Rightarrow> machine" where
  "upd_lbcpu i f m = m\<lparr>lb_cpus := (lb_cpus m)(i := f (lb_cpus m i))\<rparr>"

definition irqupdate_cpu :: "u32 \<Rightarrow> nat \<Rightarrow> machine \<Rightarrow> machine" where
  "irqupdate_cpu pend i m =
     (let irq = (pend AND cpu_enabled_interrupts (lb_cpus m i) \<noteq> 0) in
      if irq \<noteq> cpu_interrupting (lb_cpus m i) then
        let m1 = upd_lbcpu i (\<lambda>c. c\<lparr>cpu_interrupting := irq\<rparr>) m
        in cpu_set_irqs i (cpu_interrupting (lb_cpus m1 i)) (cpu_ipi (lb_cpus m1 i)) m1
      else m)"

definition irqupdate :: "machine \<Rightarrow> machine" where
  "irqupdate m =
     (let pend = bus_raised_interrupts m AND bus_enabled_interrupts m
      in fold (irqupdate_cpu pend) [0..<ncpus m] m)"

definition raise_irq :: "nat \<Rightarrow> machine \<Rightarrow> machine" where
  "raise_irq slot m =
     irqupdate (m\<lparr>bus_raised_interrupts := bus_raised_interrupts m OR push_bit slot 1\<rparr>)"

definition lower_irq :: "nat \<Rightarrow> machine \<Rightarrow> machine" where
  "lower_irq slot m =
     irqupdate (m\<lparr>bus_raised_interrupts := bus_raised_interrupts m AND NOT (push_bit slot 1)\<rparr>)"

definition check_irq :: "nat \<Rightarrow> machine \<Rightarrow> bool" where
  "check_irq slot m \<longleftrightarrow> bus_raised_interrupts m AND push_bit slot 1 \<noteq> 0"

section \<open>What a line change leaves alone\<close>

text \<open>Only the two lines of a cpu, its state, the running mask, the bus's own copy of the line
  and the fault change.\<close>

definition set_lines :: "cpustates \<Rightarrow> bool \<Rightarrow> bool \<Rightarrow> mipscpu \<Rightarrow> mipscpu" where
  "set_lines st lb ipi c = c\<lparr>cpu_state := st, irq_lamebus := lb, irq_ipi := ipi\<rparr>"

definition put_lines ::
  "(nat \<Rightarrow> cpustates \<times> bool \<times> bool) \<Rightarrow> (nat \<Rightarrow> bool) \<Rightarrow> u32 \<Rightarrow> fault option \<Rightarrow> machine \<Rightarrow> machine" where
  "put_lines f g mk fl m = m\<lparr>
     mycpus := (\<lambda>i. case f i of (st, lb, ipi) \<Rightarrow> set_lines st lb ipi (mycpus m i)),
     lb_cpus := (\<lambda>i. (lb_cpus m i)\<lparr>cpu_interrupting := g i\<rparr>),
     cpu_running_mask := mk, fault_state := fl\<rparr>"

definition irq_frame :: "machine \<Rightarrow> machine \<Rightarrow> bool" where
  "irq_frame m m' \<longleftrightarrow> (\<exists>f g mk fl. m' = put_lines f g mk fl m)"

lemma set_lines_set_lines [simp]: "set_lines st lb ipi (set_lines st' lb' ipi' c) = set_lines st lb ipi c"
  by (simp add: set_lines_def)

lemma set_lines_self [simp]: "set_lines (cpu_state c) (irq_lamebus c) (irq_ipi c) c = c"
  by (simp add: set_lines_def)

lemma put_lines_put_lines: "put_lines f g mk fl (put_lines f' g' mk' fl' m) = put_lines f g mk fl m"
  by (simp add: put_lines_def fun_eq_iff split: prod.split)

definition cur_lines :: "machine \<Rightarrow> nat \<Rightarrow> cpustates \<times> bool \<times> bool" where
  "cur_lines m i = (cpu_state (mycpus m i), irq_lamebus (mycpus m i), irq_ipi (mycpus m i))"

lemma put_lines_self:
  "put_lines (cur_lines m) (\<lambda>i. cpu_interrupting (lb_cpus m i)) (cpu_running_mask m) (fault_state m) m = m"
  by (simp add: put_lines_def cur_lines_def)

lemma irq_frame_refl [simp]: "irq_frame m m"
  unfolding irq_frame_def using put_lines_self [of m] by metis

lemma irq_frame_trans: "irq_frame a b \<Longrightarrow> irq_frame b c \<Longrightarrow> irq_frame a c"
  unfolding irq_frame_def using put_lines_put_lines by blast

lemma irq_frame_set_lines:
  "irq_frame m (upd_cpu n (\<lambda>c. set_lines (st c) (lb c) (ipi c) c) m)"
proof -
  let ?c = "mycpus m n"
  have "upd_cpu n (\<lambda>c. set_lines (st c) (lb c) (ipi c) c) m =
      put_lines ((cur_lines m)(n := (st ?c, lb ?c, ipi ?c))) (\<lambda>i. cpu_interrupting (lb_cpus m i))
        (cpu_running_mask m) (fault_state m) m"
    by (simp add: upd_cpu_def put_lines_def cur_lines_def fun_eq_iff)
  then show ?thesis by (auto simp: irq_frame_def)
qed

lemma irq_frame_mask: "irq_frame m (running_mask_on n m)"
proof -
  have "running_mask_on n m =
      put_lines (cur_lines m) (\<lambda>i. cpu_interrupting (lb_cpus m i))
        (cpu_running_mask m OR push_bit n 1) (fault_state m) m"
    by (simp add: running_mask_on_def put_lines_def cur_lines_def)
  then show ?thesis unfolding irq_frame_def by blast
qed

lemma irq_frame_interrupting: "irq_frame m (upd_lbcpu n (\<lambda>c. c\<lparr>cpu_interrupting := b\<rparr>) m)"
proof -
  have "upd_lbcpu n (\<lambda>c. c\<lparr>cpu_interrupting := b\<rparr>) m =
      put_lines (cur_lines m) ((\<lambda>i. cpu_interrupting (lb_cpus m i))(n := b))
        (cpu_running_mask m) (fault_state m) m"
    by (simp add: upd_lbcpu_def put_lines_def cur_lines_def fun_eq_iff)
  then show ?thesis unfolding irq_frame_def by blast
qed

lemma irq_frame_raise_fault: "irq_frame m (raise_fault f m)"
proof -
  have "raise_fault f m =
      put_lines (cur_lines m) (\<lambda>i. cpu_interrupting (lb_cpus m i))
        (cpu_running_mask m) (fault_state (raise_fault f m)) m"
    by (simp add: raise_fault_def put_lines_def cur_lines_def)
  then show ?thesis unfolding irq_frame_def by blast
qed

lemma irq_frame_cpu_set_irqs: "irq_frame m (cpu_set_irqs n lb ipi m)"
proof -
  have 1: "irq_frame m (upd_cpu n (\<lambda>c. c\<lparr>irq_lamebus := lb, irq_ipi := ipi\<rparr>) m)" for m
    using irq_frame_set_lines [of m n cpu_state "\<lambda>_. lb" "\<lambda>_. ipi"] by (simp add: set_lines_def)
  have 2: "irq_frame m (upd_cpu n (\<lambda>c. c\<lparr>cpu_state := CPU_RUNNING\<rparr>) m)" for m
    using irq_frame_set_lines [of m n "\<lambda>_. CPU_RUNNING" irq_lamebus irq_ipi]
    by (simp add: set_lines_def)
  show ?thesis
    using irq_frame_trans [OF 1 irq_frame_trans [OF 2 irq_frame_mask]] 1
    by (simp add: cpu_set_irqs_def Let_def smoke_def irq_frame_raise_fault del: upd_cpu_upd_cpu)
qed

lemma irq_frame_irqupdate_cpu: "irq_frame m (irqupdate_cpu pend i m)"
  unfolding irqupdate_cpu_def Let_def
  using irq_frame_trans [OF irq_frame_interrupting irq_frame_cpu_set_irqs] by simp

lemma irq_frame_fold: "irq_frame m (fold (irqupdate_cpu pend) xs m)"
  by (induction xs arbitrary: m) (auto intro: irq_frame_trans irq_frame_irqupdate_cpu)

lemma irq_frame_irqupdate: "irq_frame m (irqupdate m)"
  by (simp add: irqupdate_def Let_def irq_frame_fold)

lemma put_lines_frame [simp]:
  "ncpus (put_lines f g mk fl m) = ncpus m"
  "cpu_cycles_count (put_lines f g mk fl m) = cpu_cycles_count m"
  "cpu_cycling (put_lines f g mk fl m) = cpu_cycling m"
  "bus_ramsize (put_lines f g mk fl m) = bus_ramsize m"
  "ram (put_lines f g mk fl m) = ram m"
  "bus_raised_interrupts (put_lines f g mk fl m) = bus_raised_interrupts m"
  "bus_enabled_interrupts (put_lines f g mk fl m) = bus_enabled_interrupts m"
  "devices (put_lines f g mk fl m) = devices m"
  "doom_counter (put_lines f g mk fl m) = doom_counter m"
  "virtual_now (put_lines f g mk fl m) = virtual_now m"
  "extra_selecttime (put_lines f g mk fl m) = extra_selecttime m"
  "start_secs (put_lines f g mk fl m) = start_secs m"
  "start_nsecs (put_lines f g mk fl m) = start_nsecs m"
  "event_queue (put_lines f g mk fl m) = event_queue m"
  "ta_free (put_lines f g mk fl m) = ta_free m"
  "g_stats (put_lines f g mk fl m) = g_stats m"
  "progress (put_lines f g mk fl m) = progress m"
  "stopped_in_debugger (put_lines f g mk fl m) = stopped_in_debugger m"
  "stop_is_lethal (put_lines f g mk fl m) = stop_is_lethal m"
  "console_out (put_lines f g mk fl m) = console_out m"
  "shutoff_flag (put_lines f g mk fl m) = shutoff_flag m"
  "host_random (put_lines f g mk fl m) = host_random m"
  "random_pos (put_lines f g mk fl m) = random_pos m"
  "host_jitter (put_lines f g mk fl m) = host_jitter m"
  "host_sys (put_lines f g mk fl m) = host_sys m"
  "host_log (put_lines f g mk fl m) = host_log m"
  "prof (put_lines f g mk fl m) = prof m"
  by (simp_all add: put_lines_def)

lemma irq_frame_put_lines:
  assumes "irq_frame m m'"
  obtains f g mk fl where "m' = put_lines f g mk fl m"
  using assms by (auto simp: irq_frame_def)

lemma irq_frame_sels:
  assumes "irq_frame m m'"
  shows
    "ncpus m' = ncpus m"
    "cpu_cycles_count m' = cpu_cycles_count m"
    "cpu_cycling m' = cpu_cycling m"
    "bus_ramsize m' = bus_ramsize m"
    "ram m' = ram m"
    "bus_raised_interrupts m' = bus_raised_interrupts m"
    "bus_enabled_interrupts m' = bus_enabled_interrupts m"
    "devices m' = devices m"
    "doom_counter m' = doom_counter m"
    "virtual_now m' = virtual_now m"
    "extra_selecttime m' = extra_selecttime m"
    "start_secs m' = start_secs m"
    "start_nsecs m' = start_nsecs m"
    "event_queue m' = event_queue m"
    "ta_free m' = ta_free m"
    "g_stats m' = g_stats m"
    "progress m' = progress m"
    "stopped_in_debugger m' = stopped_in_debugger m"
    "stop_is_lethal m' = stop_is_lethal m"
    "console_out m' = console_out m"
    "shutoff_flag m' = shutoff_flag m"
    "host_random m' = host_random m"
    "random_pos m' = random_pos m"
    "host_jitter m' = host_jitter m"
    "host_sys m' = host_sys m"
    "host_log m' = host_log m"
    "prof m' = prof m"
  using assms by (elim irq_frame_put_lines; simp)+

lemma set_lines_sels [simp]:
  "cpunum (set_lines st lb ipi c) = cpunum c"
  "regs (set_lines st lb ipi c) = regs c"
  "lo_reg (set_lines st lb ipi c) = lo_reg c"
  "hi_reg (set_lines st lb ipi c) = hi_reg c"
  "lowait (set_lines st lb ipi c) = lowait c"
  "hiwait (set_lines st lb ipi c) = hiwait c"
  "jumping (set_lines st lb ipi c) = jumping c"
  "in_jumpdelay (set_lines st lb ipi c) = in_jumpdelay c"
  "expc (set_lines st lb ipi c) = expc c"
  "pc (set_lines st lb ipi c) = pc c"
  "nextpc (set_lines st lb ipi c) = nextpc c"
  "pcoff (set_lines st lb ipi c) = pcoff c"
  "nextpcoff (set_lines st lb ipi c) = nextpcoff c"
  "pcpage (set_lines st lb ipi c) = pcpage c"
  "nextpcpage (set_lines st lb ipi c) = nextpcpage c"
  "tlb (set_lines st lb ipi c) = tlb c"
  "tlbentry (set_lines st lb ipi c) = tlbentry c"
  "tlbindex (set_lines st lb ipi c) = tlbindex c"
  "tlbpf (set_lines st lb ipi c) = tlbpf c"
  "tlbrandom (set_lines st lb ipi c) = tlbrandom c"
  "current_usermode (set_lines st lb ipi c) = current_usermode c"
  "current_irqon (set_lines st lb ipi c) = current_irqon c"
  "prev_usermode (set_lines st lb ipi c) = prev_usermode c"
  "prev_irqon (set_lines st lb ipi c) = prev_irqon c"
  "old_usermode (set_lines st lb ipi c) = old_usermode c"
  "old_irqon (set_lines st lb ipi c) = old_irqon c"
  "status_hardmask_lb (set_lines st lb ipi c) = status_hardmask_lb c"
  "status_hardmask_ipi (set_lines st lb ipi c) = status_hardmask_ipi c"
  "status_hardmask_timer (set_lines st lb ipi c) = status_hardmask_timer c"
  "status_softmask (set_lines st lb ipi c) = status_softmask c"
  "status_bootvectors (set_lines st lb ipi c) = status_bootvectors c"
  "cause_softirq (set_lines st lb ipi c) = cause_softirq c"
  "ex_count (set_lines st lb ipi c) = ex_count c"
  "ex_compare (set_lines st lb ipi c) = ex_compare c"
  "ex_compare_used (set_lines st lb ipi c) = ex_compare_used c"
  "irq_timer (set_lines st lb ipi c) = irq_timer c"
  "ll_active (set_lines st lb ipi c) = ll_active c"
  "ll_addr (set_lines st lb ipi c) = ll_addr c"
  "ll_value (set_lines st lb ipi c) = ll_value c"
  "hit_breakpoint (set_lines st lb ipi c) = hit_breakpoint c"
  by (simp_all add: set_lines_def)

lemma irq_frame_cpu:
  assumes "irq_frame m m'"
  obtains st lb ipi where "mycpus m' i = set_lines st lb ipi (mycpus m i)"
proof -
  obtain f g mk fl where m': "m' = put_lines f g mk fl m" using assms by (rule irq_frame_put_lines)
  obtain st lb ipi where "f i = (st, lb, ipi)" by (metis prod_cases3)
  then have "mycpus m' i = set_lines st lb ipi (mycpus m i)" by (simp add: m' put_lines_def)
  then show thesis by (rule that)
qed

lemma irq_frame_cpu_sels:
  assumes "irq_frame m m'"
  shows
    "cpunum (mycpus m' i) = cpunum (mycpus m i)"
    "regs (mycpus m' i) = regs (mycpus m i)"
    "lo_reg (mycpus m' i) = lo_reg (mycpus m i)"
    "hi_reg (mycpus m' i) = hi_reg (mycpus m i)"
    "lowait (mycpus m' i) = lowait (mycpus m i)"
    "hiwait (mycpus m' i) = hiwait (mycpus m i)"
    "jumping (mycpus m' i) = jumping (mycpus m i)"
    "in_jumpdelay (mycpus m' i) = in_jumpdelay (mycpus m i)"
    "expc (mycpus m' i) = expc (mycpus m i)"
    "pc (mycpus m' i) = pc (mycpus m i)"
    "nextpc (mycpus m' i) = nextpc (mycpus m i)"
    "pcoff (mycpus m' i) = pcoff (mycpus m i)"
    "nextpcoff (mycpus m' i) = nextpcoff (mycpus m i)"
    "pcpage (mycpus m' i) = pcpage (mycpus m i)"
    "nextpcpage (mycpus m' i) = nextpcpage (mycpus m i)"
    "tlb (mycpus m' i) = tlb (mycpus m i)"
    "tlbentry (mycpus m' i) = tlbentry (mycpus m i)"
    "tlbindex (mycpus m' i) = tlbindex (mycpus m i)"
    "tlbpf (mycpus m' i) = tlbpf (mycpus m i)"
    "tlbrandom (mycpus m' i) = tlbrandom (mycpus m i)"
    "current_usermode (mycpus m' i) = current_usermode (mycpus m i)"
    "current_irqon (mycpus m' i) = current_irqon (mycpus m i)"
    "prev_usermode (mycpus m' i) = prev_usermode (mycpus m i)"
    "prev_irqon (mycpus m' i) = prev_irqon (mycpus m i)"
    "old_usermode (mycpus m' i) = old_usermode (mycpus m i)"
    "old_irqon (mycpus m' i) = old_irqon (mycpus m i)"
    "status_hardmask_lb (mycpus m' i) = status_hardmask_lb (mycpus m i)"
    "status_hardmask_ipi (mycpus m' i) = status_hardmask_ipi (mycpus m i)"
    "status_hardmask_timer (mycpus m' i) = status_hardmask_timer (mycpus m i)"
    "status_softmask (mycpus m' i) = status_softmask (mycpus m i)"
    "status_bootvectors (mycpus m' i) = status_bootvectors (mycpus m i)"
    "cause_softirq (mycpus m' i) = cause_softirq (mycpus m i)"
    "ex_count (mycpus m' i) = ex_count (mycpus m i)"
    "ex_compare (mycpus m' i) = ex_compare (mycpus m i)"
    "ex_compare_used (mycpus m' i) = ex_compare_used (mycpus m i)"
    "irq_timer (mycpus m' i) = irq_timer (mycpus m i)"
    "ll_active (mycpus m' i) = ll_active (mycpus m i)"
    "ll_addr (mycpus m' i) = ll_addr (mycpus m i)"
    "ll_value (mycpus m' i) = ll_value (mycpus m i)"
    "hit_breakpoint (mycpus m' i) = hit_breakpoint (mycpus m i)"
  using assms by (elim irq_frame_cpu [where i = i]; simp)+

lemma irq_frame_lbcpu:
  assumes "irq_frame m m'"
  shows "cpu_enabled_flag (lb_cpus m' i) = cpu_enabled_flag (lb_cpus m i)"
    "cpu_enabled_interrupts (lb_cpus m' i) = cpu_enabled_interrupts (lb_cpus m i)"
    "cpu_ipi (lb_cpus m' i) = cpu_ipi (lb_cpus m i)"
    "cpu_cram (lb_cpus m' i) = cpu_cram (lb_cpus m i)"
  using assms by (auto simp: irq_frame_def put_lines_def)

section \<open>The lines are consistent\<close>

text \<open>The lines of the cpus are the bus's lines, and a cpu that waits has none pending.\<close>

definition lines_ok :: "machine \<Rightarrow> bool" where
  "lines_ok m \<longleftrightarrow> (\<forall>i<ncpus m.
     irq_lamebus (mycpus m i) = cpu_interrupting (lb_cpus m i) \<and>
     irq_ipi (mycpus m i) = cpu_ipi (lb_cpus m i) \<and>
     (cpu_state (mycpus m i) = CPU_IDLE \<longrightarrow> \<not> irq_lamebus (mycpus m i) \<and> \<not> irq_ipi (mycpus m i)))"

text \<open>A cpu's line from the bus is up exactly when a raised slot is enabled for the bus and
  for the cpu.\<close>

definition irq_pending :: "machine \<Rightarrow> nat \<Rightarrow> bool" where
  "irq_pending m i \<longleftrightarrow>
     (bus_raised_interrupts m AND bus_enabled_interrupts m) AND
       cpu_enabled_interrupts (lb_cpus m i) \<noteq> 0"

definition irq_ok :: "machine \<Rightarrow> bool" where
  "irq_ok m \<longleftrightarrow> lines_ok m \<and> (\<forall>i<ncpus m. cpu_interrupting (lb_cpus m i) = irq_pending m i)"

lemma upd_lbcpu_simps [simp]:
  "mycpus (upd_lbcpu i f m) = mycpus m" "ncpus (upd_lbcpu i f m) = ncpus m"
  "lb_cpus (upd_lbcpu i f m) j = (if j = i then f (lb_cpus m i) else lb_cpus m j)"
  "cpu_running_mask (upd_lbcpu i f m) = cpu_running_mask m"
  "fault_state (upd_lbcpu i f m) = fault_state m"
  "bus_raised_interrupts (upd_lbcpu i f m) = bus_raised_interrupts m"
  "bus_enabled_interrupts (upd_lbcpu i f m) = bus_enabled_interrupts m"
  by (simp_all add: upd_lbcpu_def)

lemma running_mask_simps [simp]:
  "mycpus (running_mask_on n m) = mycpus m" "ncpus (running_mask_on n m) = ncpus m"
  "lb_cpus (running_mask_on n m) = lb_cpus m" "fault_state (running_mask_on n m) = fault_state m"
  "mycpus (running_mask_off n m) = mycpus m" "ncpus (running_mask_off n m) = ncpus m"
  "lb_cpus (running_mask_off n m) = lb_cpus m" "fault_state (running_mask_off n m) = fault_state m"
  by (simp_all add: running_mask_on_def running_mask_off_def)

lemma cpu_set_irqs_sets:
  assumes "n < ncpus m"
  shows "lb_cpus (cpu_set_irqs n lb ipi m) = lb_cpus m"
    "mycpus (cpu_set_irqs n lb ipi m) i =
       (if i = n then (mycpus m n)\<lparr>irq_lamebus := lb, irq_ipi := ipi,
          cpu_state := (if cpu_state (mycpus m n) = CPU_IDLE \<and> (lb \<or> ipi) then CPU_RUNNING
                        else cpu_state (mycpus m n))\<rparr>
        else mycpus m i)"
    "fault_state (cpu_set_irqs n lb ipi m) = fault_state m"
  using assms by (simp_all add: cpu_set_irqs_def Let_def)

lemma cpu_set_irqs_ncpus [simp]: "ncpus (cpu_set_irqs n lb ipi m) = ncpus m"
  using irq_frame_sels(1) [OF irq_frame_cpu_set_irqs] .

lemma irqupdate_cpu_lines:
  assumes "lines_ok m" "i < ncpus m"
  shows "lines_ok (irqupdate_cpu pend i m)"
    "cpu_interrupting (lb_cpus (irqupdate_cpu pend i m) i) \<longleftrightarrow>
       pend AND cpu_enabled_interrupts (lb_cpus m i) \<noteq> 0"
    "j \<noteq> i \<Longrightarrow> lb_cpus (irqupdate_cpu pend i m) j = lb_cpus m j"
    "fault_state (irqupdate_cpu pend i m) = fault_state m"
    "cpus_ok m \<Longrightarrow> cpus_ok (irqupdate_cpu pend i m)"
proof -
  let ?m1 = "\<lambda>b. upd_lbcpu i (\<lambda>c. c\<lparr>cpu_interrupting := b\<rparr>) m"
  have s: "i < ncpus (?m1 b)" for b using assms(2) by simp
  have c: "cpus_ok m \<Longrightarrow> cpus_ok (?m1 b)" for b by (simp add: cpus_ok_def)
  show "lines_ok (irqupdate_cpu pend i m)"
    using assms by (auto simp: irqupdate_cpu_def Let_def lines_ok_def cpu_set_irqs_sets [OF s])
  show "cpu_interrupting (lb_cpus (irqupdate_cpu pend i m) i) \<longleftrightarrow>
       pend AND cpu_enabled_interrupts (lb_cpus m i) \<noteq> 0"
    by (auto simp: irqupdate_cpu_def Let_def cpu_set_irqs_sets [OF s])
  show "j \<noteq> i \<Longrightarrow> lb_cpus (irqupdate_cpu pend i m) j = lb_cpus m j"
    by (auto simp: irqupdate_cpu_def Let_def cpu_set_irqs_sets [OF s])
  show "fault_state (irqupdate_cpu pend i m) = fault_state m"
    by (auto simp: irqupdate_cpu_def Let_def cpu_set_irqs_sets [OF s])
  show "cpus_ok m \<Longrightarrow> cpus_ok (irqupdate_cpu pend i m)"
    by (auto simp: irqupdate_cpu_def Let_def intro: cpus_ok_set_irqs c)
qed

lemma fold_irqupdate:
  assumes "lines_ok m" "k \<le> ncpus m"
  shows "lines_ok (fold (irqupdate_cpu pend) [0..<k] m) \<and>
    (\<forall>i<k. cpu_interrupting (lb_cpus (fold (irqupdate_cpu pend) [0..<k] m) i) \<longleftrightarrow>
       pend AND cpu_enabled_interrupts (lb_cpus m i) \<noteq> 0) \<and>
    fault_state (fold (irqupdate_cpu pend) [0..<k] m) = fault_state m \<and>
    (cpus_ok m \<longrightarrow> cpus_ok (fold (irqupdate_cpu pend) [0..<k] m))"
  using assms(2)
proof (induction k)
  case (Suc k)
  let ?m = "fold (irqupdate_cpu pend) [0..<k] m"
  have l: "lines_ok ?m" and k: "k < ncpus ?m"
    using Suc irq_frame_sels(1) [OF irq_frame_fold] by simp_all
  note step = irqupdate_cpu_lines [OF l k]
  have e: "cpu_enabled_interrupts (lb_cpus ?m i) = cpu_enabled_interrupts (lb_cpus m i)" for i
    using irq_frame_lbcpu(2) [OF irq_frame_fold] .
  show ?case
    using Suc step(1,2,4,5) [of pend] step(3) [of _ pend] e by (auto simp: less_Suc_eq)
qed (use assms(1) in simp)

lemma irqupdate_ok:
  assumes "lines_ok m"
  shows "irq_ok (irqupdate m)" "fault_state (irqupdate m) = fault_state m"
    "cpus_ok m \<Longrightarrow> cpus_ok (irqupdate m)"
proof -
  have "irq_pending (irqupdate m) i = irq_pending m i" for i
    using irq_frame_sels [OF irq_frame_irqupdate [of m]] irq_frame_lbcpu [OF irq_frame_irqupdate [of m]]
    by (simp add: irq_pending_def)
  then show "irq_ok (irqupdate m)"
    using fold_irqupdate [OF assms order_refl, of "bus_raised_interrupts m AND bus_enabled_interrupts m"]
      irq_frame_sels(1) [OF irq_frame_irqupdate [of m]]
    by (simp add: irq_ok_def irqupdate_def Let_def irq_pending_def)
  show "fault_state (irqupdate m) = fault_state m" "cpus_ok m \<Longrightarrow> cpus_ok (irqupdate m)"
    using fold_irqupdate [OF assms order_refl] by (simp_all add: irqupdate_def Let_def)
qed

section \<open>A device's line\<close>

text \<open>What a device relies on: it can raise, lower and test its own line, others' lines do not
  move, and nothing the invariant speaks of breaks.\<close>

locale irq_lines =
  fixes up down :: "nat \<Rightarrow> 'm \<Rightarrow> 'm" and test :: "nat \<Rightarrow> 'm \<Rightarrow> bool" and inv :: "'m \<Rightarrow> bool"
  assumes test_up: "s < 32 \<Longrightarrow> s' < 32 \<Longrightarrow> test s' (up s m) \<longleftrightarrow> s = s' \<or> test s' m"
    and test_down: "s < 32 \<Longrightarrow> s' < 32 \<Longrightarrow> test s' (down s m) \<longleftrightarrow> s \<noteq> s' \<and> test s' m"
    and inv_up: "inv m \<Longrightarrow> inv (up s m)"
    and inv_down: "inv m \<Longrightarrow> inv (down s m)"
begin

text \<open>Setting the line to a level.\<close>

definition drive :: "bool \<Rightarrow> nat \<Rightarrow> 'm \<Rightarrow> 'm" where
  "drive b s m = (if b then up s m else down s m)"

lemma test_drive: "s < 32 \<Longrightarrow> s' < 32 \<Longrightarrow> test s' (drive b s m) \<longleftrightarrow> (if s = s' then b else test s' m)"
  by (auto simp: drive_def test_up test_down)

lemma inv_drive: "inv m \<Longrightarrow> inv (drive b s m)"
  by (simp add: drive_def inv_up inv_down)

end

lemma irq_raised_upd [simp]:
  "lines_ok (m\<lparr>bus_raised_interrupts := x\<rparr>) = lines_ok m"
  "cpus_ok (m\<lparr>bus_raised_interrupts := x\<rparr>) = cpus_ok m"
  by (simp_all add: lines_ok_def cpus_ok_def)

lemma raised_irqupdate [simp]: "bus_raised_interrupts (irqupdate m) = bus_raised_interrupts m"
  using irq_frame_sels [OF irq_frame_irqupdate] by simp

lemma irq_lines_ok: "irq_ok m \<Longrightarrow> lines_ok m"
  by (simp add: irq_ok_def)

lemma raise_irq_ok: "lines_ok m \<Longrightarrow> irq_ok (raise_irq s m)"
  by (simp add: raise_irq_def irqupdate_ok)

lemma lower_irq_ok: "lines_ok m \<Longrightarrow> irq_ok (lower_irq s m)"
  by (simp add: lower_irq_def irqupdate_ok)

interpretation bus_lines: irq_lines raise_irq lower_irq check_irq irq_ok
  by unfold_locales
    (auto simp: check_irq_def raise_irq_def lower_irq_def irqupdate_ok irq_lines_ok)

section \<open>Properties\<close>

text \<open>After any change of a line every cpu's bus line is up exactly when an enabled slot is
  raised for it, a cpu with a pending line is not asleep, the running mask is right, and nothing
  of the machine but lines, states and mask has changed.\<close>

theorem raise_irq_consistent:
  assumes "irq_ok m" "cpus_ok m"
  shows "let m' = raise_irq s m in
    irq_ok m' \<and> cpus_ok m' \<and> fault_state m' = fault_state m \<and>
    irq_frame (m\<lparr>bus_raised_interrupts := bus_raised_interrupts m OR push_bit s 1\<rparr>) m' \<and>
    (\<forall>i<ncpus m. irq_pending m' i \<longrightarrow> cpu_state (mycpus m' i) \<noteq> CPU_IDLE)"
proof -
  let ?m = "m\<lparr>bus_raised_interrupts := bus_raised_interrupts m OR push_bit s 1\<rparr>"
  have l: "lines_ok ?m" using assms(1) by (simp add: irq_lines_ok)
  have fr: "irq_frame ?m (raise_irq s m)"
    unfolding raise_irq_def by (rule irq_frame_irqupdate)
  have ok: "irq_ok (raise_irq s m)" "cpus_ok (raise_irq s m)" "fault_state (raise_irq s m) = fault_state m"
    unfolding raise_irq_def using irqupdate_ok [OF l] assms(2) by simp_all
  moreover have "ncpus (raise_irq s m) = ncpus m" using irq_frame_sels(1) [OF fr] by simp
  ultimately show ?thesis
    using fr by (auto simp: Let_def irq_ok_def lines_ok_def)
qed

lemma irqupdate_cpu_state:
  assumes "lines_ok m" "i < ncpus m" "k < ncpus m" "cpu_state (mycpus m i) = CPU_IDLE"
  shows "cpu_state (mycpus (irqupdate_cpu pend k m) i) =
    (if k = i \<and> pend AND cpu_enabled_interrupts (lb_cpus m i) \<noteq> 0 then CPU_RUNNING else CPU_IDLE)"
proof -
  have "\<not> cpu_interrupting (lb_cpus m i)" "\<not> cpu_ipi (lb_cpus m i)"
    using assms(1,2,4) by (auto simp: lines_ok_def)
  moreover have s: "k < ncpus (upd_lbcpu k (\<lambda>c. c\<lparr>cpu_interrupting := b\<rparr>) m)" for b
    using assms(3) by simp
  ultimately show ?thesis
    using assms(4) by (auto simp: irqupdate_cpu_def Let_def cpu_set_irqs_sets [OF s])
qed

lemma irqupdate_cpu_awake:
  assumes "k < ncpus m" "cpu_state (mycpus m i) \<noteq> CPU_IDLE"
  shows "cpu_state (mycpus (irqupdate_cpu pend k m) i) = cpu_state (mycpus m i)"
proof -
  have s: "k < ncpus (upd_lbcpu k (\<lambda>c. c\<lparr>cpu_interrupting := b\<rparr>) m)" for b
    using assms(1) by simp
  then show ?thesis
    using assms(2) by (auto simp: irqupdate_cpu_def Let_def cpu_set_irqs_sets [OF s])
qed

lemma fold_irqupdate_state:
  assumes "lines_ok m" "k \<le> ncpus m" "i < ncpus m" "cpu_state (mycpus m i) = CPU_IDLE"
  shows "cpu_state (mycpus (fold (irqupdate_cpu pend) [0..<k] m) i) =
    (if i < k \<and> pend AND cpu_enabled_interrupts (lb_cpus m i) \<noteq> 0 then CPU_RUNNING else CPU_IDLE)"
  using assms(2)
proof (induction k)
  case (Suc k)
  let ?m = "fold (irqupdate_cpu pend) [0..<k] m"
  have n: "ncpus ?m = ncpus m" "cpu_enabled_interrupts (lb_cpus ?m i) = cpu_enabled_interrupts (lb_cpus m i)"
    using irq_frame_sels(1) [OF irq_frame_fold] irq_frame_lbcpu(2) [OF irq_frame_fold] by simp_all
  have l: "lines_ok ?m" using fold_irqupdate [OF assms(1)] Suc.prems by simp
  have k: "k < ncpus ?m" "i < ncpus ?m" using Suc.prems assms(3) n by simp_all
  show ?case
  proof (cases "cpu_state (mycpus ?m i) = CPU_IDLE")
    case True
    with Suc have "\<not> (i < k \<and> pend AND cpu_enabled_interrupts (lb_cpus m i) \<noteq> 0)"
      by (auto split: if_splits)
    then show ?thesis
      using irqupdate_cpu_state [OF l k(2,1) True, of pend] n by (auto simp: less_Suc_eq)
  next
    case False
    with Suc have "i < k" "pend AND cpu_enabled_interrupts (lb_cpus m i) \<noteq> 0"
      "cpu_state (mycpus ?m i) = CPU_RUNNING" by (auto split: if_splits)
    then show ?thesis using irqupdate_cpu_awake [OF k(1) False, of pend] by simp
  qed
qed (simp add: assms(4))

lemma pending_or_bit:
  fixes r e c :: u32
  assumes "(r AND e) AND c = 0" "s < 32"
  shows "((r OR 2 ^ s) AND e) AND c \<noteq> 0 \<longleftrightarrow> bit e s \<and> bit c s"
proof -
  have "((r OR 2 ^ s) AND e) AND c = ((r AND e) AND c) OR ((e AND c) AND 2 ^ s)"
    by (rule bit_word_eqI) (auto simp: bit_simps)
  then show ?thesis by (simp add: assms(1) bit_and_iff)
qed

text \<open>Raising a slot wakes a sleeping cpu exactly when the slot is enabled for the bus and
  for that cpu.\<close>

theorem raise_irq_wakes:
  assumes "irq_ok m" "i < ncpus m" "cpu_state (mycpus m i) = CPU_IDLE" "s < 32"
  shows "cpu_state (mycpus (raise_irq s m) i) =
    (if bit (bus_enabled_interrupts m) s \<and> bit (cpu_enabled_interrupts (lb_cpus m i)) s
     then CPU_RUNNING else CPU_IDLE)"
proof -
  have l: "lines_ok m" using assms(1) by (rule irq_lines_ok)
  have "\<not> irq_pending m i" using assms(1-3) by (auto simp: irq_ok_def lines_ok_def)
  then show ?thesis
    using fold_irqupdate_state [of "m\<lparr>bus_raised_interrupts := bus_raised_interrupts m OR 2 ^ s\<rparr>" "ncpus m" i]
      l assms(2-4) pending_or_bit [of "bus_raised_interrupts m" "bus_enabled_interrupts m"
        "cpu_enabled_interrupts (lb_cpus m i)" s]
    by (simp add: raise_irq_def irqupdate_def Let_def irq_pending_def)
qed

end
