(* ===== verification/Timer_Dev.thy ===== *)
theory Timer_Dev
  imports Irq
begin

text \<open>
  The timer card (\<open>bus/dev_timer.c\<close>) and the random number generator (\<open>bus/dev_random.c\<close>). A
  countdown carries the generation of the start that scheduled it, so that starting the timer
  anew makes the countdowns already scheduled void.
\<close>

section \<open>Device data\<close>

definition put_device :: "nat \<Rightarrow> device \<Rightarrow> machine \<Rightarrow> machine" where
  "put_device slot d m = m\<lparr>devices := (devices m)(slot \<mapsto> d)\<rparr>"

text \<open>A handler's data pointer is the slot; a slot without a timer never gets here.\<close>

definition zero_timer :: timer_data where
  "zero_timer = \<lparr>td_slot = 0, td_restartflag = 0, td_count_usecs = 0, td_generation = 0\<rparr>"

definition timer_at :: "machine \<Rightarrow> nat \<Rightarrow> timer_data" where
  "timer_at m slot = (case devices m slot of Some (Timer td) \<Rightarrow> td | _ \<Rightarrow> zero_timer)"

definition upd_timer :: "nat \<Rightarrow> (timer_data \<Rightarrow> timer_data) \<Rightarrow> machine \<Rightarrow> machine" where
  "upd_timer slot f m = put_device slot (Timer (f (timer_at m slot))) m"

definition timer_init :: "nat \<Rightarrow> timer_data" where
  "timer_init slot = \<lparr>td_slot = slot, td_restartflag = 0, td_count_usecs = 0, td_generation = 0\<rparr>"

section \<open>The countdown\<close>

definition timer_start :: "nat \<Rightarrow> machine \<Rightarrow> machine" where
  "timer_start slot m =
     (let nsecs = (ucast (td_count_usecs (timer_at m slot)) :: u64) * 1000;
          m1 = upd_timer slot (\<lambda>td. td\<lparr>td_generation := td_generation td + 1\<rparr>) m
      in schedule_event nsecs slot (td_generation (timer_at m1 slot)) F_timer_interrupt m1)"

definition timer_interrupt :: "nat \<Rightarrow> u32 \<Rightarrow> machine \<Rightarrow> machine" where
  "timer_interrupt slot gen m =
     (let td = timer_at m slot in
      if gen \<noteq> td_generation td then m
      else
        let m1 = raise_irq (td_slot td) m
        in if td_restartflag (timer_at m1 slot) \<noteq> 0 then timer_start slot m1 else m1)"

section \<open>Registers\<close>

definition TREG_TSEC :: u32 where "TREG_TSEC = 0x00"
definition TREG_TNSEC :: u32 where "TREG_TNSEC = 0x04"
definition TREG_REST :: u32 where "TREG_REST = 0x08"
definition TREG_IRQ :: u32 where "TREG_IRQ = 0x0c"
definition TREG_TIME :: u32 where "TREG_TIME = 0x10"
definition TREG_BEEP :: u32 where "TREG_BEEP = 0x14"
definition TREG_RESV1 :: u32 where "TREG_RESV1 = 0x18"
definition TREG_RESV2 :: u32 where "TREG_RESV2 = 0x1c"

lemmas TREG_defs =
  TREG_TSEC_def TREG_TNSEC_def TREG_REST_def TREG_IRQ_def TREG_TIME_def TREG_BEEP_def
  TREG_RESV1_def TREG_RESV2_def

definition timer_fetch :: "nat \<Rightarrow> u32 \<Rightarrow> machine \<Rightarrow> machine \<times> fetched" where
  "timer_fetch slot offset m =
     (let td = timer_at m slot in
      if offset = TREG_TSEC then (m, Fetched (fst (clock_time m)))
      else if offset = TREG_TNSEC then (m, Fetched (snd (clock_time m)))
      else if offset = TREG_REST then (m, Fetched (td_restartflag td))
      else if offset = TREG_IRQ then
        (lower_irq (td_slot td) m, Fetched (if check_irq (td_slot td) m then 1 else 0))
      else if offset = TREG_TIME then (m, Fetched (td_count_usecs td))
      else if offset = TREG_BEEP \<or> offset = TREG_RESV1 \<or> offset = TREG_RESV2 then
        (hang m, Not_written)
      else (m, Bus_error))"

text \<open>The beep is output only. The flag is true when the function returned 0.\<close>

definition timer_store :: "nat \<Rightarrow> u32 \<Rightarrow> u32 \<Rightarrow> machine \<Rightarrow> machine \<times> bool" where
  "timer_store slot offset val m =
     (if offset = TREG_TSEC then (clock_setsecs val m, True)
      else if offset = TREG_TNSEC then (clock_setnsecs val m, True)
      else if offset = TREG_REST then (upd_timer slot (\<lambda>td. td\<lparr>td_restartflag := val\<rparr>) m, True)
      else if offset = TREG_TIME then
        (timer_start slot (upd_timer slot (\<lambda>td. td\<lparr>td_count_usecs := val\<rparr>) m), True)
      else if offset = TREG_BEEP then (m, True)
      else if offset = TREG_IRQ \<or> offset = TREG_RESV1 \<or> offset = TREG_RESV2 then (hang m, True)
      else (m, False))"

section \<open>The random number generator\<close>

text \<open>\<open>random() ^ (random() << 16)\<close>, with the left operand drawn first.\<close>

definition rand_fetch :: "u32 \<Rightarrow> machine \<Rightarrow> machine \<times> fetched" where
  "rand_fetch offset m =
     (if offset = 0 then
        let (m1, a) = host_next_random m; (m2, b) = host_next_random m1
        in (m2, Fetched (a XOR push_bit 16 b))
      else (m, Bus_error))"

definition rand_store :: "u32 \<Rightarrow> u32 \<Rightarrow> machine \<Rightarrow> machine \<times> bool" where
  "rand_store offset val m = (m, False)"

section \<open>Lemmas\<close>

text \<open>The timer's own line: what reading the interrupt register does.\<close>

lemma timer_fetch_irq:
  "timer_fetch slot TREG_IRQ m =
     (lower_irq (td_slot (timer_at m slot)) m,
      Fetched (if check_irq (td_slot (timer_at m slot)) m then 1 else 0))"
  by (simp add: timer_fetch_def TREG_defs)

lemma timer_at_put [simp]:
  "timer_at (put_device slot (Timer td) m) slot' = (if slot' = slot then td else timer_at m slot')"
  by (simp add: timer_at_def put_device_def)

lemma timer_at_upd [simp]:
  "timer_at (upd_timer slot f m) slot' = (if slot' = slot then f (timer_at m slot) else timer_at m slot')"
  by (simp add: upd_timer_def)

lemma put_device_simps [simp]:
  "event_queue (put_device s d m) = event_queue m" "ta_free (put_device s d m) = ta_free m"
  "clock_vnow (put_device s d m) = clock_vnow m" "fault_state (put_device s d m) = fault_state m"
  "mycpus (put_device s d m) = mycpus m" "lb_cpus (put_device s d m) = lb_cpus m"
  "ncpus (put_device s d m) = ncpus m" "bus_raised_interrupts (put_device s d m) = bus_raised_interrupts m"
  "bus_enabled_interrupts (put_device s d m) = bus_enabled_interrupts m"
  "cpu_running_mask (put_device s d m) = cpu_running_mask m" "ram (put_device s d m) = ram m"
  "bus_ramsize (put_device s d m) = bus_ramsize m"
  "host_random (put_device s d m) = host_random m" "host_jitter (put_device s d m) = host_jitter m"
  "random_pos (put_device s d m) = random_pos m" "g_stats (put_device s d m) = g_stats m"
  by (simp_all add: put_device_def clock_vnow_def)

lemma upd_timer_simps [simp]:
  "event_queue (upd_timer s f m) = event_queue m" "ta_free (upd_timer s f m) = ta_free m"
  "clock_vnow (upd_timer s f m) = clock_vnow m" "fault_state (upd_timer s f m) = fault_state m"
  "host_random (upd_timer s f m) = host_random m" "host_jitter (upd_timer s f m) = host_jitter m"
  "random_pos (upd_timer s f m) = random_pos m"
  by (simp_all add: upd_timer_def)

lemma devices_schedule_event [simp]: "devices (schedule_event d s c f m) = devices m"
  by (simp add: schedule_event_def host_next_random_def Let_def cpu_stopcycling_def smoke_def
      raise_fault_def split: prod.split)

lemma timer_at_schedule_event [simp]: "timer_at (schedule_event d s c f m) slot = timer_at m slot"
  by (simp add: timer_at_def)

lemma timer_at_irq [simp]: "timer_at (raise_irq s m) slot = timer_at m slot"
  "timer_at (lower_irq s m) slot = timer_at m slot"
  using irq_frame_sels [OF irq_frame_irqupdate]
  by (simp_all add: timer_at_def raise_irq_def lower_irq_def)

text \<open>Starting the timer voids the countdowns it had running: an event with an older
  generation does nothing.\<close>

theorem timer_restart_discards:
  assumes "g = td_generation (timer_at m slot)"
  shows "timer_interrupt slot g (timer_start slot m) = timer_start slot m"
  using assms by (simp add: timer_interrupt_def timer_start_def Let_def)

lemma schedule_event_raised [simp]:
  "bus_raised_interrupts (schedule_event d s c f m) = bus_raised_interrupts m"
  by (simp add: schedule_event_def host_next_random_def Let_def cpu_stopcycling_def smoke_def
      raise_fault_def split: prod.split)

lemma check_irq_frame [simp]:
  "check_irq s (schedule_event d s' c f m) = check_irq s m"
  "check_irq s (upd_timer s' g m) = check_irq s m"
  by (simp_all add: check_irq_def upd_timer_def)

lemma queue_irq [simp]:
  "event_queue (raise_irq s m) = event_queue m" "ta_free (raise_irq s m) = ta_free m"
  "event_queue (lower_irq s m) = event_queue m" "ta_free (lower_irq s m) = ta_free m"
  using irq_frame_sels [OF irq_frame_irqupdate] by (simp_all add: raise_irq_def lower_irq_def)

lemma schedule_event_length:
  "0 < ta_free m \<Longrightarrow> length (event_queue (schedule_event d s c f m)) = Suc (length (event_queue m))"
  using schedule_event_eq [of m d s c f] by auto

text \<open>The countdown that was started raises the line, and starts the next one exactly when
  the restart flag is set.\<close>

theorem timer_expires:
  assumes "td_slot (timer_at m slot) < 32"
  shows "let td = timer_at m slot; m' = timer_interrupt slot (td_generation td) m in
    check_irq (td_slot td) m' \<and>
    (td_restartflag td = 0 \<longrightarrow> event_queue m' = event_queue m \<and> timer_at m' slot = td) \<and>
    (td_restartflag td \<noteq> 0 \<longrightarrow> timer_at m' slot = td\<lparr>td_generation := td_generation td + 1\<rparr> \<and>
       (0 < ta_free m \<longrightarrow> length (event_queue m') = length (event_queue m) + 1))"
  using assms
  by (auto simp: timer_interrupt_def timer_start_def Let_def bus_lines.test_up schedule_event_length)

end
