(* ===== verification/Serial_Dev.thy ===== *)
theory Serial_Dev
  imports Timer_Dev
begin

text \<open>
  The serial port (\<open>bus/dev_serial.c\<close>): its two interrupt registers, the transmitter, and the
  receiver with its ring buffer of typed characters. The locale \<open>bounded_fifo\<close> is what the
  receiver needs of its buffer; the ring of \<open>INBUF_SIZE\<close> slots provides it with one slot less.
\<close>

section \<open>Interrupt registers\<close>

definition IRQF_ON :: u32 where "IRQF_ON = 0x1"
definition IRQF_READY :: u32 where "IRQF_READY = 0x2"
definition IRQF_FORCE :: u32 where "IRQF_FORCE = 0x4"

lemmas IRQF_defs = IRQF_ON_def IRQF_READY_def IRQF_FORCE_def

definition fetchirq :: "serirq \<Rightarrow> u32" where
  "fetchirq si =
     (let val = 0;
          val = (if si_on si then val OR IRQF_ON else val);
          val = (if si_ready si then val OR IRQF_READY else val);
          val = (if si_force si then val OR IRQF_FORCE else val)
      in val)"

definition storeirq :: "u32 \<Rightarrow> serirq \<Rightarrow> serirq" where
  "storeirq val si = si\<lparr>
     si_on := val AND IRQF_ON \<noteq> 0,
     si_ready := val AND IRQF_READY \<noteq> 0,
     si_force := val AND IRQF_FORCE \<noteq> 0\<rparr>"

definition irq_wanted :: "serirq \<Rightarrow> bool" where
  "irq_wanted si \<longleftrightarrow> si_on si \<and> (si_ready si \<or> si_force si)"

section \<open>The ring buffer\<close>

definition INBUF_SIZE :: nat where "INBUF_SIZE = 512"

definition ring_full :: "ser_data \<Rightarrow> bool" where
  "ring_full sd \<longleftrightarrow> (sd_inbuftail sd + 1) mod INBUF_SIZE = sd_inbufhead sd"

definition ring_empty :: "ser_data \<Rightarrow> bool" where
  "ring_empty sd \<longleftrightarrow> sd_inbufhead sd = sd_inbuftail sd"

definition ring_put :: "u8 \<Rightarrow> ser_data \<Rightarrow> ser_data" where
  "ring_put ch sd = sd\<lparr>
     sd_inbuf := (sd_inbuf sd)(sd_inbuftail sd := ch),
     sd_inbuftail := (sd_inbuftail sd + 1) mod INBUF_SIZE\<rparr>"

definition ring_first :: "ser_data \<Rightarrow> u8" where
  "ring_first sd = sd_inbuf sd (sd_inbufhead sd)"

definition ring_drop :: "ser_data \<Rightarrow> ser_data" where
  "ring_drop sd = sd\<lparr>sd_inbufhead := (sd_inbufhead sd + 1) mod INBUF_SIZE\<rparr>"

section \<open>Device data\<close>

definition zero_serirq :: serirq where
  "zero_serirq = \<lparr>si_on = False, si_ready = False, si_force = False\<rparr>"

definition serial_init :: "nat \<Rightarrow> ser_data" where
  "serial_init slot = \<lparr>sd_slot = slot, sd_wbusy = False, sd_rbusy = False, sd_rirq = zero_serirq,
     sd_wirq = zero_serirq, sd_readch = 0, sd_didread = True, sd_droppedreads = 0,
     sd_inbuf = (\<lambda>_. 0), sd_inbufhead = 0, sd_inbuftail = 0\<rparr>"

definition serial_at :: "machine \<Rightarrow> nat \<Rightarrow> ser_data" where
  "serial_at m slot = (case devices m slot of Some (Serial sd) \<Rightarrow> sd | _ \<Rightarrow> serial_init slot)"

definition upd_serial :: "nat \<Rightarrow> (ser_data \<Rightarrow> ser_data) \<Rightarrow> machine \<Rightarrow> machine" where
  "upd_serial slot f m = put_device slot (Serial (f (serial_at m slot))) m"

section \<open>Handlers\<close>

definition SERIAL_NSECS :: u64 where
  "SERIAL_NSECS = 1000000000 div ((19200 * 25) div 10)"

definition setirq :: "nat \<Rightarrow> machine \<Rightarrow> machine" where
  "setirq slot m =
     (let sd = serial_at m slot in
      if irq_wanted (sd_rirq sd) \<or> irq_wanted (sd_wirq sd) then raise_irq (sd_slot sd) m
      else lower_irq (sd_slot sd) m)"

definition serial_writedone :: "nat \<Rightarrow> machine \<Rightarrow> machine" where
  "serial_writedone slot m =
     setirq slot (upd_serial slot
       (\<lambda>sd. sd\<lparr>sd_wbusy := False, sd_wirq := (sd_wirq sd)\<lparr>si_ready := True\<rparr>\<rparr>) m)"

definition serial_pushinput :: "nat \<Rightarrow> machine \<Rightarrow> machine" where
  "serial_pushinput slot m =
     (let sd = serial_at m slot in
      if ring_empty sd then upd_serial slot (\<lambda>sd. sd\<lparr>sd_rbusy := False\<rparr>) m
      else if \<not> sd_didread sd \<and> si_ready (sd_rirq sd) then
        schedule_event SERIAL_NSECS slot 0 F_serial_pushinput
          (upd_serial slot (\<lambda>sd. sd\<lparr>sd_droppedreads := sd_droppedreads sd + 1\<rparr>) m)
      else
        let ch = (ucast (ring_first sd) :: u32);
            m1 = upd_serial slot (\<lambda>sd. (ring_drop sd)\<lparr>sd_droppedreads := 0, sd_readch := ch,
                   sd_didread := False, sd_rirq := (sd_rirq sd)\<lparr>si_ready := True\<rparr>\<rparr>) m;
            m2 = setirq slot m1;
            m3 = upd_serial slot (\<lambda>sd. sd\<lparr>sd_rbusy := True\<rparr>) m2
        in schedule_event SERIAL_NSECS slot 0 F_serial_pushinput m3)"

definition serial_input :: "nat \<Rightarrow> u8 \<Rightarrow> machine \<Rightarrow> machine" where
  "serial_input slot ch m =
     (if ring_full (serial_at m slot) then m
      else
        let m1 = upd_serial slot (ring_put ch) m
        in if \<not> sd_rbusy (serial_at m1 slot) then serial_pushinput slot m1 else m1)"

section \<open>Registers\<close>

definition SERREG_CHAR :: u32 where "SERREG_CHAR = 0x0"
definition SERREG_WIRQ :: u32 where "SERREG_WIRQ = 0x4"
definition SERREG_RIRQ :: u32 where "SERREG_RIRQ = 0x8"

lemmas SERREG_defs = SERREG_CHAR_def SERREG_WIRQ_def SERREG_RIRQ_def

definition console_putc :: "u32 \<Rightarrow> machine \<Rightarrow> machine" where
  "console_putc c m = m\<lparr>console_out := console_out m @ [c]\<rparr>"

definition serial_fetch :: "nat \<Rightarrow> u32 \<Rightarrow> machine \<Rightarrow> machine \<times> fetched" where
  "serial_fetch slot offset m =
     (let sd = serial_at m slot in
      if offset = SERREG_CHAR then
        (upd_stats (\<lambda>s. s\<lparr>s_rchars := s_rchars s + 1\<rparr>)
           (upd_serial slot (\<lambda>sd. sd\<lparr>sd_didread := True\<rparr>) m), Fetched (sd_readch sd))
      else if offset = SERREG_RIRQ then (m, Fetched (fetchirq (sd_rirq sd)))
      else if offset = SERREG_WIRQ then (m, Fetched (fetchirq (sd_wirq sd)))
      else (m, Bus_error))"

definition serial_store :: "nat \<Rightarrow> u32 \<Rightarrow> u32 \<Rightarrow> machine \<Rightarrow> machine \<times> bool" where
  "serial_store slot offset val m =
     (if offset = SERREG_CHAR then
        if \<not> sd_wbusy (serial_at m slot) then
          (schedule_event SERIAL_NSECS slot 0 F_serial_writedone
             (console_putc val
               (upd_stats (\<lambda>s. s\<lparr>s_wchars := s_wchars s + 1\<rparr>)
                 (upd_serial slot (\<lambda>sd. sd\<lparr>sd_wbusy := True\<rparr>) m))), True)
        else (m, True)
      else if offset = SERREG_RIRQ then
        (setirq slot (upd_serial slot (\<lambda>sd. sd\<lparr>sd_rirq := storeirq val (sd_rirq sd)\<rparr>) m), True)
      else if offset = SERREG_WIRQ then
        (setirq slot (upd_serial slot (\<lambda>sd. sd\<lparr>sd_wirq := storeirq val (sd_wirq sd)\<rparr>) m), True)
      else (m, False))"

section \<open>The ring is a bounded queue\<close>

text \<open>A queue of at most \<open>cap\<close> items, as its user sees it.\<close>

locale bounded_fifo =
  fixes ok :: "'s \<Rightarrow> bool" and contents :: "'s \<Rightarrow> 'a list" and is_full is_empty :: "'s \<Rightarrow> bool"
    and put :: "'a \<Rightarrow> 's \<Rightarrow> 's" and hd_of :: "'s \<Rightarrow> 'a" and dropq :: "'s \<Rightarrow> 's" and cap :: nat
  assumes full_iff: "ok s \<Longrightarrow> is_full s \<longleftrightarrow> length (contents s) = cap"
    and empty_iff: "ok s \<Longrightarrow> is_empty s \<longleftrightarrow> contents s = []"
    and put_ok: "ok s \<Longrightarrow> \<not> is_full s \<Longrightarrow> ok (put x s)"
    and put_contents: "ok s \<Longrightarrow> \<not> is_full s \<Longrightarrow> contents (put x s) = contents s @ [x]"
    and hd_contents: "ok s \<Longrightarrow> \<not> is_empty s \<Longrightarrow> hd_of s = hd (contents s)"
    and drop_ok: "ok s \<Longrightarrow> \<not> is_empty s \<Longrightarrow> ok (dropq s)"
    and drop_contents: "ok s \<Longrightarrow> \<not> is_empty s \<Longrightarrow> contents (dropq s) = tl (contents s)"
    and bounded: "ok s \<Longrightarrow> length (contents s) \<le> cap"
begin

text \<open>Putting with a drop when full, and taking everything out.\<close>

definition offer :: "'a \<Rightarrow> 's \<Rightarrow> 's" where
  "offer x s = (if is_full s then s else put x s)"

lemma offer_ok: "ok s \<Longrightarrow> ok (offer x s)"
  by (simp add: offer_def put_ok)

lemma offer_contents: "ok s \<Longrightarrow> contents (offer x s) = take cap (contents s @ [x])"
  using bounded [of s] by (auto simp: offer_def full_iff put_contents)

text \<open>Offering a whole sequence keeps its beginning, in order.\<close>

lemma fold_offer:
  "ok s \<Longrightarrow> ok (fold offer xs s) \<and> contents (fold offer xs s) = take cap (contents s @ xs)"
proof (induction xs arbitrary: s)
  case Nil
  then show ?case using bounded [of s] by simp
next
  case (Cons x xs)
  have "take (cap - length (take cap (contents s @ [x]))) xs =
      drop 1 (take (cap - length (contents s)) (x # xs))"
    using bounded [OF Cons.prems] Suc_diff_Suc [of "length (contents s)" cap]
    by (cases "length (contents s) < cap") (auto simp: min_def simp flip: Suc_diff_Suc)
  moreover have "take cap (contents s @ [x]) = contents s @ take (cap - length (contents s)) [x]"
    using bounded [OF Cons.prems] by simp
  ultimately show ?case
    using Cons.IH [OF offer_ok [OF Cons.prems]] bounded [OF Cons.prems]
    by (cases "cap - length (contents s)") (simp_all add: offer_contents [OF Cons.prems])
qed

primrec take_out :: "nat \<Rightarrow> 's \<Rightarrow> 'a list" where
  "take_out 0 s = []"
| "take_out (Suc n) s = (if is_empty s then [] else hd_of s # take_out n (dropq s))"

lemma take_out_contents: "ok s \<Longrightarrow> take_out n s = take n (contents s)"
proof (induction n arbitrary: s)
  case (Suc n)
  then show ?case
    by (cases "contents s") (simp_all add: empty_iff hd_contents drop_ok drop_contents)
qed simp

end

text \<open>The bytes between head and tail.\<close>

definition ring_ok :: "ser_data \<Rightarrow> bool" where
  "ring_ok sd \<longleftrightarrow> sd_inbufhead sd < INBUF_SIZE \<and> sd_inbuftail sd < INBUF_SIZE"

definition ring_len :: "ser_data \<Rightarrow> nat" where
  "ring_len sd = (sd_inbuftail sd + INBUF_SIZE - sd_inbufhead sd) mod INBUF_SIZE"

definition ring_contents :: "ser_data \<Rightarrow> u8 list" where
  "ring_contents sd =
     map (\<lambda>i. sd_inbuf sd ((sd_inbufhead sd + i) mod INBUF_SIZE)) [0..<ring_len sd]"

lemma ring_len_eq:
  "ring_ok sd \<Longrightarrow> ring_len sd =
    (if sd_inbufhead sd \<le> sd_inbuftail sd then sd_inbuftail sd - sd_inbufhead sd
     else sd_inbuftail sd + INBUF_SIZE - sd_inbufhead sd)"
  by (auto simp: ring_len_def ring_ok_def mod_if)

lemma ring_succ: "i < INBUF_SIZE \<Longrightarrow> (i + 1) mod INBUF_SIZE = (if i + 1 = INBUF_SIZE then 0 else i + 1)"
  by auto

lemma length_ring_contents [simp]: "length (ring_contents sd) = ring_len sd"
  by (simp add: ring_contents_def)

lemma ring_put_head [simp]:
  "sd_inbufhead (ring_put x sd) = sd_inbufhead sd"
  "sd_inbuftail (ring_put x sd) = (sd_inbuftail sd + 1) mod INBUF_SIZE"
  "sd_inbufhead (ring_drop sd) = (sd_inbufhead sd + 1) mod INBUF_SIZE"
  "sd_inbuftail (ring_drop sd) = sd_inbuftail sd"
  "sd_inbuf (ring_drop sd) = sd_inbuf sd"
  by (simp_all add: ring_put_def ring_drop_def)

lemma ring_add:
  "h < INBUF_SIZE \<Longrightarrow> i < INBUF_SIZE \<Longrightarrow>
    (h + i) mod INBUF_SIZE = (if h + i < INBUF_SIZE then h + i else h + i - INBUF_SIZE)"
  by (simp add: mod_if)

lemma ring_index:
  assumes "ring_ok sd" "i < ring_len sd"
  shows "(sd_inbufhead sd + i) mod INBUF_SIZE \<noteq> sd_inbuftail sd"
proof -
  have "i < INBUF_SIZE" using assms by (auto simp: ring_len_eq ring_ok_def split: if_splits)
  then show ?thesis
    using assms ring_add [of "sd_inbufhead sd" i]
    by (auto simp: ring_len_eq ring_ok_def split: if_splits)
qed

lemma ring_len_put: "ring_ok sd \<Longrightarrow> \<not> ring_full sd \<Longrightarrow> ring_len (ring_put x sd) = Suc (ring_len sd)"
  using ring_succ [of "sd_inbuftail sd"] ring_len_eq [of sd] ring_len_eq [of "ring_put x sd"]
  by (auto simp: ring_ok_def ring_full_def split: if_splits)

lemma ring_len_drop: "ring_ok sd \<Longrightarrow> \<not> ring_empty sd \<Longrightarrow> ring_len sd = Suc (ring_len (ring_drop sd))"
  using ring_succ [of "sd_inbufhead sd"] ring_len_eq [of sd] ring_len_eq [of "ring_drop sd"]
  by (auto simp: ring_ok_def ring_empty_def split: if_splits)

lemma ring_last: "ring_ok sd \<Longrightarrow> (sd_inbufhead sd + ring_len sd) mod INBUF_SIZE = sd_inbuftail sd"
  by (auto simp: ring_len_eq ring_ok_def)

lemma ring_put_contents:
  assumes "ring_ok sd" "\<not> ring_full sd"
  shows "ring_contents (ring_put x sd) = ring_contents sd @ [x]"
proof -
  have "map (\<lambda>i. sd_inbuf (ring_put x sd) ((sd_inbufhead sd + i) mod INBUF_SIZE)) [0..<ring_len sd] =
      ring_contents sd"
    using ring_index [OF assms(1)] by (simp add: ring_contents_def ring_put_def)
  then show ?thesis
    by (simp add: ring_contents_def [of "ring_put x sd"] ring_len_put [OF assms] ring_last [OF assms(1)])
      (simp add: ring_put_def)
qed

lemma ring_drop_contents:
  assumes "ring_ok sd" "\<not> ring_empty sd"
  shows "ring_contents sd = ring_first sd # ring_contents (ring_drop sd)"
proof -
  have "ring_contents sd = ring_first sd #
      map (\<lambda>i. sd_inbuf sd ((sd_inbufhead sd + Suc i) mod INBUF_SIZE)) [0..<ring_len (ring_drop sd)]"
    using assms(1)
    by (simp add: ring_contents_def ring_len_drop [OF assms] ring_first_def ring_ok_def
        map_upt_Suc del: upt_Suc)
  also have "map (\<lambda>i. sd_inbuf sd ((sd_inbufhead sd + Suc i) mod INBUF_SIZE)) [0..<ring_len (ring_drop sd)] =
      ring_contents (ring_drop sd)"
    by (simp add: ring_contents_def mod_simps)
  finally show ?thesis .
qed

interpretation ring: bounded_fifo ring_ok ring_contents ring_full ring_empty ring_put ring_first ring_drop
  "INBUF_SIZE - 1"
proof unfold_locales
  fix s :: ser_data and x :: u8
  assume s: "ring_ok s"
  show "ring_full s \<longleftrightarrow> length (ring_contents s) = INBUF_SIZE - 1"
    using s by (auto simp: ring_full_def ring_len_eq ring_ok_def INBUF_SIZE_def mod_if split: if_splits)
  show "ring_empty s \<longleftrightarrow> ring_contents s = []"
    using s by (auto simp: ring_empty_def ring_len_eq ring_ok_def INBUF_SIZE_def
        simp flip: length_0_conv split: if_splits)
  show "\<not> ring_full s \<Longrightarrow> ring_ok (ring_put x s)"
    using s by (simp add: ring_ok_def INBUF_SIZE_def)
  show "\<not> ring_full s \<Longrightarrow> ring_contents (ring_put x s) = ring_contents s @ [x]"
    using s by (rule ring_put_contents)
  show "\<not> ring_empty s \<Longrightarrow> ring_first s = hd (ring_contents s)"
    using ring_drop_contents [OF s] by simp
  show "\<not> ring_empty s \<Longrightarrow> ring_ok (ring_drop s)"
    using s by (simp add: ring_ok_def INBUF_SIZE_def)
  show "\<not> ring_empty s \<Longrightarrow> ring_contents (ring_drop s) = tl (ring_contents s)"
    using ring_drop_contents [OF s] by simp
  show "length (ring_contents s) \<le> INBUF_SIZE - 1"
    using s by (auto simp: ring_len_eq ring_ok_def INBUF_SIZE_def split: if_splits)
qed

section \<open>The receiver\<close>

lemma serial_at_upd [simp]:
  "serial_at (upd_serial slot f m) slot' = (if slot' = slot then f (serial_at m slot) else serial_at m slot')"
  by (simp add: serial_at_def upd_serial_def put_device_def)

lemma serial_at_schedule_event [simp]: "serial_at (schedule_event d s c f m) slot = serial_at m slot"
  by (simp add: serial_at_def)

lemma devices_irq [simp]: "devices (raise_irq s m) = devices m" "devices (lower_irq s m) = devices m"
  using irq_frame_sels [OF irq_frame_irqupdate] by (simp_all add: raise_irq_def lower_irq_def)

lemma serial_at_frame [simp]:
  "serial_at (raise_irq s m) slot = serial_at m slot"
  "serial_at (lower_irq s m) slot = serial_at m slot"
  "serial_at (setirq s m) slot = serial_at m slot"
  "serial_at (upd_stats g m) slot = serial_at m slot"
  "serial_at (console_putc c m) slot = serial_at m slot"
  by (simp_all add: serial_at_def setirq_def Let_def console_putc_def)

lemma upd_serial_simps [simp]:
  "event_queue (upd_serial s f m) = event_queue m" "ta_free (upd_serial s f m) = ta_free m"
  "clock_vnow (upd_serial s f m) = clock_vnow m" "fault_state (upd_serial s f m) = fault_state m"
  "check_irq i (upd_serial s f m) = check_irq i m"
  by (simp_all add: upd_serial_def check_irq_def)

lemma setirq_drive:
  "setirq slot m = bus_lines.drive
     (irq_wanted (sd_rirq (serial_at m slot)) \<or> irq_wanted (sd_wirq (serial_at m slot)))
     (sd_slot (serial_at m slot)) m"
  by (simp add: setirq_def bus_lines.drive_def Let_def)

lemma queue_setirq [simp]:
  "event_queue (setirq s m) = event_queue m" "ta_free (setirq s m) = ta_free m"
  by (simp_all add: setirq_def Let_def)

text \<open>C37: While the receiver is busy, typing a sequence of characters appends them to those
  waiting, in order, and drops exactly what does not fit in 511.\<close>

theorem serial_input_fifo:
  assumes "ring_ok (serial_at m slot)" "sd_rbusy (serial_at m slot)"
  shows "let sd' = serial_at (fold (serial_input slot) chs m) slot in
    ring_ok sd' \<and> ring_contents sd' = take 511 (ring_contents (serial_at m slot) @ chs)"
proof -
  have "serial_at (fold (serial_input slot) chs m) slot = fold ring.offer chs (serial_at m slot)"
    using assms
  proof (induction chs arbitrary: m)
    case (Cons ch chs)
    have "sd_rbusy (ring.offer ch (serial_at m slot))"
      using Cons.prems by (simp add: ring.offer_def ring_put_def)
    moreover have "serial_at (serial_input slot ch m) slot = ring.offer ch (serial_at m slot)"
      using Cons.prems(2) by (simp add: serial_input_def ring.offer_def Let_def ring_put_def)
    ultimately show ?case
      using Cons.IH [of "serial_input slot ch m"] Cons.prems ring.offer_ok by simp
  qed simp
  then show ?thesis using ring.fold_offer [OF assms(1), of chs] by (simp add: INBUF_SIZE_def)
qed

lemma serial_at_drive [simp]: "serial_at (bus_lines.drive b s m) slot = serial_at m slot"
  by (simp add: bus_lines.drive_def)

lemma ring_contents_upd [simp]:
  "ring_contents (sd\<lparr>sd_droppedreads := a\<rparr>) = ring_contents sd"
  "ring_contents (sd\<lparr>sd_readch := b\<rparr>) = ring_contents sd"
  "ring_contents (sd\<lparr>sd_didread := d\<rparr>) = ring_contents sd"
  "ring_contents (sd\<lparr>sd_rirq := e\<rparr>) = ring_contents sd"
  "ring_contents (sd\<lparr>sd_rbusy := d\<rparr>) = ring_contents sd"
  by (simp_all add: ring_contents_def ring_len_def)

lemma ring_drop_regs [simp]:
  "sd_slot (ring_drop sd) = sd_slot sd" "sd_rirq (ring_drop sd) = sd_rirq sd"
  "sd_wirq (ring_drop sd) = sd_wirq sd"
  by (simp_all add: ring_drop_def)

text \<open>Pushing input hands the oldest waiting character to the kernel, raises the line if
  the kernel asked for it, and stays busy; with a character the kernel has not taken it does not.\<close>

theorem serial_pushinput_delivers:
  assumes "ring_ok (serial_at m slot)" "ring_contents (serial_at m slot) = ch # rest"
    and "sd_slot (serial_at m slot) < 32"
  shows "let sd = serial_at m slot; m' = serial_pushinput slot m; sd' = serial_at m' slot in
    if \<not> sd_didread sd \<and> si_ready (sd_rirq sd)
    then ring_contents sd' = ch # rest \<and> sd_readch sd' = sd_readch sd
    else ring_contents sd' = rest \<and> sd_readch sd' = ucast ch \<and> \<not> sd_didread sd' \<and>
         sd_rbusy sd' \<and> si_ready (sd_rirq sd') \<and>
         (si_on (sd_rirq sd) \<longrightarrow> check_irq (sd_slot sd) m')"
proof -
  let ?sd = "serial_at m slot"
  have ne: "\<not> ring_empty ?sd" using assms(1,2) ring.empty_iff by simp
  have c: "ring_first ?sd = ch" "ring_contents (ring_drop ?sd) = rest"
    using ring_drop_contents [OF assms(1) ne] assms(2) by simp_all
  show ?thesis
    using assms ne c
    by (auto simp: serial_pushinput_def Let_def setirq_drive bus_lines.test_drive irq_wanted_def)
qed

section \<open>The line and the transmitter\<close>

text \<open>The device's line is up exactly when one of its two interrupt registers asks for it.\<close>

definition serial_line_ok :: "nat \<Rightarrow> machine \<Rightarrow> bool" where
  "serial_line_ok slot m \<longleftrightarrow>
     (let sd = serial_at m slot in
      sd_slot sd < 32 \<and> (check_irq (sd_slot sd) m \<longleftrightarrow> irq_wanted (sd_rirq sd) \<or> irq_wanted (sd_wirq sd)))"

lemma check_irq_upd [simp]:
  "check_irq i (upd_stats g m) = check_irq i m" "check_irq i (console_putc c m) = check_irq i m"
  by (simp_all add: check_irq_def console_putc_def)

lemma setirq_line_ok: "sd_slot (serial_at m slot) < 32 \<Longrightarrow> serial_line_ok slot (setirq slot m)"
  by (simp add: serial_line_ok_def setirq_drive bus_lines.test_drive)

lemma serial_line_ok_keep:
  assumes "serial_line_ok slot m"
    and "sd_slot (f (serial_at m slot)) = sd_slot (serial_at m slot)"
    and "sd_rirq (f (serial_at m slot)) = sd_rirq (serial_at m slot)"
    and "sd_wirq (f (serial_at m slot)) = sd_wirq (serial_at m slot)"
  shows "serial_line_ok slot (upd_serial slot f m)"
  using assms by (simp add: serial_line_ok_def Let_def)

lemma serial_line_ok_event [simp]:
  "serial_line_ok slot (schedule_event d s c f m) = serial_line_ok slot m"
  by (simp add: serial_line_ok_def)

lemma serial_line_ok_out [simp]:
  "serial_line_ok slot (console_putc c m) = serial_line_ok slot m"
  "serial_line_ok slot (upd_stats g m) = serial_line_ok slot m"
  by (simp_all add: serial_line_ok_def Let_def)

lemma serial_pushinput_line_ok: "serial_line_ok slot m \<Longrightarrow> serial_line_ok slot (serial_pushinput slot m)"
proof -
  assume l: "serial_line_ok slot m"
  then have "sd_slot (serial_at m slot) < 32" by (simp add: serial_line_ok_def Let_def)
  then have "serial_line_ok slot (upd_serial slot (\<lambda>sd. sd\<lparr>sd_rbusy := True\<rparr>)
      (setirq slot (upd_serial slot (\<lambda>sd. (ring_drop sd)\<lparr>sd_droppedreads := 0, sd_readch := ch,
         sd_didread := False, sd_rirq := (sd_rirq sd)\<lparr>si_ready := True\<rparr>\<rparr>) m)))" for ch
    by (intro serial_line_ok_keep setirq_line_ok) simp_all
  then show ?thesis
    using l by (simp add: serial_pushinput_def Let_def serial_line_ok_keep)
qed

text \<open>Every operation of the port leaves the line at the level its interrupt registers
  call for.\<close>

theorem serial_line_level:
  assumes "serial_line_ok slot m"
  shows "serial_line_ok slot (fst (serial_store slot off v m)) \<and>
    serial_line_ok slot (fst (serial_fetch slot off m)) \<and>
    serial_line_ok slot (serial_writedone slot m) \<and>
    serial_line_ok slot (serial_pushinput slot m) \<and>
    serial_line_ok slot (serial_input slot ch m)"
proof -
  have s: "sd_slot (serial_at m slot) < 32"
    using assms by (simp add: serial_line_ok_def Let_def)
  have st: "serial_line_ok slot (fst (serial_store slot off v m))"
    using assms s
    by (auto simp: serial_store_def intro!: setirq_line_ok serial_line_ok_keep)
  have "serial_line_ok slot (fst (serial_fetch slot off m))"
    using assms by (simp add: serial_fetch_def Let_def serial_line_ok_def)
  moreover have "serial_line_ok slot (serial_writedone slot m)"
    using s by (auto simp: serial_writedone_def intro!: setirq_line_ok)
  moreover have "serial_line_ok slot (serial_input slot ch m)"
    using assms
    by (auto simp: serial_input_def Let_def ring_put_def
        intro!: serial_pushinput_line_ok serial_line_ok_keep)
  ultimately show ?thesis using st serial_pushinput_line_ok [OF assms] by blast
qed

text \<open>A character stored while the transmitter is free goes out once and makes it busy; one
  stored while it is busy is dropped; completion frees it and signals.\<close>

theorem serial_transmit:
  assumes "\<not> sd_wbusy (serial_at m slot)" "sd_slot (serial_at m slot) < 32"
  shows "let m1 = fst (serial_store slot SERREG_CHAR v m); m2 = serial_writedone slot m1 in
    console_out m1 = console_out m @ [v] \<and> sd_wbusy (serial_at m1 slot) \<and>
    serial_store slot SERREG_CHAR w m1 = (m1, True) \<and>
    \<not> sd_wbusy (serial_at m2 slot) \<and> console_out m2 = console_out m1 \<and>
    (si_on (sd_wirq (serial_at m slot)) \<longrightarrow> check_irq (sd_slot (serial_at m slot)) m2)"
proof -
  have c: "console_out (schedule_event d s c f m) = console_out m" for d s c f m
    by (simp add: schedule_event_def host_next_random_def Let_def cpu_stopcycling_def smoke_def
      raise_fault_def split: prod.split)
  have i: "console_out (bus_lines.drive b s m) = console_out m" for b s m
    using irq_frame_sels [OF irq_frame_irqupdate]
    by (simp add: bus_lines.drive_def raise_irq_def lower_irq_def)
  have u: "console_out (upd_serial s f m) = console_out m" "console_out (upd_stats g m) = console_out m"
    "console_out (console_putc v m) = console_out m @ [v]" for s f g v m
    by (simp_all add: upd_serial_def put_device_def upd_stats_def console_putc_def)
  show ?thesis
    using assms
    by (simp add: serial_store_def serial_writedone_def Let_def c i u setirq_drive
        bus_lines.test_drive irq_wanted_def)
qed

lemma serial_input_waits:
  assumes "\<not> sd_rbusy (serial_at m slot)" "\<not> sd_didread (serial_at m slot)"
    and "si_ready (sd_rirq (serial_at m slot))" "ring_ok (serial_at m slot)"
    and "length (ring_contents (serial_at m slot)) < 511" "0 < ta_free m"
    and m': "m' = serial_input slot a m"
  shows "serial_at m' slot = (ring_put a (serial_at m slot))
      \<lparr>sd_droppedreads := sd_droppedreads (serial_at m slot) + 1\<rparr>"
    "length (event_queue m') = Suc (length (event_queue m))" "ta_free m' = ta_free m - 1"
proof -
  have f: "\<not> ring_full (serial_at m slot)"
    using assms(4,5) ring.full_iff by (simp add: INBUF_SIZE_def)
  then have e: "\<not> ring_empty (ring_put a (serial_at m slot))"
    using assms(4) ring.empty_iff [OF ring.put_ok] by (simp add: ring_put_contents)
  have p: "sd_rbusy (ring_put a sd) = sd_rbusy sd" "sd_didread (ring_put a sd) = sd_didread sd"
    "sd_rirq (ring_put a sd) = sd_rirq sd" "sd_droppedreads (ring_put a sd) = sd_droppedreads sd" for sd
    by (simp_all add: ring_put_def)
  have "m' = schedule_event SERIAL_NSECS slot 0 F_serial_pushinput
      (upd_serial slot (\<lambda>sd. sd\<lparr>sd_droppedreads := sd_droppedreads sd + 1\<rparr>)
        (upd_serial slot (ring_put a) m))"
    using assms(1-3) f e by (simp add: m' serial_input_def serial_pushinput_def Let_def p)
  moreover have "ta_free (schedule_event d s c g n) = ta_free n - 1"
    "length (event_queue (schedule_event d s c g n)) = Suc (length (event_queue n))"
    if "0 < ta_free n" for d s c g n
    using schedule_event_eq [OF that, of d s c g] by auto
  ultimately show "serial_at m' slot = (ring_put a (serial_at m slot))
      \<lparr>sd_droppedreads := sd_droppedreads (serial_at m slot) + 1\<rparr>"
    "length (event_queue m') = Suc (length (event_queue m))" "ta_free m' = ta_free m - 1"
    using assms(6) by (simp_all add: p)
qed

text \<open>While the kernel has not taken a character, each character typed starts one more
  delivery event, because waiting does not mark the receiver busy.\<close>

theorem serial_waiting_not_busy:
  assumes "\<not> sd_rbusy (serial_at m slot)" "\<not> sd_didread (serial_at m slot)"
    and "si_ready (sd_rirq (serial_at m slot))" "ring_ok (serial_at m slot)"
    and "ring_contents (serial_at m slot) = []" "2 \<le> ta_free m"
  shows "let m' = serial_input slot b (serial_input slot a m) in
    length (event_queue m') = length (event_queue m) + 2 \<and> \<not> sd_rbusy (serial_at m' slot) \<and>
    ring_contents (serial_at m' slot) = [a, b]"
proof -
  have l: "length (ring_contents (serial_at m slot)) = 0" using assms(5) by (simp only: list.size)
  have f: "\<not> ring_full (serial_at m slot)"
    using ring.full_iff [OF assms(4)] l by (simp add: INBUF_SIZE_def)
  note 1 = serial_input_waits [OF assms(1-4) _ _ refl, of a]
  let ?sd1 = "(ring_put a (serial_at m slot))
      \<lparr>sd_droppedreads := sd_droppedreads (serial_at m slot) + 1\<rparr>"
  have s1: "\<not> sd_rbusy ?sd1" "\<not> sd_didread ?sd1" "si_ready (sd_rirq ?sd1)"
    using assms(1-3) by (simp_all add: ring_put_def)
  have o1: "ring_ok ?sd1" using ring.put_ok [OF assms(4) f] by (simp add: ring_ok_def)
  have c1: "ring_contents ?sd1 = [a]" using assms(4,5) f by (simp add: ring_put_contents)
  have "length (ring_contents ?sd1) = 1" using c1 by (simp only: list.size)
  then have f1: "\<not> ring_full ?sd1" using ring.full_iff [OF o1] by (simp add: INBUF_SIZE_def)
  let ?m1 = "serial_input slot a m"
  have e1: "serial_at ?m1 slot = ?sd1" "length (event_queue ?m1) = Suc (length (event_queue m))"
    "0 < ta_free ?m1" using 1 l assms(6) by simp_all
  have l1: "length (ring_contents ?sd1) < 511"
    using \<open>length (ring_contents ?sd1) = 1\<close> by linarith
  note 2 = serial_input_waits [of ?m1 slot, unfolded e1(1), OF s1 o1 l1 e1(3) refl, of b]
  have "sd_rbusy (ring_put b sd) = sd_rbusy sd" for sd by (simp add: ring_put_def)
  then show ?thesis
    using 2(1,2) e1(2) s1(1) ring_put_contents [OF o1 f1, of b] c1
    by (simp only: Let_def ring_contents_upd ser_data.select_convs ser_data.simps) simp
qed

end
