(* ===== verification/Disk_Dev.thy ===== *)
theory Disk_Dev
  imports Serial_Dev Complex_Main "HOL-Library.While_Combinator"
begin

text \<open>
  The disk (\<open>bus/dev_disk.c\<close>): raw sector I/O on the image file, the geometry and timing model,
  and the operation that the status register starts and timed events carry through seek, rotation
  and buffer copy. \<open>disk_sync\<close> is the invariant that an operation in progress always has an event
  on its way; the tries counter bounds how many it can take (\<open>disk_run\<close>), and on a disk whose timing
  and geometry are \<open>disk_sound\<close> none of them stops the simulator.

  The number of sectors of each track is computed in floating point when the disk is configured
  and is data here. An I/O error of the host is a sector listed in \<open>dd_badsects\<close>, with nothing
  transferred. The loops of the rotation model that may run for ever are \<open>while_option\<close>; not
  returning is the fault \<open>No_return\<close>.
\<close>

section \<open>Registers and status bits\<close>

definition SECTSIZE :: nat where "SECTSIZE = 512"
definition HEADERSIZE :: nat where "HEADERSIZE = SECTSIZE"
definition CACHE_READ_TIME :: u64 where "CACHE_READ_TIME = 500"
definition CACHE_WRITE_TIME :: u64 where "CACHE_WRITE_TIME = 500"
definition MAX_WORKTRIES :: nat where "MAX_WORKTRIES = 10"
definition DISKREG_NSECT :: u32 where "DISKREG_NSECT = 0"
definition DISKREG_STAT :: u32 where "DISKREG_STAT = 4"
definition DISKREG_SECT :: u32 where "DISKREG_SECT = 8"
definition DISKREG_RPM :: u32 where "DISKREG_RPM = 12"
definition DISK_BUF_START :: u32 where "DISK_BUF_START = 32768"
definition DISK_BUF_END :: u32 where "DISK_BUF_END = DISK_BUF_START + of_nat SECTSIZE"
definition DISKBIT_INPROGRESS :: u32 where "DISKBIT_INPROGRESS = 1"
definition DISKBIT_ISWRITE :: u32 where "DISKBIT_ISWRITE = 2"
definition DISKBIT_COMPLETE :: u32 where "DISKBIT_COMPLETE = 4"
definition DISKBIT_INVSECT :: u32 where "DISKBIT_INVSECT = 8"
definition DISKBIT_MEDIAERR :: u32 where "DISKBIT_MEDIAERR = 16"
definition DISKSTAT_IDLE :: u32 where "DISKSTAT_IDLE = 0"
definition DISKSTAT_READING :: u32 where "DISKSTAT_READING = DISKBIT_INPROGRESS"
definition DISKSTAT_WRITING :: u32 where "DISKSTAT_WRITING = DISKBIT_INPROGRESS OR DISKBIT_ISWRITE"
definition DISKSTAT_COMPLETE :: u32 where "DISKSTAT_COMPLETE = DISKBIT_COMPLETE"
definition DISKSTAT_INVSECT :: u32 where "DISKSTAT_INVSECT = DISKBIT_COMPLETE OR DISKBIT_INVSECT"
definition DISKSTAT_MEDIAERR :: u32 where "DISKSTAT_MEDIAERR = DISKBIT_COMPLETE OR DISKBIT_MEDIAERR"

lemmas DISK_defs =
  DISKREG_NSECT_def DISKREG_STAT_def DISKREG_SECT_def DISKREG_RPM_def DISK_BUF_START_def
  DISK_BUF_END_def DISKBIT_INPROGRESS_def DISKBIT_ISWRITE_def DISKBIT_COMPLETE_def
  DISKBIT_INVSECT_def DISKBIT_MEDIAERR_def DISKSTAT_IDLE_def DISKSTAT_READING_def
  DISKSTAT_WRITING_def DISKSTAT_COMPLETE_def DISKSTAT_INVSECT_def DISKSTAT_MEDIAERR_def
  SECTSIZE_def

text \<open>The macro \<open>FINISH\<close>.\<close>

definition disk_finish :: "u32 \<Rightarrow> u32 \<Rightarrow> u32" where
  "disk_finish r bits = (r AND NOT DISKBIT_INPROGRESS) OR bits"

section \<open>Device data\<close>

definition zero_disk :: "nat \<Rightarrow> disk_data" where
  "zero_disk slot = \<lparr>dd_slot = slot, dd_file = (\<lambda>_. None), dd_badsects = [], dd_paranoid = False,
     dd_sectors = [], dd_tracks = 0, dd_totsectors = 0, dd_rpm = 0, dd_nsecs_per_rev = 0,
     dd_usedoom = False, dd_current_track = 0, dd_trackarrival_secs = 0, dd_trackarrival_nsecs = 0,
     dd_iostatus = -1, dd_timedop = False, dd_worktries = 0, dd_stat = DISKSTAT_IDLE, dd_sect = 0,
     dd_buf = (\<lambda>_. 0)\<rparr>"

definition disk_at :: "machine \<Rightarrow> nat \<Rightarrow> disk_data" where
  "disk_at m slot = (case devices m slot of Some (Disk dd) \<Rightarrow> dd | _ \<Rightarrow> zero_disk slot)"

definition upd_disk :: "nat \<Rightarrow> (disk_data \<Rightarrow> disk_data) \<Rightarrow> machine \<Rightarrow> machine" where
  "upd_disk slot f m = put_device slot (Disk (f (disk_at m slot))) m"

definition doom_tick :: "machine \<Rightarrow> machine" where
  "doom_tick m =
     (if doom_counter m > 0 then
        let m1 = m\<lparr>doom_counter := doom_counter m - 1\<rparr>
        in if doom_counter m1 = 0 then raise_fault Exit_requested m1 else m1
      else m)"

definition doom_establish :: "nat \<Rightarrow> machine \<Rightarrow> machine" where
  "doom_establish n m = m\<lparr>doom_counter := n\<rparr>"

section \<open>Raw I/O\<close>

text \<open>Where a sector is in the image. Reading past the end of the file gives zeros.\<close>

definition sector_offset :: "u32 \<Rightarrow> nat" where
  "sector_offset sect = unat sect * SECTSIZE + HEADERSIZE"

definition doread :: "(nat \<Rightarrow> u8 option) \<Rightarrow> nat \<Rightarrow> (u32 \<Rightarrow> u8) \<Rightarrow> (u32 \<Rightarrow> u8)" where
  "doread file offset buf = (\<lambda>i. if unat i < SECTSIZE
     then (case file (offset + unat i) of Some b \<Rightarrow> b | None \<Rightarrow> 0) else buf i)"

definition dowrite :: "nat \<Rightarrow> (u32 \<Rightarrow> u8) \<Rightarrow> (nat \<Rightarrow> u8 option) \<Rightarrow> (nat \<Rightarrow> u8 option)" where
  "dowrite offset buf file = (\<lambda>p. if offset \<le> p \<and> p < offset + SECTSIZE
     then Some (buf (of_nat (p - offset))) else file p)"

text \<open>The flag is true when the function returned 0.\<close>

definition disk_readsector :: "disk_data \<Rightarrow> disk_data \<times> bool" where
  "disk_readsector dd =
     (if dd_sect dd \<in> set (dd_badsects dd) then (dd, False)
      else (dd\<lparr>dd_buf := doread (dd_file dd) (sector_offset (dd_sect dd)) (dd_buf dd)\<rparr>, True))"

definition disk_writesector :: "disk_data \<Rightarrow> disk_data \<times> bool" where
  "disk_writesector dd =
     (if dd_sect dd \<in> set (dd_badsects dd) then (dd, False)
      else (dd\<lparr>dd_file := dowrite (sector_offset (dd_sect dd)) (dd_buf dd) (dd_file dd)\<rparr>, True))"

section \<open>Geometry and timing\<close>

text \<open>The loop of \<open>locate_sector\<close>, from the outermost track inwards.\<close>

primrec locate_from :: "nat \<Rightarrow> u32 \<Rightarrow> u32 list \<Rightarrow> u32 \<Rightarrow> (nat \<times> u32) option" where
  "locate_from 0 start sectors sector = None"
| "locate_from (Suc tr) start sectors sector =
     (let end' = start + sectors ! tr in
      if start \<le> sector \<and> sector < end' then Some (tr, sector - start)
      else locate_from tr end' sectors sector)"

definition locate_sector :: "disk_data \<Rightarrow> u32 \<Rightarrow> (nat \<times> u32) option" where
  "locate_sector dd sector = locate_from (dd_tracks dd) 0 (dd_sectors dd) sector"

text \<open>The square root is the real one; the code rounds in double precision.\<close>

definition disk_seektime :: "nat \<Rightarrow> u32" where
  "disk_seektime ntracks =
     (if ntracks > 3 then of_int \<lfloor>1000000 * (10 + 3 * sqrt (real ntracks))\<rfloor>
      else 1000000 * (5 * of_nat ntracks))"

definition catch_up :: "u32 \<Rightarrow> u32 \<Rightarrow> u32 \<Rightarrow> u32 option" where
  "catch_up bound step targ = while_option (\<lambda>t. t < bound) (\<lambda>t. t + step) targ"

function carry_secs :: "u32 \<Rightarrow> u32 \<Rightarrow> u32 \<times> u32" where
  "carry_secs secs nsecs =
     (if nsecs \<ge> 1000000000 then carry_secs (secs + 1) (nsecs - 1000000000) else (secs, nsecs))"
  by auto
termination
  by (relation "measure (\<lambda>(s, n). unat n)") (auto simp: unat_sub word_le_nat_alt)

declare carry_secs.simps [simp del]

definition disk_readrotdelay :: "disk_data \<Rightarrow> nat \<Rightarrow> u32 \<Rightarrow> machine \<Rightarrow> u32 option" where
  "disk_readrotdelay dd cyl rotoffset m =
     (let nsecs_per_sector = dd_nsecs_per_rev dd div (dd_sectors dd ! cyl);
          targsector = (rotoffset + 1) mod (dd_sectors dd ! cyl)
      in case catch_up (dd_trackarrival_nsecs dd) (dd_nsecs_per_rev dd) (targsector * nsecs_per_sector) of
           None \<Rightarrow> None
         | Some t \<Rightarrow>
             let (targsecs, targnsecs) = carry_secs (dd_trackarrival_secs dd) t;
                 (nowsecs, nownsecs) = clock_time m
             in if targsecs < nowsecs \<or> (targsecs = nowsecs \<and> targnsecs \<le> nownsecs) then Some 0
                else Some (targnsecs - nownsecs + 1000000000 * (targsecs - nowsecs)))"

definition disk_writerotdelay :: "disk_data \<Rightarrow> nat \<Rightarrow> u32 \<Rightarrow> machine \<Rightarrow> u32 option" where
  "disk_writerotdelay dd cyl rotoffset m =
     (let nsecs_per_sector = dd_nsecs_per_rev dd div (dd_sectors dd ! cyl);
          (nowsecs, nownsecs) = clock_time m
      in case catch_up nownsecs (dd_nsecs_per_rev dd) (rotoffset * nsecs_per_sector) of
           None \<Rightarrow> None
         | Some t \<Rightarrow> Some (t + nsecs_per_sector - nownsecs))"

section \<open>Operations\<close>

definition is_write :: "disk_data \<Rightarrow> bool" where
  "is_write dd \<longleftrightarrow> dd_stat dd AND DISKBIT_ISWRITE \<noteq> 0"

text \<open>From the label \<open>forceio\<close> on: the transfer and its result.\<close>

definition disk_io :: "nat \<Rightarrow> machine \<Rightarrow> machine" where
  "disk_io slot m =
     (let dd = disk_at m slot;
          (dd1, ok) = (if is_write dd then disk_writesector dd else disk_readsector dd);
          m1 = upd_disk slot (\<lambda>_. dd1\<lparr>
                 dd_stat := disk_finish (dd_stat dd1) (if ok then DISKSTAT_COMPLETE else DISKSTAT_MEDIAERR),
                 dd_worktries := 0\<rparr>) m
      in upd_stats (\<lambda>s. if is_write dd then s\<lparr>s_wsects := s_wsects s + 1\<rparr>
                        else s\<lparr>s_rsects := s_rsects s + 1\<rparr>) m1)"

definition disk_wait :: "nat \<Rightarrow> u64 \<Rightarrow> u32 \<Rightarrow> ta_func \<Rightarrow> machine \<Rightarrow> machine" where
  "disk_wait slot nsecs code f m =
     schedule_event nsecs slot code f (upd_disk slot (\<lambda>dd. dd\<lparr>dd_timedop := True\<rparr>) m)"

text \<open>The last stage before the transfer, for a read.\<close>

definition disk_copy_stage :: "nat \<Rightarrow> machine \<Rightarrow> machine" where
  "disk_copy_stage slot m =
     (let dd = disk_at m slot in
      if \<not> is_write dd \<and> dd_iostatus dd < 3 then disk_wait slot CACHE_READ_TIME 3 F_disk_waitdone m
      else disk_io slot m)"

definition disk_work :: "nat \<Rightarrow> machine \<Rightarrow> machine" where
  "disk_work slot m =
     (let dd = disk_at m slot in
      if dd_timedop dd then m
      else if dd_stat dd AND DISKBIT_INPROGRESS = 0 then m
      else if dd_sect dd \<ge> dd_totsectors dd then
        upd_disk slot (\<lambda>dd. dd\<lparr>dd_stat := disk_finish (dd_stat dd) DISKSTAT_INVSECT,
                            dd_worktries := 0\<rparr>) m
      else
        let m1 = upd_disk slot (\<lambda>dd. dd\<lparr>dd_worktries := dd_worktries dd + 1\<rparr>) m;
            dd1 = disk_at m1 slot
        in if dd_worktries dd1 > MAX_WORKTRIES then
             disk_io slot (upd_disk slot (\<lambda>dd. dd\<lparr>dd_current_track := 0,
               dd_trackarrival_secs := fst (clock_time m1),
               dd_trackarrival_nsecs := snd (clock_time m1),
               dd_iostatus := -1, dd_timedop := False\<rparr>) m1)
           else
             case locate_sector dd1 (dd_sect dd1) of
               None \<Rightarrow> smoke m1
             | Some (cyl, rotoffset) \<Rightarrow>
                 if dd_current_track dd1 \<noteq> cyl then
                   disk_wait slot
                     (ucast (disk_seektime (nat \<bar>int cyl - int (dd_current_track dd1)\<bar>)))
                     (of_nat cyl) F_disk_seekdone m1
                 else if is_write dd1 \<and> dd_iostatus dd1 < 1 then
                   disk_wait slot CACHE_WRITE_TIME 1 F_disk_waitdone m1
                 else if dd_iostatus dd1 < 2 then
                   (case (if is_write dd1 then disk_writerotdelay dd1 cyl rotoffset m1
                          else disk_readrotdelay dd1 cyl rotoffset m1) of
                      None \<Rightarrow> raise_fault No_return m1
                    | Some rotdelay \<Rightarrow>
                        if rotdelay > 0 then
                          disk_wait slot (ucast rotdelay) 2 F_disk_waitdone m1
                        else disk_copy_stage slot (upd_disk slot (\<lambda>dd. dd\<lparr>dd_iostatus := 2\<rparr>) m1))
                 else disk_copy_stage slot m1)"

definition disk_update :: "nat \<Rightarrow> machine \<Rightarrow> machine" where
  "disk_update slot m =
     (let m1 = disk_work slot m; dd = disk_at m1 slot in
      if dd_stat dd AND DISKBIT_COMPLETE \<noteq> 0 then raise_irq (dd_slot dd) m1
      else lower_irq (dd_slot dd) m1)"

definition disk_seekdone :: "nat \<Rightarrow> u32 \<Rightarrow> machine \<Rightarrow> machine" where
  "disk_seekdone slot cyl m =
     disk_update slot (upd_disk slot (\<lambda>dd. dd\<lparr>dd_current_track := unat cyl,
       dd_trackarrival_secs := fst (clock_time m), dd_trackarrival_nsecs := snd (clock_time m),
       dd_timedop := False\<rparr>) m)"

definition disk_waitdone :: "nat \<Rightarrow> u32 \<Rightarrow> machine \<Rightarrow> machine" where
  "disk_waitdone slot status m =
     disk_update slot (upd_disk slot (\<lambda>dd. dd\<lparr>dd_iostatus := sint status, dd_timedop := False\<rparr>) m)"

section \<open>Registers\<close>

definition disk_setstatus :: "nat \<Rightarrow> u32 \<Rightarrow> machine \<Rightarrow> machine" where
  "disk_setstatus slot val m =
     (if val = DISKSTAT_IDLE \<or> val = DISKSTAT_READING \<or> val = DISKSTAT_WRITING then
        let m1 = (if val = DISKSTAT_WRITING \<and> dd_usedoom (disk_at m slot) then doom_tick m else m);
            st = (if val = DISKSTAT_IDLE then -1 else 0)
        in disk_update slot (upd_disk slot (\<lambda>dd. dd\<lparr>dd_iostatus := st, dd_stat := val\<rparr>) m1)
      else hang m)"

definition disk_buf_fetch :: "disk_data \<Rightarrow> u32 \<Rightarrow> u32 option" where
  "disk_buf_fetch dd offset =
     (if offset \<ge> DISK_BUF_START \<and> offset < DISK_BUF_END
      then Some (ctoh32 (host_load32 (dd_buf dd) (offset - DISK_BUF_START))) else None)"

definition disk_buf_store :: "u32 \<Rightarrow> u32 \<Rightarrow> disk_data \<Rightarrow> disk_data option" where
  "disk_buf_store offset val dd =
     (if offset \<ge> DISK_BUF_START \<and> offset < DISK_BUF_END
      then Some (dd\<lparr>dd_buf := host_store32 (dd_buf dd) (offset - DISK_BUF_START) (htoc32 val)\<rparr>)
      else None)"

definition disk_fetch :: "nat \<Rightarrow> u32 \<Rightarrow> machine \<Rightarrow> machine \<times> fetched" where
  "disk_fetch slot offset m =
     (let dd = disk_at m slot in
      case disk_buf_fetch dd offset of
        Some v \<Rightarrow> (m, Fetched v)
      | None \<Rightarrow>
          if offset = DISKREG_NSECT then (m, Fetched (dd_totsectors dd))
          else if offset = DISKREG_RPM then (m, Fetched (dd_rpm dd))
          else if offset = DISKREG_STAT then (m, Fetched (dd_stat dd))
          else if offset = DISKREG_SECT then (m, Fetched (dd_sect dd))
          else (m, Bus_error))"

definition disk_store :: "nat \<Rightarrow> u32 \<Rightarrow> u32 \<Rightarrow> machine \<Rightarrow> machine \<times> bool" where
  "disk_store slot offset val m =
     (case disk_buf_store offset val (disk_at m slot) of
        Some dd1 \<Rightarrow> (upd_disk slot (\<lambda>_. dd1) m, True)
      | None \<Rightarrow>
          if offset = DISKREG_STAT then (disk_setstatus slot val m, True)
          else if offset = DISKREG_SECT then (upd_disk slot (\<lambda>dd. dd\<lparr>dd_sect := val\<rparr>) m, True)
          else (m, False))"

section \<open>The transfer buffer is a word store\<close>

lemma buf_start_and:
  assumes "DISK_BUF_START \<le> a" "a AND 3 = 0"
  shows "(a - DISK_BUF_START) AND 3 = 0"
proof -
  have "unat (a - DISK_BUF_START) = unat a - 32768"
    using assms(1) by (simp add: unat_sub DISK_BUF_START_def)
  then show ?thesis using assms(2) by (simp add: dvd4_and dvd_diff_nat)
qed

interpretation disk_buf: word_store disk_buf_fetch disk_buf_store
proof
  show "disk_buf_store a v dd = None \<longleftrightarrow> disk_buf_fetch dd a = None" for a v dd
    by (simp add: disk_buf_store_def disk_buf_fetch_def)
  show "disk_buf_fetch dd' a = Some v" if "disk_buf_store a v dd = Some dd'" for a v dd dd'
    using that by (auto simp: disk_buf_store_def disk_buf_fetch_def split: if_splits)
  show "disk_buf_fetch dd' b = disk_buf_fetch dd b"
    if "disk_buf_store a v dd = Some dd'" "a AND 3 = 0" "b AND 3 = 0" "a \<noteq> b" for a v dd dd' b
  proof (cases "b \<ge> DISK_BUF_START \<and> b < DISK_BUF_END")
    case True
    have a: "DISK_BUF_START \<le> a" "dd' = dd\<lparr>dd_buf := host_store32 (dd_buf dd) (a - DISK_BUF_START) (htoc32 v)\<rparr>"
      using that(1) by (auto simp: disk_buf_store_def split: if_splits)
    have "host_load32 (host_store32 (dd_buf dd) (a - DISK_BUF_START) (htoc32 v)) (b - DISK_BUF_START) =
        host_load32 (dd_buf dd) (b - DISK_BUF_START)"
      using that(2-4) True a(1) by (intro host_load32_store32_other buf_start_and) auto
    then show ?thesis using True a(2) by (simp add: disk_buf_fetch_def)
  next
    case False
    then show ?thesis by (auto simp: disk_buf_fetch_def)
  qed
qed

section \<open>Sectors on tracks\<close>

text \<open>The sectors outside of track \<open>tr\<close>, of \<open>n\<close> tracks.\<close>

definition outer_sectors :: "u32 list \<Rightarrow> nat \<Rightarrow> nat \<Rightarrow> nat" where
  "outer_sectors sectors n tr = (\<Sum>j\<leftarrow>[Suc tr..<n]. unat (sectors ! j))"

lemma outer_sectors_Suc:
  "tr < n \<Longrightarrow> outer_sectors sectors (Suc n) tr = outer_sectors sectors n tr + unat (sectors ! n)"
  by (simp add: outer_sectors_def)

lemma outer_sectors_self [simp]: "outer_sectors sectors (Suc n) n = 0"
  by (simp add: outer_sectors_def)

definition total_sectors :: "u32 list \<Rightarrow> nat \<Rightarrow> nat" where
  "total_sectors sectors n = (\<Sum>j\<leftarrow>[0..<n]. unat (sectors ! j))"

lemma locate_from_Some:
  assumes "unat start + total_sectors sectors n < 2 ^ 32" "unat start \<le> unat s"
    and "unat s < unat start + total_sectors sectors n"
  shows "\<exists>tr off. locate_from n start sectors s = Some (tr, off) \<and> tr < n \<and>
    unat s = unat start + outer_sectors sectors n tr + unat off \<and> unat off < unat (sectors ! tr)"
  using assms
proof (induction n arbitrary: start)
  case (Suc n)
  have t: "total_sectors sectors (Suc n) = total_sectors sectors n + unat (sectors ! n)"
    by (simp add: total_sectors_def)
  have e: "unat (start + sectors ! n) = unat start + unat (sectors ! n)"
    using Suc.prems(1) t by (simp add: unat_plus_if_size word_size)
  show ?case
  proof (cases "unat s < unat start + unat (sectors ! n)")
    case True
    then have "locate_from (Suc n) start sectors s = Some (n, s - start)"
      using Suc.prems(2) e by (simp add: word_le_nat_alt word_less_nat_alt)
    moreover have "unat (s - start) = unat s - unat start"
      using Suc.prems(2) by (simp add: unat_sub word_le_nat_alt)
    ultimately show ?thesis using True Suc.prems(2) by simp
  next
    case False
    then have "locate_from (Suc n) start sectors s = locate_from n (start + sectors ! n) sectors s"
      using e by (simp add: word_le_nat_alt word_less_nat_alt)
    moreover obtain tr off where r: "locate_from n (start + sectors ! n) sectors s = Some (tr, off)"
      "tr < n" "unat s = unat (start + sectors ! n) + outer_sectors sectors n tr + unat off"
      "unat off < unat (sectors ! tr)"
      using Suc.IH [of "start + sectors ! n"] Suc.prems False e t by auto
    ultimately show ?thesis using e outer_sectors_Suc [OF r(2), of sectors] by simp
  qed
qed (simp add: total_sectors_def)

text \<open>Every sector number below the total is on one track, at the offset that counting the
  sectors of the tracks outside it gives.\<close>

theorem locate_sector_correct:
  assumes "total_sectors (dd_sectors dd) (dd_tracks dd) < 2 ^ 32"
    and "unat s < total_sectors (dd_sectors dd) (dd_tracks dd)"
  shows "\<exists>tr off. locate_sector dd s = Some (tr, off) \<and> tr < dd_tracks dd \<and>
    unat off < unat (dd_sectors dd ! tr) \<and>
    unat s = outer_sectors (dd_sectors dd) (dd_tracks dd) tr + unat off"
  using locate_from_Some [of 0 "dd_sectors dd" "dd_tracks dd" s] assms
  by (auto simp: locate_sector_def)

section \<open>Reading back\<close>

lemma sector_apart: "s \<noteq> t \<Longrightarrow> i < SECTSIZE \<Longrightarrow> j < SECTSIZE \<Longrightarrow> sector_offset s + i \<noteq> sector_offset t + j"
proof
  assume a: "s \<noteq> t" "i < SECTSIZE" "j < SECTSIZE" "sector_offset s + i = sector_offset t + j"
  then have "unat s * 512 + i = unat t * 512 + j" by (simp add: sector_offset_def SECTSIZE_def)
  then have "(unat s * 512 + i) div 512 = (unat t * 512 + j) div 512" by simp
  with a show False by (simp add: SECTSIZE_def word_unat_eq_iff)
qed

text \<open>A sector that was written reads back as the buffer it was written from, and writing it
  changes no other sector.\<close>

theorem disk_sector_roundtrip:
  assumes "snd (disk_writesector dd)" "i < 512" "t \<notin> set (dd_badsects dd)"
  shows "let dd' = fst (disk_writesector dd) in
    snd (disk_readsector (dd'\<lparr>dd_buf := b\<rparr>)) \<and>
    dd_buf (fst (disk_readsector (dd'\<lparr>dd_buf := b\<rparr>))) (of_nat i) = dd_buf dd (of_nat i) \<and>
    (t \<noteq> dd_sect dd \<longrightarrow>
       dd_buf (fst (disk_readsector (dd'\<lparr>dd_sect := t, dd_buf := b\<rparr>))) (of_nat i) =
       dd_buf (fst (disk_readsector (dd\<lparr>dd_sect := t, dd_buf := b\<rparr>))) (of_nat i))"
proof -
  have i: "unat (of_nat i :: u32) = i" using assms(2) by (simp add: unat_of_nat)
  have o: "\<not> (sector_offset (dd_sect dd) \<le> sector_offset t + i \<and>
      sector_offset t + i < sector_offset (dd_sect dd) + SECTSIZE)" if "t \<noteq> dd_sect dd"
  proof
    assume a: "sector_offset (dd_sect dd) \<le> sector_offset t + i \<and>
      sector_offset t + i < sector_offset (dd_sect dd) + SECTSIZE"
    define j where "j = sector_offset t + i - sector_offset (dd_sect dd)"
    have "sector_offset t + i = sector_offset (dd_sect dd) + j" "j < SECTSIZE"
      using a by (auto simp: j_def)
    then show False using sector_apart [OF that] assms(2) by (auto simp: SECTSIZE_def)
  qed
  show ?thesis
    using assms o i
    by (auto simp: disk_writesector_def disk_readsector_def doread_def dowrite_def Let_def SECTSIZE_def
        split: if_splits)
qed

section \<open>An operation is always on its way\<close>

definition is_disk_event :: "nat \<Rightarrow> timed_action \<Rightarrow> bool" where
  "is_disk_event slot e \<longleftrightarrow>
     ta_data e = slot \<and> (ta_call e = F_disk_seekdone \<or> ta_call e = F_disk_waitdone)"

definition disk_events :: "nat \<Rightarrow> machine \<Rightarrow> nat" where
  "disk_events slot m = length (filter (is_disk_event slot) (event_queue m))"

text \<open>The flag \<open>dd_timedop\<close> says whether the disk's one event is in the queue.\<close>

definition disk_sync :: "nat \<Rightarrow> machine \<Rightarrow> bool" where
  "disk_sync slot m \<longleftrightarrow> disk_events slot m = (if dd_timedop (disk_at m slot) then 1 else 0)"

lemma is_disk_event_unmarked [simp]: "is_disk_event slot (unmarked e) = is_disk_event slot e"
  by (simp add: is_disk_event_def)

lemma disk_events_mset:
  "disk_events slot m = size (filter_mset (is_disk_event slot) (image_mset unmarked (mset (event_queue m))))"
proof -
  have "size (filter_mset (is_disk_event slot) (image_mset unmarked (mset q))) =
      length (filter (is_disk_event slot) q)" for q
    by (induction q) auto
  then show ?thesis by (simp add: disk_events_def)
qed

lemma disk_at_upd [simp]:
  "disk_at (upd_disk slot f m) slot' = (if slot' = slot then f (disk_at m slot) else disk_at m slot')"
  by (simp add: disk_at_def upd_disk_def put_device_def)

lemma disk_at_frame [simp]:
  "disk_at (schedule_event d s c f m) slot = disk_at m slot"
  "disk_at (raise_irq s m) slot = disk_at m slot" "disk_at (lower_irq s m) slot = disk_at m slot"
  "disk_at (upd_stats g m) slot = disk_at m slot" "disk_at (raise_fault fl m) slot = disk_at m slot"
  "disk_at (smoke m) slot = disk_at m slot"
  by (simp_all add: disk_at_def raise_fault_def smoke_def)

lemma disk_events_frame [simp]:
  "disk_events slot (upd_disk s f m) = disk_events slot m"
  "disk_events slot (raise_irq i m) = disk_events slot m"
  "disk_events slot (lower_irq i m) = disk_events slot m"
  "disk_events slot (upd_stats g m) = disk_events slot m"
  by (simp_all add: disk_events_def upd_disk_def)

lemma upd_disk_simps [simp]:
  "ta_free (upd_disk s f m) = ta_free m" "fault_state (upd_disk s f m) = fault_state m"
  "event_queue (upd_disk s f m) = event_queue m"
  by (simp_all add: upd_disk_def)

lemma schedule_event_faults:
  "fault_state (schedule_event d s c f m) = None \<longleftrightarrow> fault_state m = None \<and> 0 < ta_free m"
  by (auto simp: schedule_event_def host_next_random_def Let_def smoke_def raise_fault_def
      cpu_stopcycling_def split: prod.split option.splits)

lemma event_insert_mset_size:
  "size (filter_mset P (image_mset unmarked (mset (fst (event_insert n q))))) =
    size (filter_mset P (image_mset unmarked (mset q))) + (if P (unmarked n) then 1 else 0)"
  by (simp add: event_insert_mset)

lemma disk_events_schedule:
  assumes "fault_state (schedule_event d s c f m) = None"
  shows "disk_events slot (schedule_event d s c f m) = disk_events slot m +
    (if s = slot \<and> (f = F_disk_seekdone \<or> f = F_disk_waitdone) then 1 else 0)"
proof -
  have "0 < ta_free m" using assms schedule_event_faults by blast
  from schedule_event_eq [OF this, of d s c f] show ?thesis
    by (auto simp: disk_events_mset event_insert_mset_size is_disk_event_def)
qed

lemma disk_finish_bits:
  "disk_finish r DISKSTAT_COMPLETE AND DISKBIT_INPROGRESS = 0"
  "disk_finish r DISKSTAT_MEDIAERR AND DISKBIT_INPROGRESS = 0"
  "disk_finish r DISKSTAT_INVSECT AND DISKBIT_INPROGRESS = 0"
  "disk_finish r DISKSTAT_COMPLETE AND DISKBIT_COMPLETE \<noteq> 0"
  "disk_finish r DISKSTAT_MEDIAERR AND DISKBIT_COMPLETE \<noteq> 0"
  "disk_finish r DISKSTAT_INVSECT AND DISKBIT_COMPLETE \<noteq> 0"
  by (simp_all add: disk_finish_def DISK_defs bit.conj_disj_distrib2 and.assoc)

text \<open>What one step leaves behind, if the simulator is still running: an event for an
  operation that has not completed, with one more try on its count, or a completed one.\<close>

definition disk_stepped :: "nat \<Rightarrow> nat \<Rightarrow> machine \<Rightarrow> bool" where
  "disk_stepped slot tries m \<longleftrightarrow> (fault_state m = None \<longrightarrow>
     disk_sync slot m \<and>
     (dd_timedop (disk_at m slot) \<and> dd_worktries (disk_at m slot) = tries \<and>
        dd_stat (disk_at m slot) AND DISKBIT_INPROGRESS \<noteq> 0 \<or>
      \<not> dd_timedop (disk_at m slot) \<and> dd_worktries (disk_at m slot) = 0 \<and>
        dd_stat (disk_at m slot) AND DISKBIT_INPROGRESS = 0 \<and>
        dd_stat (disk_at m slot) AND DISKBIT_COMPLETE \<noteq> 0))"

lemma disk_wait_stepped:
  assumes "disk_events slot m = 0" "f = F_disk_seekdone \<or> f = F_disk_waitdone"
    and "dd_stat (disk_at m slot) AND DISKBIT_INPROGRESS \<noteq> 0" "dd_worktries (disk_at m slot) = tries"
  shows "disk_stepped slot tries (disk_wait slot nsecs code f m)"
  using assms disk_events_schedule [of nsecs slot code f "upd_disk slot (\<lambda>dd. dd\<lparr>dd_timedop := True\<rparr>) m" slot]
  by (auto simp: disk_stepped_def disk_wait_def disk_sync_def)

lemma disk_io_stepped:
  assumes "disk_events slot m = 0" "\<not> dd_timedop (disk_at m slot)"
  shows "disk_stepped slot tries (disk_io slot m)"
proof -
  let ?dd = "disk_at m slot"
  obtain dd1 ok where io: "(if is_write ?dd then disk_writesector ?dd else disk_readsector ?dd) = (dd1, ok)"
    by fastforce
  have "\<not> dd_timedop dd1"
    using io assms(2) by (auto simp: disk_writesector_def disk_readsector_def split: if_splits)
  then show ?thesis
    using assms(1) by (auto simp: disk_stepped_def disk_io_def disk_sync_def Let_def io disk_finish_bits)
qed

lemma disk_copy_stage_stepped:
  assumes "disk_events slot m = 0" "\<not> dd_timedop (disk_at m slot)"
    and "dd_stat (disk_at m slot) AND DISKBIT_INPROGRESS \<noteq> 0" "dd_worktries (disk_at m slot) = tries"
  shows "disk_stepped slot tries (disk_copy_stage slot m)"
  using assms by (auto simp: disk_copy_stage_def Let_def intro!: disk_wait_stepped disk_io_stepped)

lemma stepped_fault [simp]: "disk_stepped slot tries (raise_fault f m)" "disk_stepped slot tries (smoke m)"
  by (auto simp: disk_stepped_def raise_fault_def smoke_def split: option.splits)

lemma disk_work_stepped:
  assumes "disk_events slot m = 0" "\<not> dd_timedop (disk_at m slot)"
    and "dd_stat (disk_at m slot) AND DISKBIT_INPROGRESS \<noteq> 0"
  shows "disk_stepped slot (dd_worktries (disk_at m slot) + 1) (disk_work slot m)"
proof (cases "dd_sect (disk_at m slot) \<ge> dd_totsectors (disk_at m slot)")
  case True
  then show ?thesis
    using assms
    by (simp add: disk_work_def Let_def disk_stepped_def disk_sync_def disk_finish_bits)
next
  case False
  let ?m1 = "upd_disk slot (\<lambda>dd. dd\<lparr>dd_worktries := dd_worktries dd + 1\<rparr>) m"
  let ?t = "dd_worktries (disk_at m slot) + 1"
  have 1: "disk_events slot ?m1 = 0" "\<not> dd_timedop (disk_at ?m1 slot)"
    "dd_stat (disk_at ?m1 slot) AND DISKBIT_INPROGRESS \<noteq> 0" "dd_worktries (disk_at ?m1 slot) = ?t"
    using assms by simp_all
  have w: "disk_stepped slot ?t (disk_wait slot n c f ?m1)"
    if "f = F_disk_seekdone \<or> f = F_disk_waitdone" for n c f
    using that 1 by (intro disk_wait_stepped) simp_all
  have c: "disk_stepped slot ?t (disk_copy_stage slot ?m1)"
    "disk_stepped slot ?t (disk_copy_stage slot (upd_disk slot (\<lambda>dd. dd\<lparr>dd_iostatus := 2\<rparr>) ?m1))"
    by (rule disk_copy_stage_stepped; use 1 in simp)+
  have f: "disk_stepped slot ?t (disk_io slot (upd_disk slot (\<lambda>dd. dd\<lparr>dd_current_track := 0,
      dd_trackarrival_secs := a, dd_trackarrival_nsecs := b, dd_iostatus := -1, dd_timedop := False\<rparr>) ?m1))"
    for a b by (rule disk_io_stepped) (use 1 in simp_all)
  show ?thesis
    unfolding disk_work_def Let_def if_not_P [OF assms(2)] if_not_P [OF assms(3)] if_not_P [OF False]
    using w c f by (simp split: option.split)
qed

lemma disk_work_last:
  assumes "\<not> dd_timedop (disk_at m slot)" "dd_stat (disk_at m slot) AND DISKBIT_INPROGRESS \<noteq> 0"
    and "dd_worktries (disk_at m slot) \<ge> MAX_WORKTRIES"
  shows "dd_stat (disk_at (disk_work slot m) slot) AND DISKBIT_INPROGRESS = 0"
proof -
  have io: "dd_stat (disk_at (disk_io slot n) slot) AND DISKBIT_INPROGRESS = 0" for n
    by (auto simp: disk_io_def Let_def disk_finish_bits split: prod.split)
  show ?thesis
    unfolding disk_work_def Let_def if_not_P [OF assms(1)] if_not_P [OF assms(2)]
    using assms(3) by (simp add: io disk_finish_bits)
qed

lemma disk_at_update: "disk_at (disk_update slot m) slot = disk_at (disk_work slot m) slot"
  by (simp add: disk_update_def Let_def)

lemma disk_events_update: "disk_events slot (disk_update slot m) = disk_events slot (disk_work slot m)"
  by (simp add: disk_update_def Let_def)

lemma fault_irq:
  assumes "lines_ok m"
  shows "fault_state (raise_irq s m) = fault_state m" "fault_state (lower_irq s m) = fault_state m"
  using assms by (simp_all add: raise_irq_def lower_irq_def irqupdate_ok)

lemma fold_irqupdate_faults:
  "k \<le> ncpus m \<Longrightarrow> fault_state (fold (irqupdate_cpu pend) [0..<k] m) = fault_state m"
proof (induction k)
  case (Suc k)
  let ?m = "fold (irqupdate_cpu pend) [0..<k] m"
  have "k < ncpus ?m" using Suc irq_frame_sels(1) [OF irq_frame_fold] by simp
  then have s: "k < ncpus (upd_lbcpu k (\<lambda>c. c\<lparr>cpu_interrupting := b\<rparr>) ?m)" for b by simp
  have "fault_state (irqupdate_cpu pend k ?m) = fault_state ?m"
    by (simp add: irqupdate_cpu_def [of pend k ?m] Let_def cpu_set_irqs_sets [OF s])
  then show ?case using Suc by simp
qed simp

lemma fault_irqupdate [simp]: "fault_state (irqupdate m) = fault_state m"
  by (simp add: irqupdate_def Let_def fold_irqupdate_faults)

lemma fault_irq_lines [simp]:
  "fault_state (raise_irq s m) = fault_state m" "fault_state (lower_irq s m) = fault_state m"
  by (simp_all add: raise_irq_def lower_irq_def)

lemma fault_disk_update: "fault_state (disk_update slot m) = fault_state (disk_work slot m)"
  by (simp add: disk_update_def Let_def)

lemma disk_slot_work [simp]: "dd_slot (disk_at (disk_work slot m) slot) = dd_slot (disk_at m slot)"
proof -
  have w: "dd_slot (disk_at (disk_wait slot n c f k) slot) = dd_slot (disk_at k slot)" for n c f k
    by (simp add: disk_wait_def)
  have io: "dd_slot (disk_at (disk_io slot k) slot) = dd_slot (disk_at k slot)" for k
    by (auto simp: disk_io_def Let_def disk_writesector_def disk_readsector_def split: prod.split if_splits)
  have c: "dd_slot (disk_at (disk_copy_stage slot k) slot) = dd_slot (disk_at k slot)" for k
    by (simp add: disk_copy_stage_def Let_def w io)
  show ?thesis
    by (simp add: disk_work_def Let_def w io c split: option.split)
qed


lemma disk_event_stepped:
  assumes "disk_events slot m = 0" "dd_stat (disk_at m slot) AND DISKBIT_INPROGRESS \<noteq> 0"
    and "m' = disk_waitdone slot st m \<or> m' = disk_seekdone slot st m" "fault_state m' = None"
  shows "disk_sync slot m' \<and> dd_slot (disk_at m' slot) = dd_slot (disk_at m slot) \<and>
    (dd_stat (disk_at m' slot) AND DISKBIT_INPROGRESS \<noteq> 0 \<and> dd_timedop (disk_at m' slot) \<and>
       dd_worktries (disk_at m' slot) = dd_worktries (disk_at m slot) + 1 \<and> dd_worktries (disk_at m slot) < MAX_WORKTRIES \<or>
     dd_stat (disk_at m' slot) AND DISKBIT_INPROGRESS = 0 \<and> dd_stat (disk_at m' slot) AND DISKBIT_COMPLETE \<noteq> 0 \<and>
     \<not> dd_timedop (disk_at m' slot))"
proof -
  obtain m1 where m': "m' = disk_update slot m1" and 1: "disk_events slot m1 = 0"
    "\<not> dd_timedop (disk_at m1 slot)" "dd_worktries (disk_at m1 slot) = dd_worktries (disk_at m slot)"
    "dd_slot (disk_at m1 slot) = dd_slot (disk_at m slot)" "dd_stat (disk_at m1 slot) = dd_stat (disk_at m slot)"
    using assms(1,3) by (auto simp: disk_waitdone_def disk_seekdone_def)
  have p: "dd_stat (disk_at m1 slot) AND DISKBIT_INPROGRESS \<noteq> 0" using 1(5) assms(2) by simp
  have s: "disk_stepped slot (dd_worktries (disk_at m1 slot) + 1) (disk_work slot m1)"
    by (rule disk_work_stepped [OF 1(1,2) p])
  have f: "fault_state (disk_work slot m1) = None" using assms(4) m' fault_disk_update by simp
  have w: "dd_worktries (disk_at m1 slot) < MAX_WORKTRIES" if "dd_stat (disk_at m' slot) AND DISKBIT_INPROGRESS \<noteq> 0"
    using disk_work_last [OF 1(2) p] that by (force simp: m' disk_at_update not_le [symmetric])
  show ?thesis
    using s f w 1(3,4) by (auto simp: disk_stepped_def disk_sync_def m' disk_at_update disk_events_update)
qed


section \<open>An operation never gets stuck\<close>

text \<open>What the code relies on of a disk: a revolution takes from one nanosecond to a second, the time of
  the last arrival at a track came from the clock, and every sector lies on a track. \<open>disk_init\<close> makes
  such disks (\<open>Disk_Image\<close>).\<close>

definition disk_sound :: "disk_data \<Rightarrow> bool" where
  "disk_sound dd \<longleftrightarrow> 0 < dd_nsecs_per_rev dd \<and> dd_nsecs_per_rev dd \<le> 1000000000 \<and>
     dd_trackarrival_nsecs dd \<le> 3294967295 \<and>
     (\<forall>s < dd_totsectors dd. \<exists>tr off. locate_sector dd s = Some (tr, off) \<and> dd_sectors dd ! tr \<noteq> 0)"

text \<open>The program may set the nanoseconds of the clock to anything; what it reads as the time is still
  so far below the end of the word that a revolution can be added.\<close>

lemma clock_nsecs_bound: "snd (clock_time m) \<le> 3294967295"
proof -
  define n where "n = (ucast (ucast (start_nsecs m) + clock_vnow m mod NSECS_PER_SEC) :: u32)"
  have c: "snd (clock_time m) = (if (ucast n :: u64) > NSECS_PER_SEC then n - 1000000000 else n)"
    by (simp add: clock_time_def Let_def n_def NSECS_PER_SEC_def)
  have "unat n < 2 ^ 64" by (rule order.strict_trans [OF unsigned_less]) simp
  then have "unat (ucast n :: u64) = unat n" by (simp add: unsigned_ucast_eq take_bit_nat_eq_self)
  then have g: "(ucast n :: u64) > NSECS_PER_SEC \<longleftrightarrow> 1000000000 < unat n"
    by (simp add: word_less_nat_alt NSECS_PER_SEC_def)
  have "unat n < 2 ^ 32" by (rule order.strict_trans2 [OF unsigned_less]) simp
  then show ?thesis using g by (auto simp: c word_le_nat_alt unat_sub)
qed

text \<open>So the loops that wait for a sector to come around always end.\<close>

lemma catch_up_returns:
  assumes "0 < step" "step \<le> 1000000000" "bound \<le> 3294967295"
  shows "\<exists>t. catch_up bound step targ = Some t"
  unfolding catch_up_def
proof (rule measure_while_option_Some [where P = "\<lambda>_. True" and f = "\<lambda>t. 2 ^ 32 - unat t"])
  fix t assume "t < bound"
  then have "unat (t + step) = unat t + unat step" "unat t + unat step < 2 ^ 32"
    using assms(2,3) by (auto simp: word_less_nat_alt word_le_nat_alt unat_word_ariths)
  then show "True \<and> 2 ^ 32 - unat (t + step) < 2 ^ 32 - unat t"
    using assms(1) by (auto simp: word_less_nat_alt)
qed simp

lemma rotdelay_returns:
  assumes "disk_sound dd"
  shows "disk_readrotdelay dd cyl off m \<noteq> None" "disk_writerotdelay dd cyl off m \<noteq> None"
proof -
  have "\<exists>t. catch_up (dd_trackarrival_nsecs dd) (dd_nsecs_per_rev dd) targ = Some t"
    "\<exists>t. catch_up (snd (clock_time m)) (dd_nsecs_per_rev dd) targ = Some t" for targ
    using assms clock_nsecs_bound by (auto simp: disk_sound_def intro!: catch_up_returns)
  note c = this
  obtain t where t: "catch_up (dd_trackarrival_nsecs dd) (dd_nsecs_per_rev dd)
      ((off + 1) mod (dd_sectors dd ! cyl) * (dd_nsecs_per_rev dd div (dd_sectors dd ! cyl))) = Some t"
    using c(1) by blast
  show "disk_readrotdelay dd cyl off m \<noteq> None"
    by (simp add: disk_readrotdelay_def Let_def t case_prod_beta)
  obtain t where t: "catch_up (snd (clock_time m)) (dd_nsecs_per_rev dd)
      (off * (dd_nsecs_per_rev dd div (dd_sectors dd ! cyl))) = Some t"
    using c(2) by blast
  show "disk_writerotdelay dd cyl off m \<noteq> None"
    by (simp add: disk_writerotdelay_def Let_def t case_prod_beta)
qed

lemma disk_sound_cong:
  "dd_nsecs_per_rev dd' = dd_nsecs_per_rev dd \<Longrightarrow> dd_trackarrival_nsecs dd' = dd_trackarrival_nsecs dd \<Longrightarrow>
   dd_totsectors dd' = dd_totsectors dd \<Longrightarrow> dd_tracks dd' = dd_tracks dd \<Longrightarrow> dd_sectors dd' = dd_sectors dd \<Longrightarrow>
   disk_sound dd' = disk_sound dd"
  by (simp add: disk_sound_def locate_sector_def)

lemma disk_sound_upd [simp]:
  "disk_sound (dd\<lparr>dd_timedop := b\<rparr>) = disk_sound dd" "disk_sound (dd\<lparr>dd_stat := r\<rparr>) = disk_sound dd"
  "disk_sound (dd\<lparr>dd_worktries := n\<rparr>) = disk_sound dd" "disk_sound (dd\<lparr>dd_iostatus := i\<rparr>) = disk_sound dd"
  "disk_sound (dd\<lparr>dd_buf := bf\<rparr>) = disk_sound dd" "disk_sound (dd\<lparr>dd_file := f\<rparr>) = disk_sound dd"
  "disk_sound (dd\<lparr>dd_sect := v\<rparr>) = disk_sound dd" "disk_sound (dd\<lparr>dd_current_track := n\<rparr>) = disk_sound dd"
  "disk_sound (dd\<lparr>dd_trackarrival_secs := v\<rparr>) = disk_sound dd"
  by (rule disk_sound_cong; simp)+

lemma disk_sound_arrival [simp]:
  "disk_sound dd \<Longrightarrow> disk_sound (dd\<lparr>dd_trackarrival_nsecs := snd (clock_time m)\<rparr>)"
  using clock_nsecs_bound [of m] by (simp add: disk_sound_def locate_sector_def)

lemma disk_io_keeps:
  "fault_state (disk_io slot m) = fault_state m" "disk_sound (disk_at (disk_io slot m) slot) = disk_sound (disk_at m slot)"
  by (auto simp: disk_io_def Let_def disk_writesector_def disk_readsector_def split: prod.split if_splits)

lemma disk_wait_keeps:
  assumes "fault_state m = None" "0 < ta_free m"
  shows "fault_state (disk_wait slot n c f m) = None"
    "disk_sound (disk_at (disk_wait slot n c f m) slot) = disk_sound (disk_at m slot)"
  using assms by (simp_all add: disk_wait_def schedule_event_faults)

lemma disk_copy_stage_keeps:
  assumes "fault_state m = None" "0 < ta_free m"
  shows "fault_state (disk_copy_stage slot m) = None"
    "disk_sound (disk_at (disk_copy_stage slot m) slot) = disk_sound (disk_at m slot)"
  using assms by (simp_all add: disk_copy_stage_def Let_def disk_io_keeps disk_wait_keeps)

text \<open>The work on a sound disk stops nothing, and leaves a sound disk.\<close>

lemma disk_work_keeps:
  assumes "fault_state m = None" "0 < ta_free m" "disk_sound (disk_at m slot)"
  shows "fault_state (disk_work slot m) = None \<and> disk_sound (disk_at (disk_work slot m) slot)"
proof (cases "dd_timedop (disk_at m slot) \<or> dd_stat (disk_at m slot) AND DISKBIT_INPROGRESS = 0 \<or>
    dd_sect (disk_at m slot) \<ge> dd_totsectors (disk_at m slot)")
  case True
  then show ?thesis using assms by (auto simp: disk_work_def Let_def)
next
  case False
  define m1 where "m1 = upd_disk slot (\<lambda>dd. dd\<lparr>dd_worktries := dd_worktries dd + 1\<rparr>) m"
  let ?dd = "disk_at m1 slot"
  have s: "disk_sound ?dd" using assms(3) by (simp add: m1_def)
  have m1: "fault_state m1 = None" "0 < ta_free m1" using assms(1,2) by (simp_all add: m1_def)
  have "dd_sect ?dd < dd_totsectors ?dd" using False by (auto simp: m1_def)
  then obtain cyl off where l: "locate_sector ?dd (dd_sect ?dd) = Some (cyl, off)"
    using s by (auto simp: disk_sound_def)
  obtain r1 r2 where r: "disk_readrotdelay ?dd cyl off m1 = Some r1" "disk_writerotdelay ?dd cyl off m1 = Some r2"
    using rotdelay_returns [OF s, of cyl off m1] by blast
  let ?m2 = "upd_disk slot (\<lambda>dd. dd\<lparr>dd_iostatus := 2\<rparr>) m1"
  have 2: "fault_state ?m2 = None" "0 < ta_free ?m2" "disk_sound (disk_at ?m2 slot)"
    using m1 s by simp_all
  let ?m3 = "upd_disk slot (\<lambda>dd. dd\<lparr>dd_current_track := 0, dd_trackarrival_secs := fst (clock_time m1),
      dd_trackarrival_nsecs := snd (clock_time m1), dd_iostatus := -1, dd_timedop := False\<rparr>) m1"
  have 3: "fault_state ?m3 = None" "disk_sound (disk_at ?m3 slot)"
    using m1 s by simp_all
  have "disk_work slot m =
    (if dd_worktries ?dd > MAX_WORKTRIES then disk_io slot ?m3
     else if dd_current_track ?dd \<noteq> cyl then
       disk_wait slot (ucast (disk_seektime (nat \<bar>int cyl - int (dd_current_track ?dd)\<bar>))) (of_nat cyl) F_disk_seekdone m1
     else if is_write ?dd \<and> dd_iostatus ?dd < 1 then disk_wait slot CACHE_WRITE_TIME 1 F_disk_waitdone m1
     else if dd_iostatus ?dd < 2 then
       (let rotdelay = (if is_write ?dd then r2 else r1)
        in if rotdelay > 0 then disk_wait slot (ucast rotdelay) 2 F_disk_waitdone m1 else disk_copy_stage slot ?m2)
     else disk_copy_stage slot m1)"
    using False unfolding disk_work_def Let_def m1_def [symmetric] l option.case prod.case r if_distrib [symmetric]
    by (simp add: r)
  then show ?thesis
    using m1 s 2 3 by (simp add: disk_io_keeps disk_wait_keeps disk_copy_stage_keeps Let_def)
qed

lemma disk_update_keeps:
  assumes "fault_state m = None" "0 < ta_free m" "disk_sound (disk_at m slot)"
  shows "fault_state (disk_update slot m) = None" "disk_sound (disk_at (disk_update slot m) slot)"
  using disk_work_keeps [OF assms] by (simp_all add: fault_disk_update disk_at_update)

lemma disk_event_keeps:
  assumes "fault_state m = None" "0 < ta_free m" "disk_sound (disk_at m slot)"
    and "m' = disk_waitdone slot st m \<or> m' = disk_seekdone slot st m"
  shows "fault_state m' = None" "disk_sound (disk_at m' slot)"
proof -
  obtain m1 where "m' = disk_update slot m1" "fault_state m1 = None" "0 < ta_free m1" "disk_sound (disk_at m1 slot)"
  proof
    define f :: "disk_data \<Rightarrow> disk_data" where "f = (if m' = disk_waitdone slot st m then (\<lambda>dd. dd\<lparr>dd_iostatus := sint st, dd_timedop := False\<rparr>)
      else (\<lambda>dd. dd\<lparr>dd_current_track := unat st, dd_trackarrival_secs := fst (clock_time m),
        dd_trackarrival_nsecs := snd (clock_time m), dd_timedop := False\<rparr>))"
    show "m' = disk_update slot (upd_disk slot f m)"
      using assms(4) by (auto simp: f_def disk_waitdone_def disk_seekdone_def)
    show "disk_sound (disk_at (upd_disk slot f m) slot)"
      using assms(3) by (simp add: f_def)
  qed (use assms in simp_all)
  then show "fault_state m' = None" "disk_sound (disk_at m' slot)" using disk_update_keeps by simp_all
qed


text \<open>The first \<open>n\<close> of the disk's events, with whatever the rest of the simulator does between them: it may
  change the sector register and the buffer, and anything but the disk. All of this is
  as long as the simulator goes on and there is an event structure left in the pool.\<close>

inductive disk_run :: "nat \<Rightarrow> nat \<Rightarrow> machine \<Rightarrow> machine \<Rightarrow> bool" for slot where
  none: "disk_run slot 0 m m"
| step: "disk_run slot n m m1 \<Longrightarrow> disk_at m2 slot = (disk_at m1 slot)\<lparr>dd_sect := v, dd_buf := b\<rparr> \<Longrightarrow>
    fault_state m2 = None \<Longrightarrow> 0 < ta_free m2 \<Longrightarrow> disk_events slot m2 = 0 \<Longrightarrow> dd_timedop (disk_at m2 slot) \<Longrightarrow>
    m3 = disk_waitdone slot st m2 \<or> m3 = disk_seekdone slot st m2 \<Longrightarrow> disk_run slot (Suc n) m m3"

text \<open>Starting an operation on a disk that is idle.\<close>

lemma disk_start:
  assumes "fault_state m = None" "0 < ta_free m" "disk_sound (disk_at m slot)"
    and "disk_events slot m = 0" "\<not> dd_timedop (disk_at m slot)" "dd_worktries (disk_at m slot) = 0"
    and "dd_usedoom (disk_at m slot) \<Longrightarrow> doom_counter m \<noteq> 1"
    and "val = DISKSTAT_READING \<or> val = DISKSTAT_WRITING"
    and "m' = fst (disk_store slot DISKREG_STAT val m)"
  shows "fault_state m' = None" "disk_sound (disk_at m' slot)" "dd_slot (disk_at m' slot) = dd_slot (disk_at m slot)"
    "disk_sync slot m'"
    "dd_stat (disk_at m' slot) AND DISKBIT_INPROGRESS \<noteq> 0 \<and> dd_timedop (disk_at m' slot) \<and> dd_worktries (disk_at m' slot) = 1 \<or>
     dd_stat (disk_at m' slot) AND DISKBIT_INPROGRESS = 0 \<and> dd_stat (disk_at m' slot) AND DISKBIT_COMPLETE \<noteq> 0 \<and>
     \<not> dd_timedop (disk_at m' slot)"
proof -
  define m0 where "m0 = (if val = DISKSTAT_WRITING \<and> dd_usedoom (disk_at m slot) then doom_tick m else m)"
  have 0: "fault_state m0 = None" "ta_free m0 = ta_free m" "disk_at m0 slot = disk_at m slot" "disk_events slot m0 = 0"
    using assms(1,4,7) by (auto simp: m0_def doom_tick_def Let_def disk_at_def disk_events_def)
  let ?m1 = "upd_disk slot (\<lambda>dd. dd\<lparr>dd_iostatus := 0, dd_stat := val\<rparr>) m0"
  have m': "m' = disk_update slot ?m1"
    using assms(8,9) by (auto simp: disk_store_def disk_buf_store_def disk_setstatus_def m0_def DISK_defs Let_def)
  have p: "dd_stat (disk_at ?m1 slot) AND DISKBIT_INPROGRESS \<noteq> 0"
    using assms(8) by (auto simp: DISK_defs)
  have 1: "fault_state ?m1 = None" "0 < ta_free ?m1" "disk_sound (disk_at ?m1 slot)" "disk_events slot ?m1 = 0"
    "\<not> dd_timedop (disk_at ?m1 slot)" "dd_worktries (disk_at ?m1 slot) = 0"
    using 0 assms(2,3,5,6) by simp_all
  show f: "fault_state m' = None" "disk_sound (disk_at m' slot)" using disk_update_keeps [OF 1(1-3)] m' by simp_all
  show "dd_slot (disk_at m' slot) = dd_slot (disk_at m slot)" using 0(3) by (simp add: m' disk_at_update)
  have "disk_stepped slot 1 (disk_work slot ?m1)" using disk_work_stepped [OF 1(4,5) p] 1(6) by simp
  then show "disk_sync slot m'"
    "dd_stat (disk_at m' slot) AND DISKBIT_INPROGRESS \<noteq> 0 \<and> dd_timedop (disk_at m' slot) \<and> dd_worktries (disk_at m' slot) = 1 \<or>
     dd_stat (disk_at m' slot) AND DISKBIT_INPROGRESS = 0 \<and> dd_stat (disk_at m' slot) AND DISKBIT_COMPLETE \<noteq> 0 \<and>
     \<not> dd_timedop (disk_at m' slot)"
    using f(1) by (auto simp: disk_stepped_def disk_sync_def m' disk_at_update disk_events_update fault_disk_update)
qed

text \<open>C20: An operation ends. When the program starts one on an idle sound disk, then, whatever the rest of
  the simulator does as long as it goes on, none of the disk's events stops it, and after at most ten of
  them the operation has completed; until then exactly one more is on its way.\<close>

theorem disk_operation_ends:
  assumes "fault_state m = None" "0 < ta_free m" "disk_sound (disk_at m slot)" "dd_slot (disk_at m slot) < 32"
    and "disk_events slot m = 0" "\<not> dd_timedop (disk_at m slot)" "dd_worktries (disk_at m slot) = 0"
    and "dd_usedoom (disk_at m slot) \<Longrightarrow> doom_counter m \<noteq> 1"
    and "val = DISKSTAT_READING \<or> val = DISKSTAT_WRITING"
    and "disk_run slot n (fst (disk_store slot DISKREG_STAT val m)) m'"
  shows "fault_state m' = None \<and> n \<le> 10 \<and>
    (if dd_stat (disk_at m' slot) AND DISKBIT_INPROGRESS \<noteq> 0
     then n < 10 \<and> dd_timedop (disk_at m' slot) \<and> disk_events slot m' = 1
     else dd_stat (disk_at m' slot) AND DISKBIT_COMPLETE \<noteq> 0 \<and> disk_events slot m' = 0)"
proof -
  define m0 where "m0 = fst (disk_store slot DISKREG_STAT val m)"
  define inv where "inv n k \<longleftrightarrow> fault_state k = None \<and> disk_sound (disk_at k slot) \<and> dd_slot (disk_at k slot) < 32 \<and>
      disk_sync slot k \<and> n \<le> 10 \<and>
      (dd_stat (disk_at k slot) AND DISKBIT_INPROGRESS \<noteq> 0 \<and> dd_timedop (disk_at k slot) \<and>
        dd_worktries (disk_at k slot) = n + 1 \<and> n < 10 \<or>
       dd_stat (disk_at k slot) AND DISKBIT_INPROGRESS = 0 \<and> dd_stat (disk_at k slot) AND DISKBIT_COMPLETE \<noteq> 0 \<and>
       \<not> dd_timedop (disk_at k slot))" for n k
  note st = disk_start [OF assms(1-3,5-9) m0_def]
  have 0: "inv 0 m0" using st assms(4) by (auto simp: inv_def)
  have "inv n k" if "disk_run slot n m0 k" "inv 0 m0" for k
    using that
  proof (induction rule: disk_run.induct)
    case (step n m m1 m2 v b m3 st)
    have 1: "inv n m1" using step by simp
    then have t: "dd_stat (disk_at m1 slot) AND DISKBIT_INPROGRESS \<noteq> 0" "dd_worktries (disk_at m1 slot) = n + 1" "n < 10"
      "disk_sound (disk_at m1 slot)" "dd_slot (disk_at m1 slot) < 32"
      using step.hyps(2,6) by (auto simp: inv_def)
    have k: "fault_state m3 = None" "disk_sound (disk_at m3 slot)"
      using disk_event_keeps [OF step.hyps(3,4) _ step.hyps(7)] step.hyps(2) t(4) by simp_all
    have "dd_stat (disk_at m2 slot) AND DISKBIT_INPROGRESS \<noteq> 0" using t(1) step.hyps(2) by simp
    from disk_event_stepped [OF step.hyps(5) this step.hyps(7) k(1)] show ?case
      using k t step.hyps(2) by (auto simp: inv_def MAX_WORKTRIES_def)
  qed simp
  then have "inv n m'" using assms(10) 0 by (simp add: m0_def)
  then show ?thesis by (auto simp: inv_def disk_sync_def)
qed

text \<open>Aborting an operation leaves its tries on the count: a new operation does not start
  at zero.\<close>

theorem disk_abort_keeps_tries:
  assumes "dd_timedop (disk_at m slot)"
  shows "dd_worktries (disk_at (fst (disk_store slot DISKREG_STAT DISKSTAT_READING
      (fst (disk_store slot DISKREG_STAT DISKSTAT_IDLE m)))) slot) = dd_worktries (disk_at m slot)"
  using assms
  by (simp add: disk_store_def disk_buf_store_def disk_setstatus_def DISK_defs disk_at_update
      disk_work_def Let_def)

end
