(* ===== verification/Host.thy ===== *)
theory Host
  imports Memory Control
begin

text \<open>
  The host as the devices and the loader see it: system calls, and bytes copied between the
  host's lists and the simulator's buffers. The answer to a call comes from \<open>host_sys\<close>, a
  parameter of the machine; the only thing the simulator does to the host is to make the call.
\<close>

section \<open>System calls\<close>

definition do_sys :: "syscall \<Rightarrow> machine \<Rightarrow> machine \<times> sys_answer" where
  "do_sys c m = (m\<lparr>host_log := c # host_log m\<rparr>, host_sys m (host_log m) c)"

text \<open>A call whose answer is ignored.\<close>

definition run_sys :: "syscall \<Rightarrow> machine \<Rightarrow> machine" where
  "run_sys c m = fst (do_sys c m)"

definition die :: "machine \<Rightarrow> machine" where
  "die m = raise_fault Exit_error m"

text \<open>What \<open>read\<close> transferred: \<open>None\<close> for an error, and never more than was asked for.\<close>

definition bytes_read :: "nat \<Rightarrow> sys_answer \<Rightarrow> u8 list option" where
  "bytes_read len a = (if sys_ret a < 0 then None else Some (take len (sys_data a)))"

section \<open>Buffers\<close>

definition get_bytes :: "(u32 \<Rightarrow> u8) \<Rightarrow> nat \<Rightarrow> u8 list" where
  "get_bytes buf len = map (\<lambda>i. buf (of_nat i)) [0..<len]"

definition put_bytes :: "u8 list \<Rightarrow> (u32 \<Rightarrow> u8) \<Rightarrow> (u32 \<Rightarrow> u8)" where
  "put_bytes bs buf = (\<lambda>i. if unat i < length bs then bs ! unat i else buf i)"

text \<open>The string that starts at the buffer: the bytes before the first NUL.\<close>

definition buf_string :: "(u32 \<Rightarrow> u8) \<Rightarrow> nat \<Rightarrow> u8 list" where
  "buf_string buf len = takeWhile (\<lambda>b. b \<noteq> 0) (get_bytes buf len)"

text \<open>Numbers in host memory and in network packets.\<close>

definition host_bytes :: "nat \<Rightarrow> u32 \<Rightarrow> u8 list" where
  "host_bytes n w = map (\<lambda>k. ucast (drop_bit (8 * k) w)) [0..<n]"

definition net_bytes16 :: "u16 \<Rightarrow> u8 list" where
  "net_bytes16 w = [ucast (drop_bit 8 w), ucast w]"

definition ntohs_at :: "(u32 \<Rightarrow> u8) \<Rightarrow> u32 \<Rightarrow> u16" where
  "ntohs_at buf a = push_bit 8 (ucast (buf a)) OR ucast (buf (a + 1))"

section \<open>Lemmas\<close>

lemma length_get_bytes [simp]: "length (get_bytes buf n) = n"
  by (simp add: get_bytes_def)

lemma get_put_bytes:
  "length bs < 2 ^ 32 \<Longrightarrow> get_bytes (put_bytes bs buf) (length bs) = bs"
  by (rule nth_equalityI) (simp_all add: get_bytes_def put_bytes_def unat_of_nat take_bit_eq_mod)

lemma ntohs_bytes [simp]:
  "ntohs_at buf a = w" if "buf a = ucast (drop_bit 8 w)" "buf (a + 1) = ucast w" for w :: u16
  unfolding ntohs_at_def that
  by (rule bit_word_eqI, unfold bit_ops) (auto simp: bit_simps dest: bit_imp_le_length)

lemma run_sys_sels [simp]:
  "host_log (run_sys c m) = c # host_log m" "host_sys (run_sys c m) = host_sys m"
  "devices (run_sys c m) = devices m" "event_queue (run_sys c m) = event_queue m"
  "ta_free (run_sys c m) = ta_free m" "fault_state (run_sys c m) = fault_state m"
  "ram (run_sys c m) = ram m" "bus_ramsize (run_sys c m) = bus_ramsize m"
  "g_stats (run_sys c m) = g_stats m"
  "bus_raised_interrupts (run_sys c m) = bus_raised_interrupts m"
  by (simp_all add: run_sys_def do_sys_def)

text \<open>A system call, as far as the machine goes, is \<open>run_sys\<close>.\<close>

lemma do_sys_eq: "do_sys c m = (run_sys c m, host_sys m (host_log m) c)"
  by (simp add: run_sys_def do_sys_def)

end
