(* ===== verification/Net_Dev.thy ===== *)
theory Net_Dev
  imports Disk_Dev Host
begin

text \<open>
  The network card (\<open>bus/dev_net.c\<close>): two buffers, two interrupt registers, a control register
  whose start bit stands for a packet on its way out, and the socket to the hub, reached by the
  system calls of the host. The buffers are as many bytes as the registers address.
\<close>

section \<open>Registers\<close>

definition NETREG_READINTR :: u32 where "NETREG_READINTR = 0"
definition NETREG_WRITEINTR :: u32 where "NETREG_WRITEINTR = 4"
definition NETREG_CONTROL :: u32 where "NETREG_CONTROL = 8"
definition NETREG_STATUS :: u32 where "NETREG_STATUS = 12"
definition NET_BUFSIZE :: u32 where "NET_BUFSIZE = 4096"
definition NET_READBUF :: u32 where "NET_READBUF = 32768"
definition NET_WRITEBUF :: u32 where "NET_WRITEBUF = NET_READBUF + NET_BUFSIZE"
definition HUB_ADDR :: u16 where "HUB_ADDR = 0x0000"
definition BROADCAST_ADDR :: u16 where "BROADCAST_ADDR = 0xffff"
definition FRAME_MAGIC :: u16 where "FRAME_MAGIC = 0xa4b3"
definition NETWORK_LATENCY :: u64 where "NETWORK_LATENCY = 2000000"
definition NDI_DONE :: u32 where "NDI_DONE = 0x00000001"
definition NDI_ZERO :: u32 where "NDI_ZERO = 0xfffffffe"
definition NDC_PROMISC :: u32 where "NDC_PROMISC = 0x00000001"
definition NDC_START :: u32 where "NDC_START = 0x00000002"
definition NDC_ZERO :: u32 where "NDC_ZERO = 0xfffffffc"
definition NDS_HWADDR :: u32 where "NDS_HWADDR = 0x0000ffff"

lemmas NET_defs =
  NETREG_READINTR_def NETREG_WRITEINTR_def NETREG_CONTROL_def NETREG_STATUS_def NET_BUFSIZE_def
  NET_READBUF_def NET_WRITEBUF_def NDI_DONE_def NDI_ZERO_def NDC_PROMISC_def NDC_START_def
  NDC_ZERO_def NDS_HWADDR_def

definition ND_STATUS :: "u16 \<Rightarrow> bool \<Rightarrow> u32" where
  "ND_STATUS hw c = (if c then 0x80000000 else 0) OR (ucast hw AND 0xffff)"

section \<open>Device data\<close>

definition zero_net :: "nat \<Rightarrow> net_data" where
  "zero_net slot = \<lparr>nd_slot = slot, nd_socket = 0, nd_lostcarrier = False, nd_rirq = 0, nd_wirq = 0,
     nd_control = 0, nd_status = 0, nd_rbuf = (\<lambda>_. 0), nd_wbuf = (\<lambda>_. 0)\<rparr>"

definition net_at :: "machine \<Rightarrow> nat \<Rightarrow> net_data" where
  "net_at m slot = (case devices m slot of Some (Net nd) \<Rightarrow> nd | _ \<Rightarrow> zero_net slot)"

definition upd_net :: "nat \<Rightarrow> (net_data \<Rightarrow> net_data) \<Rightarrow> machine \<Rightarrow> machine" where
  "upd_net slot f m = put_device slot (Net (f (net_at m slot))) m"

text \<open>The card's own address, \<open>nd_status & NDS_HWADDR\<close> as 16 bits.\<close>

definition net_hwaddr :: "net_data \<Rightarrow> u16" where
  "net_hwaddr nd = ucast (nd_status nd AND NDS_HWADDR)"

section \<open>Interrupts\<close>

definition chkint :: "nat \<Rightarrow> machine \<Rightarrow> machine" where
  "chkint slot m =
     (let nd = net_at m slot in
      if nd_rirq nd \<noteq> 0 \<or> nd_wirq nd \<noteq> 0 then raise_irq (nd_slot nd) m else lower_irq (nd_slot nd) m)"

definition readdone :: "nat \<Rightarrow> machine \<Rightarrow> machine" where
  "readdone slot m = chkint slot (upd_net slot (\<lambda>nd. nd\<lparr>nd_rirq := NDI_DONE\<rparr>) m)"

definition writedone :: "nat \<Rightarrow> machine \<Rightarrow> machine" where
  "writedone slot m = chkint slot (upd_net slot (\<lambda>nd. nd\<lparr>nd_wirq := NDI_DONE\<rparr>) m)"

section \<open>Packets\<close>

text \<open>A link header of the card: magic, its address, length, destination.\<close>

definition link_header :: "u16 \<Rightarrow> u16 \<Rightarrow> u16 \<Rightarrow> u8 list" where
  "link_header from len to =
     net_bytes16 FRAME_MAGIC @ net_bytes16 from @ net_bytes16 len @ net_bytes16 to"

definition keepalive :: "nat \<Rightarrow> machine \<Rightarrow> machine" where
  "keepalive slot m =
     (let nd = net_at m slot;
          (m1, a) = do_sys (Sys_sendto (nd_socket nd) (link_header (net_hwaddr nd) 8 HUB_ADDR)) m;
          m2 = (if sys_ret a < 0 \<and> sys_errno a \<in> set [ECONNREFUSED, ENOENT, ENOTSOCK] then
                  upd_net slot (\<lambda>nd. nd\<lparr>nd_lostcarrier := True\<rparr>) m1
                else if sys_ret a < 0 then m1
                else upd_net slot (\<lambda>nd. nd\<lparr>nd_lostcarrier := False\<rparr>) m1)
      in schedule_event 1000000000 slot 0 F_keepalive m2)"

definition put_be16 :: "u32 \<Rightarrow> u16 \<Rightarrow> (u32 \<Rightarrow> u8) \<Rightarrow> (u32 \<Rightarrow> u8)" where
  "put_be16 a w buf = buf(a := ucast (drop_bit 8 w), a + 1 := ucast w)"

definition dosend :: "nat \<Rightarrow> machine \<Rightarrow> machine" where
  "dosend slot m =
     (let nd = net_at m slot; len = (ucast (ntohs_at (nd_wbuf nd) 4) :: u32) in
      if len > NET_BUFSIZE then hang m
      else
        let m1 = upd_net slot (\<lambda>nd. nd\<lparr>nd_wbuf :=
              put_be16 2 (net_hwaddr nd) (put_be16 0 FRAME_MAGIC (nd_wbuf nd))\<rparr>) m;
            m2 = run_sys (Sys_sendto (nd_socket nd) (get_bytes (nd_wbuf (net_at m1 slot)) (unat len))) m1;
            m3 = upd_stats (\<lambda>s. s\<lparr>s_wpkts := s_wpkts s + 1\<rparr>) m2
        in writedone slot m3)"

text \<open>The fields of a received header.\<close>

definition be16_of :: "u8 list \<Rightarrow> nat \<Rightarrow> u16" where
  "be16_of bs k = push_bit 8 (ucast (bs ! k)) OR ucast (bs ! (k + 1))"

definition lh_frame :: "u8 list \<Rightarrow> u16" where "lh_frame bs = be16_of bs 0"
definition lh_packetlen :: "u8 list \<Rightarrow> u16" where "lh_packetlen bs = be16_of bs 4"
definition lh_to :: "u8 list \<Rightarrow> u16" where "lh_to bs = be16_of bs 6"

definition net_error :: "machine \<Rightarrow> machine" where
  "net_error m = upd_stats (\<lambda>s. s\<lparr>s_epkts := s_epkts s + 1\<rparr>) m"

definition dorecv :: "nat \<Rightarrow> machine \<Rightarrow> machine" where
  "dorecv slot m =
     (let nd = net_at m slot; overrun = (nd_rirq nd \<noteq> 0);
          readbuflen = (if overrun then 8 else unat NET_BUFSIZE);
          (m1, a) = do_sys (Sys_read (nd_socket nd) readbuflen) m
      in case bytes_read readbuflen a of
           None \<Rightarrow> m1
         | Some bs \<Rightarrow>
             let m2 = (if overrun then m1
                       else upd_net slot (\<lambda>nd. nd\<lparr>nd_rbuf := put_bytes bs (nd_rbuf nd)\<rparr>) m1);
                 r = length bs
             in if r < 8 then net_error m2
                else if lh_frame bs \<noteq> FRAME_MAGIC then net_error m2
                else if lh_to bs \<noteq> net_hwaddr nd \<and> lh_to bs \<noteq> BROADCAST_ADDR \<and>
                        nd_control nd AND NDC_PROMISC = 0 then m2
                else if unat (lh_packetlen bs) > r then net_error m2
                else if unat (lh_packetlen bs) < r then net_error m2
                else if overrun then upd_stats (\<lambda>s. s\<lparr>s_dpkts := s_dpkts s + 1\<rparr>) m2
                else readdone slot (upd_stats (\<lambda>s. s\<lparr>s_rpkts := s_rpkts s + 1\<rparr>) m2))"

section \<open>Registers\<close>

definition net_setirq :: "nat \<Rightarrow> u32 \<Rightarrow> bool \<Rightarrow> machine \<Rightarrow> machine" where
  "net_setirq slot val isread m =
     (if val AND NDI_ZERO \<noteq> 0 then hang m
      else chkint slot
        (upd_net slot (\<lambda>nd. if isread then nd\<lparr>nd_rirq := val\<rparr> else nd\<lparr>nd_wirq := val\<rparr>) m))"

definition triggersend :: "nat \<Rightarrow> machine \<Rightarrow> machine" where
  "triggersend slot m =
     upd_net slot (\<lambda>nd. nd\<lparr>nd_control := nd_control nd AND NOT NDC_START\<rparr>) (dosend slot m)"

definition setctl :: "nat \<Rightarrow> u32 \<Rightarrow> machine \<Rightarrow> machine" where
  "setctl slot val m =
     (let started = (nd_control (net_at m slot) AND NDC_START \<noteq> 0) in
      if val AND NDC_ZERO \<noteq> 0 then hang m
      else if val AND NDC_START \<noteq> 0 then
        upd_net slot (\<lambda>nd. nd\<lparr>nd_control := val\<rparr>)
          (if started then hang m else schedule_event NETWORK_LATENCY slot 0 F_triggersend m)
      else upd_net slot (\<lambda>nd. nd\<lparr>nd_control := (if started then val OR NDC_START else val)\<rparr>) m)"

definition net_fetch :: "nat \<Rightarrow> u32 \<Rightarrow> machine \<Rightarrow> machine \<times> fetched" where
  "net_fetch slot offset m =
     (let nd = net_at m slot in
      (m, if offset \<ge> NET_READBUF \<and> offset < NET_READBUF + NET_BUFSIZE then
            Fetched (ctoh32 (host_load32 (nd_rbuf nd) (offset - NET_READBUF)))
          else if offset \<ge> NET_WRITEBUF \<and> offset < NET_WRITEBUF + NET_BUFSIZE then
            Fetched (ctoh32 (host_load32 (nd_wbuf nd) (offset - NET_WRITEBUF)))
          else if offset = NETREG_READINTR then Fetched (nd_rirq nd)
          else if offset = NETREG_WRITEINTR then Fetched (nd_wirq nd)
          else if offset = NETREG_CONTROL then Fetched (nd_control nd)
          else if offset = NETREG_STATUS then Fetched (nd_status nd)
          else Bus_error))"

definition net_store :: "nat \<Rightarrow> u32 \<Rightarrow> u32 \<Rightarrow> machine \<Rightarrow> machine \<times> bool" where
  "net_store slot offset val m =
     (if offset \<ge> NET_READBUF \<and> offset < NET_READBUF + NET_BUFSIZE then
        (upd_net slot (\<lambda>nd. nd\<lparr>nd_rbuf :=
           host_store32 (nd_rbuf nd) (offset - NET_READBUF) (htoc32 val)\<rparr>) m, True)
      else if offset \<ge> NET_WRITEBUF \<and> offset < NET_WRITEBUF + NET_BUFSIZE then
        (upd_net slot (\<lambda>nd. nd\<lparr>nd_wbuf :=
           host_store32 (nd_wbuf nd) (offset - NET_WRITEBUF) (htoc32 val)\<rparr>) m, True)
      else if offset = NETREG_READINTR then (net_setirq slot val True m, True)
      else if offset = NETREG_WRITEINTR then (net_setirq slot val False m, True)
      else if offset = NETREG_CONTROL then (setctl slot val m, True)
      else (m, False))"

section \<open>Configuration\<close>

definition is_digit :: "char \<Rightarrow> bool" where
  "is_digit c \<longleftrightarrow> 48 \<le> (of_char c :: nat) \<and> (of_char c :: nat) \<le> 57"

text \<open>The library's \<open>atoi\<close>, as far as the number fits.\<close>

definition atoi_digits :: "string \<Rightarrow> int" where
  "atoi_digits s = foldl (\<lambda>n c. 10 * n + (of_char c - 48)) 0 (takeWhile is_digit s)"

fun atoi_sign :: "string \<Rightarrow> int" where
  "atoi_sign (c # s) =
     (if c = CHR ''-'' then - atoi_digits s else if c = CHR ''+'' then atoi_digits s
      else atoi_digits (c # s))"
| "atoi_sign [] = 0"

definition atoi :: "string \<Rightarrow> int" where
  "atoi s = atoi_sign (dropWhile (\<lambda>c. (of_char c :: nat) \<in> set [9, 10, 11, 12, 13, 32]) s)"

text \<open>The options: \<open>None\<close> for one that is not known, otherwise the hardware address. The name of
  the hub only goes to the host.\<close>

fun net_options :: "u16 \<Rightarrow> string list \<Rightarrow> u16 option" where
  "net_options hwaddr [] = Some hwaddr"
| "net_options hwaddr (arg # args) =
     (if take 4 arg = ''hub='' then net_options hwaddr args
      else if take 7 arg = ''hwaddr='' then net_options (word_of_int (atoi (drop 7 arg))) args
      else None)"

text \<open>\<open>net_init\<close>, on the memory \<open>malloc\<close> returned and the socket the host opened and bound; the
  registers that are not assigned keep what was in that memory.\<close>

definition net_init :: "nat \<Rightarrow> string list \<Rightarrow> net_data \<Rightarrow> int \<Rightarrow> machine \<Rightarrow> machine" where
  "net_init slot args fresh sock m =
     (case net_options HUB_ADDR args of
        None \<Rightarrow> die m
      | Some hwaddr \<Rightarrow>
          if hwaddr = BROADCAST_ADDR \<or> hwaddr = HUB_ADDR then die m
          else if sock < 0 then die m
          else keepalive slot (put_device slot (Net (fresh\<lparr>nd_slot := slot,
            nd_status := ND_STATUS hwaddr False, nd_socket := sock, nd_lostcarrier := True\<rparr>)) m))"

text \<open>The end of the card, but for the memory it gives back.\<close>

definition net_cleanup :: "nat \<Rightarrow> machine \<Rightarrow> machine" where
  "net_cleanup slot m =
     (if nd_socket (net_at m slot) \<ge> 0
      then upd_net slot (\<lambda>nd. nd\<lparr>nd_socket := -1\<rparr>) (run_sys (Sys_close (nd_socket (net_at m slot))) m)
      else m)"

end
