(* ===== verification/Emufs_Dev.thy ===== *)
theory Emufs_Dev
  imports Disk_Dev Host
begin

text \<open>
  The emulator file system (\<open>bus/dev_emufs.c\<close>): registers, a buffer and a table of 64 handles, each
  an open file of the host. Storing an operation code runs the operation on the host at once and
  shows its result, with an interrupt, when a timed event says that it is over.

  The host answers every system call as it likes. The retry loop of \<open>emufs_open_existing\<close>, which
  ends only when the host gives the file it announced, and the loop over directory entries are
  \<open>while_option\<close>; not returning is the fault \<open>No_return\<close>. Running out of handles makes \<open>pickhandle\<close> write
  in front of the table, which is the fault \<open>Undefined\<close>.
\<close>

section \<open>Registers and codes\<close>

definition MAXHANDLES :: nat where "MAXHANDLES = 64"
definition EMU_ROOTHANDLE :: nat where "EMU_ROOTHANDLE = 0"
definition EMU_BUF_START :: u32 where "EMU_BUF_START = 32768"
definition EMU_BUF_SIZE :: u32 where "EMU_BUF_SIZE = 16384"
definition EMU_BUF_END :: u32 where "EMU_BUF_END = EMU_BUF_START + EMU_BUF_SIZE"
definition EMUREG_HANDLE :: u32 where "EMUREG_HANDLE = 0"
definition EMUREG_OFFSET :: u32 where "EMUREG_OFFSET = 4"
definition EMUREG_IOLEN :: u32 where "EMUREG_IOLEN = 8"
definition EMUREG_OPER :: u32 where "EMUREG_OPER = 12"
definition EMUREG_RESULT :: u32 where "EMUREG_RESULT = 16"
definition EMU_OP_OPEN :: u32 where "EMU_OP_OPEN = 1"
definition EMU_OP_CREATE :: u32 where "EMU_OP_CREATE = 2"
definition EMU_OP_EXCLCREATE :: u32 where "EMU_OP_EXCLCREATE = 3"
definition EMU_OP_CLOSE :: u32 where "EMU_OP_CLOSE = 4"
definition EMU_OP_READ :: u32 where "EMU_OP_READ = 5"
definition EMU_OP_READDIR :: u32 where "EMU_OP_READDIR = 6"
definition EMU_OP_WRITE :: u32 where "EMU_OP_WRITE = 7"
definition EMU_OP_GETSIZE :: u32 where "EMU_OP_GETSIZE = 8"
definition EMU_OP_TRUNC :: u32 where "EMU_OP_TRUNC = 9"
definition EMU_RES_SUCCESS :: u32 where "EMU_RES_SUCCESS = 1"
definition EMU_RES_BADHANDLE :: u32 where "EMU_RES_BADHANDLE = 2"
definition EMU_RES_BADOP :: u32 where "EMU_RES_BADOP = 3"
definition EMU_RES_BADPATH :: u32 where "EMU_RES_BADPATH = 4"
definition EMU_RES_BADSIZE :: u32 where "EMU_RES_BADSIZE = 5"
definition EMU_RES_EXISTS :: u32 where "EMU_RES_EXISTS = 6"
definition EMU_RES_ISDIR :: u32 where "EMU_RES_ISDIR = 7"
definition EMU_RES_MEDIA :: u32 where "EMU_RES_MEDIA = 8"
definition EMU_RES_NOHANDLES :: u32 where "EMU_RES_NOHANDLES = 9"
definition EMU_RES_NOSPACE :: u32 where "EMU_RES_NOSPACE = 10"
definition EMU_RES_NOTDIR :: u32 where "EMU_RES_NOTDIR = 11"
definition EMU_RES_UNKNOWN :: u32 where "EMU_RES_UNKNOWN = 12"
definition EMUFS_NSECS :: u64 where "EMUFS_NSECS = 5000000"

lemmas EMUREG_defs = EMUREG_HANDLE_def EMUREG_OFFSET_def EMUREG_IOLEN_def EMUREG_OPER_def
  EMUREG_RESULT_def EMU_BUF_START_def EMU_BUF_END_def EMU_BUF_SIZE_def
lemmas EMU_OP_defs = EMU_OP_OPEN_def EMU_OP_CREATE_def EMU_OP_EXCLCREATE_def EMU_OP_CLOSE_def
  EMU_OP_READ_def EMU_OP_READDIR_def EMU_OP_WRITE_def EMU_OP_GETSIZE_def EMU_OP_TRUNC_def
lemmas EMU_RES_defs = EMU_RES_SUCCESS_def EMU_RES_BADHANDLE_def EMU_RES_BADOP_def
  EMU_RES_BADPATH_def EMU_RES_BADSIZE_def EMU_RES_EXISTS_def EMU_RES_ISDIR_def EMU_RES_MEDIA_def
  EMU_RES_NOHANDLES_def EMU_RES_NOSPACE_def EMU_RES_NOTDIR_def EMU_RES_UNKNOWN_def

text \<open>The host's flags for \<open>open\<close>.\<close>

definition O_RDONLY :: u32 where "O_RDONLY = 0"
definition O_RDWR :: u32 where "O_RDWR = 2"
definition O_CREAT :: u32 where "O_CREAT = 0x40"
definition O_EXCL :: u32 where "O_EXCL = 0x80"

lemmas O_defs = O_RDONLY_def O_RDWR_def O_CREAT_def O_EXCL_def

section \<open>Device data\<close>

definition no_handle :: emufs_handleinfo where
  "no_handle = \<lparr>eh_fd = -1, eh_dev = 0, eh_ino = 0\<rparr>"

definition zero_emufs :: "nat \<Rightarrow> emufs_data" where
  "zero_emufs slot = \<lparr>ed_slot = slot, ed_buf = (\<lambda>_. 0), ed_handle = 0, ed_offset = 0, ed_iolen = 0,
     ed_result = 0, ed_handles = (\<lambda>_. no_handle), ed_busy = False, ed_busyresult = 0\<rparr>"

definition emufs_at :: "machine \<Rightarrow> nat \<Rightarrow> emufs_data" where
  "emufs_at m slot = (case devices m slot of Some (Emufs ed) \<Rightarrow> ed | _ \<Rightarrow> zero_emufs slot)"

definition upd_emufs :: "nat \<Rightarrow> (emufs_data \<Rightarrow> emufs_data) \<Rightarrow> machine \<Rightarrow> machine" where
  "upd_emufs slot f m = put_device slot (Emufs (f (emufs_at m slot))) m"

definition emufs_count :: "(stats \<Rightarrow> stats) \<Rightarrow> machine \<Rightarrow> machine" where
  "emufs_count f m = upd_stats f m"

text \<open>The host's file behind the handle register.\<close>

definition emufs_fd :: "nat \<Rightarrow> machine \<Rightarrow> int" where
  "emufs_fd slot m = (let ed = emufs_at m slot in eh_fd (ed_handles ed (unat (ed_handle ed))))"

text \<open>The name in the buffer.\<close>

definition emufs_path :: "nat \<Rightarrow> machine \<Rightarrow> u8 list" where
  "emufs_path slot m = buf_string (ed_buf (emufs_at m slot)) (unat EMU_BUF_SIZE)"

definition dot_path :: "u8 list" where "dot_path = [0x2e]"

section \<open>Directories, results, handles\<close>

definition pushdir :: "int \<Rightarrow> machine \<Rightarrow> machine \<times> int" where
  "pushdir fd m =
     (let (m1, a) = do_sys (Sys_open dot_path O_RDONLY) m;
          m2 = (if sys_ret a < 0 then smoke m1 else m1);
          (m3, b) = do_sys (Sys_fchdir fd) m2
      in (if sys_ret b \<noteq> 0 then smoke m3 else m3, sys_ret a))"

definition popdir :: "int \<Rightarrow> machine \<Rightarrow> machine" where
  "popdir oldfd m =
     (let (m1, a) = do_sys (Sys_fchdir oldfd) m
      in run_sys (Sys_close oldfd) (if sys_ret a \<noteq> 0 then smoke m1 else m1))"

definition emufs_setresult :: "nat \<Rightarrow> u32 \<Rightarrow> machine \<Rightarrow> machine" where
  "emufs_setresult slot result m =
     (let m1 = upd_emufs slot (\<lambda>ed. ed\<lparr>ed_result := result\<rparr>) m; ed = emufs_at m1 slot
      in if ed_result ed > 0 then raise_irq (ed_slot ed) m1 else lower_irq (ed_slot ed) m1)"

fun errno_to_code :: "errno \<Rightarrow> u32" where
  "errno_to_code EBADF = EMU_RES_BADHANDLE"
| "errno_to_code EINVAL = EMU_RES_BADSIZE"
| "errno_to_code ENOENT = EMU_RES_BADPATH"
| "errno_to_code EIO = EMU_RES_MEDIA"
| "errno_to_code ENOTDIR = EMU_RES_NOTDIR"
| "errno_to_code EISDIR = EMU_RES_ISDIR"
| "errno_to_code EEXIST = EMU_RES_EXISTS"
| "errno_to_code ENOSPC = EMU_RES_NOSPACE"
| "errno_to_code e = EMU_RES_UNKNOWN"

text \<open>The search: a handle that has the file open, or the first unused one, if any.\<close>

primrec pick_loop ::
  "(nat \<Rightarrow> emufs_handleinfo) \<Rightarrow> nat \<Rightarrow> nat \<Rightarrow> nat list \<Rightarrow> nat option \<Rightarrow> nat + nat option" where
  "pick_loop hs dev ino [] unused = Inr unused"
| "pick_loop hs dev ino (i # js) unused =
     (if eh_fd (hs i) < 0 then
        pick_loop hs dev ino js (case unused of None \<Rightarrow> Some i | Some e \<Rightarrow> Some e)
      else if eh_dev (hs i) = dev \<and> eh_ino (hs i) = ino then Inl i
      else pick_loop hs dev ino js unused)"

definition name_handle :: "nat \<Rightarrow> nat \<Rightarrow> nat \<Rightarrow> emufs_data \<Rightarrow> emufs_data" where
  "name_handle h dev ino ed =
     ed\<lparr>ed_handles := (ed_handles ed)(h := (ed_handles ed h)\<lparr>eh_dev := dev, eh_ino := ino\<rparr>)\<rparr>"

definition open_handle :: "nat \<Rightarrow> int \<Rightarrow> emufs_data \<Rightarrow> emufs_data" where
  "open_handle h fd ed = ed\<lparr>ed_handles := (ed_handles ed)(h := (ed_handles ed h)\<lparr>eh_fd := fd\<rparr>)\<rparr>"

definition pickhandle :: "nat \<Rightarrow> nat \<Rightarrow> nat \<Rightarrow> machine \<Rightarrow> machine \<times> nat option" where
  "pickhandle slot dev ino m =
     (case pick_loop (ed_handles (emufs_at m slot)) dev ino [0..<MAXHANDLES] None of
        Inl i \<Rightarrow> (m, Some i)
      | Inr (Some e) \<Rightarrow> (upd_emufs slot (name_handle e dev ino) m, Some e)
      | Inr None \<Rightarrow> (raise_fault Undefined m, None))"

section \<open>Opening\<close>

definition emufs_open_and_stat :: "nat \<Rightarrow> u32 \<Rightarrow> machine \<Rightarrow> machine \<times> (u32 + int \<times> sys_answer)" where
  "emufs_open_and_stat slot flags m =
     (let (m1, a) = do_sys (Sys_open (emufs_path slot m) flags) m; fd = sys_ret a in
      if fd < 0 then (m1, Inl (errno_to_code (sys_errno a)))
      else
        let (m2, b) = do_sys (Sys_fstat fd) m1 in
        if sys_ret b < 0 then (run_sys (Sys_close fd) m2, Inl (errno_to_code (sys_errno b)))
        else (m2, Inr (fd, b)))"

definition emufs_open_create :: "nat \<Rightarrow> u32 \<Rightarrow> machine \<Rightarrow> machine \<times> (u32 + nat)" where
  "emufs_open_create slot flags m =
     (case emufs_open_and_stat slot flags m of
        (m1, Inl status) \<Rightarrow> (m1, Inl status)
      | (m1, Inr (fd, sbuf)) \<Rightarrow>
          (case pickhandle slot (sys_dev sbuf) (sys_ino sbuf) m1 of
             (m2, None) \<Rightarrow> (run_sys (Sys_close fd) m2, Inl EMU_RES_NOHANDLES)
           | (m2, Some h) \<Rightarrow>
               (if eh_fd (ed_handles (emufs_at m2 slot) h) \<ge> 0 then run_sys (Sys_close fd) m2
                else upd_emufs slot (open_handle h fd) m2, Inr h)))"

text \<open>The loop of \<open>emufs_open_existing\<close>: looking for the file it expects, or done.\<close>

datatype open_state = Look nat nat | Opened nat | Failed u32

definition looking :: "machine \<times> open_state \<Rightarrow> bool" where
  "looking r = (case snd r of Look _ _ \<Rightarrow> True | _ \<Rightarrow> False)"

fun existing_round :: "nat \<Rightarrow> u32 \<Rightarrow> machine \<times> open_state \<Rightarrow> machine \<times> open_state" where
  "existing_round slot flags (m, Look dev ino) =
     (case pickhandle slot dev ino m of
        (m1, None) \<Rightarrow> (m1, Failed EMU_RES_NOHANDLES)
      | (m1, Some h) \<Rightarrow>
          if eh_fd (ed_handles (emufs_at m1 slot) h) \<ge> 0 then (m1, Opened h)
          else case emufs_open_and_stat slot flags m1 of
            (m2, Inl status) \<Rightarrow> (m2, Failed status)
          | (m2, Inr (fd, sbuf)) \<Rightarrow>
              if sys_dev sbuf = dev \<and> sys_ino sbuf = ino
              then (upd_emufs slot (open_handle h fd) m2, Opened h)
              else (run_sys (Sys_close fd) m2, Look (sys_dev sbuf) (sys_ino sbuf)))"
| "existing_round slot flags r = r"

definition emufs_open_existing :: "nat \<Rightarrow> u32 \<Rightarrow> nat \<Rightarrow> nat \<Rightarrow> machine \<Rightarrow> machine \<times> (u32 + nat)" where
  "emufs_open_existing slot flags dev ino m =
     (case while_option looking (existing_round slot flags) (m, Look dev ino) of
        Some (m1, Opened h) \<Rightarrow> (m1, Inr h)
      | Some (m1, Failed status) \<Rightarrow> (m1, Inl status)
      | _ \<Rightarrow> (raise_fault No_return m, Inl 0))"

text \<open>Reading the table outside its bounds is undefined.\<close>

definition in_table :: "nat \<Rightarrow> machine \<Rightarrow> machine" where
  "in_table slot m =
     (if unat (ed_handle (emufs_at m slot)) < MAXHANDLES then m else raise_fault Undefined m)"

text \<open>Finding out what the name stands for and opening it; the flag says that it is a directory.\<close>

definition emufs_find :: "nat \<Rightarrow> u32 \<Rightarrow> machine \<Rightarrow> machine \<times> bool \<times> (u32 + nat)" where
  "emufs_find slot flags m =
     (let (m1, sbuf) = do_sys (Sys_stat (emufs_path slot m)) m; isdir = sys_isdir sbuf in
      if sys_ret sbuf \<noteq> 0 then
        if flags = 0 then (m1, False, Inl (errno_to_code (sys_errno sbuf)))
        else let (m2, r) = emufs_open_create slot (flags OR O_RDWR) m1 in (m2, False, r)
      else
        let (m2, r) = emufs_open_existing slot
              (if isdir \<and> flags = 0 then flags OR O_RDONLY else flags OR O_RDWR)
              (sys_dev sbuf) (sys_ino sbuf) m1
        in (m2, isdir, r))"

definition emufs_open :: "nat \<Rightarrow> u32 \<Rightarrow> machine \<Rightarrow> machine \<times> u32" where
  "emufs_open slot flags m =
     (if ed_iolen (emufs_at m slot) \<ge> EMU_BUF_SIZE then (m, EMU_RES_BADSIZE)
      else
        let m1 = in_table slot (upd_emufs slot (\<lambda>ed. ed\<lparr>ed_buf := (ed_buf ed)(ed_iolen ed := 0)\<rparr>) m);
            (m2, curdir) = pushdir (emufs_fd slot m1) m1;
            (m3, isdir, r) = emufs_find slot flags m2;
            m4 = popdir curdir m3
        in case r of
             Inl status \<Rightarrow> (m4, status)
           | Inr h \<Rightarrow>
               (emufs_count (\<lambda>s. s\<lparr>s_memu := s_memu s + 1\<rparr>)
                  (upd_emufs slot (\<lambda>ed. ed\<lparr>ed_handle := of_nat h,
                     ed_iolen := (if isdir then 1 else 0)\<rparr>) m4), EMU_RES_SUCCESS))"

section \<open>Operations on a handle\<close>

definition emufs_close :: "nat \<Rightarrow> machine \<Rightarrow> machine \<times> u32" where
  "emufs_close slot m =
     (let m1 = run_sys (Sys_close (emufs_fd slot m)) m;
          m2 = upd_emufs slot (\<lambda>ed. open_handle (unat (ed_handle ed)) (-1) ed) m1
      in (emufs_count (\<lambda>s. s\<lparr>s_memu := s_memu s + 1\<rparr>) m2, EMU_RES_SUCCESS))"

text \<open>\<open>lseek\<close> and the transfer, after which the offset has moved by what was transferred.\<close>

definition emufs_moved :: "nat \<Rightarrow> emufs_data \<Rightarrow> emufs_data" where
  "emufs_moved len ed = ed\<lparr>ed_offset := ed_offset ed + of_nat len, ed_iolen := of_nat len\<rparr>"

definition emufs_read :: "nat \<Rightarrow> machine \<Rightarrow> machine \<times> u32" where
  "emufs_read slot m =
     (let ed = emufs_at m slot; fd = emufs_fd slot m in
      if ed_iolen ed > EMU_BUF_SIZE then (m, EMU_RES_BADSIZE)
      else
        let (m1, a) = do_sys (Sys_read fd (unat (ed_iolen ed))) (run_sys (Sys_lseek fd (ed_offset ed)) m)
        in case bytes_read (unat (ed_iolen ed)) a of
             None \<Rightarrow> (m1, errno_to_code (sys_errno a))
           | Some bs \<Rightarrow>
               (emufs_count (\<lambda>s. s\<lparr>s_remu := s_remu s + 1\<rparr>)
                  (upd_emufs slot (\<lambda>ed. emufs_moved (length bs) (ed\<lparr>ed_buf := put_bytes bs (ed_buf ed)\<rparr>)) m1),
                EMU_RES_SUCCESS))"

definition emufs_write :: "nat \<Rightarrow> machine \<Rightarrow> machine \<times> u32" where
  "emufs_write slot m =
     (let ed = emufs_at m slot; fd = emufs_fd slot m in
      if ed_iolen ed > EMU_BUF_SIZE then (m, EMU_RES_BADSIZE)
      else
        let (m1, a) = do_sys (Sys_write fd (get_bytes (ed_buf ed) (unat (ed_iolen ed))))
              (run_sys (Sys_lseek fd (ed_offset ed)) m)
        in if sys_ret a < 0 then (m1, errno_to_code (sys_errno a))
           else (emufs_count (\<lambda>s. s\<lparr>s_wemu := s_wemu s + 1\<rparr>)
                   (upd_emufs slot (emufs_moved (nat (sys_ret a))) m1), EMU_RES_SUCCESS))"

text \<open>The loop of \<open>emufs_readdir\<close>: the count, and the last answer with whether it was an entry.\<close>

definition readdir_more :: "u32 \<Rightarrow> machine \<times> u32 \<times> u8 list option \<times> bool \<Rightarrow> bool" where
  "readdir_more offset r = (let (m, ct, dp, eof) = r in ct \<le> offset \<and> \<not> eof)"

definition readdir_step :: "machine \<times> u32 \<times> u8 list option \<times> bool \<Rightarrow> machine \<times> u32 \<times> u8 list option \<times> bool" where
  "readdir_step r =
     (let (m, ct, dp, eof) = r; (m1, a) = do_sys Sys_readdir m in
      if sys_ret a < 0 then (m1, ct, None, True) else (m1, ct + 1, Some (sys_data a), False))"

definition emufs_entry :: "nat \<Rightarrow> u8 list option \<Rightarrow> machine \<Rightarrow> machine" where
  "emufs_entry slot dp m =
     (case dp of
        None \<Rightarrow> upd_emufs slot (\<lambda>ed. ed\<lparr>ed_iolen := 0\<rparr>) m
      | Some name \<Rightarrow>
          emufs_count (\<lambda>s. s\<lparr>s_remu := s_remu s + 1\<rparr>)
            (upd_emufs slot (\<lambda>ed.
               let bs = take (unat (ed_iolen ed)) name
               in ed\<lparr>ed_buf := put_bytes bs (ed_buf ed), ed_iolen := of_nat (length bs),
                     ed_offset := ed_offset ed + 1\<rparr>) m))"

definition emufs_readdir :: "nat \<Rightarrow> machine \<Rightarrow> machine \<times> u32" where
  "emufs_readdir slot m =
     (let ed = emufs_at m slot in
      if ed_iolen ed > EMU_BUF_SIZE then (m, EMU_RES_BADSIZE)
      else
        let (m1, a) = do_sys (Sys_open dot_path O_RDONLY) m; herefd = sys_ret a in
        if herefd < 0 then (m1, errno_to_code (sys_errno a))
        else
          let (m2, b) = do_sys (Sys_fchdir (emufs_fd slot m1)) m1 in
          if sys_ret b < 0 then (run_sys (Sys_close herefd) m2, errno_to_code (sys_errno b))
          else
            let (m3, c) = do_sys (Sys_opendir dot_path) m2 in
            if sys_ret c < 0 then
              (run_sys (Sys_close herefd) (run_sys (Sys_fchdir herefd) m3), errno_to_code (sys_errno c))
            else
              case while_option (readdir_more (ed_offset ed)) readdir_step (m3, 0, None, False) of
                None \<Rightarrow> (raise_fault No_return m3, 0)
              | Some (m4, ct, dp, eof) \<Rightarrow>
                  (run_sys (Sys_close herefd) (run_sys (Sys_fchdir herefd)
                     (run_sys Sys_closedir (emufs_entry slot dp m4))), EMU_RES_SUCCESS))"

definition emufs_getsize :: "nat \<Rightarrow> machine \<Rightarrow> machine \<times> u32" where
  "emufs_getsize slot m =
     (let (m1, a) = do_sys (Sys_fstat (emufs_fd slot m)) m in
      if sys_ret a \<noteq> 0 then (m1, errno_to_code (sys_errno a))
      else (emufs_count (\<lambda>s. s\<lparr>s_memu := s_memu s + 1\<rparr>)
              (upd_emufs slot (\<lambda>ed. ed\<lparr>ed_iolen := of_nat (sys_size a)\<rparr>) m1), EMU_RES_SUCCESS))"

definition emufs_trunc :: "nat \<Rightarrow> machine \<Rightarrow> machine \<times> u32" where
  "emufs_trunc slot m =
     (let (m1, a) = do_sys (Sys_ftruncate (emufs_fd slot m) (ed_iolen (emufs_at m slot))) m in
      if sys_ret a \<noteq> 0 then (m1, errno_to_code (sys_errno a))
      else (emufs_count (\<lambda>s. s\<lparr>s_wemu := s_wemu s + 1\<rparr>) m1, EMU_RES_SUCCESS))"

section \<open>Running an operation\<close>

definition emufs_op :: "nat \<Rightarrow> u32 \<Rightarrow> machine \<Rightarrow> machine \<times> u32" where
  "emufs_op slot op m =
     (let ed = emufs_at m slot in
      if op = EMU_OP_OPEN then emufs_open slot 0 m
      else if op = EMU_OP_CREATE then emufs_open slot O_CREAT m
      else if op = EMU_OP_EXCLCREATE then emufs_open slot (O_CREAT OR O_EXCL) m
      else if unat (ed_handle ed) \<ge> MAXHANDLES \<or> emufs_fd slot m < 0 then (m, EMU_RES_BADHANDLE)
      else if op = EMU_OP_CLOSE then emufs_close slot m
      else if op = EMU_OP_READ then emufs_read slot m
      else if op = EMU_OP_READDIR then emufs_readdir slot m
      else if op = EMU_OP_WRITE then emufs_write slot m
      else if op = EMU_OP_GETSIZE then emufs_getsize slot m
      else if op = EMU_OP_TRUNC then emufs_trunc slot m
      else (m, EMU_RES_BADOP))"

definition emufs_done :: "nat \<Rightarrow> machine \<Rightarrow> machine" where
  "emufs_done slot m =
     (let m1 = (if \<not> ed_busy (emufs_at m slot) then smoke m else m);
          m2 = emufs_setresult slot (ed_busyresult (emufs_at m1 slot)) m1
      in upd_emufs slot (\<lambda>ed. ed\<lparr>ed_busy := False, ed_busyresult := 0\<rparr>) m2)"

definition emufs_do_op :: "nat \<Rightarrow> u32 \<Rightarrow> machine \<Rightarrow> machine" where
  "emufs_do_op slot op m =
     (if ed_busy (emufs_at m slot) then hang m
      else
        let (m1, res) = emufs_op slot op m
        in schedule_event EMUFS_NSECS slot 0 F_emufs_done
             (upd_emufs slot (\<lambda>ed. ed\<lparr>ed_busy := True, ed_busyresult := res\<rparr>) m1))"

definition emufs_fetch :: "nat \<Rightarrow> u32 \<Rightarrow> machine \<Rightarrow> machine \<times> fetched" where
  "emufs_fetch slot offset m =
     (let ed = emufs_at m slot in
      (m, if offset \<ge> EMU_BUF_START \<and> offset < EMU_BUF_END then
            Fetched (ctoh32 (host_load32 (ed_buf ed) (offset - EMU_BUF_START)))
          else if offset = EMUREG_HANDLE then Fetched (ed_handle ed)
          else if offset = EMUREG_OFFSET then Fetched (ed_offset ed)
          else if offset = EMUREG_IOLEN then Fetched (ed_iolen ed)
          else if offset = EMUREG_OPER then Fetched 0
          else if offset = EMUREG_RESULT then Fetched (ed_result ed)
          else Bus_error))"

definition emufs_store :: "nat \<Rightarrow> u32 \<Rightarrow> u32 \<Rightarrow> machine \<Rightarrow> machine \<times> bool" where
  "emufs_store slot offset val m =
     (if offset \<ge> EMU_BUF_START \<and> offset < EMU_BUF_END then
        (upd_emufs slot (\<lambda>ed. ed\<lparr>ed_buf :=
           host_store32 (ed_buf ed) (offset - EMU_BUF_START) (htoc32 val)\<rparr>) m, True)
      else if offset = EMUREG_HANDLE then (upd_emufs slot (\<lambda>ed. ed\<lparr>ed_handle := val\<rparr>) m, True)
      else if offset = EMUREG_OFFSET then (upd_emufs slot (\<lambda>ed. ed\<lparr>ed_offset := val\<rparr>) m, True)
      else if offset = EMUREG_IOLEN then (upd_emufs slot (\<lambda>ed. ed\<lparr>ed_iolen := val\<rparr>) m, True)
      else if offset = EMUREG_OPER then (emufs_do_op slot val m, True)
      else if offset = EMUREG_RESULT then (emufs_setresult slot val m, True)
      else (m, False))"

section \<open>Configuration\<close>

definition emufs_openfirst :: "nat \<Rightarrow> u8 list \<Rightarrow> machine \<Rightarrow> machine" where
  "emufs_openfirst slot dir m =
     (let m0 = (if eh_fd (ed_handles (emufs_at m slot) EMU_ROOTHANDLE) \<ge> 0 then smoke m else m);
          (m1, a) = do_sys (Sys_open dir O_RDONLY) m0; fd = sys_ret a in
      if fd < 0 then die m1
      else
        let (m2, b) = do_sys (Sys_fstat fd) m1 in
        if sys_ret b < 0 then die m2
        else emufs_count (\<lambda>s. s\<lparr>s_memu := s_memu s + 1\<rparr>)
          (upd_emufs slot (\<lambda>ed. open_handle EMU_ROOTHANDLE fd
             (name_handle EMU_ROOTHANDLE (sys_dev b) (sys_ino b) ed)) m2))"

text \<open>The options: the last directory named, or \<open>None\<close> for an option that is not known.\<close>

fun emufs_options :: "string \<Rightarrow> string list \<Rightarrow> string option" where
  "emufs_options dir [] = Some dir"
| "emufs_options dir (arg # args) =
     (if take 4 arg = ''dir='' then emufs_options (drop 4 arg) args else None)"

definition emufs_init :: "nat \<Rightarrow> string list \<Rightarrow> machine \<Rightarrow> machine" where
  "emufs_init slot args m =
     (case emufs_options ''.'' args of
        None \<Rightarrow> die m
      | Some dir \<Rightarrow>
          emufs_openfirst slot (map of_char dir) (put_device slot (Emufs (zero_emufs slot)) m))"

text \<open>The end of the card, but for the memory it gives back: the handle in the register is closed,
  whatever it is.\<close>

definition emufs_cleanup :: "nat \<Rightarrow> machine \<Rightarrow> machine" where
  "emufs_cleanup slot m = fst (emufs_close slot (in_table slot m))"

end
