(* ===== verification/Prof.thy ===== *)
theory Prof
  imports Clock Host
begin

text \<open>
  The profiler (\<open>main/prof.c\<close>): a histogram of sampled program counters and a call graph of
  counted arcs, both by bins of 16 bytes of the text, and the file \<open>gmon.out\<close> they are written to.
  \<open>arc_count\<close> is what the call graph says of an arc.
\<close>

section \<open>State\<close>

definition PROFILE_NSECS :: u64 where "PROFILE_NSECS = 1000000"
definition PROFILE_HZ :: u32 where "PROFILE_HZ = 1000"
definition PROF_BINSIZE :: u32 where "PROF_BINSIZE = 16"

definition PROF_ADDR2BIN :: "prof_data \<Rightarrow> u32 \<Rightarrow> u32" where
  "PROF_ADDR2BIN p addr = (addr - prof_textbase p) div PROF_BINSIZE"

definition upd_prof :: "(prof_data \<Rightarrow> prof_data) \<Rightarrow> machine \<Rightarrow> machine" where
  "upd_prof f m = m\<lparr>prof := f (prof m)\<rparr>"

section \<open>Operations\<close>

definition prof_enable :: "machine \<Rightarrow> machine" where
  "prof_enable m = (if prof_on (prof m) then upd_prof (\<lambda>p. p\<lparr>prof_active := True\<rparr>) m else m)"

definition prof_disable :: "machine \<Rightarrow> machine" where
  "prof_disable m = upd_prof (\<lambda>p. p\<lparr>prof_active := False\<rparr>) m"

definition prof_isenabled :: "machine \<Rightarrow> bool" where
  "prof_isenabled m = prof_active (prof m)"

text \<open>A sample of cpu 0, and the next one.\<close>

definition count_sample :: "u32 \<Rightarrow> prof_data \<Rightarrow> prof_data" where
  "count_sample addr p =
     (let bin = PROF_ADDR2BIN p addr in
      if bin < prof_samplenum p
      then p\<lparr>prof_sampledata := (prof_sampledata p)(bin := prof_sampledata p bin + 1)\<rparr> else p)"

definition prof_sample :: "machine \<Rightarrow> machine" where
  "prof_sample m =
     schedule_event PROFILE_NSECS 0 0 F_prof_sample
       (if prof_active (prof m) then upd_prof (count_sample (cpuprof_sample m)) m else m)"

text \<open>The search through a bin: the first entry of the arc is counted, or there is none.\<close>

fun cg_count :: "u32 \<Rightarrow> u32 \<Rightarrow> cgentry list \<Rightarrow> cgentry list option" where
  "cg_count frompc topc [] = None"
| "cg_count frompc topc (ce # ces) =
     (if gce_from ce = frompc \<and> gce_to ce = topc
      then Some (ce\<lparr>gce_count := gce_count ce + 1\<rparr> # ces)
      else map_option ((#) ce) (cg_count frompc topc ces))"

definition count_call :: "u32 \<Rightarrow> u32 \<Rightarrow> prof_data \<Rightarrow> prof_data" where
  "count_call frompc topc p =
     (let bin = PROF_ADDR2BIN p frompc; cb = prof_cg p bin in
      if \<not> prof_active p then p
      else if bin \<ge> prof_samplenum p then p
      else p\<lparr>prof_cg := (prof_cg p)(bin :=
        (case cg_count frompc topc cb of
           Some cb' \<Rightarrow> cb'
         | None \<Rightarrow> \<lparr>gce_from = frompc, gce_to = topc, gce_count = 1\<rparr> # cb))\<rparr>)"

definition prof_call :: "u32 \<Rightarrow> u32 \<Rightarrow> machine \<Rightarrow> machine" where
  "prof_call frompc topc m = upd_prof (count_call frompc topc) m"

definition prof_clear :: "machine \<Rightarrow> machine" where
  "prof_clear m =
     (if \<not> prof_on (prof m) then m
      else upd_prof (\<lambda>p. p\<lparr>
        prof_sampledata := (\<lambda>i. if i < prof_samplenum p then 0 else prof_sampledata p i),
        prof_cg := (\<lambda>i. if i < prof_samplenum p then [] else prof_cg p i)\<rparr>) m)"

section \<open>Setting up\<close>

definition prof_round :: "u32 \<Rightarrow> u32" where
  "prof_round textsize = (textsize + PROF_BINSIZE + 1) AND NOT PROF_BINSIZE"

definition prof_addtext :: "u32 \<Rightarrow> u32 \<Rightarrow> machine \<Rightarrow> machine" where
  "prof_addtext textbase textsize0 m =
     (let textsize = prof_round textsize0; textend = textbase + textsize;
          m1 = upd_prof (\<lambda>p.
            if prof_textbase p = 0 \<and> prof_textend p = 0
            then p\<lparr>prof_textbase := textbase, prof_textend := textend\<rparr>
            else p\<lparr>prof_textbase := (if textbase < prof_textbase p then textbase else prof_textbase p),
                   prof_textend := (if textend > prof_textend p then textend else prof_textend p)\<rparr>) m
      in if textsize = 0 then m
         else if prof_textend (prof m1) \<le> prof_textbase (prof m1) then smoke m1 else m1)"

definition prof_setup :: "machine \<Rightarrow> machine" where
  "prof_setup m =
     (let p = prof m;
          m1 = (if prof_textend p \<le> prof_textbase p then smoke m else m);
          m2 = upd_prof (\<lambda>p. p\<lparr>
            prof_samplenum := (prof_textend p - prof_textbase p) div PROF_BINSIZE,
            prof_sampledata := (\<lambda>_. 0), prof_cg := (\<lambda>_. []), prof_on := True, prof_active := True\<rparr>) m1
      in if prof_textbase p = 0 \<and> prof_textend p = 0 then m
         else schedule_event PROFILE_NSECS 0 0 F_prof_sample m2)"

section \<open>The file\<close>

text \<open>\<open>main/gmon.h\<close>: the headers and entries, in the byte order of the simulated machine.\<close>

definition GMON_VERSION :: u32 where "GMON_VERSION = 1"
definition GMON_RT_HISTOGRAM :: u8 where "GMON_RT_HISTOGRAM = 0"
definition GMON_RT_CALLGRAPH :: u8 where "GMON_RT_CALLGRAPH = 1"

definition gmon_word :: "u32 \<Rightarrow> u8 list" where
  "gmon_word w = host_bytes 4 (htoc32 w)"

definition gmon_half :: "u16 \<Rightarrow> u8 list" where
  "gmon_half w = host_bytes 2 (ucast (bswap16 w))"

definition gmon_file_header :: "u8 list" where
  "gmon_file_header = [0x67, 0x6d, 0x6f, 0x6e] @ gmon_word GMON_VERSION @ replicate 12 0"

definition gmon_histogram_header :: "prof_data \<Rightarrow> u8 list" where
  "gmon_histogram_header p =
     gmon_word (prof_textbase p) @ gmon_word (prof_textend p) @ gmon_word (prof_samplenum p) @
     gmon_word PROFILE_HZ @ [0x73, 0x65, 0x63, 0x6f, 0x6e, 0x64, 0x73] @ replicate 8 0 @ [0x73]"

definition gmon_callgraph_entry :: "cgentry \<Rightarrow> u8 list" where
  "gmon_callgraph_entry ce =
     GMON_RT_CALLGRAPH # gmon_word (gce_from ce) @ gmon_word (gce_to ce) @ gmon_word (gce_count ce)"

text \<open>What \<open>prof_write\<close> puts into \<open>gmon.out\<close> if the host takes it all; nothing when the profiler is
  not on.\<close>

definition prof_write :: "prof_data \<Rightarrow> u8 list" where
  "prof_write p =
     (if \<not> prof_on p then []
      else gmon_file_header @ GMON_RT_HISTOGRAM # gmon_histogram_header p @
        concat (map (\<lambda>i. gmon_half (prof_sampledata p (of_nat i))) [0..<unat (prof_samplenum p)]) @
        concat (map (\<lambda>i. concat (map gmon_callgraph_entry (prof_cg p (of_nat i))))
          [0..<unat (prof_samplenum p)]))"

section \<open>What is counted\<close>

definition arc_count :: "prof_data \<Rightarrow> u32 \<Rightarrow> u32 \<Rightarrow> u32" where
  "arc_count p frompc topc =
     (case find (\<lambda>ce. gce_from ce = frompc \<and> gce_to ce = topc) (prof_cg p (PROF_ADDR2BIN p frompc)) of
        Some ce \<Rightarrow> gce_count ce | None \<Rightarrow> 0)"

lemma cg_count_none:
  "cg_count a b ces = None \<longleftrightarrow> find (\<lambda>ce. gce_from ce = a \<and> gce_to ce = b) ces = None"
  by (induction ces) auto

lemma cg_count_find:
  "cg_count a b ces = Some ces' \<Longrightarrow>
     map_option gce_count (find (\<lambda>ce. gce_from ce = x \<and> gce_to ce = y) ces') =
     map_option (\<lambda>ce. gce_count ce + (if x = a \<and> y = b then 1 else 0))
       (find (\<lambda>ce. gce_from ce = x \<and> gce_to ce = y) ces)"
  by (induction ces arbitrary: ces') (auto split: if_splits)

lemma cg_count_found:
  "cg_count a b ces = Some ces' \<Longrightarrow> find (\<lambda>ce. gce_from ce = a \<and> gce_to ce = b) ces \<noteq> None"
  using cg_count_none [of a b ces] by simp

lemma case_count:
  "(case r of None \<Rightarrow> 0 | Some ce \<Rightarrow> gce_count ce) = (case map_option gce_count r of None \<Rightarrow> 0 | Some k \<Rightarrow> k)"
  by (cases r) simp_all

lemma arc_count_upd:
  "arc_count (p\<lparr>prof_cg := (prof_cg p)(b := l)\<rparr>) x y =
     (case find (\<lambda>ce. gce_from ce = x \<and> gce_to ce = y)
             (if PROF_ADDR2BIN p x = b then l else prof_cg p (PROF_ADDR2BIN p x)) of
        Some ce \<Rightarrow> gce_count ce | None \<Rightarrow> 0)"
  by (simp add: arc_count_def PROF_ADDR2BIN_def)

text \<open>The profiler's call graph counts calls. A call adds one to the count of its arc and nothing to
  any other, also to those that share its bin.\<close>

theorem prof_call_counts_arc:
  assumes "prof_active (prof m)" "PROF_ADDR2BIN (prof m) frompc < prof_samplenum (prof m)"
  shows "arc_count (prof (prof_call frompc topc m)) x y =
    arc_count (prof m) x y + (if x = frompc \<and> y = topc then 1 else 0)"
proof -
  define p where "p = prof m"
  define b where "b = PROF_ADDR2BIN p frompc"
  define l where "l = (case cg_count frompc topc (prof_cg p b) of Some cb' \<Rightarrow> cb'
     | None \<Rightarrow> \<lparr>gce_from = frompc, gce_to = topc, gce_count = 1\<rparr> # prof_cg p b)"
  let ?f = "\<lambda>ces. find (\<lambda>ce. gce_from ce = x \<and> gce_to ce = y) ces"
  let ?n = "\<lambda>ces. case ?f ces of Some ce \<Rightarrow> gce_count ce | None \<Rightarrow> 0"
  have "prof (prof_call frompc topc m) = p\<lparr>prof_cg := (prof_cg p)(b := l)\<rparr>"
    unfolding l_def b_def p_def using assms
    by (simp add: prof_call_def upd_prof_def count_call_def Let_def not_le)
  then have new: "arc_count (prof (prof_call frompc topc m)) x y =
      ?n (if PROF_ADDR2BIN p x = b then l else prof_cg p (PROF_ADDR2BIN p x))"
    by (simp only: arc_count_upd)
  have old: "arc_count (prof m) x y = ?n (prof_cg p (PROF_ADDR2BIN p x))"
    by (simp add: arc_count_def p_def)
  have l: "?n l = ?n (prof_cg p b) + (if x = frompc \<and> y = topc then 1 else 0)"
  proof (cases "cg_count frompc topc (prof_cg p b)")
    case None
    have "?f (prof_cg p b) = None" if "x = frompc" "y = topc"
      using None that by (simp add: cg_count_none)
    then show ?thesis by (auto simp: l_def None)
  next
    case (Some l')
    have "?f (prof_cg p b) \<noteq> None" if "x = frompc" "y = topc"
      using cg_count_found [OF Some] that by simp
    then show ?thesis
      using cg_count_find [OF Some, of x y]
      by (cases "?f (prof_cg p b)"; cases "?f l'") (auto simp: l_def Some)
  qed
  show ?thesis
  proof (cases "PROF_ADDR2BIN p x = b")
    case False
    then show ?thesis unfolding new old b_def by (auto simp: b_def)
  qed (simp add: new old l)
qed

text \<open>Rounding the size of the text does not round: when the text ends less than fifteen bytes into a
  bin of even number, that bin is not counted, and samples that fall into it are lost.\<close>

lemma and_not_bit: "bit w k \<Longrightarrow> w AND NOT (2 ^ k) = w - 2 ^ k" for w :: u32
proof -
  assume "bit w k"
  then have "NOT w AND 2 ^ k = 0" by (intro bit_word_eqI) (auto simp: bit_simps)
  from disjunctive_diff_eq_and_not [OF this] show "w AND NOT (2 ^ k) = w - 2 ^ k" by (rule sym)
qed

theorem prof_partial_bin_lost:
  assumes "0 < unat sz mod 32" "unat sz mod 32 < 15" "unat sz + 17 < 2 ^ 32"
  shows "prof_round sz div PROF_BINSIZE = sz div PROF_BINSIZE"
proof -
  obtain q r where n: "unat sz = 32 * q + r" "0 < r" "r < 15"
    using assms(1,2) that [of "unat sz div 32" "unat sz mod 32"] by simp
  have u: "unat (sz + 17) = 32 * q + r + 17" "unat (sz + 1) = 32 * q + r + 1"
    using assms(3) by (simp_all add: unat_word_ariths n)
  have "(32 * q + r + 17) div 16 = 2 * q + 1" using n(2,3) by (intro div_nat_eqI) simp_all
  then have "bit (unat (sz + 17)) 4" by (simp add: bit_iff_odd u)
  then have "bit (sz + 17) 4" by (simp add: bit_unsigned_iff)
  from and_not_bit [OF this] have r: "prof_round sz = sz + 1"
    by (simp add: prof_round_def PROF_BINSIZE_def add.assoc)
  have "(32 * q + r + 1) div 16 = 2 * q" "(32 * q + r) div 16 = 2 * q"
    using n(2,3) by (intro div_nat_eqI; simp)+
  then show ?thesis by (simp add: r word_unat_eq_iff unat_div_distrib u n PROF_BINSIZE_def)
qed

end
