(* ===== verification/Trace_Dev.thy ===== *)
theory Trace_Dev
  imports Prof Timer_Dev
begin

text \<open>
  Trace flags (\<open>main/trace.c\<close>) and the trace control card (\<open>bus/dev_trace.c\<close>), through which the
  program in the simulator switches tracing and profiling and calls the debugger. The messages
  and dumps it asks for are output and change nothing.
\<close>

section \<open>Trace flags\<close>

definition DOTRACE_KINSN :: nat where "DOTRACE_KINSN = 0"
definition DOTRACE_UINSN :: nat where "DOTRACE_UINSN = 1"
definition DOTRACE_JUMP :: nat where "DOTRACE_JUMP = 2"
definition DOTRACE_TLB :: nat where "DOTRACE_TLB = 3"
definition DOTRACE_EXN :: nat where "DOTRACE_EXN = 4"
definition DOTRACE_IRQ :: nat where "DOTRACE_IRQ = 5"
definition DOTRACE_DISK :: nat where "DOTRACE_DISK = 6"
definition DOTRACE_NET :: nat where "DOTRACE_NET = 7"
definition DOTRACE_EMUFS :: nat where "DOTRACE_EMUFS = 8"
definition NDOTRACES :: nat where "NDOTRACES = 9"

lemmas DOTRACE_defs = DOTRACE_KINSN_def DOTRACE_UINSN_def DOTRACE_JUMP_def DOTRACE_TLB_def
  DOTRACE_EXN_def DOTRACE_IRQ_def DOTRACE_DISK_def DOTRACE_NET_def DOTRACE_EMUFS_def NDOTRACES_def

text \<open>The letters and flags of \<open>flaginfo\<close>; its names and descriptions are only printed.\<close>

definition flaginfo :: "(u32 \<times> nat) list" where
  "flaginfo =
     [(0x6b, DOTRACE_KINSN), (0x75, DOTRACE_UINSN), (0x6a, DOTRACE_JUMP), (0x74, DOTRACE_TLB),
      (0x78, DOTRACE_EXN), (0x69, DOTRACE_IRQ), (0x64, DOTRACE_DISK), (0x6e, DOTRACE_NET),
      (0x65, DOTRACE_EMUFS)]"

definition cpu_set_tracing :: "bool \<Rightarrow> machine \<Rightarrow> machine" where
  "cpu_set_tracing on m = m\<lparr>tracing := on\<rparr>"

definition update_cpu_tracing :: "machine \<Rightarrow> machine" where
  "update_cpu_tracing m =
     cpu_set_tracing
       (\<exists>f \<in> set [DOTRACE_KINSN, DOTRACE_UINSN, DOTRACE_JUMP, DOTRACE_TLB, DOTRACE_EXN, DOTRACE_IRQ].
          g_traceflags m f) m"

text \<open>The flag of the result is true when the letter is one of the table.\<close>

definition set_traceflag :: "u32 \<Rightarrow> machine \<Rightarrow> machine \<times> bool" where
  "set_traceflag ch m =
     (case map_of flaginfo ch of
        Some f \<Rightarrow>
          (update_cpu_tracing (m\<lparr>g_traceflags := (g_traceflags m)(f := \<not> g_traceflags m f)\<rparr>), True)
      | None \<Rightarrow> (m, False))"

definition adjust_traceflag :: "u32 \<Rightarrow> bool \<Rightarrow> machine \<Rightarrow> machine \<times> bool" where
  "adjust_traceflag letter onoff m =
     (case map_of flaginfo letter of
        Some f \<Rightarrow> (update_cpu_tracing (m\<lparr>g_traceflags := (g_traceflags m)(f := onoff)\<rparr>), True)
      | None \<Rightarrow> (m, False))"

primrec set_traceflags :: "u32 list \<Rightarrow> machine \<Rightarrow> machine" where
  "set_traceflags [] m = m"
| "set_traceflags (ch # chs) m =
     (case set_traceflag ch m of (m1, True) \<Rightarrow> set_traceflags chs m1 | (m1, False) \<Rightarrow> die m1)"

section \<open>The card\<close>

definition TRACEREG_ON :: u32 where "TRACEREG_ON = 0"
definition TRACEREG_OFF :: u32 where "TRACEREG_OFF = 4"
definition TRACEREG_PRINT :: u32 where "TRACEREG_PRINT = 8"
definition TRACEREG_DUMP :: u32 where "TRACEREG_DUMP = 12"
definition TRACEREG_STOP :: u32 where "TRACEREG_STOP = 16"
definition TRACEREG_PROFEN :: u32 where "TRACEREG_PROFEN = 20"
definition TRACEREG_PROFCL :: u32 where "TRACEREG_PROFCL = 24"

lemmas TRACEREG_defs = TRACEREG_ON_def TRACEREG_OFF_def TRACEREG_PRINT_def TRACEREG_DUMP_def
  TRACEREG_STOP_def TRACEREG_PROFEN_def TRACEREG_PROFCL_def

definition main_note_debugrequest :: "machine \<Rightarrow> machine" where
  "main_note_debugrequest m = m\<lparr>got_debugrequest := True\<rparr>"

definition trace_init :: "string list \<Rightarrow> machine \<Rightarrow> machine" where
  "trace_init args m = (if args \<noteq> [] then die m else m)"

definition trace_fetch :: "u32 \<Rightarrow> machine \<Rightarrow> machine \<times> fetched" where
  "trace_fetch offset m =
     (m, if offset = TRACEREG_PROFEN then Fetched (if prof_isenabled m then 1 else 0) else Bus_error)"

definition trace_adjust :: "u32 \<Rightarrow> bool \<Rightarrow> machine \<Rightarrow> machine" where
  "trace_adjust val onoff m =
     (case adjust_traceflag val onoff m of (m1, True) \<Rightarrow> m1 | (m1, False) \<Rightarrow> hang m1)"

definition trace_store :: "u32 \<Rightarrow> u32 \<Rightarrow> machine \<Rightarrow> machine \<times> bool" where
  "trace_store offset val m =
     (if offset = TRACEREG_ON then (trace_adjust val True m, True)
      else if offset = TRACEREG_OFF then (trace_adjust val False m, True)
      else if offset = TRACEREG_PRINT then (m, True)
      else if offset = TRACEREG_DUMP then (m, True)
      else if offset = TRACEREG_STOP then
        (main_enter_debugger False (cpu_stopcycling (main_note_debugrequest m)), True)
      else if offset = TRACEREG_PROFEN then (if val \<noteq> 0 then prof_enable m else prof_disable m, True)
      else if offset = TRACEREG_PROFCL then (prof_clear m, True)
      else (m, False))"

end
