(* ===== verification/Lamebus.thy ===== *)
theory Lamebus
  imports Net_Dev Emufs_Dev Trace_Dev
begin

text \<open>
  The bus (\<open>bus/lamebus.c\<close>, \<open>bus/busdefs.h\<close>, \<open>bus/busids.h\<close>): the controller's registers, the
  per-cpu registers and scratch memory, enabling cpus, poweroff, and the dispatch of loads and
  stores of mapped I/O to the device in the addressed slot.
\<close>

section \<open>Layout\<close>

definition LAMEBUS_NSLOTS :: u32 where "LAMEBUS_NSLOTS = 32"
definition LAMEBUS_CONTROLLER_SLOT :: u32 where "LAMEBUS_CONTROLLER_SLOT = 31"
definition LAMEBUS_SLOT_MEM :: u32 where "LAMEBUS_SLOT_MEM = 0x10000"
definition LAMEBUS_CONFIG_SIZE :: u32 where "LAMEBUS_CONFIG_SIZE = 1024"
definition LAMEBUS_PERCPU_SIZE :: u32 where "LAMEBUS_PERCPU_SIZE = 1024"
definition LAMEBUS_CRAM_SIZE :: u32 where "LAMEBUS_CRAM_SIZE = 128"
definition LBC_CONFIG_VENDORID :: u32 where "LBC_CONFIG_VENDORID = 0x0"
definition LBC_CONFIG_DEVICEID :: u32 where "LBC_CONFIG_DEVICEID = 0x4"
definition LBC_CONFIG_REVISION :: u32 where "LBC_CONFIG_REVISION = 0x8"
definition LBC_CTL_RAMSIZE :: u32 where "LBC_CTL_RAMSIZE = 0x200"
definition LBC_CTL_IRQS :: u32 where "LBC_CTL_IRQS = 0x204"
definition LBC_CTL_POWER :: u32 where "LBC_CTL_POWER = 0x208"
definition LBC_CTL_IRQE :: u32 where "LBC_CTL_IRQE = 0x20c"
definition LBC_CTL_CPUS :: u32 where "LBC_CTL_CPUS = 0x210"
definition LBC_CTL_CPUE :: u32 where "LBC_CTL_CPUE = 0x214"
definition LBC_CTL_SELF :: u32 where "LBC_CTL_SELF = 0x218"
definition LBC_CPU_CIRQE :: u32 where "LBC_CPU_CIRQE = 0x0"
definition LBC_CPU_CIPI :: u32 where "LBC_CPU_CIPI = 0x4"
definition LBC_CRAM_START :: u32 where "LBC_CRAM_START = 0x300"
definition LBC_CRAM_END :: u32 where "LBC_CRAM_END = 0x400"
definition POWEROFF_NSECS :: u64 where "POWEROFF_NSECS = 5000000"

lemmas LB_defs =
  LAMEBUS_NSLOTS_def LAMEBUS_CONTROLLER_SLOT_def LAMEBUS_SLOT_MEM_def LAMEBUS_CONFIG_SIZE_def
  LAMEBUS_PERCPU_SIZE_def LAMEBUS_CRAM_SIZE_def LBC_CONFIG_VENDORID_def LBC_CONFIG_DEVICEID_def
  LBC_CONFIG_REVISION_def LBC_CTL_RAMSIZE_def LBC_CTL_IRQS_def LBC_CTL_POWER_def LBC_CTL_IRQE_def
  LBC_CTL_CPUS_def LBC_CTL_CPUE_def LBC_CTL_SELF_def LBC_CPU_CIRQE_def LBC_CPU_CIPI_def
  LBC_CRAM_START_def LBC_CRAM_END_def

text \<open>\<open>ldi_vendorid\<close>, \<open>ldi_deviceid\<close> and \<open>ldi_revision\<close> of the devices.\<close>

definition ldi_vendorid :: "device \<Rightarrow> u32" where
  "ldi_vendorid d = 1"

definition ldi_deviceid :: "device \<Rightarrow> u32" where
  "ldi_deviceid d =
     (case d of Mainboard isold \<Rightarrow> (if isold then 1 else 10) | Timer _ \<Rightarrow> 2 | Disk _ \<Rightarrow> 3
      | Serial _ \<Rightarrow> 4 | Net _ \<Rightarrow> 6 | Emufs _ \<Rightarrow> 7 | Trace \<Rightarrow> 8 | Random \<Rightarrow> 9)"

definition ldi_revision :: "device \<Rightarrow> u32" where
  "ldi_revision d =
     (case d of Mainboard isold \<Rightarrow> (if isold then 2 else 1) | Timer _ \<Rightarrow> 1 | Disk _ \<Rightarrow> 2
      | Serial _ \<Rightarrow> 1 | Net _ \<Rightarrow> 1 | Emufs _ \<Rightarrow> 1 | Trace \<Rightarrow> 3 | Random \<Rightarrow> 1)"

section \<open>Poweroff and enabling cpus\<close>

definition dopoweroff :: "machine \<Rightarrow> machine" where
  "dopoweroff m = main_poweroff (raise_irq (unat LAMEBUS_CONTROLLER_SLOT) m)"

definition get_cpue :: "machine \<Rightarrow> u32" where
  "get_cpue m =
     fold (\<lambda>i ret. if cpu_enabled_flag (lb_cpus m i) then ret OR push_bit i 1 else ret) [0..<ncpus m] 0"

text \<open>One iteration of the loop in \<open>set_cpue\<close>.\<close>

definition set_cpue_one :: "u32 \<Rightarrow> nat \<Rightarrow> machine \<Rightarrow> machine" where
  "set_cpue_one val i m =
     (let thisbit = val AND push_bit i 1; cpu = lb_cpus m i in
      if cpu_enabled_flag cpu \<and> thisbit = 0 then
        cpu_disable i (upd_lbcpu i (\<lambda>c. c\<lparr>cpu_enabled_flag := False\<rparr>) m)
      else if \<not> cpu_enabled_flag cpu \<and> thisbit \<noteq> 0 then
        let cramoffset = LAMEBUS_SLOT_MEM * LAMEBUS_CONTROLLER_SLOT + 32768
              + of_nat i * LAMEBUS_PERCPU_SIZE + LBC_CRAM_END;
            stackva = cpu_get_secondary_start_stack cramoffset;
            pcva = ctoh32 (host_load32 (cpu_cram cpu) 0);
            arg = ctoh32 (host_load32 (cpu_cram cpu) 4)
        in cpu_enable i (cpu_set_stack i stackva arg (cpu_set_entrypoint i pcva m))
      else m)"

definition set_cpue :: "u32 \<Rightarrow> machine \<Rightarrow> machine" where
  "set_cpue val m = fold (set_cpue_one val) [0..<ncpus m] m"

section \<open>The controller's registers\<close>

definition lamebus_controller_region :: "u32 \<Rightarrow> machine \<Rightarrow> machine \<times> u32 \<times> u32" where
  "lamebus_controller_region offset m =
     (let region = offset div LAMEBUS_CONFIG_SIZE; regionoffset = offset mod LAMEBUS_CONFIG_SIZE
      in (if region < LAMEBUS_NSLOTS then m else smoke m, region, regionoffset))"

text \<open>A word of the scratch memory that reaches past its end is outside the allocation.\<close>

definition cram_inside :: "u32 \<Rightarrow> bool" where
  "cram_inside off \<longleftrightarrow> off + 4 \<le> LAMEBUS_CRAM_SIZE"

definition lamebus_controller_fetch_cpu :: "u32 \<Rightarrow> machine \<Rightarrow> machine \<times> fetched" where
  "lamebus_controller_fetch_cpu offset0 m0 =
     (let (m, region, offset) = lamebus_controller_region offset0 m0 in
      if region \<ge> of_nat (ncpus m) then (m, Bus_error)
      else
        let cpu = lb_cpus m (unat region) in
        if offset \<ge> LBC_CRAM_START \<and> offset < LBC_CRAM_END then
          let off = offset - LBC_CRAM_START
          in if cram_inside off then (m, Fetched (ctoh32 (host_load32 (cpu_cram cpu) off)))
             else (raise_fault Undefined m, Not_written)
        else if offset = LBC_CPU_CIRQE then (m, Fetched (cpu_enabled_interrupts cpu))
        else if offset = LBC_CPU_CIPI then (m, Fetched (if cpu_ipi cpu then 0xffffffff else 0))
        else (m, Bus_error))"

definition lamebus_controller_store_cpu :: "u32 \<Rightarrow> u32 \<Rightarrow> machine \<Rightarrow> machine \<times> bool" where
  "lamebus_controller_store_cpu offset0 val m0 =
     (let (m, region, offset) = lamebus_controller_region offset0 m0 in
      if region \<ge> of_nat (ncpus m) then (m, False)
      else
        let i = unat region in
        if offset \<ge> LBC_CRAM_START \<and> offset < LBC_CRAM_END then
          let off = offset - LBC_CRAM_START
          in if cram_inside off then
               (upd_lbcpu i (\<lambda>c. c\<lparr>cpu_cram := host_store32 (cpu_cram c) off (htoc32 val)\<rparr>) m, True)
             else (raise_fault Undefined m, True)
        else if offset = LBC_CPU_CIRQE then
          (irqupdate (upd_lbcpu i (\<lambda>c. c\<lparr>cpu_enabled_interrupts := val\<rparr>) m), True)
        else if offset = LBC_CPU_CIPI then
          let m1 = upd_lbcpu i (\<lambda>c. c\<lparr>cpu_ipi := val \<noteq> 0\<rparr>) m
          in (cpu_set_irqs i (cpu_interrupting (lb_cpus m1 i)) (cpu_ipi (lb_cpus m1 i)) m1, True)
        else (m, False))"

definition lamebus_controller_fetch_config ::
  "nat \<Rightarrow> bool \<Rightarrow> u32 \<Rightarrow> machine \<Rightarrow> machine \<times> fetched" where
  "lamebus_controller_fetch_config cn isold offset0 m0 =
     (let (m, region, offset) = lamebus_controller_region offset0 m0;
          inf = devices m (unat region)
      in
      if offset = LBC_CONFIG_VENDORID then
        (m, Fetched (case inf of None \<Rightarrow> 0 | Some d \<Rightarrow> ldi_vendorid d))
      else if offset = LBC_CONFIG_DEVICEID then
        (m, Fetched (case inf of None \<Rightarrow> 0 | Some d \<Rightarrow> ldi_deviceid d))
      else if offset = LBC_CONFIG_REVISION then
        (m, Fetched (case inf of None \<Rightarrow> 0 | Some d \<Rightarrow> ldi_revision d))
      else if region \<noteq> LAMEBUS_CONTROLLER_SLOT then (m, Bus_error)
      else if offset = LBC_CTL_RAMSIZE then (m, Fetched (bus_ramsize m))
      else if offset = LBC_CTL_IRQS then (m, Fetched (bus_raised_interrupts m))
      else if offset = LBC_CTL_POWER then
        (if isold then (hang m, Fetched 0) else (m, Fetched 0xffffffff))
      else if offset = LBC_CTL_IRQE then (m, Fetched (bus_enabled_interrupts m))
      else if offset = LBC_CTL_CPUS then
        (if isold then (m, Bus_error)
         else (m, Fetched (if ncpus m = 32 then 0xffffffff else push_bit (ncpus m) 1 - 1)))
      else if offset = LBC_CTL_CPUE then
        (if isold then (m, Bus_error) else (m, Fetched (get_cpue m)))
      else if offset = LBC_CTL_SELF then
        (if isold then (m, Bus_error) else (m, Fetched (push_bit cn 1)))
      else (m, Bus_error))"

definition lamebus_controller_store_config ::
  "bool \<Rightarrow> u32 \<Rightarrow> u32 \<Rightarrow> machine \<Rightarrow> machine \<times> bool" where
  "lamebus_controller_store_config isold offset0 val m0 =
     (let (m, region, offset) = lamebus_controller_region offset0 m0 in
      if region \<noteq> LAMEBUS_CONTROLLER_SLOT then (m, False)
      else if offset = LBC_CTL_POWER then
        (if val = 0 then schedule_event POWEROFF_NSECS 0 0 F_dopoweroff m
         else if \<not> isold then (if val AND 0x80000000 = 0 then hang m else m)
         else m, True)
      else if offset = LBC_CTL_IRQE then (irqupdate (m\<lparr>bus_enabled_interrupts := val\<rparr>), True)
      else if offset = LBC_CTL_CPUE then
        (if isold then (m, False) else (set_cpue val m, True))
      else (m, False))"

definition lamebus_controller_fetch ::
  "nat \<Rightarrow> bool \<Rightarrow> u32 \<Rightarrow> machine \<Rightarrow> machine \<times> fetched" where
  "lamebus_controller_fetch cn isold offset m =
     (if offset \<ge> 32768 then
        (if isold then (m, Bus_error) else lamebus_controller_fetch_cpu (offset - 32768) m)
      else lamebus_controller_fetch_config cn isold offset m)"

definition lamebus_controller_store :: "bool \<Rightarrow> u32 \<Rightarrow> u32 \<Rightarrow> machine \<Rightarrow> machine \<times> bool" where
  "lamebus_controller_store isold offset val m =
     (if offset \<ge> 32768 then
        (if isold then (m, False) else lamebus_controller_store_cpu (offset - 32768) val m)
      else lamebus_controller_store_config isold offset val m)"

section \<open>Mapped I/O\<close>

definition bus_io_fetch :: "nat \<Rightarrow> u32 \<Rightarrow> machine \<Rightarrow> machine \<times> fetched" where
  "bus_io_fetch cn offset m =
     (let slot = offset div LAMEBUS_SLOT_MEM; slotoffset = offset mod LAMEBUS_SLOT_MEM in
      if slot \<ge> LAMEBUS_NSLOTS then (m, Bus_error)
      else if offset AND 3 \<noteq> 0 then (smoke m, Not_written)
      else case devices m (unat slot) of
             None \<Rightarrow> (m, Bus_error)
           | Some (Mainboard isold) \<Rightarrow> lamebus_controller_fetch cn isold slotoffset m
           | Some (Timer td) \<Rightarrow> timer_fetch (unat slot) slotoffset m
           | Some (Serial sd) \<Rightarrow> serial_fetch (unat slot) slotoffset m
           | Some Random \<Rightarrow> rand_fetch slotoffset m
           | Some (Disk dd) \<Rightarrow> disk_fetch (unat slot) slotoffset m
           | Some (Net nd) \<Rightarrow> net_fetch (unat slot) slotoffset m
           | Some (Emufs ed) \<Rightarrow> emufs_fetch (unat slot) slotoffset m
           | Some Trace \<Rightarrow> trace_fetch slotoffset m)"

definition bus_io_store :: "nat \<Rightarrow> u32 \<Rightarrow> u32 \<Rightarrow> machine \<Rightarrow> machine \<times> bool" where
  "bus_io_store cn offset val m =
     (let slot = offset div LAMEBUS_SLOT_MEM; slotoffset = offset mod LAMEBUS_SLOT_MEM in
      if slot \<ge> LAMEBUS_NSLOTS then (m, False)
      else if offset AND 3 \<noteq> 0 then (smoke m, True)
      else case devices m (unat slot) of
             None \<Rightarrow> (m, False)
           | Some (Mainboard isold) \<Rightarrow> lamebus_controller_store isold slotoffset val m
           | Some (Timer td) \<Rightarrow> timer_store (unat slot) slotoffset val m
           | Some (Serial sd) \<Rightarrow> serial_store (unat slot) slotoffset val m
           | Some Random \<Rightarrow> rand_store slotoffset val m
           | Some (Disk dd) \<Rightarrow> disk_store (unat slot) slotoffset val m
           | Some (Net nd) \<Rightarrow> net_store (unat slot) slotoffset val m
           | Some (Emufs ed) \<Rightarrow> emufs_store (unat slot) slotoffset val m
           | Some Trace \<Rightarrow> trace_store slotoffset val m)"

section \<open>Lemmas\<close>

lemma fold_set_bits:
  "n \<le> 32 \<Longrightarrow> bit (fold (\<lambda>i ret. if P i then ret OR push_bit i 1 else ret) [0..<n] (0::u32)) j \<longleftrightarrow>
    j < n \<and> P j"
  by (induction n) (auto simp: less_Suc_eq)

lemma bit_get_cpue: "ncpus m \<le> 32 \<Longrightarrow> bit (get_cpue m) j \<longleftrightarrow> j < ncpus m \<and> cpu_enabled_flag (lb_cpus m j)"
  unfolding get_cpue_def by (rule fold_set_bits)

text \<open>Setting the entry point looks two addresses up and changes nothing of the bus.\<close>

lemma cpu_set_entrypoint_frame:
  "lb_cpus (cpu_set_entrypoint n a m) = lb_cpus m \<and> ncpus (cpu_set_entrypoint n a m) = ncpus m \<and>
   cpus_same m (cpu_set_entrypoint n a m)"
proof -
  define R where "R x y \<longleftrightarrow> lb_cpus y = lb_cpus x \<and> ncpus y = ncpus x \<and> cpus_same x y" for x y
  have trans: "R a b \<Longrightarrow> R b c \<Longrightarrow> R a c" for a b c by (auto simp: R_def intro: cpus_same_trans)
  have pre: "R x (fst (precompute_pc n x))" "R x (fst (precompute_nextpc n x))" for x
    using exn_frame_sels [OF exn_frames(3)] exn_frame_sels [OF exn_frames(4)]
      cpus_same_exn(3) cpus_same_exn(4) by (simp_all add: R_def)
  have h: "R x (hang x)" "R x x" for x by (simp_all add: R_def)
  have e: "R x (upd_cpu n (entry_regs b) x)" for x b
    by (simp add: R_def cpus_same_upd_cpu entry_regs_def)
  have "R m (cpu_set_entrypoint n a m)"
  proof (cases "n < ncpus m")
    case True
    let ?bad = "a AND 3 \<noteq> 0"
    let ?m2 = "upd_cpu n (entry_regs (if ?bad then a AND 0xfffffffc else a)) (if ?bad then hang m else m)"
    obtain m3 ok3 where p3: "precompute_pc n ?m2 = (m3, ok3)" by fastforce
    let ?m3 = "if ok3 then m3 else hang m3"
    obtain m4 ok4 where p4: "precompute_nextpc n ?m3 = (m4, ok4)" by fastforce
    have "R m ?m2" using trans [OF h(1) e] trans [OF h(2) e] by simp
    moreover have "R ?m2 m3" using pre(1) [of ?m2] by (simp only: p3 fst_conv)
    moreover have "R m3 ?m3" using h by simp
    moreover have "R ?m3 m4" using pre(2) [of ?m3] by (simp only: p4 fst_conv)
    moreover have "R m4 (if ok4 then m4 else hang m4)" using h by simp
    ultimately have "R m (if ok4 then m4 else hang m4)" using trans by blast
    moreover have "cpu_set_entrypoint n a m = (if ok4 then m4 else hang m4)"
      using True by (simp only: cpu_set_entrypoint_def Let_def p3 p4 prod.case not_not if_True simp_thms if_False)
    ultimately show ?thesis by simp
  next
    case False
    then show ?thesis by (simp add: cpu_set_entrypoint_def R_def smoke_def raise_fault_def cpus_same_def)
  qed
  then show ?thesis by (simp add: R_def)
qed

lemma cpu_enable_frame [simp]:
  "lb_cpus (cpu_enable n m) = lb_cpus m" "ncpus (cpu_enable n m) = ncpus m"
  "lb_cpus (cpu_disable n m) = lb_cpus m" "ncpus (cpu_disable n m) = ncpus m"
  "lb_cpus (cpu_set_stack n s a m) = lb_cpus m" "ncpus (cpu_set_stack n s a m) = ncpus m"
  by (simp_all add: cpu_enable_def cpu_disable_def cpu_set_stack_def smoke_def raise_fault_def)

lemma set_cpue_one_flag:
  "cpu_enabled_flag (lb_cpus (set_cpue_one val i m) j) \<longleftrightarrow>
    cpu_enabled_flag (lb_cpus m j) \<and> (j = i \<longrightarrow> val AND push_bit i 1 \<noteq> 0)"
  "ncpus (set_cpue_one val i m) = ncpus m"
  by (auto simp: set_cpue_one_def Let_def cpu_set_entrypoint_frame)

lemma fold_set_cpue_flag:
  "cpu_enabled_flag (lb_cpus (fold (set_cpue_one val) [0..<n] m) j) \<longleftrightarrow>
    cpu_enabled_flag (lb_cpus m j) \<and> (j < n \<longrightarrow> val AND push_bit j 1 \<noteq> 0)"
  "ncpus (fold (set_cpue_one val) [0..<n] m) = ncpus m"
  by (induction n) (auto simp: set_cpue_one_flag less_Suc_eq)

lemma cpus_ok_set_stack: "cpus_ok m \<Longrightarrow> cpus_ok (cpu_set_stack n s a m)"
  by (simp add: cpu_set_stack_def cpus_same_ok [OF cpus_same_smoke] cpus_same_ok [OF cpus_same_upd_cpu])

lemma cpus_ok_upd_lbcpu [simp]: "cpus_ok (upd_lbcpu i f m) = cpus_ok m"
  by (simp add: cpus_ok_def)

lemma cpus_ok_set_entrypoint: "cpus_ok (cpu_set_entrypoint n a m) = cpus_ok m"
  by (rule cpus_same_ok) (simp add: cpu_set_entrypoint_frame)

lemma cpus_ok_set_cpue_one: "cpus_ok m \<Longrightarrow> cpus_ok (set_cpue_one val i m)"
  by (auto simp: set_cpue_one_def Let_def cpus_ok_set_entrypoint
      intro!: cpus_ok_enable cpus_ok_disable cpus_ok_set_stack)

text \<open>Writing the register that enables cpus can turn bits of it off but never on: a cpu that
  was started through it reads back as disabled.\<close>

theorem set_cpue_never_sets:
  assumes "ncpus m \<le> 32" "j < ncpus m"
  shows "bit (get_cpue (set_cpue val m)) j \<longleftrightarrow> bit (get_cpue m) j \<and> bit val j"
  using assms fold_set_cpue_flag(1) [of val "ncpus m" m j] fold_set_cpue_flag(2) [where val = val and n = "ncpus m" and m = m]
  by (auto simp: set_cpue_def bit_get_cpue)

text \<open>Writing it keeps the running mask right, whatever cpus it starts and stops.\<close>

theorem set_cpue_cpus_ok:
  assumes "cpus_ok m"
  shows "cpus_ok (set_cpue val m)"
proof -
  have "cpus_ok (fold (set_cpue_one val) xs m)" for xs
    using assms by (induction xs arbitrary: m) (simp_all add: cpus_ok_set_cpue_one)
  then show ?thesis by (simp add: set_cpue_def)
qed

end
