(* ===== verification/Card_Events.thy ===== *)
theory Card_Events
  imports Disk_Dev Host
begin

text \<open>
  What the network card and the emulator file system share: counting the timed events of one kind a
  card has in the queue, and which operations of the machine leave a card alone.
\<close>

definition events_of :: "ta_func \<Rightarrow> nat \<Rightarrow> machine \<Rightarrow> nat" where
  "events_of f slot m = length (filter (\<lambda>e. ta_call e = f \<and> ta_data e = slot) (event_queue m))"

lemma events_of_mset:
  "events_of f slot m =
     size (filter_mset (\<lambda>e. ta_call e = f \<and> ta_data e = slot) (image_mset unmarked (mset (event_queue m))))"
proof -
  let ?P = "\<lambda>e. ta_call e = f \<and> ta_data e = slot"
  have "size (filter_mset ?P (image_mset unmarked (mset q))) = length (filter ?P q)" for q
    by (induction q) auto
  then show ?thesis by (simp add: events_of_def)
qed

lemma events_of_queue: "event_queue m' = event_queue m \<Longrightarrow> events_of f slot m' = events_of f slot m"
  by (simp add: events_of_def)

lemma events_of_schedule:
  assumes "0 < ta_free m"
  shows "events_of f slot (schedule_event d s k g m) =
    events_of f slot m + (if s = slot \<and> f = g then 1 else 0)"
  using schedule_event_eq [OF assms, of d s k g] by (auto simp: events_of_mset event_insert_mset_size)

lemma event_queue_hang [simp]: "event_queue (hang m) = event_queue m" "ta_free (hang m) = ta_free m"
  by (simp_all add: hang_def main_enter_debugger_def cpu_stopcycling_def)

lemma devices_fault [simp]: "devices (raise_fault f m) = devices m" "devices (smoke m) = devices m"
  "devices (die m) = devices m"
  by (simp_all add: raise_fault_def smoke_def die_def split: option.split)

lemma check_irq_raised:
  "bus_raised_interrupts m' = bus_raised_interrupts m \<Longrightarrow> check_irq s m' = check_irq s m"
  by (simp add: check_irq_def)

end
