(* ===== verification/C_Text.thy ===== *)
theory C_Text
  imports Prelude "HOL-Library.Char_ord"
begin

text \<open>
  Text as the debugger's stub, the configuration, the meter and the tools read and print it: characters,
  \<open>printf\<close> of numbers, \<open>strtol\<close> and its kin, \<open>strtok\<close>, and the sizes with a unit that \<open>getsize\<close>
  (\<open>main/util.c\<close>, and word for word \<open>disk161.c\<close>) accepts.
\<close>

section \<open>Characters and numbers\<close>

definition NUL :: char where "NUL = CHR 0x00"

text \<open>\<open>char\<close> is signed.\<close>

definition cchar :: "char \<Rightarrow> int" where
  "cchar c = (let n = (of_char c :: int) in if n \<ge> 128 then n - 256 else n)"

definition c_string :: "string \<Rightarrow> string" where
  "c_string s = takeWhile (\<lambda>c. c \<noteq> NUL) s"

definition hex_value :: "char \<Rightarrow> nat option" where
  "hex_value c =
     (let n = (of_char c :: nat) in
      if 48 \<le> n \<and> n \<le> 57 then Some (n - 48)
      else if 97 \<le> n \<and> n \<le> 102 then Some (n - 87)
      else if 65 \<le> n \<and> n \<le> 70 then Some (n - 55)
      else None)"

definition is_hex :: "char \<Rightarrow> bool" where
  "is_hex c \<longleftrightarrow> hex_value c \<noteq> None"

definition is_space :: "char \<Rightarrow> bool" where
  "is_space c \<longleftrightarrow> (let n = (of_char c :: nat) in n = 32 \<or> 9 \<le> n \<and> n \<le> 13)"

definition hex_number :: "string \<Rightarrow> nat" where
  "hex_number s = fold (\<lambda>c n. 16 * n + the (hex_value c)) s 0"

definition skip_prefix :: "string \<Rightarrow> string" where
  "skip_prefix s =
     (case s of
        a # x # c # r \<Rightarrow>
          if a = CHR ''0'' \<and> (x = CHR ''x'' \<or> x = CHR ''X'') \<and> is_hex c then c # r else s
      | _ \<Rightarrow> s)"

text \<open>The C library's \<open>strtoul\<close> with base 16: the value and where it stopped.\<close>

definition strtoul16 :: "string \<Rightarrow> u64 \<times> string" where
  "strtoul16 s =
     (let s1 = dropWhile is_space s;
          neg = (s1 \<noteq> [] \<and> hd s1 = CHR ''-'');
          s2 = (if s1 \<noteq> [] \<and> (hd s1 = CHR ''-'' \<or> hd s1 = CHR ''+'') then tl s1 else s1);
          s3 = skip_prefix s2;
          digits = takeWhile is_hex s3;
          n = hex_number digits
      in if digits = [] then (0, s)
         else (if n \<ge> 2 ^ 64 then - 1 else if neg then - of_nat n else of_nat n, dropWhile is_hex s3))"

definition hex_digit :: "nat \<Rightarrow> char" where
  "hex_digit n = (if n < 10 then char_of (48 + n) else char_of (87 + n))"

text \<open>\<open>%x\<close> and \<open>%u\<close>\<close>

fun hex_string :: "nat \<Rightarrow> string" where
  "hex_string n = (if n < 16 then [hex_digit n] else hex_string (n div 16) @ [hex_digit (n mod 16)])"

fun dec_string :: "nat \<Rightarrow> string" where
  "dec_string n = (if n < 10 then [hex_digit n] else dec_string (n div 10) @ [hex_digit (n mod 10)])"

definition hex_pad :: "nat \<Rightarrow> nat \<Rightarrow> string" where
  "hex_pad w n = replicate (w - length (hex_string n)) (CHR ''0'') @ hex_string n"

section \<open>Numbers\<close>

definition digit_value :: "char \<Rightarrow> nat" where
  "digit_value c =
     (let n = (of_char c :: nat) in
      if 48 \<le> n \<and> n \<le> 57 then n - 48
      else if 97 \<le> n \<and> n \<le> 122 then n - 87
      else if 65 \<le> n \<and> n \<le> 90 then n - 55
      else 36)"

text \<open>The base that a number names itself, and what follows the prefix.\<close>

definition number_base :: "string \<Rightarrow> nat \<times> string" where
  "number_base s =
     (if skip_prefix s \<noteq> s then (16, skip_prefix s)
      else if s \<noteq> [] \<and> hd s = CHR ''0'' then (8, s)
      else (10, s))"

definition digits_number :: "nat \<Rightarrow> string \<Rightarrow> nat" where
  "digits_number base ds = foldl (\<lambda>n c. base * n + digit_value c) 0 ds"

text \<open>The sign, the magnitude and where the number ends; base 0 leaves the base to the number.\<close>

definition c_number :: "nat \<Rightarrow> string \<Rightarrow> bool \<times> nat \<times> string" where
  "c_number base s =
     (let s1 = dropWhile is_space s;
          neg = (s1 \<noteq> [] \<and> hd s1 = CHR ''-'');
          s2 = (if s1 \<noteq> [] \<and> (hd s1 = CHR ''-'' \<or> hd s1 = CHR ''+'') then tl s1 else s1);
          (b, s3) = (if base = 0 then number_base s2 else (base, s2));
          ds = takeWhile (\<lambda>c. digit_value c < b) s3
      in if ds = [] then (False, 0, s)
         else (neg, digits_number b ds, dropWhile (\<lambda>c. digit_value c < b) s3))"

text \<open>\<open>strtol\<close> and \<open>strtoll\<close> with 64 bits, and \<open>strtoul\<close>; the flag is \<open>errno\<close> being \<open>ERANGE\<close>.\<close>

definition strtoll :: "nat \<Rightarrow> string \<Rightarrow> int \<times> string \<times> bool" where
  "strtoll base s =
     (let (neg, n, rest) = c_number base s; v = (if neg then - int n else int n) in
      if v < - (2 ^ 63) then (- (2 ^ 63), rest, True)
      else if v \<ge> 2 ^ 63 then (2 ^ 63 - 1, rest, True)
      else (v, rest, False))"

definition strtoul :: "nat \<Rightarrow> string \<Rightarrow> u64 \<times> string \<times> bool" where
  "strtoul base s =
     (let (neg, n, rest) = c_number base s in
      if int n \<ge> 2 ^ 64 then (- 1, rest, True)
      else (if neg then - of_nat n else of_nat n, rest, False))"

text \<open>\<open>atoi\<close> of the host's library, a \<open>strtol\<close> cut to an \<open>int\<close>.\<close>

definition c_atoi :: "string \<Rightarrow> int" where
  "c_atoi s = sint (word_of_int (fst (strtoll 10 s)) :: u32)"

section \<open>Words and options\<close>

text \<open>What \<open>strtok\<close> finds, one call after the other.\<close>

function strtok_words :: "char set \<Rightarrow> string \<Rightarrow> string list" where
  "strtok_words delim s =
     (let s1 = dropWhile (\<lambda>c. c \<in> delim) s in
      if s1 = [] then []
      else takeWhile (\<lambda>c. c \<notin> delim) s1 # strtok_words delim (dropWhile (\<lambda>c. c \<notin> delim) s1))"
  by pat_completeness auto
termination
proof (relation "measure (\<lambda>(d, s). length s)", simp)
  fix delim :: "char set" and s s1 :: string
  assume s1: "s1 = dropWhile (\<lambda>c. c \<in> delim) s" "s1 \<noteq> []"
  then have "hd s1 \<notin> delim" using hd_dropWhile [of "\<lambda>c. c \<in> delim" s] by simp
  with s1(2) have "length (dropWhile (\<lambda>c. c \<notin> delim) s1) < length s1"
    by (cases s1) (simp_all add: le_imp_less_Suc length_dropWhile_le)
  moreover have "length s1 \<le> length s" unfolding s1(1) by (rule length_dropWhile_le)
  ultimately show "((delim, dropWhile (\<lambda>c. c \<notin> delim) s1), (delim, s)) \<in> measure (\<lambda>(d, s). length s)"
    by simp
qed

declare strtok_words.simps [simp del]

text \<open>What follows \<open>name=\<close> in an option.\<close>

definition option_value :: "string \<Rightarrow> string \<Rightarrow> string option" where
  "option_value name arg =
     (if take (length name) arg = name then Some (drop (length name) arg) else None)"

text \<open>\<open>" \t\r\n"\<close>\<close>

definition blanks :: "char set" where
  "blanks = {CHR '' '', CHR 0x09, CHR 0x0d, CHR 0x0a}"

section \<open>Sizes\<close>

text \<open>A size that cannot be read ends the program; one that leaves the 64 bits of \<open>off_t\<close> has no value
  in C.\<close>

datatype size_fail = Bad_number | Bad_suffix | Size_overflow

definition size_unit :: "string \<Rightarrow> int option" where
  "size_unit suffix =
     (if suffix = [] \<or> suffix = ''b'' then Some 1
      else if suffix = ''s'' then Some 512
      else if suffix = ''k'' \<or> suffix = ''K'' then Some 1024
      else if suffix = ''m'' \<or> suffix = ''M'' then Some (1024 * 1024)
      else if suffix = ''g'' \<or> suffix = ''G'' then Some (1024 * 1024 * 1024)
      else None)"

definition getsize :: "string \<Rightarrow> size_fail + int" where
  "getsize str =
     (let (v, suffix, erange) = strtoll 0 str in
      if erange then Inl Bad_number
      else case size_unit suffix of
        None \<Rightarrow> Inl Bad_suffix
      | Some u \<Rightarrow> if - (2 ^ 63) \<le> v * u \<and> v * u < 2 ^ 63 then Inr (v * u) else Inl Size_overflow)"

section \<open>Reading what was printed\<close>

lemma digit_value_digit: "n < 10 \<Longrightarrow> digit_value (hex_digit n) = n"
  by (simp add: digit_value_def hex_digit_def Let_def)

lemma decimal_digits:
  "hex_digit 0 = CHR ''0''" "hex_digit (Suc 0) = CHR ''1''" "hex_digit 1 = CHR ''1''" "hex_digit 2 = CHR ''2''" "hex_digit 3 = CHR ''3''"
  "hex_digit 4 = CHR ''4''" "hex_digit 5 = CHR ''5''" "hex_digit 6 = CHR ''6''" "hex_digit 7 = CHR ''7''"
  "hex_digit 8 = CHR ''8''" "hex_digit 9 = CHR ''9''"
  by code_simp+

lemma digit_not_space: "n < 10 \<Longrightarrow> \<not> is_space (hex_digit n)"
  by (simp add: is_space_def hex_digit_def Let_def)

declare dec_string.simps [simp del]

lemma dec_string_digits: "\<forall>c \<in> set (dec_string n). \<exists>d<10. c = hex_digit d"
proof (induction n rule: dec_string.induct)
  case (1 n)
  then show ?case
    by (subst dec_string.simps) (auto intro: exI [of _ "n mod 10"])
qed

lemma dec_string_not_Nil: "dec_string n \<noteq> []"
  by (subst dec_string.simps) simp

lemma dec_string_length: "0 < k \<Longrightarrow> n < 10 ^ k \<Longrightarrow> length (dec_string n) \<le> k"
proof (induction n arbitrary: k rule: dec_string.induct)
  case (1 n)
  show ?case
  proof (cases "n < 10")
    case True
    then show ?thesis using 1(2) by (subst dec_string.simps) simp
  next
    case False
    with 1(2,3) obtain j where k: "k = Suc j" "0 < j" by (cases k; cases "k = 1") auto
    have "n div 10 < 10 ^ j" using 1(3) k(1) by (simp add: less_mult_imp_div_less mult.commute)
    from 1(1) [OF False k(2) this] show ?thesis using False k(1) by (subst dec_string.simps) simp
  qed
qed

lemma digits_snoc: "digits_number b (ds @ [c]) = b * digits_number b ds + digit_value c"
  by (simp add: digits_number_def)

lemma dec_string_number: "digits_number 10 (dec_string n) = n"
proof (induction n rule: dec_string.induct)
  case (1 n)
  show ?case
  proof (cases "n < 10")
    case True
    then show ?thesis by (subst dec_string.simps) (simp add: digits_number_def digit_value_digit)
  next
    case False
    then have "digits_number 10 (dec_string n) = 10 * (n div 10) + n mod 10"
      using 1 by (subst dec_string.simps) (simp add: digits_snoc digit_value_digit)
    then show ?thesis by simp
  qed
qed

text \<open>A number above 0 is printed without a leading zero, so that \<open>strtol\<close> takes it for decimal.\<close>

lemma dec_string_hd: "0 < n \<Longrightarrow> \<exists>d. 0 < d \<and> d < 10 \<and> hd (dec_string n) = hex_digit d"
proof (induction n rule: dec_string.induct)
  case (1 n)
  show ?case
  proof (cases "n < 10")
    case True
    then show ?thesis using 1(2) by (subst dec_string.simps) auto
  next
    case False
    then have "0 < n div 10" by (simp add: div_greater_zero_iff)
    then obtain d where "0 < d" "d < 10" "hd (dec_string (n div 10)) = hex_digit d"
      using 1(1) [OF False] by blast
    then show ?thesis using False dec_string_not_Nil [of "n div 10"] by (subst dec_string.simps) auto
  qed
qed

lemma hex_digit_chars:
  assumes "0 < d" "d < 10"
  shows "hex_digit d \<noteq> CHR ''0''" "hex_digit d \<noteq> CHR ''-''" "hex_digit d \<noteq> CHR ''+''"
proof -
  have "of_char (hex_digit d) = (48 + d :: nat)" using assms by (simp add: hex_digit_def)
  then show "hex_digit d \<noteq> CHR ''0''" "hex_digit d \<noteq> CHR ''-''" "hex_digit d \<noteq> CHR ''+''"
    using assms by (auto dest: arg_cong [where f = "of_char :: char \<Rightarrow> nat"])
qed

lemma digits_split:
  assumes "rest = [] \<or> 10 \<le> digit_value (hd rest)"
  shows "takeWhile (\<lambda>c. digit_value c < 10) (dec_string n @ rest) = dec_string n"
    "dropWhile (\<lambda>c. digit_value c < 10) (dec_string n @ rest) = rest"
proof -
  have d: "digit_value c < 10" if "c \<in> set (dec_string n)" for c
    using dec_string_digits [of n] that by (auto simp: digit_value_digit)
  have r: "takeWhile (\<lambda>c. digit_value c < 10) rest = []" "dropWhile (\<lambda>c. digit_value c < 10) rest = rest"
    using assms by (cases rest; simp)+
  show "takeWhile (\<lambda>c. digit_value c < 10) (dec_string n @ rest) = dec_string n"
    "dropWhile (\<lambda>c. digit_value c < 10) (dec_string n @ rest) = rest"
    using d r by (simp_all add: takeWhile_append dropWhile_append)
qed

lemma c_number_dec:
  assumes "0 < n" "rest = [] \<or> 10 \<le> digit_value (hd rest)" "b = 0 \<or> b = 10"
  shows "c_number b (dec_string n @ rest) = (False, n, rest)"
proof -
  obtain d where d: "0 < d" "d < 10" "hd (dec_string n) = hex_digit d" using dec_string_hd [OF assms(1)] by blast
  obtain r where s: "dec_string n @ rest = hex_digit d # r"
    using d(3) dec_string_not_Nil [of n] by (cases "dec_string n") auto
  have c: "dropWhile is_space (dec_string n @ rest) = dec_string n @ rest"
    "hd (dec_string n @ rest) = hex_digit d" "skip_prefix (dec_string n @ rest) = dec_string n @ rest"
    using digit_not_space [OF d(2)] hex_digit_chars [OF d(1,2)]
    by (simp_all add: s skip_prefix_def split: list.split)
  have nb: "number_base (dec_string n @ rest) = (10, dec_string n @ rest)"
    using c hex_digit_chars [OF d(1,2)] by (simp add: number_base_def del: hd_append hd_append2)
  show ?thesis
    using c nb hex_digit_chars [OF d(1,2)] digits_split [OF assms(2)] assms(3) dec_string_not_Nil [of n]
    by (auto simp: c_number_def dec_string_number del: hd_append hd_append2)
qed

text \<open>A size written in decimal with one of the units is read as that many bytes, or refused when
  it does not fit 64 bits.\<close>

theorem getsize_reads_decimal:
  assumes "0 < n" "size_unit suffix = Some u" "n < 2 ^ 63"
  shows "getsize (dec_string n @ suffix) = (if int n * u < 2 ^ 63 then Inr (int n * u) else Inl Size_overflow)"
proof -
  have r: "suffix = [] \<or> 10 \<le> digit_value (hd suffix)"
  proof -
    have "suffix \<in> set [[], ''b'', ''s'', ''k'', ''K'', ''m'', ''M'', ''g'', ''G'']"
      using assms(2) by (auto simp: size_unit_def split: if_splits)
    then show ?thesis
      by (simp only: list.set) (elim insertE emptyE; simp add: digit_value_def)
  qed
  have u: "0 < u" using assms(2) unfolding size_unit_def by (simp split: if_split_asm)
  have "int n < int (2 ^ 63)" using assms(3) by (simp only: of_nat_less_iff)
  then have "int n < 2 ^ 63" by simp
  moreover have "- (2 ^ 63) \<le> int n * u" by (rule order_trans [of _ 0]) (use u in simp_all)
  ultimately show ?thesis
    using c_number_dec [OF assms(1) r] assms(2) u by (simp add: getsize_def strtoll_def)
qed

end
