(* ===== verification/Meter.thy ===== *)
theory Meter
  imports Card_Events C_Text
begin

text \<open>
  The perfmeter (\<open>main/meter.c\<close>): clients that connect to a socket and are sent the statistics at an
  interval they can set. A connection is a structure of its own and a timed event that sends the next
  report; \<open>meters\<close> has the structures by their address, a number that \<open>malloc\<close> gives.

  Clients are written to by \<open>Sys_write\<close> and read from by \<open>Sys_read\<close>, which the host answers. \<open>meters_ok\<close>
  is the invariant: a connection has exactly one event.
\<close>

section \<open>Reports\<close>

definition PROTOCOL_VERSION :: nat where "PROTOCOL_VERSION = 2"
definition METER_BUFSIZE :: nat where "METER_BUFSIZE = 128"
definition MAXWORDS :: nat where "MAXWORDS = 8"
definition DEFAULT_METER_NSECS :: u64 where "DEFAULT_METER_NSECS = 200000000"
definition MIN_METER_NSECS :: u64 where "MIN_METER_NSECS = 10000"
definition MAX_METER_NSECS :: u64 where "MAX_METER_NSECS = 2000000000"

definition crlf :: string where "crlf = [CHR 0x0d, CHR 0x0a]"

definition meter_say :: "int \<Rightarrow> string \<Rightarrow> machine \<Rightarrow> machine" where
  "meter_say fd s m = run_sys (Sys_write fd (map of_char s)) m"

definition meter_hello :: "int \<Rightarrow> machine \<Rightarrow> machine" where
  "meter_hello fd m = meter_say fd (''HELLO '' @ dec_string PROTOCOL_VERSION @ crlf) m"

definition meter_header :: "int \<Rightarrow> machine \<Rightarrow> machine" where
  "meter_header fd m =
     meter_say fd (''WIDTH 11 9 9 4 9 4 4 4 5 4 4'' @ crlf)
       (meter_say fd (''HEAD nsec kinsns uinsns udud idle irqs exns disk con emu net'' @ crlf) m)"

text \<open>A sum over the cpus; \<open>g_stats.s_numcpus\<close> is the number of cpus.\<close>

definition percpu_total :: "(stats_percpu \<Rightarrow> u64) \<Rightarrow> machine \<Rightarrow> u64" where
  "percpu_total f m = fold (\<lambda>i tot. tot + f (s_percpu (g_stats m) i)) [0..<ncpus m] 0"

text \<open>The idle cycles of all cpus together are added once for each cpu.\<close>

definition meter_numbers :: "machine \<Rightarrow> nat list" where
  "meter_numbers m =
     (let s = g_stats m;
          ucycles = percpu_total sp_ucycles m; uretired = percpu_total sp_uretired m;
          icycles = percpu_total (\<lambda>p. sp_icycles p + s_tot_icycles s) m
      in [unat (clock_monotime m), unat (percpu_total sp_kretired m), unat uretired,
          unat (ucycles - uretired), unat icycles, unat (s_irqs s), unat (s_exns s),
          unat (s_rsects s + s_wsects s), unat (s_rchars s + s_wchars s),
          unat (s_remu s + s_wemu s + s_memu s), unat (s_rpkts s + s_wpkts s)])"

definition meter_report :: "int \<Rightarrow> machine \<Rightarrow> machine" where
  "meter_report fd m =
     (if \<not> percpu_total sp_kretired m \<le> percpu_total sp_kcycles m then smoke m
      else if \<not> percpu_total sp_uretired m \<le> percpu_total sp_ucycles m then smoke m
      else meter_say fd (concat (''DATA'' # map (\<lambda>n. '' '' @ dec_string n) (meter_numbers m)) @ crlf) m)"

text \<open>The timed event. A connection that was closed goes here.\<close>

definition meter_update :: "nat \<Rightarrow> machine \<Rightarrow> machine" where
  "meter_update k m =
     (case meters m k of
        None \<Rightarrow> raise_fault Undefined m
      | Some me \<Rightarrow>
          if me_fd me < 0 then m\<lparr>meters := (meters m)(k := None)\<rparr>
          else schedule_event (me_interval me) k 0 F_meter_update (meter_report (me_fd me) m))"

section \<open>Commands\<close>

definition tolower :: "char \<Rightarrow> char" where
  "tolower c = (let n = (of_char c :: nat) in if 65 \<le> n \<and> n \<le> 90 then char_of (n + 32) else c)"

text \<open>The commands of \<open>processline\<close>: what becomes of the interval, and what is answered.\<close>

definition processline :: "string \<Rightarrow> u64 \<Rightarrow> u64 \<times> string option" where
  "processline line interval =
     (let words = strtok_words blanks line in
      if length words > MAXWORDS then (interval, Some ''BAD Too many words in command'')
      else if words = [] then (interval, None)
      else if map tolower (words ! 0) = ''interval'' \<and> length words = 2 then
        let (n, rest, erange) = strtoul 0 (words ! 1) in
        if erange \<or> rest \<noteq> [] then (interval, Some ''BAD Invalid number'')
        else if n < MIN_METER_NSECS then (interval, Some ''BAD Interval too small'')
        else if n > MAX_METER_NSECS then (interval, Some ''BAD Interval too large'')
        else (n, None)
      else (interval, Some ''BAD Invalid command''))"

text \<open>What \<open>strtok_r\<close> does to the line: the character after each word becomes a NUL. It is called until
  there is no word left, or one more than the code has room for.\<close>

primrec strtok_cut :: "nat \<Rightarrow> u8 list \<Rightarrow> u8 list" where
  "strtok_cut 0 bs = bs"
| "strtok_cut (Suc n) bs =
     (let delim = (\<lambda>b. char_of (unat b) \<in> blanks);
          lead = takeWhile delim bs; r = dropWhile delim bs;
          word = takeWhile (\<lambda>b. \<not> delim b) r; rest = dropWhile (\<lambda>b. \<not> delim b) r
      in lead @ word @ (case rest of [] \<Rightarrow> [] | d # bs' \<Rightarrow> 0 # strtok_cut n bs'))"

text \<open>One complete line at the front of the buffer, which is at \<open>p\<close> bytes: it is a C string, it is
  processed, and what follows it moves to the front.\<close>

definition line_end :: "meter_data \<Rightarrow> nat option" where
  "line_end me =
     (let p = length (takeWhile (\<lambda>b. b \<noteq> 10) (take (me_bufpos me) (me_buf me))) in
      if p < me_bufpos me \<and> p < length (me_buf me) then Some p else None)"

definition meter_line :: "nat \<Rightarrow> meter_data \<times> machine \<Rightarrow> meter_data \<times> machine" where
  "meter_line p mm =
     (let (me, m) = mm;
          buf = (me_buf me)[p := 0]; pos = me_bufpos me - (p + 1);
          line = takeWhile (\<lambda>b. b \<noteq> 0) buf;
          (interval, answer) = processline (map (\<lambda>b. char_of (unat b)) line) (me_interval me);
          buf1 = strtok_cut (MAXWORDS + 1) line @ drop (length line) buf;
          buf2 = take pos (drop (p + 1) buf1) @ drop pos buf1
      in (me\<lparr>me_interval := interval, me_buf := buf2, me_bufpos := pos\<rparr>,
          case answer of None \<Rightarrow> m | Some s \<Rightarrow> meter_say (me_fd me) (s @ crlf) m))"

lemma meter_line_pos: "me_bufpos (fst (meter_line p (me, m))) = me_bufpos me - (p + 1)"
  by (simp add: meter_line_def Let_def split: prod.split)

function meter_lines :: "meter_data \<times> machine \<Rightarrow> meter_data \<times> machine" where
  "meter_lines mm = (case line_end (fst mm) of None \<Rightarrow> mm | Some p \<Rightarrow> meter_lines (meter_line p mm))"
  by pat_completeness auto
termination
proof (relation "measure (\<lambda>(me, m). me_bufpos me)", simp)
  fix mm :: "meter_data \<times> machine" and p
  assume "line_end (fst mm) = Some p"
  then have "p < me_bufpos (fst mm)" by (auto simp: line_end_def Let_def split: if_splits)
  moreover obtain me m where "mm = (me, m)" by fastforce
  ultimately show "(meter_line p mm, mm) \<in> measure (\<lambda>(me, m). me_bufpos me)"
    using meter_line_pos [of p me m] by (simp add: case_prod_beta)
qed

declare meter_lines.simps [simp del]

text \<open>A client can be read. The bytes go to the front of the buffer, whatever is waiting there.\<close>

definition meter_receive :: "nat \<Rightarrow> machine \<Rightarrow> machine" where
  "meter_receive k m0 =
     (case meters m0 k of
        None \<Rightarrow> raise_fault Undefined m0
      | Some me0 \<Rightarrow>
          let (me, m) = (if me_bufpos me0 \<ge> METER_BUFSIZE
                then (me0\<lparr>me_bufpos := 0\<rparr>, meter_say (me_fd me0) (''BAD Input overflow'' @ crlf) m0)
                else (me0, m0));
              n = METER_BUFSIZE - me_bufpos me;
              (m1, a) = do_sys (Sys_read (me_fd me) n) m;
              bs = (if sys_ret a < 0 then [] else take n (sys_data a))
          in if bs = [] then
               let m2 = run_sys (Sys_close (me_fd me)) m1
               in m2\<lparr>meters := (meters m2)(k \<mapsto> me\<lparr>me_fd := -1\<rparr>)\<rparr>
             else
               let (me1, m2) = meter_lines (me\<lparr>me_buf := bs @ drop (length bs) (me_buf me),
                     me_bufpos := me_bufpos me + length bs\<rparr>, m1)
               in m2\<lparr>meters := (meters m2)(k \<mapsto> me1)\<rparr>)"

section \<open>Connections\<close>

text \<open>A client connects: \<open>accept\<close> gives \<open>remotefd\<close>, and \<open>malloc\<close> the address \<open>k\<close> of memory with the bytes
  \<open>fresh\<close>, or none.\<close>

definition meter_accept :: "int \<Rightarrow> (nat \<times> u8 list) option \<Rightarrow> machine \<Rightarrow> machine" where
  "meter_accept remotefd mem m =
     (if remotefd < 0 then m
      else case mem of
        None \<Rightarrow> run_sys (Sys_close remotefd) (run_sys (Sys_write remotefd (map of_char (''ERROR'' @ crlf))) m)
      | Some (k, fresh) \<Rightarrow>
          let me = \<lparr>me_interval = DEFAULT_METER_NSECS, me_fd = remotefd, me_buf = fresh, me_bufpos = 0\<rparr>;
              m1 = m\<lparr>meters := (meters m)(k \<mapsto> me)\<rparr>
          in meter_update k (meter_header remotefd (meter_hello remotefd m1)))"

end
