(* ===== verification/Dispatch.thy ===== *)
theory Dispatch
  imports Lamebus Meter
begin

text \<open>
  Dispatching: the timed events (\<open>check_queue\<close> of \<open>main/clock.c\<close>) and what advances the clock
  to them (\<open>clock_ticks\<close>, \<open>clock_init\<close>). Waiting for the host is in \<open>Mainloop\<close>.
\<close>

section \<open>Timed events\<close>

definition run_event :: "timed_action \<Rightarrow> machine \<Rightarrow> machine" where
  "run_event ta m =
     (case ta_call ta of
        F_dopoweroff \<Rightarrow> dopoweroff m
      | F_timer_interrupt \<Rightarrow> timer_interrupt (ta_data ta) (ta_code ta) m
      | F_serial_writedone \<Rightarrow> serial_writedone (ta_data ta) m
      | F_serial_pushinput \<Rightarrow> serial_pushinput (ta_data ta) m
      | F_disk_seekdone \<Rightarrow> disk_seekdone (ta_data ta) (ta_code ta) m
      | F_disk_waitdone \<Rightarrow> disk_waitdone (ta_data ta) (ta_code ta) m
      | F_keepalive \<Rightarrow> keepalive (ta_data ta) m
      | F_triggersend \<Rightarrow> triggersend (ta_data ta) m
      | F_emufs_done \<Rightarrow> emufs_done (ta_data ta) m
      | F_prof_sample \<Rightarrow> prof_sample m
      | F_meter_update \<Rightarrow> meter_update (ta_data ta) m)"

definition queue_due :: "u64 \<Rightarrow> machine \<Rightarrow> bool" where
  "queue_due vnow m = (case event_queue m of [] \<Rightarrow> False | ta # q \<Rightarrow> \<not> ta_vtime ta > vnow)"

text \<open>One round of the loop: the event leaves the queue, runs, and goes back to the pool.\<close>

definition queue_step :: "machine \<Rightarrow> machine" where
  "queue_step m =
     (case event_queue m of
        [] \<Rightarrow> m
      | ta # q \<Rightarrow> acfree (run_event ta (m\<lparr>event_queue := q\<rparr>)))"

definition check_queue :: "machine \<Rightarrow> machine" where
  "check_queue m =
     (case while_option (queue_due (clock_vnow m)) queue_step m of
        Some m' \<Rightarrow> m'
      | None \<Rightarrow> raise_fault No_return m)"

section \<open>Time passes\<close>

definition clock_ticks :: "u64 \<Rightarrow> machine \<Rightarrow> machine" where
  "clock_ticks nticks m =
     (let m1 = upd_stats (\<lambda>s. s\<lparr>s_tot_rcycles := s_tot_rcycles s + nticks\<rparr>) m;
          m2 = check_queue (clock_vadvance (nticks * NSECS_PER_CLOCK) m1)
      in if \<not> check_progress m2 then m2
         else if progress m2 then
           (clock_newprogressdeadline (m2\<lparr>progress := False\<rparr>))\<lparr>progress_warned := False\<rparr>
         else if clock_vnow m2 < progress_deadline m2 then m2
         else if progress_warned m2 then
           (clock_newprogressdeadline (main_enter_debugger True m2))\<lparr>progress_warned := False\<rparr>
         else (clock_newprogressdeadline m2)\<lparr>progress_warned := True\<rparr>)"

definition clock_init :: "u32 \<Rightarrow> machine \<Rightarrow> machine" where
  "clock_init tv_sec m =
     (let m1 = acalloc_init (clock_coreinit tv_sec m);
          (m2, r) = host_next_random m1;
          offset = r mod 10000000
      in check_queue (clock_vadvance (ucast offset) m2))"

end
