(* ===== verification/Mips_Core.thy ===== *)
theory Mips_Core
  imports Dispatch
begin

text \<open>
  The data path of the MIPS-161 (\<open>mipseb/mipscore.h\<close>): access to memory by physical and by
  virtual address, sub-word loads and stores, branches, and the fields of an instruction word.
  The instructions themselves are in \<open>Mips_Insns\<close>. Modelled is the build without tracing.

  A load returns \<open>fetched\<close>: \<open>Bus_error\<close> means that an exception was taken, \<open>Not_written\<close> that
  the device reported success and left the caller's variable as it was. Where that variable is
  an uninitialised local, using it is the fault \<open>Undefined\<close>.
\<close>

section \<open>Memory by physical address\<close>

definition accessmem_fetch :: "nat \<Rightarrow> u32 \<Rightarrow> machine \<Rightarrow> machine \<times> fetched" where
  "accessmem_fetch cn paddr m =
     (let (m1, r) =
        (if paddr < 0x1fc00000 then
           (m, case bus_mem_fetch m paddr of Some v \<Rightarrow> Fetched v | None \<Rightarrow> Bus_error)
         else if paddr < 0x1fe00000 then
           (m, case bootrom_fetch (paddr - 0x1fc00000) of Some v \<Rightarrow> Fetched v | None \<Rightarrow> Bus_error)
         else if paddr < 0x20000000 then
           bus_io_fetch (cpunum (mycpu m cn)) (paddr - 0x1fe00000) m
         else
           (m, case bus_mem_fetch m (paddr - 0x00400000) of Some v \<Rightarrow> Fetched v | None \<Rightarrow> Bus_error))
      in if r = Bus_error then (exception cn EX_DBE 0 0 m1, Bus_error) else (m1, r))"

definition accessmem_store :: "nat \<Rightarrow> u32 \<Rightarrow> u32 \<Rightarrow> machine \<Rightarrow> machine \<times> bool" where
  "accessmem_store cn paddr val m =
     (let (m1, ok) =
        (if paddr < 0x1fc00000 then
           (case bus_mem_store paddr val m of Some m' \<Rightarrow> (m', True) | None \<Rightarrow> (m, False))
         else if paddr < 0x1fe00000 then (m, False)
         else if paddr < 0x20000000 then
           bus_io_store (cpunum (mycpu m cn)) (paddr - 0x1fe00000) val m
         else
           (case bus_mem_store (paddr - 0x00400000) val m of
              Some m' \<Rightarrow> (m', True) | None \<Rightarrow> (m, False)))
      in if ok then (m1, True) else (exception cn EX_DBE 0 0 m1, False))"

section \<open>Memory by virtual address\<close>

definition domem_fetch :: "nat \<Rightarrow> u32 \<Rightarrow> bool \<Rightarrow> machine \<Rightarrow> machine \<times> fetched" where
  "domem_fetch cn vaddr willbewrite m =
     (case translatemem cn vaddr willbewrite m of
        (m1, None) \<Rightarrow> (m1, Bus_error)
      | (m1, Some paddr) \<Rightarrow> accessmem_fetch cn paddr m1)"

definition domem_store :: "nat \<Rightarrow> u32 \<Rightarrow> u32 \<Rightarrow> bool \<Rightarrow> machine \<Rightarrow> machine \<times> bool" where
  "domem_store cn vaddr val willbewrite m =
     (case translatemem cn vaddr willbewrite m of
        (m1, None) \<Rightarrow> (m1, False)
      | (m1, Some paddr) \<Rightarrow> accessmem_store cn paddr val m1)"

section \<open>Registers\<close>

definition getreg :: "machine \<Rightarrow> nat \<Rightarrow> nat \<Rightarrow> u32" where
  "getreg m cn n = regs (mycpu m cn) n"

definition setreg :: "nat \<Rightarrow> nat \<Rightarrow> u32 \<Rightarrow> machine \<Rightarrow> machine" where
  "setreg cn n v m = upd_cpu cn (\<lambda>c. c\<lparr>regs := (regs c)(n := v)\<rparr>) m"

section \<open>Sub-word loads\<close>

text \<open>\<open>memstyles\<close>\<close>

datatype memstyles = S_SBYTE | S_UBYTE | S_SHALF | S_UHALF | S_WORDL | S_WORDR

text \<open>The byte and the half word of a big-endian word.\<close>

definition load_byte :: "u32 \<Rightarrow> u32 \<Rightarrow> u8" where
  "load_byte addr val =
     (if addr AND 3 = 0 then ucast (drop_bit 24 (val AND 0xff000000))
      else if addr AND 3 = 1 then ucast (drop_bit 16 (val AND 0x00ff0000))
      else if addr AND 3 = 2 then ucast (drop_bit 8 (val AND 0x0000ff00))
      else ucast (val AND 0x000000ff))"

definition load_half :: "u32 \<Rightarrow> u32 \<Rightarrow> u16" where
  "load_half addr val =
     (if addr AND 2 = 0 then ucast (drop_bit 16 (val AND 0xffff0000))
      else ucast (val AND 0x0000ffff))"

text \<open>What \<open>lwl\<close> and \<open>lwr\<close> make of the old register and the word in memory.\<close>

definition load_wordl :: "u32 \<Rightarrow> u32 \<Rightarrow> u32 \<Rightarrow> u32" where
  "load_wordl addr val res =
     (let (msk, shift) =
        (if addr AND 3 = 0 then (0xffffffff, 0)
         else if addr AND 3 = 1 then (0xffffff00, 8)
         else if addr AND 3 = 2 then (0xffff0000, 16)
         else (0xff000000, 24))
      in (res AND NOT msk) OR (push_bit shift val AND msk))"

definition load_wordr :: "u32 \<Rightarrow> u32 \<Rightarrow> u32 \<Rightarrow> u32" where
  "load_wordr addr val res =
     (let (msk, shift) =
        (if addr AND 3 = 0 then (0x000000ff, 24)
         else if addr AND 3 = 1 then (0x0000ffff, 16)
         else if addr AND 3 = 2 then (0x00ffffff, 8)
         else (0xffffffff, 0))
      in (res AND NOT msk) OR (drop_bit shift val AND msk))"

definition load_value :: "memstyles \<Rightarrow> u32 \<Rightarrow> u32 \<Rightarrow> u32 \<Rightarrow> u32" where
  "load_value ms addr val res =
     (case ms of
        S_SBYTE \<Rightarrow> scast (load_byte addr val)
      | S_UBYTE \<Rightarrow> ucast (load_byte addr val)
      | S_SHALF \<Rightarrow> scast (load_half addr val)
      | S_UHALF \<Rightarrow> ucast (load_half addr val)
      | S_WORDL \<Rightarrow> load_wordl addr val res
      | S_WORDR \<Rightarrow> load_wordr addr val res)"

text \<open>The address of the word that is accessed: a half word at an odd address keeps its low
  bit, so that the translation finds it unaligned.\<close>

definition word_addr :: "memstyles \<Rightarrow> u32 \<Rightarrow> u32" where
  "word_addr ms addr =
     (case ms of
        S_SHALF \<Rightarrow> addr AND 0xfffffffd
      | S_UHALF \<Rightarrow> addr AND 0xfffffffd
      | _ \<Rightarrow> addr AND 0xfffffffc)"

text \<open>\<open>res\<close> points to register \<open>rt\<close> in every call.\<close>

definition doload :: "nat \<Rightarrow> memstyles \<Rightarrow> u32 \<Rightarrow> nat \<Rightarrow> machine \<Rightarrow> machine" where
  "doload cn ms addr rt m =
     (case domem_fetch cn (word_addr ms addr) False m of
        (m1, Bus_error) \<Rightarrow> m1
      | (m1, Not_written) \<Rightarrow> raise_fault Undefined m1
      | (m1, Fetched val) \<Rightarrow> setreg cn rt (load_value ms addr val (getreg m1 cn rt)) m1)"

section \<open>Sub-word stores\<close>

definition store_byte :: "u32 \<Rightarrow> u32 \<Rightarrow> u32 \<Rightarrow> u32" where
  "store_byte addr val wval =
     (let (msk, shift) =
        (if addr AND 3 = 0 then (0xff000000, 24)
         else if addr AND 3 = 1 then (0x00ff0000, 16)
         else if addr AND 3 = 2 then (0x0000ff00, 8)
         else (0x000000ff, 0))
      in (wval AND NOT msk) OR push_bit shift (val AND 0xff))"

definition store_half :: "u32 \<Rightarrow> u32 \<Rightarrow> u32 \<Rightarrow> u32" where
  "store_half addr val wval =
     (let (msk, shift) = (if addr AND 2 = 0 then (0xffff0000, 16) else (0x0000ffff, 0))
      in (wval AND NOT msk) OR push_bit shift (val AND 0xffff))"

definition store_wordl :: "u32 \<Rightarrow> u32 \<Rightarrow> u32 \<Rightarrow> u32" where
  "store_wordl addr val wval =
     (let (msk, shift) =
        (if addr AND 3 = 0 then (0xffffffff, 0)
         else if addr AND 3 = 1 then (0x00ffffff, 8)
         else if addr AND 3 = 2 then (0x0000ffff, 16)
         else (0x000000ff, 24))
      in (wval AND NOT msk) OR (drop_bit shift val AND msk))"

definition store_wordr :: "u32 \<Rightarrow> u32 \<Rightarrow> u32 \<Rightarrow> u32" where
  "store_wordr addr val wval =
     (let (msk, shift) =
        (if addr AND 3 = 0 then (0xff000000, 24)
         else if addr AND 3 = 1 then (0xffff0000, 16)
         else if addr AND 3 = 2 then (0xffffff00, 8)
         else (0xffffffff, 0))
      in (wval AND NOT msk) OR (push_bit shift val AND msk))"

text \<open>Stores have no signed styles: \<open>None\<close> is the illegal addressing mode.\<close>

definition store_value :: "memstyles \<Rightarrow> (u32 \<Rightarrow> u32 \<Rightarrow> u32 \<Rightarrow> u32) option" where
  "store_value ms =
     (case ms of
        S_UBYTE \<Rightarrow> Some store_byte
      | S_UHALF \<Rightarrow> Some store_half
      | S_WORDL \<Rightarrow> Some store_wordl
      | S_WORDR \<Rightarrow> Some store_wordr
      | _ \<Rightarrow> None)"

definition dostore :: "nat \<Rightarrow> memstyles \<Rightarrow> u32 \<Rightarrow> u32 \<Rightarrow> machine \<Rightarrow> machine" where
  "dostore cn ms addr val m =
     (case store_value ms of
        None \<Rightarrow> smoke m
      | Some merge \<Rightarrow>
          (case domem_fetch cn (word_addr ms addr) True m of
             (m1, Bus_error) \<Rightarrow> m1
           | (m1, Not_written) \<Rightarrow> raise_fault Undefined m1
           | (m1, Fetched wval) \<Rightarrow>
               fst (domem_store cn (word_addr ms addr) (merge addr val wval) True m1)))"

section \<open>Branches\<close>

definition FULLOP_RFE :: u32 where "FULLOP_RFE = 0x42000010"

definition abranch :: "nat \<Rightarrow> u32 \<Rightarrow> machine \<Rightarrow> machine" where
  "abranch cn addr m =
     (if addr AND 3 \<noteq> 0 then exception cn EX_ADEL 0 addr m
      else
        let m1 = upd_cpu cn (\<lambda>c. c\<lparr>nextpc := addr, jumping := True\<rparr>) m
        in case pcpage (mycpu m1 cn) of
             None \<Rightarrow> raise_fault Undefined m1
           | Some pg \<Rightarrow>
               if bus_use_map m1 pg (pcoff (mycpu m1 cn)) = FULLOP_RFE then
                 upd_cpu cn (\<lambda>c. c\<lparr>nextpcpage := None, nextpcoff := 0\<rparr>) m1
               else fst (precompute_nextpc cn m1))"

definition ibranch :: "nat \<Rightarrow> u32 \<Rightarrow> machine \<Rightarrow> machine" where
  "ibranch cn imm m = abranch cn ((pc (mycpu m cn) AND 0xf0000000) OR imm) m"

definition rbranch :: "nat \<Rightarrow> u32 \<Rightarrow> machine \<Rightarrow> machine" where
  "rbranch cn rel m = abranch cn (pc (mycpu m cn) + rel) m"

section \<open>Fields of an instruction\<close>

text \<open>\<open>NEEDRS\<close> and its kin.\<close>

definition insn_rs :: "u32 \<Rightarrow> nat" where
  "insn_rs insn = unat (drop_bit 21 (insn AND 0x03e00000))"

definition insn_rt :: "u32 \<Rightarrow> nat" where
  "insn_rt insn = unat (drop_bit 16 (insn AND 0x001f0000))"

definition insn_rd :: "u32 \<Rightarrow> nat" where
  "insn_rd insn = unat (drop_bit 11 (insn AND 0x0000f800))"

definition insn_targ :: "u32 \<Rightarrow> u32" where
  "insn_targ insn = insn AND 0x03ffffff"

definition insn_sh :: "u32 \<Rightarrow> nat" where
  "insn_sh insn = unat (drop_bit 6 (insn AND 0x000007c0))"

definition insn_cn :: "u32 \<Rightarrow> u32" where
  "insn_cn insn = drop_bit 26 (insn AND 0x0c000000)"

definition insn_sel :: "u32 \<Rightarrow> nat" where
  "insn_sel insn = unat (insn AND 0x00000007)"

definition insn_imm :: "u32 \<Rightarrow> u32" where
  "insn_imm insn = insn AND 0x0000ffff"

text \<open>The immediate, sign-extended; as a register holds it.\<close>

definition insn_smm :: "u32 \<Rightarrow> u32" where
  "insn_smm insn = scast (ucast (insn_imm insn) :: u16)"

text \<open>\<open>RSu\<close>, \<open>RTu\<close> and the address of \<open>NEEDADDR\<close>.\<close>

definition RSu :: "machine \<Rightarrow> nat \<Rightarrow> u32 \<Rightarrow> u32" where
  "RSu m cn insn = getreg m cn (insn_rs insn)"

definition RTu :: "machine \<Rightarrow> nat \<Rightarrow> u32 \<Rightarrow> u32" where
  "RTu m cn insn = getreg m cn (insn_rt insn)"

definition insn_addr :: "machine \<Rightarrow> nat \<Rightarrow> u32 \<Rightarrow> u32" where
  "insn_addr m cn insn = RSu m cn insn + insn_smm insn"

section \<open>Lemmas\<close>

text \<open>The complements of the masks, in the simplifier's normal form.\<close>

lemma bit_not_mask: "x = - y - 1 \<Longrightarrow> bit (x :: int) n \<longleftrightarrow> \<not> bit y n"
  by (simp only: not_eq_complement [symmetric] bit_not_iff) simp

lemma bit_neg_masks [simp]:
  "bit (- 4278190081 :: int) n \<longleftrightarrow> n < 24 \<or> 32 \<le> n"
  "bit (- 16711681 :: int) n \<longleftrightarrow> n < 16 \<or> 24 \<le> n"
  "bit (- 65281 :: int) n \<longleftrightarrow> n < 8 \<or> 16 \<le> n"
  "bit (- 256 :: int) n \<longleftrightarrow> 8 \<le> n"
  "bit (- 4294901761 :: int) n \<longleftrightarrow> n < 16 \<or> 32 \<le> n"
  "bit (- 65536 :: int) n \<longleftrightarrow> 16 \<le> n"
  "bit (- 4294967041 :: int) n \<longleftrightarrow> n < 8 \<or> 32 \<le> n"
  "bit (- 16777216 :: int) n \<longleftrightarrow> 24 \<le> n"
  by (simp_all add:
      bit_not_mask [of "- 4278190081" "0xff000000" n]
      bit_not_mask [of "- 16711681" "0x00ff0000" n]
      bit_not_mask [of "- 65281" "0x0000ff00" n]
      bit_not_mask [of "- 256" "0x000000ff" n]
      bit_not_mask [of "- 4294901761" "0xffff0000" n]
      bit_not_mask [of "- 65536" "0x0000ffff" n]
      bit_not_mask [of "- 4294967041" "0xffffff00" n]
      bit_not_mask [of "- 16777216" "0x00ffffff" n]
      not_less not_le de_Morgan_conj)

lemma bit_load_byte:
  "bit (load_byte addr val) n \<longleftrightarrow> n < 8 \<and>
     bit val (n + (if addr AND 3 = 0 then 24 else if addr AND 3 = 1 then 16
                   else if addr AND 3 = 2 then 8 else 0))"
  unfolding load_byte_def if_distrib [of bit] if_distribR bit_ops
  by (auto simp: add.commute dest: bit_imp_le_length)

text \<open>What a byte store leaves in each byte of the word.\<close>

lemma load_byte_store_byte:
  "load_byte addr' (store_byte addr v w) =
     (if addr' AND 3 = addr AND 3 then ucast v else load_byte addr' w)"
  by (rule bit_word_eqI, cases rule: and3_cases [of addr]; cases rule: and3_cases [of addr'])
    (auto simp: bit_load_byte store_byte_def bit_ops)

section \<open>Alignment\<close>

lemma aligned_next: "b AND 3 = 0 \<Longrightarrow> (b + 4) AND 3 = (0::u32)"
  by (auto simp: dvd4_and unat_word_ariths intro!: dvd_mod)

text \<open>The four ways an address and the address three bytes on can fall into words.\<close>

lemma align_cases:
  fixes a :: u32
  obtains i where "i = 0 \<or> i = 1 \<or> i = 2 \<or> i = 3" "a = (a AND 0xfffffffc) + i" "a AND 3 = i"
    "(a + 3) AND 3 = (if i = 0 then 3 else i - 1)"
    "(a + 3) AND 0xfffffffc = (if i = 0 then a AND 0xfffffffc else (a AND 0xfffffffc) + 4)"
proof -
  define b where "b = a AND 0xfffffffc"
  define i where "i = a AND 3"
  have i: "i = 0 \<or> i = 1 \<or> i = 2 \<or> i = 3" unfolding i_def by (cases rule: and3_cases [of a]) auto
  have a: "a = b + i" unfolding b_def i_def by (rule align_split)
  have b: "b AND 3 = 0" "(b + 4) AND 3 = 0" unfolding b_def by (simp_all add: aligned_next)
  have "(a + 3) AND 3 = (if i = 0 then 3 else i - 1) \<and>
    (a + 3) AND 0xfffffffc = (if i = 0 then b else b + 4)"
  proof (cases "i = 0")
    case True
    then show ?thesis using aligned_low [OF b(1), of 3] by (simp add: a)
  next
    case False
    then have "i - 1 = 0 \<or> i - 1 = 1 \<or> i - 1 = 2" using i by auto
    then have "((b + 4) + (i - 1)) AND 0xfffffffc = b + 4" "((b + 4) + (i - 1)) AND 3 = i - 1"
      using aligned_low [OF b(2), of "i - 1"] by blast+
    moreover have "a + 3 = (b + 4) + (i - 1)" by (simp add: a)
    ultimately show ?thesis using False by (simp only: if_False simp_thms)
  qed
  then show ?thesis using that [OF i] a unfolding b_def [symmetric] i_def [symmetric] by blast
qed

section \<open>Words and bytes of a big-endian memory\<close>

text \<open>The big-endian word at an address, aligned or not.\<close>

definition be_word :: "(u32 \<Rightarrow> u8) \<Rightarrow> u32 \<Rightarrow> u32" where
  "be_word b a = ctoh32 (host_load32 b a)"

lemma bit_be_word:
  "bit (be_word b a) n \<longleftrightarrow>
     (if n < 8 then bit (b (a + 3)) n else if n < 16 then bit (b (a + 2)) (n - 8)
      else if n < 24 then bit (b (a + 1)) (n - 16) else n < 32 \<and> bit (b a) (n - 24))"
  by (auto simp: be_word_def ctoh32_def bit_bswap32 bit_host_load32)

lemma load_byte_be_word:
  "load_byte a (be_word b (a AND 0xfffffffc)) = b a"
proof -
  obtain i where i: "i = 0 \<or> i = 1 \<or> i = 2 \<or> i = 3" "a = (a AND 0xfffffffc) + i" "a AND 3 = i"
    by (rule align_cases)
  then have "load_byte a (be_word b (a AND 0xfffffffc)) = b ((a AND 0xfffffffc) + i)"
    by (intro bit_word_eqI, elim disjE)
      (auto simp: bit_load_byte bit_be_word dest: bit_imp_le_length)
  then show ?thesis by (simp only: i(2) [symmetric])
qed

definition be_byte :: "nat \<Rightarrow> u32 \<Rightarrow> u8" where
  "be_byte j w = ucast (drop_bit (24 - 8 * j) w)"

definition be_store :: "(u32 \<Rightarrow> u8) \<Rightarrow> u32 \<Rightarrow> u32 \<Rightarrow> (u32 \<Rightarrow> u8)" where
  "be_store b a w =
     b(a := be_byte 0 w, a + 1 := be_byte 1 w, a + 2 := be_byte 2 w, a + 3 := be_byte 3 w)"

lemma bit_be_byte: "bit (be_byte j w) n \<longleftrightarrow> n < 8 \<and> bit w (24 - 8 * j + n)"
  by (simp add: be_byte_def bit_ops)

lemma host_store32_be: "host_store32 b a (htoc32 w) = be_store b a w"
proof -
  have "ucast (htoc32 w) = be_byte 0 w" "ucast (drop_bit 8 (htoc32 w)) = be_byte 1 w"
    "ucast (drop_bit 16 (htoc32 w)) = be_byte 2 w" "ucast (drop_bit 24 (htoc32 w)) = be_byte 3 w"
    by (auto intro!: bit_word_eqI simp: bit_ops bit_be_byte htoc32_def bit_bswap32 add.commute)
  then show ?thesis by (simp only: host_store32_def be_store_def)
qed

lemma be_byte_be_word:
  "be_byte 0 (be_word b a) = b a" "be_byte 1 (be_word b a) = b (a + 1)"
  "be_byte 2 (be_word b a) = b (a + 2)" "be_byte 3 (be_word b a) = b (a + 3)"
  by (auto intro!: bit_word_eqI simp: bit_be_byte bit_be_word)

lemma bit_full_mask: "bit (0xffffffff :: int) n \<longleftrightarrow> n < 32" "bit (- 4294967296 :: int) n \<longleftrightarrow> 32 \<le> n"
  using bit_ones [of 0 32 n]
  by (simp_all add: mask_eq_exp_minus_1 not_less bit_not_mask [of "- 4294967296" "0xffffffff"])

text \<open>Which bytes the two halves of an unaligned store replace.\<close>

lemma be_bytes_store_wordl:
  "a AND 3 = 0 \<Longrightarrow> be_byte 0 (store_wordl a v w) = be_byte 0 v"
  "a AND 3 = 0 \<Longrightarrow> be_byte 1 (store_wordl a v w) = be_byte 1 v"
  "a AND 3 = 0 \<Longrightarrow> be_byte 2 (store_wordl a v w) = be_byte 2 v"
  "a AND 3 = 0 \<Longrightarrow> be_byte 3 (store_wordl a v w) = be_byte 3 v"
  "a AND 3 = 1 \<Longrightarrow> be_byte 0 (store_wordl a v w) = be_byte 0 w"
  "a AND 3 = 1 \<Longrightarrow> be_byte 1 (store_wordl a v w) = be_byte 0 v"
  "a AND 3 = 1 \<Longrightarrow> be_byte 2 (store_wordl a v w) = be_byte 1 v"
  "a AND 3 = 1 \<Longrightarrow> be_byte 3 (store_wordl a v w) = be_byte 2 v"
  "a AND 3 = 2 \<Longrightarrow> be_byte 0 (store_wordl a v w) = be_byte 0 w"
  "a AND 3 = 2 \<Longrightarrow> be_byte 1 (store_wordl a v w) = be_byte 1 w"
  "a AND 3 = 2 \<Longrightarrow> be_byte 2 (store_wordl a v w) = be_byte 0 v"
  "a AND 3 = 2 \<Longrightarrow> be_byte 3 (store_wordl a v w) = be_byte 1 v"
  "a AND 3 = 3 \<Longrightarrow> be_byte 0 (store_wordl a v w) = be_byte 0 w"
  "a AND 3 = 3 \<Longrightarrow> be_byte 1 (store_wordl a v w) = be_byte 1 w"
  "a AND 3 = 3 \<Longrightarrow> be_byte 2 (store_wordl a v w) = be_byte 2 w"
  "a AND 3 = 3 \<Longrightarrow> be_byte 3 (store_wordl a v w) = be_byte 0 v"
  by (auto intro!: bit_word_eqI simp: bit_be_byte store_wordl_def bit_ops bit_full_mask)

lemma be_bytes_store_wordr:
  "a AND 3 = 0 \<Longrightarrow> be_byte 0 (store_wordr a v w) = be_byte 3 v"
  "a AND 3 = 0 \<Longrightarrow> be_byte 1 (store_wordr a v w) = be_byte 1 w"
  "a AND 3 = 0 \<Longrightarrow> be_byte 2 (store_wordr a v w) = be_byte 2 w"
  "a AND 3 = 0 \<Longrightarrow> be_byte 3 (store_wordr a v w) = be_byte 3 w"
  "a AND 3 = 1 \<Longrightarrow> be_byte 0 (store_wordr a v w) = be_byte 2 v"
  "a AND 3 = 1 \<Longrightarrow> be_byte 1 (store_wordr a v w) = be_byte 3 v"
  "a AND 3 = 1 \<Longrightarrow> be_byte 2 (store_wordr a v w) = be_byte 2 w"
  "a AND 3 = 1 \<Longrightarrow> be_byte 3 (store_wordr a v w) = be_byte 3 w"
  "a AND 3 = 2 \<Longrightarrow> be_byte 0 (store_wordr a v w) = be_byte 1 v"
  "a AND 3 = 2 \<Longrightarrow> be_byte 1 (store_wordr a v w) = be_byte 2 v"
  "a AND 3 = 2 \<Longrightarrow> be_byte 2 (store_wordr a v w) = be_byte 3 v"
  "a AND 3 = 2 \<Longrightarrow> be_byte 3 (store_wordr a v w) = be_byte 3 w"
  "a AND 3 = 3 \<Longrightarrow> be_byte 0 (store_wordr a v w) = be_byte 0 v"
  "a AND 3 = 3 \<Longrightarrow> be_byte 1 (store_wordr a v w) = be_byte 1 v"
  "a AND 3 = 3 \<Longrightarrow> be_byte 2 (store_wordr a v w) = be_byte 2 v"
  "a AND 3 = 3 \<Longrightarrow> be_byte 3 (store_wordr a v w) = be_byte 3 v"
  by (auto intro!: bit_word_eqI simp: bit_be_byte store_wordr_def bit_ops bit_full_mask)

text \<open>The other way round, for loads.\<close>

lemma be_bytes_load_wordl:
  "a AND 3 = 0 \<Longrightarrow> be_byte 0 (load_wordl a v w) = be_byte 0 v"
  "a AND 3 = 0 \<Longrightarrow> be_byte 1 (load_wordl a v w) = be_byte 1 v"
  "a AND 3 = 0 \<Longrightarrow> be_byte 2 (load_wordl a v w) = be_byte 2 v"
  "a AND 3 = 0 \<Longrightarrow> be_byte 3 (load_wordl a v w) = be_byte 3 v"
  "a AND 3 = 1 \<Longrightarrow> be_byte 0 (load_wordl a v w) = be_byte 1 v"
  "a AND 3 = 1 \<Longrightarrow> be_byte 1 (load_wordl a v w) = be_byte 2 v"
  "a AND 3 = 1 \<Longrightarrow> be_byte 2 (load_wordl a v w) = be_byte 3 v"
  "a AND 3 = 1 \<Longrightarrow> be_byte 3 (load_wordl a v w) = be_byte 3 w"
  "a AND 3 = 2 \<Longrightarrow> be_byte 0 (load_wordl a v w) = be_byte 2 v"
  "a AND 3 = 2 \<Longrightarrow> be_byte 1 (load_wordl a v w) = be_byte 3 v"
  "a AND 3 = 2 \<Longrightarrow> be_byte 2 (load_wordl a v w) = be_byte 2 w"
  "a AND 3 = 2 \<Longrightarrow> be_byte 3 (load_wordl a v w) = be_byte 3 w"
  "a AND 3 = 3 \<Longrightarrow> be_byte 0 (load_wordl a v w) = be_byte 3 v"
  "a AND 3 = 3 \<Longrightarrow> be_byte 1 (load_wordl a v w) = be_byte 1 w"
  "a AND 3 = 3 \<Longrightarrow> be_byte 2 (load_wordl a v w) = be_byte 2 w"
  "a AND 3 = 3 \<Longrightarrow> be_byte 3 (load_wordl a v w) = be_byte 3 w"
  by (auto intro!: bit_word_eqI simp: bit_be_byte load_wordl_def bit_ops bit_full_mask)

lemma be_bytes_load_wordr:
  "a AND 3 = 0 \<Longrightarrow> be_byte 0 (load_wordr a v w) = be_byte 0 w"
  "a AND 3 = 0 \<Longrightarrow> be_byte 1 (load_wordr a v w) = be_byte 1 w"
  "a AND 3 = 0 \<Longrightarrow> be_byte 2 (load_wordr a v w) = be_byte 2 w"
  "a AND 3 = 0 \<Longrightarrow> be_byte 3 (load_wordr a v w) = be_byte 0 v"
  "a AND 3 = 1 \<Longrightarrow> be_byte 0 (load_wordr a v w) = be_byte 0 w"
  "a AND 3 = 1 \<Longrightarrow> be_byte 1 (load_wordr a v w) = be_byte 1 w"
  "a AND 3 = 1 \<Longrightarrow> be_byte 2 (load_wordr a v w) = be_byte 0 v"
  "a AND 3 = 1 \<Longrightarrow> be_byte 3 (load_wordr a v w) = be_byte 1 v"
  "a AND 3 = 2 \<Longrightarrow> be_byte 0 (load_wordr a v w) = be_byte 0 w"
  "a AND 3 = 2 \<Longrightarrow> be_byte 1 (load_wordr a v w) = be_byte 0 v"
  "a AND 3 = 2 \<Longrightarrow> be_byte 2 (load_wordr a v w) = be_byte 1 v"
  "a AND 3 = 2 \<Longrightarrow> be_byte 3 (load_wordr a v w) = be_byte 2 v"
  "a AND 3 = 3 \<Longrightarrow> be_byte 0 (load_wordr a v w) = be_byte 0 v"
  "a AND 3 = 3 \<Longrightarrow> be_byte 1 (load_wordr a v w) = be_byte 1 v"
  "a AND 3 = 3 \<Longrightarrow> be_byte 2 (load_wordr a v w) = be_byte 2 v"
  "a AND 3 = 3 \<Longrightarrow> be_byte 3 (load_wordr a v w) = be_byte 3 v"
  by (auto intro!: bit_word_eqI simp: bit_be_byte load_wordr_def bit_ops bit_full_mask)

lemma be_bytes_eqI:
  assumes "be_byte 0 x = be_byte 0 y" "be_byte 1 x = be_byte 1 y"
    "be_byte 2 x = be_byte 2 y" "be_byte 3 x = be_byte 3 y"
  shows "x = y"
proof (rule bit_word_eqI)
  fix n :: nat
  assume "n < LENGTH(32)"
  then have "n < 32" by simp
  moreover have e: "bit x (24 - 8 * j + k) = bit y (24 - 8 * j + k)" if "j \<in> {0, 1, 2, 3}" "k < 8" for j k
    using assms that bit_be_byte [of j x k] bit_be_byte [of j y k] by auto
  ultimately show "bit x n = bit y n"
    using e [of 3 n] e [of 2 "n - 8"] e [of 1 "n - 16"] e [of 0 "n - 24"]
    by (cases "n < 8"; cases "n < 16"; cases "n < 24") auto
qed

lemma load_pair:
  "load_wordr (a + 3) (be_word b ((a + 3) AND 0xfffffffc)) (load_wordl a (be_word b (a AND 0xfffffffc)) r)
   = be_word b a"
proof -
  define c where "c = a AND 0xfffffffc"
  obtain i where i: "i = 0 \<or> i = 1 \<or> i = 2 \<or> i = 3" and a: "a = c + i" and k: "a AND 3 = i"
    "(a + 3) AND 3 = (if i = 0 then 3 else i - 1)"
    "(a + 3) AND 0xfffffffc = (if i = 0 then c else c + 4)"
    unfolding c_def by (rule align_cases)
  have bw: "be_word b (c + i) = be_word b a" by (simp add: a)
  from i k have "load_wordr (a + 3) (be_word b ((a + 3) AND 0xfffffffc)) (load_wordl a (be_word b c) r)
     = be_word b (c + i)"
    by (elim disjE; intro be_bytes_eqI)
      (simp_all add: be_bytes_load_wordl be_bytes_load_wordr be_byte_be_word add.assoc del: One_nat_def)
  then show ?thesis by (simp only: c_def [symmetric] bw)
qed

lemma store_pair:
  fixes w1 w2 v a :: u32
  defines "c \<equiv> a AND 0xfffffffc" and "d \<equiv> (a + 3) AND 0xfffffffc"
  defines "b1 b \<equiv> be_store b c (store_wordl a v (be_word b c))"
  shows "be_store (b1 b) d (store_wordr (a + 3) v (be_word (b1 b) d)) = be_store b a v"
proof -
  obtain i where i: "i = 0 \<or> i = 1 \<or> i = 2 \<or> i = 3" and a: "a = c + i" and k: "a AND 3 = i"
    "(a + 3) AND 3 = (if i = 0 then 3 else i - 1)" "d = (if i = 0 then c else c + 4)"
    unfolding c_def d_def by (rule align_cases)
  have bs: "be_store b a v = be_store b (c + i) v" by (simp add: a)
  show ?thesis
    unfolding bs using i k
    by (elim disjE; intro ext)
      (simp_all add: b1_def be_store_def be_bytes_store_wordl be_bytes_store_wordr be_byte_be_word add.assoc del: One_nat_def)
qed

section \<open>Direct-mapped RAM\<close>

text \<open>The kernel can reach the word at \<open>va\<close> through the cached segment, and it is RAM.\<close>

definition direct_ram :: "machine \<Rightarrow> nat \<Rightarrow> u32 \<Rightarrow> bool" where
  "direct_ram m cn va \<longleftrightarrow>
     \<not> current_usermode (mycpu m cn) \<and> va AND 3 = 0 \<and> KSEG0 \<le> va \<and>
     va - KSEG0 < bus_ramsize m \<and> va - KSEG0 < 0x1fc00000"

lemma direct_range:
  assumes "KSEG0 \<le> va" "va - KSEG0 < 0x1fc00000"
  shows "0x80000000 \<le> unat va" "unat va < 0xa0000000"
  using assms by (simp_all add: KSEG0_def word_le_nat_alt word_less_nat_alt unat_sub)

lemma direct_translate:
  assumes "direct_ram m cn va"
  shows "translatemem cn va wr m = (m, Some (va - KSEG0))"
proof -
  have r: "0x80000000 \<le> unat va" "unat va < 0xa0000000"
    using direct_range assms by (auto simp: direct_ram_def)
  have "drop_bit 30 va = 2" using r by (simp add: seg_drop_bit)
  then show ?thesis
    using assms kseg0_and [OF r]
    by (simp add: translatemem_def translatemem_with_def direct_ram_def Let_def)
qed

lemma direct_fetch:
  assumes "direct_ram m cn va"
  shows "domem_fetch cn va wr m = (m, Fetched (be_word (ram m) (va - KSEG0)))"
  using assms
  by (simp add: domem_fetch_def direct_translate accessmem_fetch_def bus_mem_fetch_def be_word_def
      direct_ram_def not_le)

lemma direct_store:
  assumes "direct_ram m cn va"
  shows "domem_store cn va val wr m = (m\<lparr>ram := be_store (ram m) (va - KSEG0) val\<rparr>, True)"
  using assms
  by (simp add: domem_store_def direct_translate accessmem_store_def bus_mem_store_def
      host_store32_be direct_ram_def not_le)

lemma direct_ram_ram [simp]: "direct_ram (m\<lparr>ram := b\<rparr>) cn va = direct_ram m cn va"
  by (simp add: direct_ram_def)

lemma direct_ram_setreg [simp]: "direct_ram (setreg cn n v m) cn' va = direct_ram m cn' va"
  by (simp add: direct_ram_def setreg_def)

lemma setreg_sels [simp]:
  "getreg (setreg cn n v m) cn k = (if k = n then v else getreg m cn k)"
  "ram (setreg cn n v m) = ram m"
  by (simp_all add: getreg_def setreg_def)

lemma kseg0_offset: "(va AND 0xfffffffc) - KSEG0 = (va - KSEG0) AND (0xfffffffc :: u32)"
proof -
  obtain i where i: "i = 0 \<or> i = 1 \<or> i = 2 \<or> i = 3" "va = (va AND 0xfffffffc) + i" "va AND 3 = i"
    by (rule align_cases)
  define c where "c = va AND 0xfffffffc"
  have c: "c AND 3 = 0" by (simp add: c_def)
  then have "(c - KSEG0) AND 3 = 0"
    by (auto simp: dvd4_and KSEG0_def unat_sub_if' intro!: dvd_diff_nat)
  then have "((c - KSEG0) + i) AND 0xfffffffc = c - KSEG0" using aligned_low(1) i(1) by blast
  moreover have "va - KSEG0 = (c - KSEG0) + i"
    using i(2) by (simp add: c_def)
  ultimately show ?thesis by (simp only: c_def)
qed

lemma doload_direct:
  assumes "direct_ram m cn (word_addr ms va)"
  shows "doload cn ms va rt m =
    setreg cn rt (load_value ms va (be_word (ram m) (word_addr ms va - KSEG0)) (getreg m cn rt)) m"
  by (simp add: doload_def direct_fetch [OF assms])

lemma dostore_direct:
  assumes "direct_ram m cn (word_addr ms va)" "store_value ms = Some merge"
  shows "dostore cn ms va val m =
    m\<lparr>ram := be_store (ram m) (word_addr ms va - KSEG0)
       (merge va val (be_word (ram m) (word_addr ms va - KSEG0)))\<rparr>"
  by (simp add: dostore_def assms(2) direct_fetch [OF assms(1)] direct_store [OF assms(1)])

lemma and3_minus_kseg0: "(va - KSEG0) AND 3 = va AND (3::u32)"
proof -
  obtain i where i: "i = 0 \<or> i = 1 \<or> i = 2 \<or> i = 3" "va = (va AND 0xfffffffc) + i" "va AND 3 = i"
    by (rule align_cases)
  have "((va - KSEG0) AND 0xfffffffc) + ((va - KSEG0) AND 3) = va - KSEG0"
    by (rule align_split [symmetric])
  also have "\<dots> = (va AND 0xfffffffc) - KSEG0 + i" using i(2) by (simp add: algebra_simps)
  finally show ?thesis by (simp add: kseg0_offset i(3))
qed

lemma load_byte_cong: "a AND 3 = b AND 3 \<Longrightarrow> load_byte a w = load_byte b w"
  by (simp add: load_byte_def)

lemma load_byte_minus: "load_byte (va - KSEG0) w = load_byte va w"
  by (rule load_byte_cong) (rule and3_minus_kseg0)

lemma be_store_store_byte:
  "be_store b (a AND 0xfffffffc) (store_byte a v (be_word b (a AND 0xfffffffc))) = b(a := ucast v)"
proof -
  obtain i where i: "i = 0 \<or> i = 1 \<or> i = 2 \<or> i = 3" "a = (a AND 0xfffffffc) + i" "a AND 3 = i"
    by (rule align_cases)
  define c where "c = a AND 0xfffffffc"
  have bytes: "be_byte 0 w = load_byte 0 w" "be_byte 1 w = load_byte 1 w"
    "be_byte 2 w = load_byte 2 w" "be_byte 3 w = load_byte 3 w" for w
  proof -
    have n: "(0::u32) AND 3 = 0" "(1::u32) AND 3 = 1" "(2::u32) AND 3 = 2" "(3::u32) AND 3 = 3"
      "(1::u32) \<noteq> 0" "(2::u32) \<noteq> 0" "(3::u32) \<noteq> 0" "(2::u32) \<noteq> 1" "(3::u32) \<noteq> 1" "(3::u32) \<noteq> 2"
      by simp_all
    show "be_byte 0 w = load_byte 0 w" "be_byte 1 w = load_byte 1 w"
      "be_byte 2 w = load_byte 2 w" "be_byte 3 w = load_byte 3 w"
      by (rule bit_word_eqI, simp only: bit_be_byte bit_load_byte n if_True if_False simp_thms, simp add: add.commute)+
  qed
  have mem: "load_byte 0 (be_word b c) = b c" "load_byte 1 (be_word b c) = b (c + 1)"
    "load_byte 2 (be_word b c) = b (c + 2)" "load_byte 3 (be_word b c) = b (c + 3)"
    by (simp_all only: bytes [symmetric] be_byte_be_word)
  have "be_store b c (store_byte a v (be_word b c)) = b(c + i := ucast v)"
    using i(1,3) by (elim disjE; intro ext) (simp_all add: be_store_def bytes load_byte_store_byte mem del: One_nat_def)
  then show ?thesis by (simp only: c_def i(2) [symmetric])
qed

section \<open>Properties\<close>

lemma direct_byte_access_facts:
  assumes "direct_ram m cn (va AND 0xfffffffc)"
  shows "dostore cn S_UBYTE va v m = m\<lparr>ram := (ram m)(va - KSEG0 := ucast v)\<rparr>"
    "doload cn S_UBYTE va rt m = setreg cn rt (ucast (ram m (va - KSEG0))) m"
    "doload cn S_SBYTE va rt m = setreg cn rt (scast (ram m (va - KSEG0))) m"
proof -
  have w: "store_byte va v x = store_byte (va - KSEG0) v x" for x
    by (simp add: store_byte_def and3_minus_kseg0)
  have l: "load_byte va (be_word (ram m) ((va AND 0xfffffffc) - KSEG0)) = ram m (va - KSEG0)"
    by (simp only: kseg0_offset load_byte_minus [of va, symmetric] load_byte_be_word)
  show "dostore cn S_UBYTE va v m = m\<lparr>ram := (ram m)(va - KSEG0 := ucast v)\<rparr>"
    using dostore_direct [of m cn S_UBYTE va store_byte v] assms
    by (simp add: word_addr_def store_value_def kseg0_offset w be_store_store_byte)
  show "doload cn S_UBYTE va rt m = setreg cn rt (ucast (ram m (va - KSEG0))) m"
    "doload cn S_SBYTE va rt m = setreg cn rt (scast (ram m (va - KSEG0))) m"
    using doload_direct [of m cn S_UBYTE va rt] doload_direct [of m cn S_SBYTE va rt] assms
    by (simp_all add: word_addr_def load_value_def l)
qed

text \<open>A byte store of the kernel through the direct-mapped segment changes that byte of RAM
  and nothing else in the machine; the byte loads read that byte, the unsigned and the signed
  one, and change nothing but their register.\<close>

theorem direct_byte_access:
  assumes "direct_ram m cn (va AND 0xfffffffc)"
  shows "(dostore cn S_UBYTE va v m = m\<lparr>ram := (ram m)(va - KSEG0 := ucast v)\<rparr>) \<and>
    (doload cn S_UBYTE va rt m = setreg cn rt (ucast (ram m (va - KSEG0))) m) \<and>
    (doload cn S_SBYTE va rt m = setreg cn rt (scast (ram m (va - KSEG0))) m)"
  using direct_byte_access_facts[OF assms] by simp

text \<open>A word at any address, stored with \<open>swl\<close> at its first byte and \<open>swr\<close> at its last, is
  the four bytes of the word in big-endian order, and nothing else changes.\<close>

theorem unaligned_store:
  assumes "direct_ram m cn (va AND 0xfffffffc)" "direct_ram m cn ((va + 3) AND 0xfffffffc)"
  shows "dostore cn S_WORDR (va + 3) v (dostore cn S_WORDL va v m) =
    m\<lparr>ram := (ram m)(va - KSEG0 := ucast (drop_bit 24 v), va - KSEG0 + 1 := ucast (drop_bit 16 v),
       va - KSEG0 + 2 := ucast (drop_bit 8 v), va - KSEG0 + 3 := ucast v)\<rparr>"
proof -
  let ?a = "va - KSEG0"
  have w: "store_wordl va v x = store_wordl ?a v x" "store_wordr (va + 3) v x = store_wordr (?a + 3) v x" for x
    using and3_minus_kseg0 [of va] and3_minus_kseg0 [of "va + 3"]
    by (simp_all add: store_wordl_def store_wordr_def algebra_simps)
  have o3: "va + 3 - KSEG0 = ?a + 3" by simp
  have "dostore cn S_WORDR (va + 3) v (dostore cn S_WORDL va v m) = m\<lparr>ram := be_store (ram m) ?a v\<rparr>"
    using dostore_direct [of m cn S_WORDL va store_wordl v] assms
      dostore_direct [of "m\<lparr>ram := b\<rparr>" cn S_WORDR "va + 3" store_wordr v for b]
    by (simp add: word_addr_def store_value_def kseg0_offset o3 w store_pair)
  then show ?thesis by (simp add: be_store_def be_byte_def)
qed

text \<open>A word at any address, loaded with \<open>lwl\<close> at its first byte and \<open>lwr\<close> at its last, is
  the four bytes in big-endian order, whatever the register held.\<close>

theorem unaligned_load:
  assumes "direct_ram m cn (va AND 0xfffffffc)" "direct_ram m cn ((va + 3) AND 0xfffffffc)"
  shows "getreg (doload cn S_WORDR (va + 3) rt (doload cn S_WORDL va rt m)) cn rt =
    push_bit 24 (ucast (ram m (va - KSEG0))) OR push_bit 16 (ucast (ram m (va - KSEG0 + 1))) OR
    push_bit 8 (ucast (ram m (va - KSEG0 + 2))) OR ucast (ram m (va - KSEG0 + 3))"
proof -
  let ?a = "va - KSEG0"
  have w: "load_wordl va x y = load_wordl ?a x y" "load_wordr (va + 3) x y = load_wordr (?a + 3) x y" for x y
    using and3_minus_kseg0 [of va] and3_minus_kseg0 [of "va + 3"]
    by (simp_all add: load_wordl_def load_wordr_def algebra_simps)
  have o3: "va + 3 - KSEG0 = ?a + 3" by simp
  have "getreg (doload cn S_WORDR (va + 3) rt (doload cn S_WORDL va rt m)) cn rt = be_word (ram m) ?a"
    using doload_direct [of m cn S_WORDL va rt] assms
      doload_direct [of "setreg cn rt x m" cn S_WORDR "va + 3" rt for x]
    by (simp add: word_addr_def load_value_def kseg0_offset o3 w load_pair)
  also have "\<dots> = push_bit 24 (ucast (ram m ?a)) OR push_bit 16 (ucast (ram m (?a + 1))) OR
    push_bit 8 (ucast (ram m (?a + 2))) OR ucast (ram m (?a + 3))"
    by (rule bit_word_eqI) (auto simp: bit_be_word bit_ops dest: bit_imp_le_length)
  finally show ?thesis .
qed

end
