(* ===== verification/Mips_Insns.thy ===== *)
theory Mips_Insns
  imports Mips_Core
begin

text \<open>
  The instructions of the MIPS-161, the functions \<open>mx_*\<close> of \<open>mipseb/mipscore.h\<close>. Each takes
  the number of the cpu that runs it and the instruction word. Register 0 is a register like any
  other here, as it is in the C.
\<close>

section \<open>The macros of the C\<close>

text \<open>\<open>LINK2\<close>, \<open>CHKOVF\<close>, and the stalls on the multiplier (\<open>WHILO\<close>, \<open>WHI\<close>, \<open>WLO\<close>, \<open>SETHILO\<close>).
  \<open>chkovf\<close> says whether a signed 64-bit value fits a register.\<close>

definition link :: "nat \<Rightarrow> nat \<Rightarrow> machine \<Rightarrow> machine" where
  "link cn rg m = setreg cn rg (nextpc (mycpu m cn)) m"

definition chkovf :: "int \<Rightarrow> bool" where
  "chkovf v \<longleftrightarrow> sint (word_of_int v :: u32) = v"

definition whilo :: "nat \<Rightarrow> (machine \<Rightarrow> machine) \<Rightarrow> machine \<Rightarrow> machine" where
  "whilo cn k m =
     (if hiwait (mycpu m cn) > 0 \<or> lowait (mycpu m cn) > 0 then phony_exception cn m else k m)"

definition whi :: "nat \<Rightarrow> (machine \<Rightarrow> machine) \<Rightarrow> machine \<Rightarrow> machine" where
  "whi cn k m = (if hiwait (mycpu m cn) > 0 then phony_exception cn m else k m)"

definition wlo :: "nat \<Rightarrow> (machine \<Rightarrow> machine) \<Rightarrow> machine \<Rightarrow> machine" where
  "wlo cn k m = (if lowait (mycpu m cn) > 0 then phony_exception cn m else k m)"

definition set_hilo :: "nat \<Rightarrow> u32 \<Rightarrow> u32 \<Rightarrow> machine \<Rightarrow> machine" where
  "set_hilo cn h l m = upd_cpu cn (\<lambda>c. c\<lparr>hi_reg := h, lo_reg := l, hiwait := 2, lowait := 2\<rparr>) m"

definition addpercpu :: "nat \<Rightarrow> (stats_percpu \<Rightarrow> stats_percpu) \<Rightarrow> machine \<Rightarrow> machine" where
  "addpercpu cn f m = upd_percpu (cpunum (mycpu m cn)) f m"

section \<open>Arithmetic\<close>

definition mx_add :: "nat \<Rightarrow> u32 \<Rightarrow> machine \<Rightarrow> machine" where
  "mx_add cn insn m =
     (let t64 = sint (RSu m cn insn) + sint (RTu m cn insn) in
      if \<not> chkovf t64 then exception cn EX_OVF 0 0 m
      else setreg cn (insn_rd insn) (word_of_int t64) m)"

definition mx_addi :: "nat \<Rightarrow> u32 \<Rightarrow> machine \<Rightarrow> machine" where
  "mx_addi cn insn m =
     (let t64 = sint (RSu m cn insn) + sint (insn_smm insn) in
      if \<not> chkovf t64 then exception cn EX_OVF 0 0 m
      else setreg cn (insn_rt insn) (word_of_int t64) m)"

definition mx_addiu :: "nat \<Rightarrow> u32 \<Rightarrow> machine \<Rightarrow> machine" where
  "mx_addiu cn insn m = setreg cn (insn_rt insn) (RSu m cn insn + insn_smm insn) m"

definition mx_addu :: "nat \<Rightarrow> u32 \<Rightarrow> machine \<Rightarrow> machine" where
  "mx_addu cn insn m = setreg cn (insn_rd insn) (RSu m cn insn + RTu m cn insn) m"

definition mx_sub :: "nat \<Rightarrow> u32 \<Rightarrow> machine \<Rightarrow> machine" where
  "mx_sub cn insn m =
     (let t64 = sint (RSu m cn insn) - sint (RTu m cn insn) in
      if \<not> chkovf t64 then exception cn EX_OVF 0 0 m
      else setreg cn (insn_rd insn) (word_of_int t64) m)"

definition mx_subu :: "nat \<Rightarrow> u32 \<Rightarrow> machine \<Rightarrow> machine" where
  "mx_subu cn insn m = setreg cn (insn_rd insn) (RSu m cn insn - RTu m cn insn) m"

definition mx_slt :: "nat \<Rightarrow> u32 \<Rightarrow> machine \<Rightarrow> machine" where
  "mx_slt cn insn m =
     setreg cn (insn_rd insn) (if sint (RSu m cn insn) < sint (RTu m cn insn) then 1 else 0) m"

definition mx_slti :: "nat \<Rightarrow> u32 \<Rightarrow> machine \<Rightarrow> machine" where
  "mx_slti cn insn m =
     setreg cn (insn_rt insn) (if sint (RSu m cn insn) < sint (insn_smm insn) then 1 else 0) m"

definition mx_sltiu :: "nat \<Rightarrow> u32 \<Rightarrow> machine \<Rightarrow> machine" where
  "mx_sltiu cn insn m =
     setreg cn (insn_rt insn) (if RSu m cn insn < insn_smm insn then 1 else 0) m"

definition mx_sltu :: "nat \<Rightarrow> u32 \<Rightarrow> machine \<Rightarrow> machine" where
  "mx_sltu cn insn m =
     setreg cn (insn_rd insn) (if RSu m cn insn < RTu m cn insn then 1 else 0) m"

section \<open>Logic and shifts\<close>

definition mx_and :: "nat \<Rightarrow> u32 \<Rightarrow> machine \<Rightarrow> machine" where
  "mx_and cn insn m = setreg cn (insn_rd insn) (RSu m cn insn AND RTu m cn insn) m"

definition mx_andi :: "nat \<Rightarrow> u32 \<Rightarrow> machine \<Rightarrow> machine" where
  "mx_andi cn insn m = setreg cn (insn_rt insn) (RSu m cn insn AND insn_imm insn) m"

definition mx_nor :: "nat \<Rightarrow> u32 \<Rightarrow> machine \<Rightarrow> machine" where
  "mx_nor cn insn m = setreg cn (insn_rd insn) (NOT (RSu m cn insn OR RTu m cn insn)) m"

definition mx_or :: "nat \<Rightarrow> u32 \<Rightarrow> machine \<Rightarrow> machine" where
  "mx_or cn insn m = setreg cn (insn_rd insn) (RSu m cn insn OR RTu m cn insn) m"

definition mx_ori :: "nat \<Rightarrow> u32 \<Rightarrow> machine \<Rightarrow> machine" where
  "mx_ori cn insn m = setreg cn (insn_rt insn) (RSu m cn insn OR insn_imm insn) m"

definition mx_xor :: "nat \<Rightarrow> u32 \<Rightarrow> machine \<Rightarrow> machine" where
  "mx_xor cn insn m = setreg cn (insn_rd insn) (RSu m cn insn XOR RTu m cn insn) m"

definition mx_xori :: "nat \<Rightarrow> u32 \<Rightarrow> machine \<Rightarrow> machine" where
  "mx_xori cn insn m = setreg cn (insn_rt insn) (RSu m cn insn XOR insn_imm insn) m"

definition mx_lui :: "nat \<Rightarrow> u32 \<Rightarrow> machine \<Rightarrow> machine" where
  "mx_lui cn insn m = setreg cn (insn_rt insn) (push_bit 16 (insn_imm insn)) m"

definition mx_sll :: "nat \<Rightarrow> u32 \<Rightarrow> machine \<Rightarrow> machine" where
  "mx_sll cn insn m = setreg cn (insn_rd insn) (push_bit (insn_sh insn) (RTu m cn insn)) m"

definition vshift :: "machine \<Rightarrow> nat \<Rightarrow> u32 \<Rightarrow> nat" where
  "vshift m cn insn = unat (RSu m cn insn AND 31)"

definition mx_sllv :: "nat \<Rightarrow> u32 \<Rightarrow> machine \<Rightarrow> machine" where
  "mx_sllv cn insn m = setreg cn (insn_rd insn) (push_bit (vshift m cn insn) (RTu m cn insn)) m"

definition signedshift :: "u32 \<Rightarrow> nat \<Rightarrow> u32" where
  "signedshift val amt =
     (let result = drop_bit amt val
      in if val AND 0x80000000 \<noteq> 0 then result OR push_bit (31 - amt) 0xffffffff else result)"

definition mx_sra :: "nat \<Rightarrow> u32 \<Rightarrow> machine \<Rightarrow> machine" where
  "mx_sra cn insn m = setreg cn (insn_rd insn) (signedshift (RTu m cn insn) (insn_sh insn)) m"

definition mx_srav :: "nat \<Rightarrow> u32 \<Rightarrow> machine \<Rightarrow> machine" where
  "mx_srav cn insn m =
     setreg cn (insn_rd insn) (signedshift (RTu m cn insn) (vshift m cn insn)) m"

definition mx_srl :: "nat \<Rightarrow> u32 \<Rightarrow> machine \<Rightarrow> machine" where
  "mx_srl cn insn m = setreg cn (insn_rd insn) (drop_bit (insn_sh insn) (RTu m cn insn)) m"

definition mx_srlv :: "nat \<Rightarrow> u32 \<Rightarrow> machine \<Rightarrow> machine" where
  "mx_srlv cn insn m = setreg cn (insn_rd insn) (drop_bit (vshift m cn insn) (RTu m cn insn)) m"

section \<open>Multiplication and division\<close>

definition hi_word :: "u64 \<Rightarrow> u32" where
  "hi_word t64 = ucast (drop_bit 32 (t64 AND 0xffffffff00000000))"

definition lo_word :: "u64 \<Rightarrow> u32" where
  "lo_word t64 = ucast (t64 AND 0x00000000ffffffff)"

definition mx_mult :: "nat \<Rightarrow> u32 \<Rightarrow> machine \<Rightarrow> machine" where
  "mx_mult cn insn =
     whilo cn (\<lambda>m.
       let t64 = word_of_int (sint (RSu m cn insn) * sint (RTu m cn insn)) :: u64
       in set_hilo cn (hi_word t64) (lo_word t64) m)"

definition mx_multu :: "nat \<Rightarrow> u32 \<Rightarrow> machine \<Rightarrow> machine" where
  "mx_multu cn insn =
     whilo cn (\<lambda>m.
       let t64 = ucast (RSu m cn insn) * ucast (RTu m cn insn) :: u64
       in set_hilo cn (hi_word t64) (lo_word t64) m)"

text \<open>The quotient of the least integer and -1 does not fit: C leaves the division undefined.\<close>

definition mx_div :: "nat \<Rightarrow> u32 \<Rightarrow> machine \<Rightarrow> machine" where
  "mx_div cn insn =
     whilo cn (\<lambda>m.
       let n = sint (RSu m cn insn); d = sint (RTu m cn insn) in
       if d = 0 then set_hilo cn 0 (if n < 0 then 0xffffffff else 0x7fffffff) m
       else if n = - (2 ^ 31) \<and> d = -1 then raise_fault Undefined m
       else set_hilo cn (word_of_int (n smod d)) (word_of_int (n sdiv d)) m)"

definition mx_divu :: "nat \<Rightarrow> u32 \<Rightarrow> machine \<Rightarrow> machine" where
  "mx_divu cn insn =
     whilo cn (\<lambda>m.
       let n = RSu m cn insn; d = RTu m cn insn in
       if d = 0 then set_hilo cn 0 0xffffffff m
       else set_hilo cn (n mod d) (n div d) m)"

definition mx_mfhi :: "nat \<Rightarrow> u32 \<Rightarrow> machine \<Rightarrow> machine" where
  "mx_mfhi cn insn =
     whi cn (\<lambda>m. upd_cpu cn (\<lambda>c. c\<lparr>hiwait := 2\<rparr>)
       (setreg cn (insn_rd insn) (hi_reg (mycpu m cn)) m))"

definition mx_mflo :: "nat \<Rightarrow> u32 \<Rightarrow> machine \<Rightarrow> machine" where
  "mx_mflo cn insn =
     wlo cn (\<lambda>m. upd_cpu cn (\<lambda>c. c\<lparr>lowait := 2\<rparr>)
       (setreg cn (insn_rd insn) (lo_reg (mycpu m cn)) m))"

definition mx_mthi :: "nat \<Rightarrow> u32 \<Rightarrow> machine \<Rightarrow> machine" where
  "mx_mthi cn insn =
     whi cn (\<lambda>m. upd_cpu cn (\<lambda>c. c\<lparr>hi_reg := RSu m cn insn, hiwait := 2\<rparr>) m)"

definition mx_mtlo :: "nat \<Rightarrow> u32 \<Rightarrow> machine \<Rightarrow> machine" where
  "mx_mtlo cn insn =
     wlo cn (\<lambda>m. upd_cpu cn (\<lambda>c. c\<lparr>lo_reg := RSu m cn insn, lowait := 2\<rparr>) m)"

section \<open>Jumps and branches\<close>

text \<open>\<open>smm << 2\<close>: the branch distance.\<close>

definition branch_rel :: "u32 \<Rightarrow> u32" where
  "branch_rel insn = push_bit 2 (insn_smm insn)"

definition mx_beq :: "nat \<Rightarrow> u32 \<Rightarrow> machine \<Rightarrow> machine" where
  "mx_beq cn insn m =
     (if RSu m cn insn = RTu m cn insn then rbranch cn (branch_rel insn) m else m)"

definition mx_bne :: "nat \<Rightarrow> u32 \<Rightarrow> machine \<Rightarrow> machine" where
  "mx_bne cn insn m =
     (if RSu m cn insn \<noteq> RTu m cn insn then rbranch cn (branch_rel insn) m else m)"

definition mx_bgez :: "nat \<Rightarrow> u32 \<Rightarrow> machine \<Rightarrow> machine" where
  "mx_bgez cn insn m = (if sint (RSu m cn insn) \<ge> 0 then rbranch cn (branch_rel insn) m else m)"

definition mx_bgezal :: "nat \<Rightarrow> u32 \<Rightarrow> machine \<Rightarrow> machine" where
  "mx_bgezal cn insn m0 =
     (let m = link cn 31 m0
      in if sint (RSu m cn insn) \<ge> 0 then rbranch cn (branch_rel insn) m else m)"

definition mx_bltz :: "nat \<Rightarrow> u32 \<Rightarrow> machine \<Rightarrow> machine" where
  "mx_bltz cn insn m = (if sint (RSu m cn insn) < 0 then rbranch cn (branch_rel insn) m else m)"

definition mx_bltzal :: "nat \<Rightarrow> u32 \<Rightarrow> machine \<Rightarrow> machine" where
  "mx_bltzal cn insn m0 =
     (let m = link cn 31 m0
      in if sint (RSu m cn insn) < 0 then rbranch cn (branch_rel insn) m else m)"

definition mx_bgtz :: "nat \<Rightarrow> u32 \<Rightarrow> machine \<Rightarrow> machine" where
  "mx_bgtz cn insn m = (if sint (RSu m cn insn) > 0 then rbranch cn (branch_rel insn) m else m)"

definition mx_blez :: "nat \<Rightarrow> u32 \<Rightarrow> machine \<Rightarrow> machine" where
  "mx_blez cn insn m = (if sint (RSu m cn insn) \<le> 0 then rbranch cn (branch_rel insn) m else m)"

definition mx_j :: "nat \<Rightarrow> u32 \<Rightarrow> machine \<Rightarrow> machine" where
  "mx_j cn insn m = ibranch cn (push_bit 2 (insn_targ insn)) m"

definition mx_jal :: "nat \<Rightarrow> u32 \<Rightarrow> machine \<Rightarrow> machine" where
  "mx_jal cn insn m =
     (let m1 = ibranch cn (push_bit 2 (insn_targ insn)) (link cn 31 m)
      in prof_call (pc (mycpu m1 cn)) (nextpc (mycpu m1 cn)) m1)"

definition mx_jr :: "nat \<Rightarrow> u32 \<Rightarrow> machine \<Rightarrow> machine" where
  "mx_jr cn insn m = abranch cn (RSu m cn insn) m"

definition mx_jalr :: "nat \<Rightarrow> u32 \<Rightarrow> machine \<Rightarrow> machine" where
  "mx_jalr cn insn m =
     (let m1 = link cn (insn_rd insn) m in abranch cn (RSu m1 cn insn) m1)"

section \<open>Loads and stores\<close>

definition mx_lb :: "nat \<Rightarrow> u32 \<Rightarrow> machine \<Rightarrow> machine" where
  "mx_lb cn insn m = doload cn S_SBYTE (insn_addr m cn insn) (insn_rt insn) m"

definition mx_lbu :: "nat \<Rightarrow> u32 \<Rightarrow> machine \<Rightarrow> machine" where
  "mx_lbu cn insn m = doload cn S_UBYTE (insn_addr m cn insn) (insn_rt insn) m"

definition mx_lh :: "nat \<Rightarrow> u32 \<Rightarrow> machine \<Rightarrow> machine" where
  "mx_lh cn insn m = doload cn S_SHALF (insn_addr m cn insn) (insn_rt insn) m"

definition mx_lhu :: "nat \<Rightarrow> u32 \<Rightarrow> machine \<Rightarrow> machine" where
  "mx_lhu cn insn m = doload cn S_UHALF (insn_addr m cn insn) (insn_rt insn) m"

definition mx_lwl :: "nat \<Rightarrow> u32 \<Rightarrow> machine \<Rightarrow> machine" where
  "mx_lwl cn insn m = doload cn S_WORDL (insn_addr m cn insn) (insn_rt insn) m"

definition mx_lwr :: "nat \<Rightarrow> u32 \<Rightarrow> machine \<Rightarrow> machine" where
  "mx_lwr cn insn m = doload cn S_WORDR (insn_addr m cn insn) (insn_rt insn) m"

text \<open>The fetch writes the register itself: \<open>Not_written\<close> leaves it.\<close>

definition fetch_reg :: "nat \<Rightarrow> nat \<Rightarrow> machine \<times> fetched \<Rightarrow> machine" where
  "fetch_reg cn rt r =
     (case r of (m1, Fetched v) \<Rightarrow> setreg cn rt v m1 | (m1, Not_written) \<Rightarrow> m1 | (m1, Bus_error) \<Rightarrow> m1)"

definition mx_lw :: "nat \<Rightarrow> u32 \<Rightarrow> machine \<Rightarrow> machine" where
  "mx_lw cn insn m =
     fetch_reg cn (insn_rt insn) (domem_fetch cn (insn_addr m cn insn) False m)"

definition mx_ll :: "nat \<Rightarrow> u32 \<Rightarrow> machine \<Rightarrow> machine" where
  "mx_ll cn insn m =
     (let addr = insn_addr m cn insn; r = domem_fetch cn addr False m; m1 = fetch_reg cn (insn_rt insn) r
      in if snd r = Bus_error then m1
         else addpercpu cn (\<lambda>s. s\<lparr>sp_lls := sp_lls s + 1\<rparr>)
           (upd_cpu cn (\<lambda>c. c\<lparr>ll_active := True, ll_addr := addr, ll_value := RTu m1 cn insn\<rparr>) m1))"

definition sc_fail :: "nat \<Rightarrow> u32 \<Rightarrow> machine \<Rightarrow> machine" where
  "sc_fail cn insn m =
     addpercpu cn (\<lambda>s. s\<lparr>sp_badscs := sp_badscs s + 1\<rparr>) (setreg cn (insn_rt insn) 0 m)"

definition mx_sc :: "nat \<Rightarrow> u32 \<Rightarrow> machine \<Rightarrow> machine" where
  "mx_sc cn insn m =
     (let addr = insn_addr m cn insn in
      if \<not> ll_active (mycpu m cn) then sc_fail cn insn m
      else if ll_addr (mycpu m cn) \<noteq> addr then sc_fail cn insn m
      else
        case domem_fetch cn addr True m of
          (m1, Bus_error) \<Rightarrow> m1
        | (m1, Not_written) \<Rightarrow> raise_fault Undefined m1
        | (m1, Fetched temp) \<Rightarrow>
            if temp \<noteq> ll_value (mycpu m1 cn) then sc_fail cn insn m1
            else
              case domem_store cn addr (RTu m1 cn insn) True m1 of
                (m2, False) \<Rightarrow> m2
              | (m2, True) \<Rightarrow>
                  addpercpu cn (\<lambda>s. s\<lparr>sp_okscs := sp_okscs s + 1\<rparr>) (setreg cn (insn_rt insn) 1 m2))"

definition mx_sb :: "nat \<Rightarrow> u32 \<Rightarrow> machine \<Rightarrow> machine" where
  "mx_sb cn insn m = dostore cn S_UBYTE (insn_addr m cn insn) (RTu m cn insn) m"

definition mx_sh :: "nat \<Rightarrow> u32 \<Rightarrow> machine \<Rightarrow> machine" where
  "mx_sh cn insn m = dostore cn S_UHALF (insn_addr m cn insn) (RTu m cn insn) m"

definition mx_sw :: "nat \<Rightarrow> u32 \<Rightarrow> machine \<Rightarrow> machine" where
  "mx_sw cn insn m = fst (domem_store cn (insn_addr m cn insn) (RTu m cn insn) True m)"

definition mx_swl :: "nat \<Rightarrow> u32 \<Rightarrow> machine \<Rightarrow> machine" where
  "mx_swl cn insn m = dostore cn S_WORDL (insn_addr m cn insn) (RTu m cn insn) m"

definition mx_swr :: "nat \<Rightarrow> u32 \<Rightarrow> machine \<Rightarrow> machine" where
  "mx_swr cn insn m = dostore cn S_WORDR (insn_addr m cn insn) (RTu m cn insn) m"

definition mx_lwc :: "nat \<Rightarrow> u32 \<Rightarrow> machine \<Rightarrow> machine" where
  "mx_lwc cn insn m = dolwc cn (insn_cn insn) m"

definition mx_swc :: "nat \<Rightarrow> u32 \<Rightarrow> machine \<Rightarrow> machine" where
  "mx_swc cn insn m = doswc cn (insn_cn insn) m"

text \<open>The caches themselves are not simulated: of the operations that name a line by address
  the translation is all that happens.\<close>

definition mx_cache :: "nat \<Rightarrow> u32 \<Rightarrow> machine \<Rightarrow> machine" where
  "mx_cache cn insn m =
     (if current_usermode (mycpu m cn) then exception cn EX_CPU 0 0 m
      else if insn_rt insn mod 8 \<ge> 4 then fst (translatemem cn (insn_addr m cn insn) False m)
      else m)"

definition mx_sync :: "nat \<Rightarrow> u32 \<Rightarrow> machine \<Rightarrow> machine" where
  "mx_sync cn insn m = addpercpu cn (\<lambda>s. s\<lparr>sp_syncs := sp_syncs s + 1\<rparr>) m"

section \<open>System instructions\<close>

definition mx_break :: "nat \<Rightarrow> u32 \<Rightarrow> machine \<Rightarrow> machine" where
  "mx_break cn insn m = exception cn EX_BP 0 0 m"

definition mx_syscall :: "nat \<Rightarrow> u32 \<Rightarrow> machine \<Rightarrow> machine" where
  "mx_syscall cn insn m = exception cn EX_SYS 0 0 m"

definition mx_ill :: "nat \<Rightarrow> u32 \<Rightarrow> machine \<Rightarrow> machine" where
  "mx_ill cn insn m = exception cn EX_RI 0 0 m"

definition mx_bcf :: "nat \<Rightarrow> u32 \<Rightarrow> machine \<Rightarrow> machine" where
  "mx_bcf cn insn m = exception cn EX_CPU (insn_cn insn) 0 m"

definition mx_bct :: "nat \<Rightarrow> u32 \<Rightarrow> machine \<Rightarrow> machine" where
  "mx_bct cn insn m = exception cn EX_CPU (insn_cn insn) 0 m"

definition mx_cf :: "nat \<Rightarrow> u32 \<Rightarrow> machine \<Rightarrow> machine" where
  "mx_cf cn insn m = exception cn EX_CPU (insn_cn insn) 0 m"

definition mx_ct :: "nat \<Rightarrow> u32 \<Rightarrow> machine \<Rightarrow> machine" where
  "mx_ct cn insn m = exception cn EX_CPU (insn_cn insn) 0 m"

definition mx_mf :: "nat \<Rightarrow> u32 \<Rightarrow> machine \<Rightarrow> machine" where
  "mx_mf cn insn m =
     (case domf cn (insn_cn insn) (insn_rd insn) (insn_sel insn) m of
        (m1, Some v) \<Rightarrow> setreg cn (insn_rt insn) v m1
      | (m1, None) \<Rightarrow> m1)"

definition mx_mt :: "nat \<Rightarrow> u32 \<Rightarrow> machine \<Rightarrow> machine" where
  "mx_mt cn insn m = domt cn (insn_cn insn) (insn_rd insn) (insn_sel insn) (RTu m cn insn) m"

definition mx_rfe :: "nat \<Rightarrow> u32 \<Rightarrow> machine \<Rightarrow> machine" where
  "mx_rfe cn insn m = do_rfe cn m"

definition mx_tlbp :: "nat \<Rightarrow> u32 \<Rightarrow> machine \<Rightarrow> machine" where
  "mx_tlbp cn insn m = probetlb cn m"

definition mx_tlbr :: "nat \<Rightarrow> u32 \<Rightarrow> machine \<Rightarrow> machine" where
  "mx_tlbr cn insn m = upd_cpu cn (\<lambda>c. c\<lparr>tlbentry := tlb c (tlbindex c)\<rparr>) m"

definition mx_tlbwi :: "nat \<Rightarrow> u32 \<Rightarrow> machine \<Rightarrow> machine" where
  "mx_tlbwi cn insn m = writetlb cn (int (tlbindex (mycpu m cn))) m"

definition mx_tlbwr :: "nat \<Rightarrow> u32 \<Rightarrow> machine \<Rightarrow> machine" where
  "mx_tlbwr cn insn m =
     (let m1 = upd_cpu cn tlbrandom_reduce m
      in writetlb cn (tlbrandom (mycpu m1 cn) + RANDREG_OFFSET) m1)"

definition mx_wait :: "nat \<Rightarrow> u32 \<Rightarrow> machine \<Rightarrow> machine" where
  "mx_wait cn insn m = do_wait cn m"

text \<open>The coprocessor instructions.\<close>

definition copz_table :: "(u32 \<times> (nat \<Rightarrow> u32 \<Rightarrow> machine \<Rightarrow> machine)) list" where
  "copz_table =
     [(1, mx_tlbr), (2, mx_tlbwi), (6, mx_tlbwr), (8, mx_tlbp), (16, mx_rfe), (32, mx_wait)]"

definition mx_bc :: "nat \<Rightarrow> u32 \<Rightarrow> machine \<Rightarrow> machine" where
  "mx_bc cn insn = (if insn AND 0x00010000 \<noteq> 0 then mx_bcf cn insn else mx_bct cn insn)"

definition copz_moves :: "(u32 \<times> (nat \<Rightarrow> u32 \<Rightarrow> machine \<Rightarrow> machine)) list" where
  "copz_moves = [(0, mx_mf), (2, mx_cf), (4, mx_mt), (6, mx_ct), (8, mx_bc), (12, mx_bc)]"

definition mx_copz :: "nat \<Rightarrow> u32 \<Rightarrow> machine \<Rightarrow> machine" where
  "mx_copz cn insn m =
     (let cop = insn_cn insn; copop = drop_bit 21 (insn AND 0x03e00000) in
      if cop \<noteq> 0 then exception cn EX_CPU cop 0 m
      else if current_usermode (mycpu m cn) then exception cn EX_CPU cop 0 m
      else if copop AND 0x10 \<noteq> 0 then switch copz_table mx_ill (insn AND 0x01ffffff) cn insn m
      else switch copz_moves mx_ill copop cn insn m)"

section \<open>Lemmas\<close>

lemma chkovf_range: "chkovf v \<longleftrightarrow> - (2 ^ 31) \<le> v \<and> v < 2 ^ 31"
  by (simp add: chkovf_def sint_sbintrunc' signed_take_bit_int_eq_self_iff)

text \<open>The halves of a 64-bit product.\<close>

lemma uint_hi_lo: "uint (hi_word t) * 2 ^ 32 + uint (lo_word t) = uint t"
proof -
  have h: "hi_word t = ucast (drop_bit 32 t)"
    by (rule bit_word_eqI)
      (auto simp: hi_word_def bit_ops bit_full_mask bit_ones [of 32 32, simplified mask_eq_exp_minus_1])
  have l: "lo_word t = ucast t"
    by (rule bit_word_eqI) (auto simp: lo_word_def bit_ops bit_full_mask)
  have "uint t div 2 ^ 32 < 2 ^ 32"
    using uint_lt2p [of t] by (simp add: div_less_iff_less_mult)
  then have "uint (hi_word t) = uint t div 2 ^ 32"
    by (simp add: h unsigned_ucast_eq drop_bit_eq_div uint_div take_bit_int_eq_self_iff
        pos_imp_zdiv_nonneg_iff)
  moreover have "uint (lo_word t) = uint t mod 2 ^ 32"
    by (simp add: l unsigned_ucast_eq take_bit_eq_mod)
  ultimately show ?thesis by simp
qed

lemma sint_hi_lo: "sint (hi_word t) * 2 ^ 32 + uint (lo_word t) = sint t"
proof -
  have split: "(h - (if h < 2 ^ 31 then 0 else 2 ^ 32)) * 2 ^ 32 + l = t - (if t < 2 ^ 63 then 0 else 2 ^ 64)"
    if "h * 2 ^ 32 + l = t" "0 \<le> l" "l < 2 ^ 32" for h l t :: int
    using that by auto
  show ?thesis unfolding sint32 sint64
    by (rule split [OF uint_hi_lo]) (use uint_lt2p [of "lo_word t"] in simp_all)
qed

lemma sint_product:
  "sint (word_of_int (sint (a::u32) * sint (b::u32)) :: u64) = sint a * sint b"
proof -
  have "\<bar>sint a\<bar> \<le> 2 ^ 31" "\<bar>sint b\<bar> \<le> 2 ^ 31"
    using sint32_range [of a] sint32_range [of b] by auto
  then have "\<bar>sint a * sint b\<bar> \<le> 2 ^ 31 * 2 ^ 31"
    unfolding abs_mult by (rule mult_mono) simp_all
  then have "- (2 ^ 63) \<le> sint a * sint b" "sint a * sint b < 2 ^ 63" by (simp_all add: abs_le_iff)
  then show ?thesis by (simp only: sint_sbintrunc' signed_take_bit_int_eq_self_iff) simp
qed

lemma uint_product: "uint (ucast (a::u32) * ucast (b::u32) :: u64) = uint a * uint b"
proof -
  have u: "uint (ucast x :: u64) = uint x" for x :: u32
    using uint_lt2p [of x] by (simp add: unsigned_ucast_eq take_bit_int_eq_self_iff)
  have "uint a * uint b < 2 ^ 32 * 2 ^ 32"
    using uint_lt2p [of a] uint_lt2p [of b] by (intro mult_strict_mono') simp_all
  then show ?thesis by (simp only: uint_word_ariths u) (simp add: mod_pos_pos_trivial)
qed

lemma signedshift_drop:
  assumes "amt < 32"
  shows "signedshift v amt = signed_drop_bit amt v"
proof (rule bit_word_eqI)
  fix n :: nat
  assume "n < LENGTH(32)"
  then have n: "n < 32" by simp
  have s: "bit (signedshift v amt) n \<longleftrightarrow> bit v (amt + n) \<or> bit v 31 \<and> 31 - amt \<le> n"
    using n and_exp_eq_0_iff_not_bit [of v 31]
    by (auto simp: signedshift_def Let_def bit_ops bit_full_mask)
  consider "amt + n < 31" | "amt + n = 31" | "31 < amt + n" by linarith
  then show "bit (signedshift v amt) n = bit (signed_drop_bit amt v) n"
    using n assms by cases (auto simp: s bit_signed_drop_bit_iff dest: bit_imp_le_length)
qed

lemma insn_sh_range: "insn_sh insn < 32"
proof -
  have "insn_sh insn = unat (drop_bit 6 insn AND mask 5)"
    unfolding insn_sh_def
    by (rule arg_cong [where f = unat], rule bit_word_eqI)
      (auto simp: bit_ops bit_mask_iff bit_ones [of 6 5, simplified mask_eq_exp_minus_1, simplified]
        bit_ones [of 0 5, simplified mask_eq_exp_minus_1, simplified])
  also have "\<dots> < 32" by (simp only: unat_and_mask) simp
  finally show ?thesis .
qed

lemma vshift_range: "vshift m cn insn < 32"
  using unat_and_mask [of "RSu m cn insn" 5] by (simp add: vshift_def mask_eq_exp_minus_1)

lemma signedshift_floor:
  assumes "amt < 32"
  shows "signedshift v amt = word_of_int (sint v div 2 ^ amt)"
proof -
  have "signedshift v amt = word_of_int (sint (signed_drop_bit amt v))"
    by (simp add: signedshift_drop [OF assms])
  then show ?thesis by (simp only: sint_signed_drop_bit_eq drop_bit_eq_div)
qed

lemma setreg_keeps [simp]:
  "hi_reg (mycpu (setreg cn n v m) cn) = hi_reg (mycpu m cn)"
  "lo_reg (mycpu (setreg cn n v m) cn) = lo_reg (mycpu m cn)"
  "ll_active (mycpu (setreg cn n v m) cn) = ll_active (mycpu m cn)"
  "ll_addr (mycpu (setreg cn n v m) cn) = ll_addr (mycpu m cn)"
  "ll_value (mycpu (setreg cn n v m) cn) = ll_value (mycpu m cn)"
  by (simp_all add: setreg_def)

lemma set_hilo_sels [simp]:
  "hi_reg (mycpu (set_hilo cn h l m) cn) = h" "lo_reg (mycpu (set_hilo cn h l m) cn) = l"
  by (simp_all add: set_hilo_def)

section \<open>Properties\<close>

lemma signed_arith_exact_facts:
  "mx_add cn insn m =
     (let s = sint (RSu m cn insn) + sint (RTu m cn insn) in
      if - (2 ^ 31) \<le> s \<and> s < 2 ^ 31 then setreg cn (insn_rd insn) (RSu m cn insn + RTu m cn insn) m
      else exception cn EX_OVF 0 0 m)"
  "mx_addi cn insn m =
     (let s = sint (RSu m cn insn) + sint (insn_smm insn) in
      if - (2 ^ 31) \<le> s \<and> s < 2 ^ 31 then setreg cn (insn_rt insn) (RSu m cn insn + insn_smm insn) m
      else exception cn EX_OVF 0 0 m)"
  "mx_sub cn insn m =
     (let s = sint (RSu m cn insn) - sint (RTu m cn insn) in
      if - (2 ^ 31) \<le> s \<and> s < 2 ^ 31 then setreg cn (insn_rd insn) (RSu m cn insn - RTu m cn insn) m
      else exception cn EX_OVF 0 0 m)"
  by (simp_all add: mx_add_def mx_addi_def mx_sub_def chkovf_range Let_def)

text \<open>C38: \<open>add\<close>, \<open>addi\<close> and \<open>sub\<close> compute in the integers: if the exact result fits a
  register it is written, otherwise the overflow exception is taken and no register changes.\<close>

theorem signed_arith_exact:
  "(mx_add cn insn m =
     (let s = sint (RSu m cn insn) + sint (RTu m cn insn) in
      if - (2 ^ 31) \<le> s \<and> s < 2 ^ 31 then setreg cn (insn_rd insn) (RSu m cn insn + RTu m cn insn) m
      else exception cn EX_OVF 0 0 m)) \<and>
    (mx_addi cn insn m =
     (let s = sint (RSu m cn insn) + sint (insn_smm insn) in
      if - (2 ^ 31) \<le> s \<and> s < 2 ^ 31 then setreg cn (insn_rt insn) (RSu m cn insn + insn_smm insn) m
      else exception cn EX_OVF 0 0 m)) \<and>
    (mx_sub cn insn m =
     (let s = sint (RSu m cn insn) - sint (RTu m cn insn) in
      if - (2 ^ 31) \<le> s \<and> s < 2 ^ 31 then setreg cn (insn_rd insn) (RSu m cn insn - RTu m cn insn) m
      else exception cn EX_OVF 0 0 m))"
  by (intro conjI signed_arith_exact_facts)

lemma arithmetic_shift_floor_facts:
  "mx_sra cn insn m =
     setreg cn (insn_rd insn) (word_of_int (sint (RTu m cn insn) div 2 ^ insn_sh insn)) m"
  "mx_srav cn insn m =
     setreg cn (insn_rd insn)
       (word_of_int (sint (RTu m cn insn) div 2 ^ unat (RSu m cn insn AND 31))) m"
  by (simp_all only: mx_sra_def mx_srav_def signedshift_floor [OF insn_sh_range]
      signedshift_floor [OF vshift_range] vshift_def [symmetric])

text \<open>The arithmetic right shifts, whose sign bits the code fills in by hand, are the division
  by a power of two that rounds down.\<close>

theorem arithmetic_shift_floor:
  "(mx_sra cn insn m =
     setreg cn (insn_rd insn) (word_of_int (sint (RTu m cn insn) div 2 ^ insn_sh insn)) m) \<and>
    (mx_srav cn insn m =
     setreg cn (insn_rd insn)
       (word_of_int (sint (RTu m cn insn) div 2 ^ unat (RSu m cn insn AND 31))) m)"
  by (intro conjI arithmetic_shift_floor_facts)

lemma multiply_exact_facts:
  assumes "hiwait (mycpu m cn) \<le> 0" "lowait (mycpu m cn) \<le> 0"
  shows "let c = mycpu (mx_mult cn insn m) cn in
      sint (hi_reg c) * 2 ^ 32 + uint (lo_reg c) = sint (RSu m cn insn) * sint (RTu m cn insn)"
    "let c = mycpu (mx_multu cn insn m) cn in
      uint (hi_reg c) * 2 ^ 32 + uint (lo_reg c) = uint (RSu m cn insn) * uint (RTu m cn insn)"
  using assms
  by (simp_all only: mx_mult_def mx_multu_def whilo_def not_less [symmetric] simp_thms if_False Let_def
      set_hilo_sels sint_hi_lo uint_hi_lo sint_product uint_product)

text \<open>When the multiplier is not busy, \<open>hi\<close> and \<open>lo\<close> together hold the exact 64-bit product,
  signed or unsigned.\<close>

theorem multiply_exact:
  assumes "hiwait (mycpu m cn) \<le> 0" "lowait (mycpu m cn) \<le> 0"
  shows "(let c = mycpu (mx_mult cn insn m) cn in
      sint (hi_reg c) * 2 ^ 32 + uint (lo_reg c) = sint (RSu m cn insn) * sint (RTu m cn insn)) \<and>
    (let c = mycpu (mx_multu cn insn m) cn in
      uint (hi_reg c) * 2 ^ 32 + uint (lo_reg c) = uint (RSu m cn insn) * uint (RTu m cn insn))"
  using multiply_exact_facts[OF assms] by simp

lemma divide_exact_facts:
  assumes "hiwait (mycpu m cn) \<le> 0" "lowait (mycpu m cn) \<le> 0" "RTu m cn insn \<noteq> 0"
    and "\<not> (sint (RSu m cn insn) = - (2 ^ 31) \<and> sint (RTu m cn insn) = -1)"
  shows "let c = mycpu (mx_div cn insn m) cn; a = sint (RSu m cn insn); b = sint (RTu m cn insn);
             q = sint (lo_reg c); r = sint (hi_reg c)
    in a = q * b + r \<and> \<bar>r\<bar> < \<bar>b\<bar> \<and> (r = 0 \<or> sgn r = sgn a)"
    "let c = mycpu (mx_divu cn insn m) cn; a = unat (RSu m cn insn); b = unat (RTu m cn insn);
         q = unat (lo_reg c); r = unat (hi_reg c)
    in a = q * b + r \<and> r < b"
proof -
  let ?a = "sint (RSu m cn insn)" and ?b = "sint (RTu m cn insn)"
  have w: "\<not> (hiwait (mycpu m cn) > 0 \<or> lowait (mycpu m cn) > 0)" using assms(1,2) by simp
  have b: "?b \<noteq> 0" using assms(3) by (metis signed_word_eqI signed_0)
  have q: "sint (word_of_int (?a sdiv ?b) :: u32) = ?a sdiv ?b"
    by (intro sint_of_range sdiv_range sint32_range b assms(4))
  have "\<bar>?a smod ?b\<bar> < 2 ^ 31"
    using smod_range(1) [OF b, of ?a] sint32_range [of "RTu m cn insn"] by (auto simp: abs_if split: if_splits)
  then have r: "sint (word_of_int (?a smod ?b) :: u32) = ?a smod ?b"
    by (intro sint_of_range) (auto simp: abs_less_iff)
  have d: "mx_div cn insn m = set_hilo cn (word_of_int (?a smod ?b)) (word_of_int (?a sdiv ?b)) m"
    unfolding mx_div_def whilo_def Let_def if_not_P [OF w] if_not_P [OF b] if_not_P [OF assms(4)] ..
  show "let c = mycpu (mx_div cn insn m) cn; a = ?a; b = ?b; q = sint (lo_reg c); r = sint (hi_reg c)
    in a = q * b + r \<and> \<bar>r\<bar> < \<bar>b\<bar> \<and> (r = 0 \<or> sgn r = sgn a)"
    unfolding d Let_def set_hilo_sels q r using smod_range [OF b, of ?a] by simp
  have du: "mx_divu cn insn m =
      set_hilo cn (RSu m cn insn mod RTu m cn insn) (RSu m cn insn div RTu m cn insn) m"
    unfolding mx_divu_def whilo_def Let_def if_not_P [OF w] if_not_P [OF assms(3)] ..
  have "0 < unat (RTu m cn insn)" using assms(3) by (simp add: unat_gt_0)
  then show "let c = mycpu (mx_divu cn insn m) cn; a = unat (RSu m cn insn); b = unat (RTu m cn insn);
         q = unat (lo_reg c); r = unat (hi_reg c)
    in a = q * b + r \<and> r < b"
    unfolding du Let_def set_hilo_sels by (simp add: unat_div unat_mod)
qed

text \<open>When the multiplier is not busy and the divisor is not zero, \<open>div\<close> leaves the quotient
  and the remainder of the division that rounds towards zero, except for the one quotient that
  does not fit, and \<open>divu\<close> those of the unsigned division.\<close>

theorem divide_exact:
  assumes "hiwait (mycpu m cn) \<le> 0" "lowait (mycpu m cn) \<le> 0" "RTu m cn insn \<noteq> 0"
    and "\<not> (sint (RSu m cn insn) = - (2 ^ 31) \<and> sint (RTu m cn insn) = -1)"
  shows "(let c = mycpu (mx_div cn insn m) cn; a = sint (RSu m cn insn); b = sint (RTu m cn insn);
             q = sint (lo_reg c); r = sint (hi_reg c)
    in a = q * b + r \<and> \<bar>r\<bar> < \<bar>b\<bar> \<and> (r = 0 \<or> sgn r = sgn a)) \<and>
    (let c = mycpu (mx_divu cn insn m) cn; a = unat (RSu m cn insn); b = unat (RTu m cn insn);
         q = unat (lo_reg c); r = unat (hi_reg c)
    in a = q * b + r \<and> r < b)"
  using divide_exact_facts[OF assms] by simp

lemma addpercpu_sels [simp]:
  "mycpus (addpercpu cn f m) = mycpus m" "ram (addpercpu cn f m) = ram m"
  "getreg (addpercpu cn f m) cn' n = getreg m cn' n"
  by (simp_all add: addpercpu_def upd_percpu_def getreg_def)

lemma upd_ram_sels [simp]:
  "getreg (m\<lparr>ram := b\<rparr>) cn n = getreg m cn n" "RTu (m\<lparr>ram := b\<rparr>) cn insn = RTu m cn insn"
  by (simp_all add: getreg_def RTu_def)

lemma mx_sc_direct:
  assumes "direct_ram m cn (insn_addr m cn insn)"
  shows "mx_sc cn insn m =
    (if ll_active (mycpu m cn) \<and> ll_addr (mycpu m cn) = insn_addr m cn insn \<and>
        be_word (ram m) (insn_addr m cn insn - KSEG0) = ll_value (mycpu m cn)
     then addpercpu cn (\<lambda>s. s\<lparr>sp_okscs := sp_okscs s + 1\<rparr>)
       (setreg cn (insn_rt insn) 1
         (m\<lparr>ram := be_store (ram m) (insn_addr m cn insn - KSEG0) (RTu m cn insn)\<rparr>))
     else sc_fail cn insn m)"
  by (simp add: mx_sc_def direct_fetch [OF assms] direct_store [OF assms] Let_def)

lemma mx_ll_direct:
  assumes "direct_ram m cn (insn_addr m cn insn)"
  shows "ll_active (mycpu (mx_ll cn insn m) cn)"
    "ll_addr (mycpu (mx_ll cn insn m) cn) = insn_addr m cn insn"
    "ll_value (mycpu (mx_ll cn insn m) cn) = be_word (ram m) (insn_addr m cn insn - KSEG0)"
    "getreg (mx_ll cn insn m) cn (insn_rt insn) = be_word (ram m) (insn_addr m cn insn - KSEG0)"
  by (simp_all add: mx_ll_def fetch_reg_def direct_fetch [OF assms] Let_def RTu_def getreg_def setreg_def)

lemma ll_sc_atomic_facts:
  assumes "direct_ram m cn (insn_addr m cn i1)" "m1 = mx_ll cn i1 m"
    and "ll_active (mycpu m2 cn) \<Longrightarrow>
      ll_addr (mycpu m2 cn) = ll_addr (mycpu m1 cn) \<and> ll_value (mycpu m2 cn) = ll_value (mycpu m1 cn)"
    and "direct_ram m2 cn (insn_addr m2 cn i2)" "m3 = mx_sc cn i2 m2"
  shows "getreg m3 cn (insn_rt i2) =
      (if ll_active (mycpu m2 cn) \<and> insn_addr m2 cn i2 = insn_addr m cn i1 \<and>
          bus_mem_fetch m2 (insn_addr m cn i1 - KSEG0) = Some (getreg m1 cn (insn_rt i1)) then 1 else 0)"
    "getreg m3 cn (insn_rt i2) = 1 \<Longrightarrow>
       ram m3 = be_store (ram m2) (insn_addr m cn i1 - KSEG0) (RTu m2 cn i2)"
    "getreg m3 cn (insn_rt i2) = 0 \<Longrightarrow> ram m3 = ram m2"
proof -
  note ll = mx_ll_direct [OF assms(1)]
  note sc = mx_sc_direct [OF assms(4)]
  have link: "ll_addr (mycpu m2 cn) = insn_addr m cn i1" "ll_value (mycpu m2 cn) = getreg m1 cn (insn_rt i1)"
    if "ll_active (mycpu m2 cn)"
    using ll assms(2) assms(3) [OF that] by simp_all
  have f: "bus_mem_fetch m2 (insn_addr m2 cn i2 - KSEG0) =
      Some (be_word (ram m2) (insn_addr m2 cn i2 - KSEG0))"
    using assms(4) by (simp add: bus_mem_fetch_def direct_ram_def not_le be_word_def)
  have "m3 =
    (if ll_active (mycpu m2 cn) \<and> insn_addr m2 cn i2 = insn_addr m cn i1 \<and>
        bus_mem_fetch m2 (insn_addr m cn i1 - KSEG0) = Some (getreg m1 cn (insn_rt i1))
     then addpercpu cn (\<lambda>s. s\<lparr>sp_okscs := sp_okscs s + 1\<rparr>)
       (setreg cn (insn_rt i2) 1
         (m2\<lparr>ram := be_store (ram m2) (insn_addr m cn i1 - KSEG0) (RTu m2 cn i2)\<rparr>))
     else sc_fail cn i2 m2)"
    unfolding assms(5) sc using link f by (cases "ll_active (mycpu m2 cn) \<and> insn_addr m2 cn i2 = insn_addr m cn i1") auto
  then show "getreg m3 cn (insn_rt i2) =
      (if ll_active (mycpu m2 cn) \<and> insn_addr m2 cn i2 = insn_addr m cn i1 \<and>
          bus_mem_fetch m2 (insn_addr m cn i1 - KSEG0) = Some (getreg m1 cn (insn_rt i1)) then 1 else 0)"
    "getreg m3 cn (insn_rt i2) = 1 \<Longrightarrow>
       ram m3 = be_store (ram m2) (insn_addr m cn i1 - KSEG0) (RTu m2 cn i2)"
    "getreg m3 cn (insn_rt i2) = 0 \<Longrightarrow> ram m3 = ram m2"
    by (auto simp: sc_fail_def split: if_splits)
qed

text \<open>C16: A load-linked of a word of RAM that the kernel reaches directly (through kseg0), then anything but
  another load-linked of this cpu: the link may be broken, but not moved; memory and all other cpus may
  change as they like. Then a store-conditional to such a word answers 1 exactly if the link was not broken,
  the address is the same and the word holds the value that was loaded, and then it has stored; in every
  other case it answers 0 and memory is as it was.\<close>

theorem ll_sc_atomic:
  assumes "direct_ram m cn (insn_addr m cn i1)" "m1 = mx_ll cn i1 m"
    and "ll_active (mycpu m2 cn) \<Longrightarrow>
      ll_addr (mycpu m2 cn) = ll_addr (mycpu m1 cn) \<and> ll_value (mycpu m2 cn) = ll_value (mycpu m1 cn)"
    and "direct_ram m2 cn (insn_addr m2 cn i2)" "m3 = mx_sc cn i2 m2"
  shows "(getreg m3 cn (insn_rt i2) =
      (if ll_active (mycpu m2 cn) \<and> insn_addr m2 cn i2 = insn_addr m cn i1 \<and>
          bus_mem_fetch m2 (insn_addr m cn i1 - KSEG0) = Some (getreg m1 cn (insn_rt i1)) then 1 else 0)) \<and>
    (getreg m3 cn (insn_rt i2) = 1 \<longrightarrow>
       ram m3 = be_store (ram m2) (insn_addr m cn i1 - KSEG0) (RTu m2 cn i2)) \<and>
    (getreg m3 cn (insn_rt i2) = 0 \<longrightarrow> ram m3 = ram m2)"
  using ll_sc_atomic_facts [OF assms] by simp

end
