(* ===== verification/Mips_Cycle.thy ===== *)
theory Mips_Cycle
  imports Mips_Insns
begin

text \<open>
  Decoding and one cycle of every processor (\<open>mipseb/mips-insn.h\<close>, and \<open>cpu_cycle\<close> and
  \<open>cpu_cycles\<close> of \<open>mipseb/mipscore.h\<close>). The \<open>switch\<close> statements are tables from opcodes to the
  functions of \<open>Mips_Insns\<close>.
\<close>

section \<open>Opcodes\<close>

definition OPM_SPECIAL :: u32 where "OPM_SPECIAL = 0"
definition OPM_BCOND :: u32 where "OPM_BCOND = 1"
definition OPM_J :: u32 where "OPM_J = 2"
definition OPM_JAL :: u32 where "OPM_JAL = 3"
definition OPM_BEQ :: u32 where "OPM_BEQ = 4"
definition OPM_BNE :: u32 where "OPM_BNE = 5"
definition OPM_BLEZ :: u32 where "OPM_BLEZ = 6"
definition OPM_BGTZ :: u32 where "OPM_BGTZ = 7"
definition OPM_ADDI :: u32 where "OPM_ADDI = 8"
definition OPM_ADDIU :: u32 where "OPM_ADDIU = 9"
definition OPM_SLTI :: u32 where "OPM_SLTI = 10"
definition OPM_SLTIU :: u32 where "OPM_SLTIU = 11"
definition OPM_ANDI :: u32 where "OPM_ANDI = 12"
definition OPM_ORI :: u32 where "OPM_ORI = 13"
definition OPM_XORI :: u32 where "OPM_XORI = 14"
definition OPM_LUI :: u32 where "OPM_LUI = 15"
definition OPM_COP0 :: u32 where "OPM_COP0 = 16"
definition OPM_COP1 :: u32 where "OPM_COP1 = 17"
definition OPM_COP2 :: u32 where "OPM_COP2 = 18"
definition OPM_COP3 :: u32 where "OPM_COP3 = 19"
definition OPM_LB :: u32 where "OPM_LB = 32"
definition OPM_LH :: u32 where "OPM_LH = 33"
definition OPM_LWL :: u32 where "OPM_LWL = 34"
definition OPM_LW :: u32 where "OPM_LW = 35"
definition OPM_LBU :: u32 where "OPM_LBU = 36"
definition OPM_LHU :: u32 where "OPM_LHU = 37"
definition OPM_LWR :: u32 where "OPM_LWR = 38"
definition OPM_SB :: u32 where "OPM_SB = 40"
definition OPM_SH :: u32 where "OPM_SH = 41"
definition OPM_SWL :: u32 where "OPM_SWL = 42"
definition OPM_SW :: u32 where "OPM_SW = 43"
definition OPM_SWR :: u32 where "OPM_SWR = 46"
definition OPM_CACHE :: u32 where "OPM_CACHE = 47"
definition OPM_LWC0 :: u32 where "OPM_LWC0 = 48"
definition OPM_LWC1 :: u32 where "OPM_LWC1 = 49"
definition OPM_LWC2 :: u32 where "OPM_LWC2 = 50"
definition OPM_LWC3 :: u32 where "OPM_LWC3 = 51"
definition OPM_SWC0 :: u32 where "OPM_SWC0 = 56"
definition OPM_SWC1 :: u32 where "OPM_SWC1 = 57"
definition OPM_SWC2 :: u32 where "OPM_SWC2 = 58"
definition OPM_SWC3 :: u32 where "OPM_SWC3 = 59"

definition OPS_SLL :: u32 where "OPS_SLL = 0"
definition OPS_SRL :: u32 where "OPS_SRL = 2"
definition OPS_SRA :: u32 where "OPS_SRA = 3"
definition OPS_SLLV :: u32 where "OPS_SLLV = 4"
definition OPS_SRLV :: u32 where "OPS_SRLV = 6"
definition OPS_SRAV :: u32 where "OPS_SRAV = 7"
definition OPS_JR :: u32 where "OPS_JR = 8"
definition OPS_JALR :: u32 where "OPS_JALR = 9"
definition OPS_SYSCALL :: u32 where "OPS_SYSCALL = 12"
definition OPS_BREAK :: u32 where "OPS_BREAK = 13"
definition OPS_SYNC :: u32 where "OPS_SYNC = 15"
definition OPS_MFHI :: u32 where "OPS_MFHI = 16"
definition OPS_MTHI :: u32 where "OPS_MTHI = 17"
definition OPS_MFLO :: u32 where "OPS_MFLO = 18"
definition OPS_MTLO :: u32 where "OPS_MTLO = 19"
definition OPS_MULT :: u32 where "OPS_MULT = 24"
definition OPS_MULTU :: u32 where "OPS_MULTU = 25"
definition OPS_DIV :: u32 where "OPS_DIV = 26"
definition OPS_DIVU :: u32 where "OPS_DIVU = 27"
definition OPS_ADD :: u32 where "OPS_ADD = 32"
definition OPS_ADDU :: u32 where "OPS_ADDU = 33"
definition OPS_SUB :: u32 where "OPS_SUB = 34"
definition OPS_SUBU :: u32 where "OPS_SUBU = 35"
definition OPS_AND :: u32 where "OPS_AND = 36"
definition OPS_OR :: u32 where "OPS_OR = 37"
definition OPS_XOR :: u32 where "OPS_XOR = 38"
definition OPS_NOR :: u32 where "OPS_NOR = 39"
definition OPS_SLT :: u32 where "OPS_SLT = 42"
definition OPS_SLTU :: u32 where "OPS_SLTU = 43"

lemmas OP_defs =
  OPM_SPECIAL_def OPM_BCOND_def OPM_J_def OPM_JAL_def OPM_BEQ_def OPM_BNE_def OPM_BLEZ_def
  OPM_BGTZ_def OPM_ADDI_def OPM_ADDIU_def OPM_SLTI_def OPM_SLTIU_def OPM_ANDI_def OPM_ORI_def
  OPM_XORI_def OPM_LUI_def OPM_COP0_def OPM_COP1_def OPM_COP2_def OPM_COP3_def OPM_LB_def
  OPM_LH_def OPM_LWL_def OPM_LW_def OPM_LBU_def OPM_LHU_def OPM_LWR_def OPM_SB_def OPM_SH_def
  OPM_SWL_def OPM_SW_def OPM_SWR_def OPM_CACHE_def OPM_LWC0_def OPM_LWC1_def OPM_LWC2_def
  OPM_LWC3_def OPM_SWC0_def OPM_SWC1_def OPM_SWC2_def OPM_SWC3_def OPS_SLL_def OPS_SRL_def
  OPS_SRA_def OPS_SLLV_def OPS_SRLV_def OPS_SRAV_def OPS_JR_def OPS_JALR_def OPS_SYSCALL_def
  OPS_BREAK_def OPS_SYNC_def OPS_MFHI_def OPS_MTHI_def OPS_MFLO_def OPS_MTLO_def OPS_MULT_def
  OPS_MULTU_def OPS_DIV_def OPS_DIVU_def OPS_ADD_def OPS_ADDU_def OPS_SUB_def OPS_SUBU_def
  OPS_AND_def OPS_OR_def OPS_XOR_def OPS_NOR_def OPS_SLT_def OPS_SLTU_def

section \<open>The tables\<close>

text \<open>A \<open>BREAK\<close> the debugger can take does not get here: the cycle looks for it first.\<close>

definition special_table :: "(u32 \<times> (nat \<Rightarrow> u32 \<Rightarrow> machine \<Rightarrow> machine)) list" where
  "special_table =
     [(OPS_SLL, mx_sll), (OPS_SRL, mx_srl), (OPS_SRA, mx_sra), (OPS_SLLV, mx_sllv),
      (OPS_SRLV, mx_srlv), (OPS_SRAV, mx_srav), (OPS_JR, mx_jr), (OPS_JALR, mx_jalr),
      (OPS_SYSCALL, mx_syscall), (OPS_BREAK, mx_break), (OPS_SYNC, mx_sync), (OPS_MFHI, mx_mfhi),
      (OPS_MTHI, mx_mthi), (OPS_MFLO, mx_mflo), (OPS_MTLO, mx_mtlo), (OPS_MULT, mx_mult),
      (OPS_MULTU, mx_multu), (OPS_DIV, mx_div), (OPS_DIVU, mx_divu), (OPS_ADD, mx_add),
      (OPS_ADDU, mx_addu), (OPS_SUB, mx_sub), (OPS_SUBU, mx_subu), (OPS_AND, mx_and),
      (OPS_OR, mx_or), (OPS_XOR, mx_xor), (OPS_NOR, mx_nor), (OPS_SLT, mx_slt),
      (OPS_SLTU, mx_sltu)]"

definition bcond_table :: "(u32 \<times> (nat \<Rightarrow> u32 \<Rightarrow> machine \<Rightarrow> machine)) list" where
  "bcond_table =
     [(0, mx_bltz), (1, mx_bgez), (16, mx_bltzal), (17, mx_bgezal)]"

definition main_table :: "(u32 \<times> (nat \<Rightarrow> u32 \<Rightarrow> machine \<Rightarrow> machine)) list" where
  "main_table =
     [(OPM_J, mx_j), (OPM_JAL, mx_jal), (OPM_BEQ, mx_beq), (OPM_BNE, mx_bne),
      (OPM_BLEZ, mx_blez), (OPM_BGTZ, mx_bgtz), (OPM_ADDI, mx_addi), (OPM_ADDIU, mx_addiu),
      (OPM_SLTI, mx_slti), (OPM_SLTIU, mx_sltiu), (OPM_ANDI, mx_andi), (OPM_ORI, mx_ori),
      (OPM_XORI, mx_xori), (OPM_LUI, mx_lui), (OPM_COP0, mx_copz), (OPM_COP1, mx_copz),
      (OPM_COP2, mx_copz), (OPM_COP3, mx_copz), (OPM_LB, mx_lb), (OPM_LH, mx_lh),
      (OPM_LWL, mx_lwl), (OPM_LW, mx_lw), (OPM_LBU, mx_lbu), (OPM_LHU, mx_lhu),
      (OPM_LWR, mx_lwr), (OPM_SB, mx_sb), (OPM_SH, mx_sh), (OPM_SWL, mx_swl), (OPM_SW, mx_sw),
      (OPM_SWR, mx_swr), (OPM_CACHE, mx_cache), (OPM_LWC0, mx_ll), (OPM_LWC1, mx_lwc),
      (OPM_LWC2, mx_lwc), (OPM_LWC3, mx_lwc), (OPM_SWC0, mx_sc), (OPM_SWC1, mx_swc),
      (OPM_SWC2, mx_swc), (OPM_SWC3, mx_swc)]"

definition insn_op :: "u32 \<Rightarrow> u32" where
  "insn_op insn = drop_bit 26 (insn AND 0xfc000000)"

definition exec_insn :: "nat \<Rightarrow> u32 \<Rightarrow> machine \<Rightarrow> machine" where
  "exec_insn cn insn =
     (if insn_op insn = OPM_SPECIAL then switch special_table mx_ill (insn AND 0x3f) cn insn
      else if insn_op insn = OPM_BCOND then
        switch bcond_table mx_ill (drop_bit 16 (insn AND 0x001f0000)) cn insn
      else switch main_table mx_ill (insn_op insn) cn insn)"

definition is_break :: "u32 \<Rightarrow> bool" where
  "is_break insn \<longleftrightarrow> insn_op insn = OPM_SPECIAL \<and> insn AND 0x3f = OPS_BREAK"

section \<open>One cycle of one processor\<close>

text \<open>First the exception pc, and the flag that says this is the delay slot of a jump.\<close>

definition begin_cycle :: "mipscpu \<Rightarrow> mipscpu" where
  "begin_cycle c =
     (if jumping c then c\<lparr>jumping := False, in_jumpdelay := True\<rparr> else c\<lparr>expc := pc c\<rparr>)"

definition interrupt_wanted :: "mipscpu \<Rightarrow> bool" where
  "interrupt_wanted c \<longleftrightarrow>
     current_irqon c \<and>
     (irq_lamebus c \<and> status_hardmask_lb c \<noteq> 0 \<or> irq_ipi c \<and> status_hardmask_ipi c \<noteq> 0 \<or>
      irq_timer c \<and> status_hardmask_timer c \<noteq> 0 \<or> status_softmask c AND cause_softirq c \<noteq> 0)"

definition take_interrupt :: "nat \<Rightarrow> machine \<Rightarrow> machine" where
  "take_interrupt cn m =
     (if interrupt_wanted (mycpu m cn) then
        upd_cpu cn (\<lambda>c. c\<lparr>expc := pc c\<rparr>) (exception cn EX_IRQ 0 0 m)
      else m)"

definition count_cycle :: "nat \<Rightarrow> machine \<Rightarrow> machine" where
  "count_cycle cn m =
     (if current_usermode (mycpu m cn) then
        addpercpu cn (\<lambda>s. s\<lparr>sp_ucycles := sp_ucycles s + 1\<rparr>) m
      else addpercpu cn (\<lambda>s. s\<lparr>sp_kcycles := sp_kcycles s + 1\<rparr>) m)"

text \<open>The program counters move on. The second component is false if that took an exception.\<close>

definition advance_pc :: "mipscpu \<Rightarrow> mipscpu" where
  "advance_pc c = c\<lparr>pc := nextpc c, pcoff := nextpcoff c, pcpage := nextpcpage c,
     nextpc := nextpc c + 4\<rparr>"

definition update_pc :: "nat \<Rightarrow> u32 \<Rightarrow> machine \<Rightarrow> machine \<times> bool" where
  "update_pc cn insn m =
     (let m1 = upd_cpu cn advance_pc m in
      if nextpc (mycpu m1 cn) AND 0xfff = 0 then
        if insn = FULLOP_RFE then
          (upd_cpu cn (\<lambda>c. c\<lparr>nextpcpage := None, nextpcoff := 0\<rparr>) m1, True)
        else precompute_nextpc cn m1
      else (upd_cpu cn (\<lambda>c. c\<lparr>nextpcoff := nextpcoff c + 4\<rparr>) m1, True))"

text \<open>The on-chip timer and the other counters, after the instruction.\<close>

definition tick_timer :: "mipscpu \<Rightarrow> mipscpu" where
  "tick_timer c =
     (let c1 = c\<lparr>ex_count := ex_count c + 1\<rparr> in
      if ex_compare_used c1 \<and> ex_count c1 = ex_compare c1
      then c1\<lparr>ex_count := 0, irq_timer := True\<rparr> else c1)"

definition tick_cpu :: "mipscpu \<Rightarrow> mipscpu" where
  "tick_cpu c =
     (let c1 = tick_timer c;
          c2 = (if lowait c1 > 0 then c1\<lparr>lowait := lowait c1 - 1\<rparr> else c1);
          c3 = (if hiwait c2 > 0 then c2\<lparr>hiwait := hiwait c2 - 1\<rparr> else c2)
      in c3\<lparr>in_jumpdelay := False, tlbrandom := tlbrandom c3 + 1\<rparr>)"

definition INT_MAX :: int where "INT_MAX = 2 ^ 31 - 1"

text \<open>\<open>tlbrandom++\<close> on an \<open>int\<close> has no meaning at \<open>INT_MAX\<close>.\<close>

definition end_cycle :: "nat \<Rightarrow> machine \<Rightarrow> machine" where
  "end_cycle cn m =
     (let m1 = (if tlbrandom (mycpu m cn) = INT_MAX then raise_fault Undefined m else m)
      in upd_cpu cn tick_cpu m1)"

definition retire :: "nat \<Rightarrow> u32 \<Rightarrow> bool \<Rightarrow> machine \<Rightarrow> machine" where
  "retire cn retire_pc retire_usermode m =
     (if pc (mycpu m cn) \<noteq> retire_pc then m
      else if retire_usermode then
        (addpercpu cn (\<lambda>s. s\<lparr>sp_uretired := sp_uretired s + 1\<rparr>) m)\<lparr>progress := True\<rparr>
      else addpercpu cn (\<lambda>s. s\<lparr>sp_kretired := sp_kretired s + 1\<rparr>) m)"

text \<open>A breakpoint instruction for the debugger: go back to it, stop, and take back the count.\<close>

definition breakpoint :: "nat \<Rightarrow> machine \<Rightarrow> machine" where
  "breakpoint cn m =
     upd_cpu cn (\<lambda>c. c\<lparr>ex_count := ex_count c - 1, hit_breakpoint := True\<rparr>)
       (main_enter_debugger False (cpu_stopcycling (phony_exception cn m)))"

text \<open>The instruction that was fetched. The second component is true if it was a breakpoint.\<close>

definition run_insn :: "nat \<Rightarrow> u32 \<Rightarrow> machine \<Rightarrow> machine \<times> bool" where
  "run_insn cn insn m =
     (let retire_pc = nextpc (mycpu m cn); retire_usermode = current_usermode (mycpu m cn) in
      case update_pc cn insn m of
        (m1, False) \<Rightarrow> (m1, False)
      | (m1, True) \<Rightarrow>
          let m2 = upd_cpu cn (\<lambda>c. c\<lparr>hit_breakpoint := False\<rparr>) m1 in
          if is_break insn \<and> gdb_canhandle (expc (mycpu m2 cn)) m2 then (breakpoint cn m2, True)
          else (retire cn retire_pc retire_usermode (end_cycle cn (exec_insn cn insn m2)), False))"

text \<open>The body of the loop over the processors. The page of the pc is \<open>NULL\<close> only between a jump
  and the \<open>RFE\<close> in its delay slot; fetching through \<open>NULL\<close> has no meaning.\<close>

definition cycle_one :: "nat \<Rightarrow> machine \<Rightarrow> machine \<times> bool" where
  "cycle_one cn m =
     (if cpu_state (mycpu m cn) \<noteq> CPU_RUNNING then
        (addpercpu cn (\<lambda>s. s\<lparr>sp_icycles := sp_icycles s + 1\<rparr>) m, False)
      else
        let m1 = count_cycle cn (take_interrupt cn (upd_cpu cn begin_cycle m)) in
        case pcpage (mycpu m1 cn) of
          None \<Rightarrow> (raise_fault Undefined m1, False)
        | Some pg \<Rightarrow> run_insn cn (bus_use_map m1 pg (pcoff (mycpu m1 cn))) m1)"

section \<open>Cycles of the machine\<close>

definition count_break :: "nat \<Rightarrow> machine \<times> nat \<Rightarrow> machine \<times> nat" where
  "count_break cn r =
     (let (m, breakpoints) = r; (m1, b) = cycle_one cn m
      in (m1, if b then breakpoints + 1 else breakpoints))"

text \<open>The flag is the result of \<open>cpu_cycle\<close>: whether the cycle counts.\<close>

definition cpu_cycle :: "machine \<Rightarrow> machine \<times> bool" where
  "cpu_cycle m =
     (let (m1, breakpoints) = fold count_break [0..<ncpus m] (m, 0)
      in (m1, breakpoints = 0 \<or> breakpoints = ncpus m1))"

definition cycles_more :: "u64 \<Rightarrow> machine \<times> u64 \<Rightarrow> bool" where
  "cycles_more maxcycles r \<longleftrightarrow> snd r < maxcycles \<and> cpu_cycling (fst r)"

definition cycles_step :: "u64 \<Rightarrow> machine \<times> u64 \<Rightarrow> machine \<times> u64" where
  "cycles_step maxcycles r =
     (let (m, i) = r;
          (m1, counts) = cpu_cycle m;
          (m2, i2) = (if counts then (m1\<lparr>cpu_cycles_count := i + 1\<rparr>, i + 1) else (m1, i))
      in if cpu_running_mask m2 = 0 \<and> cpu_cycling m2 then
           (upd_stats (\<lambda>s. s\<lparr>s_tot_icycles := s_tot_icycles s + (maxcycles - i2)\<rparr>) m2, maxcycles)
         else (m2, i2))"

definition cpu_cycles :: "u64 \<Rightarrow> machine \<Rightarrow> machine \<times> u64" where
  "cpu_cycles maxcycles m =
     (case while_option (cycles_more maxcycles) (cycles_step maxcycles) (m\<lparr>cpu_cycling := True\<rparr>, 0) of
        Some (m1, i) \<Rightarrow> (m1\<lparr>cpu_cycles_count := 0\<rparr>, i)
      | None \<Rightarrow> (raise_fault No_return m, 0))"

end
