(* ===== verification/Gdb.thy ===== *)
theory Gdb
  imports Mips_Cycle C_Text
begin

text \<open>
  The remote debugger's stub: the commands of \<open>gdb/gdb_be.c\<close> and the connection of
  \<open>gdb/gdb_fe.c\<close>. \<open>gdb_out\<close> collects what is written to the connection.

  A C string is the list of the characters of its buffer from the pointer on, the terminating
  NUL and what follows it included, so that code that steps over a NUL does so here. Nothing is
  known of the memory past the end of the list; reading it is the fault \<open>Undefined\<close>.
\<close>

section \<open>Support functions\<close>

definition BUFLEN :: nat where "BUFLEN = 1024"

text \<open>\<open>snprintf\<close> at the end of a buffer of \<open>maxlen\<close> characters: what does not fit is lost.\<close>

definition printbyte :: "string \<Rightarrow> nat \<Rightarrow> u32 \<Rightarrow> string" where
  "printbyte buf maxlen val = take (maxlen - 1) (buf @ hex_pad 2 (unat val))"

definition printword :: "string \<Rightarrow> nat \<Rightarrow> u32 \<Rightarrow> string" where
  "printword buf maxlen val = take (maxlen - 1) (buf @ hex_pad 8 (unat val))"

fun hexbyte :: "string \<Rightarrow> (u8 \<times> string) option" where
  "hexbyte [] = None"
| "hexbyte (c # r) =
     (if c = NUL then Some (0, c # r)
      else case r of
             [] \<Rightarrow> None
           | d # r' \<Rightarrow>
               if d = NUL then Some (ucast (fst (strtoul16 [c])), r)
               else Some (ucast (fst (strtoul16 [c, d])), r'))"

definition getthreadid :: "string \<Rightarrow> u32 option" where
  "getthreadid s = (case hexbyte s of None \<Rightarrow> None | Some (b, r) \<Rightarrow> Some (ucast b - 10))"

definition mkthreadid :: "nat \<Rightarrow> u32" where
  "mkthreadid n = of_nat n + 10"

definition gdb_write :: "string \<Rightarrow> machine \<Rightarrow> machine" where
  "gdb_write s m = m\<lparr>gdb_out := gdb_out m @ s\<rparr>"

text \<open>The sum of the characters, as \<open>int\<close>; \<open>%\<close> takes the sign of the sum.\<close>

definition checksum :: "string \<Rightarrow> int" where
  "checksum s = sum_list (map cchar s) smod 256"

definition debug_send :: "string \<Rightarrow> machine \<Rightarrow> machine" where
  "debug_send s m =
     (let checkstr = take 7 (CHR ''#'' # hex_pad 2 (unat (word_of_int (checksum s) :: u32)))
      in gdb_write checkstr (gdb_write s (gdb_write ''$'' m)))"

definition debug_notsupp :: "machine \<Rightarrow> machine" where
  "debug_notsupp m = gdb_write (CHR ''$'' # NUL # ''#00'') m"

definition debug_send_stopinfo :: "machine \<Rightarrow> machine" where
  "debug_send_stopinfo m =
     debug_send (''T05thread:'' @ hex_string (unat (mkthreadid (debug_cpu m))) @ '';'') m"

definition gdb_startbreak :: "bool \<Rightarrow> bool \<Rightarrow> machine \<Rightarrow> machine" where
  "gdb_startbreak dontwait lethal m =
     (let m1 = m\<lparr>debug_cpu := cpudebug_get_break_cpu m\<rparr> in
      if gdb_ctx_inuse m1 then debug_send_stopinfo m1
      else if dontwait \<and> lethal then raise_fault Exit_requested m1
      else if dontwait then main_leave_debugger m1
      else m1)"

section \<open>Registers and memory\<close>

definition ntohl :: "u32 \<Rightarrow> u32" where
  "ntohl x = bswap32 x"

definition debug_register_print :: "machine \<Rightarrow> machine" where
  "debug_register_print m =
     (let (m1, vals, nregs) = cpudebug_getregs (debug_cpu m) 256 m;
          m2 = (if \<not> nregs \<le> 256 then smoke m1 else m1);
          buf = fold (\<lambda>v buf. printword buf BUFLEN (ntohl (htoc32 v))) (take nregs vals) []
      in debug_send buf m2)"

text \<open>The loops of \<open>debug_read_mem\<close>. The result is \<open>None\<close> where the loop does not end; inside it
  the text, or \<open>None\<close> for memory that is not there.\<close>

partial_function (option) read_mem_bytes ::
  "u32 \<Rightarrow> u32 \<Rightarrow> u32 \<Rightarrow> string \<Rightarrow> machine \<Rightarrow> (machine \<times> (u32 \<times> string) option) option"
where [code]:
  "read_mem_bytes vaddr len i buf m =
     (if i < len \<and> (vaddr + i) mod 4 \<noteq> 0 then
        (case cpudebug_fetch_byte (debug_cpu m) (vaddr + i) m of
           (m1, None) \<Rightarrow> Some (m1, None)
         | (m1, Some b) \<Rightarrow> read_mem_bytes vaddr len (i + 1) (printbyte buf BUFLEN (ucast b)) m1)
      else Some (m, Some (i, buf)))"

partial_function (option) read_mem_words ::
  "u32 \<Rightarrow> u32 \<Rightarrow> u32 \<Rightarrow> string \<Rightarrow> machine \<Rightarrow> (machine \<times> string option) option"
where [code]:
  "read_mem_words vaddr len i buf m =
     (if i < len then
        (case cpudebug_fetch_word (debug_cpu m) (vaddr + i) m of
           (m1, None) \<Rightarrow> Some (m1, None)
         | (m1, Some w) \<Rightarrow>
             read_mem_words vaddr len (i + 4) (printword buf BUFLEN (ntohl (htoc32 w))) m1)
      else Some (m, Some buf))"

definition debug_read_mem :: "string \<Rightarrow> machine \<Rightarrow> machine" where
  "debug_read_mem spec m =
     (let (va, rest) = strtoul16 spec in
      if rest = [] then raise_fault Undefined m
      else
        let vaddr = ucast va; len = ucast (fst (strtoul16 (tl rest))) in
        case read_mem_bytes vaddr len 0 [] m of
          None \<Rightarrow> raise_fault No_return m
        | Some (m1, None) \<Rightarrow> debug_send ''E03'' m1
        | Some (m1, Some (i, buf)) \<Rightarrow>
            (case read_mem_words vaddr len i buf m1 of
               None \<Rightarrow> raise_fault No_return m1
             | Some (m2, None) \<Rightarrow> debug_send ''E03'' m2
             | Some (m2, Some txt) \<Rightarrow> debug_send txt m2))"

text \<open>The data of a write command, as many bytes as it says it has.\<close>

primrec hexbytes :: "nat \<Rightarrow> string \<Rightarrow> u8 list option" where
  "hexbytes 0 s = Some []"
| "hexbytes (Suc n) s =
     (case hexbyte s of
        None \<Rightarrow> None
      | Some (b, r) \<Rightarrow> (case hexbytes n r of None \<Rightarrow> None | Some bs \<Rightarrow> Some (b # bs)))"

text \<open>The loops of \<open>debug_write_mem\<close>: where they stopped, or \<open>None\<close> for memory that is not there.
  \<open>aligned\<close> tells the first byte loop, which ends at a word, from the last.\<close>

partial_function (option) write_mem_bytes ::
  "bool \<Rightarrow> u32 \<Rightarrow> u32 \<Rightarrow> u8 list \<Rightarrow> u32 \<Rightarrow> machine \<Rightarrow> (machine \<times> u32 option) option"
where [code]:
  "write_mem_bytes aligned vaddr len bytes i m =
     (if i < len \<and> (aligned \<longrightarrow> (vaddr + i) mod 4 \<noteq> 0) then
        (let (m1, ok) = cpudebug_store_byte (debug_cpu m) (vaddr + i) (bytes ! unat i) m in
         if \<not> ok then Some (m1, None)
         else write_mem_bytes aligned vaddr len bytes (i + 1) m1)
      else Some (m, Some i))"

definition word_of_bytes :: "u8 list \<Rightarrow> u32 \<Rightarrow> u32" where
  "word_of_bytes bytes i = host_load32 (\<lambda>a. bytes ! unat a) i"

partial_function (option) write_mem_words ::
  "u32 \<Rightarrow> u32 \<Rightarrow> u8 list \<Rightarrow> u32 \<Rightarrow> machine \<Rightarrow> (machine \<times> u32 option) option"
where [code]:
  "write_mem_words vaddr len bytes i m =
     (if i + 4 \<le> len then
        (if \<not> unat i + 4 \<le> length bytes then Some (raise_fault Undefined m, None)
         else
           let (m1, ok) =
             cpudebug_store_word (debug_cpu m) (vaddr + i) (ctoh32 (word_of_bytes bytes i)) m
           in if \<not> ok then Some (m1, None)
              else write_mem_words vaddr len bytes (i + 4) m1)
      else Some (m, Some i))"

definition write_mem_all ::
  "u32 \<Rightarrow> u32 \<Rightarrow> u8 list \<Rightarrow> machine \<Rightarrow> (machine \<times> u32 option) option" where
  "write_mem_all vaddr len bytes m =
     (case write_mem_bytes True vaddr len bytes 0 m of
        Some (m1, Some i) \<Rightarrow>
          (case write_mem_words vaddr len bytes i m1 of
             Some (m2, Some j) \<Rightarrow> write_mem_bytes False vaddr len bytes j m2
           | r \<Rightarrow> r)
      | r \<Rightarrow> r)"

definition debug_write_mem :: "string \<Rightarrow> machine \<Rightarrow> machine" where
  "debug_write_mem spec m =
     (let (va, rest) = strtoul16 spec in
      if rest = [] then raise_fault Undefined m
      else
        let (ln, rest2) = strtoul16 (tl rest); len = (ucast ln :: u32) in
        if rest2 = [] then raise_fault Undefined m
        else
          case hexbytes (unat len) (tl rest2) of
            None \<Rightarrow> raise_fault Undefined m
          | Some bytes \<Rightarrow>
              (case write_mem_all (ucast va) len bytes m of
                 None \<Rightarrow> raise_fault No_return m
               | Some (m1, None) \<Rightarrow> debug_send ''E03'' m1
               | Some (m1, Some i) \<Rightarrow> debug_send ''OK'' m1))"

section \<open>Threads\<close>

definition debug_checkthread :: "string \<Rightarrow> machine \<Rightarrow> machine" where
  "debug_checkthread threadid m =
     (case getthreadid threadid of
        None \<Rightarrow> raise_fault Undefined m
      | Some n \<Rightarrow>
          if n \<ge> of_nat (cpu_numcpus m) then debug_send ''E00'' m
          else
            let (m1, on) = cpu_enabled (unat n) m
            in if \<not> on then debug_send ''E01'' m1 else debug_send ''OK'' m1)"

definition debug_getthreadinfo :: "string \<Rightarrow> machine \<Rightarrow> machine" where
  "debug_getthreadinfo threadid m =
     (case getthreadid threadid of
        None \<Rightarrow> raise_fault Undefined m
      | Some n \<Rightarrow>
          if n \<ge> of_nat (cpu_numcpus m) then debug_send ''E00'' m
          else
            let txt = ''CPU '' @ dec_string (unat n)
            in debug_send (fold (\<lambda>c buf. printbyte buf 256 (of_char c)) txt []) m)"

text \<open>The list of the cpus that are enabled.\<close>

definition thread_list :: "machine \<Rightarrow> string" where
  "thread_list m =
     fold (\<lambda>i buf.
         if \<not> snd (cpu_enabled i m) then buf
         else printbyte (if i > 0 then buf @ '','' else buf) 128 (mkthreadid i))
       [0..<cpu_numcpus m] ''m''"

section \<open>Packets\<close>

text \<open>\<open>onecycle\<close> of \<open>main/main.c\<close>.\<close>

definition onecycle :: "machine \<Rightarrow> machine" where
  "onecycle m = (let (m1, ticks) = cpu_cycles 1 m in clock_ticks ticks m1)"

definition unset_breakcond :: "machine \<Rightarrow> machine" where
  "unset_breakcond m = main_leave_debugger m"

definition debug_restart :: "string \<Rightarrow> machine \<Rightarrow> machine" where
  "debug_restart addr m =
     (if addr = [] then raise_fault Undefined m
      else if hd addr = NUL then m
      else cpu_set_entrypoint (debug_cpu m) (ucast (fst (strtoul16 addr))) m)"

definition debug_select :: "string \<Rightarrow> machine \<Rightarrow> machine" where
  "debug_select args m =
     (if args = [] then raise_fault Undefined m
      else if hd args = CHR ''c'' then debug_notsupp m
      else if hd args = CHR ''g'' then
        (case getthreadid (tl args) of
           None \<Rightarrow> raise_fault Undefined m
         | Some n \<Rightarrow>
             if n \<ge> of_nat (cpu_numcpus m) then debug_send ''E00'' m
             else debug_send ''OK'' (m\<lparr>debug_cpu := unat n\<rparr>))
      else debug_send ''OK'' m)"

definition debug_query :: "string \<Rightarrow> machine \<Rightarrow> machine" where
  "debug_query args m =
     (let q = c_string args in
      if q = ''C'' then debug_send (''QC'' @ hex_string (unat (mkthreadid (debug_cpu m)))) m
      else if q = ''fThreadInfo'' then debug_send (thread_list m) m
      else if q = ''sThreadInfo'' then debug_send ''l'' m
      else if take 16 q = ''ThreadExtraInfo,'' then debug_getthreadinfo (drop 16 args) m
      else debug_notsupp m)"

text \<open>The \<open>switch\<close> of \<open>debug_exec\<close>: \<open>c\<close> is \<open>pkt[1]\<close>, \<open>args\<close> starts at \<open>pkt[2]\<close>. Every command
  that is not listed is answered as not supported.\<close>

definition debug_command :: "char \<Rightarrow> string \<Rightarrow> machine \<Rightarrow> machine" where
  "debug_command c args m =
     (if c = CHR ''?'' then debug_send_stopinfo m
      else if c = CHR ''c'' then unset_breakcond (debug_restart args m)
      else if c = CHR ''D'' then unset_breakcond (debug_send ''OK'' m)
      else if c = CHR ''g'' then debug_register_print m
      else if c = CHR ''H'' then debug_select args m
      else if c = CHR ''k'' then raise_fault Exit_requested m
      else if c = CHR ''m'' then debug_read_mem args m
      else if c = CHR ''M'' then debug_write_mem args m
      else if c = CHR ''q'' then debug_query args m
      else if c = CHR ''R'' then m
      else if c = CHR ''s'' then debug_send_stopinfo (onecycle (debug_restart args m))
      else if c = CHR ''T'' then debug_checkthread args m
      else debug_notsupp m)"

text \<open>The \<open>#\<close> becomes a NUL; what follows it is the checksum.\<close>

definition debug_exec :: "string \<Rightarrow> machine \<Rightarrow> machine" where
  "debug_exec pkt m =
     (if pkt = [] \<or> hd pkt \<noteq> CHR ''$'' \<or> CHR ''#'' \<notin> set (c_string pkt) then m
      else
        let body = takeWhile (\<lambda>c. c \<noteq> CHR ''#'') pkt;
            cs = drop (length body + 1) pkt;
            scheck = sint (ucast (fst (strtoul16 cs)) :: u32);
            cmd = tl body @ NUL # cs
        in if scheck \<noteq> checksum (tl body) then gdb_write ''-'' m
           else debug_command (hd cmd) (tl cmd) (gdb_write ''+'' m))"

section \<open>The connection\<close>

text \<open>The first packet of the buffer, if it is there in full, and what is left after it.\<close>

definition next_packet :: "string \<Rightarrow> (string \<times> string) option" where
  "next_packet buf =
     (let packet = dropWhile (\<lambda>c. c \<noteq> CHR ''$'') buf;
          hashpos = length (takeWhile (\<lambda>c. c \<noteq> CHR ''#'') packet);
          packetlen = hashpos + 3
      in if CHR ''#'' \<notin> set packet \<or> packetlen > length packet then None
         else Some (take packetlen packet, drop packetlen packet))"

lemma next_packet_shorter: "next_packet buf = Some (pkt, rest) \<Longrightarrow> length rest < length buf"
proof -
  assume a: "next_packet buf = Some (pkt, rest)"
  let ?p = "dropWhile (\<lambda>c. c \<noteq> CHR ''$'') buf"
  have "length ?p \<le> length buf" by (rule length_dropWhile_le)
  then show "length rest < length buf"
    using a by (auto simp: next_packet_def Let_def split: if_splits)
qed

text \<open>The loop of \<open>gdb_receive\<close> over the packets in the buffer. The assertion allows one byte
  less than the temporary buffer has room for.\<close>

function gdb_packets :: "string \<Rightarrow> machine \<Rightarrow> machine" where
  "gdb_packets buf m =
     (case next_packet buf of
        None \<Rightarrow> m\<lparr>gdb_buf := buf\<rparr>
      | Some (pkt, rest) \<Rightarrow>
          let m1 = (if \<not> length pkt + 1 < BUFLEN + 1 then smoke m else m)
          in gdb_packets rest (debug_exec (pkt @ [NUL]) m1))"
  by pat_completeness auto

termination
  by (relation "measure (\<lambda>(buf, m). length buf)") (auto dest: next_packet_shorter)

text \<open>What the debugger does: connect, send some bytes, hang up. A \<open>read\<close> returns at most what
  there is room for.\<close>

definition gdb_accept :: "machine \<Rightarrow> machine" where
  "gdb_accept m =
     (if gdb_ctx_inuse m then m
      else main_enter_debugger False
        (cpu_stopcycling (m\<lparr>gdb_ctx_inuse := True, gdb_buf := []\<rparr>)))"

definition gdb_receive :: "string \<Rightarrow> machine \<Rightarrow> machine" where
  "gdb_receive bytes m =
     (let buf = (if length (gdb_buf m) \<ge> BUFLEN then [] else gdb_buf m)
      in gdb_packets (buf @ take (BUFLEN - length buf) bytes) m)"

definition gdb_hangup :: "machine \<Rightarrow> machine" where
  "gdb_hangup m = (main_leave_debugger m)\<lparr>gdb_ctx_inuse := False\<rparr>"

section \<open>Framing\<close>

text \<open>The packets of a stream of bytes, and what is left over.\<close>

function split_packets :: "string \<Rightarrow> string list \<times> string" where
  "split_packets buf =
     (case next_packet buf of
        None \<Rightarrow> ([], buf)
      | Some (pkt, rest) \<Rightarrow> let (ps, left) = split_packets rest in (pkt # ps, left))"
  by pat_completeness auto

termination
  by (relation "measure length") (auto dest: next_packet_shorter)

declare gdb_packets.simps [simp del] split_packets.simps [simp del]

definition exec_packet :: "string \<Rightarrow> machine \<Rightarrow> machine" where
  "exec_packet pkt m =
     debug_exec (pkt @ [NUL]) (if \<not> length pkt + 1 < BUFLEN + 1 then smoke m else m)"

lemma gdb_packets_split:
  "gdb_packets buf m = (fold exec_packet (fst (split_packets buf)) m)\<lparr>gdb_buf := snd (split_packets buf)\<rparr>"
proof (induction buf arbitrary: m rule: split_packets.induct)
  case (1 buf)
  show ?case
  proof (cases "next_packet buf")
    case None
    then show ?thesis by (simp add: gdb_packets.simps [of buf] split_packets.simps [of buf])
  next
    case (Some a)
    then obtain pkt rest where n: "next_packet buf = Some (pkt, rest)" by (cases a) auto
    show ?thesis
      using 1 [OF n refl]
      by (simp add: gdb_packets.simps [of buf] split_packets.simps [of buf] n exec_packet_def
          split: prod.split)
  qed
qed

text \<open>A packet that is complete stays the first packet when more bytes arrive.\<close>

lemma next_packet_append:
  assumes "next_packet a = Some (pkt, rest)"
  shows "next_packet (a @ b) = Some (pkt, rest @ b)"
proof -
  let ?d = "\<lambda>c. c \<noteq> CHR ''$''" and ?h = "\<lambda>c. c \<noteq> CHR ''#''"
  define p where "p = dropWhile ?d a"
  have h: "CHR ''#'' \<in> set p" and l: "length (takeWhile ?h p) + 3 \<le> length p"
    and r: "pkt = take (length (takeWhile ?h p) + 3) p" "rest = drop (length (takeWhile ?h p) + 3) p"
    using assms by (auto simp: next_packet_def Let_def p_def split: if_splits)
  have "p \<noteq> []" using h by auto
  then have "\<exists>c\<in>set a. \<not> ?d c" unfolding p_def by (auto simp: dropWhile_eq_Nil_conv)
  then have d: "dropWhile ?d (a @ b) = p @ b" unfolding p_def by (auto simp: dropWhile_append1)
  have t: "takeWhile ?h (p @ b) = takeWhile ?h p" using h by (auto intro: takeWhile_append1)
  show ?thesis unfolding next_packet_def Let_def d t using h l r by simp
qed

lemma packets_any_chunks:
  "fst (split_packets (a @ b)) =
     fst (split_packets a) @ fst (split_packets (snd (split_packets a) @ b))"
  "snd (split_packets (a @ b)) = snd (split_packets (snd (split_packets a) @ b))"
proof -
  have "split_packets (a @ b) =
    (fst (split_packets a) @ fst (split_packets (snd (split_packets a) @ b)),
     snd (split_packets (snd (split_packets a) @ b)))"
  proof (induction a rule: split_packets.induct)
    case (1 a)
    show ?case
    proof (cases "next_packet a")
      case None
      then show ?thesis by (simp add: split_packets.simps [of a])
    next
      case (Some x)
      then obtain pkt rest where n: "next_packet a = Some (pkt, rest)" by (cases x) auto
      show ?thesis
        using 1 [OF n refl] next_packet_append [OF n, of b]
        by (simp add: split_packets.simps [of "a @ b"] split_packets.simps [of a] n split: prod.split)
    qed
  qed
  then show "fst (split_packets (a @ b)) =
     fst (split_packets a) @ fst (split_packets (snd (split_packets a) @ b))"
    "snd (split_packets (a @ b)) = snd (split_packets (snd (split_packets a) @ b))"
    by simp_all
qed

section \<open>Digits\<close>

lemma hex_digit_facts:
  assumes "a < 16"
  shows "hex_value (hex_digit a) = Some a" "\<not> is_space (hex_digit a)"
    "hex_digit a \<noteq> CHR ''-''" "hex_digit a \<noteq> CHR ''+''" "hex_digit a \<noteq> CHR ''x''"
    "hex_digit a \<noteq> CHR ''X''" "hex_digit a \<noteq> NUL" "hex_digit a \<noteq> CHR ''#''" "hex_digit a \<noteq> CHR ''$''"
proof -
  have n: "(of_char (hex_digit a) :: nat) = (if a < 10 then 48 + a else 87 + a)"
    using assms by (simp add: hex_digit_def)
  show "hex_value (hex_digit a) = Some a" "\<not> is_space (hex_digit a)"
    using assms by (auto simp: hex_value_def is_space_def n Let_def)
  have ne: "hex_digit a \<noteq> c" if "(of_char c :: nat) \<notin> {48..57} \<union> {97..102}" for c
    using that n assms by (auto split: if_splits)
  show "hex_digit a \<noteq> CHR ''-''" "hex_digit a \<noteq> CHR ''+''" "hex_digit a \<noteq> CHR ''x''"
    "hex_digit a \<noteq> CHR ''X''" "hex_digit a \<noteq> NUL" "hex_digit a \<noteq> CHR ''#''" "hex_digit a \<noteq> CHR ''$''"
    by (rule ne; simp add: NUL_def)+
qed

lemma hex_pad_2: "n < 256 \<Longrightarrow> hex_pad 2 n = [hex_digit (n div 16), hex_digit (n mod 16)]"
proof -
  have z: "hex_digit 0 = CHR ''0''" by code_simp
  show "n < 256 \<Longrightarrow> ?thesis" by (cases "n < 16") (simp_all add: hex_pad_def z less_mult_imp_div_less)
qed

lemma strtoul_two_digits:
  assumes "a < 16" "b < 16"
  shows "strtoul16 (hex_digit a # hex_digit b # NUL # r) = (of_nat (16 * a + b), NUL # r)"
proof -
  have nul: "\<not> is_hex NUL" by (simp add: is_hex_def hex_value_def NUL_def)
  show ?thesis
    using hex_digit_facts [OF assms(1)] hex_digit_facts [OF assms(2)] assms nul
    by (simp add: strtoul16_def skip_prefix_def is_hex_def hex_number_def Let_def)
qed

lemma cchar_ascii: "(of_char c :: nat) < 128 \<Longrightarrow> cchar c = int (of_char c)"
proof -
  assume "(of_char c :: nat) < 128"
  moreover have "(of_char c :: int) = int (of_char c)" by (simp add: of_nat_of_char)
  ultimately show ?thesis by (simp add: cchar_def Let_def)
qed

lemma checksum_range:
  assumes "\<forall>c\<in>set s. (of_char c :: nat) < 128"
  shows "0 \<le> checksum s" "checksum s < 256"
proof -
  have "sum_list (map cchar s) \<ge> 0" using assms by (intro sum_list_nonneg) (auto simp: cchar_ascii)
  then show "0 \<le> checksum s" "checksum s < 256"
    by (simp_all add: checksum_def signed_modulo_int_def sgn_if abs_if)
qed

lemma unat_of_byte: "0 \<le> n \<Longrightarrow> n < 256 \<Longrightarrow> unat (word_of_int n :: u32) = nat n"
proof -
  assume "0 \<le> n" "n < 256"
  then have "uint (word_of_int n :: u32) = n"
    by (simp add: unsigned_of_int take_bit_int_eq_self)
  then show ?thesis using nat_uint_eq [of "word_of_int n :: u32"] by (simp only:)
qed

section \<open>Properties\<close>

text \<open>What one read does: it runs some packets, and keeps some bytes for the next one.\<close>

definition exec_read :: "string list \<times> string \<Rightarrow> machine \<Rightarrow> machine" where
  "exec_read r m = (fold exec_packet (fst r) m)\<lparr>gdb_buf := snd r\<rparr>"

text \<open>Reads of a stream that fit: behind the packets that are complete, less than a buffer is waiting
  before each, and each brings no more than there is room for.\<close>

definition reads_fit :: "string \<Rightarrow> string list \<Rightarrow> bool" where
  "reads_fit buf chunks \<longleftrightarrow> (\<forall>k < length chunks.
     let left = snd (split_packets (buf @ concat (take k chunks)))
     in length left < BUFLEN \<and> length left + length (chunks ! k) \<le> BUFLEN)"

lemma left_incomplete: "next_packet (snd (split_packets buf)) = None"
proof (induction buf rule: split_packets.induct)
  case (1 buf)
  then show ?case by (cases "next_packet buf") (auto simp: split_packets.simps [of buf] split: prod.split)
qed

lemma reads_fit_Cons:
  assumes "reads_fit buf (c # cs)" "next_packet buf = None"
  shows "length buf < BUFLEN" "length buf + length c \<le> BUFLEN" "reads_fit (snd (split_packets (buf @ c))) cs"
proof -
  have "snd (split_packets buf) = buf" using assms(2) by (simp add: split_packets.simps [of buf])
  then show "length buf < BUFLEN" "length buf + length c \<le> BUFLEN"
    using assms(1) by (auto simp: reads_fit_def dest!: spec [of _ 0])
  show "reads_fit (snd (split_packets (buf @ c))) cs"
    unfolding reads_fit_def
  proof (intro allI impI)
    fix k assume k: "k < length cs"
    have "let left = snd (split_packets (buf @ concat (take (Suc k) (c # cs))))
        in length left < BUFLEN \<and> length left + length ((c # cs) ! Suc k) \<le> BUFLEN"
      using assms(1) k unfolding reads_fit_def by (elim allE [of _ "Suc k"]) simp
    then show "let left = snd (split_packets (snd (split_packets (buf @ c)) @ concat (take k cs)))
        in length left < BUFLEN \<and> length left + length (cs ! k) \<le> BUFLEN"
      using packets_any_chunks(2) [of "buf @ c" "concat (take k cs)"] by simp
  qed
qed

lemma receive_reads:
  "next_packet (gdb_buf m) = None \<Longrightarrow> reads_fit (gdb_buf m) chunks \<Longrightarrow>
    \<exists>reads. length reads = length chunks \<and> fold gdb_receive chunks m = fold exec_read reads m \<and>
      concat (map fst reads) = fst (split_packets (gdb_buf m @ concat chunks)) \<and>
      gdb_buf (fold gdb_receive chunks m) = snd (split_packets (gdb_buf m @ concat chunks))"
proof (induction chunks arbitrary: m)
  case Nil
  then show ?case by (simp add: split_packets.simps [of "gdb_buf m"])
next
  case (Cons c cs)
  let ?r = "split_packets (gdb_buf m @ c)"
  note fit = reads_fit_Cons [OF Cons.prems(2,1)]
  have g: "gdb_receive c m = exec_read ?r m"
    using fit(1,2) by (simp add: gdb_receive_def gdb_packets_split exec_read_def Let_def)
  have b: "gdb_buf (exec_read ?r m) = snd ?r" by (simp add: exec_read_def)
  obtain reads where r: "length reads = length cs" "fold gdb_receive cs (exec_read ?r m) = fold exec_read reads (exec_read ?r m)"
    "concat (map fst reads) = fst (split_packets (snd ?r @ concat cs))"
    "gdb_buf (fold gdb_receive cs (exec_read ?r m)) = snd (split_packets (snd ?r @ concat cs))"
    using Cons.IH [of "exec_read ?r m", unfolded b, OF left_incomplete fit(3)] by blast
  show ?case
    using r packets_any_chunks [of "gdb_buf m @ c" "concat cs"] by (intro exI [of _ "?r # reads"]) (simp add: g)
qed

text \<open>C36: The commands the stub runs do not depend on how the network cuts the stream. Whatever the
  reads return, as long as they fit, what they run are the packets of all the bytes together, in order
  and each once, and what stays in the buffer are the bytes behind the last one. A buffer that is full
  without holding a packet is thrown away.\<close>

theorem gdb_packets_chunks:
  assumes "next_packet (gdb_buf m) = None"
  shows "(reads_fit (gdb_buf m) chunks \<longrightarrow>
      (\<exists>reads. length reads = length chunks \<and> fold gdb_receive chunks m = fold exec_read reads m \<and>
        concat (map fst reads) = fst (split_packets (gdb_buf m @ concat chunks)) \<and>
        gdb_buf (fold gdb_receive chunks m) = snd (split_packets (gdb_buf m @ concat chunks)))) \<and>
    (BUFLEN \<le> length (gdb_buf m) \<longrightarrow>
      gdb_receive bytes m = exec_read (split_packets (take BUFLEN bytes)) m)"
  using receive_reads [OF assms, of chunks] by (simp add: gdb_receive_def gdb_packets_split exec_read_def)

text \<open>What the stub sends is a packet by the rules it receives packets by: for a reply of
  ASCII characters without the delimiter, the frame is found whole, its checksum is right, and
  the command in it is run.\<close>

theorem sent_packet_accepted:
  assumes "\<forall>c\<in>set s. 0 < (of_char c :: nat) \<and> (of_char c :: nat) < 128 \<and> c \<noteq> CHR ''#''"
  shows "\<exists>cs. let pkt = CHR ''$'' # s @ CHR ''#'' # cs in
    gdb_out (debug_send s m) = gdb_out m @ pkt \<and>
    next_packet pkt = Some (pkt, []) \<and>
    debug_exec (pkt @ [NUL]) m' =
      (let cmd = s @ NUL # cs @ [NUL] in debug_command (hd cmd) (tl cmd) (gdb_write ''+'' m'))"
proof -
  define n where "n = nat (checksum s)"
  have r: "0 \<le> checksum s" "checksum s < 256" using assms by (auto intro!: checksum_range)
  then have n: "n < 256" "checksum s = int n" "n div 16 < 16" "n mod 16 < 16" by (auto simp: n_def)
  define d1 d2 where d: "d1 = hex_digit (n div 16)" "d2 = hex_digit (n mod 16)"
  have h: "hex_pad 2 (unat (word_of_int (checksum s) :: u32)) = [d1, d2]"
    unfolding unat_of_byte [OF r] n_def [symmetric] hex_pad_2 [OF n(1)] d ..
  have s: "CHR ''#'' \<notin> set s" using assms by blast
  have "(of_char NUL :: nat) = 0" by (simp add: NUL_def)
  then have s: "CHR ''#'' \<notin> set s" "NUL \<notin> set s" using assms s by force+
  have dd: "d1 \<noteq> NUL" "d2 \<noteq> NUL" "d1 \<noteq> CHR ''#''" "d2 \<noteq> CHR ''#''"
    using hex_digit_facts [OF n(3)] hex_digit_facts [OF n(4)] by (simp_all add: d)
  have tw: "takeWhile (\<lambda>c. c \<noteq> CHR ''#'') (s @ CHR ''#'' # r) = s" for r
    using s(1) by (induction s) auto
  let ?pkt = "CHR ''$'' # s @ CHR ''#'' # [d1, d2]"
  have 1: "gdb_out (debug_send s m) = gdb_out m @ ?pkt"
    by (simp add: debug_send_def gdb_write_def h)
  have 2: "next_packet ?pkt = Some (?pkt, [])"
    by (simp add: next_packet_def tw)
  have u: "sint (ucast (of_nat n :: u64) :: u32) = int n"
  proof -
    have "uint (ucast (of_nat n :: u64) :: u32) = int n"
      using n(1) by (simp add: unsigned_ucast_eq unsigned_of_nat take_bit_nat_eq_self take_bit_int_eq_self)
    then show ?thesis using n(1) by (simp only: sint32) simp
  qed
  have v: "fst (strtoul16 [d1, d2, NUL]) = of_nat n"
    using strtoul_two_digits [OF n(3,4), of "[]"] by (simp add: d)
  have nuls: "CHR ''$'' \<noteq> NUL" "CHR ''#'' \<noteq> NUL" by (simp_all add: NUL_def)
  have 3: "CHR ''#'' \<in> set (c_string (?pkt @ [NUL]))"
    using s(2) nuls by (simp add: c_string_def takeWhile_append)
  have "debug_exec (?pkt @ [NUL]) m' =
    (let cmd = s @ NUL # [d1, d2] @ [NUL] in debug_command (hd cmd) (tl cmd) (gdb_write ''+'' m'))"
    using 3 by (simp add: debug_exec_def Let_def tw v u n(2))
  then show ?thesis using 1 2 by (intro exI [of _ "[d1, d2]"]) (simp only: Let_def append.simps simp_thms)
qed

lemma full_buffer_packet_aborts_facts:
  assumes "next_packet pkt = Some (pkt, [])" "length pkt = BUFLEN" "gdb_buf m = []"
    and "fault_state m = None"
  shows "gdb_receive pkt m = (debug_exec (pkt @ [NUL]) (smoke m))\<lparr>gdb_buf := []\<rparr>"
    "fault_state (smoke m) = Some Smoke"
proof -
  have "next_packet [] = None" by (simp add: next_packet_def)
  then have "gdb_packets [] m' = m'\<lparr>gdb_buf := []\<rparr>" for m' by (simp add: gdb_packets.simps)
  then show "gdb_receive pkt m = (debug_exec (pkt @ [NUL]) (smoke m))\<lparr>gdb_buf := []\<rparr>"
    using assms by (simp add: gdb_receive_def gdb_packets.simps [of pkt] BUFLEN_def)
  show "fault_state (smoke m) = Some Smoke" using assms(4) by (simp add: smoke_def raise_fault_def)
qed

text \<open>A packet that fills the input buffer stops the simulator, although the temporary buffer
  has room for it: the assertion in \<open>gdb_receive\<close> is off by one.\<close>

theorem full_buffer_packet_aborts:
  assumes "next_packet pkt = Some (pkt, [])" "length pkt = BUFLEN" "gdb_buf m = []"
    and "fault_state m = None"
  shows "(gdb_receive pkt m = (debug_exec (pkt @ [NUL]) (smoke m))\<lparr>gdb_buf := []\<rparr>) \<and>
    (fault_state (smoke m) = Some Smoke)"
  using full_buffer_packet_aborts_facts[OF assms] by simp

end
