(* ===== verification/Mainloop.thy ===== *)
theory Mainloop
  imports Gdb
begin

text \<open>
  The main loop (\<open>main/main.c\<close>) and what it does while the cpus sleep: the external events that
  \<open>tryselect\<close> (\<open>main/onsel.c\<close>) hands to the console (\<open>main/console.c\<close>) and the debugger, and
  \<open>clock_waitirq\<close> (\<open>main/clock.c\<close>).

  What the host did during a \<open>select\<close> (how long it slept, which events it found) and the time of day
  are arguments. A loop that ends when the host does something is an inductive relation between
  the machine before and the machine after: it holds of every way the host lets the loop end.
\<close>

section \<open>External events\<close>

text \<open>A key is typed or standard input ends; the debugger connects, sends or hangs up; the socket of a
  network card can be read; a meter connects (with what \<open>accept\<close> and \<open>malloc\<close> return) or can be read.\<close>

datatype host_event =
  Key u8 | Stdin_eof | Gdb_connect | Gdb_bytes string | Gdb_close | Net_ready nat
  | Meter_connect int "(nat \<times> u8 list) option" | Meter_ready nat

text \<open>\<open>malloc\<close> gives memory that is not in use, as much as was asked for.\<close>

definition fresh_meter :: "(nat \<times> u8 list) option \<Rightarrow> machine \<Rightarrow> bool" where
  "fresh_meter mem m \<longleftrightarrow>
     (case mem of None \<Rightarrow> True | Some (k, bytes) \<Rightarrow> meters m k = None \<and> length bytes = METER_BUFSIZE)"

text \<open>A meter whose connection was closed is no longer selected.\<close>

definition console_sel :: "u8 \<Rightarrow> machine \<Rightarrow> machine" where
  "console_sel ch m =
     (if ch = 7 then main_enter_debugger False (cpu_stopcycling m)
      else case console_key m of None \<Rightarrow> m | Some slot \<Rightarrow> serial_input slot ch m)"

definition host_input :: "host_event \<Rightarrow> machine \<Rightarrow> machine" where
  "host_input ev m =
     (case ev of
        Key ch \<Rightarrow> console_sel ch m
      | Stdin_eof \<Rightarrow> m
      | Gdb_connect \<Rightarrow> gdb_accept m
      | Gdb_bytes bytes \<Rightarrow> gdb_receive bytes m
      | Gdb_close \<Rightarrow> gdb_hangup m
      | Net_ready slot \<Rightarrow> (case devices m slot of Some (Net nd) \<Rightarrow> dorecv slot m | _ \<Rightarrow> m)
      | Meter_connect fd mem \<Rightarrow> if fresh_meter mem m then meter_accept fd mem m else m
      | Meter_ready k \<Rightarrow>
          (case meters m k of Some me \<Rightarrow> if me_fd me \<ge> 0 then meter_receive k m else m | None \<Rightarrow> m))"

definition tryselect :: "u64 \<Rightarrow> host_event list \<Rightarrow> machine \<Rightarrow> machine" where
  "tryselect slept evs m =
     (if evs = [] then m
      else (fold host_input evs (m\<lparr>extra_selecttime := slept\<rparr>))\<lparr>extra_selecttime := 0\<rparr>)"

section \<open>Waiting for an interrupt\<close>

text \<open>One round of the loop in \<open>clock_waitirq\<close>. The host's clock says \<open>sec\<close> and \<open>usec\<close>, the
  \<open>select\<close> slept for \<open>slept\<close> and brought \<open>evs\<close>.\<close>

definition waitirq_round :: "int \<Rightarrow> int \<Rightarrow> u64 \<Rightarrow> host_event list \<Rightarrow> machine \<Rightarrow> machine" where
  "waitirq_round sec usec slept evs m =
     (let (m1, sleptnsecs) =
        (case event_queue m of
           [] \<Rightarrow> (tryselect slept evs m, slept)
         | ta # q \<Rightarrow>
             let vnow = clock_vnow m;
                 wnsecs = clock_vahead sec usec vnow (ta_vtime ta) m
             in if wnsecs > 10000000 then (tryselect slept evs m, min slept wnsecs)
                else (tryselect 0 evs m, ta_vtime ta - vnow));
          tmp = sleptnsecs + ucast (idleslop m1);
          m2 = upd_stats (\<lambda>s. s\<lparr>s_tot_icycles := s_tot_icycles s + tmp div NSECS_PER_CLOCK\<rparr>) m1;
          m3 = m2\<lparr>idleslop := ucast (tmp mod NSECS_PER_CLOCK)\<rparr>
      in check_queue (clock_vadvance tmp m3))"

inductive clock_waitirq :: "machine \<Rightarrow> machine \<Rightarrow> bool" where
  awake: "cpu_running_mask m \<noteq> 0 \<Longrightarrow> clock_waitirq m m"
| asleep: "cpu_running_mask m = 0 \<Longrightarrow> clock_waitirq (waitirq_round sec usec slept evs m) m' \<Longrightarrow>
    clock_waitirq m m'"

inductive_cases clock_waitirqE: "clock_waitirq m m'"

section \<open>Stopped in the debugger\<close>

inductive stopped :: "machine \<Rightarrow> machine \<Rightarrow> bool" where
  released: "\<not> stopped_in_debugger m \<or> shutoff_flag m \<Longrightarrow> stopped m m"
| waiting: "stopped_in_debugger m \<Longrightarrow> \<not> shutoff_flag m \<Longrightarrow> stopped (tryselect slept evs m) m' \<Longrightarrow>
    stopped m m'"

inductive_cases stoppedE: "stopped m m'"

definition stoploop :: "machine \<Rightarrow> machine \<Rightarrow> bool" where
  "stoploop m m' \<longleftrightarrow> stopped (gdb_startbreak (no_debugger_wait m) (stop_is_lethal m) m) m'"

section \<open>Running\<close>

definition ROTOR :: u32 where "ROTOR = 50000"

text \<open>The part of one round that depends on nothing outside: how long to run, the cycles, the
  clock, and the countdown to the next look at the host.\<close>

definition run_cycles :: "u32 \<Rightarrow> machine \<Rightarrow> machine \<times> u32" where
  "run_cycles rotor m =
     (let (m1, goticks0) = clock_getrunticks m;
          goticks = (if goticks0 > rotor then rotor else goticks0);
          (m2, wentticks) = cpu_cycles (ucast goticks) m1
      in (clock_ticks wentticks m2, rotor - ucast wentticks))"

definition poll_host :: "host_event list \<Rightarrow> machine \<times> u32 \<Rightarrow> machine \<times> u32" where
  "poll_host evs r =
     (let (m, rotor) = r in if rotor = 0 then (tryselect 0 evs m, ROTOR) else (m, rotor))"

text \<open>One round of the loop in \<open>runloop\<close>, and the loop.\<close>

inductive run_round :: "machine \<times> u32 \<Rightarrow> machine \<times> u32 \<Rightarrow> bool" where
  round: "\<not> shutoff_flag m \<Longrightarrow> poll_host evs (run_cycles rotor m) = (m1, rotor') \<Longrightarrow>
    (if stopped_in_debugger m1 then stoploop m1 m2 else m2 = m1) \<Longrightarrow>
    (if cpu_running_mask m2 = 0 then clock_waitirq m2 m3 else m3 = m2) \<Longrightarrow>
    run_round (m, rotor) (m3, rotor')"

inductive_cases run_roundE: "run_round (m, rotor) (m', rotor')"

inductive run_rounds :: "machine \<times> u32 \<Rightarrow> machine \<times> u32 \<Rightarrow> bool" where
  start: "run_rounds r r"
| more: "run_rounds r r1 \<Longrightarrow> run_round r1 r2 \<Longrightarrow> run_rounds r r2"

text \<open>What is reachable from \<open>runloop\<close>, started with a full rotor.\<close>

definition runloop_reaches :: "machine \<Rightarrow> machine \<Rightarrow> bool" where
  "runloop_reaches m m' \<longleftrightarrow> (\<exists>rotor. run_rounds (m, ROTOR) (m', rotor))"

end
