(* ===== verification/Emufs_Ops.thy ===== *)
theory Emufs_Ops
  imports Emufs_Dev Card_Events
begin

text \<open>
  Properties of the emulator file system. The invariant of its table of handles is
  \<open>handles_distinct\<close>: no file of the host is open under two of them. The locale \<open>emufs_frame\<close> shows
  once that an operation keeps what its single steps keep; with it, an operation touches neither the
  events nor the interrupt lines, and its result appears when the card's own event says so.
\<close>

section \<open>The table\<close>

lemma emufs_at_upd [simp]: "emufs_at (upd_emufs s f m) s' = (if s' = s then f (emufs_at m s) else emufs_at m s')"
  by (simp add: emufs_at_def upd_emufs_def put_device_def)

lemma emufs_at_devices: "devices m' = devices m \<Longrightarrow> emufs_at m' = emufs_at m"
  by (simp add: emufs_at_def fun_eq_iff)

lemma emufs_at_frames [simp]:
  "emufs_at (run_sys c m) = emufs_at m" "emufs_at (raise_fault f m) = emufs_at m"
  "emufs_at (smoke m) = emufs_at m" "emufs_at (die m) = emufs_at m" "emufs_at (hang m) = emufs_at m"
  "emufs_at (emufs_count g m) = emufs_at m" "emufs_at (raise_irq s m) = emufs_at m"
  "emufs_at (lower_irq s m) = emufs_at m" "emufs_at (schedule_event d s k h m) = emufs_at m"
  by (rule emufs_at_devices; simp add: emufs_count_def)+

definition file_open :: "emufs_data \<Rightarrow> nat \<Rightarrow> nat \<Rightarrow> bool" where
  "file_open ed dev ino \<longleftrightarrow> (\<exists>i<MAXHANDLES.
     0 \<le> eh_fd (ed_handles ed i) \<and> eh_dev (ed_handles ed i) = dev \<and> eh_ino (ed_handles ed i) = ino)"

definition handles_distinct :: "emufs_data \<Rightarrow> bool" where
  "handles_distinct ed \<longleftrightarrow> (\<forall>i<MAXHANDLES. \<forall>j<MAXHANDLES.
     0 \<le> eh_fd (ed_handles ed i) \<and> 0 \<le> eh_fd (ed_handles ed j) \<and>
     eh_dev (ed_handles ed i) = eh_dev (ed_handles ed j) \<and>
     eh_ino (ed_handles ed i) = eh_ino (ed_handles ed j) \<longrightarrow> i = j)"

lemma handles_distinct_cong:
  "ed_handles ed' = ed_handles ed \<Longrightarrow> handles_distinct ed' = handles_distinct ed"
  by (simp add: handles_distinct_def)

text \<open>What the search finds.\<close>

lemma pick_loop_found:
  "pick_loop hs dev ino js u = Inl i \<Longrightarrow> i \<in> set js \<and> 0 \<le> eh_fd (hs i) \<and> eh_dev (hs i) = dev \<and> eh_ino (hs i) = ino"
  by (induction js arbitrary: u) (auto split: if_splits)

lemma pick_loop_unused:
  "pick_loop hs dev ino js u = Inr r \<Longrightarrow>
     (\<forall>i \<in> set js. 0 \<le> eh_fd (hs i) \<longrightarrow> \<not> (eh_dev (hs i) = dev \<and> eh_ino (hs i) = ino)) \<and>
     (\<forall>e. r = Some e \<longrightarrow> u = Some e \<or> e \<in> set js \<and> eh_fd (hs e) < 0)"
  by (induction js arbitrary: u) (auto split: if_splits option.splits)

lemma pickhandle_cases:
  assumes "pickhandle slot dev ino m = (m1, r)"
  obtains
    (Found) h where "r = Some h" "m1 = m" "h < MAXHANDLES" "0 \<le> eh_fd (ed_handles (emufs_at m slot) h)"
      "eh_dev (ed_handles (emufs_at m slot) h) = dev" "eh_ino (ed_handles (emufs_at m slot) h) = ino"
  | (Unused) h where "r = Some h" "m1 = upd_emufs slot (name_handle h dev ino) m" "h < MAXHANDLES"
      "eh_fd (ed_handles (emufs_at m slot) h) < 0" "\<not> file_open (emufs_at m slot) dev ino"
  | (Full) "r = None" "m1 = raise_fault Undefined m" "\<not> file_open (emufs_at m slot) dev ino"
proof (cases "pick_loop (ed_handles (emufs_at m slot)) dev ino [0..<MAXHANDLES] None")
  case (Inl i)
  with assms show ?thesis using pick_loop_found [OF Inl] by (intro Found [of i]) (auto simp: pickhandle_def)
next
  case (Inr q)
  with assms pick_loop_unused [OF Inr] show ?thesis
    using Unused Full by (cases q) (auto simp: pickhandle_def file_open_def)
qed

lemma distinct_name:
  "handles_distinct ed \<Longrightarrow> eh_fd (ed_handles ed h) < 0 \<Longrightarrow> handles_distinct (name_handle h dev ino ed)"
  by (simp add: handles_distinct_def name_handle_def)

lemma distinct_open:
  assumes "handles_distinct ed" "\<not> file_open ed dev ino" "eh_fd (ed_handles ed h) < 0"
    and "ed_handles ed' = ed_handles (name_handle h dev ino ed)"
  shows "handles_distinct (open_handle h fd ed')"
  using assms by (auto simp: handles_distinct_def file_open_def open_handle_def name_handle_def)

lemma distinct_closed: "handles_distinct ed \<Longrightarrow> handles_distinct (open_handle h (-1) ed)"
  by (simp add: handles_distinct_def open_handle_def)

lemma pickhandle_distinct:
  assumes "pickhandle slot dev ino m = (m1, r)" "handles_distinct (emufs_at m slot)"
  shows "handles_distinct (emufs_at m1 slot)"
  using assms(1) by (cases rule: pickhandle_cases) (simp_all add: assms(2) distinct_name)

lemma pickhandle_open_distinct:
  assumes "pickhandle slot dev ino m = (m1, Some h)" "handles_distinct (emufs_at m slot)"
    and "eh_fd (ed_handles (emufs_at m1 slot) h) < 0"
    and "ed_handles (emufs_at m2 slot) = ed_handles (emufs_at m1 slot)"
  shows "handles_distinct (emufs_at (upd_emufs slot (open_handle h fd) m2) slot)"
  using assms(1)
proof (cases rule: pickhandle_cases)
  case (Unused h')
  then have "handles_distinct (open_handle h fd (emufs_at m2 slot))"
    using assms(4) by (intro distinct_open [OF assms(2)]) auto
  then show ?thesis by simp
qed (use assms(3) in auto)

lemma open_and_stat_at:
  "emufs_open_and_stat slot flags m = (m1, r) \<Longrightarrow> emufs_at m1 = emufs_at m"
  by (auto simp: emufs_open_and_stat_def do_sys_eq Let_def split: if_splits)

lemma open_create_distinct:
  assumes "handles_distinct (emufs_at m slot)"
  shows "handles_distinct (emufs_at (fst (emufs_open_create slot flags m)) slot)"
proof -
  obtain m1 r where 1: "emufs_open_and_stat slot flags m = (m1, r)" by fastforce
  note at = open_and_stat_at [OF 1]
  show ?thesis
  proof (cases r)
    case (Inr q)
    obtain fd b where q: "q = (fd, b)" by fastforce
    obtain m2 h where 2: "pickhandle slot (sys_dev b) (sys_ino b) m1 = (m2, h)" by fastforce
    have d: "handles_distinct (emufs_at m1 slot)" using assms at by simp
    note p = pickhandle_distinct [OF 2 d] pickhandle_open_distinct [OF _ d]
    show ?thesis
      using p(1) p(2) [OF _ _ refl, of "sys_dev b" "sys_ino b" m2] 2
      by (auto simp: emufs_open_create_def 1 2 Inr q split: option.split simp del: emufs_at_upd)
  qed (simp add: emufs_open_create_def 1 at assms)
qed

lemma existing_round_distinct:
  assumes "handles_distinct (emufs_at (fst r) slot)"
  shows "handles_distinct (emufs_at (fst (existing_round slot flags r)) slot)"
proof (cases "snd r")
  case (Look dev ino)
  then obtain m where r: "r = (m, Look dev ino)" by (cases r) simp
  have d: "handles_distinct (emufs_at m slot)" using assms r by simp
  obtain m1 h where 1: "pickhandle slot dev ino m = (m1, h)" by fastforce
  obtain m2 q where 2: "emufs_open_and_stat slot flags m1 = (m2, q)" by fastforce
  note at = open_and_stat_at [OF 2]
  note p = pickhandle_distinct [OF 1 d] pickhandle_open_distinct [OF _ d, of dev ino m1]
  show ?thesis
    using p(1) p(2) [of _ m2] 1 at
    by (auto simp: r 2 split: option.split sum.split simp del: emufs_at_upd)
qed (use assms in \<open>cases r; simp\<close>)+

lemma open_existing_distinct:
  assumes "handles_distinct (emufs_at m slot)"
  shows "handles_distinct (emufs_at (fst (emufs_open_existing slot flags dev ino m)) slot)"
proof (cases "while_option looking (existing_round slot flags) (m, Look dev ino)")
  case (Some r)
  have "handles_distinct (emufs_at (fst r) slot)"
    by (rule while_option_rule [OF _ Some, where P = "\<lambda>r. handles_distinct (emufs_at (fst r) slot)"])
      (simp_all add: existing_round_distinct assms)
  then show ?thesis using assms by (cases r) (simp add: emufs_open_existing_def Some split: open_state.split)
qed (simp add: emufs_open_existing_def assms)


lemma pushdir_at: "pushdir fd m = (m1, d) \<Longrightarrow> emufs_at m1 = emufs_at m"
  by (auto simp: pushdir_def do_sys_eq Let_def)

lemma popdir_at [simp]: "emufs_at (popdir d m) = emufs_at m"
  by (simp add: popdir_def do_sys_eq Let_def)

lemma in_table_at [simp]: "emufs_at (in_table slot m) = emufs_at m"
  by (simp add: in_table_def)

lemma find_distinct:
  assumes "handles_distinct (emufs_at m slot)"
  shows "handles_distinct (emufs_at (fst (emufs_find slot flags m)) slot)"
  using open_create_distinct [of "run_sys (Sys_stat (emufs_path slot m)) m" slot]
    open_existing_distinct [of "run_sys (Sys_stat (emufs_path slot m)) m" slot] assms
  by (simp add: emufs_find_def do_sys_eq Let_def split_beta)

lemma open_distinct:
  assumes "handles_distinct (emufs_at m slot)"
  shows "handles_distinct (emufs_at (fst (emufs_open slot flags m)) slot)"
proof -
  let ?m1 = "in_table slot (upd_emufs slot (\<lambda>ed. ed\<lparr>ed_buf := (ed_buf ed)(ed_iolen ed := 0)\<rparr>) m)"
  obtain m2 d where 2: "pushdir (emufs_fd slot ?m1) ?m1 = (m2, d)" by fastforce
  obtain m3 b r where 3: "emufs_find slot flags m2 = (m3, b, r)" by (metis surj_pair)
  have "handles_distinct (emufs_at m2 slot)"
    using assms by (simp add: pushdir_at [OF 2] handles_distinct_def)
  then have "handles_distinct (emufs_at m3 slot)" using find_distinct [of m2 slot flags] by (simp add: 3)
  then have "handles_distinct (emufs_at m3 slot\<lparr>ed_handle := h, ed_iolen := i\<rparr>)" for h i
    by (simp add: handles_distinct_def)
  with \<open>handles_distinct (emufs_at m3 slot)\<close> show ?thesis
    using assms by (simp add: emufs_open_def 2 3 Let_def split: sum.split)
qed

lemma readdir_step_at: "emufs_at (fst (readdir_step r)) = emufs_at (fst r)"
  by (simp add: readdir_step_def do_sys_eq Let_def split_beta)

lemma readdir_loop_at:
  assumes "while_option (readdir_more off) readdir_step (m, ct, dp, eof) = Some r"
  shows "emufs_at (fst r) = emufs_at m"
  by (rule while_option_rule [OF _ assms, where P = "\<lambda>r. emufs_at (fst r) = emufs_at m"])
    (simp_all add: readdir_step_at)

lemma entry_handles: "ed_handles (emufs_at (emufs_entry slot dp m) slot) = ed_handles (emufs_at m slot)"
  by (simp add: emufs_entry_def Let_def split: option.split)

lemma readdir_handles:
  "ed_handles (emufs_at (fst (emufs_readdir slot m)) slot) = ed_handles (emufs_at m slot)"
proof -
  let ?m3 = "run_sys (Sys_opendir dot_path) (run_sys (Sys_fchdir (emufs_fd slot (run_sys (Sys_open dot_path O_RDONLY) m)))
    (run_sys (Sys_open dot_path O_RDONLY) m))"
  let ?loop = "while_option (readdir_more (ed_offset (emufs_at m slot))) readdir_step (?m3, 0, None, False)"
  have "emufs_at (fst r) = emufs_at m" if "?loop = Some r" for r
    using readdir_loop_at [OF that] by simp
  then show ?thesis
    by (cases ?loop) (auto simp: emufs_readdir_def do_sys_eq Let_def entry_handles)
qed

lemma close_distinct:
  "handles_distinct (emufs_at m slot) \<Longrightarrow> handles_distinct (emufs_at (fst (emufs_close slot m)) slot)"
  by (simp add: emufs_close_def Let_def distinct_closed)

lemma transfer_handles:
  "ed_handles (emufs_at (fst (emufs_read slot m)) slot) = ed_handles (emufs_at m slot)"
  "ed_handles (emufs_at (fst (emufs_write slot m)) slot) = ed_handles (emufs_at m slot)"
  "ed_handles (emufs_at (fst (emufs_getsize slot m)) slot) = ed_handles (emufs_at m slot)"
  "ed_handles (emufs_at (fst (emufs_trunc slot m)) slot) = ed_handles (emufs_at m slot)"
  by (auto simp: emufs_read_def emufs_write_def emufs_getsize_def emufs_trunc_def do_sys_eq Let_def
      emufs_moved_def split: option.split)

lemma op_distinct:
  assumes "handles_distinct (emufs_at m slot)"
  shows "handles_distinct (emufs_at (fst (emufs_op slot op m)) slot)"
  using assms handles_distinct_cong [OF readdir_handles [of slot m]]
    transfer_handles [of slot m, THEN handles_distinct_cong]
  by (simp add: emufs_op_def Let_def open_distinct close_distinct)

lemma setresult_at:
  "emufs_at (emufs_setresult slot v m) slot = (emufs_at m slot)\<lparr>ed_result := v\<rparr>"
  by (simp add: emufs_setresult_def Let_def)

text \<open>C9: No file of the host is ever open under two handles: whatever is stored to a register of the
  emulator file system, and whatever the host answers to the system calls that makes, the files of
  the open handles stay different, also after the event that ends an operation.\<close>

theorem emufs_handles_distinct:
  assumes "handles_distinct (emufs_at m slot)"
  shows "handles_distinct (emufs_at (fst (emufs_store slot offset val m)) slot) \<and>
    handles_distinct (emufs_at (emufs_done slot m) slot)"
proof
  obtain m1 r where 1: "emufs_op slot val m = (m1, r)" by fastforce
  have "handles_distinct (emufs_at m1 slot)" using op_distinct [OF assms, of val] by (simp add: 1)
  then have "handles_distinct (emufs_at m1 slot\<lparr>ed_busy := b, ed_busyresult := r\<rparr>)" for b r
    by (simp add: handles_distinct_def)
  moreover have "handles_distinct (f (emufs_at m slot))"
    if "\<And>ed. ed_handles (f ed) = ed_handles ed" for f
    using that assms by (simp add: handles_distinct_def)
  ultimately show "handles_distinct (emufs_at (fst (emufs_store slot offset val m)) slot)"
    using assms by (simp add: emufs_store_def emufs_do_op_def 1 setresult_at)
  show "handles_distinct (emufs_at (emufs_done slot m) slot)"
    using assms by (simp add: emufs_done_def Let_def setresult_at handles_distinct_def)
qed

section \<open>What an operation may touch\<close>

text \<open>The part of the device that only \<open>emufs_do_op\<close>, \<open>emufs_done\<close> and stores to the result register
  change.\<close>

definition emufs_front :: "emufs_data \<Rightarrow> nat \<times> bool \<times> u32 \<times> u32" where
  "emufs_front ed = (ed_slot ed, ed_busy ed, ed_result ed, ed_busyresult ed)"

lemma emufs_fronts [simp]:
  "emufs_front (name_handle h dev ino ed) = emufs_front ed"
  "emufs_front (open_handle h fd ed) = emufs_front ed"
  "emufs_front (emufs_moved n ed) = emufs_front ed"
  "emufs_front (ed\<lparr>ed_buf := b\<rparr>) = emufs_front ed"
  "emufs_front (ed\<lparr>ed_handle := w\<rparr>) = emufs_front ed"
  "emufs_front (ed\<lparr>ed_offset := w\<rparr>) = emufs_front ed"
  "emufs_front (ed\<lparr>ed_iolen := w\<rparr>) = emufs_front ed"
  by (simp_all add: emufs_front_def name_handle_def open_handle_def emufs_moved_def)

text \<open>A property kept by system calls, statistics, faults and the changes an operation makes to its
  device is kept by every operation.\<close>

locale emufs_frame =
  fixes P :: "machine \<Rightarrow> bool" and slot :: nat
  assumes fault: "P m \<Longrightarrow> P (raise_fault f m)"
    and stats: "P m \<Longrightarrow> P (upd_stats g m)"
    and sys: "P m \<Longrightarrow> P (run_sys c m)"
    and upd: "(\<And>ed. emufs_front (h ed) = emufs_front ed) \<Longrightarrow> P m \<Longrightarrow> P (upd_emufs slot h m)"
begin

lemmas frame = fault stats sys upd

lemma smoke_frame: "P m \<Longrightarrow> P (smoke m)"
  by (simp add: smoke_def fault)

lemma pushdir_frame: "P m \<Longrightarrow> pushdir fd m = (m1, d) \<Longrightarrow> P m1"
  by (auto simp: pushdir_def do_sys_eq Let_def frame smoke_frame split: if_splits)

lemma popdir_frame: "P m \<Longrightarrow> P (popdir fd m)"
  by (simp add: popdir_def do_sys_eq Let_def frame smoke_frame)

lemma pickhandle_frame: "P m \<Longrightarrow> pickhandle slot dev ino m = (m1, r) \<Longrightarrow> P m1"
  by (auto simp: pickhandle_def frame split: sum.splits option.splits)

lemma open_and_stat_frame: "P m \<Longrightarrow> emufs_open_and_stat slot flags m = (m1, r) \<Longrightarrow> P m1"
  by (auto simp: emufs_open_and_stat_def do_sys_eq Let_def frame split: if_splits)

lemma open_create_frame:
  assumes "P m"
  shows "P (fst (emufs_open_create slot flags m))"
proof -
  obtain m1 r where 1: "emufs_open_and_stat slot flags m = (m1, r)" by fastforce
  have m1: "P m1" by (rule open_and_stat_frame [OF assms 1])
  show ?thesis
  proof (cases r)
    case (Inr q)
    obtain fd a where q: "q = (fd, a)" by fastforce
    obtain m2 h where 2: "pickhandle slot (sys_dev a) (sys_ino a) m1 = (m2, h)" by fastforce
    have "P m2" by (rule pickhandle_frame [OF m1 2])
    then show ?thesis by (simp add: emufs_open_create_def 1 2 Inr q frame split: option.split)
  qed (simp add: emufs_open_create_def 1 m1)
qed

lemma existing_round_frame:
  assumes "P (fst r)"
  shows "P (fst (existing_round slot flags r))"
proof (cases "snd r")
  case (Look dev ino)
  then obtain m where r: "r = (m, Look dev ino)" by (cases r) simp
  obtain m1 h where 1: "pickhandle slot dev ino m = (m1, h)" by fastforce
  have m1: "P m1" using assms r by (intro pickhandle_frame [OF _ 1]) simp
  obtain m2 q where 2: "emufs_open_and_stat slot flags m1 = (m2, q)" by fastforce
  have "P m2" by (rule open_and_stat_frame [OF m1 2])
  then show ?thesis
    using m1 by (simp add: r 1 2 frame split: option.split sum.split prod.split)
qed (use assms in \<open>cases r, simp\<close>)+

lemma loop_frame:
  assumes "while_option b c r = Some r'" "P (fst r)" "\<And>r. P (fst r) \<Longrightarrow> P (fst (c r))"
  shows "P (fst r')"
  using while_option_rule [of "\<lambda>r. P (fst r)" b c r r'] assms by blast

lemma open_existing_frame:
  assumes "P m"
  shows "P (fst (emufs_open_existing slot flags dev ino m))"
proof (cases "while_option looking (existing_round slot flags) (m, Look dev ino)")
  case (Some r)
  have "P (fst r)" by (rule loop_frame [OF Some]) (simp_all add: assms existing_round_frame)
  then show ?thesis
    using assms by (cases r) (simp add: emufs_open_existing_def Some frame split: open_state.split)
qed (simp add: emufs_open_existing_def frame assms)

lemma find_frame: "P m \<Longrightarrow> P (fst (emufs_find slot flags m))"
  by (simp add: emufs_find_def do_sys_eq Let_def split_beta open_create_frame open_existing_frame frame)

lemma open_frame:
  assumes "P m"
  shows "P (fst (emufs_open slot flags m))"
proof -
  let ?m1 = "in_table slot (upd_emufs slot (\<lambda>ed. ed\<lparr>ed_buf := (ed_buf ed)(ed_iolen ed := 0)\<rparr>) m)"
  obtain m2 d where 2: "pushdir (emufs_fd slot ?m1) ?m1 = (m2, d)" by fastforce
  obtain m3 b r where 3: "emufs_find slot flags m2 = (m3, b, r)" by (metis surj_pair)
  have m1: "P ?m1" using assms by (simp add: in_table_def frame)
  have "P m2" by (rule pushdir_frame [OF m1 2])
  then have "P m3" using find_frame [of m2 flags] by (simp add: 3)
  then show ?thesis
    using assms by (simp add: emufs_open_def 2 3 Let_def emufs_count_def frame popdir_frame split: sum.split)
qed

lemma readdir_step_frame: "P (fst r) \<Longrightarrow> P (fst (readdir_step r))"
  by (cases r) (simp add: readdir_step_def do_sys_eq Let_def frame)

lemma entry_frame: "P m \<Longrightarrow> P (emufs_entry slot dp m)"
  by (simp add: emufs_entry_def emufs_count_def Let_def frame split: option.split)

lemma readdir_frame:
  assumes "P m"
  shows "P (fst (emufs_readdir slot m))"
proof -
  let ?m3 = "run_sys (Sys_opendir dot_path) (run_sys (Sys_fchdir (emufs_fd slot (run_sys (Sys_open dot_path O_RDONLY) m)))
    (run_sys (Sys_open dot_path O_RDONLY) m))"
  let ?loop = "while_option (readdir_more (ed_offset (emufs_at m slot))) readdir_step (?m3, 0, None, False)"
  have m3: "P ?m3" using assms by (simp add: frame)
  have "P (fst r)" if "?loop = Some r" for r
    by (rule loop_frame [OF that]) (simp_all add: m3 readdir_step_frame)
  then show ?thesis
    using assms m3 by (cases ?loop) (auto simp: emufs_readdir_def do_sys_eq Let_def frame entry_frame)
qed

lemma transfer_frame:
  "P m \<Longrightarrow> P (fst (emufs_close slot m))" "P m \<Longrightarrow> P (fst (emufs_read slot m))"
  "P m \<Longrightarrow> P (fst (emufs_write slot m))" "P m \<Longrightarrow> P (fst (emufs_getsize slot m))"
  "P m \<Longrightarrow> P (fst (emufs_trunc slot m))"
  by (simp_all add: emufs_close_def emufs_read_def emufs_write_def emufs_getsize_def emufs_trunc_def
      emufs_count_def do_sys_eq Let_def frame split: option.split)

lemma op_frame: "P m \<Longrightarrow> P (fst (emufs_op slot op m))"
  by (simp add: emufs_op_def Let_def open_frame readdir_frame transfer_frame)

end

interpretation emufs_faulty: emufs_frame "\<lambda>m. fault_state m \<noteq> None" slot for slot
  by unfold_locales (auto simp: raise_fault_def upd_stats_def upd_emufs_def put_device_def split: option.split)

text \<open>An operation leaves the event queue and the pool of events alone, and what the registers show
  of the last one.\<close>

interpretation emufs_queue: emufs_frame "\<lambda>m. event_queue m = q \<and> ta_free m = k \<and> bus_raised_interrupts m = w" slot for q k w slot
  by unfold_locales (auto simp: raise_fault_def upd_stats_def upd_emufs_def put_device_def run_sys_def do_sys_def split: option.split)

interpretation emufs_kept: emufs_frame "\<lambda>m. emufs_front (emufs_at m slot) = v" slot for v slot
  by unfold_locales (auto simp: emufs_count_def [symmetric])

section \<open>An operation and its completion\<close>

lemma host_sys_keeps:
  "host_sys (in_table slot m) = host_sys m" "host_sys (smoke m) = host_sys m"
  "host_sys (upd_emufs s f m) = host_sys m" "host_sys (raise_fault fl m) = host_sys m"
  by (simp_all add: in_table_def smoke_def raise_fault_def upd_emufs_def put_device_def split: option.split)

lemma errno_to_code_nonzero [simp]: "errno_to_code e \<noteq> 0"
  by (cases e) (simp_all add: EMU_RES_defs)

lemma fault_keeps [simp]:
  "fault_state (upd_emufs s f m) = fault_state m" "fault_state (emufs_count g m) = fault_state m"
  by (simp_all add: upd_emufs_def put_device_def emufs_count_def upd_stats_def)

lemma faults [simp]:
  "(fault_state (raise_fault f m) = None) = False" "(fault_state (smoke m) = None) = False"
  by (auto simp: raise_fault_def smoke_def split: option.splits)

lemma popdir_fault: "fault_state (popdir d m) = None \<Longrightarrow> fault_state m = None"
  by (auto simp: popdir_def do_sys_eq Let_def split: if_splits)

lemma open_and_stat_status: "emufs_open_and_stat slot flags m = (m1, Inl st) \<Longrightarrow> st \<noteq> 0"
  by (auto simp: emufs_open_and_stat_def do_sys_eq Let_def split: if_splits)

lemma open_create_status: "emufs_open_create slot flags m = (m1, Inl st) \<Longrightarrow> st \<noteq> 0"
  by (auto simp: emufs_open_create_def EMU_RES_defs split: prod.splits sum.splits option.splits if_splits
      dest: open_and_stat_status)

lemma existing_round_status:
  "(\<forall>st. snd r = Failed st \<longrightarrow> st \<noteq> 0) \<Longrightarrow> snd (existing_round slot flags r) = Failed st \<Longrightarrow> st \<noteq> 0"
  by (cases "(slot, flags, r)" rule: existing_round.cases)
    (auto simp: EMU_RES_defs split: prod.splits sum.splits option.splits if_splits dest: open_and_stat_status)

lemma open_existing_status:
  assumes "emufs_open_existing slot flags dev ino m = (m1, Inl st)" "fault_state m1 = None"
  shows "st \<noteq> 0"
proof (cases "while_option looking (existing_round slot flags) (m, Look dev ino)")
  case (Some r)
  have ok: "\<forall>st. snd r = Failed st \<longrightarrow> st \<noteq> 0"
    by (rule while_option_rule [OF _ Some, where P = "\<lambda>r. \<forall>st. snd r = Failed st \<longrightarrow> st \<noteq> 0"])
      (use existing_round_status in blast, simp)
  have "\<not> looking r" by (rule while_option_stop [OF Some])
  then show ?thesis using assms(1) ok
    by (cases r; cases "snd r") (auto simp: emufs_open_existing_def Some looking_def)
qed (use assms in \<open>auto simp: emufs_open_existing_def\<close>)

lemma find_status:
  "emufs_find slot flags m = (m1, b, Inl st) \<Longrightarrow> fault_state m1 = None \<Longrightarrow> st \<noteq> 0"
  by (auto simp: emufs_find_def do_sys_eq Let_def split: if_splits prod.splits
      dest: open_create_status open_existing_status)

lemma open_status:
  assumes "emufs_open slot flags m = (m1, res)" "fault_state m1 = None"
  shows "res \<noteq> 0"
proof -
  let ?m1 = "in_table slot (upd_emufs slot (\<lambda>ed. ed\<lparr>ed_buf := (ed_buf ed)(ed_iolen ed := 0)\<rparr>) m)"
  obtain m2 d where 2: "pushdir (emufs_fd slot ?m1) ?m1 = (m2, d)" by fastforce
  obtain m3 b r where 3: "emufs_find slot flags m2 = (m3, b, r)" by (metis surj_pair)
  show ?thesis
    using assms 3 find_status [of slot flags m2 m3 b] popdir_fault [of d m3]
    by (auto simp: emufs_open_def 2 3 Let_def EMU_RES_defs split: if_splits sum.splits)
qed

lemma op_status:
  assumes "emufs_op slot op m = (m1, res)" "fault_state m1 = None"
  shows "res \<noteq> 0"
  using assms
  by (auto simp: emufs_op_def Let_def EMU_RES_defs emufs_close_def emufs_read_def emufs_write_def
      emufs_getsize_def emufs_trunc_def emufs_readdir_def do_sys_eq
      split: if_splits option.splits dest: open_status)

lemma emufs_queue_upd [simp]:
  "event_queue (upd_emufs s f m) = event_queue m" "ta_free (upd_emufs s f m) = ta_free m"
  "bus_raised_interrupts (upd_emufs s f m) = bus_raised_interrupts m"
  by (simp_all add: upd_emufs_def)

lemma check_irq_emufs [simp]: "check_irq s (upd_emufs s' f m) = check_irq s m"
  by (rule check_irq_raised) simp

text \<open>The card is busy exactly while its one completion event is queued.\<close>

definition emufs_sync :: "nat \<Rightarrow> machine \<Rightarrow> bool" where
  "emufs_sync slot m \<longleftrightarrow> events_of F_emufs_done slot m = (if ed_busy (emufs_at m slot) then 1 else 0)"

text \<open>The operations on a handle never stop the simulator; those that change directory may.\<close>

definition changes_directory :: "u32 \<Rightarrow> bool" where
  "changes_directory op \<longleftrightarrow> op \<in> {EMU_OP_OPEN, EMU_OP_CREATE, EMU_OP_EXCLCREATE, EMU_OP_READDIR}"

lemma emufs_count_fault [simp]: "fault_state (emufs_count f m) = fault_state m"
  by (simp add: emufs_count_def upd_stats_def)

lemma handle_op_fault: "\<not> changes_directory op \<Longrightarrow> fault_state (fst (emufs_op slot op m)) = fault_state m"
  by (auto simp: changes_directory_def emufs_op_def Let_def emufs_close_def emufs_read_def emufs_write_def
      emufs_getsize_def emufs_trunc_def do_sys_eq split: option.split)

text \<open>C22: An operation of the emulator file system completes with an answer. When the card is idle, storing
  an operation code leaves exactly one completion event, keeps the interrupt line and the result register
  as they were, and marks the card busy. Whatever happens until that event arrives, as long as it leaves
  the card busy with the same outcome, the event makes the card idle, puts the operation's result in the
  result register, which is never zero, and raises the card's interrupt line. The host may answer in any
  way; only opening and reading a directory may stop the simulator (no handle left, a directory that can
  not be returned to, a file that keeps changing), and then nothing is claimed.\<close>

theorem emufs_operation_completes:
  assumes "fault_state m = None" "0 < ta_free m" "ed_slot (emufs_at m slot) < 32"
    and "\<not> ed_busy (emufs_at m slot)" "emufs_sync slot m"
    and "emufs_op slot op m = (m1, res)" "changes_directory op \<Longrightarrow> fault_state m1 = None"
    and "emufs_store slot EMUREG_OPER op m = (m2, ok)"
    and "fault_state m3 = None" "ed_busy (emufs_at m3 slot)" "ed_slot (emufs_at m3 slot) = ed_slot (emufs_at m2 slot)"
      "ed_busyresult (emufs_at m3 slot) = ed_busyresult (emufs_at m2 slot)"
  shows "ok \<and> fault_state m2 = None \<and> ed_busy (emufs_at m2 slot) \<and> emufs_sync slot m2 \<and>
    ed_result (emufs_at m2 slot) = ed_result (emufs_at m slot) \<and> check_irq i m2 = check_irq i m \<and>
    res \<noteq> 0 \<and> fault_state (emufs_done slot m3) = None \<and> \<not> ed_busy (emufs_at (emufs_done slot m3) slot) \<and>
    ed_result (emufs_at (emufs_done slot m3) slot) = res \<and>
    check_irq (ed_slot (emufs_at m slot)) (emufs_done slot m3)"
proof -
  have f1: "fault_state m1 = None" using handle_op_fault [of op slot m] assms(1,6,7) by auto
  have q: "event_queue m1 = event_queue m" "ta_free m1 = ta_free m"
    "bus_raised_interrupts m1 = bus_raised_interrupts m"
    using emufs_queue.op_frame [of m "event_queue m" "ta_free m" "bus_raised_interrupts m" slot op] assms(6)
    by simp_all
  have f: "ed_slot (emufs_at m1 slot) = ed_slot (emufs_at m slot)"
    "ed_result (emufs_at m1 slot) = ed_result (emufs_at m slot)"
    using emufs_kept.op_frame [of m slot "emufs_front (emufs_at m slot)" op] assms(6)
    by (simp_all add: emufs_front_def)
  have r: "res \<noteq> 0" by (rule op_status [OF assms(6) f1])
  let ?u = "upd_emufs slot (\<lambda>ed. ed\<lparr>ed_busy := True, ed_busyresult := res\<rparr>) m1"
  have m2: "m2 = schedule_event EMUFS_NSECS slot 0 F_emufs_done ?u" "ok"
    using assms(4,6,8) by (auto simp: emufs_store_def emufs_do_op_def EMUREG_defs)
  have "fault_state m2 = None"
    unfolding m2(1) using f1 q(2) assms(2) by (simp add: schedule_event_faults upd_emufs_def)
  moreover have "events_of F_emufs_done slot m2 = events_of F_emufs_done slot m + 1"
    unfolding m2(1) using q assms(2) by (subst events_of_schedule) (simp_all add: events_of_def)
  moreover have "check_irq i m2 = check_irq i m"
    using q by (intro check_irq_raised) (simp add: m2)
  moreover have "emufs_at m2 slot = (emufs_at m1 slot)\<lparr>ed_busy := True, ed_busyresult := res\<rparr>"
    by (simp add: m2)
  ultimately show ?thesis
    using r f m2(2) assms(3-5,9-12)
    by (simp add: emufs_done_def emufs_setresult_def Let_def bus_lines.test_up word_gt_0 emufs_sync_def)
qed

section \<open>Opening\<close>

text \<open>An exclusive create of a file that is already open does not fail. If the host says that the
  name exists and the file has a handle, opening returns that handle whatever the flags, \<open>O_EXCL\<close> of
  \<open>EMU_OP_EXCLCREATE\<close> among them, and changes nothing but the log of system calls.\<close>

theorem exclcreate_open_file_succeeds:
  assumes "handles_distinct (emufs_at m slot)"
    and "a = host_sys m (host_log m) (Sys_stat (emufs_path slot m))" "sys_ret a = 0"
    and "h < MAXHANDLES" "0 \<le> eh_fd (ed_handles (emufs_at m slot) h)"
    and "eh_dev (ed_handles (emufs_at m slot) h) = sys_dev a" "eh_ino (ed_handles (emufs_at m slot) h) = sys_ino a"
  shows "emufs_find slot (O_CREAT OR O_EXCL) m =
    (run_sys (Sys_stat (emufs_path slot m)) m, sys_isdir a, Inr h)"
proof -
  let ?m = "run_sys (Sys_stat (emufs_path slot m)) m"
  obtain m1 r where 1: "pickhandle slot (sys_dev a) (sys_ino a) ?m = (m1, r)" by fastforce
  have "file_open (emufs_at ?m slot) (sys_dev a) (sys_ino a)"
    using assms(4-7) by (auto simp: file_open_def)
  note fo = this
  have p: "pickhandle slot (sys_dev a) (sys_ino a) ?m = (?m, Some h)"
    using 1
  proof (cases rule: pickhandle_cases)
    case (Found h')
    then have "h' = h" using assms(1,4-7) unfolding handles_distinct_def by simp
    with 1 Found show ?thesis by simp
  qed (use fo in simp_all)
  have "while_option looking (existing_round slot flags) (?m, Look (sys_dev a) (sys_ino a)) = Some (?m, Opened h)"
    for flags
    using p assms(5) by (subst while_option_unfold, simp add: looking_def, subst while_option_unfold)
      (simp add: looking_def)
  then show ?thesis
    using assms(2,3) by (simp add: emufs_find_def do_sys_eq emufs_open_existing_def Let_def)
qed

lemma pushdir_refused:
  assumes "pushdir fd m = (m1, d)" "\<And>log. sys_ret (host_sys m log (Sys_fchdir fd)) \<noteq> 0"
  shows "fault_state m1 \<noteq> None"
proof -
  have "fault_state (fst (pushdir fd m)) \<noteq> None"
    by (simp add: pushdir_def do_sys_eq Let_def host_sys_keeps assms(2) del: not_None_eq)
  then show ?thesis using assms(1) by simp
qed

text \<open>Opening relative to a bad handle takes the simulator down. The three open operations use the
  handle register without the test that the others make: a number beyond the table is an access out of
  bounds, and a handle that is not open aborts, since the host refuses to change to directory -1.\<close>

theorem emufs_open_bad_handle:
  assumes "op \<in> {EMU_OP_OPEN, EMU_OP_CREATE, EMU_OP_EXCLCREATE}" "fault_state m = None"
    and "ed_iolen (emufs_at m slot) < EMU_BUF_SIZE"
    and "\<And>log d. d < 0 \<Longrightarrow> sys_ret (host_sys m log (Sys_fchdir d)) = -1"
    and "MAXHANDLES \<le> unat (ed_handle (emufs_at m slot)) \<or> emufs_fd slot m < 0"
  shows "fault_state (fst (emufs_op slot op m)) \<noteq> None"
proof -
  let ?m1 = "in_table slot (upd_emufs slot (\<lambda>ed. ed\<lparr>ed_buf := (ed_buf ed)(ed_iolen ed := 0)\<rparr>) m)"
  obtain m2 d where 2: "pushdir (emufs_fd slot ?m1) ?m1 = (m2, d)" by fastforce
  have fd: "emufs_fd slot ?m1 = emufs_fd slot m" by (simp add: emufs_fd_def Let_def)
  have f2: "fault_state m2 \<noteq> None"
  proof (cases "MAXHANDLES \<le> unat (ed_handle (emufs_at m slot))")
    case True
    then have "fault_state ?m1 \<noteq> None" by (simp add: in_table_def del: not_None_eq)
    then show ?thesis using 2 by (rule emufs_faulty.pushdir_frame)
  next
    case False
    then have d: "emufs_fd slot m < 0" using assms(5) by simp
    have "sys_ret (host_sys ?m1 log (Sys_fchdir (emufs_fd slot ?m1))) \<noteq> 0" for log
      unfolding host_sys_keeps fd using assms(4) [OF d] by simp
    then show ?thesis by (rule pushdir_refused [OF 2])
  qed
  have "fault_state (fst (emufs_open slot flags m)) \<noteq> None" for flags
  proof -
    obtain m3 b r where 3: "emufs_find slot flags m2 = (m3, b, r)" by (metis surj_pair)
    have "fault_state m3 \<noteq> None" using emufs_faulty.find_frame [OF f2, of slot flags] by (simp add: 3)
    then have "fault_state (popdir d m3) \<noteq> None" by (rule emufs_faulty.popdir_frame)
    then show ?thesis
      using assms(3) by (simp add: emufs_open_def 2 3 Let_def not_le [symmetric] split: sum.split)
  qed
  then show ?thesis using assms(1)
    by (elim insertE emptyE) (simp_all add: emufs_op_def Let_def EMU_OP_defs del: not_None_eq)
qed

end
