(* ===== verification/Closure.thy ===== *)
theory Closure
  imports Mips_Cycle Emufs_Ops
begin

text \<open>
  Which properties of the machine survive running it. The locales below are contracts between a
  property and the simulator: a property that survives the single updates the code makes survives
  the devices (\<open>device_closed\<close>), the bus (\<open>bus_closed\<close>), an instruction (\<open>insn_closed\<close>) and a
  cycle of the machine (\<open>cycle_closed\<close>, \<open>machine_closed\<close>). They are interpreted on the cycling flag in \<open>Halting\<close>, on
  what a user program cannot change in \<open>Isolation\<close>, and on the invariant of the main loop in
  \<open>Run_Ok\<close>.
\<close>

named_theorems closed

section \<open>Devices\<close>

context exn_closed begin

lemma entrypoint_closed:
  assumes "P m" "\<And>m. P m \<Longrightarrow> P (hang m)" "\<And>m a. P m \<Longrightarrow> P (upd_cpu cn (entry_regs a) m)"
  shows "P (cpu_set_entrypoint cn addr m)"
proof -
  let ?bad = "addr AND 0x3 \<noteq> 0"
  let ?m2 = "upd_cpu cn (entry_regs (if ?bad then addr AND 0xfffffffc else addr)) (if ?bad then hang m else m)"
  obtain m3 ok3 where p3: "precompute_pc cn ?m2 = (m3, ok3)" by fastforce
  let ?m3 = "if ok3 then m3 else hang m3"
  obtain m4 ok4 where p4: "precompute_nextpc cn ?m3 = (m4, ok4)" by fastforce
  have "P ?m2" using assms by simp
  then have "P ?m3" using precompute_pc_closed [of ?m2] assms(2) by (simp only: p3 fst_conv) simp
  then have "P (if ok4 then m4 else hang m4)"
    using precompute_nextpc_closed [of ?m3] assms(2) by (simp only: p4 fst_conv) simp
  then show ?thesis
    using assms(1) upd_fault [of m Smoke]
    by (simp only: cpu_set_entrypoint_def Let_def p3 p4 prod.case smoke_def) simp
qed

end

locale device_closed =
  fixes P :: "machine \<Rightarrow> bool"
  assumes fault: "P m \<Longrightarrow> P (raise_fault f m)"
    and stats: "P m \<Longrightarrow> P (upd_stats g m)"
    and device: "P m \<Longrightarrow> P (put_device slot d m)"
    and line_up: "P m \<Longrightarrow> P (raise_irq s m)"
    and line_down: "P m \<Longrightarrow> P (lower_irq s m)"
    and event: "P m \<Longrightarrow> P (schedule_event nsecs dat code func m)"
    and random: "P m \<Longrightarrow> P (m\<lparr>random_pos := n\<rparr>)"
    and time: "P m \<Longrightarrow> P (m\<lparr>start_secs := v\<rparr>)" "P m \<Longrightarrow> P (m\<lparr>start_nsecs := v\<rparr>)"
    and doom: "P m \<Longrightarrow> P (m\<lparr>doom_counter := n\<rparr>)"
    and console: "P m \<Longrightarrow> P (m\<lparr>console_out := out\<rparr>)"
    and stop: "P m \<Longrightarrow> P (cpu_stopcycling m)"
    and debugger: "P m \<Longrightarrow> P (main_enter_debugger lethal m)"
    and poweroff: "P m \<Longrightarrow> P (main_poweroff m)"
    and host: "P m \<Longrightarrow> P (m\<lparr>host_log := calls\<rparr>)"
    and profile: "P m \<Longrightarrow> P (m\<lparr>prof := p\<rparr>)"
    and trace: "P m \<Longrightarrow> P (m\<lparr>g_traceflags := flags\<rparr>)" "P m \<Longrightarrow> P (m\<lparr>tracing := b\<rparr>)"
      "P m \<Longrightarrow> P (m\<lparr>got_debugrequest := b\<rparr>)"
    and meter: "P m \<Longrightarrow> P (m\<lparr>meters := ms\<rparr>)"
begin

lemmas steps [closed] =
  fault stats device line_up line_down event random time doom console stop debugger poweroff
  host profile trace meter

lemma hang_closed [closed]: "P m \<Longrightarrow> P (hang m)"
  by (simp add: hang_def closed)

lemma smoke_closed [closed]: "P m \<Longrightarrow> P (smoke m)"
  by (simp add: smoke_def closed)

lemma upd_device_closed [closed]:
  "P m \<Longrightarrow> P (upd_timer s f m)" "P m \<Longrightarrow> P (upd_serial s g m)" "P m \<Longrightarrow> P (upd_disk s h m)"
  "P m \<Longrightarrow> P (upd_net s i m)" "P m \<Longrightarrow> P (upd_emufs s j m)" "P m \<Longrightarrow> P (upd_prof k m)"
  by (simp_all add: upd_timer_def upd_serial_def upd_disk_def upd_net_def upd_emufs_def upd_prof_def closed)

lemma sys_closed [closed]:
  "P m \<Longrightarrow> P (run_sys c m)" "P m \<Longrightarrow> P (fst (do_sys c m))" "P m \<Longrightarrow> P (die m)"
  by (simp_all add: run_sys_def do_sys_def die_def closed)

subsection \<open>The timer, the serial port, the disk\<close>

lemma timer_closed [closed]:
  "P m \<Longrightarrow> P (timer_start s m)" "P m \<Longrightarrow> P (timer_interrupt s gen m)"
  by (simp_all add: timer_start_def timer_interrupt_def Let_def closed)

lemma timer_io_closed [closed]:
  "P m \<Longrightarrow> P (fst (timer_fetch s off m))" "P m \<Longrightarrow> P (fst (timer_store s off v m))"
  by (simp_all add: timer_fetch_def timer_store_def Let_def clock_setsecs_def clock_setnsecs_def closed)

lemma rand_io_closed [closed]:
  "P m \<Longrightarrow> P (fst (rand_fetch off m))" "P m \<Longrightarrow> P (fst (rand_store off v m))"
  by (simp_all add: rand_fetch_def rand_store_def Let_def host_next_random_def closed)

lemma setirq_closed [closed]: "P m \<Longrightarrow> P (setirq s m)"
  by (simp add: setirq_def Let_def closed)

lemma serial_closed [closed]:
  "P m \<Longrightarrow> P (serial_writedone s m)" "P m \<Longrightarrow> P (serial_pushinput s m)"
  by (simp_all add: serial_writedone_def serial_pushinput_def Let_def closed)

lemma serial_input_closed [closed]: "P m \<Longrightarrow> P (serial_input s ch m)"
  by (simp add: serial_input_def Let_def closed)

lemma serial_io_closed [closed]:
  "P m \<Longrightarrow> P (fst (serial_fetch s off m))" "P m \<Longrightarrow> P (fst (serial_store s off v m))"
  by (simp_all add: serial_fetch_def serial_store_def Let_def console_putc_def closed)

lemma doom_closed [closed]: "P m \<Longrightarrow> P (doom_tick m)"
  by (simp add: doom_tick_def Let_def closed)

lemma disk_io_closed [closed]: "P m \<Longrightarrow> P (disk_io s m)"
  by (simp add: disk_io_def Let_def closed split: prod.split)

lemma disk_wait_closed [closed]: "P m \<Longrightarrow> P (disk_wait s nsecs code f m)"
  by (simp add: disk_wait_def closed)

lemma disk_copy_closed [closed]: "P m \<Longrightarrow> P (disk_copy_stage s m)"
  by (simp add: disk_copy_stage_def Let_def closed)

lemma disk_work_closed [closed]: "P m \<Longrightarrow> P (disk_work s m)"
  by (simp add: disk_work_def Let_def closed split: option.split prod.split)

lemma disk_update_closed [closed]: "P m \<Longrightarrow> P (disk_update s m)"
  by (simp add: disk_update_def Let_def closed)

lemma disk_done_closed [closed]:
  "P m \<Longrightarrow> P (disk_seekdone s v m)" "P m \<Longrightarrow> P (disk_waitdone s v m)"
  by (simp_all add: disk_seekdone_def disk_waitdone_def closed)

lemma disk_setstatus_closed [closed]: "P m \<Longrightarrow> P (disk_setstatus s v m)"
  by (simp add: disk_setstatus_def Let_def closed)

lemma disk_regs_closed [closed]:
  "P m \<Longrightarrow> P (fst (disk_fetch s off m))" "P m \<Longrightarrow> P (fst (disk_store s off v m))"
  by (simp_all add: disk_fetch_def disk_store_def Let_def closed split: option.split)

subsection \<open>The profiler, the trace card, the network card\<close>

lemma prof_closed [closed]:
  "P m \<Longrightarrow> P (prof_enable m)" "P m \<Longrightarrow> P (prof_disable m)" "P m \<Longrightarrow> P (prof_clear m)"
  "P m \<Longrightarrow> P (prof_sample m)" "P m \<Longrightarrow> P (prof_call a b m)"
  by (simp_all add: prof_enable_def prof_disable_def prof_clear_def prof_sample_def prof_call_def closed)

lemma trace_closed [closed]:
  "P m \<Longrightarrow> P (fst (trace_fetch off m))" "P m \<Longrightarrow> P (fst (trace_store off v m))"
  by (simp_all add: trace_fetch_def trace_store_def trace_adjust_def adjust_traceflag_def
      update_cpu_tracing_def cpu_set_tracing_def main_note_debugrequest_def closed split: option.split)

lemma chkint_closed [closed]: "P m \<Longrightarrow> P (chkint s m)"
  by (simp add: chkint_def Let_def closed)

lemma net_send_closed [closed]: "P m \<Longrightarrow> P (keepalive s m)" "P m \<Longrightarrow> P (dosend s m)"
  by (simp_all add: keepalive_def dosend_def writedone_def do_sys_eq Let_def closed)

lemma net_recv_closed [closed]: "P m \<Longrightarrow> P (dorecv s m)"
  by (simp add: dorecv_def readdone_def net_error_def do_sys_eq Let_def closed split: option.split)

lemma net_regs_closed [closed]:
  "P m \<Longrightarrow> P (triggersend s m)" "P m \<Longrightarrow> P (fst (net_fetch s off m))" "P m \<Longrightarrow> P (fst (net_store s off v m))"
  by (simp_all add: triggersend_def net_fetch_def net_store_def net_setirq_def setctl_def Let_def closed)

subsection \<open>The emulator file system\<close>

sublocale emufs: emufs_frame P slot for slot
  by unfold_locales (simp_all add: closed)

lemma setresult_closed [closed]: "P m \<Longrightarrow> P (emufs_setresult s v m)"
  by (simp add: emufs_setresult_def Let_def closed)

lemmas emufs_op_closed [closed] = emufs.op_frame

lemma emufs_done_closed [closed]: "P m \<Longrightarrow> P (emufs_done s m)"
  by (simp add: emufs_done_def Let_def closed)

lemma emufs_io_closed [closed]:
  "P m \<Longrightarrow> P (fst (emufs_fetch s off m))" "P m \<Longrightarrow> P (fst (emufs_store s off v m))"
  using emufs_op_closed [of m s v]
  by (simp_all add: emufs_fetch_def emufs_store_def emufs_do_op_def Let_def split_beta closed)

subsection \<open>Events\<close>

lemma dopoweroff_closed [closed]: "P m \<Longrightarrow> P (dopoweroff m)"
  by (simp add: dopoweroff_def closed)

lemma meter_say_closed [closed]: "P m \<Longrightarrow> P (meter_say fd s m)"
  by (simp add: meter_say_def closed)

lemma meter_report_closed [closed]: "P m \<Longrightarrow> P (meter_report fd m)"
  by (simp add: meter_report_def closed)

lemma meter_update_closed [closed]: "P m \<Longrightarrow> P (meter_update k m)"
  by (simp add: meter_update_def closed split: option.split)

lemma meter_line_closed: "P m \<Longrightarrow> P (snd (meter_line p (me, m)))"
  by (simp add: meter_line_def Let_def closed split: prod.split option.split)

lemma meter_lines_closed: "P (snd mm) \<Longrightarrow> P (snd (meter_lines mm))"
proof (induction mm rule: meter_lines.induct)
  case (1 mm)
  have "P (snd (meter_line p mm))" for p using 1(2) meter_line_closed [of "snd mm" p "fst mm"] by simp
  then show ?case using 1 by (subst meter_lines.simps) (simp split: option.split)
qed

lemma meter_receive_closed [closed]: "P m \<Longrightarrow> P (meter_receive k m)"
proof -
  assume m: "P m"
  have l: "P m'' " if "meter_lines (me, m') = (me', m'')" "P m'" for me m' me' m''
    using meter_lines_closed [of "(me, m')"] that by simp
  show ?thesis
    using m by (auto simp: meter_receive_def do_sys_eq Let_def case_prod_beta closed intro!: meter meter_lines_closed
        split: option.split)
qed

lemma meter_accept_closed [closed]: "P m \<Longrightarrow> P (meter_accept fd mem m)"
  by (simp add: meter_accept_def meter_hello_def meter_header_def Let_def closed split: option.split prod.split)

lemma run_event_closed [closed]: "P m \<Longrightarrow> P (run_event ta m)"
  by (simp add: run_event_def closed split: ta_func.split)

subsection \<open>Reading a register\<close>

lemma region_cases:
  assumes "P m"
  obtains m1 region off1 where "lamebus_controller_region off m = (m1, region, off1)" "P m1"
  using assms smoke_closed [OF assms] by (auto simp: lamebus_controller_region_def Let_def)

lemma controller_fetch_parts [closed]:
  "P m \<Longrightarrow> P (fst (lamebus_controller_fetch_cpu off m))"
  "P m \<Longrightarrow> P (fst (lamebus_controller_fetch_config cn old off m))"
  by (rule region_cases [of m off],
      simp_all add: lamebus_controller_fetch_cpu_def lamebus_controller_fetch_config_def Let_def closed)+

lemma controller_fetch_closed [closed]: "P m \<Longrightarrow> P (fst (lamebus_controller_fetch cn old off m))"
  by (simp add: lamebus_controller_fetch_def closed)

lemma bus_fetch_closed [closed]: "P m \<Longrightarrow> P (fst (bus_io_fetch cn off m))"
  by (simp add: bus_io_fetch_def Let_def closed split: option.split device.split)

end

text \<open>Writing the controller's registers turns cpus and their interrupts on and off.\<close>

locale bus_closed = device_closed +
  assumes irqe: "P m \<Longrightarrow> P (irqupdate (m\<lparr>bus_enabled_interrupts := v\<rparr>))"
    and cirqe: "P m \<Longrightarrow> i < ncpus m \<Longrightarrow>
      P (irqupdate (upd_lbcpu i (\<lambda>c. c\<lparr>cpu_enabled_interrupts := v\<rparr>) m))"
    and cipi: "P m \<Longrightarrow> i < ncpus m \<Longrightarrow>
      P (cpu_set_irqs i (cpu_interrupting (lb_cpus m i)) b (upd_lbcpu i (\<lambda>c. c\<lparr>cpu_ipi := b\<rparr>) m))"
    and cram: "P m \<Longrightarrow> P (upd_lbcpu i (\<lambda>c. c\<lparr>cpu_cram := host_store32 (cpu_cram c) a v\<rparr>) m)"
    and cpue: "P m \<Longrightarrow> i < ncpus m \<Longrightarrow> P (set_cpue_one v i m)"
begin

lemmas controller_steps [closed] = irqe cirqe cipi cram cpue

lemma set_cpue_fold:
  "P m \<Longrightarrow> k \<le> ncpus m \<Longrightarrow> P (fold (set_cpue_one v) [0..<k] m)"
proof (induction k)
  case (Suc k)
  then show ?case using fold_set_cpue_flag(2) [of v k m] by (simp add: closed)
qed simp

lemma set_cpue_closed [closed]: "P m \<Longrightarrow> P (set_cpue v m)"
  by (simp add: set_cpue_def set_cpue_fold)

lemma region_less: "\<not> of_nat (ncpus m) \<le> (region :: u32) \<Longrightarrow> unat region < ncpus m"
  by (simp add: not_le word_less_nat_alt unat_of_nat take_bit_eq_mod)

lemma controller_store_parts [closed]:
  "P m \<Longrightarrow> P (fst (lamebus_controller_store_cpu off v m))"
  "P m \<Longrightarrow> P (fst (lamebus_controller_store_config old off v m))"
  by (rule region_cases [of m off],
      simp_all add: lamebus_controller_store_cpu_def lamebus_controller_store_config_def Let_def
        closed region_less)+

lemma controller_store_closed [closed]: "P m \<Longrightarrow> P (fst (lamebus_controller_store old off v m))"
  by (simp add: lamebus_controller_store_def closed)

lemma bus_io_closed [closed]:
  "P m \<Longrightarrow> P (fst (bus_io_fetch cn off m))" "P m \<Longrightarrow> P (fst (bus_io_store cn off v m))"
  by (simp_all add: bus_io_store_def Let_def closed split: option.split device.split)

end

section \<open>Instructions\<close>

text \<open>Updates of a processor that keep its state, its lines, its TLB, its address space and its
  status masks: all that an instruction of a user program does to it besides exceptions.\<close>

definition insn_quiet :: "(mipscpu \<Rightarrow> mipscpu) \<Rightarrow> bool" where
  "insn_quiet f \<longleftrightarrow> (\<forall>c. cpu_state (f c) = cpu_state c \<and> cpunum (f c) = cpunum c \<and>
     irq_lamebus (f c) = irq_lamebus c \<and> irq_ipi (f c) = irq_ipi c \<and> tlb (f c) = tlb c \<and>
     mt_pid (tlbentry (f c)) = mt_pid (tlbentry c) \<and>
     status_copenable (f c) = status_copenable c \<and> status_bootvectors (f c) = status_bootvectors c \<and>
     status_hardmask_lb (f c) = status_hardmask_lb c \<and>
     status_hardmask_ipi (f c) = status_hardmask_ipi c \<and>
     status_hardmask_timer (f c) = status_hardmask_timer c \<and>
     status_softmask (f c) = status_softmask c)"

text \<open>\<open>P\<close> holds when an instruction starts and still after a load that succeeds; \<open>E\<close> holds at its
  end, whether it took an exception or not.\<close>

locale insn_closed = exn_closed E cn for E :: "machine \<Rightarrow> bool" and cn +
  fixes P :: "machine \<Rightarrow> bool"
  assumes starts: "P m \<Longrightarrow> E m"
    and quiet: "insn_quiet f \<Longrightarrow> E m \<Longrightarrow> E (upd_cpu cn f m)"
    and count: "E m \<Longrightarrow> E (upd_stats g m)"
    and prof: "E m \<Longrightarrow> E (m\<lparr>prof := p\<rparr>)"
    and fetch: "P m \<Longrightarrow> domem_fetch cn va w m = (m1, r) \<Longrightarrow> E m1 \<and> (\<forall>v. r = Fetched v \<longrightarrow> P m1)"
    and store: "P m \<Longrightarrow> E (fst (domem_store cn va v True m))"
begin

lemmas E_steps [closed] =
  count prof upd_fault exception_closed translatemem_closed precompute_pc_closed
  precompute_nextpc_closed

lemma upd_quiet [closed]: "E m \<Longrightarrow> insn_quiet f \<Longrightarrow> E (upd_cpu cn f m)"
  by (rule quiet)

lemma reg_closed [closed]:
  "E m \<Longrightarrow> E (setreg cn n v m)" "E m \<Longrightarrow> E (link cn n m)" "E m \<Longrightarrow> E (set_hilo cn h l m)"
  "E m \<Longrightarrow> E (addpercpu cn g m)" "E m \<Longrightarrow> E (prof_call a b m)"
  by (simp_all add: setreg_def link_def set_hilo_def addpercpu_def upd_percpu_def prof_call_def upd_prof_def
      insn_quiet_def closed)

lemma smokes [closed]: "E m \<Longrightarrow> E (smoke m)"
  by (simp add: smoke_def closed)

lemma phony_closed [closed]:
  assumes "E m"
  shows "E (phony_exception cn m)"
proof -
  let ?m1 = "upd_cpu cn (\<lambda>c. c\<lparr>jumping := False, in_jumpdelay := False, pc := expc c, nextpc := expc c + 4\<rparr>) m"
  obtain m2 ok2 where 2: "precompute_pc cn ?m1 = (m2, ok2)" by fastforce
  have "E ?m1" using assms by (simp add: closed insn_quiet_def)
  then have "E (fst (precompute_pc cn ?m1))" by (rule closed)
  then have "E (if ok2 then m2 else smoke m2)" by (simp add: 2 closed)
  then have "E (fst (precompute_nextpc cn (if ok2 then m2 else smoke m2)))" by (rule closed)
  then show ?thesis
    by (auto simp: phony_exception_def 2 Let_def closed split: prod.split)
qed

lemma stall_closed [closed]:
  "E m \<Longrightarrow> (\<And>m. E m \<Longrightarrow> E (k m)) \<Longrightarrow> E (whilo cn k m)"
  "E m \<Longrightarrow> (\<And>m. E m \<Longrightarrow> E (k m)) \<Longrightarrow> E (whi cn k m)"
  "E m \<Longrightarrow> (\<And>m. E m \<Longrightarrow> E (k m)) \<Longrightarrow> E (wlo cn k m)"
  by (simp_all add: whilo_def whi_def wlo_def closed)

lemma branch_closed [closed]:
  "E m \<Longrightarrow> E (abranch cn a m)" "E m \<Longrightarrow> E (ibranch cn i m)" "E m \<Longrightarrow> E (rbranch cn j m)"
  by (simp_all add: abranch_def ibranch_def rbranch_def Let_def closed insn_quiet_def split: option.split)

lemma arith_closed [closed]:
  "E m \<Longrightarrow> E (mx_add cn w m)" "E m \<Longrightarrow> E (mx_addi cn w m)" "E m \<Longrightarrow> E (mx_addiu cn w m)"
  "E m \<Longrightarrow> E (mx_addu cn w m)" "E m \<Longrightarrow> E (mx_sub cn w m)" "E m \<Longrightarrow> E (mx_subu cn w m)"
  "E m \<Longrightarrow> E (mx_slt cn w m)" "E m \<Longrightarrow> E (mx_slti cn w m)" "E m \<Longrightarrow> E (mx_sltiu cn w m)"
  "E m \<Longrightarrow> E (mx_sltu cn w m)" "E m \<Longrightarrow> E (mx_and cn w m)" "E m \<Longrightarrow> E (mx_andi cn w m)"
  "E m \<Longrightarrow> E (mx_nor cn w m)" "E m \<Longrightarrow> E (mx_or cn w m)" "E m \<Longrightarrow> E (mx_ori cn w m)"
  "E m \<Longrightarrow> E (mx_xor cn w m)" "E m \<Longrightarrow> E (mx_xori cn w m)" "E m \<Longrightarrow> E (mx_lui cn w m)"
  "E m \<Longrightarrow> E (mx_sll cn w m)" "E m \<Longrightarrow> E (mx_sllv cn w m)" "E m \<Longrightarrow> E (mx_sra cn w m)"
  "E m \<Longrightarrow> E (mx_srav cn w m)" "E m \<Longrightarrow> E (mx_srl cn w m)" "E m \<Longrightarrow> E (mx_srlv cn w m)"
  by (simp_all add: mx_add_def mx_addi_def mx_addiu_def mx_addu_def mx_sub_def mx_subu_def
      mx_slt_def mx_slti_def mx_sltiu_def mx_sltu_def mx_and_def mx_andi_def mx_nor_def mx_or_def
      mx_ori_def mx_xor_def mx_xori_def mx_lui_def mx_sll_def mx_sllv_def mx_sra_def mx_srav_def
      mx_srl_def mx_srlv_def Let_def closed)

lemma muldiv_closed [closed]:
  "E m \<Longrightarrow> E (mx_mult cn w m)" "E m \<Longrightarrow> E (mx_multu cn w m)" "E m \<Longrightarrow> E (mx_div cn w m)"
  "E m \<Longrightarrow> E (mx_divu cn w m)" "E m \<Longrightarrow> E (mx_mfhi cn w m)" "E m \<Longrightarrow> E (mx_mflo cn w m)"
  "E m \<Longrightarrow> E (mx_mthi cn w m)" "E m \<Longrightarrow> E (mx_mtlo cn w m)"
  by (simp_all add: mx_mult_def mx_multu_def mx_div_def mx_divu_def mx_mfhi_def mx_mflo_def
      mx_mthi_def mx_mtlo_def Let_def closed insn_quiet_def del: upd_cpu_upd_cpu)

lemma jump_closed [closed]:
  "E m \<Longrightarrow> E (mx_beq cn w m)" "E m \<Longrightarrow> E (mx_bne cn w m)" "E m \<Longrightarrow> E (mx_bgez cn w m)"
  "E m \<Longrightarrow> E (mx_bgezal cn w m)" "E m \<Longrightarrow> E (mx_bltz cn w m)" "E m \<Longrightarrow> E (mx_bltzal cn w m)"
  "E m \<Longrightarrow> E (mx_bgtz cn w m)" "E m \<Longrightarrow> E (mx_blez cn w m)" "E m \<Longrightarrow> E (mx_j cn w m)"
  "E m \<Longrightarrow> E (mx_jal cn w m)" "E m \<Longrightarrow> E (mx_jr cn w m)" "E m \<Longrightarrow> E (mx_jalr cn w m)"
  by (simp_all add: mx_beq_def mx_bne_def mx_bgez_def mx_bgezal_def mx_bltz_def mx_bltzal_def
      mx_bgtz_def mx_blez_def mx_j_def mx_jal_def mx_jr_def mx_jalr_def Let_def closed)

lemma trap_closed [closed]:
  "E m \<Longrightarrow> E (mx_lwc cn w m)" "E m \<Longrightarrow> E (mx_swc cn w m)" "E m \<Longrightarrow> E (mx_cache cn w m)"
  "E m \<Longrightarrow> E (mx_sync cn w m)" "E m \<Longrightarrow> E (mx_break cn w m)" "E m \<Longrightarrow> E (mx_syscall cn w m)"
  "E m \<Longrightarrow> E (mx_ill cn w m)"
  by (simp_all add: mx_lwc_def mx_swc_def mx_cache_def mx_sync_def mx_break_def mx_syscall_def
      mx_ill_def dolwc_def doswc_def closed)

subsection \<open>Loads and stores\<close>

lemma fetch_cases:
  assumes "P m"
  obtains m1 r where "domem_fetch cn va w m = (m1, r)" "E m1" "\<And>v. r = Fetched v \<Longrightarrow> P m1"
  using fetch [OF assms] by (metis surj_pair)

lemma load_closed: "P m \<Longrightarrow> E (doload cn ms a rt m)"
  by (rule fetch_cases [of m "word_addr ms a" False]) (simp_all add: doload_def closed starts split: fetched.split)

lemma store_closed: "P m \<Longrightarrow> E (dostore cn ms a v m)"
  by (rule fetch_cases [of m "word_addr ms a" True])
    (simp_all add: dostore_def closed starts store split: fetched.split option.split)

lemma fetch_reg_closed:
  assumes "P m"
  shows "E (fetch_reg cn rt (domem_fetch cn va w m))"
  by (rule fetch_cases [OF assms, of va w]) (simp_all add: fetch_reg_def closed split: fetched.split)

lemma word_closed: "P m \<Longrightarrow> E (mx_lw cn w m)" "P m \<Longrightarrow> E (mx_sw cn w m)"
  by (simp_all add: mx_lw_def mx_sw_def fetch_reg_closed store)

lemma ll_closed: "P m \<Longrightarrow> E (mx_ll cn w m)"
  using fetch_reg_closed [of m "insn_rt w" "insn_addr m cn w" False]
  by (simp add: mx_ll_def Let_def closed insn_quiet_def)

lemma sc_closed:
  assumes "P m"
  shows "E (mx_sc cn w m)"
proof (rule fetch_cases [OF assms, of "insn_addr m cn w" True])
  fix m1 r
  assume f: "domem_fetch cn (insn_addr m cn w) True m = (m1, r)" "E m1" "\<And>v. r = Fetched v \<Longrightarrow> P m1"
  obtain m2 ok where st: "domem_store cn (insn_addr m cn w) (RTu m1 cn w) True m1 = (m2, ok)" by fastforce
  have "E m2" if "r = Fetched v" for v
    using store [OF f(3) [OF that], of "insn_addr m cn w" "RTu m1 cn w"] by (simp add: st)
  then show "E (mx_sc cn w m)"
    using assms f(2) by (cases r; cases ok) (simp_all add: mx_sc_def sc_fail_def f(1) st Let_def closed starts)
qed

lemma mem_closed:
  "P m \<Longrightarrow> E (mx_lb cn w m)" "P m \<Longrightarrow> E (mx_lbu cn w m)" "P m \<Longrightarrow> E (mx_lh cn w m)"
  "P m \<Longrightarrow> E (mx_lhu cn w m)" "P m \<Longrightarrow> E (mx_lwl cn w m)" "P m \<Longrightarrow> E (mx_lwr cn w m)"
  "P m \<Longrightarrow> E (mx_sb cn w m)" "P m \<Longrightarrow> E (mx_sh cn w m)" "P m \<Longrightarrow> E (mx_swl cn w m)"
  "P m \<Longrightarrow> E (mx_swr cn w m)"
  by (simp_all add: mx_lb_def mx_lbu_def mx_lh_def mx_lhu_def mx_lwl_def mx_lwr_def mx_sb_def
      mx_sh_def mx_swl_def mx_swr_def load_closed store_closed)

subsection \<open>The decoder\<close>

lemma switch_closed:
  assumes "list_all (\<lambda>(k, f). E (f cn w m)) table" "E (dflt cn w m)"
  shows "E (switch table dflt opc cn w m)"
  using assms map_of_SomeD [of table opc]
  by (auto simp: switch_def list_all_iff split: option.split)

text \<open>The coprocessor instructions are left to the caller.\<close>

lemma exec_closed:
  assumes "P m" "E (mx_copz cn w m)"
  shows "E (exec_insn cn w m)"
proof -
  have e: "E m" by (rule starts [OF assms(1)])
  have "list_all (\<lambda>(k, f). E (f cn w m)) special_table" "list_all (\<lambda>(k, f). E (f cn w m)) bcond_table"
    using e by (simp_all add: special_table_def bcond_table_def closed)
  moreover have "list_all (\<lambda>(k, f). E (f cn w m)) main_table"
    using assms e by (simp add: main_table_def closed mem_closed word_closed ll_closed sc_closed)
  moreover have "E (mx_ill cn w m)" using e by (rule trap_closed)
  ultimately show ?thesis by (simp add: exec_insn_def switch_closed)
qed

lemma copz_user_closed:
  "P m \<Longrightarrow> current_usermode (mycpu m cn) \<Longrightarrow> E (mx_copz cn w m)"
  by (simp add: mx_copz_def Let_def closed starts)

lemmas exec_user_closed = exec_closed [OF _ copz_user_closed]

end

section \<open>Cycles\<close>

text \<open>Updates of a processor that the bus does not see.\<close>

definition cpu_quiet :: "(mipscpu \<Rightarrow> mipscpu) \<Rightarrow> bool" where
  "cpu_quiet f \<longleftrightarrow> (\<forall>c. cpu_state (f c) = cpu_state c \<and> cpunum (f c) = cpunum c \<and>
     irq_lamebus (f c) = irq_lamebus c \<and> irq_ipi (f c) = irq_ipi c)"

lemma insn_quiet_cpu_quiet: "insn_quiet f \<Longrightarrow> cpu_quiet f"
  by (simp add: insn_quiet_def cpu_quiet_def)

lemma quiet_regs [simp]:
  "cpu_quiet (exn_regs code u va)" "cpu_quiet rfe_regs" "cpu_quiet (status_regs v)"
  "cpu_quiet tlbrandom_reduce" "cpu_quiet (setindex v)" "cpu_quiet (setcause v)"
  "cpu_quiet (set_compare v)" "cpu_quiet begin_cycle" "cpu_quiet advance_pc" "cpu_quiet tick_cpu"
  by (simp_all add: cpu_quiet_def exn_regs_def rfe_regs_def status_regs_def tlbrandom_reduce_def
      setindex_def setcause_def set_compare_def begin_cycle_def advance_pc_def tick_cpu_def
      tick_timer_def Let_def)

lemma quiet_fields [simp]:
  "cpu_quiet (\<lambda>c. c\<lparr>nextpcpage := pg, nextpcoff := off\<rparr>)"
  "cpu_quiet (\<lambda>c. c\<lparr>nextpcoff := f c\<rparr>)" "cpu_quiet (\<lambda>c. c\<lparr>expc := g c\<rparr>)"
  "cpu_quiet (\<lambda>c. c\<lparr>hit_breakpoint := b\<rparr>)" "cpu_quiet (\<lambda>c. c\<lparr>ex_count := k c, hit_breakpoint := b\<rparr>)"
  "cpu_quiet (\<lambda>c. c\<lparr>tlb := t c\<rparr>)" "cpu_quiet (\<lambda>c. c\<lparr>tlbentry := e c\<rparr>)"
  "cpu_quiet (\<lambda>c. c\<lparr>tlbpf := p c\<rparr>)" "cpu_quiet (\<lambda>c. c\<lparr>tlbindex := i, tlbpf := b\<rparr>)"
  "cpu_quiet (\<lambda>c. c\<lparr>ex_context := v\<rparr>)" "cpu_quiet (\<lambda>c. c\<lparr>ex_vaddr := v\<rparr>)"
  "cpu_quiet (\<lambda>c. c\<lparr>ex_count := v\<rparr>)"
  by (simp_all add: cpu_quiet_def)

locale cycle_closed = bus_closed P for P :: "machine \<Rightarrow> bool" +
  fixes cn :: nat
  assumes cpu: "cpu_quiet f \<Longrightarrow> P m \<Longrightarrow> P (upd_cpu cn f m)"
    and wait: "P m \<Longrightarrow> P (do_wait cn m)"
    and memory: "P m \<Longrightarrow> P (m\<lparr>ram := b\<rparr>)"
    and progressed: "P m \<Longrightarrow> P (m\<lparr>progress := True\<rparr>)"
begin

lemma upd_cpu_quiet [closed]: "P m \<Longrightarrow> cpu_quiet f \<Longrightarrow> P (upd_cpu cn f m)"
  by (rule cpu)

lemmas more_steps [closed] = wait memory progressed

lemma exn_count_closed [closed]: "P m \<Longrightarrow> P (exn_count code m)"
  by (simp add: exn_count_def closed)

sublocale exn_closed P cn
  by unfold_locales (simp_all add: closed, simp_all add: closed cpu_quiet_def)

lemma mem_store_closed: "P m \<Longrightarrow> bus_mem_store a v m = Some m' \<Longrightarrow> P m'"
  by (auto simp: bus_mem_store_def closed split: if_splits)

lemma access_closed:
  "P m \<Longrightarrow> P (fst (accessmem_fetch cn pa m))" "P m \<Longrightarrow> P (fst (accessmem_store cn pa v m))"
proof -
  assume m: "P m"
  obtain m1 r where f: "bus_io_fetch (cpunum (mycpu m cn)) (pa - 0x1fe00000) m = (m1, r)" by fastforce
  obtain m2 ok where st: "bus_io_store (cpunum (mycpu m cn)) (pa - 0x1fe00000) v m = (m2, ok)" by fastforce
  have io: "P m1" "P m2" using bus_io_closed [OF m] f st by (metis fst_conv)+
  show "P (fst (accessmem_fetch cn pa m))"
    using m io by (simp add: accessmem_fetch_def f Let_def exception_closed)
  show "P (fst (accessmem_store cn pa v m))"
    using m io mem_store_closed [OF m]
    by (simp add: accessmem_store_def st Let_def exception_closed split: option.split)
qed

lemma domem_closed:
  "P m \<Longrightarrow> P (fst (domem_fetch cn va w m))" "P m \<Longrightarrow> P (fst (domem_store cn va v w m))"
proof -
  assume m: "P m"
  obtain m1 r where t: "translatemem cn va w m = (m1, r)" by fastforce
  have "P m1" using translatemem_closed [OF m, of va w] by (simp add: t)
  then show "P (fst (domem_fetch cn va w m))" "P (fst (domem_store cn va v w m))"
    by (simp_all add: domem_fetch_def domem_store_def t access_closed split: option.split)
qed

sublocale insn: insn_closed P cn P
  by unfold_locales (simp_all add: closed insn_quiet_cpu_quiet domem_closed, metis domem_closed(1) fst_conv)

lemmas memory_closed [closed] = mem_store_closed domem_closed

subsection \<open>Coprocessor 0\<close>

lemma rfe_closed [closed]: "P m \<Longrightarrow> P (do_rfe cn m)"
  by (simp add: do_rfe_def Let_def closed)

lemma dups_closed [closed]: "P m \<Longrightarrow> P (check_tlb_dups cn ix m)"
  by (simp add: check_tlb_dups_eq closed)

lemma writetlb_closed [closed]: "P m \<Longrightarrow> P (writetlb cn ix m)"
  by (simp add: writetlb_def Let_def closed)

lemma probetlb_closed [closed]: "P m \<Longrightarrow> P (probetlb cn m)"
  by (simp add: probetlb_def Let_def closed split: option.split)

lemma mf_closed [closed]: "P m \<Longrightarrow> P (mx_mf cn w m)"
  by (simp add: mx_mf_def domf_def getrandom_def Let_def closed
      split: option.split c0reg.split)

lemma mt_closed [closed]: "P m \<Longrightarrow> P (mx_mt cn w m)"
  by (simp add: mx_mt_def domt_def setstatus_def Let_def closed
      split: option.split c0reg.split)

lemma copz_insns_closed [closed]:
  "P m \<Longrightarrow> P (mx_cf cn w m)" "P m \<Longrightarrow> P (mx_ct cn w m)" "P m \<Longrightarrow> P (mx_bc cn w m)"
  "P m \<Longrightarrow> P (mx_rfe cn w m)" "P m \<Longrightarrow> P (mx_tlbp cn w m)" "P m \<Longrightarrow> P (mx_tlbr cn w m)"
  "P m \<Longrightarrow> P (mx_tlbwi cn w m)" "P m \<Longrightarrow> P (mx_tlbwr cn w m)" "P m \<Longrightarrow> P (mx_wait cn w m)"
  by (simp_all add: mx_cf_def mx_ct_def mx_bc_def mx_bcf_def mx_bct_def mx_rfe_def mx_tlbp_def
      mx_tlbr_def mx_tlbwi_def mx_tlbwr_def mx_wait_def Let_def closed)

lemma copz_closed: "P m \<Longrightarrow> P (mx_copz cn w m)"
  by (simp add: mx_copz_def Let_def insn.switch_closed copz_table_def copz_moves_def
      closed)

lemma exec_insn_closed: "P m \<Longrightarrow> P (exec_insn cn w m)"
  by (rule insn.exec_closed [OF _ copz_closed])

subsection \<open>A cycle of one processor\<close>

lemma update_pc_closed: "P m \<Longrightarrow> P (fst (update_pc cn w m))"
  by (simp add: update_pc_def Let_def closed del: upd_cpu_upd_cpu)

lemma phases_closed [closed]:
  "P m \<Longrightarrow> P (take_interrupt cn m)" "P m \<Longrightarrow> P (count_cycle cn m)" "P m \<Longrightarrow> P (end_cycle cn m)"
  "P m \<Longrightarrow> P (retire cn rpc u m)" "P m \<Longrightarrow> P (breakpoint cn m)"
  by (simp_all add: take_interrupt_def count_cycle_def end_cycle_def retire_def breakpoint_def
      Let_def closed)

lemma run_insn_closed: "P m \<Longrightarrow> P (fst (run_insn cn w m))"
  using update_pc_closed [of m w]
  by (auto simp: run_insn_def Let_def closed exec_insn_closed
      split: prod.split bool.split)

lemma cycle_one_closed: "P m \<Longrightarrow> P (fst (cycle_one cn m))"
  by (simp add: cycle_one_def Let_def closed run_insn_closed split: option.split)

end

section \<open>Cycles of the machine\<close>

locale machine_closed = bus_closed P for P :: "machine \<Rightarrow> bool" +
  fixes n :: nat
  assumes cpus: "cn < n \<Longrightarrow> cycle_closed P cn"
    and number: "P m \<Longrightarrow> ncpus m = n"
    and cycles_count: "P m \<Longrightarrow> P (m\<lparr>cpu_cycles_count := i\<rparr>)"
begin

lemma count_break_closed:
  "cn < n \<Longrightarrow> P (fst r) \<Longrightarrow> P (fst (count_break cn r))"
  using cycle_closed.cycle_one_closed [OF cpus, of cn "fst r"]
  by (simp add: count_break_def Let_def split_beta)

lemma all_cpus_closed:
  "k \<le> n \<Longrightarrow> P (fst r) \<Longrightarrow> P (fst (fold count_break [0..<k] r))"
  by (induction k) (simp_all add: count_break_closed)

lemma cpu_cycle_closed: "P m \<Longrightarrow> P (fst (cpu_cycle m))"
  using all_cpus_closed [of n "(m, 0)"] number [of m]
  by (simp add: cpu_cycle_def Let_def split_beta)

lemma cycles_step_closed: "P (fst r) \<Longrightarrow> P (fst (cycles_step maxcycles r))"
  using cpu_cycle_closed [of "fst r"]
  by (simp add: cycles_step_def Let_def cycles_count stats split_beta)

end

end
