(* ===== verification/Run_Ok.thy ===== *)
theory Run_Ok
  imports Mainloop Closure
begin

text \<open>
  The invariant of the running machine, over everything the main loop does (\<open>main/main.c\<close>): the
  cycles of the cpus, the timed events, the host's input, the debugger's packets and the waits.
\<close>

section \<open>The invariant\<close>

text \<open>The running mask and the lines of the cpus are right (\<open>cpus_ok\<close>, \<open>irq_ok\<close>), the queue is in
  order of time, and every event structure is either in the queue or in the pool.\<close>

definition machine_ok :: "nat \<Rightarrow> nat \<Rightarrow> machine \<Rightarrow> bool" where
  "machine_ok k n m \<longleftrightarrow>
     ncpus m = n \<and> cpus_ok m \<and> irq_ok m \<and> events_sorted (event_queue m) \<and>
     ta_free m + length (event_queue m) = k"

text \<open>What the invariant looks at.\<close>

definition core_same :: "machine \<Rightarrow> machine \<Rightarrow> bool" where
  "core_same m m' \<longleftrightarrow>
     mycpus m' = mycpus m \<and> lb_cpus m' = lb_cpus m \<and> ncpus m' = ncpus m \<and>
     cpu_running_mask m' = cpu_running_mask m \<and>
     bus_raised_interrupts m' = bus_raised_interrupts m \<and>
     bus_enabled_interrupts m' = bus_enabled_interrupts m \<and>
     event_queue m' = event_queue m \<and> ta_free m' = ta_free m"

text \<open>The states, numbers and lines of the cpus are all it sees of them.\<close>

definition lines_same :: "machine \<Rightarrow> machine \<Rightarrow> bool" where
  "lines_same m m' \<longleftrightarrow>
     (\<forall>i. cpu_state (mycpu m' i) = cpu_state (mycpu m i) \<and> cpunum (mycpu m' i) = cpunum (mycpu m i) \<and>
        irq_lamebus (mycpu m' i) = irq_lamebus (mycpu m i) \<and> irq_ipi (mycpu m' i) = irq_ipi (mycpu m i)) \<and>
     (\<forall>i. cpu_interrupting (lb_cpus m' i) = cpu_interrupting (lb_cpus m i) \<and>
        cpu_ipi (lb_cpus m' i) = cpu_ipi (lb_cpus m i) \<and>
        cpu_enabled_interrupts (lb_cpus m' i) = cpu_enabled_interrupts (lb_cpus m i)) \<and>
     ncpus m' = ncpus m \<and> cpu_running_mask m' = cpu_running_mask m \<and>
     bus_raised_interrupts m' = bus_raised_interrupts m \<and>
     bus_enabled_interrupts m' = bus_enabled_interrupts m"

lemma ok_same:
  assumes "machine_ok k n m" "lines_same m m'"
    and "events_sorted (event_queue m')" "ta_free m' + length (event_queue m') = k'"
  shows "machine_ok k' n m'"
proof -
  have "cpus_ok m' = cpus_ok m" "lines_ok m' = lines_ok m" "irq_pending m' = irq_pending m"
    using assms(2) by (simp_all add: lines_same_def cpus_ok_def lines_ok_def irq_pending_def fun_eq_iff)
  then show ?thesis using assms by (simp add: machine_ok_def irq_ok_def lines_same_def)
qed

lemma ok_core: "machine_ok k n m \<Longrightarrow> core_same m m' \<Longrightarrow> machine_ok k n m'"
  by (rule ok_same [of k n m]) (simp_all add: core_same_def lines_same_def machine_ok_def)

lemma upd_lbcpu_events [simp]:
  "event_queue (upd_lbcpu i f m) = event_queue m" "ta_free (upd_lbcpu i f m) = ta_free m"
  by (simp_all add: upd_lbcpu_def)

lemma ok_irqupdate:
  assumes "machine_ok k n m"
    and "mycpus m' = mycpus m" "ncpus m' = ncpus m" "cpu_running_mask m' = cpu_running_mask m"
    and "event_queue m' = event_queue m" "ta_free m' = ta_free m"
    and "\<And>i. cpu_interrupting (lb_cpus m' i) = cpu_interrupting (lb_cpus m i)"
    and "\<And>i. cpu_ipi (lb_cpus m' i) = cpu_ipi (lb_cpus m i)"
  shows "machine_ok k n (irqupdate m')"
proof -
  have "lines_ok m" using assms(1) by (simp add: machine_ok_def irq_ok_def)
  then have l: "lines_ok m'" unfolding lines_ok_def by (auto simp: assms(2-))
  have "cpus_ok m'" using assms by (simp add: machine_ok_def cpus_ok_def)
  then show ?thesis
    using assms irqupdate_ok [OF l] irq_frame_sels [OF irq_frame_irqupdate [of m']]
    by (simp add: machine_ok_def)
qed

lemma ok_lines:
  assumes "machine_ok k n m"
  shows "machine_ok k n (raise_irq s m)" "machine_ok k n (lower_irq s m)"
    "machine_ok k n (irqupdate (m\<lparr>bus_enabled_interrupts := v\<rparr>))"
    "machine_ok k n (irqupdate (upd_lbcpu i (\<lambda>c. c\<lparr>cpu_enabled_interrupts := v\<rparr>) m))"
  unfolding raise_irq_def lower_irq_def
  by (rule ok_irqupdate [OF assms]; simp)+

lemma ok_ipi:
  assumes "machine_ok k n m" "i < ncpus m"
  shows "machine_ok k n (cpu_set_irqs i (cpu_interrupting (lb_cpus m i)) b (upd_lbcpu i (\<lambda>c. c\<lparr>cpu_ipi := b\<rparr>) m))"
proof -
  let ?m1 = "upd_lbcpu i (\<lambda>c. c\<lparr>cpu_ipi := b\<rparr>) m"
  have i: "i < ncpus ?m1" using assms(2) by simp
  have "cpus_ok (cpu_set_irqs i (cpu_interrupting (lb_cpus m i)) b ?m1)"
    using assms(1) by (intro cpus_ok_set_irqs) (simp add: machine_ok_def)
  moreover have "irq_ok (cpu_set_irqs i (cpu_interrupting (lb_cpus m i)) b ?m1)"
    using assms
    by (auto simp: machine_ok_def irq_ok_def lines_ok_def irq_pending_def cpu_set_irqs_sets [OF i]
        irq_frame_sels [OF irq_frame_cpu_set_irqs])
  ultimately show ?thesis
    using assms(1) by (simp add: machine_ok_def irq_frame_sels [OF irq_frame_cpu_set_irqs])
qed

lemma ok_quiet: "cpu_quiet f \<Longrightarrow> machine_ok k n m \<Longrightarrow> machine_ok k n (upd_cpu cn f m)"
  by (rule ok_same [of k n m]) (simp_all add: cpu_quiet_def lines_same_def machine_ok_def)

lemma ok_wait:
  assumes "machine_ok k n m" "cn < n"
  shows "machine_ok k n (do_wait cn m)"
proof -
  have "cpus_ok (do_wait cn m)" using assms by (simp add: machine_ok_def cpus_ok_do_wait)
  with assms show ?thesis
    by (auto simp: machine_ok_def do_wait_def Let_def irq_ok_def lines_ok_def irq_pending_def
        running_mask_off_def)
qed

text \<open>Turning a cpu on or off does not touch its lines, and none that is off or running is asleep.\<close>

lemma ok_enable:
  assumes "machine_ok k n m"
  shows "machine_ok k n (cpu_enable i m)" "machine_ok k n (cpu_disable i m)"
proof -
  have c: "cpus_ok (cpu_enable i m)" "cpus_ok (cpu_disable i m)"
    using assms by (simp_all add: machine_ok_def cpus_ok_enable cpus_ok_disable)
  from c assms show "machine_ok k n (cpu_enable i m)" "machine_ok k n (cpu_disable i m)"
    by (auto simp: machine_ok_def cpu_enable_def cpu_disable_def irq_ok_def lines_ok_def
        irq_pending_def running_mask_on_def running_mask_off_def smoke_def raise_fault_def)
qed

section \<open>The machine keeps it\<close>

lemma ok_fault: "machine_ok k n m \<Longrightarrow> machine_ok k n (raise_fault f m)"
  by (erule ok_core) (simp add: core_same_def raise_fault_def)

lemma ok_event:
  assumes "machine_ok k n m"
  shows "machine_ok k n (schedule_event d dat code f m)"
proof -
  let ?q = "\<lambda>e. fst (event_insert e (event_queue m))"
  have ins: "machine_ok k n m'"
    if "event_queue m' = ?q e" "ta_free m' = ta_free m - 1" "0 < ta_free m"
      "mycpus m' = mycpus m" "lb_cpus m' = lb_cpus m" "ncpus m' = ncpus m"
      "cpu_running_mask m' = cpu_running_mask m" "bus_raised_interrupts m' = bus_raised_interrupts m"
      "bus_enabled_interrupts m' = bus_enabled_interrupts m" for m' e
    by (rule ok_same [OF assms])
      (use that assms event_insert_sorted [of "event_queue m" e] in
        \<open>simp_all add: lines_same_def machine_ok_def\<close>)
  show ?thesis
  proof (cases "ta_free m = 0")
    case True
    then show ?thesis
      using ok_fault [OF ok_core [OF assms]]
      by (simp add: schedule_event_def host_next_random_def smoke_def core_same_def)
  next
    case False
    let ?m1 = "m\<lparr>random_pos := Suc (random_pos m)\<rparr>"
    let ?m2 = "?m1\<lparr>ta_free := ta_free m - 1\<rparr>"
    let ?e = "\<lparr>ta_vtime = clock_vnow ?m2 + (d + host_jitter m (host_random m (random_pos m)) d),
      ta_data = dat, ta_code = code, ta_call = f, ta_runningto = False\<rparr>"
    obtain q stop where q: "event_insert ?e (event_queue m) = (q, stop)" by fastforce
    show ?thesis
      by (rule ins [of _ ?e])
        (use False q in \<open>simp_all add: schedule_event_def host_next_random_def Let_def
          cpu_stopcycling_def\<close>)
  qed
qed

interpretation ok: exn_closed "machine_ok k n" i for k n i
  by unfold_locales
    (auto intro!: ok_quiet ok_fault intro: ok_core
      simp: exn_count_def upd_stats_def cpu_quiet_def core_same_def exn_regs_def Let_def)

lemma ok_cpue:
  assumes "machine_ok k n m"
  shows "machine_ok k n (set_cpue_one v i m)"
proof -
  have "machine_ok k n (cpu_set_entrypoint i a m)" for a
    by (rule ok.entrypoint_closed [OF assms])
      (auto intro!: ok_quiet intro: ok_core simp: core_same_def cpu_quiet_def entry_regs_def)
  moreover have "machine_ok k n (cpu_set_stack i s a m)" if "machine_ok k n m" for s a m
    using that ok_quiet [of "\<lambda>c. c\<lparr>regs := (regs c)(29 := s, 4 := a)\<rparr>"]
    by (simp add: cpu_set_stack_def smoke_def ok_fault cpu_quiet_def)
  moreover have "machine_ok k n (upd_lbcpu i (\<lambda>c. c\<lparr>cpu_enabled_flag := False\<rparr>) m)"
    by (rule ok_same [OF assms]) (use assms in \<open>simp_all add: lines_same_def machine_ok_def\<close>)
  ultimately show ?thesis using assms by (simp add: set_cpue_one_def Let_def ok_enable)
qed

lemma ok_cram:
  assumes "machine_ok k n m"
  shows "machine_ok k n (upd_lbcpu i (\<lambda>c. c\<lparr>cpu_cram := host_store32 (cpu_cram c) a v\<rparr>) m)"
  by (rule ok_same [OF assms]) (use assms in \<open>simp_all add: lines_same_def machine_ok_def\<close>)

interpretation ok: bus_closed "machine_ok k n" for k n
  by unfold_locales
    (auto intro: ok_lines ok_event ok_ipi ok_cpue ok_cram ok_fault ok_core
      simp: core_same_def upd_stats_def put_device_def cpu_stopcycling_def main_enter_debugger_def
        main_poweroff_def)

lemma ok_ncpus: "machine_ok k n m \<Longrightarrow> ncpus m = n"
  by (simp add: machine_ok_def)

interpretation ok: machine_closed "machine_ok k n" n for k n
  by unfold_locales (auto intro: ok_quiet ok_wait ok_core ok_ncpus simp: core_same_def)

lemma ok_cycles:
  assumes "machine_ok k n m"
  shows "machine_ok k n (fst (cpu_cycles c m))"
proof (cases "while_option (cycles_more c) (cycles_step c) (m\<lparr>cpu_cycling := True\<rparr>, 0)")
  case None
  then show ?thesis by (simp add: cpu_cycles_def ok_fault assms)
next
  case (Some r)
  have "machine_ok k n (m\<lparr>cpu_cycling := True\<rparr>)"
    by (rule ok_core [OF assms]) (simp add: core_same_def)
  then have "machine_ok k n (fst r)"
    by (intro while_option_rule [OF _ Some, of "\<lambda>r. machine_ok k n (fst r)"])
      (auto intro: ok.cycles_step_closed)
  then show ?thesis by (simp add: cpu_cycles_def Some ok.cycles_count split_beta)
qed

section \<open>The clock and its queue keep it\<close>

text \<open>An event leaves the queue, runs with one structure out of the pool and the queue, and its
  structure goes back.\<close>

lemma ok_pop:
  assumes "machine_ok k n m" "event_queue m = ta # q"
  shows "machine_ok (k - 1) n (m\<lparr>event_queue := q\<rparr>)"
  by (rule ok_same [OF assms(1)])
    (use assms in \<open>auto simp: lines_same_def machine_ok_def events_sorted_def\<close>)

lemma ok_free:
  assumes "machine_ok k n m"
  shows "machine_ok (Suc k) n (acfree m)"
  by (rule ok_same [OF assms]) (use assms in \<open>simp_all add: lines_same_def machine_ok_def acfree_def\<close>)

lemma ok_queue_step:
  assumes "machine_ok k n m"
  shows "machine_ok k n (queue_step m)"
proof (cases "event_queue m")
  case Nil
  then show ?thesis using assms by (simp add: queue_step_def)
next
  case (Cons ta q)
  then have "0 < k" using assms by (simp add: machine_ok_def)
  then show ?thesis
    using ok_free [OF ok.run_event_closed [OF ok_pop [OF assms Cons]], of ta]
    by (simp add: queue_step_def Cons)
qed

lemma ok_check_queue: "machine_ok k n m \<Longrightarrow> machine_ok k n (check_queue m)"
  by (auto simp: check_queue_def ok_fault ok_queue_step split: option.split
      elim: while_option_rule [rotated])

lemma ok_advance [simp]: "machine_ok k n m \<Longrightarrow> machine_ok k n (clock_vadvance ns m)"
  by (erule ok_core) (simp add: core_same_def clock_vadvance_def)

lemma core_clock [simp]:
  "core_same m (clock_newprogressdeadline m)" "core_same m (m\<lparr>progress := b\<rparr>)"
  "core_same m (m\<lparr>progress_warned := b\<rparr>)" "core_same m (upd_stats f m)"
  "core_same m (m\<lparr>idleslop := v\<rparr>)" "core_same m (m\<lparr>extra_selecttime := w\<rparr>)"
  by (simp_all add: core_same_def clock_newprogressdeadline_def upd_stats_def)

lemmas ok_clock [simp] = core_clock [THEN ok_core [rotated]]

lemma ok_ticks: "machine_ok k n m \<Longrightarrow> machine_ok k n (clock_ticks t m)"
  by (simp add: clock_ticks_def Let_def ok_check_queue ok.debugger)

lemma ok_runticks:
  assumes "machine_ok k n m"
  shows "machine_ok k n (fst (clock_getrunticks m))"
proof (cases "event_queue m")
  case Nil
  then show ?thesis using assms by (simp add: clock_getrunticks_def)
next
  case (Cons ta q)
  have "machine_ok k n (m\<lparr>event_queue := ta\<lparr>ta_runningto := True\<rparr> # q\<rparr>)"
    by (rule ok_same [OF assms])
      (use assms Cons in \<open>auto simp: lines_same_def machine_ok_def events_sorted_def\<close>)
  then show ?thesis using assms by (simp add: clock_getrunticks_def Cons Let_def)
qed

section \<open>The debugger keeps it\<close>

lemma core_gdb [simp]:
  "core_same m (gdb_write s m)" "core_same m (m\<lparr>debug_cpu := c\<rparr>)" "core_same m (m\<lparr>gdb_buf := b\<rparr>)"
  "core_same m (m\<lparr>gdb_ctx_inuse := u\<rparr>)" "core_same m (main_leave_debugger m)"
  "core_same m (m\<lparr>ram := r\<rparr>)"
  by (simp_all add: core_same_def gdb_write_def main_leave_debugger_def)

lemmas ok_gdb [simp] = core_gdb [THEN ok_core [rotated]]

lemma ok_send [simp]:
  "machine_ok k n m \<Longrightarrow> machine_ok k n (debug_send s m)"
  "machine_ok k n m \<Longrightarrow> machine_ok k n (debug_notsupp m)"
  "machine_ok k n m \<Longrightarrow> machine_ok k n (debug_send_stopinfo m)"
  by (simp_all add: debug_send_def debug_notsupp_def debug_send_stopinfo_def Let_def del: hex_string.simps)

lemma ok_smoke [simp]: "machine_ok k n m \<Longrightarrow> machine_ok k n (smoke m)"
  by (simp add: smoke_def ok_fault)

lemma ok_stores:
  "machine_ok k n m \<Longrightarrow> bus_mem_store a w m = Some m' \<Longrightarrow> machine_ok k n m'"
  "machine_ok k n m \<Longrightarrow> bus_mem_storebyte a b m = Some m' \<Longrightarrow> machine_ok k n m'"
  by (auto simp: bus_mem_storebyte_def bus_mem_store_def split: if_splits)

lemma ok_debug_fetch [simp]:
  "machine_ok k n m \<Longrightarrow> machine_ok k n (fst (cpudebug_fetch_byte i va m))"
  "machine_ok k n m \<Longrightarrow> machine_ok k n (fst (cpudebug_fetch_word i va m))"
  by (simp_all add: cpudebug_fetch_byte_def cpudebug_fetch_word_def split: option.split)

lemma ok_debug_store [simp]:
  "machine_ok k n m \<Longrightarrow> machine_ok k n (fst (cpudebug_store_byte i va b m))"
  "machine_ok k n m \<Longrightarrow> machine_ok k n (fst (cpudebug_store_word i va w m))"
  by (simp_all add: cpudebug_store_byte_def cpudebug_store_word_def split: option.split)
    (blast intro: ok_stores)+

text \<open>The loops over memory.\<close>

lemma ok_debug_steps:
  "cpudebug_fetch_byte i va m = (m1, x) \<Longrightarrow> machine_ok k n m \<Longrightarrow> machine_ok k n m1"
  "cpudebug_fetch_word i va m = (m1, y) \<Longrightarrow> machine_ok k n m \<Longrightarrow> machine_ok k n m1"
  "cpudebug_store_byte i va b m = (m1, ok) \<Longrightarrow> machine_ok k n m \<Longrightarrow> machine_ok k n m1"
  "cpudebug_store_word i va w m = (m1, ok) \<Longrightarrow> machine_ok k n m \<Longrightarrow> machine_ok k n m1"
  using ok_debug_fetch ok_debug_store by (metis fst_conv)+

lemma ok_read_bytes:
  "read_mem_bytes va len i buf m = Some r \<Longrightarrow> machine_ok k n m \<longrightarrow> machine_ok k n (fst r)"
  by (erule read_mem_bytes.raw_induct [where P = "\<lambda>va len i buf m r. machine_ok k n m \<longrightarrow> machine_ok k n (fst r)", rotated])
    (auto split: if_splits prod.splits option.splits dest: ok_debug_steps)

lemma ok_read_words:
  "read_mem_words va len i buf m = Some r \<Longrightarrow> machine_ok k n m \<longrightarrow> machine_ok k n (fst r)"
  by (erule read_mem_words.raw_induct [where P = "\<lambda>va len i buf m r. machine_ok k n m \<longrightarrow> machine_ok k n (fst r)", rotated])
    (auto split: if_splits prod.splits option.splits dest: ok_debug_steps)

lemma ok_write_bytes:
  "write_mem_bytes al va len bytes i m = Some r \<Longrightarrow> machine_ok k n m \<longrightarrow> machine_ok k n (fst r)"
  by (erule write_mem_bytes.raw_induct [where P = "\<lambda>al va len bytes i m r. machine_ok k n m \<longrightarrow> machine_ok k n (fst r)", rotated])
    (auto simp: Let_def split: if_splits prod.splits dest: ok_debug_steps)

lemma ok_write_words:
  "write_mem_words va len bytes i m = Some r \<Longrightarrow> machine_ok k n m \<longrightarrow> machine_ok k n (fst r)"
  by (erule write_mem_words.raw_induct [where P = "\<lambda>va len bytes i m r. machine_ok k n m \<longrightarrow> machine_ok k n (fst r)", rotated])
    (auto simp: Let_def ok_fault split: if_splits prod.splits dest: ok_debug_steps)

lemma ok_write_all:
  "write_mem_all va len bytes m = Some r \<Longrightarrow> machine_ok k n m \<Longrightarrow> machine_ok k n (fst r)"
  by (auto simp: write_mem_all_def split: option.splits prod.splits
      dest!: ok_write_bytes ok_write_words)

lemma ok_mem_commands [simp]:
  "machine_ok k n m \<Longrightarrow> machine_ok k n (debug_read_mem spec m)"
  "machine_ok k n m \<Longrightarrow> machine_ok k n (debug_write_mem spec m)"
  by (auto simp: debug_read_mem_def debug_write_mem_def Let_def ok_fault
      split: prod.split option.split dest!: ok_read_bytes ok_read_words dest: ok_write_all)

lemma ok_getregs: "machine_ok k n m \<Longrightarrow> machine_ok k n (fst (cpudebug_getregs i j m))"
  by (simp add: cpudebug_getregs_def getrandom_def Let_def ok_quiet)

lemma ok_print [simp]:
  assumes "machine_ok k n m"
  shows "machine_ok k n (debug_register_print m)"
proof -
  obtain m1 vals nregs where "cpudebug_getregs (debug_cpu m) 256 m = (m1, vals, nregs)"
    by (metis prod_cases3)
  then show ?thesis
    using ok_getregs [OF assms, of "debug_cpu m" 256] by (simp add: debug_register_print_def Let_def)
qed

lemma ok_entrypoint [simp]: "machine_ok k n m \<Longrightarrow> machine_ok k n (cpu_set_entrypoint i a m)"
  by (rule ok.entrypoint_closed)
    (auto intro!: ok_quiet intro: ok_core simp: core_same_def cpu_quiet_def entry_regs_def)

lemma ok_thread_commands [simp]:
  "machine_ok k n m \<Longrightarrow> machine_ok k n (debug_checkthread t m)"
  "machine_ok k n m \<Longrightarrow> machine_ok k n (debug_getthreadinfo t m)"
  "machine_ok k n m \<Longrightarrow> machine_ok k n (debug_select t m)"
  "machine_ok k n m \<Longrightarrow> machine_ok k n (debug_restart t m)"
  by (simp_all add: debug_checkthread_def debug_getthreadinfo_def debug_select_def debug_restart_def
      cpu_enabled_def Let_def ok_fault split: option.split)

lemma ok_onecycle [simp]: "machine_ok k n m \<Longrightarrow> machine_ok k n (onecycle m)"
  using ok_cycles [of k n m 1] by (simp add: onecycle_def split_beta ok_ticks)

lemma ok_command [simp]: "machine_ok k n m \<Longrightarrow> machine_ok k n (debug_command c args m)"
  by (simp add: debug_command_def debug_query_def unset_breakcond_def Let_def ok_fault
      del: hex_string.simps)

lemma ok_exec [simp]: "machine_ok k n m \<Longrightarrow> machine_ok k n (debug_exec pkt m)"
  by (simp add: debug_exec_def Let_def)

lemma ok_packets: "machine_ok k n m \<Longrightarrow> machine_ok k n (gdb_packets buf m)"
proof (induction buf m rule: gdb_packets.induct)
  case (1 buf m)
  show ?case
    by (subst gdb_packets.simps) (use 1 in \<open>auto simp: Let_def split: option.split prod.split\<close>)
qed

lemma ok_connection [simp]:
  "machine_ok k n m \<Longrightarrow> machine_ok k n (gdb_receive bytes m)"
  "machine_ok k n m \<Longrightarrow> machine_ok k n (gdb_accept m)"
  "machine_ok k n m \<Longrightarrow> machine_ok k n (gdb_hangup m)"
  "machine_ok k n m \<Longrightarrow> machine_ok k n (gdb_startbreak dontwait lethal m)"
  by (simp_all add: gdb_receive_def gdb_accept_def gdb_hangup_def gdb_startbreak_def Let_def
      ok_packets ok.debugger ok.stop ok_fault)

section \<open>The main loop keeps it\<close>

lemma ok_host [simp]: "machine_ok k n m \<Longrightarrow> machine_ok k n (host_input ev m)"
  by (simp add: host_input_def console_sel_def ok.debugger ok.stop ok.serial_input_closed
      ok.net_recv_closed ok.meter_receive_closed ok.meter_accept_closed split: host_event.split option.split device.split)

lemma ok_hosts: "machine_ok k n m \<Longrightarrow> machine_ok k n (fold host_input evs m)"
  by (induction evs arbitrary: m) simp_all

lemma ok_tryselect [simp]: "machine_ok k n m \<Longrightarrow> machine_ok k n (tryselect slept evs m)"
  by (simp add: tryselect_def ok_hosts)

lemma ok_waitround: "machine_ok k n m \<Longrightarrow> machine_ok k n (waitirq_round sec usec slept evs m)"
  by (auto simp: waitirq_round_def Let_def split_beta intro!: ok_check_queue ok_advance ok_clock
      split: list.split)

lemma ok_waitirq: "clock_waitirq m m' \<Longrightarrow> machine_ok k n m \<Longrightarrow> machine_ok k n m'"
  by (induction rule: clock_waitirq.induct) (simp_all add: ok_waitround)

lemma ok_stopped: "stopped m m' \<Longrightarrow> machine_ok k n m \<Longrightarrow> machine_ok k n m'"
  by (induction rule: stopped.induct) simp_all

lemma ok_run_cycles: "machine_ok k n m \<Longrightarrow> machine_ok k n (fst (run_cycles rotor m))"
  by (simp add: run_cycles_def Let_def split_beta ok_ticks ok_cycles ok_runticks)

lemma ok_round: "run_round r r' \<Longrightarrow> machine_ok k n (fst r) \<Longrightarrow> machine_ok k n (fst r')"
proof (induction rule: run_round.induct)
  case (round m evs rotor m1 rotor' m2 m3)
  have "machine_ok k n (fst (run_cycles rotor m))" using round.prems by (simp add: ok_run_cycles)
  then have 1: "machine_ok k n m1"
    using round.hyps(2) by (auto simp: poll_host_def Let_def split_beta split: if_splits)
  then have 2: "machine_ok k n m2"
    using round.hyps(3) by (auto simp: stoploop_def dest: ok_stopped [OF _ ok_connection(4)] split: if_splits)
  then show ?case using round.hyps(4) by (auto dest: ok_waitirq split: if_splits)
qed

lemma ok_rounds: "run_rounds r r' \<Longrightarrow> machine_ok k n (fst r) \<Longrightarrow> machine_ok k n (fst r')"
  by (induction rule: run_rounds.induct) (auto intro: ok_round)

text \<open>However long the machine runs, whatever the program and the host do, the running mask and
  the interrupt lines of every cpu stay right, the timed events stay in order, and no event structure
  is lost or made: a cpu that sleeps has no interrupt pending.\<close>

theorem runloop_keeps_machine_ok:
  assumes "machine_ok k n m" "runloop_reaches m m'"
  shows "machine_ok k n m' \<and>
    (\<forall>i<n. irq_pending m' i \<or> cpu_ipi (lb_cpus m' i) \<longrightarrow> cpu_state (mycpus m' i) \<noteq> CPU_IDLE)"
proof -
  have "machine_ok k n m'" using assms ok_rounds by (fastforce simp: runloop_reaches_def)
  then show ?thesis by (auto simp: machine_ok_def irq_ok_def lines_ok_def)
qed

end
