(* ===== verification/Isolation.thy ===== *)
theory Isolation
  imports Closure
begin

text \<open>
  What a program in user mode cannot do (\<open>mipseb/mipscore.h\<close>). Every instruction of the
  MIPS-161 runs in a machine whose kernel state it keeps: the TLBs and address spaces of all cpus,
  the masks of their status registers, and all of RAM but the frames that valid dirty entries of
  its own TLB map below the kernel segments.
\<close>

section \<open>What is kept\<close>

text \<open>The parts of a cpu only the kernel writes.\<close>

definition kernel_kept :: "mipscpu \<Rightarrow> mipscpu \<Rightarrow> bool" where
  "kernel_kept c0 c \<longleftrightarrow>
     tlb c = tlb c0 \<and> mt_pid (tlbentry c) = mt_pid (tlbentry c0) \<and>
     status_copenable c = status_copenable c0 \<and> status_bootvectors c = status_bootvectors c0 \<and>
     status_hardmask_lb c = status_hardmask_lb c0 \<and>
     status_hardmask_ipi c = status_hardmask_ipi c0 \<and>
     status_hardmask_timer c = status_hardmask_timer c0 \<and>
     status_softmask c = status_softmask c0"

text \<open>The frame of RAM behind a physical page: RAM is in two pieces, below and above the hole for
  the boot ROM and the bus.\<close>

definition ram_frame :: "u32 \<Rightarrow> u32 option" where
  "ram_frame pa =
     (if pa < 0x1fc00000 then Some pa
      else if pa < 0x20000000 then None
      else Some (pa - 0x00400000))"

definition user_writable :: "mipscpu \<Rightarrow> u32 \<Rightarrow> bool" where
  "user_writable c a \<longleftrightarrow>
     (\<exists>i<NTLB. let e = tlb c i in
        mt_valid e \<and> mt_dirty e \<and> mt_vpn e < 0x80000000 \<and>
        (mt_global e \<or> mt_pid e = mt_pid (tlbentry c)) \<and>
        ram_frame (mt_pfn e) = Some (a AND 0xfffff000))"

text \<open>Entries are written from \<open>TLBLO\<close>, which keeps only the page frame of an address.\<close>

definition tlb_aligned :: "mipscpu \<Rightarrow> bool" where
  "tlb_aligned c \<longleftrightarrow> (\<forall>i<NTLB. mt_pfn (tlb c i) AND 0xfff = 0)"

definition user_frame :: "nat \<Rightarrow> machine \<Rightarrow> machine \<Rightarrow> bool" where
  "user_frame cn m0 m \<longleftrightarrow>
     bus_ramsize m = bus_ramsize m0 \<and> (\<forall>i. kernel_kept (mycpu m0 i) (mycpu m i)) \<and>
     (\<forall>a. ram m a \<noteq> ram m0 a \<longrightarrow> user_writable (mycpu m0 cn) a)"

lemma user_frame_refl [simp]: "user_frame cn m m"
  by (simp add: user_frame_def kernel_kept_def)

lemma user_frame_upd:
  "user_frame cn m0 m \<Longrightarrow> kernel_kept (mycpu m j) (f (mycpu m j)) \<Longrightarrow>
    user_frame cn m0 (upd_cpu j f m)"
  by (simp add: user_frame_def kernel_kept_def)

lemma user_frame_same:
  "user_frame cn m0 m \<Longrightarrow> bus_ramsize m' = bus_ramsize m \<Longrightarrow> ram m' = ram m \<Longrightarrow>
    (\<And>i. kernel_kept (mycpu m i) (mycpu m' i)) \<Longrightarrow> user_frame cn m0 m'"
  by (simp add: user_frame_def kernel_kept_def)

section \<open>Pages\<close>

lemma page_offset:
  fixes x off :: u32
  assumes "x AND 0xfff = 0" "off AND 0xfff = off"
  shows "x OR off = x + off" "(x + off) AND 0xfffff000 = x"
proof -
  have "x AND off = (x AND 0xfff) AND off" by (metis and.assoc and.commute assms(2))
  then have "x AND off = 0" by (simp only: assms(1)) simp
  then show o: "x OR off = x + off" by (simp only: disjunctive_add_eq_or)
  have "off AND 0xfffff000 = off AND (0xfff AND 0xfffff000)" by (metis and.assoc assms(2))
  then have "off AND 0xfffff000 = 0" by simp
  moreover have "(0xfffff000 :: u32) = NOT 0xfff" by simp
  then have "x = (x AND 0xfff) OR (x AND 0xfffff000)" by (simp only: and_or_split)
  ultimately show "(x + off) AND 0xfffff000 = x"
    by (simp only: o [symmetric] bit.conj_disj_distrib2 assms(1)) simp
qed

lemma unat_and_page: "unat (v AND 0xfff :: u32) = unat v mod 0x1000"
  using unat_and_mask [of v 12] by (simp add: mask_eq_exp_minus_1)

lemma page_multiple: "(0x1000 :: nat) dvd 0x00400000"
  by (simp add: dvd_eq_mod_eq_0)

lemma page_unat:
  fixes x off :: u32
  assumes "x AND 0xfff = 0" "off AND 0xfff = off"
  shows "unat x mod 0x1000 = 0" "unat off < 0x1000" "unat (x + off) = unat x + unat off"
proof -
  note m = unat_and_page
  show x: "unat x mod 0x1000 = 0" using m [of x] assms(1) by simp
  show o: "unat off < 0x1000" using m [of off] assms(2) by (metis mod_less_divisor zero_less_numeral)
  obtain p where p: "unat x = 0x1000 * p" using x by (metis mult_div_mod_eq add_0_right)
  have "unat x < 2 ^ 32" using unsigned_less [of x, where ?'a = nat] by simp
  then have "p < 0x100000" unfolding p by simp
  then have "unat x + unat off < 2 ^ 32" using o unfolding p by simp
  then show "unat (x + off) = unat x + unat off"
    by (simp add: unat_plus_if_size word_size)
qed

lemma page_less:
  fixes x off :: u32
  assumes "x AND 0xfff = 0" "off AND 0xfff = off" "unat K mod 0x1000 = 0"
  shows "x + off < K \<longleftrightarrow> x < K"
proof -
  obtain p k where "unat x = 0x1000 * p" "unat K = 0x1000 * k"
    using page_unat(1) [OF assms(1,2)] assms(3) by (metis mult_div_mod_eq add_0_right)
  then show ?thesis
    using page_unat(2) [OF assms(1,2)]
    by (cases "p < k") (simp_all add: word_less_nat_alt page_unat(3) [OF assms(1,2)])
qed

section \<open>The bus keeps it\<close>

lemma kernel_kept_lines: "kernel_kept c (set_lines st lb ipi c)"
  by (simp add: kernel_kept_def set_lines_def)

lemma user_frame_irq: "user_frame cn m0 m \<Longrightarrow> irq_frame m m' \<Longrightarrow> user_frame cn m0 m'"
  by (erule user_frame_same) (simp_all add: irq_frame_sels, metis irq_frame_cpu kernel_kept_lines)

lemma user_frame_plain:
  "user_frame cn m0 m \<Longrightarrow> bus_ramsize m' = bus_ramsize m \<Longrightarrow> ram m' = ram m \<Longrightarrow> mycpus m' = mycpus m \<Longrightarrow>
    user_frame cn m0 m'"
  by (erule user_frame_same) (simp_all add: kernel_kept_def)

lemma user_frame_event: "user_frame cn m0 m \<Longrightarrow> user_frame cn m0 (schedule_event d dat code f m)"
  by (erule user_frame_plain)
    (simp_all add: schedule_event_def host_next_random_def Let_def smoke_def raise_fault_def
      cpu_stopcycling_def split: prod.split)

lemma user_frame_lines:
  assumes "user_frame cn m0 m"
  shows "user_frame cn m0 (irqupdate (upd_lbcpu i g m))" "user_frame cn m0 (upd_lbcpu i g m)"
    "user_frame cn m0 (cpu_set_irqs i lb ipi (upd_lbcpu i g m))"
    "user_frame cn m0 (irqupdate (m\<lparr>bus_enabled_interrupts := v\<rparr>))"
    "user_frame cn m0 (irqupdate (m\<lparr>bus_raised_interrupts := w\<rparr>))"
proof -
  have p: "user_frame cn m0 (upd_lbcpu i g m)" "user_frame cn m0 (m\<lparr>bus_enabled_interrupts := v\<rparr>)"
    "user_frame cn m0 (m\<lparr>bus_raised_interrupts := w\<rparr>)"
    using user_frame_plain [OF assms] by (simp_all add: upd_lbcpu_def)
  then show "user_frame cn m0 (irqupdate (upd_lbcpu i g m))" "user_frame cn m0 (upd_lbcpu i g m)"
    "user_frame cn m0 (cpu_set_irqs i lb ipi (upd_lbcpu i g m))"
    "user_frame cn m0 (irqupdate (m\<lparr>bus_enabled_interrupts := v\<rparr>))"
    "user_frame cn m0 (irqupdate (m\<lparr>bus_raised_interrupts := w\<rparr>))"
    by (auto intro: user_frame_irq irq_frame_irqupdate irq_frame_cpu_set_irqs)
qed

lemma kernel_kept_regs:
  "kernel_kept c (exn_regs code u va c)" "kernel_kept c (entry_regs a c)"
  by (simp_all add: kernel_kept_def exn_regs_def entry_regs_def Let_def)

interpretation user: exn_closed "user_frame cn m0" j for cn m0 j
  by unfold_locales
    (auto intro!: user_frame_upd kernel_kept_regs intro: user_frame_plain
      simp: exn_count_def upd_stats_def raise_fault_def kernel_kept_def)

lemma user_frame_hang: "user_frame cn m0 m \<Longrightarrow> user_frame cn m0 (hang m)"
  by (erule user_frame_plain) simp_all

lemma user_frame_progress: "user_frame cn m0 m \<Longrightarrow> user_frame cn m0 (m\<lparr>progress := b\<rparr>)"
  by (erule user_frame_plain) simp_all

lemma user_frame_mask: "user_frame cn m0 m \<Longrightarrow> user_frame cn m0 (m\<lparr>cpu_running_mask := v\<rparr>)"
  by (erule user_frame_plain) simp_all

lemma user_frame_cpue:
  assumes "user_frame cn m0 m"
  shows "user_frame cn m0 (set_cpue_one v i m)"
proof -
  have e: "user_frame cn m0 (cpu_enable i m)" "user_frame cn m0 (cpu_set_stack i s a m)"
    "user_frame cn m0 (cpu_disable i m)" if "user_frame cn m0 m" for m s a
    using that
    by (auto simp: cpu_enable_def cpu_set_stack_def cpu_disable_def running_mask_on_def
        running_mask_off_def smoke_def kernel_kept_def
        intro!: user.upd_fault user_frame_mask user_frame_upd)
  have "user_frame cn m0 (cpu_set_entrypoint i a m)" for a
    by (rule user.entrypoint_closed [OF assms])
      (auto intro: user_frame_hang user_frame_upd kernel_kept_regs)
  then show ?thesis using assms by (simp add: set_cpue_one_def Let_def e user_frame_lines)
qed

interpretation user: bus_closed "user_frame cn m0" for cn m0
  by unfold_locales
    (auto intro: user_frame_event user_frame_lines user_frame_cpue user_frame_plain
      simp: raise_irq_def lower_irq_def upd_stats_def put_device_def raise_fault_def
        cpu_stopcycling_def main_enter_debugger_def main_poweroff_def)

section \<open>Loads and stores of a user program\<close>

lemma mem_store_frame:
  assumes "user_frame cn m0 m" "bus_mem_store a v m = Some m'"
    and "a AND 3 = 0" "user_writable (mycpu m0 cn) (a AND 0xfffff000)"
  shows "user_frame cn m0 m'"
proof -
  have m': "m' = m\<lparr>ram := host_store32 (ram m) a (htoc32 v)\<rparr>"
    using assms(2) by (simp add: bus_mem_store_def split: if_splits)
  have w: "user_writable (mycpu m0 cn) (a + i)" if "i = 0 \<or> i = 1 \<or> i = 2 \<or> i = 3" for i
  proof -
    have "(a + i) AND 0xfffff000 = ((a + i) AND NOT 3) AND 0xfffff000" by (simp add: and.assoc)
    then have "(a + i) AND 0xfffff000 = a AND 0xfffff000"
      by (simp only: aligned_offset [OF assms(3) that])
    moreover have "(a AND 0xfffff000) AND 0xfffff000 = a AND 0xfffff000" by (simp add: and.assoc)
    ultimately show ?thesis using assms(4) by (simp only: user_writable_def)
  qed
  have r: "ram m' b = ram m b \<or> b = a \<or> b = a + 1 \<or> b = a + 2 \<or> b = a + 3" for b
    by (simp add: m' host_store32_def)
  have "user_writable (mycpu m0 cn) b" if "ram m' b \<noteq> ram m b" for b
    using r [of b] that w [of 0] w [of 1] w [of 2] w [of 3] by auto
  moreover have "bus_ramsize m' = bus_ramsize m" "mycpus m' = mycpus m" by (simp_all add: m')
  ultimately show ?thesis using assms(1) by (simp add: user_frame_def) metis
qed

text \<open>A dirty page a program can name.\<close>

definition user_page :: "mipscpu \<Rightarrow> u32 \<Rightarrow> bool" where
  "user_page c pfn \<longleftrightarrow>
     (\<exists>i<NTLB. let e = tlb c i in
        mt_valid e \<and> mt_dirty e \<and> mt_vpn e < 0x80000000 \<and>
        (mt_global e \<or> mt_pid e = mt_pid (tlbentry c)) \<and> mt_pfn e = pfn \<and> pfn AND 0xfff = 0)"

lemma user_page_writable:
  assumes "user_page c pfn" "ram_frame pfn = Some f"
  shows "user_writable c (f AND 0xfffff000) \<and> f AND 0xfff = 0"
proof -
  obtain i where i: "i < NTLB" "mt_valid (tlb c i)" "mt_dirty (tlb c i)"
    "mt_vpn (tlb c i) < 0x80000000" "mt_global (tlb c i) \<or> mt_pid (tlb c i) = mt_pid (tlbentry c)"
    "mt_pfn (tlb c i) = pfn" "pfn AND 0xfff = 0"
    using assms(1) by (auto simp: user_page_def Let_def)
  have z: "(pfn - 0x00400000) AND 0xfff = 0" if "\<not> pfn < 0x20000000"
  proof -
    have "unat (pfn - 0x00400000) = unat pfn - 0x00400000"
      using that by (simp add: unat_sub word_le_nat_alt word_less_nat_alt)
    moreover have "unat pfn mod 0x1000 = 0" using i(7) by (simp flip: unat_and_page)
    moreover have "unat pfn \<ge> 0x00400000" using that by (simp add: word_less_nat_alt)
    ultimately have "unat ((pfn - 0x00400000) AND 0xfff) = 0"
      unfolding unat_and_page by (metis dvd_diff_nat mod_eq_0_iff_dvd page_multiple)
    then show ?thesis by (simp only: unat_eq_zero)
  qed
  have f: "f AND 0xfff = 0" using z assms(2) i(7) by (auto simp: ram_frame_def split: if_splits)
  have "(f + 0) AND 0xfffff000 = f" by (rule page_offset(2) [OF f]) simp
  then have "(f AND 0xfffff000) AND 0xfffff000 = f" by (simp add: and.assoc)
  then have "user_writable c (f AND 0xfffff000)"
    unfolding user_writable_def Let_def using i assms(2) by (intro exI [of _ i]) simp
  then show ?thesis using f by blast
qed

lemma frame_access:
  assumes "pfn AND 0xfff = 0" "off AND 0xfff = off"
  shows "ram_frame (pfn OR off) = map_option (\<lambda>f. f + off) (ram_frame pfn)"
  using page_less [OF assms, of "0x1fc00000"] page_less [OF assms, of "0x20000000"]
  by (simp add: ram_frame_def page_offset(1) [OF assms])

lemma user_entry:
  assumes "current_usermode (mycpu m cn)" "snd (translatemem cn va wr m) = Some pa"
  obtains i where "i < NTLB" "unat va < 0x80000000" "4 dvd unat va"
    "tlb_match (mycpu m cn) (va AND 0xfffff000) i" "mt_valid (tlb (mycpu m cn) i)"
    "wr \<longrightarrow> mt_dirty (tlb (mycpu m cn) i)" "pa = mt_pfn (tlb (mycpu m cn) i) OR (va AND 0xfff)"
proof -
  have x: "xlate_spec (mycpu m cn) va wr = Inr pa"
    using assms(2) unfolding translatemem_def translatemem_with_spec
    by (auto split: sum.splits prod.splits)
  have 1: "unat va < 0x80000000" "4 dvd unat va"
    using x assms(1) by (auto simp: xlate_spec_def split: if_splits)
  with x obtain i where f: "findtlb (mycpu m cn) (va AND 0xfffff000) = Some i"
    and "mt_valid (tlb (mycpu m cn) i)" "wr \<longrightarrow> mt_dirty (tlb (mycpu m cn) i)"
      "pa = mt_pfn (tlb (mycpu m cn) i) OR (va AND 0xfff)"
    by (auto simp: xlate_spec_def split: option.splits if_splits)
  with 1 findtlb_Some [OF f] that show thesis by blast
qed

lemma user_store_page:
  assumes "user_frame cn m0 m" "tlb_aligned (mycpu m0 cn)" "current_usermode (mycpu m cn)"
    and "snd (translatemem cn va True m) = Some pa"
  obtains pfn off where "user_page (mycpu m0 cn) pfn" "pa = pfn OR off" "off AND 0xfff = off"
    "off AND 3 = 0"
proof -
  obtain i where i: "i < NTLB" "unat va < 0x80000000" "4 dvd unat va"
    "tlb_match (mycpu m cn) (va AND 0xfffff000) i" "mt_valid (tlb (mycpu m cn) i)"
    "mt_dirty (tlb (mycpu m cn) i)" "pa = mt_pfn (tlb (mycpu m cn) i) OR (va AND 0xfff)"
    using user_entry [OF assms(3,4)] by blast
  have k: "kernel_kept (mycpu m0 cn) (mycpu m cn)" using assms(1) by (simp add: user_frame_def)
  have "va AND 0xfffff000 < 0x80000000"
    using i(2) word_and_le2 [of va "0xfffff000"] by (simp add: word_less_nat_alt word_le_nat_alt)
  then have p: "user_page (mycpu m0 cn) (mt_pfn (tlb (mycpu m cn) i))"
    using i(1,4,5,6) k assms(2)
    by (auto simp: user_page_def tlb_match_def kernel_kept_def tlb_aligned_def Let_def)
  have "(va AND 0xfff) AND 3 = va AND 3" by (simp add: and.assoc)
  then have "(va AND 0xfff) AND 3 = 0" using i(3) by (simp only: dvd4_and)
  with that [OF p i(7)] show thesis by (simp add: and.assoc)
qed

lemma access_store_frame:
  assumes "user_frame cn m0 m" "user_page (mycpu m0 cn) pfn" "off AND 0xfff = off" "off AND 3 = 0"
  shows "user_frame cn m0 (fst (accessmem_store cn (pfn OR off) v m))"
proof -
  have z: "pfn AND 0xfff = 0" using assms(2) by (auto simp: user_page_def Let_def)
  have st: "user_frame cn m0 m'"
    if "ram_frame (pfn OR off) = Some a" "bus_mem_store a v m = Some m'" for a m'
  proof -
    have "map_option (\<lambda>f. f + off) (ram_frame pfn) = Some a"
      using that(1) by (simp only: frame_access [OF z assms(3)])
    then obtain f where f: "ram_frame pfn = Some f" "a = f + off"
      by (cases "ram_frame pfn") simp_all
    have w: "user_writable (mycpu m0 cn) (f AND 0xfffff000)" "f AND 0xfff = 0"
      using user_page_writable [OF assms(2) f(1)] by blast+
    have "(f AND 0xfff) AND 3 = f AND 3" by (simp add: and.assoc)
    then have "f AND 3 = 0" by (simp add: w(2))
    then have "a AND 3 = 0"
      using assms(4) page_offset(1) [OF w(2) assms(3)] by (metis f(2) bit.conj_disj_distrib2 or.left_neutral)
    moreover have "a AND 0xfffff000 = f AND 0xfffff000"
      using page_offset(2) [OF w(2) assms(3)] page_offset(2) [OF w(2), of 0] by (simp add: f(2))
    ultimately show ?thesis using mem_store_frame [OF assms(1) that(2)] w(1) by simp
  qed
  obtain m2 ok where io: "bus_io_store (cpunum (mycpu m cn)) ((pfn OR off) - 0x1fe00000) v m = (m2, ok)"
    by fastforce
  have "user_frame cn m0 m2" using user.bus_io_closed(2) [OF assms(1)] io by (metis fst_conv)
  then show ?thesis
    using assms(1) st
    by (auto simp: accessmem_store_def io Let_def ram_frame_def user.exception_closed
        split: option.split)
qed

text \<open>Reading a device changes no mode.\<close>

interpretation mode: device_closed "\<lambda>m. current_usermode (mycpu m cn)" for cn
  by unfold_locales
    (simp_all add: raise_irq_def lower_irq_def upd_stats_def put_device_def raise_fault_def
      cpu_stopcycling_def main_enter_debugger_def main_poweroff_def schedule_event_def
      host_next_random_def smoke_def Let_def
      irq_frame_cpu_sels [OF irq_frame_irqupdate] split: prod.split)

lemma translate_mode:
  assumes "translatemem cn va wr m = (m1, Some pa)" "current_usermode (mycpu m cn)"
  shows "current_usermode (mycpu m1 cn)"
proof -
  have "m1 = xlate_machine cn va m"
    using assms(1) unfolding translatemem_def translatemem_with_spec
    by (auto split: sum.splits prod.splits)
  then show ?thesis using assms(2) by (simp add: xlate_machine_def)
qed

lemma fetch_frame:
  assumes "user_frame cn m0 m" "current_usermode (mycpu m cn)"
    and "domem_fetch cn va wr m = (m1, r)"
  shows "user_frame cn m0 m1" "r = Fetched v \<Longrightarrow> current_usermode (mycpu m1 cn)"
proof -
  obtain m2 pa where t: "translatemem cn va wr m = (m2, pa)" by fastforce
  have f2: "user_frame cn m0 m2" using user.translatemem_closed [OF assms(1), of cn va wr] by (simp add: t)
  have u2: "current_usermode (mycpu m2 cn)" if "pa = Some a" for a
    using translate_mode [OF t [unfolded that] assms(2)] .
  obtain m3 r3 where io: "bus_io_fetch (cpunum (mycpu m2 cn)) (the pa - 0x1fe00000) m2 = (m3, r3)"
    by fastforce
  have f3: "user_frame cn m0 m3" using user.bus_fetch_closed [OF f2] io by (metis fst_conv)
  have u3: "current_usermode (mycpu m3 cn)" if "pa = Some a" for a
    using mode.bus_fetch_closed [OF u2 [OF that]] io by (metis fst_conv)
  show "user_frame cn m0 m1" "r = Fetched v \<Longrightarrow> current_usermode (mycpu m1 cn)"
    using assms(3) f2 f3 u2 u3 io
    by (auto simp: domem_fetch_def t accessmem_fetch_def Let_def user.exception_closed
        split: option.splits if_splits)
qed

lemma store_frame:
  assumes "user_frame cn m0 m" "current_usermode (mycpu m cn)" "tlb_aligned (mycpu m0 cn)"
  shows "user_frame cn m0 (fst (domem_store cn va v True m))"
proof -
  obtain m2 r where t: "translatemem cn va True m = (m2, r)" by fastforce
  have f2: "user_frame cn m0 m2" using user.translatemem_closed [OF assms(1), of cn va True] by (simp add: t)
  show ?thesis
  proof (cases r)
    case None
    then show ?thesis using f2 by (simp add: domem_store_def t)
  next
    case (Some pa)
    then have "snd (translatemem cn va True m) = Some pa" by (simp add: t)
    then obtain pfn off where "user_page (mycpu m0 cn) pfn" "pa = pfn OR off" "off AND 0xfff = off"
      "off AND 3 = 0"
      using user_store_page [OF assms(1,3,2)] by metis
    then show ?thesis using access_store_frame [OF f2] Some by (simp add: domem_store_def t)
  qed
qed

section \<open>Instructions of a user program\<close>

interpretation user: insn_closed "user_frame cn m0" cn
  "\<lambda>m. user_frame cn m0 m \<and> current_usermode (mycpu m cn) \<and> tlb_aligned (mycpu m0 cn)" for cn m0
  by unfold_locales
    (auto simp: insn_quiet_def kernel_kept_def
      intro: user_frame_upd user.stats user_frame_plain fetch_frame store_frame)

lemma exec_frame:
  assumes "user_frame cn m0 m" "current_usermode (mycpu m cn)" "tlb_aligned (mycpu m0 cn)"
  shows "user_frame cn m0 (exec_insn cn w m)"
  by (rule user.exec_user_closed) (use assms in simp_all)

lemma update_pc_mode:
  assumes "update_pc cn w m = (m1, True)" "current_usermode (mycpu m cn)"
  shows "current_usermode (mycpu m1 cn)"
proof -
  let ?m = "upd_cpu cn advance_pc m"
  have u: "current_usermode (mycpu ?m cn)" using assms(2) by (simp add: advance_pc_def)
  have n: "current_usermode (mycpu m1 cn)" if "precompute_nextpc cn ?m = (m1, True)"
  proof -
    obtain m2 r where t: "translatemem cn (nextpc (mycpu ?m cn)) False ?m = (m2, r)" by fastforce
    show ?thesis
      using that translate_mode [OF _ u, of "nextpc (mycpu ?m cn)" False m2] t
      by (auto simp: precompute_nextpc_def precompute_nextpc_with_def translatemem_def Let_def
          split: option.splits if_splits)
  qed
  show ?thesis
    using assms u n by (auto simp: update_pc_def Let_def split: if_splits)
qed

lemma user_quiet:
  "kernel_kept c (advance_pc c)" "kernel_kept c (tick_cpu c)" "kernel_kept c (c\<lparr>hit_breakpoint := b\<rparr>)"
  "kernel_kept c (c\<lparr>nextpcpage := pg, nextpcoff := off\<rparr>)" "kernel_kept c (c\<lparr>nextpcoff := off\<rparr>)"
  "kernel_kept c (c\<lparr>ex_count := n, hit_breakpoint := b\<rparr>)"
  by (simp_all add: kernel_kept_def advance_pc_def tick_cpu_def tick_timer_def Let_def)

lemma update_pc_frame: "user_frame cn m0 m \<Longrightarrow> user_frame cn m0 (fst (update_pc cn w m))"
  by (simp add: update_pc_def Let_def user_frame_upd user_quiet user.precompute_nextpc_closed
      del: upd_cpu_upd_cpu)

lemma end_frames:
  "user_frame cn m0 m \<Longrightarrow> user_frame cn m0 (end_cycle cn m)"
  "user_frame cn m0 m \<Longrightarrow> user_frame cn m0 (retire cn rpc u m)"
  "user_frame cn m0 m \<Longrightarrow> user_frame cn m0 (breakpoint cn m)"
  by (auto simp: end_cycle_def retire_def breakpoint_def
      intro!: user_frame_upd user_quiet user.reg_closed user.phony_closed user.stop user.debugger
        user.fault user_frame_progress)

text \<open>C3: An instruction of a program in user mode, whatever it is and whatever it traps on, keeps the
  TLBs, address spaces and status masks of all cpus and the size of RAM, and changes RAM only in
  frames that a valid dirty entry of its own TLB maps at a user address.\<close>

theorem user_insn_isolation:
  assumes "current_usermode (mycpu m cn)" "tlb_aligned (mycpu m cn)"
  shows "user_frame cn m (fst (run_insn cn w m))"
proof -
  obtain m1 ok where u: "update_pc cn w m = (m1, ok)" by fastforce
  have f1: "user_frame cn m m1" using update_pc_frame [of cn m m w] by (simp add: u)
  let ?m2 = "upd_cpu cn (\<lambda>c. c\<lparr>hit_breakpoint := False\<rparr>) m1"
  have f2: "user_frame cn m ?m2" by (rule user_frame_upd [OF f1]) (rule user_quiet)
  have "current_usermode (mycpu ?m2 cn)" if ok
    using update_pc_mode [OF _ assms(1), of w m1] that u by simp
  then have "user_frame cn m (exec_insn cn w ?m2)" if ok
    using exec_frame [OF f2 _ assms(2)] that by simp
  then show ?thesis
    using f1 f2 end_frames by (simp add: run_insn_def Let_def u split: bool.split)
qed

end
