(* ===== verification/Halting.thy ===== *)
theory Halting
  imports Closure
begin

text \<open>
  Why \<open>cpu_cycles\<close> (\<open>mipseb/mipscore.h\<close>) returns. Its loop is \<open>while_option\<close>, which has no result
  when the loop does not end. A cycle in which some cpus hit a breakpoint does not count, but a
  breakpoint stops the cycling.
\<close>

text \<open>Nothing the processors or the devices do sets the cycling flag.\<close>

abbreviation halted :: "nat \<Rightarrow> machine \<Rightarrow> bool" where
  "halted n m \<equiv> \<not> cpu_cycling m \<and> ncpus m = n"

lemmas line_sels = irq_frame_sels [OF irq_frame_irqupdate] irq_frame_sels [OF irq_frame_cpu_set_irqs]

lemma stop_sels [simp]:
  "cpu_cycling (main_enter_debugger b m) = cpu_cycling m" "ncpus (main_enter_debugger b m) = ncpus m"
  "cpu_cycling (main_poweroff m) = cpu_cycling m" "ncpus (main_poweroff m) = ncpus m"
  "cpu_cycling (cpu_stopcycling m) = False" "ncpus (cpu_stopcycling m) = ncpus m"
  "cpu_cycling (upd_lbcpu i f m) = cpu_cycling m" "ncpus (raise_fault e m) = ncpus m"
  "cpu_cycling (raise_fault e m) = cpu_cycling m" "cpu_cycling (smoke m) = cpu_cycling m"
  "ncpus (smoke m) = ncpus m"
  by (simp_all add: main_enter_debugger_def main_poweroff_def cpu_stopcycling_def upd_lbcpu_def
      raise_fault_def smoke_def)

lemma halted_event:
  "\<not> cpu_cycling m \<Longrightarrow> \<not> cpu_cycling (schedule_event d dat code f m)"
  "ncpus (schedule_event d dat code f m) = ncpus m"
  by (auto simp: schedule_event_def host_next_random_def Let_def smoke_def raise_fault_def
      split: prod.splits if_splits)

interpretation halted: exn_closed "halted n" i for n i
  by unfold_locales (simp_all add: exn_count_def upd_stats_def)

lemma halted_entrypoint: "halted n m \<Longrightarrow> halted n (cpu_set_entrypoint i a m)"
  by (rule halted.entrypoint_closed) simp_all

lemma halted_set_cpue_one: "halted n m \<Longrightarrow> halted n (set_cpue_one v i m)"
  using halted_entrypoint [of m n i]
  by (simp add: set_cpue_one_def Let_def cpu_disable_def cpu_enable_def
      cpu_set_stack_def running_mask_on_def running_mask_off_def)

lemma halted_wait: "halted n m \<Longrightarrow> halted n (do_wait cn m)"
  by (simp add: do_wait_def running_mask_off_def Let_def)

interpretation halted: cycle_closed "halted n" cn for n cn
  by unfold_locales
    (simp_all add: upd_stats_def put_device_def raise_irq_def lower_irq_def line_sels
      halted_event halted_set_cpue_one halted_wait)

interpretation halted: machine_closed "halted n" n for n
  by (unfold_locales) (simp_all add: halted.cycle_closed_axioms)

text \<open>A breakpoint stops the cycling, so a cycle that does not count is the last.\<close>

lemma breakpoint_halts: "snd (cycle_one cn m) \<Longrightarrow> \<not> cpu_cycling (fst (cycle_one cn m))"
  by (auto simp: cycle_one_def run_insn_def breakpoint_def Let_def
      split: if_splits option.splits prod.splits bool.splits)

lemma count_break_halts:
  assumes "snd r \<noteq> 0 \<longrightarrow> \<not> cpu_cycling (fst r)"
  shows "snd (count_break cn r) \<noteq> 0 \<longrightarrow> \<not> cpu_cycling (fst (count_break cn r))"
  using assms breakpoint_halts [of cn "fst r"] halted.cycle_one_closed [of "fst r" "ncpus (fst r)" cn]
  by (auto simp: count_break_def Let_def split_beta)

lemma all_break_halts:
  "snd r \<noteq> 0 \<longrightarrow> \<not> cpu_cycling (fst r) \<Longrightarrow>
   snd (fold count_break cns r) \<noteq> 0 \<longrightarrow> \<not> cpu_cycling (fst (fold count_break cns r))"
  by (induction cns arbitrary: r) (simp_all add: count_break_halts)

lemma uncounted_halts: "\<not> snd (cpu_cycle m) \<Longrightarrow> \<not> cpu_cycling (fst (cpu_cycle m))"
  using all_break_halts [of "(m, 0)" "[0..<ncpus m]"]
  by (auto simp: cpu_cycle_def Let_def split_beta)

lemma cycles_step_cases:
  assumes "i < maxcycles" "cycles_step maxcycles (m, i) = (m', i')"
  shows "i' = maxcycles \<or> i' = i + 1 \<or> i' = i \<and> \<not> cpu_cycling m'"
  using assms uncounted_halts [of m]
  by (auto simp: cycles_step_def Let_def split_beta split: if_splits)

lemma cycles_loop:
  "\<exists>r'. while_option (cycles_more n) (cycles_step n) (m, 0) = Some r' \<and> snd r' \<le> n \<and>
     \<not> cycles_more n r'"
proof (rule counted_loop)
  show "snd r < n" if "cycles_more n r" for r
    using that by (simp add: cycles_more_def)
  show "snd (cycles_step n r) = n \<or> snd (cycles_step n r) = snd r + 1 \<or>
      snd (cycles_step n r) = snd r \<and> \<not> cycles_more n (cycles_step n r)" if "cycles_more n r" for r
    using that cycles_step_cases [of "snd r" n "fst r"]
    by (cases "cycles_step n r") (auto simp: cycles_more_def)
qed

text \<open>C5: Running the machine for some cycles ends: the loop returns after at most that many, and
  after fewer only if something stopped the cycling.\<close>

theorem cpu_cycles_terminates:
  "\<exists>m' i. while_option (cycles_more n) (cycles_step n) (m\<lparr>cpu_cycling := True\<rparr>, 0) = Some (m', i) \<and>
     cpu_cycles n m = (m'\<lparr>cpu_cycles_count := 0\<rparr>, i) \<and> i \<le> n \<and> \<not> (i < n \<and> cpu_cycling m')"
  using cycles_loop [of n "m\<lparr>cpu_cycling := True\<rparr>"] by (auto simp: cpu_cycles_def cycles_more_def)

end
