(* ===== verification/Witnesses.thy ===== *)
theory Witnesses
  imports Run_Ok Isolation Halting
begin

text \<open>
  Concrete machines on which the hypotheses of the properties hold, each property applied there.
\<close>

definition w0 :: machine where
  "w0 = zero_machine (\<lambda>_. 0) (\<lambda>_ _. 0) (\<lambda>_ _. no_answer)"

lemmas w0_simps = w0_def zero_machine_def zero_cpu_def zero_tlb_def zero_lamebus_cpu_def


section \<open>The processor\<close>

text \<open>A user program with one page.\<close>

definition w_user :: machine where
  "w_user = upd_cpu 0 (\<lambda>c. c\<lparr>current_usermode := True,
     tlb := (\<lambda>_. zero_tlb)(0 := zero_tlb\<lparr>mt_vpn := 0x1000, mt_pfn := 0x3000, mt_global := True, mt_valid := True\<rparr>)\<rparr>) w0"

lemma translatemem_user_isolation_witness:
  "snd (translatemem 0 0x1004 False w_user) = Some 0x3004 \<and> unat (0x1004 :: u32) < 0x80000000"
proof -
  have u: "current_usermode (mycpu w_user 0)" by (simp add: w_user_def)
  have t: "snd (translatemem 0 0x1004 False w_user) = Some 0x3004"
    by (simp add: translatemem_def translatemem_with_def w_user_def w0_simps findtlb_def NTLB_def
        upt_conv_Cons tlb_match_def Let_def)
  show ?thesis using t translatemem_user_isolation [OF u t] by blast
qed

text \<open>It tries to write the status register.\<close>

lemma user_insn_isolation_witness:
  "status_hardmask_lb (mycpu (fst (run_insn 0 0x40826000 w_user)) 0) = status_hardmask_lb (mycpu w_user 0)"
proof -
  have "current_usermode (mycpu w_user 0)" "tlb_aligned (mycpu w_user 0)"
    by (simp_all add: w_user_def w0_simps tlb_aligned_def)
  from user_insn_isolation [OF this, of "0x40826000"]
  show ?thesis by (simp add: user_frame_def kernel_kept_def)
qed


lemma reset_tlb_wf: "tlb_wf (mips_init_regs 0 zero_cpu)"
  by (rule tlb_wf_reset) (simp add: mips_init_regs_def)

lemma writetlb_keeps_tlb_wf_witness:
  "let m = upd_cpu 0 (mips_init_regs 0) w0 in
   tlb_wf (mycpu m 0) \<and>
   (tlb_wf (mycpu (writetlb 0 3 m) 0) \<or> stopped_in_debugger (writetlb 0 3 m))"
  using writetlb_keeps_tlb_wf [of "upd_cpu 0 (mips_init_regs 0) w0" 0 3]
  by (auto simp: reset_tlb_wf w0_def zero_machine_def NTLB_def Let_def)

section \<open>Instructions\<close>

definition w_ram :: machine where
  "w_ram = upd_cpu 0 (\<lambda>c. c\<lparr>regs := (\<lambda>_. 0)(1 := 0x80000040, 2 := 7, 3 := 3)\<rparr>) (w0\<lparr>bus_ramsize := 0x1000\<rparr>)"

lemma unaligned_store_witness:
  "ram (dostore 0 S_WORDR (0x80000041 + 3) 0x01020304 (dostore 0 S_WORDL 0x80000041 0x01020304 w_ram)) 0x42 = 2"
  by (subst unaligned_store) (simp_all add: direct_ram_def w_ram_def w0_simps KSEG0_def)

text \<open>\<open>ll $2, 0($1)\<close> and then \<open>sc $2, 0($1)\<close>\<close>

lemma ll_sc_atomic_witness:
  "getreg (mx_sc 0 0xe0220000 (mx_ll 0 0xc0220000 w_ram)) 0 2 = 1"
proof -
  let ?m1 = "mx_ll 0 0xc0220000 w_ram"
  have f: "insn_rs 0xc0220000 = 1" "insn_rt 0xc0220000 = 2" "insn_smm 0xc0220000 = 0"
    "insn_rs 0xe0220000 = 1" "insn_rt 0xe0220000 = 2" "insn_smm 0xe0220000 = 0"
    by (simp_all add: insn_rs_def insn_rt_def insn_smm_def insn_imm_def)
  have d: "direct_ram w_ram 0 (insn_addr w_ram 0 0xc0220000)"
    by (simp add: insn_addr_def f RSu_def getreg_def direct_ram_def w_ram_def w0_simps KSEG0_def)
  have act: "ll_active (mycpu ?m1 0)" by (rule mx_ll_direct(1) [OF d])
  have d1: "direct_ram ?m1 0 (insn_addr ?m1 0 0xe0220000)"
    and v: "bus_mem_fetch ?m1 (insn_addr w_ram 0 0xc0220000 - KSEG0) = Some (getreg ?m1 0 (insn_rt 0xc0220000))"
    and a: "insn_addr ?m1 0 0xe0220000 = insn_addr w_ram 0 0xc0220000"
    using d by (simp_all add: mx_ll_def direct_fetch [OF d] fetch_reg_def Let_def f insn_addr_def RSu_def
        getreg_def setreg_def direct_ram_def direct_fetch [unfolded direct_ram_def] addpercpu_def upd_percpu_def
        upd_stats_def upd_cpu_def bus_mem_fetch_def be_word_def not_le)
  show ?thesis
    using ll_sc_atomic [OF d refl _ d1 refl] v a act by (simp add: f)
qed

section \<open>Events and interrupts\<close>

definition w_events :: machine where
  "w_events = w0\<lparr>ta_free := 8, event_queue := [\<lparr>ta_vtime = 1000, ta_data = 1, ta_code = 0,
     ta_call = F_timer_interrupt, ta_runningto = True\<rparr>]\<rparr>"

lemma w_events_queue: "events_sorted (event_queue w_events)" "0 < ta_free w_events"
    "ta_free w_events + length (event_queue w_events) = 9"
  by (simp_all add: w_events_def events_sorted_def)

lemma schedule_event_queue_witness:
  "let m' = schedule_event 40 2 0 F_disk_waitdone w_events in ta_free m' + length (event_queue m') = 9"
  using schedule_event_queue [OF w_events_queue(1,2), of 40 2 0 F_disk_waitdone] w_events_queue(3)
  by (simp only: Let_def)

text \<open>One sleeping cpu that listens to slot 3.\<close>

definition w_idle :: machine where
  "w_idle = w0\<lparr>ncpus := 1, bus_enabled_interrupts := 0xffffffff,
     mycpus := (\<lambda>_. zero_cpu)(0 := zero_cpu\<lparr>cpu_state := CPU_IDLE\<rparr>),
     lb_cpus := (\<lambda>_. zero_lamebus_cpu)(0 := zero_lamebus_cpu\<lparr>cpu_enabled_interrupts := 8\<rparr>)\<rparr>"

lemma w_idle_ok: "irq_ok w_idle" "cpus_ok w_idle"
  by (simp_all add: irq_ok_def lines_ok_def irq_pending_def cpus_ok_def w_idle_def w0_simps)

lemma raise_irq_consistent_witness: "irq_ok (raise_irq 3 w_idle) \<and> cpus_ok (raise_irq 3 w_idle)"
  using raise_irq_consistent [OF w_idle_ok, of 3] by (simp add: Let_def)

section \<open>The main loop\<close>

text \<open>One running cpu, and an event that is due: a countdown that was started anew.\<close>

definition w_due :: machine where
  "w_due = w0\<lparr>ncpus := 1, cpu_running_mask := 1,
     mycpus := (\<lambda>_. zero_cpu)(0 := zero_cpu\<lparr>cpu_state := CPU_RUNNING\<rparr>),
     event_queue := [\<lparr>ta_vtime = 0, ta_data = 2, ta_code = 1, ta_call = F_timer_interrupt,
       ta_runningto = False\<rparr>]\<rparr>"

lemma w_due_simps [simp]:
  "event_queue w_due = [\<lparr>ta_vtime = 0, ta_data = 2, ta_code = 1, ta_call = F_timer_interrupt,
     ta_runningto = False\<rparr>]"
  "clock_vnow w_due = 0" "shutoff_flag w_due = False" "stopped_in_debugger w_due = False"
  "cpu_running_mask w_due = 1" "check_progress w_due = False" "ta_free w_due = 0"
  "devices w_due = (\<lambda>_. None)" "virtual_now w_due = 0" "extra_selecttime w_due = 0"
  by (simp_all add: w_due_def w0_simps clock_vnow_def)

lemma w_due_ok: "machine_ok 1 1 w_due"
  by (auto simp: machine_ok_def irq_ok_def lines_ok_def irq_pending_def cpus_ok_def events_sorted_def
      bit_1_iff) (simp_all add: w_due_def w0_simps)

lemma w_due_round:
  obtains m' where "run_round (w_due, ROTOR) (m', ROTOR)" "event_queue m' = []"
proof -
  let ?m1 = "w_due\<lparr>cpu_cycling := True, cpu_cycles_count := 0\<rparr>"
  have c: "cpu_cycles 0 w_due = (?m1, 0)"
    by (simp add: cpu_cycles_def while_option_unfold cycles_more_def)
  let ?m2 = "upd_stats (\<lambda>s. s\<lparr>s_tot_rcycles := s_tot_rcycles s + 0\<rparr>) ?m1"
  let ?m3 = "acfree (clock_vadvance 0 ?m2\<lparr>event_queue := []\<rparr>)"
  have q: "check_queue (clock_vadvance 0 ?m2) = ?m3"
    by (simp add: check_queue_def while_option_unfold queue_due_def queue_step_def clock_vnow_def
        clock_vadvance_def upd_stats_def run_event_def timer_interrupt_def timer_at_def zero_timer_def
        acfree_def)
  have r: "run_cycles ROTOR w_due = (?m3, ROTOR)"
    using q
    by (simp add: run_cycles_def clock_getrunticks_def c clock_ticks_def ROTOR_def acfree_def
        clock_vadvance_def upd_stats_def)
  have rotor: "ROTOR \<noteq> 0" by (simp add: ROTOR_def)
  have "run_round (w_due, ROTOR) (?m3, ROTOR)"
    by (rule run_round.round [where evs = "[]" and ?m1.0 = ?m3 and ?m2.0 = ?m3])
      (simp_all add: r rotor poll_host_def acfree_def clock_vadvance_def upd_stats_def)
  then show thesis by (rule that) (simp add: acfree_def)
qed

lemma runloop_keeps_machine_ok_witness:
  "\<exists>m'. runloop_reaches w_due m' \<and> event_queue m' = [] \<and> ta_free m' = 1 \<and> cpus_ok m'"
proof -
  obtain m' where m': "run_round (w_due, ROTOR) (m', ROTOR)" "event_queue m' = []" by (rule w_due_round)
  then have r: "runloop_reaches w_due m'"
    unfolding runloop_reaches_def using run_rounds.more [OF run_rounds.start] by blast
  from runloop_keeps_machine_ok [OF w_due_ok r] m'(2) r
  show ?thesis by (auto simp: machine_ok_def)
qed

section \<open>The serial port\<close>

definition w_port :: "ser_data \<Rightarrow> machine" where
  "w_port sd = put_device 5 (Serial sd) (w0\<lparr>ta_free := 8\<rparr>)"

lemma w_port_sels [simp]:
  "serial_at (w_port sd) 5 = sd" "ta_free (w_port sd) = 8" "event_queue (w_port sd) = []"
  "console_out (w_port sd) = []" "check_irq s (w_port sd) = False"
  by (simp_all add: w_port_def serial_at_def put_device_def w0_simps check_irq_def)

lemma w_port_ring: "ring_ok (serial_init 5)" "ring_contents (serial_init 5) = []"
    "ring_len (serial_init 5) = 0"
  by (simp_all add: ring_ok_def ring_contents_def ring_len_def serial_init_def INBUF_SIZE_def)

definition w_sd_busy :: ser_data where
  "w_sd_busy = (serial_init 5)\<lparr>sd_rbusy := True\<rparr>"

lemma w_sd_busy_ring: "ring_ok w_sd_busy" "ring_contents w_sd_busy = []" "sd_rbusy w_sd_busy"
  by (simp_all add: w_sd_busy_def w_port_ring ring_ok_def) (simp_all add: serial_init_def INBUF_SIZE_def)

lemma serial_input_fifo_witness:
  "ring_contents (serial_at (fold (serial_input 5) [104, 105] (w_port w_sd_busy)) 5) = [104, 105]"
  using serial_input_fifo [of "w_port w_sd_busy" 5 "[104, 105]"] w_sd_busy_ring
  by (simp only: w_port_sels Let_def) simp

section \<open>The disk\<close>

text \<open>Two tracks of four sectors.\<close>

definition w_dd :: disk_data where
  "w_dd = (zero_disk 3)\<lparr>dd_sectors := [4, 4], dd_tracks := 2, dd_totsectors := 8,
     dd_nsecs_per_rev := 16000000, dd_buf := (\<lambda>_. 9), dd_sect := 5\<rparr>"

lemma disk_sector_roundtrip_witness:
  "dd_buf (fst (disk_readsector ((fst (disk_writesector w_dd))\<lparr>dd_buf := (\<lambda>_. 0)\<rparr>))) 7 = 9"
  using disk_sector_roundtrip [of w_dd 7 2 "\<lambda>_. 0"]
  by (simp add: disk_writesector_def w_dd_def zero_disk_def Let_def)

lemma w_dd_sound: "disk_sound w_dd"
proof -
  have t: "total_sectors (dd_sectors w_dd) (dd_tracks w_dd) = 8"
    by (simp add: total_sectors_def w_dd_def upt_rec)
  have "\<exists>tr off. locate_sector w_dd s = Some (tr, off) \<and> dd_sectors w_dd ! tr \<noteq> 0" if "s < 8" for s
    using locate_sector_correct [of w_dd s] that unfolding t by (auto simp: word_less_nat_alt)
  then show ?thesis by (simp add: disk_sound_def) (simp add: w_dd_def zero_disk_def)
qed





text \<open>An idle disk, its head on the wrong track; the seek, and the event at the end of it.\<close>

definition w_still :: machine where
  "w_still = put_device 3 (Disk (w_dd\<lparr>dd_current_track := 1\<rparr>)) (w0\<lparr>ta_free := 5\<rparr>)"

abbreviation w_started :: machine where
  "w_started \<equiv> fst (disk_store 3 DISKREG_STAT DISKSTAT_READING w_still)"

abbreviation w_arrived :: machine where
  "w_arrived \<equiv> w_started\<lparr>event_queue := [], ta_free := 5\<rparr>"

lemma w_still_at: "disk_at w_still 3 = w_dd\<lparr>dd_current_track := 1\<rparr>"
  by (simp add: w_still_def disk_at_def put_device_def)

lemma w_still_sels:
  "fault_state w_still = None" "0 < ta_free w_still" "disk_sound (disk_at w_still 3)" "disk_events 3 w_still = 0"
  "\<not> dd_timedop (disk_at w_still 3)" "dd_worktries (disk_at w_still 3) = 0" "\<not> dd_usedoom (disk_at w_still 3)"
  "dd_slot (disk_at w_still 3) = 3"
  using w_dd_sound by (simp_all add: w_still_at) (simp_all add: disk_events_def w_still_def put_device_def w0_simps w_dd_def zero_disk_def)

lemma w_started_seeks: "dd_timedop (disk_at w_started 3)"
proof -
  have "dd_tracks w_dd = Suc (Suc 0)" "dd_sectors w_dd = [4, 4]" by (simp_all add: w_dd_def)
  then have l: "dd_tracks dd = dd_tracks w_dd \<Longrightarrow> dd_sectors dd = dd_sectors w_dd \<Longrightarrow> locate_sector dd 5 = Some (0, 1)" for dd
    by (simp add: locate_sector_def Let_def)
  have d: "dd_sect w_dd = 5" "dd_totsectors w_dd = 8" "\<not> dd_timedop w_dd" "dd_worktries w_dd = 0"
    by (simp_all add: w_dd_def zero_disk_def)
  show ?thesis
    by (simp add: disk_store_def disk_buf_store_def disk_setstatus_def DISK_defs Let_def disk_at_update disk_work_def
        w_still_at d l MAX_WORKTRIES_def disk_wait_def)
qed

lemma disk_operation_ends_witness:
  "fault_state (disk_seekdone 3 0 w_arrived) = None"
proof -
  note s = disk_start [OF w_still_sels(1-6) _ disjI1 [OF refl] refl] w_still_sels(7,8)
  have run: "disk_run 3 (Suc 0) w_started (disk_seekdone 3 0 w_arrived)"
  proof (rule disk_run.step [where st = 0, OF disk_run.none])
    show "disk_at w_arrived 3 = (disk_at w_started 3)\<lparr>dd_sect := dd_sect (disk_at w_started 3), dd_buf := dd_buf (disk_at w_started 3)\<rparr>"
      "dd_timedop (disk_at w_arrived 3)"
      using w_started_seeks by (simp_all add: disk_at_def)
  qed (use s in \<open>simp_all add: disk_events_def\<close>)
  show ?thesis using disk_operation_ends [OF w_still_sels(1-3) _ w_still_sels(4-6) _ disjI1 [OF refl] run] w_still_sels(7,8)
    by simp
qed

section \<open>The bus and the debugger\<close>

lemma sent_packet_accepted_witness:
  "\<exists>cs. gdb_out (debug_send ''OK'' w0) = CHR ''$'' # ''OK'' @ CHR ''#'' # cs"
  using sent_packet_accepted [of "''OK''" w0 w0] by (auto simp: Let_def w0_simps)

section \<open>The debugger\<close>

text \<open>A packet that comes in two reads, with the beginning of the next one.\<close>

lemma w_packets:
  "split_packets ''$?'' = ([], ''$?'')" "split_packets ''$?#3f$q'' = ([''$?#3f''], ''$q'')"
  "next_packet [] = None" "split_packets [] = ([], [])"
  by (simp_all add: split_packets.simps next_packet_def Let_def)

lemma gdb_packets_chunks_witness:
  "gdb_buf (fold gdb_receive [''$?'', ''#3f$q''] w0) = ''$q'' \<and>
   (\<exists>reads. fold gdb_receive [''$?'', ''#3f$q''] w0 = fold exec_read reads w0 \<and> concat (map fst reads) = [''$?#3f''])"
proof -
  have b: "gdb_buf w0 = []" by (simp add: w0_simps)
  have "reads_fit (gdb_buf w0) [''$?'', ''#3f$q'']"
    by (simp add: reads_fit_def b w_packets BUFLEN_def less_Suc_eq)
  moreover have "next_packet (gdb_buf w0) = None" by (simp add: b w_packets)
  ultimately show ?thesis
    using gdb_packets_chunks [of w0 "[''$?'', ''#3f$q'']"] by (force simp: b w_packets simp del: fold.simps)
qed

end
