(* ===== verification/Boot.thy ===== *)
theory Boot
  imports Dispatch
begin

text \<open>
  The kernel loader (\<open>bus/boot.c\<close>): reading the ELF file from the host, checking its headers, copying
  its segments into RAM, the entry point, and the argument string at the top of RAM. A function
  that may call \<open>die\<close> returns whether the simulator is still running. Writing outside the
  allocated RAM is the fault \<open>Undefined\<close>; a file can not bring it about.
\<close>

section \<open>ELF\<close>

text \<open>\<open>include/elf.h\<close> and \<open>mipseb/cpu-elf.h\<close>, the fields that are used.\<close>

record Elf_Ehdr =
  e_ident :: "u8 list"
  e_type :: u16
  e_machine :: u16
  e_version :: u32
  e_entry :: u32
  e_phoff :: u32
  e_phentsize :: u16
  e_phnum :: u16

record Elf_Phdr =
  p_type :: u32
  p_offset :: u32
  p_vaddr :: u32
  p_filesz :: u32
  p_memsz :: u32
  p_flags :: u32

definition ELFCLASS32 :: u8 where "ELFCLASS32 = 1"
definition ELFDATA2MSB :: u8 where "ELFDATA2MSB = 2"
definition ELFCLASS_CPU :: u8 where "ELFCLASS_CPU = ELFCLASS32"
definition ELFDATA_CPU :: u8 where "ELFDATA_CPU = ELFDATA2MSB"
definition EV_CURRENT :: u32 where "EV_CURRENT = 1"
definition ET_EXEC :: u16 where "ET_EXEC = 2"
definition EM_MIPS :: u16 where "EM_MIPS = 8"
definition EM_CPU :: u16 where "EM_CPU = EM_MIPS"
definition PT_NULL :: u32 where "PT_NULL = 0"
definition PT_LOAD :: u32 where "PT_LOAD = 1"
definition PT_NOTE :: u32 where "PT_NOTE = 4"
definition PT_PHDR :: u32 where "PT_PHDR = 6"
definition PT_MIPS_REGINFO :: u32 where "PT_MIPS_REGINFO = 0x70000000"
definition PF_X :: u32 where "PF_X = 0x1"

lemmas ELF_defs = ELFCLASS32_def ELFDATA2MSB_def ELFCLASS_CPU_def ELFDATA_CPU_def EV_CURRENT_def
  ET_EXEC_def EM_MIPS_def EM_CPU_def PT_NULL_def PT_LOAD_def PT_NOTE_def PT_PHDR_def
  PT_MIPS_REGINFO_def PF_X_def

text \<open>The sizes of the two headers, and their fields in the byte order of the simulated machine.\<close>

definition EHDR_SIZE :: nat where "EHDR_SIZE = 52"
definition PHDR_SIZE :: nat where "PHDR_SIZE = 32"

definition elf_word :: "u8 list \<Rightarrow> u32 \<Rightarrow> u32" where
  "elf_word bs k = ctoh32 (host_load32 (put_bytes bs (\<lambda>_. 0)) k)"

definition elf_half :: "u8 list \<Rightarrow> nat \<Rightarrow> u16" where
  "elf_half bs k = bswap16 (ucast (bs ! k) OR push_bit 8 (ucast (bs ! (k + 1))))"

definition elf_ehdr :: "u8 list \<Rightarrow> Elf_Ehdr" where
  "elf_ehdr bs = \<lparr>e_ident = take 16 bs, e_type = elf_half bs 16, e_machine = elf_half bs 18,
     e_version = elf_word bs 20, e_entry = elf_word bs 24, e_phoff = elf_word bs 28,
     e_phentsize = elf_half bs 42, e_phnum = elf_half bs 44\<rparr>"

definition elf_phdr :: "u8 list \<Rightarrow> Elf_Phdr" where
  "elf_phdr bs = \<lparr>p_type = elf_word bs 0, p_offset = elf_word bs 4, p_vaddr = elf_word bs 8,
     p_filesz = elf_word bs 16, p_memsz = elf_word bs 20, p_flags = elf_word bs 24\<rparr>"

text \<open>The tests on the file header, all of which end in \<open>die\<close>.\<close>

definition elf_accepts :: "Elf_Ehdr \<Rightarrow> bool" where
  "elf_accepts eh \<longleftrightarrow>
     e_ident eh ! 0 = 0x7f \<and> e_ident eh ! 1 = 0x45 \<and> e_ident eh ! 2 = 0x4c \<and> e_ident eh ! 3 = 0x46 \<and>
     e_ident eh ! 4 = ELFCLASS_CPU \<and> e_ident eh ! 5 = ELFDATA_CPU \<and>
     ucast (e_ident eh ! 6) = EV_CURRENT \<and> e_version eh = EV_CURRENT \<and>
     e_type eh = ET_EXEC \<and> e_machine eh = EM_CPU"

section \<open>Reading the file\<close>

definition elf_read :: "int \<Rightarrow> u32 \<Rightarrow> nat \<Rightarrow> machine \<Rightarrow> machine \<times> u8 list option" where
  "elf_read fd pos len m =
     (let (m1, a) = do_sys (Sys_lseek fd pos) m in
      if sys_ret a < 0 then (die m1, None)
      else
        let (m2, b) = do_sys (Sys_read fd len) m1 in
        case bytes_read len b of
          None \<Rightarrow> (die m2, None)
        | Some bs \<Rightarrow> if length bs < len then (die m2, None) else (m2, Some bs))"

section \<open>Loading\<close>

text \<open>Writing bytes to RAM at an offset; more than was allocated is undefined.\<close>

definition ram_put :: "u32 \<Rightarrow> u8 list \<Rightarrow> machine \<Rightarrow> machine" where
  "ram_put off bs m =
     (let m1 = (if unat off + length bs > unat (bus_ramsize m) then raise_fault Undefined m else m)
      in m1\<lparr>ram := (\<lambda>a. if unat (a - off) < length bs then bs ! unat (a - off) else ram m1 a)\<rparr>)"

definition load_segment :: "int \<Rightarrow> Elf_Phdr \<Rightarrow> machine \<Rightarrow> machine \<times> bool" where
  "load_segment fd ph m =
     (if p_type ph \<in> set [PT_NULL, PT_PHDR, PT_MIPS_REGINFO, PT_NOTE] then (m, True)
      else if p_type ph \<noteq> PT_LOAD then (die m, False)
      else case cpu_get_load_paddr (p_vaddr ph) (p_memsz ph) of
        None \<Rightarrow> (die m, False)
      | Some paddr \<Rightarrow>
          if paddr + p_memsz ph \<ge> cpu_get_ram_paddr + bus_ramsize m then (die m, False)
          else
            let filesz = (if p_filesz ph > p_memsz ph then p_memsz ph else p_filesz ph);
                m1 = (if p_flags ph AND PF_X \<noteq> 0 then prof_addtext (p_vaddr ph) (p_memsz ph) m else m)
            in case elf_read fd (p_offset ph) (unat filesz) m1 of
                 (m2, None) \<Rightarrow> (m2, False)
               | (m2, Some bs) \<Rightarrow>
                   (ram_put (paddr + filesz - cpu_get_ram_paddr) (replicate (unat (p_memsz ph - filesz)) 0)
                      (ram_put (paddr - cpu_get_ram_paddr) bs m2), True))"

primrec load_segments :: "int \<Rightarrow> Elf_Ehdr \<Rightarrow> nat list \<Rightarrow> machine \<Rightarrow> machine \<times> bool" where
  "load_segments fd eh [] m = (m, True)"
| "load_segments fd eh (i # js) m =
     (case elf_read fd (e_phoff eh + of_nat i * ucast (e_phentsize eh)) PHDR_SIZE m of
        (m1, None) \<Rightarrow> (m1, False)
      | (m1, Some bs) \<Rightarrow>
          (case load_segment fd (elf_phdr bs) m1 of
             (m2, True) \<Rightarrow> load_segments fd eh js m2
           | (m2, False) \<Rightarrow> (m2, False)))"

definition load_elf :: "int \<Rightarrow> machine \<Rightarrow> machine \<times> bool" where
  "load_elf fd m =
     (case elf_read fd 0 EHDR_SIZE m of
        (m1, None) \<Rightarrow> (m1, False)
      | (m1, Some bs) \<Rightarrow>
          let eh = elf_ehdr bs in
          if \<not> elf_accepts eh then (die m1, False)
          else case load_segments fd eh [0..<unat (e_phnum eh)] m1 of
            (m2, False) \<Rightarrow> (m2, False)
          | (m2, True) \<Rightarrow> (cpu_set_entrypoint 0 (e_entry eh) m2, True))"

definition setstack :: "u8 list \<Rightarrow> machine \<Rightarrow> machine \<times> bool" where
  "setstack argument m =
     (let sz = (of_nat (length argument + 1) + 3) AND NOT 3;
          paddr = cpu_get_ram_paddr + bus_ramsize m - sz;
          m1 = ram_put (paddr - cpu_get_ram_paddr) (argument @ [0]) m
      in case cpu_get_load_vaddr paddr sz of
           None \<Rightarrow> (die m1, False)
         | Some vaddr \<Rightarrow> (cpu_set_stack 0 (vaddr - 4) vaddr m1, True))"

definition load_kernel :: "u8 list \<Rightarrow> u8 list \<Rightarrow> machine \<Rightarrow> machine \<times> bool" where
  "load_kernel path argument m =
     (let (m1, a) = do_sys (Sys_open path 0) m; fd = sys_ret a in
      if fd < 0 then (die m1, False)
      else case load_elf fd m1 of
        (m2, False) \<Rightarrow> (m2, False)
      | (m2, True) \<Rightarrow> setstack argument (run_sys (Sys_close fd) m2))"

section \<open>Segments stay in RAM\<close>

text \<open>What a step of the loader leaves alone: the size of RAM, everything beyond it, and a machine
  in which nothing undefined has happened.\<close>

definition loads :: "machine \<Rightarrow> machine \<Rightarrow> bool" where
  "loads m m' \<longleftrightarrow> bus_ramsize m' = bus_ramsize m \<and>
     (\<forall>a. bus_ramsize m \<le> a \<longrightarrow> ram m' a = ram m a) \<and>
     (fault_state m \<noteq> Some Undefined \<longrightarrow> fault_state m' \<noteq> Some Undefined)"

lemma loads_refl: "loads m m"
  by (simp add: loads_def)

lemma loads_trans: "loads m m1 \<Longrightarrow> loads m1 m2 \<Longrightarrow> loads m m2"
  by (simp add: loads_def)

lemma loads_die: "loads m (die m)"
  by (simp add: loads_def die_def raise_fault_def split: option.split)

lemma loads_sys: "loads m (run_sys c m)"
  by (simp add: loads_def)

lemma loads_addtext: "loads m (prof_addtext b sz m)"
  by (auto simp: loads_def prof_addtext_def Let_def upd_prof_def smoke_def raise_fault_def
      split: option.split)

lemma elf_read_loads:
  assumes "elf_read fd pos len m = (m1, r)"
  shows "loads m m1"
proof -
  let ?s = "run_sys (Sys_lseek fd pos) m" and ?t = "\<lambda>s. run_sys (Sys_read fd len) s"
  have "loads m ?s" "loads m (die ?s)" "loads m (?t ?s)" "loads m (die (?t ?s))"
    by (blast intro: loads_trans loads_sys loads_die)+
  with assms show ?thesis
    by (auto simp: elf_read_def do_sys_eq Let_def split: if_splits option.splits)
qed

lemma elf_read_length:
  "elf_read fd pos len m = (m1, Some bs) \<Longrightarrow> length bs = len"
  by (auto simp: elf_read_def do_sys_eq Let_def bytes_read_def split: if_splits option.splits)

lemma ram_put_loads:
  assumes "unat off + length bs \<le> unat (bus_ramsize m)"
  shows "loads m (ram_put off bs m)"
proof -
  have "ram (ram_put off bs m) a = ram m a" if "bus_ramsize m \<le> a" for a
  proof -
    have "unat (a - off) = unat a - unat off"
      using that assms by (intro unat_sub) (simp add: word_le_nat_alt)
    then have "\<not> unat (a - off) < length bs"
      using that assms by (simp add: word_le_nat_alt)
    with assms show ?thesis by (simp add: ram_put_def Let_def)
  qed
  with assms show ?thesis by (simp add: loads_def ram_put_def Let_def)
qed

text \<open>The range check on the virtual address can wrap, but what it lets through is too small for
  the sum of address and size to do so.\<close>

lemma load_paddr_no_wrap:
  assumes "cpu_get_load_paddr va sz = Some pa"
  shows "unat (pa + sz) = unat pa + unat sz"
proof -
  have b: "KSEG0 \<le> va" "sz \<le> KSEG2 - KSEG0"
    using assms by (auto simp: cpu_get_load_paddr_def between_def split: if_splits)
  have "pa = va - KSEG1 \<and> KSEG1 \<le> va \<or> pa = va - KSEG0 \<and> va < KSEG1"
    using assms by (auto simp: cpu_get_load_paddr_def split: if_splits)
  then have "unat pa < 0x60000000"
    using b(1) unsigned_less [of va, where 'a = nat]
    by (auto simp: unat_sub KSEG0_def KSEG1_def word_le_nat_alt word_less_nat_alt)
  then show ?thesis
    using b(2) by (intro unat_add_lem [THEN iffD1])
      (simp add: word_le_nat_alt KSEG0_def KSEG2_def)
qed

lemma load_contents_loads:
  assumes "cpu_get_load_paddr va msz = Some pa" "\<not> pa + msz \<ge> bus_ramsize m"
    and "fsz \<le> msz" "length bs = unat fsz"
  shows "loads m (ram_put (pa + fsz) (replicate (unat (msz - fsz)) 0) (ram_put pa bs m))"
proof -
  have f: "unat fsz \<le> unat msz" using assms(3) by (simp add: word_le_nat_alt)
  have s: "unat pa + unat msz < unat (bus_ramsize m)"
    using assms(1,2) by (simp add: load_paddr_no_wrap word_le_nat_alt not_le)
  have d: "unat (msz - fsz) = unat msz - unat fsz" using assms(3) by (simp add: unat_sub)
  have p: "unat (pa + fsz) = unat pa + unat fsz"
    using f s unsigned_less [of "bus_ramsize m", where 'a = nat]
    by (intro unat_add_lem [THEN iffD1]) simp
  have b: "loads m (ram_put pa bs m)"
    using f s assms(4) by (intro ram_put_loads) linarith
  then have "bus_ramsize (ram_put pa bs m) = bus_ramsize m" by (simp add: loads_def)
  then have "loads (ram_put pa bs m)
      (ram_put (pa + fsz) (replicate (unat (msz - fsz)) 0) (ram_put pa bs m))"
    using f s d p by (intro ram_put_loads) simp
  with b show ?thesis by (rule loads_trans)
qed

lemma load_segment_loads:
  assumes "load_segment fd ph m = (m1, ok)"
  shows "loads m m1"
proof -
  define fsz where "fsz = (if p_filesz ph > p_memsz ph then p_memsz ph else p_filesz ph)"
  define ma where "ma = (if p_flags ph AND PF_X \<noteq> 0 then prof_addtext (p_vaddr ph) (p_memsz ph) m else m)"
  obtain m2 r where e: "elf_read fd (p_offset ph) (unat fsz) ma = (m2, r)" by (cases "elf_read fd (p_offset ph) (unat fsz) ma")
  have m2: "loads m m2"
    using loads_addtext elf_read_loads [OF e] by (auto simp: ma_def intro: loads_trans split: if_splits)
  have fsz: "fsz \<le> p_memsz ph" by (auto simp: fsz_def)
  show ?thesis
  proof (cases "cpu_get_load_paddr (p_vaddr ph) (p_memsz ph)")
    case None
    then show ?thesis
      using assms by (auto simp: load_segment_def loads_refl loads_die split: if_splits)
  next
    case (Some pa)
    note eq = assms [unfolded load_segment_def Let_def Some cpu_get_ram_paddr_def,
      folded fsz_def ma_def, unfolded e, simplified]
    consider "m1 = m" | "m1 = die m" | "m1 = m2"
      | bs where "r = Some bs" "\<not> pa + p_memsz ph \<ge> bus_ramsize m"
          "m1 = ram_put (pa + fsz) (replicate (unat (p_memsz ph - fsz)) 0) (ram_put pa bs m2)"
      using eq by (auto split: if_splits option.splits)
    then show ?thesis
    proof cases
      case 4
      have "length bs = unat fsz" using e 4(1) by (auto dest: elf_read_length)
      moreover have "\<not> pa + p_memsz ph \<ge> bus_ramsize m2" using m2 4(2) by (simp add: loads_def)
      ultimately have "loads m2 m1" unfolding 4(3) by (intro load_contents_loads [OF Some] fsz)
      with m2 show ?thesis by (rule loads_trans)
    qed (simp_all add: loads_refl loads_die m2)
  qed
qed

lemma load_segments_loads:
  "load_segments fd eh js m = (m1, ok) \<Longrightarrow> loads m m1"
  by (induction js arbitrary: m)
    (auto simp: loads_refl split: prod.splits option.splits bool.splits
       dest!: elf_read_loads load_segment_loads intro: loads_trans; blast intro: loads_trans)+

text \<open>C11: The kernel loader writes only RAM that exists. Whatever the host answers and whatever the
  ELF file holds, reading program headers and copying their segments leaves the size of RAM and every
  byte beyond it alone, and does nothing undefined, although the range test on load addresses wraps.\<close>

theorem load_segments_stay_in_ram:
  assumes "load_segments fd eh js m = (m1, ok)"
  shows "bus_ramsize m1 = bus_ramsize m \<and> (\<forall>a. bus_ramsize m \<le> a \<longrightarrow> ram m1 a = ram m a) \<and>
    (fault_state m \<noteq> Some Undefined \<longrightarrow> fault_state m1 \<noteq> Some Undefined)"
  using load_segments_loads [OF assms] by (simp add: loads_def)

section \<open>What is loaded\<close>

text \<open>A host whose file \<open>fd\<close> holds \<open>img\<close>: reading after a seek returns its bytes from there on.\<close>

definition file_host :: "int \<Rightarrow> u8 list \<Rightarrow> (syscall list \<Rightarrow> syscall \<Rightarrow> sys_answer) \<Rightarrow> bool" where
  "file_host fd img h \<longleftrightarrow> (\<forall>log pos n.
     let bs = take n (drop (unat pos) img); a = h (Sys_lseek fd pos # log) (Sys_read fd n) in
     sys_ret (h log (Sys_lseek fd pos)) = int (unat pos) \<and>
     sys_ret a = int (length bs) \<and> sys_data a = bs)"

lemma elf_read_file:
  assumes "file_host fd img (host_sys m)"
  shows "elf_read fd pos len m =
    (let m1 = run_sys (Sys_read fd len) (run_sys (Sys_lseek fd pos) m) in
     if unat pos + len \<le> length img \<or> len = 0 then (m1, Some (take len (drop (unat pos) img)))
     else (die m1, None))"
  using assms
  by (auto simp: file_host_def elf_read_def do_sys_eq bytes_read_def Let_def min_def)

lemma prof_addtext_sels [simp]:
  "host_sys (prof_addtext b sz m) = host_sys m" "host_log (prof_addtext b sz m) = host_log m"
  "bus_ramsize (prof_addtext b sz m) = bus_ramsize m"
  by (auto simp: prof_addtext_def Let_def upd_prof_def smoke_def raise_fault_def split: option.split)

lemma ram_put_at:
  assumes "j < 2 ^ 32"
  shows "ram (ram_put off bs m) (off + of_nat j) = (if j < length bs then bs ! j else ram m (off + of_nat j))"
  using assms by (simp add: ram_put_def Let_def unat_of_nat take_bit_nat_eq_self raise_fault_def split: option.split)

lemma ram_put_before:
  assumes "unat off + length bs < 2 ^ 32" "a < off"
  shows "ram (ram_put off bs m) a = ram m a"
proof -
  have "unat (a - off) = unat a + 2 ^ 32 - unat off"
    using assms(2) by (simp add: unat_sub_if' word_less_nat_alt)
  then have "\<not> unat (a - off) < length bs" using assms(1) by simp
  then show ?thesis by (simp add: ram_put_def Let_def raise_fault_def split: option.split)
qed

text \<open>What a loaded segment holds. When the boot image is a file and a loadable segment is
  accepted, the physical memory at its load address holds the bytes of the file from the segment's
  offset on, as many as its file size says, and zeros from there up to its memory size.\<close>

theorem load_segment_contents:
  assumes "file_host fd img (host_sys m)" "load_segment fd ph m = (m1, True)"
    and "p_type ph = PT_LOAD" "j < unat (p_memsz ph)"
  shows "\<exists>pa. cpu_get_load_paddr (p_vaddr ph) (p_memsz ph) = Some pa \<and>
    ram m1 (pa + of_nat j) = (if j < unat (p_filesz ph) then img ! (unat (p_offset ph) + j) else 0)"
proof -
  define fsz where "fsz = (if p_filesz ph > p_memsz ph then p_memsz ph else p_filesz ph)"
  define ma where "ma = (if p_flags ph AND PF_X \<noteq> 0 then prof_addtext (p_vaddr ph) (p_memsz ph) m else m)"
  have ma: "host_sys ma = host_sys m" "bus_ramsize ma = bus_ramsize m" by (simp_all add: ma_def)
  obtain pa where pa: "cpu_get_load_paddr (p_vaddr ph) (p_memsz ph) = Some pa"
    using assms(2,3) by (auto simp: load_segment_def ELF_defs split: option.splits)
  note eq = assms(2) [unfolded load_segment_def Let_def pa cpu_get_ram_paddr_def,
    folded fsz_def ma_def, unfolded elf_read_file [OF assms(1) [folded ma(1)]], simplified assms(3),
    simplified ELF_defs Let_def, simplified]
  from eq obtain m2 where c: "unat (p_offset ph) + unat fsz \<le> length img \<or> fsz = 0"
      "\<not> pa + p_memsz ph \<ge> bus_ramsize m"
    and m1: "m1 = ram_put (pa + fsz) (replicate (unat (p_memsz ph - fsz)) 0)
      (ram_put pa (take (unat fsz) (drop (unat (p_offset ph)) img)) m2)"
    by (auto simp: unat_eq_0 split: if_splits)
  have f: "fsz \<le> p_memsz ph" by (auto simp: fsz_def)
  have s: "unat pa + unat (p_memsz ph) < 2 ^ 32"
    using load_paddr_no_wrap [OF pa] unsigned_less [of "pa + p_memsz ph", where 'a = nat] by simp
  have d: "unat (p_memsz ph - fsz) = unat (p_memsz ph) - unat fsz" using f by (simp add: unat_sub)
  have p: "unat (pa + fsz) = unat pa + unat fsz"
    using f s by (intro unat_add_lem [THEN iffD1]) (simp add: word_le_nat_alt)
  let ?bs = "take (unat fsz) (drop (unat (p_offset ph)) img)"
  have l: "length ?bs = unat fsz" using c(1) by auto
  show ?thesis
  proof (intro exI conjI, rule pa, cases "j < unat fsz")
    case True
    have "unat (pa + of_nat j) = unat pa + j"
      using assms(4) s by (simp add: unat_word_ariths unat_of_nat take_bit_nat_eq_self)
    then have b: "pa + of_nat j < pa + fsz" using True p by (simp add: word_less_nat_alt)
    have "ram m1 (pa + of_nat j) = ram (ram_put pa ?bs m2) (pa + of_nat j)"
      unfolding m1 using b f s d p by (intro ram_put_before) (simp_all add: word_le_nat_alt)
    also have "\<dots> = ?bs ! j"
      using True l f s assms(4) by (subst ram_put_at) (simp_all add: word_le_nat_alt)
    finally show "ram m1 (pa + of_nat j) = (if j < unat (p_filesz ph) then img ! (unat (p_offset ph) + j) else 0)"
      using True l by (auto simp: fsz_def word_less_nat_alt split: if_splits)
  next
    case False
    have e: "pa + of_nat j = (pa + fsz) + of_nat (j - unat fsz)" using False by (simp add: of_nat_diff)
    have "ram m1 (pa + of_nat j) = 0"
    proof -
      have "j - unat fsz < unat (p_memsz ph) - unat fsz" using assms(4) False by linarith
      then show ?thesis
        unfolding m1 e using s by (subst ram_put_at) (simp_all add: d del: replicate.simps)
    qed
    then show "ram m1 (pa + of_nat j) = (if j < unat (p_filesz ph) then img ! (unat (p_offset ph) + j) else 0)"
      using False assms(4) by (auto simp: fsz_def word_less_nat_alt split: if_splits)
  qed
qed

end
