(* ===== verification/Net_Ops.thy ===== *)
theory Net_Ops
  imports Net_Dev Card_Events
begin

text \<open>
  Properties of the network card: its interrupt line (\<open>net_line_ok\<close>), the start bit that stands for
  the one event that sends the packet (\<open>net_sending\<close>), what is sent, and what of the packets that
  arrive is kept, counted or dropped.
\<close>

section \<open>Frames\<close>

lemma net_at_upd [simp]: "net_at (upd_net s f m) s' = (if s' = s then f (net_at m s) else net_at m s')"
  by (simp add: net_at_def upd_net_def put_device_def)

lemma net_at_put: "net_at (put_device s (Net nd) m) s = nd"
  by (simp add: net_at_def put_device_def)

lemma net_at_devices: "devices m' = devices m \<Longrightarrow> net_at m' = net_at m"
  by (simp add: net_at_def fun_eq_iff)

lemma net_at_frames [simp]:
  "net_at (run_sys c m) = net_at m" "net_at (raise_fault f m) = net_at m"
  "net_at (smoke m) = net_at m" "net_at (hang m) = net_at m"
  "net_at (upd_stats g m) = net_at m" "net_at (raise_irq s m) = net_at m"
  "net_at (lower_irq s m) = net_at m" "net_at (schedule_event d s k h m) = net_at m"
  by (rule net_at_devices; simp)+

lemma net_upd_frames [simp]:
  "event_queue (upd_net s f m) = event_queue m" "ta_free (upd_net s f m) = ta_free m"
  "g_stats (upd_net s f m) = g_stats m" "host_log (upd_net s f m) = host_log m"
  "host_sys (upd_net s f m) = host_sys m" "fault_state (upd_net s f m) = fault_state m"
  "check_irq i (upd_net s f m) = check_irq i m"
  by (simp_all add: upd_net_def put_device_def check_irq_def)

lemma g_stats_upd [simp]: "g_stats (upd_stats f m) = f (g_stats m)" "host_log (upd_stats f m) = host_log m"
  by (simp_all add: upd_stats_def)

lemma g_stats_irq [simp]:
  "g_stats (raise_irq s m) = g_stats m" "host_log (raise_irq s m) = host_log m"
  using irq_frame_sels [OF irq_frame_irqupdate] by (simp_all add: raise_irq_def)

lemma check_irq_steps [simp]:
  "check_irq i (run_sys c m) = check_irq i m" "check_irq i (hang m) = check_irq i m"
  by (simp_all add: check_irq_def hang_def main_enter_debugger_def cpu_stopcycling_def)

section \<open>The interrupt line\<close>

definition net_line_ok :: "nat \<Rightarrow> machine \<Rightarrow> bool" where
  "net_line_ok slot m \<longleftrightarrow> (let nd = net_at m slot in
     nd_slot nd < 32 \<and> (check_irq (nd_slot nd) m \<longleftrightarrow> nd_rirq nd \<noteq> 0 \<or> nd_wirq nd \<noteq> 0))"

lemma chkint_drive:
  "chkint slot m = bus_lines.drive (nd_rirq (net_at m slot) \<noteq> 0 \<or> nd_wirq (net_at m slot) \<noteq> 0)
     (nd_slot (net_at m slot)) m"
  by (simp add: chkint_def bus_lines.drive_def Let_def)

lemma net_at_chkint [simp]: "net_at (chkint slot m) = net_at m"
  by (simp add: chkint_def Let_def)

lemma chkint_line: "nd_slot (net_at m slot) < 32 \<Longrightarrow> net_line_ok slot (chkint slot m)"
  by (simp add: net_line_ok_def Let_def chkint_drive [of slot m] bus_lines.test_drive bus_lines.drive_def
      bus_lines.test_up bus_lines.test_down)

text \<open>Registers that have no part in the line.\<close>

lemma net_line_cong:
  assumes "nd_slot (net_at m' slot) = nd_slot (net_at m slot)"
    and "nd_rirq (net_at m' slot) = nd_rirq (net_at m slot)" "nd_wirq (net_at m' slot) = nd_wirq (net_at m slot)"
    and "\<And>i. check_irq i m' = check_irq i m"
  shows "net_line_ok slot m' = net_line_ok slot m"
  by (simp add: net_line_ok_def Let_def assms)

lemma net_line_store:
  assumes "net_line_ok slot m"
  shows "net_line_ok slot (fst (net_store slot off v m))"
proof -
  have s: "nd_slot (net_at m slot) < 32" using assms by (simp add: net_line_ok_def Let_def)
  have "net_line_ok slot (net_setirq slot v r m)" for r
    using s assms by (cases "v AND NDI_ZERO = 0")
      (simp_all add: net_setirq_def chkint_line net_line_cong [of "hang m" slot m])
  moreover have "net_line_ok slot (setctl slot v m)"
    by (subst net_line_cong [where m = m]) (simp_all add: setctl_def Let_def assms)
  moreover have "net_line_ok slot (upd_net slot f m)"
    if "\<And>nd. nd_slot (f nd) = nd_slot nd" "\<And>nd. nd_rirq (f nd) = nd_rirq nd" "\<And>nd. nd_wirq (f nd) = nd_wirq nd" for f
    by (subst net_line_cong [where m = m]) (simp_all add: that assms)
  ultimately show ?thesis using assms by (simp add: net_store_def)
qed

lemma net_line_send:
  assumes "net_line_ok slot m"
  shows "net_line_ok slot (triggersend slot m)"
proof -
  have s: "nd_slot (net_at m slot) < 32" using assms by (simp add: net_line_ok_def Let_def)
  have "net_line_ok slot (dosend slot m)"
    using s assms by (simp add: dosend_def Let_def writedone_def chkint_line net_line_cong [of "hang m" slot m])
  then show ?thesis
    by (subst net_line_cong [where m = "dosend slot m"]) (simp_all add: triggersend_def)
qed

lemma net_line_keepalive:
  assumes "net_line_ok slot m"
  shows "net_line_ok slot (keepalive slot m)"
  by (subst net_line_cong [where m = m]) (simp_all add: keepalive_def do_sys_eq Let_def assms)

lemma net_line_recv:
  assumes "net_line_ok slot m"
  shows "net_line_ok slot (dorecv slot m)"
proof -
  have s: "nd_slot (net_at m slot) < 32" using assms by (simp add: net_line_ok_def Let_def)
  have 1: "net_line_ok slot (run_sys c m)" for c by (subst net_line_cong [where m = m]) (simp_all add: assms)
  have 2: "net_line_ok slot (upd_net slot (\<lambda>nd. nd\<lparr>nd_rbuf := put_bytes bs (nd_rbuf nd)\<rparr>) m')"
    if "net_line_ok slot m'" for bs m'
    by (subst net_line_cong [where m = m']) (simp_all add: that)
  have 3: "net_line_ok slot (upd_stats g m')" if "net_line_ok slot m'" for g m'
    by (subst net_line_cong [where m = m']) (simp_all add: that)
  have 4: "net_line_ok slot (readdone slot m')" if "net_line_ok slot m'" for m'
    using that unfolding readdone_def by (intro chkint_line) (simp add: net_line_ok_def Let_def)
  have 5: "net_line_ok slot (if b then x else y)" if "net_line_ok slot x" "net_line_ok slot y" for b x y
    using that by simp
  show ?thesis
    unfolding dorecv_def do_sys_eq Let_def prod.case net_error_def
    by (split option.split) (intro conjI allI impI 1 2 3 4 5)
qed

text \<open>The network card's interrupt line is always up exactly when one of its two interrupt registers
  is not zero: every register store, the event that sends a packet, a packet that arrives and the
  keepalive event keep that.\<close>

theorem net_line_invariant:
  assumes "net_line_ok slot m"
  shows "net_line_ok slot (fst (net_store slot off v m)) \<and> net_line_ok slot (triggersend slot m) \<and>
    net_line_ok slot (dorecv slot m) \<and> net_line_ok slot (keepalive slot m)"
  using net_line_store net_line_send net_line_recv net_line_keepalive assms by blast

section \<open>Sending\<close>

text \<open>The start bit is set as long as the event that sends the packet is in the queue.\<close>

definition net_sending :: "nat \<Rightarrow> machine \<Rightarrow> bool" where
  "net_sending slot m \<longleftrightarrow> events_of F_triggersend slot m =
     (if nd_control (net_at m slot) AND NDC_START \<noteq> 0 then 1 else 0)"

lemma start_bit [simp]:
  "(v OR NDC_START) AND NDC_START = NDC_START" "(v AND NOT NDC_START) AND NDC_START = 0"
  "NDC_START \<noteq> 0"
  by (simp_all add: NDC_START_def and.assoc bit.conj_disj_distrib2)

lemma net_irq_queue [simp]:
  "event_queue (chkint slot m) = event_queue m" "ta_free (chkint slot m) = ta_free m"
  by (simp_all add: chkint_def Let_def)

lemma net_setirq_queue:
  "event_queue (net_setirq slot v r m) = event_queue m"
  "nd_control (net_at (net_setirq slot v r m) slot) = nd_control (net_at m slot)"
  by (simp_all add: net_setirq_def)

text \<open>Any register store keeps that, whatever it stores, if there is room for an event: a second start
  while one is on its way stops in the debugger and adds no event, and no store clears the bit.\<close>

lemma net_sending_store:
  assumes "net_sending slot m" "0 < ta_free m"
  shows "net_sending slot (fst (net_store slot off v m)) \<and>
    (nd_control (net_at m slot) AND NDC_START \<noteq> 0 \<longrightarrow>
      nd_control (net_at (fst (net_store slot off v m)) slot) AND NDC_START \<noteq> 0)"
proof -
  note ev = events_of_schedule [OF assms(2), of F_triggersend slot NETWORK_LATENCY slot 0 F_triggersend, simplified]
  have "net_sending slot (setctl slot v m) \<and> (nd_control (net_at m slot) AND NDC_START \<noteq> 0 \<longrightarrow>
      nd_control (net_at (setctl slot v m) slot) AND NDC_START \<noteq> 0)"
    using assms(1) ev
    by (simp add: net_sending_def setctl_def Let_def events_of_queue [of "upd_net s f m'" m' for s f m']
        events_of_queue [of "hang m" m])
  moreover have "net_sending slot (net_setirq slot v r m)" for r
    using assms(1) by (simp add: net_sending_def net_setirq_queue events_of_def)
  moreover have "net_sending slot (upd_net slot f m)" if "\<And>nd. nd_control (f nd) = nd_control nd" for f
    using assms(1) by (simp add: net_sending_def that events_of_def)
  ultimately show ?thesis using assms(1) by (simp add: net_store_def net_setirq_queue)
qed

lemma unat_half: "unat (ucast (w::u16) :: u32) = unat w"
  using unsigned_less [of w, where 'a = nat] by (simp add: unsigned_ucast_eq take_bit_nat_eq_self)

lemma sent_header:
  assumes "j < 4096"
  shows "put_be16 2 hw (put_be16 0 fm buf) (of_nat j) =
    (if j < 4 then (net_bytes16 fm @ net_bytes16 hw) ! j else buf (of_nat j))"
proof (cases "j < 4")
  case True
  then consider "j = 0" | "j = 1" | "j = 2" | "j = 3" by linarith
  then show ?thesis by cases (simp_all add: put_be16_def net_bytes16_def)
next
  case False
  have "(of_nat j :: u32) \<noteq> of_nat k" if "k < 4" for k
    using that False assms by (simp add: word_of_nat_eq_iff take_bit_nat_eq_self)
  from this [of 0] this [of 1] this [of 2] this [of 3] False show ?thesis by (simp add: put_be16_def)
qed

lemma triggersend_packet:
  assumes "nd_slot (net_at m slot) < 32" "unat (ntohs_at (nd_wbuf (net_at m slot)) 4) \<le> 4096"
    and "len = unat (ntohs_at (nd_wbuf (net_at m slot)) 4)" "m' = triggersend slot m"
  shows "\<exists>bs. host_log m' = Sys_sendto (nd_socket (net_at m slot)) bs # host_log m \<and> length bs = len \<and>
    (\<forall>j<len. bs ! j = (if j < 4 then (net_bytes16 FRAME_MAGIC @ net_bytes16 (net_hwaddr (net_at m slot))) ! j
                       else nd_wbuf (net_at m slot) (of_nat j))) \<and>
    nd_control (net_at m' slot) = nd_control (net_at m slot) AND NOT NDC_START \<and>
    nd_wirq (net_at m' slot) = NDI_DONE \<and> check_irq (nd_slot (net_at m slot)) m' \<and>
    s_wpkts (g_stats m') = s_wpkts (g_stats m) + 1"
proof -
  let ?nd = "net_at m slot"
  let ?buf = "put_be16 2 (net_hwaddr ?nd) (put_be16 0 FRAME_MAGIC (nd_wbuf ?nd))"
  let ?bs = "get_bytes ?buf len"
  have c: "\<not> (ucast (ntohs_at (nd_wbuf ?nd) 4) :: u32) > NET_BUFSIZE"
    using assms(2) by (simp add: word_less_nat_alt NET_BUFSIZE_def unat_half)
  have n: "unat (ucast (ntohs_at (nd_wbuf ?nd) 4) :: u32) = len"
    by (simp add: assms(3) unat_half)
  define m3 where "m3 = upd_stats (\<lambda>s. s\<lparr>s_wpkts := s_wpkts s + 1\<rparr>)
     (run_sys (Sys_sendto (nd_socket ?nd) ?bs) (upd_net slot (\<lambda>nd. nd\<lparr>nd_wbuf :=
        put_be16 2 (net_hwaddr nd) (put_be16 0 FRAME_MAGIC (nd_wbuf nd))\<rparr>) m))"
  have m': "m' = upd_net slot (\<lambda>nd. nd\<lparr>nd_control := nd_control nd AND NOT NDC_START\<rparr>) (writedone slot m3)"
    using c n by (simp add: assms(4) triggersend_def dosend_def Let_def m3_def)
  have m3: "net_at m3 slot = ?nd\<lparr>nd_wbuf := ?buf\<rparr>" by (simp add: m3_def)
  have w: "writedone slot m3 = raise_irq (nd_slot ?nd) (upd_net slot (\<lambda>nd. nd\<lparr>nd_wirq := NDI_DONE\<rparr>) m3)"
    by (simp add: writedone_def chkint_def Let_def m3 NDI_DONE_def)
  have bs: "\<forall>j<len. ?bs ! j = (if j < 4 then (net_bytes16 FRAME_MAGIC @ net_bytes16 (net_hwaddr ?nd)) ! j
      else nd_wbuf ?nd (of_nat j))"
    using assms(2,3) sent_header [of _ "net_hwaddr ?nd" FRAME_MAGIC "nd_wbuf ?nd"] by (simp add: get_bytes_def)
  have g: "host_log m3 = Sys_sendto (nd_socket ?nd) ?bs # host_log m" by (simp add: m3_def)
  have l: "host_log m' = Sys_sendto (nd_socket ?nd) ?bs # host_log m" "g_stats m' = g_stats m3"
    "check_irq (nd_slot ?nd) m'"
    using assms(1) by (simp_all add: m' w g bus_lines.test_up)
  have s: "s_wpkts (g_stats m3) = s_wpkts (g_stats m) + 1" by (simp add: m3_def)
  show ?thesis
    using bs l s by (intro exI [of _ ?bs]) (simp add: m' w m3 g)
qed

text \<open>What the send event does. The packet of the length that its header names goes to the hub with
  the magic number and the card's own address put into the header and every other byte as the program
  left it; then the start bit is clear, the write interrupt is up, and the packet is counted.\<close>

theorem triggersend_sends:
  assumes "nd_slot (net_at m slot) < 32" "unat (ntohs_at (nd_wbuf (net_at m slot)) 4) \<le> 4096"
    and "len = unat (ntohs_at (nd_wbuf (net_at m slot)) 4)" "m' = triggersend slot m"
  shows "\<exists>bs. host_log m' = Sys_sendto (nd_socket (net_at m slot)) bs # host_log m \<and> length bs = len \<and>
    (\<forall>j<len. bs ! j = (if j < 4 then (net_bytes16 FRAME_MAGIC @ net_bytes16 (net_hwaddr (net_at m slot))) ! j
                       else nd_wbuf (net_at m slot) (of_nat j))) \<and>
    nd_control (net_at m' slot) = nd_control (net_at m slot) AND NOT NDC_START \<and>
    nd_wirq (net_at m' slot) = NDI_DONE \<and> check_irq (nd_slot (net_at m slot)) m' \<and>
    s_wpkts (g_stats m') = s_wpkts (g_stats m) + 1"
  by (rule triggersend_packet [OF assms])

section \<open>Receiving\<close>

text \<open>A frame the card takes: whole, with the magic number, and for its address, for all or in
  promiscuous mode.\<close>

definition frame_ok :: "net_data \<Rightarrow> u8 list \<Rightarrow> bool" where
  "frame_ok nd bs \<longleftrightarrow> 8 \<le> length bs \<and> lh_frame bs = FRAME_MAGIC \<and>
     (lh_to bs = net_hwaddr nd \<or> lh_to bs = BROADCAST_ADDR \<or> nd_control nd AND NDC_PROMISC \<noteq> 0) \<and>
     unat (lh_packetlen bs) = length bs"

text \<open>Which packets are received. With the read interrupt clear, a packet from the hub raises the
  interrupt and counts as received exactly when it is a whole frame with the right magic number that is
  addressed to the card, to all, or the card is promiscuous; its bytes are then in the read buffer.\<close>

theorem net_receive_filter:
  assumes "nd_slot (net_at m slot) < 32" "nd_rirq (net_at m slot) = 0"
    and "a = host_sys m (host_log m) (Sys_read (nd_socket (net_at m slot)) 4096)"
    and "0 \<le> sys_ret a" "length (sys_data a) \<le> 4096" "m' = dorecv slot m"
  shows "(nd_rirq (net_at m' slot) = NDI_DONE \<longleftrightarrow> frame_ok (net_at m slot) (sys_data a)) \<and>
    s_rpkts (g_stats m') = s_rpkts (g_stats m) + (if frame_ok (net_at m slot) (sys_data a) then 1 else 0) \<and>
    get_bytes (nd_rbuf (net_at m' slot)) (length (sys_data a)) = sys_data a \<and>
    (frame_ok (net_at m slot) (sys_data a) \<longrightarrow> check_irq (nd_slot (net_at m slot)) m')"
proof -
  let ?nd = "net_at m slot" and ?bs = "sys_data a"
  define m2 where "m2 = upd_net slot (\<lambda>nd. nd\<lparr>nd_rbuf := put_bytes ?bs (nd_rbuf nd)\<rparr>)
    (run_sys (Sys_read (nd_socket ?nd) 4096) m)"
  have at: "net_at m2 slot = ?nd\<lparr>nd_rbuf := put_bytes ?bs (nd_rbuf ?nd)\<rparr>" "g_stats m2 = g_stats m"
    by (simp_all add: m2_def)
  have b: "get_bytes (put_bytes ?bs (nd_rbuf ?nd)) (length ?bs) = ?bs"
    using assms(5) by (intro get_put_bytes) simp
  have m': "m' = (if frame_ok ?nd ?bs then readdone slot (upd_stats (\<lambda>s. s\<lparr>s_rpkts := s_rpkts s + 1\<rparr>) m2)
      else if 8 \<le> length ?bs \<and> lh_frame ?bs = FRAME_MAGIC \<and>
        lh_to ?bs \<noteq> net_hwaddr ?nd \<and> lh_to ?bs \<noteq> BROADCAST_ADDR \<and> nd_control ?nd AND NDC_PROMISC = 0
      then m2 else net_error m2)"
    using assms(2-5)
    by (auto simp: assms(6) dorecv_def do_sys_eq Let_def bytes_read_def NET_BUFSIZE_def m2_def frame_ok_def not_le)
  show ?thesis
  proof (cases "frame_ok ?nd ?bs")
    case True
    then show ?thesis
      using assms(1) b at
      by (simp add: m' readdone_def chkint_def Let_def NDI_DONE_def bus_lines.test_up)
  next
    case False
    then show ?thesis
      using b at assms(2) by (simp add: m' net_error_def NDI_DONE_def)
  qed
qed

text \<open>Packets that find the last one unread are never counted as dropped, if they are well formed.
  The card reads only eight bytes of such a packet and compares its length with those, so that a frame
  longer than its header counts as an error.\<close>

theorem net_overrun_counts_error:
  assumes "nd_rirq (net_at m slot) \<noteq> 0"
    and "a = host_sys m (host_log m) (Sys_read (nd_socket (net_at m slot)) 8)"
    and "0 \<le> sys_ret a" "frame_ok (net_at m slot) frame" "8 < length frame" "sys_data a = take 8 frame"
  shows "g_stats (dorecv slot m) = (g_stats m)\<lparr>s_epkts := s_epkts (g_stats m) + 1\<rparr> \<and>
    net_at (dorecv slot m) = net_at m"
proof -
  let ?nd = "net_at m slot" and ?bs = "take 8 frame"
  have h: "lh_frame ?bs = lh_frame frame" "lh_to ?bs = lh_to frame" "lh_packetlen ?bs = lh_packetlen frame"
    by (simp_all add: lh_frame_def lh_to_def lh_packetlen_def be16_of_def)
  have "dorecv slot m = net_error (run_sys (Sys_read (nd_socket ?nd) 8) m)"
    using assms h by (auto simp: dorecv_def do_sys_eq Let_def bytes_read_def frame_ok_def)
  then show ?thesis by (simp add: net_error_def)
qed

section \<open>Start-up\<close>

text \<open>The card starts with whatever was in the memory it was given: neither interrupt register nor the
  control register is set, and the line does not follow them.\<close>

theorem net_init_leaves_registers:
  assumes "net_options HUB_ADDR args = Some hw" "hw \<noteq> BROADCAST_ADDR" "hw \<noteq> HUB_ADDR" "0 \<le> sock"
  shows "let nd = net_at (net_init slot args fresh sock m) slot in
    nd_rirq nd = nd_rirq fresh \<and> nd_wirq nd = nd_wirq fresh \<and> nd_control nd = nd_control fresh"
  using assms by (simp add: net_init_def keepalive_def do_sys_eq Let_def net_at_put)

end
