(* ===== verification/Dev_Witnesses.thy ===== *)
theory Dev_Witnesses
  imports Witnesses Boot Net_Ops
begin

text \<open>
  Concrete machines for the properties of the cards that use the host and of the kernel loader.
\<close>

section \<open>The kernel loader\<close>

text \<open>A host with one file, in which a seek is remembered by the calls.\<close>

definition w_img :: "u8 list" where "w_img = [1, 2, 3, 4, 5, 6, 7, 8]"

fun w_file :: "syscall list \<Rightarrow> syscall \<Rightarrow> sys_answer" where
  "w_file calls (Sys_lseek fd pos) = no_answer\<lparr>sys_ret := int (unat pos)\<rparr>"
| "w_file (Sys_lseek _ pos # calls) (Sys_read fd n) =
     (let bs = take n (drop (unat pos) w_img) in no_answer\<lparr>sys_ret := int (length bs), sys_data := bs\<rparr>)"
| "w_file calls c = no_answer"

definition w_boot :: machine where
  "w_boot = w0\<lparr>host_sys := w_file, bus_ramsize := 0x10000\<rparr>"

definition w_ph :: Elf_Phdr where
  "w_ph = \<lparr>p_type = PT_LOAD, p_offset = 2, p_vaddr = 0x80001000, p_filesz = 4, p_memsz = 8, p_flags = 0\<rparr>"

lemma w_boot_file: "file_host 3 w_img (host_sys w_boot)"
  by (simp add: file_host_def w_boot_def Let_def)

lemma w_boot_loads: "snd (load_segment 3 w_ph w_boot)"
  by (simp add: load_segment_def w_ph_def ELF_defs Let_def cpu_get_load_paddr_def between_def
      KSEG0_def KSEG1_def KSEG2_def cpu_get_ram_paddr_def elf_read_file [OF w_boot_file] w_img_def)
    (simp add: w_boot_def)

lemma load_segment_contents_witness:
  "\<exists>pa. cpu_get_load_paddr 0x80001000 8 = Some pa \<and>
     ram (fst (load_segment 3 w_ph w_boot)) (pa + 1) = 4"
proof -
  have "load_segment 3 w_ph w_boot = (fst (load_segment 3 w_ph w_boot), True)"
    using w_boot_loads by (simp add: prod_eq_iff)
  from load_segment_contents [OF w_boot_file this, of 1] show ?thesis
    by (simp add: w_ph_def w_img_def)
qed

lemma load_segments_stay_in_ram_witness:
  "ram (fst (load_segments 3 (elf_ehdr (replicate 52 0)) [0, 1] w_boot)) 0x10000 = ram w_boot 0x10000"
  using load_segments_stay_in_ram [of 3 "elf_ehdr (replicate 52 0)" "[0, 1]" w_boot, OF prod.collapse [symmetric]]
  by (simp add: w_boot_def)

section \<open>The emulator file system\<close>

text \<open>A card in slot 2 with two files open, on a host that knows the first of them.\<close>

fun w_stat :: "syscall list \<Rightarrow> syscall \<Rightarrow> sys_answer" where
  "w_stat calls (Sys_stat p) = no_answer\<lparr>sys_ret := 0, sys_dev := 1, sys_ino := 7\<rparr>"
| "w_stat calls (Sys_fstat fd) = no_answer\<lparr>sys_ret := 0, sys_dev := 1, sys_ino := 7, sys_size := 100\<rparr>"
| "w_stat calls c = no_answer"

definition w_ed :: emufs_data where
  "w_ed = (zero_emufs 2)\<lparr>ed_handles := (\<lambda>_. no_handle)
     (0 := \<lparr>eh_fd = 3, eh_dev = 1, eh_ino = 2\<rparr>, 1 := \<lparr>eh_fd = 4, eh_dev = 1, eh_ino = 7\<rparr>)\<rparr>"

definition w_emufs :: machine where
  "w_emufs = put_device 2 (Emufs w_ed) (w0\<lparr>host_sys := w_stat, ta_free := 10\<rparr>)"

lemma w_emufs_sels [simp]:
  "emufs_at w_emufs 2 = w_ed" "host_sys w_emufs = w_stat" "ta_free w_emufs = 10"
  "fault_state w_emufs = None" "host_log w_emufs = []"
  by (simp_all add: w_emufs_def emufs_at_def put_device_def w0_def zero_machine_def)

lemma w_ed_distinct: "handles_distinct w_ed"
  by (simp add: handles_distinct_def w_ed_def no_handle_def)

lemma emufs_handles_distinct_witness:
  "handles_distinct (emufs_at (fst (emufs_store 2 EMUREG_OPER EMU_OP_CREATE w_emufs)) 2)"
  using emufs_handles_distinct [of w_emufs 2 EMUREG_OPER EMU_OP_CREATE] w_ed_distinct by simp

lemma exclcreate_open_file_succeeds_witness:
  "snd (emufs_find 2 (O_CREAT OR O_EXCL) w_emufs) = (sys_isdir no_answer, Inr 1)"
  using exclcreate_open_file_succeeds [of w_emufs 2 "w_stat [] (Sys_stat (emufs_path 2 w_emufs))" 1] w_ed_distinct
  by (simp add: w_ed_def MAXHANDLES_def)

lemma w_emufs_getsize: "snd (emufs_op 2 EMU_OP_GETSIZE w_emufs) = EMU_RES_SUCCESS"
  by (simp add: emufs_op_def Let_def EMU_OP_defs emufs_getsize_def do_sys_eq emufs_fd_def
      MAXHANDLES_def w_ed_def zero_emufs_def)

lemma emufs_operation_completes_witness:
  "let m2 = fst (emufs_store 2 EMUREG_OPER EMU_OP_GETSIZE w_emufs) in
   emufs_sync 2 m2 \<and> ed_result (emufs_at (emufs_done 2 m2) 2) = EMU_RES_SUCCESS \<and>
   check_irq 2 (emufs_done 2 m2)"
proof -
  let ?m2 = "fst (emufs_store 2 EMUREG_OPER EMU_OP_GETSIZE w_emufs)"
  have e: "\<not> ed_busy w_ed" "ed_slot w_ed = 2" by (simp_all add: w_ed_def zero_emufs_def)
  have y: "emufs_sync 2 w_emufs"
    using e(1) by (simp add: emufs_sync_def) (simp add: events_of_def w_emufs_def put_device_def w0_simps)
  have c: "\<not> changes_directory EMU_OP_GETSIZE" by (simp add: changes_directory_def EMU_OP_defs)
  have s: "?m2 = schedule_event EMUFS_NSECS 2 0 F_emufs_done
      (upd_emufs 2 (\<lambda>ed. ed\<lparr>ed_busy := True, ed_busyresult := EMU_RES_SUCCESS\<rparr>) (fst (emufs_op 2 EMU_OP_GETSIZE w_emufs)))"
    using w_emufs_getsize e(1) by (auto simp: emufs_store_def emufs_do_op_def EMUREG_defs case_prod_beta Let_def)
  have f: "fault_state ?m2 = None" "ed_busy (emufs_at ?m2 2)"
    using handle_op_fault [OF c, of 2 w_emufs]
      emufs_queue.op_frame [of w_emufs "event_queue w_emufs" "ta_free w_emufs" "bus_raised_interrupts w_emufs" 2 EMU_OP_GETSIZE]
    unfolding s by (simp_all add: schedule_event_faults upd_emufs_def) (simp add: emufs_at_def put_device_def)
  show ?thesis
    using emufs_operation_completes [of w_emufs 2 EMU_OP_GETSIZE, OF _ _ _ _ y prod.collapse [symmetric] _
        prod.collapse [symmetric] f refl refl, unfolded w_emufs_getsize] e c
    by (simp add: Let_def)
qed

section \<open>The network card\<close>

text \<open>A card in slot 4 with address 5, idle, and a packet of ten bytes for it on the host.\<close>

definition w_frame :: "u8 list" where
  "w_frame = [0xa4, 0xb3, 0, 9, 0, 10, 0, 5, 1, 2]"

fun w_hub :: "syscall list \<Rightarrow> syscall \<Rightarrow> sys_answer" where
  "w_hub calls (Sys_read fd n) = no_answer\<lparr>sys_ret := 10, sys_data := take n w_frame\<rparr>"
| "w_hub calls c = no_answer"

definition w_nd :: net_data where
  "w_nd = (zero_net 4)\<lparr>nd_status := 5, nd_wbuf := (\<lambda>_. 0)(5 := 9, 8 := 77)\<rparr>"

definition w_net :: machine where
  "w_net = put_device 4 (Net w_nd) (w0\<lparr>host_sys := w_hub, ta_free := 10\<rparr>)"

lemma w_net_sels [simp]:
  "net_at w_net 4 = w_nd" "host_sys w_net = w_hub" "ta_free w_net = 10" "host_log w_net = []"
  "event_queue w_net = []" "bus_raised_interrupts w_net = 0"
  by (simp_all add: w_net_def net_at_def put_device_def w0_def zero_machine_def)

lemma w_nd_sels [simp]:
  "nd_slot w_nd = 4" "nd_rirq w_nd = 0" "nd_wirq w_nd = 0" "nd_control w_nd = 0" "nd_status w_nd = 5"
  "nd_socket w_nd = 0" "nd_wbuf w_nd 4 = 0" "nd_wbuf w_nd 5 = 9" "nd_wbuf w_nd 8 = 77"
  by (simp_all add: w_nd_def zero_net_def)

lemma net_line_invariant_witness:
  "net_line_ok 4 (fst (net_store 4 NETREG_READINTR 1 w_net)) \<and> net_line_ok 4 (dorecv 4 w_net)"
  using net_line_invariant [of 4 w_net NETREG_READINTR 1] by (simp add: net_line_ok_def check_irq_def)

lemma triggersend_sends_witness:
  "\<exists>bs. host_log (triggersend 4 w_net) = [Sys_sendto 0 bs] \<and> length bs = 9 \<and> bs ! 8 = 77"
proof -
  have n: "ntohs_at (nd_wbuf w_nd) 4 = 9" by (simp add: ntohs_at_def)
  obtain bs where bs: "host_log (triggersend 4 w_net) = [Sys_sendto 0 bs]" "length bs = 9"
    "\<forall>j<9. bs ! j = (if j < 4 then (net_bytes16 FRAME_MAGIC @ net_bytes16 (net_hwaddr w_nd)) ! j
      else nd_wbuf w_nd (of_nat j))"
    using triggersend_sends [of w_net 4 9 "triggersend 4 w_net", unfolded w_net_sels n w_nd_sels,
        OF _ _ _ refl] by (elim exE conjE meta_impE) simp_all
  from bs(3) [THEN spec, of 8] have "bs ! 8 = 77" by simp
  with bs(1,2) show ?thesis by blast
qed

lemma w_frame_ok: "frame_ok w_nd w_frame"
  by (simp add: frame_ok_def w_frame_def lh_frame_def lh_to_def lh_packetlen_def be16_of_def FRAME_MAGIC_def
      net_hwaddr_def NDS_HWADDR_def)

lemma net_receive_filter_witness: "nd_rirq (net_at (dorecv 4 w_net) 4) = NDI_DONE"
  using net_receive_filter [of w_net 4 "w_hub [] (Sys_read 0 4096)" "dorecv 4 w_net"] w_frame_ok
  by (simp add: w_frame_def)

lemma prof_call_counts_arc_witness:
  "arc_count (prof (prof_call 20 40 (w0\<lparr>prof := zero_prof\<lparr>prof_active := True, prof_samplenum := 4\<rparr>\<rparr>))) 20 40 = 1"
  using prof_call_counts_arc [of "w0\<lparr>prof := zero_prof\<lparr>prof_active := True, prof_samplenum := 4\<rparr>\<rparr>" 20 40 20 40]
  by (simp add: PROF_ADDR2BIN_def PROF_BINSIZE_def zero_prof_def arc_count_def)

end
