(* ===== verification/Hub.thy ===== *)
theory Hub
  imports Net_Ops
begin

text \<open>
  The hub (\<open>src/hub161/nethub.c\<close>, \<open>src/hub161/array.c\<close>), a program of its own: it receives packets
  on a socket, learns who sends, and sends every packet to all it knows.

  The table of senders is an array that grows by doubling; the locale \<open>table\<close> is what the hub asks
  of it, a list with insertion at the end and removal anywhere, and the array provides that. Packets
  and the answers of the host to \<open>sendto\<close> are arguments; running out of memory ends the program.
\<close>

section \<open>Arrays\<close>

text \<open>\<open>struct array\<close>; a cell of \<open>v\<close> that was never written has no value.\<close>

record 'a varray =
  av :: "'a option list"
  anum :: nat
  amax :: nat

definition array_create :: "'a varray" where
  "array_create = \<lparr>av = [], anum = 0, amax = 0\<rparr>"

definition array_getnum :: "'a varray \<Rightarrow> nat" where
  "array_getnum a = anum a"

text \<open>\<open>None\<close> is a failed assertion, or a cell without a value.\<close>

definition array_getguy :: "nat \<Rightarrow> 'a varray \<Rightarrow> 'a option" where
  "array_getguy i a = (if i < anum a then av a ! i else None)"

function array_grow :: "nat \<Rightarrow> nat \<Rightarrow> nat" where
  "array_grow nguys mx = (if nguys > mx then array_grow nguys ((mx + 1) * 2) else mx)"
  by pat_completeness auto
termination by (relation "measure (\<lambda>(n, mx). n - mx)") auto

declare array_grow.simps [simp del]

text \<open>The flag is true when the function returned 0; \<open>mem\<close> says how many pointers \<open>malloc\<close> finds
  room for.\<close>

definition array_setsize :: "(nat \<Rightarrow> bool) \<Rightarrow> nat \<Rightarrow> 'a varray \<Rightarrow> 'a varray \<times> bool" where
  "array_setsize mem nguys a =
     (if nguys > amax a then
        let mx = array_grow nguys (amax a) in
        if \<not> mem mx then (a\<lparr>amax := mx\<rparr>, False)
        else (a\<lparr>amax := mx, av := take (anum a) (av a) @ replicate (mx - anum a) None, anum := nguys\<rparr>, True)
      else if nguys = 0 \<and> amax a > 16 then (\<lparr>av = [], anum = 0, amax = 0\<rparr>, True)
      else (a\<lparr>anum := nguys\<rparr>, True))"

definition array_add :: "(nat \<Rightarrow> bool) \<Rightarrow> 'a \<Rightarrow> 'a varray \<Rightarrow> 'a varray \<times> bool" where
  "array_add mem guy a =
     (let ix = anum a in
      case array_setsize mem (ix + 1) a of
        (a1, False) \<Rightarrow> (a1, False)
      | (a1, True) \<Rightarrow> (a1\<lparr>av := (av a1)[ix := Some guy]\<rparr>, True))"

definition array_remove :: "nat \<Rightarrow> 'a varray \<Rightarrow> 'a varray" where
  "array_remove i a =
     a\<lparr>av := take i (av a) @ take (anum a - (i + 1)) (drop (i + 1) (av a)) @ drop (anum a - 1) (av a),
       anum := anum a - 1\<rparr>"

text \<open>Writing through the pointer at an index.\<close>

definition array_modify :: "nat \<Rightarrow> ('a \<Rightarrow> 'a) \<Rightarrow> 'a varray \<Rightarrow> 'a varray" where
  "array_modify i f a = a\<lparr>av := (av a)[i := map_option f (av a ! i)]\<rparr>"

text \<open>Every cell in use has been written, and there are as many cells as \<open>max\<close> says.\<close>

definition array_ok :: "'a varray \<Rightarrow> bool" where
  "array_ok a \<longleftrightarrow> length (av a) = amax a \<and> anum a \<le> amax a \<and> (\<forall>i < anum a. av a ! i \<noteq> None)"

definition array_list :: "'a varray \<Rightarrow> 'a list" where
  "array_list a = map the (take (anum a) (av a))"

section \<open>What the hub asks of a table\<close>

locale table =
  fixes ok :: "'s \<Rightarrow> bool" and items :: "'s \<Rightarrow> 'a list"
    and getnum :: "'s \<Rightarrow> nat" and getguy :: "nat \<Rightarrow> 's \<Rightarrow> 'a option"
    and add :: "'a \<Rightarrow> 's \<Rightarrow> 's \<times> bool" and remove :: "nat \<Rightarrow> 's \<Rightarrow> 's"
    and modify :: "nat \<Rightarrow> ('a \<Rightarrow> 'a) \<Rightarrow> 's \<Rightarrow> 's"
  assumes getnum: "ok s \<Longrightarrow> getnum s = length (items s)"
    and getguy: "ok s \<Longrightarrow> i < length (items s) \<Longrightarrow> getguy i s = Some (items s ! i)"
    and add: "ok s \<Longrightarrow> add x s = (s', True) \<Longrightarrow> ok s' \<and> items s' = items s @ [x]"
    and remove: "ok s \<Longrightarrow> i < length (items s) \<Longrightarrow>
      ok (remove i s) \<and> items (remove i s) = take i (items s) @ drop (i + 1) (items s)"
    and modify: "ok s \<Longrightarrow> i < length (items s) \<Longrightarrow>
      ok (modify i f s) \<and> items (modify i f s) = (items s)[i := f (items s ! i)]"
begin

text \<open>Reading one index after the other reads the list; removing an element moves the next one to its
  place and leaves those before it.\<close>

lemma scan: "ok s \<Longrightarrow> set js \<subseteq> {..<length (items s)} \<Longrightarrow> map (\<lambda>i. getguy i s) js = map (\<lambda>i. Some (items s ! i)) js"
  by (induction js) (auto simp: getguy)

lemma remove_rest:
  "ok s \<Longrightarrow> i < length (items s) \<Longrightarrow>
     drop i (items (remove i s)) = drop (Suc i) (items s) \<and> take i (items (remove i s)) = take i (items s) \<and>
     getnum (remove i s) = getnum s - 1"
  by (simp add: remove getnum)

lemma filter_remove:
  "ok s \<Longrightarrow> i < length (items s) \<Longrightarrow> \<not> Q (items s ! i) \<Longrightarrow> filter Q (items (remove i s)) = filter Q (items s)"
  by (subst (3) id_take_nth_drop [of i]) (simp_all add: remove)

end

lemma array_grow_ge: "nguys \<le> array_grow nguys mx \<and> mx \<le> array_grow nguys mx"
proof (induction nguys mx rule: array_grow.induct)
  case (1 n mx)
  then show ?case by (subst (1 2) array_grow.simps) auto
qed

lemma array_setsize_ok:
  assumes "array_ok a" "array_setsize mem (anum a + 1) a = (a', True)"
  shows "anum a' = anum a + 1 \<and> length (av a') = amax a' \<and> anum a' \<le> amax a' \<and>
    take (anum a) (av a') = take (anum a) (av a)"
  using assms array_grow_ge [of "anum a + 1" "amax a"]
  by (auto simp: array_setsize_def array_ok_def Let_def split: if_splits)

lemma array_add_ok:
  assumes "array_ok a" "array_add mem x a = (a', True)"
  shows "array_ok a' \<and> array_list a' = array_list a @ [x]"
proof -
  obtain a1 where 1: "array_setsize mem (anum a + 1) a = (a1, True)"
    and a': "a' = a1\<lparr>av := (av a1)[anum a := Some x]\<rparr>"
    using assms(2) by (auto simp: array_add_def Let_def split: prod.splits bool.splits)
  note s = array_setsize_ok [OF assms(1) 1]
  have t: "take (Suc (anum a)) ((av a1)[anum a := Some x]) = take (anum a) (av a) @ [Some x]"
    using s by (subst take_Suc_conv_app_nth) simp_all
  have "(av a1)[anum a := Some x] ! i \<noteq> None" if "i < Suc (anum a)" for i
  proof (cases "i = anum a")
    case False
    with that have i: "i < anum a" by simp
    then have "av a1 ! i = av a ! i" using s by (metis nth_take)
    then show ?thesis using i assms(1) by (simp add: array_ok_def)
  qed (use s in simp)
  then show ?thesis using s t by (simp add: array_ok_def array_list_def a')
qed

lemma array_remove_ok:
  assumes "array_ok a" "i < anum a"
  shows "array_ok (array_remove i a) \<and>
    array_list (array_remove i a) = take i (array_list a) @ drop (i + 1) (array_list a)"
proof -
  let ?v = "take i (av a) @ take (anum a - (i + 1)) (drop (i + 1) (av a)) @ drop (anum a - 1) (av a)"
  have n: "anum a \<le> length (av a)" using assms(1) by (simp add: array_ok_def)
  have t: "take (anum a - 1) ?v = take i (av a) @ take (anum a - (i + 1)) (drop (i + 1) (av a))"
    using assms(2) n by simp
  have "?v ! j \<noteq> None" if "j < anum a - 1" for j
  proof -
    have "?v ! j = av a ! (if j < i then j else j + 1)"
      using that assms(2) n by (auto simp: nth_append add.commute)
    then show ?thesis using that assms by (auto simp: array_ok_def)
  qed
  moreover have "length ?v = amax a \<and> anum a - 1 \<le> amax a"
    using assms n by (auto simp: array_ok_def min_def)
  ultimately show ?thesis
    using n t assms(2) by (simp add: array_ok_def array_list_def array_remove_def take_map drop_map drop_take min_def)
qed

lemma array_modify_ok:
  assumes "array_ok a" "i < anum a"
  shows "array_ok (array_modify i f a) \<and> array_list (array_modify i f a) = (array_list a)[i := f (array_list a ! i)]"
proof -
  have n: "anum a \<le> length (av a)" using assms(1) by (simp add: array_ok_def)
  obtain x where x: "av a ! i = Some x" using assms by (auto simp: array_ok_def)
  show ?thesis
    using assms n x
    by (auto simp: array_ok_def array_list_def array_modify_def take_update_swap map_update nth_list_update)
qed

interpretation senders: table array_ok array_list array_getnum array_getguy "array_add mem" array_remove array_modify
  for mem
proof
  fix s :: "'a varray" and i
  assume s: "array_ok s"
  show "array_getnum s = length (array_list s)"
    using s by (simp add: array_getnum_def array_list_def array_ok_def)
  assume "i < length (array_list s)"
  then show "array_getguy i s = Some (array_list s ! i)"
    using s by (auto simp: array_getguy_def array_list_def array_ok_def)
next
  fix s :: "'a varray" and i f
  assume s: "array_ok s" "i < length (array_list s)"
  then have "i < anum s" by (simp add: array_list_def)
  then show "array_ok (array_remove i s) \<and> array_list (array_remove i s) = take i (array_list s) @ drop (i + 1) (array_list s)"
    "array_ok (array_modify i f s) \<and> array_list (array_modify i f s) = (array_list s)[i := f (array_list s ! i)]"
    by (rule array_remove_ok [OF s(1)], rule array_modify_ok [OF s(1)])
qed (rule array_add_ok)

section \<open>The hub\<close>

definition MAXPACKET :: nat where "MAXPACKET = 4096"

text \<open>\<open>sizeof(struct sockaddr_un)\<close> on the host.\<close>

definition SUN_SIZE :: nat where "SUN_SIZE = 110"

record sender =
  sdr_addr :: u16
  sdr_sun :: "u8 list"
  sdr_len :: nat
  sdr_errors :: nat

text \<open>A failed assertion, \<open>exit\<close>, and a write past the end of a variable.\<close>

datatype hub_stop = Hub_assert | Hub_exit | Hub_undefined

text \<open>The static variables, the packets sent so far with the address each went to, and how the program
  stopped.\<close>

record hub =
  senders :: "sender varray"
  hub_sent :: "(u8 list \<times> u8 list) list"
  hub_fault :: "hub_stop option"

definition hub_start :: hub where
  "hub_start = \<lparr>senders = array_create, hub_sent = [], hub_fault = None\<rparr>"

definition hub_stops :: "hub_stop \<Rightarrow> hub \<Rightarrow> hub" where
  "hub_stops f h = (case hub_fault h of None \<Rightarrow> h\<lparr>hub_fault := Some f\<rparr> | Some _ \<Rightarrow> h)"

text \<open>Making the socket: what \<open>lstat\<close> finds under the name (\<open>Some\<close> says whether it is a socket), what
  \<open>socket\<close> and \<open>bind\<close> return, and the name. The flag says that an old socket was removed. The name is
  copied into the 108 bytes of \<open>sun_path\<close> whatever its length.\<close>

definition opensock :: "bool option \<Rightarrow> int \<Rightarrow> int \<Rightarrow> string \<Rightarrow> hub \<Rightarrow> hub \<times> bool" where
  "opensock st fd bound sockname h =
     (if st = Some False then (hub_stops Hub_exit h, False)
      else
        (if fd < 0 then hub_stops Hub_exit h
         else if length sockname \<ge> 108 then hub_stops Hub_undefined h
         else if bound < 0 then hub_stops Hub_exit h
         else h,
         st = Some True))"

text \<open>\<open>sizeof(struct sender)\<close> in pointers.\<close>

definition SENDER_PTRS :: nat where "SENDER_PTRS = 15"

text \<open>The search of \<open>checksender\<close>; \<open>Inl ()\<close> is its assertion.\<close>

primrec check_loop :: "u16 \<Rightarrow> sender varray \<Rightarrow> nat list \<Rightarrow> unit + nat option" where
  "check_loop addr a [] = Inr None"
| "check_loop addr a (i # js) =
     (case array_getguy i a of
        None \<Rightarrow> Inl ()
      | Some sdr \<Rightarrow> if sdr_addr sdr = addr then Inr (Some i) else check_loop addr a js)"

definition checksender :: "(nat \<Rightarrow> bool) \<Rightarrow> u16 \<Rightarrow> u8 list \<Rightarrow> nat \<Rightarrow> hub \<Rightarrow> hub" where
  "checksender mem addr rsun rlen h =
     (if addr = BROADCAST_ADDR then hub_stops Hub_assert h
      else case check_loop addr (senders h) [0..<array_getnum (senders h)] of
        Inl _ \<Rightarrow> hub_stops Hub_assert h
      | Inr (Some i) \<Rightarrow>
          h\<lparr>senders := array_modify i (\<lambda>sdr. sdr\<lparr>sdr_sun := rsun, sdr_len := rlen\<rparr>) (senders h)\<rparr>
      | Inr None \<Rightarrow>
          if \<not> mem SENDER_PTRS then hub_stops Hub_exit h
          else let sdr = \<lparr>sdr_addr = addr, sdr_sun = rsun, sdr_len = rlen, sdr_errors = 0\<rparr>;
              (a, ok) = array_add mem sdr (senders h)
          in if ok then h\<lparr>senders := a\<rparr> else hub_stops Hub_exit h)"

text \<open>\<open>ans\<close> says whether a \<open>sendto\<close> succeeds.\<close>

definition hub_send_one ::
  "((u8 list \<times> u8 list) list \<Rightarrow> u8 list \<Rightarrow> bool) \<Rightarrow> u8 list \<Rightarrow> nat \<Rightarrow> hub \<Rightarrow> hub" where
  "hub_send_one ans pkt i h =
     (case array_getguy i (senders h) of
        None \<Rightarrow> hub_stops Hub_assert h
      | Some sdr \<Rightarrow>
          let h1 = h\<lparr>hub_sent := (sdr_sun sdr, pkt) # hub_sent h\<rparr> in
          if ans (hub_sent h) (sdr_sun sdr) then h1
          else h1\<lparr>senders := array_modify i (\<lambda>sdr. sdr\<lparr>sdr_errors := sdr_errors sdr + 1\<rparr>) (senders h1)\<rparr>)"

definition hub_dosend ::
  "((u8 list \<times> u8 list) list \<Rightarrow> u8 list \<Rightarrow> bool) \<Rightarrow> u8 list \<Rightarrow> hub \<Rightarrow> hub" where
  "hub_dosend ans pkt h = fold (hub_send_one ans pkt) [0..<array_getnum (senders h)] h"

function kill_loop :: "nat \<Rightarrow> nat \<Rightarrow> hub \<Rightarrow> hub" where
  "kill_loop i n h =
     (if i < n then
        case array_getguy i (senders h) of
          None \<Rightarrow> hub_stops Hub_assert h
        | Some sdr \<Rightarrow>
            if sdr_errors sdr > 5 then kill_loop i (n - 1) (h\<lparr>senders := array_remove i (senders h)\<rparr>)
            else kill_loop (i + 1) n h
      else h)"
  by pat_completeness auto
termination by (relation "measure (\<lambda>(i, n, h). n - i)") auto

declare kill_loop.simps [simp del]

definition killsenders :: "hub \<Rightarrow> hub" where
  "killsenders h = kill_loop 0 (array_getnum (senders h)) h"

text \<open>What \<open>recvfrom\<close> returns: the packet, the address it came from, whether that is of the family
  \<open>AF_UNIX\<close>, and its length.\<close>

record hub_packet =
  pk_data :: "u8 list"
  pk_sun :: "u8 list"
  pk_unix :: bool
  pk_rlen :: nat

definition lh_from :: "u8 list \<Rightarrow> u16" where "lh_from bs = be16_of bs 2"

text \<open>One round of the loop; \<open>None\<close> is an error of \<open>recvfrom\<close>.\<close>

definition hub_round ::
  "(nat \<Rightarrow> bool) \<Rightarrow> ((u8 list \<times> u8 list) list \<Rightarrow> u8 list \<Rightarrow> bool) \<Rightarrow> hub_packet option \<Rightarrow> hub \<Rightarrow> hub" where
  "hub_round mem ans r h =
     (case r of
        None \<Rightarrow> h
      | Some pk \<Rightarrow>
          let pkt = take MAXPACKET (pk_data pk) in
          if pk_rlen pk > SUN_SIZE \<or> \<not> pk_unix pk then hub_stops Hub_assert h
          else if length pkt < 8 then h
          else if lh_frame pkt \<noteq> FRAME_MAGIC then h
          else if unat (lh_packetlen pkt) \<noteq> length pkt then h
          else if lh_from pkt = BROADCAST_ADDR then h
          else
            let h1 = checksender mem (lh_from pkt) (pk_sun pk) (pk_rlen pk) h in
            if lh_to pkt = HUB_ADDR then h1 else killsenders (hub_dosend ans pkt h1))"

section \<open>The hub keeps its table\<close>

abbreviation hub_list :: "hub \<Rightarrow> sender list" where
  "hub_list h \<equiv> array_list (senders h)"

text \<open>Every address is known once, the broadcast address is none of them, and who could not be reached
  six times is forgotten.\<close>

definition hub_ok :: "hub \<Rightarrow> bool" where
  "hub_ok h \<longleftrightarrow> array_ok (senders h) \<and> distinct (map sdr_addr (hub_list h)) \<and>
     BROADCAST_ADDR \<notin> set (map sdr_addr (hub_list h)) \<and> (\<forall>s \<in> set (hub_list h). sdr_errors s \<le> 5)"

lemma array_num: "array_ok a \<Longrightarrow> array_getnum a = length (array_list a)"
  by (rule senders.getnum)

lemma check_loop_find:
  assumes "array_ok a" "set js \<subseteq> {..<length (array_list a)}"
  shows "check_loop addr a js = Inr (find (\<lambda>i. sdr_addr (array_list a ! i) = addr) js)"
  using assms by (induction js) (simp_all add: senders.getguy)

lemma checksender_cases:
  assumes "array_ok (senders h)" "addr \<noteq> BROADCAST_ADDR"
  obtains
    (Known) i where "i < length (hub_list h)" "sdr_addr (hub_list h ! i) = addr"
      "checksender mem addr rsun rlen h = h\<lparr>senders := array_modify i (\<lambda>sdr. sdr\<lparr>sdr_sun := rsun, sdr_len := rlen\<rparr>) (senders h)\<rparr>"
  | (New) a where "addr \<notin> set (map sdr_addr (hub_list h))" "array_ok a"
      "array_list a = hub_list h @ [\<lparr>sdr_addr = addr, sdr_sun = rsun, sdr_len = rlen, sdr_errors = 0\<rparr>]"
      "checksender mem addr rsun rlen h = h\<lparr>senders := a\<rparr>"
  | (No_memory) "checksender mem addr rsun rlen h = hub_stops Hub_exit h"
proof -
  let ?sdr = "\<lparr>sdr_addr = addr, sdr_sun = rsun, sdr_len = rlen, sdr_errors = 0\<rparr>"
  have c: "check_loop addr (senders h) [0..<array_getnum (senders h)] =
      Inr (find (\<lambda>i. sdr_addr (hub_list h ! i) = addr) [0..<length (hub_list h)])"
    using assms(1) by (subst check_loop_find) (auto simp: array_num)
  show ?thesis
  proof (cases "find (\<lambda>i. sdr_addr (hub_list h ! i) = addr) [0..<length (hub_list h)]")
    case (Some i)
    then have "i < length (hub_list h)" "sdr_addr (hub_list h ! i) = addr"
      by (auto simp: find_Some_iff)
    then show ?thesis using Known assms(2) c Some by (simp add: checksender_def)
  next
    case None
    then have new: "addr \<notin> set (map sdr_addr (hub_list h))"
      by (auto simp: find_None_iff in_set_conv_nth)
    obtain a ok where a: "array_add mem ?sdr (senders h) = (a, ok)" by fastforce
    show ?thesis
    proof (cases "mem SENDER_PTRS \<and> ok")
      case True
      then show ?thesis
        using senders.add [OF assms(1), of mem ?sdr a] a assms(2) c None
        by (intro New [OF new, of a]) (simp_all add: checksender_def)
    next
      case False
      then show ?thesis using No_memory assms(2) c None a by (auto simp: checksender_def)
    qed
  qed
qed

lemma hub_stops_sels [simp]:
  "senders (hub_stops f h) = senders h" "hub_sent (hub_stops f h) = hub_sent h" "hub_fault (hub_stops f h) \<noteq> None"
  by (simp_all add: hub_stops_def split: option.split)

lemma checksender_ok:
  assumes "hub_ok h" "addr \<noteq> BROADCAST_ADDR" "h' = checksender mem addr rsun rlen h"
  shows "hub_ok h' \<and> hub_sent h' = hub_sent h \<and>
    (hub_fault h' = None \<longrightarrow> set (map sdr_addr (hub_list h')) = insert addr (set (map sdr_addr (hub_list h))))"
proof -
  have a: "array_ok (senders h)" using assms(1) by (simp add: hub_ok_def)
  show ?thesis
  proof (cases rule: checksender_cases [OF a assms(2), of mem rsun rlen, case_names Known New No_memory])
    case (Known i)
    let ?f = "\<lambda>sdr. sdr\<lparr>sdr_sun := rsun, sdr_len := rlen\<rparr>"
    define b where "b = array_modify i ?f (senders h)"
    have b: "array_ok b" "array_list b = (hub_list h)[i := ?f (hub_list h ! i)]"
      using senders.modify [OF a Known(1), of ?f] by (simp_all add: b_def)
    have addrs: "map sdr_addr (array_list b) = map sdr_addr (hub_list h)"
      using Known(1) by (simp add: b(2) map_update list_update_same_conv)
    have errs: "\<forall>s \<in> set (array_list b). sdr_errors s \<le> 5"
      using assms(1) Known(1) by (auto simp: b(2) hub_ok_def dest!: set_update_subset_insert [THEN subsetD])
    have "addr \<in> set (map sdr_addr (hub_list h))" unfolding Known(2) [symmetric] using nth_mem [OF Known(1)] by simp
    then have ins: "insert addr (set (map sdr_addr (hub_list h))) = set (map sdr_addr (hub_list h))" by (rule insert_absorb)
    have h': "h' = h\<lparr>senders := b\<rparr>" by (simp add: assms(3) Known(3) b_def)
    show ?thesis
      using assms(1) b(1) addrs errs unfolding h' hub_ok_def ins by (simp del: set_map)
  next
    case (New b)
    then show ?thesis using assms(1,2) by (auto simp: assms(3) hub_ok_def)
  next
    case No_memory
    then show ?thesis using assms(1) unfolding assms(3) No_memory hub_ok_def hub_stops_sels by simp
  qed
qed

lemma kill_loop_filter:
  assumes "array_ok (senders h)" "n = length (hub_list h)" "i \<le> n"
    and "\<forall>s \<in> set (take i (hub_list h)). sdr_errors s \<le> 5"
  shows "array_ok (senders (kill_loop i n h)) \<and> hub_fault (kill_loop i n h) = hub_fault h \<and>
    hub_sent (kill_loop i n h) = hub_sent h \<and>
    hub_list (kill_loop i n h) = filter (\<lambda>s. sdr_errors s \<le> 5) (hub_list h)"
  using assms
proof (induction i n h rule: kill_loop.induct)
  case (1 i n h)
  let ?L = "hub_list h"
  show ?case
  proof (cases "i < n")
    case False
    then have "filter (\<lambda>s. sdr_errors s \<le> 5) ?L = ?L" using "1.prems" by (simp add: filter_id_conv)
    moreover have "kill_loop i n h = h" using False by (subst kill_loop.simps) simp
    ultimately show ?thesis using "1.prems"(1) by simp
  next
    case True
    then have i: "i < length ?L" using "1.prems"(2) by simp
    have g: "array_getguy i (senders h) = Some (?L ! i)" by (rule senders.getguy [OF "1.prems"(1) i])
    show ?thesis
    proof (cases "sdr_errors (?L ! i) > 5")
      case True
      let ?h = "h\<lparr>senders := array_remove i (senders h)\<rparr>"
      note rm = senders.remove [OF "1.prems"(1) i] senders.remove_rest [OF "1.prems"(1) i]
        senders.filter_remove [OF "1.prems"(1) i, of "\<lambda>s. sdr_errors s \<le> 5"]
      have "kill_loop i n h = kill_loop i (n - 1) ?h"
        using \<open>i < n\<close> g True by (subst kill_loop.simps) simp
      moreover have "array_ok (senders ?h)" "n - 1 = length (hub_list ?h)" "i \<le> n - 1"
        "\<forall>s \<in> set (take i (hub_list ?h)). sdr_errors s \<le> 5"
        using rm "1.prems" i by auto
      ultimately show ?thesis
        using "1.IH"(1) [OF \<open>i < n\<close> g True] rm True by simp
    next
      case False
      have "\<forall>s \<in> set (take (Suc i) ?L). sdr_errors s \<le> 5"
        using "1.prems"(4) False i by (auto simp: take_Suc_conv_app_nth)
      then show ?thesis
        using "1.IH"(2) [OF \<open>i < n\<close> g False] "1.prems" \<open>i < n\<close> g False
        by (subst (1 2 3 4) kill_loop.simps) simp
    qed
  qed
qed

section \<open>Forwarding\<close>

text \<open>The senders after a packet went to them, and the packets in the order they went out.\<close>

primrec sent_to :: "((u8 list \<times> u8 list) list \<Rightarrow> u8 list \<Rightarrow> bool) \<Rightarrow> u8 list \<Rightarrow>
  (u8 list \<times> u8 list) list \<Rightarrow> sender list \<Rightarrow> sender list" where
  "sent_to ans pkt sent [] = []"
| "sent_to ans pkt sent (s # ss) =
     (if ans sent (sdr_sun s) then s else s\<lparr>sdr_errors := sdr_errors s + 1\<rparr>) #
       sent_to ans pkt ((sdr_sun s, pkt) # sent) ss"

definition copies :: "u8 list \<Rightarrow> sender list \<Rightarrow> (u8 list \<times> u8 list) list" where
  "copies pkt ss = rev (map (\<lambda>s. (sdr_sun s, pkt)) ss)"

lemma sent_to_addrs [simp]:
  "length (sent_to ans pkt sent ss) = length ss" "map sdr_addr (sent_to ans pkt sent ss) = map sdr_addr ss"
  by (induction ss arbitrary: sent) auto

lemma send_one_step:
  assumes "array_ok (senders h)" "hub_list h = done @ s # ss"
  shows "let h' = hub_send_one ans pkt (length done) h in
    array_ok (senders h') \<and> hub_fault h' = hub_fault h \<and> hub_sent h' = (sdr_sun s, pkt) # hub_sent h \<and>
    hub_list h' = done @ (if ans (hub_sent h) (sdr_sun s) then s else s\<lparr>sdr_errors := sdr_errors s + 1\<rparr>) # ss"
proof -
  have i: "length done < length (hub_list h)" "hub_list h ! length done = s" by (simp_all add: assms(2))
  have g: "array_getguy (length done) (senders h) = Some s"
    using senders.getguy [OF assms(1) i(1)] i(2) by simp
  show ?thesis
    using senders.modify [OF assms(1) i(1), of "\<lambda>sdr. sdr\<lparr>sdr_errors := sdr_errors sdr + 1\<rparr>"] assms i(2)
    by (simp add: hub_send_one_def g Let_def)
qed

lemma send_all:
  assumes "array_ok (senders h)" "hub_list h = done @ ss"
  shows "let h' = fold (hub_send_one ans pkt) [length done..<length done + length ss] h in
    array_ok (senders h') \<and> hub_fault h' = hub_fault h \<and> hub_sent h' = copies pkt ss @ hub_sent h \<and>
    hub_list h' = done @ sent_to ans pkt (hub_sent h) ss"
  using assms
proof (induction ss arbitrary: h "done")
  case (Cons s ss)
  let ?h = "hub_send_one ans pkt (length done) h"
  let ?s = "if ans (hub_sent h) (sdr_sun s) then s else s\<lparr>sdr_errors := sdr_errors s + 1\<rparr>"
  note st = send_one_step [OF Cons.prems, of ans pkt, unfolded Let_def]
  have "hub_list ?h = (done @ [?s]) @ ss" using st by simp
  note ih = Cons.IH [OF _ this, unfolded Let_def]
  have "[length done..<length done + length (s # ss)] =
      length done # [length (done @ [?s])..<length (done @ [?s]) + length ss]"
    by (simp add: upt_conv_Cons del: upt_Suc)
  then have f: "fold (hub_send_one ans pkt) [length done..<length done + length (s # ss)] h =
      fold (hub_send_one ans pkt) [length (done @ [?s])..<length (done @ [?s]) + length ss] ?h"
    by simp
  show ?case unfolding Let_def f using ih st by (simp add: copies_def)
qed (simp add: copies_def)

lemma dosend_ok:
  assumes "array_ok (senders h)"
  shows "let h' = hub_dosend ans pkt h in
    array_ok (senders h') \<and> hub_fault h' = hub_fault h \<and> hub_sent h' = copies pkt (hub_list h) @ hub_sent h \<and>
    hub_list h' = sent_to ans pkt (hub_sent h) (hub_list h)"
  using send_all [OF assms, of "[]" "hub_list h" ans pkt] assms by (simp add: hub_dosend_def array_num)

lemma kill_ok:
  assumes "array_ok (senders h)"
  shows "array_ok (senders (killsenders h)) \<and> hub_fault (killsenders h) = hub_fault h \<and>
    hub_sent (killsenders h) = hub_sent h \<and> hub_list (killsenders h) = filter (\<lambda>s. sdr_errors s \<le> 5) (hub_list h)"
  unfolding killsenders_def using kill_loop_filter [OF assms refl, of 0] assms by (simp add: array_num)

lemma distinct_filter_map: "distinct (map f xs) \<Longrightarrow> distinct (map f (filter P xs))"
  by (induction xs) auto

lemma set_map_filter: "set (map f (filter P xs)) \<subseteq> set (map f xs)"
  by auto

lemma forward_ok:
  assumes "hub_ok h" "h' = killsenders (hub_dosend ans pkt h)"
  shows "hub_ok h' \<and> hub_fault h' = hub_fault h \<and> hub_sent h' = copies pkt (hub_list h) @ hub_sent h \<and>
    hub_list h' = filter (\<lambda>s. sdr_errors s \<le> 5) (sent_to ans pkt (hub_sent h) (hub_list h))"
proof -
  let ?h = "hub_dosend ans pkt h" and ?L = "sent_to ans pkt (hub_sent h) (hub_list h)"
  have d: "array_ok (senders ?h)" "hub_fault ?h = hub_fault h"
    "hub_sent ?h = copies pkt (hub_list h) @ hub_sent h" "hub_list ?h = ?L"
    using dosend_ok [of h ans pkt] assms(1) by (simp_all add: Let_def hub_ok_def)
  have "distinct (map sdr_addr ?L)" "BROADCAST_ADDR \<notin> set (map sdr_addr ?L)"
    using assms(1) unfolding sent_to_addrs by (simp_all add: hub_ok_def)
  then show ?thesis
    using kill_ok [OF d(1)] d set_map_filter [of sdr_addr "\<lambda>s. sdr_errors s \<le> 5" ?L]
    by (simp add: assms(2) hub_ok_def distinct_filter_map del: set_map) blast
qed


lemma hub_round_cases:
  "let pkt = take MAXPACKET (pk_data pk); h1 = checksender mem (lh_from pkt) (pk_sun pk) (pk_rlen pk) h;
       h' = hub_round mem ans (Some pk) h in
     h' = h \<or> h' = hub_stops Hub_assert h \<or>
     lh_from pkt \<noteq> BROADCAST_ADDR \<and> (h' = h1 \<or> h' = killsenders (hub_dosend ans pkt h1))"
  by (simp add: hub_round_def Let_def)

text \<open>C26: Whatever packets arrive, and whichever of the hub's packets reach their receivers, the hub
  knows each address once and never the broadcast address, the array behind the table is sound, nobody
  stays in it after six failures, and there are at most 65535 entries.\<close>

theorem hub_keeps_ok:
  assumes "hub_ok h"
  shows "hub_ok (hub_round mem ans r h) \<and> length (hub_list (hub_round mem ans r h)) \<le> 65535"
proof -
  let ?h = "hub_round mem ans r h"
  have ok: "hub_ok ?h"
  proof (cases r)
    case (Some pk)
    let ?p = "take MAXPACKET (pk_data pk)"
    let ?c = "checksender mem (lh_from ?p) (pk_sun pk) (pk_rlen pk) h"
    have c: "hub_ok ?c" "hub_ok (killsenders (hub_dosend ans ?p ?c))" if "lh_from ?p \<noteq> BROADCAST_ADDR"
      using checksender_ok [OF assms(1) that refl] forward_ok [OF _ refl] by blast+
    have "hub_ok (hub_stops Hub_assert h)" using assms(1) by (simp add: hub_ok_def)
    then show ?thesis
      using hub_round_cases [of pk mem h ans] c assms(1) by (auto simp: Some Let_def)
  qed (simp add: hub_round_def assms(1))
  have "length (hub_list ?h) = card (set (map sdr_addr (hub_list ?h)))"
    using ok distinct_card [of "map sdr_addr (hub_list ?h)"] by (simp add: hub_ok_def)
  also have "\<dots> \<le> card (UNIV - {BROADCAST_ADDR :: u16})"
    using ok unfolding hub_ok_def by (intro card_mono finite) blast
  also have "\<dots> = 65535" by (simp add: card_Diff_singleton card_word)
  finally show ?thesis using ok by simp
qed







end
