(* ===== verification/Net_Path.thy ===== *)
theory Net_Path
  imports Hub Dispatch
begin

text \<open>
  The way of a packet: from the write buffer of a network card (\<open>Net_Dev\<close>) through the hub (\<open>Hub\<close>) to
  the cards that accept it; before that, the start bit of a card over its whole life.
\<close>

section \<open>The start bit\<close>

lemma smoke_faults [simp]: "fault_state (smoke m) \<noteq> None" "fault_state (die m) \<noteq> None"
  by (simp_all add: smoke_def die_def raise_fault_def split: option.split)

lemma send_room: "fault_state (schedule_event d s k g m) = None \<Longrightarrow> 0 < ta_free m"
  by (cases "ta_free m") (simp_all add: schedule_event_def host_next_random_def)

text \<open>The machine as it is while the card in a slot is at work: \<open>net_init\<close> has set it up, on memory whose
  word for the control register has no start bit and with no send event about; then the program stores
  to its registers, packets arrive, its events come up, and anything else may happen as long as it
  leaves the card and its send events alone. The simulator has not stopped.\<close>

inductive net_run :: "nat \<Rightarrow> machine \<Rightarrow> bool" for slot where
  start: "nd_control fresh AND NDC_START = 0 \<Longrightarrow> events_of F_triggersend slot m = 0 \<Longrightarrow>
    m' = net_init slot args fresh sock m \<Longrightarrow> fault_state m' = None \<Longrightarrow> net_run slot m'"
| elsewhere: "net_run slot m \<Longrightarrow> net_at m' slot = net_at m slot \<Longrightarrow>
    events_of F_triggersend slot m' = events_of F_triggersend slot m \<Longrightarrow> net_run slot m'"
| store: "net_run slot m \<Longrightarrow> m' = fst (net_store slot off v m) \<Longrightarrow> fault_state m' = None \<Longrightarrow> net_run slot m'"
| packet: "net_run slot m \<Longrightarrow> net_run slot (dorecv slot m)"
| event: "net_run slot m \<Longrightarrow> event_queue m = ta # q \<Longrightarrow> ta_data ta = slot \<Longrightarrow>
    ta_call ta = F_triggersend \<or> ta_call ta = F_keepalive \<Longrightarrow>
    m' = queue_step m \<Longrightarrow> fault_state m' = None \<Longrightarrow> net_run slot m'"

text \<open>No store takes the start bit away.\<close>

lemma net_store_keeps_start:
  "nd_control (net_at m slot) AND NDC_START \<noteq> 0 \<Longrightarrow>
    nd_control (net_at (fst (net_store slot off v m)) slot) AND NDC_START \<noteq> 0"
  by (simp add: net_store_def setctl_def Let_def net_setirq_def)

text \<open>A register store that leaves the pool empty stops the simulator.\<close>

lemma net_store_goes_on:
  assumes "net_sending slot m" "fault_state (fst (net_store slot off v m)) = None"
  shows "net_sending slot (fst (net_store slot off v m))"
proof (cases "0 < ta_free m")
  case False
  then have "event_queue (setctl slot v m) = event_queue m \<and> (nd_control (net_at (setctl slot v m) slot) AND NDC_START = 0 \<longleftrightarrow>
      nd_control (net_at m slot) AND NDC_START = 0)" if "fault_state (setctl slot v m) = None"
    using that send_room [of NETWORK_LATENCY slot 0 F_triggersend m]
    by (auto simp: setctl_def Let_def split: if_splits)
  then show ?thesis
    using assms by (auto simp: net_sending_def net_store_def net_setirq_queue events_of_def split: if_splits)
qed (use assms net_sending_store in blast)

lemma events_of_card [simp]:
  "events_of f slot (upd_net s g m) = events_of f slot m" "events_of f slot (chkint s m) = events_of f slot m"
  "events_of f slot (run_sys c m) = events_of f slot m" "events_of f slot (upd_stats h m) = events_of f slot m"
  "events_of f slot (hang m) = events_of f slot m" "events_of f slot (acfree m) = events_of f slot m"
  by (rule events_of_queue; simp add: acfree_def)+

lemma net_at_acfree [simp]: "net_at (acfree m) = net_at m"
  by (rule net_at_devices) (simp add: acfree_def)

lemma dorecv_sending: "net_sending slot (dorecv slot m) \<longleftrightarrow> net_sending slot m"
  by (simp add: net_sending_def dorecv_def do_sys_eq Let_def net_error_def readdone_def split: option.split)

lemma triggersend_events:
  "events_of f slot (triggersend slot m) = events_of f slot m"
  "nd_control (net_at (triggersend slot m) slot) AND NDC_START = 0"
  by (simp_all add: triggersend_def dosend_def Let_def writedone_def)

lemma keepalive_events:
  assumes "fault_state (keepalive slot m) = None"
  shows "events_of F_triggersend slot (keepalive slot m) = events_of F_triggersend slot m"
    "nd_control (net_at (keepalive slot m) slot) = nd_control (net_at m slot)"
proof -
  define m2 where "m2 = (let nd = net_at m slot;
      (m1, a) = do_sys (Sys_sendto (nd_socket nd) (link_header (net_hwaddr nd) 8 HUB_ADDR)) m in
    if sys_ret a < 0 \<and> sys_errno a \<in> set [ECONNREFUSED, ENOENT, ENOTSOCK] then upd_net slot (\<lambda>nd. nd\<lparr>nd_lostcarrier := True\<rparr>) m1
    else if sys_ret a < 0 then m1 else upd_net slot (\<lambda>nd. nd\<lparr>nd_lostcarrier := False\<rparr>) m1)"
  have k: "keepalive slot m = schedule_event 1000000000 slot 0 F_keepalive m2"
    by (simp add: keepalive_def m2_def do_sys_eq Let_def)
  have "events_of F_triggersend slot m2 = events_of F_triggersend slot m"
    "nd_control (net_at m2 slot) = nd_control (net_at m slot)"
    by (simp_all add: m2_def do_sys_eq Let_def)
  moreover have "0 < ta_free m2" using send_room assms unfolding k .
  ultimately show "events_of F_triggersend slot (keepalive slot m) = events_of F_triggersend slot m"
    "nd_control (net_at (keepalive slot m) slot) = nd_control (net_at m slot)"
    unfolding k by (simp_all add: events_of_schedule)
qed

text \<open>The send event takes itself off the queue, and the start bit with it.\<close>

lemma send_event_step:
  assumes "net_sending slot m" "event_queue m = ta # q" "ta_call ta = F_triggersend" "ta_data ta = slot"
  shows "nd_control (net_at m slot) AND NDC_START \<noteq> 0" "events_of F_triggersend slot (queue_step m) = 0"
    "nd_control (net_at (queue_step m) slot) AND NDC_START = 0"
proof -
  have n: "events_of F_triggersend slot m = Suc (events_of F_triggersend slot (m\<lparr>event_queue := q\<rparr>))"
    using assms(2-4) by (simp add: events_of_def)
  then show "nd_control (net_at m slot) AND NDC_START \<noteq> 0" using assms(1) by (simp add: net_sending_def split: if_splits)
  show "events_of F_triggersend slot (queue_step m) = 0" "nd_control (net_at (queue_step m) slot) AND NDC_START = 0"
    using n assms by (simp_all add: queue_step_def run_event_def triggersend_events net_sending_def split: if_splits)
qed

lemma net_run_sending: "net_run slot m \<Longrightarrow> net_sending slot m"
proof (induction rule: net_run.induct)
  case (start fresh m m' args sock)
  then obtain hw where m': "m' = keepalive slot (put_device slot (Net (fresh\<lparr>nd_slot := slot,
      nd_status := ND_STATUS hw False, nd_socket := sock, nd_lostcarrier := True\<rparr>)) m)"
    by (auto simp: net_init_def split: option.splits if_splits)
  have "events_of F_triggersend slot (put_device slot x m) = 0" for x
    using start.hyps(2) by (simp add: events_of_def put_device_def)
  then show ?case
    using keepalive_events [OF start.hyps(4) [unfolded m']] start.hyps(1) by (simp add: net_sending_def m' net_at_put)
next
  case (elsewhere m m')
  then show ?case by (simp add: net_sending_def)
next
  case (event m ta q m')
  have c: "net_at (m\<lparr>event_queue := q\<rparr>) = net_at m" by (rule net_at_devices) simp
  show ?case
  proof (cases "ta_call ta = F_triggersend")
    case True
    then show ?thesis
      using send_event_step [OF event.IH event.hyps(2) _ event.hyps(3)] by (simp add: net_sending_def event.hyps(5))
  next
    case False
    then have k: "ta_call ta = F_keepalive" using event.hyps(4) by simp
    have m': "m' = acfree (keepalive slot (m\<lparr>event_queue := q\<rparr>))"
      using event.hyps(2,3) k by (simp add: event.hyps(5) queue_step_def run_event_def)
    have f: "fault_state (keepalive slot (m\<lparr>event_queue := q\<rparr>)) = None"
      using event.hyps(6) by (simp add: m' acfree_def)
    have "events_of F_triggersend slot (m\<lparr>event_queue := q\<rparr>) = events_of F_triggersend slot m"
      using event.hyps(2) False by (simp add: events_of_def)
    then show ?thesis using event.IH keepalive_events [OF f] by (simp add: net_sending_def m' c)
  qed
qed (simp_all add: dorecv_sending net_store_goes_on)

text \<open>C23: At any time in the life of a card whose control register starts without the start bit, exactly
  one send event is in the queue if the bit is set, and none otherwise. No store to a register clears
  the bit; the send event does, and leaves no other behind.\<close>

theorem net_sending_invariant:
  assumes "net_run slot m"
  shows "events_of F_triggersend slot m = (if nd_control (net_at m slot) AND NDC_START \<noteq> 0 then 1 else 0) \<and>
    (\<forall>off v. nd_control (net_at m slot) AND NDC_START \<noteq> 0 \<longrightarrow>
      nd_control (net_at (fst (net_store slot off v m)) slot) AND NDC_START \<noteq> 0) \<and>
    (\<forall>ta q. event_queue m = ta # q \<and> ta_call ta = F_triggersend \<and> ta_data ta = slot \<longrightarrow>
      nd_control (net_at m slot) AND NDC_START \<noteq> 0 \<and>
      nd_control (net_at (queue_step m) slot) AND NDC_START = 0 \<and>
      events_of F_triggersend slot (queue_step m) = 0)"
proof (intro conjI allI impI)
  note inv = net_run_sending [OF assms]
  then show "events_of F_triggersend slot m = (if nd_control (net_at m slot) AND NDC_START \<noteq> 0 then 1 else 0)"
    by (simp only: net_sending_def)
  fix ta q assume "event_queue m = ta # q \<and> ta_call ta = F_triggersend \<and> ta_data ta = slot"
  then have e: "event_queue m = ta # q" "ta_call ta = F_triggersend" "ta_data ta = slot" by simp_all
  show "nd_control (net_at m slot) AND NDC_START \<noteq> 0" "nd_control (net_at (queue_step m) slot) AND NDC_START = 0"
    "events_of F_triggersend slot (queue_step m) = 0"
    by (rule send_event_step [OF inv e])+
qed (rule net_store_keeps_start)

section \<open>The packet\<close>





end
