(* ===== verification/Disk_Image.thy ===== *)
theory Disk_Image
  imports C_Text Lamebus
begin

text \<open>
  Setting up a disk (\<open>disk_init\<close> of \<open>bus/dev_disk.c\<close>): its options, opening or creating the image
  file, and the geometry.

  What the host does with the image file is the record \<open>disk_host\<close>. The floating point arithmetic of
  \<open>compute_sectors\<close> is in two functions of it: the number of physical sectors, and the number of
  sectors of each track before it is cut to an integer; everything the code does with these numbers is
  here.
\<close>

section \<open>The image file\<close>

definition HEADER_MESSAGE :: string where "HEADER_MESSAGE = ''System/161 Disk Image''"
definition NUMTRACKS :: nat where "NUMTRACKS = 320"

definition disk_header :: "u8 list" where
  "disk_header = map of_char HEADER_MESSAGE @ replicate (HEADERSIZE - length HEADER_MESSAGE) 0"

text \<open>What \<open>open\<close> finds (\<open>None\<close> is \<open>ENOENT\<close>); whether opening or creating, locking, reading the header,
  writing it, extending the file and \<open>fstat\<close> work; the sectors the host cannot access; and the contents
  of memory that was just allocated.\<close>

record disk_host =
  dh_file :: "u8 list option"
  dh_open :: bool
  dh_lock :: bool
  dh_read :: bool
  dh_write :: bool
  dh_trunc :: bool
  dh_stat :: bool
  dh_bad :: "u32 list"
  dh_mem :: "u32 \<Rightarrow> u8"
  dh_physsectors :: "u32 \<Rightarrow> u32"
  dh_tracksectors :: "u32 \<Rightarrow> nat \<Rightarrow> real"

text \<open>\<open>None\<close> is \<open>die\<close>.\<close>

definition writeheader :: "disk_host \<Rightarrow> u32 \<Rightarrow> u8 list option" where
  "writeheader dh configsectors =
     (if \<not> dh_write dh \<or> \<not> dh_trunc dh then None
      else Some (disk_header @ replicate (unat configsectors * SECTSIZE) 0))"

text \<open>The header as a C string; a file too short reads as zeros.\<close>

definition header_text :: "u8 list \<Rightarrow> u8 list" where
  "header_text bs = takeWhile (\<lambda>b. b \<noteq> 0) (take (HEADERSIZE - 1) (bs @ replicate HEADERSIZE 0))"

definition readheader :: "disk_host \<Rightarrow> u8 list \<Rightarrow> bool" where
  "readheader dh bs \<longleftrightarrow> dh_read dh \<and> header_text bs = map of_char HEADER_MESSAGE"

definition image_file :: "u8 list \<Rightarrow> nat \<Rightarrow> u8 option" where
  "image_file bs p = (if p < length bs then Some (bs ! p) else None)"

text \<open>The file after \<open>open\<close>, \<open>disk_lock\<close> and the header, and what is made of its size.\<close>

definition disk_open_file :: "disk_host \<Rightarrow> u32 \<Rightarrow> u8 list option" where
  "disk_open_file dh configsectors =
     (if \<not> dh_open dh \<or> \<not> dh_lock dh then None
      else case dh_file dh of
        None \<Rightarrow> writeheader dh configsectors
      | Some bs \<Rightarrow> if readheader dh bs then Some bs else None)"

definition disk_open :: "disk_host \<Rightarrow> u32 \<Rightarrow> disk_data \<Rightarrow> disk_data option" where
  "disk_open dh configsectors dd =
     (case disk_open_file dh configsectors of
        None \<Rightarrow> None
      | Some bs \<Rightarrow>
          if \<not> dh_stat dh then None
          else if length bs < HEADERSIZE then None
          else
            let st_size = length bs - HEADERSIZE in
            Some (dd\<lparr>dd_file := image_file bs, dd_badsects := dh_bad dh,
              dd_totsectors := (if st_size > 0xffffffff then 0x800000 else of_nat (st_size div SECTSIZE))\<rparr>))"

section \<open>Geometry\<close>

text \<open>How \<open>compute_sectors\<close> ends: with the sectors of the tracks, with -1, in \<open>smoke\<close>, or by cutting a
  number to \<open>int\<close> that does not fit.\<close>

datatype geometry = Geometry "u32 list" | Geometry_failed | Geometry_smoke | Geometry_undefined

primrec track_sectors :: "(nat \<Rightarrow> real) \<Rightarrow> nat list \<Rightarrow> u32 list \<Rightarrow> geometry" where
  "track_sectors area [] done = Geometry done"
| "track_sectors area (i # is) done =
     (if area i < 2 then Geometry_failed
      else if \<lfloor>area i\<rfloor> \<ge> 2 ^ 31 then Geometry_undefined
      else track_sectors area is (done @ [word_of_int (\<lfloor>area i\<rfloor> - 1)]))"

definition compute_sectors :: "disk_host \<Rightarrow> u32 \<Rightarrow> geometry" where
  "compute_sectors dh totsectors =
     (let physsectors = dh_physsectors dh totsectors in
      if physsectors < totsectors then Geometry_smoke
      else case track_sectors (dh_tracksectors dh physsectors) [0..<NUMTRACKS] [] of
        Geometry sectors \<Rightarrow>
          if fold (\<lambda>n tot. tot + n) sectors 0 < totsectors then Geometry_failed else Geometry sectors
      | g \<Rightarrow> g)"

section \<open>Options\<close>

record disk_opts =
  do_rpm :: u32
  do_totsectors :: u32
  do_filename :: "string option"
  do_paranoid :: bool
  do_usedoom :: bool

definition size_fault :: "size_fail \<Rightarrow> fault" where
  "size_fault f = (case f of Size_overflow \<Rightarrow> Undefined | _ \<Rightarrow> Exit_error)"

definition disk_option :: "string \<Rightarrow> disk_opts \<Rightarrow> fault + disk_opts" where
  "disk_option arg o' =
     (case option_value ''rpm='' arg of
        Some v \<Rightarrow> Inr (o'\<lparr>do_rpm := word_of_int (c_atoi v)\<rparr>)
      | None \<Rightarrow>
     (case option_value ''sectors='' arg of
        Some v \<Rightarrow> Inr (o'\<lparr>do_totsectors := word_of_int (c_atoi v)\<rparr>)
      | None \<Rightarrow>
     (case option_value ''size='' arg of
        Some v \<Rightarrow>
          (case getsize v of
             Inl f \<Rightarrow> Inl (size_fault f)
           | Inr sz \<Rightarrow>
               if sz mod 512 \<noteq> 0 then Inl Exit_error
               else Inr (o'\<lparr>do_totsectors := word_of_int (sz div 512)\<rparr>))
      | None \<Rightarrow>
     (case option_value ''file='' arg of
        Some v \<Rightarrow> Inr (o'\<lparr>do_filename := Some v\<rparr>)
      | None \<Rightarrow>
          if arg = ''paranoid'' then Inr (o'\<lparr>do_paranoid := True\<rparr>)
          else if arg = ''doom'' then Inr (o'\<lparr>do_usedoom := True\<rparr>)
          else if arg = ''nodoom'' then Inr (o'\<lparr>do_usedoom := False\<rparr>)
          else Inl Exit_error))))"

primrec disk_options :: "string list \<Rightarrow> disk_opts \<Rightarrow> fault + disk_opts" where
  "disk_options [] o' = Inr o'"
| "disk_options (arg # args) o' =
     (case disk_option arg o' of Inl f \<Rightarrow> Inl f | Inr o1 \<Rightarrow> disk_options args o1)"

definition disk_defaults :: disk_opts where
  "disk_defaults = \<lparr>do_rpm = 3600, do_totsectors = 0, do_filename = None, do_paranoid = False, do_usedoom = True\<rparr>"

text \<open>\<open>host\<close> says what each file name opens.\<close>

definition disk_init :: "nat \<Rightarrow> string list \<Rightarrow> (string \<Rightarrow> disk_host) \<Rightarrow> machine \<Rightarrow> machine" where
  "disk_init slot args host m =
     (case disk_options args disk_defaults of
        Inl f \<Rightarrow> raise_fault f m
      | Inr o' \<Rightarrow>
          if do_rpm o' < 60 then die m
          else if do_rpm o' mod 60 \<noteq> 0 then die m
          else case do_filename o' of
            None \<Rightarrow> die m
          | Some filename \<Rightarrow>
              let dh = host filename;
                  (secs, nsecs) = clock_time m;
                  dd = \<lparr>dd_slot = slot, dd_file = (\<lambda>_. None), dd_badsects = [],
                    dd_paranoid = do_paranoid o', dd_sectors = [], dd_tracks = 0, dd_totsectors = 0,
                    dd_rpm = do_rpm o', dd_nsecs_per_rev = 1000000000 div (do_rpm o' div 60),
                    dd_usedoom = do_usedoom o', dd_current_track = 0, dd_trackarrival_secs = secs,
                    dd_trackarrival_nsecs = nsecs, dd_iostatus = -1, dd_timedop = False, dd_worktries = 0,
                    dd_stat = DISKSTAT_IDLE, dd_sect = 0, dd_buf = dh_mem dh\<rparr>
              in case disk_open dh (do_totsectors o') dd of
                None \<Rightarrow> die m
              | Some dd1 \<Rightarrow>
                  if dd_totsectors dd1 < 128 then die m
                  else case compute_sectors dh (dd_totsectors dd1) of
                    Geometry sectors \<Rightarrow>
                      put_device slot (Disk (dd1\<lparr>dd_tracks := NUMTRACKS, dd_sectors := sectors\<rparr>)) m
                  | Geometry_failed \<Rightarrow> die m
                  | Geometry_smoke \<Rightarrow> smoke m
                  | Geometry_undefined \<Rightarrow> raise_fault Undefined m)"

section \<open>The geometry covers the disk\<close>

lemma unat_word_small: "1 \<le> j \<Longrightarrow> j < 2 ^ 31 \<Longrightarrow> 1 \<le> unat (word_of_int j :: u32) \<and> unat (word_of_int j :: u32) < 2 ^ 31"
  by (simp add: unat_eq_nat_uint uint_word_of_int nat_less_iff le_nat_iff)

lemma track_sectors_sound:
  assumes "track_sectors area is ds = Geometry sectors"
  shows "length sectors = length ds + length is \<and> (\<forall>n \<in> set sectors. n \<in> set ds \<or> 1 \<le> unat n \<and> unat n < 2 ^ 31)"
  using assms
proof (induction "is" arbitrary: ds)
  case (Cons i js)
  let ?k = "\<lfloor>area i\<rfloor>"
  let ?n = "word_of_int (?k - 1) :: u32"
  have k: "2 \<le> area i" "?k < 2 ^ 31" and r: "track_sectors area js (ds @ [?n]) = Geometry sectors"
    using Cons.prems by (simp_all split: if_splits)
  have "2 \<le> ?k" using k(1) by (simp add: le_floor_iff)
  then have n: "1 \<le> unat ?n \<and> unat ?n < 2 ^ 31" using k(2) by (intro unat_word_small) linarith+
  show ?case using Cons.IH [OF r] n by auto
qed simp

lemma total_sectors_list: "length sectors = n \<Longrightarrow> total_sectors sectors n = sum_list (map unat sectors)"
  unfolding total_sectors_def by (rule arg_cong [where f = sum_list], rule nth_equalityI) simp_all

lemma fold_plus_le: "unat (fold (\<lambda>n tot. tot + n) ns t) \<le> unat t + sum_list (map unat ns)" for t :: u32
proof (induction ns arbitrary: t)
  case (Cons n ns)
  have "unat (t + n) \<le> unat t + unat n" by (simp add: unat_word_ariths)
  then show ?case using Cons.IH [of "t + n"] by simp
qed simp

lemma locate_from_covers:
  assumes "unat s < 2 ^ 23" "\<forall>k < n. unat (sectors ! k) < 2 ^ 31" "unat start \<le> unat s"
    and "unat s < unat start + total_sectors sectors n"
  shows "\<exists>tr off. locate_from n start sectors s = Some (tr, off) \<and> tr < n \<and> unat off < unat (sectors ! tr)"
  using assms
proof (induction n arbitrary: start)
  case (Suc n)
  have t: "total_sectors sectors (Suc n) = total_sectors sectors n + unat (sectors ! n)"
    by (simp add: total_sectors_def)
  have "unat (sectors ! n) < 2 ^ 31" using Suc.prems(2) by simp
  then have e: "unat (start + sectors ! n) = unat start + unat (sectors ! n)"
    using Suc.prems(1,3) by (simp add: unat_plus_if_size word_size)
  show ?case
  proof (cases "unat s < unat start + unat (sectors ! n)")
    case True
    then have "locate_from (Suc n) start sectors s = Some (n, s - start)"
      using Suc.prems(3) e by (simp add: word_le_nat_alt word_less_nat_alt)
    moreover have "unat (s - start) = unat s - unat start"
      using Suc.prems(3) by (simp add: unat_sub word_le_nat_alt)
    ultimately show ?thesis using True Suc.prems(3) by simp
  next
    case False
    then have "locate_from (Suc n) start sectors s = locate_from n (start + sectors ! n) sectors s"
      using e by (simp add: word_le_nat_alt word_less_nat_alt)
    moreover have "\<exists>tr off. locate_from n (start + sectors ! n) sectors s = Some (tr, off) \<and> tr < n \<and>
        unat off < unat (sectors ! tr)"
      using Suc.IH [of "start + sectors ! n"] Suc.prems False e t by simp
    ultimately show ?thesis by (metis less_Suc_eq)
  qed
qed (simp add: total_sectors_def)

text \<open>The number of sectors of an image, the largest the code uses included.\<close>

lemma disk_open_size:
  assumes "disk_open dh cs dd = Some dd1"
  shows "unat (dd_totsectors dd1) \<le> 2 ^ 23" "dd_slot dd1 = dd_slot dd" "dd_stat dd1 = dd_stat dd"
    "dd_timedop dd1 = dd_timedop dd" "dd_rpm dd1 = dd_rpm dd"
  using assms
  by (auto simp: disk_open_def Let_def SECTSIZE_def unat_of_nat split: option.splits if_splits)

lemma compute_sectors_sound:
  assumes "compute_sectors dh tot = Geometry sectors"
  shows "length sectors = NUMTRACKS" "\<forall>k < NUMTRACKS. 1 \<le> unat (sectors ! k) \<and> unat (sectors ! k) < 2 ^ 31"
    "unat tot \<le> total_sectors sectors NUMTRACKS"
proof -
  have t: "track_sectors (dh_tracksectors dh (dh_physsectors dh tot)) [0..<NUMTRACKS] [] = Geometry sectors"
    and f: "\<not> fold (\<lambda>n tot. tot + n) sectors 0 < tot"
    using assms by (auto simp: compute_sectors_def Let_def split: geometry.splits if_splits)
  note s = track_sectors_sound [OF t]
  show l: "length sectors = NUMTRACKS" using s by simp
  then show "\<forall>k < NUMTRACKS. 1 \<le> unat (sectors ! k) \<and> unat (sectors ! k) < 2 ^ 31" using s by auto
  have "unat tot \<le> unat (fold (\<lambda>n tot. tot + n) sectors 0)" using f by (simp add: word_le_nat_alt not_less)
  also have "\<dots> \<le> sum_list (map unat sectors)" using fold_plus_le [of sectors 0] by simp
  finally show "unat tot \<le> total_sectors sectors NUMTRACKS" using l by (simp add: total_sectors_list)
qed

lemma disk_open_keeps:
  "disk_open dh cs dd = Some dd1 \<Longrightarrow> dd_worktries dd1 = dd_worktries dd \<and>
    dd_nsecs_per_rev dd1 = dd_nsecs_per_rev dd \<and> dd_trackarrival_nsecs dd1 = dd_trackarrival_nsecs dd \<and> dd_slot dd1 = dd_slot dd"
  by (auto simp: disk_open_def Let_def split: option.splits if_splits)

lemma disk_init_facts:
  assumes "fault_state m = None" "fault_state (disk_init slot args host m) = None"
  shows "\<exists>dd. devices (disk_init slot args host m) slot = Some (Disk dd) \<and> dd_slot dd = slot \<and>
    dd_stat dd = DISKSTAT_IDLE \<and> \<not> dd_timedop dd \<and> 128 \<le> dd_totsectors dd \<and>
    60 \<le> dd_rpm dd \<and> dd_rpm dd mod 60 = 0 \<and> dd_worktries dd = 0 \<and>
    dd_nsecs_per_rev dd = 1000000000 div (dd_rpm dd div 60) \<and> dd_trackarrival_nsecs dd = snd (clock_time m) \<and>
    (\<forall>s < dd_totsectors dd. \<exists>tr off. locate_sector dd s = Some (tr, off) \<and> tr < 320 \<and>
       unat off < unat (dd_sectors dd ! tr))"
proof -
  have die: "(fault_state (die m) = None) = False" "(fault_state (smoke m) = None) = False"
    "\<And>f. (fault_state (raise_fault f m) = None) = False"
    using assms(1) by (simp_all add: die_def smoke_def raise_fault_def)
  obtain o' where o: "disk_options args disk_defaults = Inr o'"
    using assms(2) by (auto simp: die disk_init_def split: sum.splits)
  obtain fname where f: "do_filename o' = Some fname" and rpm: "\<not> do_rpm o' < 60" "do_rpm o' mod 60 = 0"
    using assms(2) by (auto simp: die disk_init_def o split: if_splits option.splits)
  define dd where "dd = \<lparr>dd_slot = slot, dd_file = (\<lambda>_. None), dd_badsects = [],
    dd_paranoid = do_paranoid o', dd_sectors = [], dd_tracks = 0, dd_totsectors = 0,
    dd_rpm = do_rpm o', dd_nsecs_per_rev = 1000000000 div (do_rpm o' div 60),
    dd_usedoom = do_usedoom o', dd_current_track = 0, dd_trackarrival_secs = fst (clock_time m),
    dd_trackarrival_nsecs = snd (clock_time m), dd_iostatus = -1, dd_timedop = False, dd_worktries = 0,
    dd_stat = DISKSTAT_IDLE, dd_sect = 0, dd_buf = dh_mem (host fname)\<rparr>"
  have i: "disk_init slot args host m = (case disk_open (host fname) (do_totsectors o') dd of
      None \<Rightarrow> die m
    | Some dd1 \<Rightarrow> if dd_totsectors dd1 < 128 then die m
        else case compute_sectors (host fname) (dd_totsectors dd1) of
          Geometry sectors \<Rightarrow> put_device slot (Disk (dd1\<lparr>dd_tracks := NUMTRACKS, dd_sectors := sectors\<rparr>)) m
        | Geometry_failed \<Rightarrow> die m | Geometry_smoke \<Rightarrow> smoke m | Geometry_undefined \<Rightarrow> raise_fault Undefined m)"
    using rpm by (simp add: disk_init_def o f Let_def dd_def case_prod_beta)
  obtain dd1 where op: "disk_open (host fname) (do_totsectors o') dd = Some dd1" and n: "\<not> dd_totsectors dd1 < 128"
    using assms(2) by (auto simp: die i split: option.splits if_splits)
  obtain sectors where g: "compute_sectors (host fname) (dd_totsectors dd1) = Geometry sectors"
    using assms(2) n by (auto simp: die i op split: geometry.splits)
  let ?dd = "dd1\<lparr>dd_tracks := NUMTRACKS, dd_sectors := sectors\<rparr>"
  note c = compute_sectors_sound [OF g] and os = disk_open_size [OF op]
  have loc: "\<exists>tr off. locate_sector ?dd s = Some (tr, off) \<and> tr < 320 \<and> unat off < unat (sectors ! tr)"
    if s: "s < dd_totsectors dd1" for s
    using locate_from_covers [of s NUMTRACKS sectors 0] c os s
    by (simp add: locate_sector_def NUMTRACKS_def word_less_nat_alt)
  have keep: "dd_slot dd1 = slot" "dd_stat dd1 = DISKSTAT_IDLE" "\<not> dd_timedop dd1" "dd_rpm dd1 = do_rpm o'"
    "dd_worktries dd1 = 0" "dd_nsecs_per_rev dd1 = 1000000000 div (do_rpm o' div 60)"
    "dd_trackarrival_nsecs dd1 = snd (clock_time m)"
    using os disk_open_keeps [OF op] by (simp_all add: dd_def)
  show ?thesis
    using loc keep rpm n by (intro exI [of _ ?dd]) (simp add: i op g put_device_def, simp add: not_less)
qed

text \<open>A second divided by the number of revolutions in it is a number of nanoseconds.\<close>

lemma rev_bound:
  assumes "60 \<le> (rpm :: u32)"
  shows "0 < (1000000000 :: u32) div (rpm div 60)" "(1000000000 :: u32) div (rpm div 60) \<le> 1000000000"
proof -
  have r: "60 \<le> unat rpm" "unat rpm < 2 ^ 32"
    using assms unsigned_less [of rpm] by (simp_all add: word_le_nat_alt)
  have d: "unat ((1000000000 :: u32) div (rpm div 60)) = 1000000000 div (unat rpm div 60)" by (simp add: unat_div)
  have "0 < unat rpm div 60" "unat rpm div 60 \<le> 1000000000" using r by (simp_all add: div_greater_zero_iff)
  then show "0 < (1000000000 :: u32) div (rpm div 60)" "(1000000000 :: u32) div (rpm div 60) \<le> 1000000000"
    unfolding word_less_nat_alt word_le_nat_alt d by (simp_all add: div_greater_zero_iff)
qed

text \<open>A disk that was set up is one on which no operation can get stuck.\<close>

theorem disk_init_sound:
  assumes "fault_state m = None" "fault_state (disk_init slot args host m) = None"
  shows "disk_sound (disk_at (disk_init slot args host m) slot)"
    "dd_worktries (disk_at (disk_init slot args host m) slot) = 0" "\<not> dd_timedop (disk_at (disk_init slot args host m) slot)"
proof -
  obtain dd where d: "devices (disk_init slot args host m) slot = Some (Disk dd)" "\<not> dd_timedop dd" "60 \<le> dd_rpm dd"
    "dd_worktries dd = 0" "dd_nsecs_per_rev dd = 1000000000 div (dd_rpm dd div 60)" "dd_trackarrival_nsecs dd = snd (clock_time m)"
    "\<forall>s < dd_totsectors dd. \<exists>tr off. locate_sector dd s = Some (tr, off) \<and> tr < 320 \<and> unat off < unat (dd_sectors dd ! tr)"
    using disk_init_facts [OF assms] by blast
  have "\<exists>tr off. locate_sector dd s = Some (tr, off) \<and> dd_sectors dd ! tr \<noteq> 0" if "s < dd_totsectors dd" for s
    using d(7) that by (metis unsigned_0 not_less_zero)
  then show "disk_sound (disk_at (disk_init slot args host m) slot)"
    "dd_worktries (disk_at (disk_init slot args host m) slot) = 0" "\<not> dd_timedop (disk_at (disk_init slot args host m) slot)"
    using d rev_bound [OF d(3)] clock_nsecs_bound [of m] by (simp_all add: disk_at_def disk_sound_def)
qed

text \<open>C28: A disk that could be set up can be used. When \<open>disk_init\<close> returns, whatever the options, the image
  file and the rounding of the geometry, the slot holds an idle disk of at least 128 sectors, at 60
  revolutions or more, and every sector it has lies on one of its 320 tracks, so that no operation on it
  can fail to find its sector.\<close>

theorem disk_init_covers:
  assumes "fault_state m = None" "fault_state (disk_init slot args host m) = None"
  shows "\<exists>dd. devices (disk_init slot args host m) slot = Some (Disk dd) \<and> dd_slot dd = slot \<and>
    dd_stat dd = DISKSTAT_IDLE \<and> \<not> dd_timedop dd \<and> 128 \<le> dd_totsectors dd \<and>
    60 \<le> dd_rpm dd \<and> dd_rpm dd mod 60 = 0 \<and>
    (\<forall>s < dd_totsectors dd. \<exists>tr off. locate_sector dd s = Some (tr, off) \<and> tr < 320 \<and>
       unat off < unat (dd_sectors dd ! tr))"
  by (rule ex_forward [OF disk_init_facts [OF assms]]) simp

end
