(* ===== verification/Disk_Tool.thy ===== *)
theory Disk_Tool
  imports Disk_Image
begin

text \<open>
  The tool for disk images (\<open>src/disk161/disk161.c\<close>): creating an image, changing its size, saying what
  size it has. Its \<open>getsize\<close> is the simulator's, in \<open>C_Text\<close>.

  A command works on one file at a time; the state has the files of the host, the open file and its
  position. \<open>tl_works\<close> says which of the system calls work, by the number of calls made before; a call
  that does not ends the command (\<open>None\<close>) and leaves the files as they are then.
\<close>

section \<open>The tool and its system calls\<close>

record tool =
  tl_files :: "string \<Rightarrow> u8 list option"
  tl_works :: "nat \<Rightarrow> bool"
  tl_calls :: nat
  tl_pos :: nat

type_synonym 'a prog = "tool \<Rightarrow> 'a option \<times> tool"

definition and_then :: "'a prog \<Rightarrow> ('a \<Rightarrow> 'b prog) \<Rightarrow> 'b prog" where
  "and_then p f t = (case p t of (None, t1) \<Rightarrow> (None, t1) | (Some x, t1) \<Rightarrow> f x t1)"

definition give :: "'a \<Rightarrow> 'a prog" where
  "give x t = (Some x, t)"

definition tool_exit :: "'a prog" where
  "tool_exit t = (None, t)"

text \<open>Whether the next system call works.\<close>

definition next_call :: "tool \<Rightarrow> bool \<times> tool" where
  "next_call t = (tl_works t (tl_calls t), t\<lparr>tl_calls := tl_calls t + 1\<rparr>)"

text \<open>The contents of a file that is open; such a file exists.\<close>

definition tl_bytes :: "string \<Rightarrow> tool \<Rightarrow> u8 list" where
  "tl_bytes file t = (case tl_files t file of Some bs \<Rightarrow> bs | None \<Rightarrow> [])"

definition tl_put :: "string \<Rightarrow> u8 list \<Rightarrow> tool \<Rightarrow> tool" where
  "tl_put file bs t = t\<lparr>tl_files := (tl_files t)(file \<mapsto> bs)\<rparr>"

text \<open>\<open>open\<close> for the three uses of the program: reading, \<open>O_RDWR\<close>, and \<open>O_RDWR|O_CREAT|O_TRUNC\<close>. It
  gives whether it worked.\<close>

definition open_existing :: "string \<Rightarrow> tool \<Rightarrow> bool \<times> tool" where
  "open_existing file t =
     (let (ok, t1) = next_call t in (ok \<and> tl_files t1 file \<noteq> None, t1\<lparr>tl_pos := 0\<rparr>))"

definition doopen :: "string \<Rightarrow> unit prog" where
  "doopen file t = (let (ok, t1) = open_existing file t in if ok then (Some (), t1) else (None, t1))"

definition doopen_create :: "string \<Rightarrow> unit prog" where
  "doopen_create file t =
     (let (ok, t1) = next_call t in
      if ok then (Some (), tl_put file [] (t1\<lparr>tl_pos := 0\<rparr>)) else (None, t1))"

definition tool_read :: "string \<Rightarrow> nat \<Rightarrow> u8 list prog" where
  "tool_read file len t =
     (let (ok, t1) = next_call t; bs = take len (drop (tl_pos t1) (tl_bytes file t1)) in
      if \<not> ok then (None, t1)
      else if length bs \<noteq> len then (None, t1\<lparr>tl_pos := tl_pos t1 + length bs\<rparr>)
      else (Some bs, t1\<lparr>tl_pos := tl_pos t1 + len\<rparr>))"

text \<open>Bytes written at a position; a gap before it is zeros.\<close>

definition overwrite :: "nat \<Rightarrow> 'a::zero list \<Rightarrow> 'a list \<Rightarrow> 'a list" where
  "overwrite p new bs = take p (bs @ replicate (p - length bs) 0) @ new @ drop (p + length new) bs"

definition tool_write :: "string \<Rightarrow> u8 list \<Rightarrow> unit prog" where
  "tool_write file bs t =
     (let (ok, t1) = next_call t in
      if \<not> ok then (None, t1)
      else (Some (), (tl_put file (overwrite (tl_pos t1) bs (tl_bytes file t1)) t1)
              \<lparr>tl_pos := tl_pos t1 + length bs\<rparr>))"

text \<open>A seek that fails is reported and otherwise ignored.\<close>

definition dolseek :: "nat \<Rightarrow> unit prog" where
  "dolseek pos t =
     (let (ok, t1) = next_call t in (Some (), if ok then t1\<lparr>tl_pos := pos\<rparr> else t1))"

definition dotruncate :: "string \<Rightarrow> int \<Rightarrow> unit prog" where
  "dotruncate file sz t =
     (let (ok, t1) = next_call t; bs = tl_bytes file t1 in
      if \<not> ok \<or> sz < 0 then (None, t1)
      else (Some (), tl_put file (take (nat sz) (bs @ replicate (nat sz - length bs) 0)) t1))"

definition filesize :: "string \<Rightarrow> int prog" where
  "filesize file t =
     (let (ok, t1) = next_call t in
      if ok then (Some (int (length (tl_bytes file t1))), t1) else (None, t1))"

definition doflock :: "unit prog" where
  "doflock t = (let (ok, t1) = next_call t in if ok then (Some (), t1) else (None, t1))"

section \<open>Sizes and headers\<close>

definition MINSIZE :: int where "MINSIZE = 128 * 512"
definition MAXSIZE :: int where "MAXSIZE = 0x100000000"

definition tool_getsize :: "string \<Rightarrow> int prog" where
  "tool_getsize str = (case getsize str of Inl _ \<Rightarrow> tool_exit | Inr n \<Rightarrow> give n)"

definition checksize :: "int \<Rightarrow> unit prog" where
  "checksize n =
     (if n mod 512 \<noteq> 0 then tool_exit
      else if n < MINSIZE then tool_exit
      else if n \<ge> MAXSIZE then tool_exit
      else give ())"

definition checkheader :: "string \<Rightarrow> unit prog" where
  "checkheader file =
     and_then (tool_read file HEADERSIZE) (\<lambda>buf.
       if takeWhile (\<lambda>b. b \<noteq> 0) (take (HEADERSIZE - 1) buf) = map of_char HEADER_MESSAGE
       then give () else tool_exit)"

definition tool_writeheader :: "string \<Rightarrow> unit prog" where
  "tool_writeheader file = and_then (dolseek 0) (\<lambda>_. tool_write file disk_header)"

section \<open>The commands\<close>

text \<open>A file that can be opened already exists.\<close>

definition create_guard :: "string \<Rightarrow> bool \<Rightarrow> unit prog" where
  "create_guard file doforce t =
     (if doforce then (Some (), t)
      else let (ok, t1) = open_existing file t in if ok then (None, t1) else (Some (), t1))"

definition docreate :: "string \<Rightarrow> string \<Rightarrow> bool \<Rightarrow> unit prog" where
  "docreate file sizespec doforce =
     and_then (create_guard file doforce) (\<lambda>_.
     and_then (doopen_create file) (\<lambda>_.
     and_then doflock (\<lambda>_.
     and_then (tool_getsize sizespec) (\<lambda>n.
     and_then (checksize n) (\<lambda>_.
     and_then (dotruncate file (int HEADERSIZE + n)) (\<lambda>_.
     and_then (tool_writeheader file) (\<lambda>_. doflock)))))))"

text \<open>The numbers printed: the size in bytes, sectors, kilobytes and megabytes, and the same for the
  space used, which the host says in blocks of 512 bytes.\<close>

definition info_numbers :: "int \<Rightarrow> int list" where
  "info_numbers amt = [amt, amt div 512, amt div 1024, amt div (1024 * 1024)]"

definition doinfo :: "string \<Rightarrow> int \<Rightarrow> int list prog" where
  "doinfo file blocks =
     and_then (doopen file) (\<lambda>_.
     and_then (checkheader file) (\<lambda>_.
     and_then (filesize file) (\<lambda>n.
     give (info_numbers (n - int HEADERSIZE) @ info_numbers (blocks * 512)))))"

datatype resize_mode = M_SET | M_PLUS | M_MINUS

fun resize_spec :: "string \<Rightarrow> resize_mode \<times> string" where
  "resize_spec (c # s) =
     (if c = CHR ''+'' then (M_PLUS, s) else if c = CHR ''-'' then (M_MINUS, s) else (M_SET, c # s))"
| "resize_spec [] = (M_SET, [])"

text \<open>The new size; \<open>None\<close> for one that is too large or too small. A sum that leaves \<open>off_t\<close> is undefined
  in C and here one that \<open>checksize\<close> refuses.\<close>

definition resize_to :: "resize_mode \<Rightarrow> int \<Rightarrow> int \<Rightarrow> int option" where
  "resize_to mode oldsize newsize =
     (case mode of
        M_SET \<Rightarrow> Some newsize
      | M_PLUS \<Rightarrow> if oldsize + newsize < oldsize then None else Some (oldsize + newsize)
      | M_MINUS \<Rightarrow> if oldsize < newsize then None else Some (oldsize - newsize))"

definition doresize :: "string \<Rightarrow> string \<Rightarrow> unit prog" where
  "doresize file sizespec =
     (let (mode, spec) = resize_spec sizespec in
      and_then (tool_getsize spec) (\<lambda>newsize.
      and_then (doopen file) (\<lambda>_.
      and_then doflock (\<lambda>_.
      and_then (checkheader file) (\<lambda>_.
      and_then (filesize file) (\<lambda>n.
      case resize_to mode (n - int HEADERSIZE) newsize of
        None \<Rightarrow> tool_exit
      | Some newsize \<Rightarrow>
          and_then (checksize newsize) (\<lambda>_.
          and_then (dotruncate file (int HEADERSIZE + newsize)) (\<lambda>_. doflock))))))))"

text \<open>\<open>main\<close>, on what \<open>getopt\<close> finds: the command, whether \<open>-f\<close> is given (\<open>None\<close> for an option that is not
  known) and the arguments; \<open>blocks\<close> is what the host says of the space a file uses. \<open>usage\<close> exits.\<close>

primrec info_all :: "(string \<Rightarrow> int) \<Rightarrow> string list \<Rightarrow> int list list prog" where
  "info_all blocks [] = give []"
| "info_all blocks (file # fs) =
     and_then (doinfo file (blocks file)) (\<lambda>ns. and_then (info_all blocks fs) (\<lambda>nss. give (ns # nss)))"

definition disk161_main :: "(string \<Rightarrow> int) \<Rightarrow> string \<Rightarrow> bool option \<Rightarrow> string list \<Rightarrow> int list list prog" where
  "disk161_main blocks command opts args =
     (case opts of
        None \<Rightarrow> tool_exit
      | Some doforce \<Rightarrow>
          if command = ''create'' then
            (case args of [file, spec] \<Rightarrow> and_then (docreate file spec doforce) (\<lambda>_. give []) | _ \<Rightarrow> tool_exit)
          else if command \<in> set [''info'', ''stat'', ''stats'', ''status''] then
            (if doforce then tool_exit else info_all blocks args)
          else if command = ''resize'' \<or> command = ''setsize'' then
            (case args of
               [file, spec] \<Rightarrow> if doforce then tool_exit else and_then (doresize file spec) (\<lambda>_. give [])
             | _ \<Rightarrow> tool_exit)
          else tool_exit)"

section \<open>What the commands do\<close>

lemma and_then_Some:
  "and_then p f t = (Some y, t') \<longleftrightarrow> (\<exists>x t1. p t = (Some x, t1) \<and> f x t1 = (Some y, t'))"
  by (auto simp: and_then_def split: prod.splits option.splits)

lemma next_call_sels [simp]:
  "tl_files (snd (next_call t)) = tl_files t" "tl_pos (snd (next_call t)) = tl_pos t"
  by (simp_all add: next_call_def)

lemma tool_getsize_Some: "tool_getsize str t = (Some n, t') \<longleftrightarrow> getsize str = Inr n \<and> t' = t"
  by (auto simp: tool_getsize_def tool_exit_def give_def split: sum.splits)

definition good_size :: "int \<Rightarrow> bool" where
  "good_size n \<longleftrightarrow> n mod 512 = 0 \<and> MINSIZE \<le> n \<and> n < MAXSIZE"

lemma checksize_Some: "checksize n t = (Some u, t') \<longleftrightarrow> good_size n \<and> t' = t"
  by (auto simp: checksize_def good_size_def tool_exit_def give_def)

lemma doflock_Some: "doflock t = (Some u, t') \<Longrightarrow> tl_files t' = tl_files t \<and> tl_pos t' = tl_pos t"
  by (auto simp: doflock_def Let_def next_call_def split: if_splits)

lemma dotruncate_Some:
  "dotruncate file n t = (Some u, t') \<Longrightarrow> 0 \<le> n \<and> tl_pos t' = tl_pos t \<and>
     tl_files t' = (tl_files t)(file \<mapsto> take (nat n) (tl_bytes file t @ replicate (nat n - length (tl_bytes file t)) 0))"
  by (auto simp: dotruncate_def Let_def next_call_def tl_put_def tl_bytes_def split: if_splits)

lemma dolseek_Some: "dolseek p t = (Some u, t') \<Longrightarrow> tl_files t' = tl_files t \<and> (tl_pos t' = p \<or> tl_pos t' = tl_pos t)"
  by (auto simp: dolseek_def Let_def next_call_def split: if_splits)

lemma tool_write_Some:
  "tool_write file bs t = (Some u, t') \<Longrightarrow>
     tl_files t' = (tl_files t)(file \<mapsto> overwrite (tl_pos t) bs (tl_bytes file t))"
  by (auto simp: tool_write_def Let_def next_call_def tl_put_def tl_bytes_def split: if_splits)

lemma doopen_create_Some:
  "doopen_create file t = (Some u, t') \<Longrightarrow> tl_files t' = (tl_files t)(file \<mapsto> []) \<and> tl_pos t' = 0"
  by (auto simp: doopen_create_def Let_def next_call_def tl_put_def split: if_splits)


lemma create_guard_Some: "create_guard file f t = (Some u, t') \<Longrightarrow> tl_files t' = tl_files t"
  by (auto simp: create_guard_def open_existing_def Let_def next_call_def split: if_splits)


lemma header_length: "length disk_header = 512"
  by (simp add: disk_header_def HEADER_MESSAGE_def HEADERSIZE_def SECTSIZE_def)


text \<open>An image the simulator opens with this many sectors, whenever the host lets it read the file.\<close>

definition image_sectors :: "u8 list \<Rightarrow> nat \<Rightarrow> bool" where
  "image_sectors bs n \<longleftrightarrow>
     (\<forall>dh cs dd. dh_file dh = Some bs \<and> dh_open dh \<and> dh_lock dh \<and> dh_read dh \<and> dh_stat dh \<longrightarrow>
        (\<exists>dd1. disk_open dh cs dd = Some dd1 \<and> unat (dd_totsectors dd1) = n \<and> dd_file dd1 = image_file bs))"

lemma sized_image_opens:
  assumes "header_text bs = map of_char HEADER_MESSAGE" "int (length bs) = 512 + n" "good_size n"
  shows "image_sectors bs (nat n div 512)" "128 \<le> nat n div 512"
proof -
  have n: "0 \<le> n" "n < 2 ^ 32" "128 * 512 \<le> n" using assms(3) by (simp_all add: good_size_def MINSIZE_def MAXSIZE_def)
  have l: "length bs - HEADERSIZE = nat n" "\<not> length bs < HEADERSIZE"
    using assms(2) n by (simp_all add: HEADERSIZE_def SECTSIZE_def)
  have "nat n div 512 < 2 ^ 32" "\<not> nat n > 0xffffffff" using n by simp_all
  then show "image_sectors bs (nat n div 512)"
    using assms(1) l
    by (auto simp: image_sectors_def disk_open_def disk_open_file_def readheader_def SECTSIZE_def unat_of_nat)
  show "128 \<le> nat n div 512" using n(3) by linarith
qed


lemma header_text_new: "header_text (disk_header @ bs) = map of_char HEADER_MESSAGE"
  by (simp add: header_text_def disk_header_def HEADERSIZE_def SECTSIZE_def HEADER_MESSAGE_def)

text \<open>C29: An image the tool creates is a disk for the simulator. When \<open>disk161 create\<close> succeeds, the size
  it was given is a number of sectors within its limits, only that file has changed, it holds the header
  and zeros, and the simulator opens it as a disk of that many sectors, at least the 128 it wants.\<close>

theorem created_image_opens:
  assumes "docreate file sizespec doforce t = (Some (), t')"
  shows "\<exists>n. getsize sizespec = Inr n \<and> good_size n \<and>
    tl_files t' = (tl_files t)(file \<mapsto> disk_header @ replicate (nat n) 0) \<and>
    image_sectors (disk_header @ replicate (nat n) 0) (nat n div 512) \<and> 128 \<le> nat n div 512"
proof -
  obtain n t1 t2 t3 t4 t5 t6 where g: "create_guard file doforce t = (Some (), t1)"
    and o: "doopen_create file t1 = (Some (), t2)" and l: "doflock t2 = (Some (), t3)"
    and n: "getsize sizespec = Inr n" "good_size n"
    and tr: "dotruncate file (int HEADERSIZE + n) t3 = (Some (), t4)"
    and sk: "dolseek 0 t4 = (Some (), t5)" and wr: "tool_write file disk_header t5 = (Some (), t6)"
    and l2: "doflock t6 = (Some (), t')"
    using assms by (auto simp: docreate_def and_then_Some tool_writeheader_def tool_getsize_Some checksize_Some)
  have n0: "0 \<le> n" using n(2) by (simp add: good_size_def MINSIZE_def)
  have h: "nat (int HEADERSIZE + n) = 512 + nat n"
    using n0 by (simp add: HEADERSIZE_def SECTSIZE_def nat_add_distrib)
  have t3: "tl_files t3 = (tl_files t)(file \<mapsto> [])" "tl_pos t3 = 0"
    using create_guard_Some [OF g] doopen_create_Some [OF o] doflock_Some [OF l] by simp_all
  have t5: "tl_files t5 = (tl_files t)(file \<mapsto> replicate (512 + nat n) 0)" "tl_pos t5 = 0"
    using dotruncate_Some [OF tr] dolseek_Some [OF sk] t3 by (auto simp: h tl_bytes_def)
  have "overwrite 0 disk_header (replicate (512 + nat n) 0) = disk_header @ replicate (nat n) 0"
    by (simp add: overwrite_def header_length)
  then have f: "tl_files t' = (tl_files t)(file \<mapsto> disk_header @ replicate (nat n) 0)"
    using tool_write_Some [OF wr] doflock_Some [OF l2] t5 by (simp add: tl_bytes_def)
  have "int (length (disk_header @ replicate (nat n) 0)) = 512 + n" using n0 by (simp add: header_length)
  from sized_image_opens [OF header_text_new this n(2)] n f show ?thesis by blast
qed




text \<open>\<open>disk161 create -f\<close> empties the file before it asks for the lock. An image that a running
  simulator has locked is lost although the command fails.\<close>

theorem create_empties_locked_image:
  assumes "tl_works t (tl_calls t)" "\<not> tl_works t (tl_calls t + 1)"
  shows "\<exists>t'. docreate file sizespec True t = (None, t') \<and> tl_files t' file = Some []"
  using assms
  by (auto simp: docreate_def and_then_def create_guard_def doopen_create_def next_call_def tl_put_def doflock_def Let_def)

end
