(* ===== verification/Bus_Config.thy ===== *)
theory Bus_Config
  imports Disk_Image Lamebus Trace_Dev Net_Ops Emufs_Ops
begin

text \<open>
  Reading the configuration (\<open>bus_config\<close> of \<open>bus/lamebus.c\<close>): the lines of \<open>sys161.conf\<close>, the \<open>-C\<close>
  options, the table of devices, the controller's options, and the checks on the memory. \<open>bus_sound\<close> is
  what the rest of the simulator takes for granted of a bus that was configured.

  The configuration file is the text the host reads. What else the host gives while devices start (disk
  images, sockets, memory that was just allocated) is the record \<open>config_host\<close>. A fault stops the
  program; \<open>then_run\<close> makes every step after it the identity.
\<close>

section \<open>Devices and their options\<close>

definition MAXARGS :: nat where "MAXARGS = 128"
definition MAXMEM :: u32 where "MAXMEM = 16 * 1024 * 1024"
definition BUS_SLOTS :: int where "BUS_SLOTS = 32"
definition CONTROLLER_SLOT :: nat where "CONTROLLER_SLOT = 31"

text \<open>The entries of \<open>devtable\<close>.\<close>

datatype dev_kind =
  Dev_oldmainboard | Dev_mainboard | Dev_timer | Dev_disk | Dev_serial | Dev_screen | Dev_net | Dev_emufs
  | Dev_trace | Dev_random

definition devtable :: "(string \<times> dev_kind \<times> bool) list" where
  "devtable =
     [(''busctl'', Dev_oldmainboard, True), (''oldmainboard'', Dev_oldmainboard, True),
      (''mainboard'', Dev_mainboard, True), (''timer'', Dev_timer, False), (''disk'', Dev_disk, False),
      (''serial'', Dev_serial, False), (''screen'', Dev_screen, False), (''nic'', Dev_net, False),
      (''emufs'', Dev_emufs, False), (''trace'', Dev_trace, False), (''random'', Dev_random, False)]"

definition find_dev :: "string \<Rightarrow> (dev_kind \<times> bool) option" where
  "find_dev name = map_of devtable name"

text \<open>The disk images by name; the memory of the scratch area of each cpu, and of the structure of the
  network card in a slot, as allocated; the socket of a network card; the stream of \<open>random()\<close> after
  \<open>srandom\<close>, and the seed that the time of day makes; whether there is room for the memory.\<close>

record config_host =
  ch_disk :: "string \<Rightarrow> disk_host"
  ch_cram :: "nat \<Rightarrow> u32 \<Rightarrow> u8"
  ch_net :: "nat \<Rightarrow> net_data"
  ch_socket :: "nat \<Rightarrow> int"
  ch_random :: "u32 \<Rightarrow> nat \<Rightarrow> u32"
  ch_time :: u32
  ch_ram :: bool

definition then_run :: "(machine \<Rightarrow> machine) \<Rightarrow> machine \<Rightarrow> machine" where
  "then_run f m = (if fault_state m = None then f m else m)"

text \<open>The options of the controller: the size of the memory, which goes to \<open>bus_ramsize\<close> and loses
  what is above 32 bits, and the numbers of cpus and cores.\<close>

definition board_option :: "bool \<Rightarrow> string \<Rightarrow> u32 \<times> u64 \<times> u64 \<Rightarrow> fault + u32 \<times> u64 \<times> u64" where
  "board_option isold arg b =
     (let (ramsize, cpus, cores) = b in
      case option_value ''ramsize='' arg of
        Some v \<Rightarrow>
          (case getsize v of Inl f \<Rightarrow> Inl (size_fault f) | Inr n \<Rightarrow> Inr (word_of_int n, cpus, cores))
      | None \<Rightarrow>
     (case (if isold then None else option_value ''cpus='' arg) of
        Some v \<Rightarrow> Inr (ramsize, fst (strtoul 0 v), cores)
      | None \<Rightarrow>
     (case (if isold then None else option_value ''cores='' arg) of
        Some v \<Rightarrow> Inr (ramsize, cpus, fst (strtoul 0 v))
      | None \<Rightarrow> Inl Exit_error)))"

primrec board_options :: "bool \<Rightarrow> string list \<Rightarrow> u32 \<times> u64 \<times> u64 \<Rightarrow> fault + u32 \<times> u64 \<times> u64" where
  "board_options isold [] b = Inr b"
| "board_options isold (arg # args) b =
     (case board_option isold arg b of Inl f \<Rightarrow> Inl f | Inr b1 \<Rightarrow> board_options isold args b1)"

definition board_cpu :: "(nat \<Rightarrow> u32 \<Rightarrow> u8) \<Rightarrow> nat \<Rightarrow> machine \<Rightarrow> machine" where
  "board_cpu cram j m =
     m\<lparr>lb_cpus := (lb_cpus m)(j := \<lparr>cpu_enabled_flag = False, cpu_enabled_interrupts = 0xffffffff,
        cpu_interrupting = False, cpu_ipi = False, cpu_cram = cram j\<rparr>)\<rparr>"

definition lamebus_commonmainboard_init ::
  "bool \<Rightarrow> nat \<Rightarrow> string list \<Rightarrow> (nat \<Rightarrow> u32 \<Rightarrow> u8) \<Rightarrow> machine \<Rightarrow> machine" where
  "lamebus_commonmainboard_init isold slot args cram m =
     (if slot \<noteq> CONTROLLER_SLOT then smoke m
      else case board_options isold args (0, 1, 1) of
        Inl f \<Rightarrow> raise_fault f m
      | Inr (ramsize, tmp_ncpus, cores) \<Rightarrow>
          if tmp_ncpus = 0 \<or> cores = 0 then die m
          else if cores > 1 then die m
          else if tmp_ncpus > 32 then die m
          else
            let m1 = m\<lparr>bus_ramsize := ramsize, ncpus := unat tmp_ncpus\<rparr>;
                m2 = fold (board_cpu cram) [0..<unat tmp_ncpus] m1
            in m2\<lparr>lb_cpus := (lb_cpus m2)(0 := (lb_cpus m2 0)\<lparr>cpu_enabled_flag := True\<rparr>)\<rparr>)"

definition rand_option :: "u32 \<Rightarrow> string \<Rightarrow> u32 \<Rightarrow> u32 option" where
  "rand_option now arg seed =
     (case option_value ''seed='' arg of
        Some v \<Rightarrow> Some (word_of_int (fst (strtoll 10 v)))
      | None \<Rightarrow> if arg = ''autoseed'' then Some now else None)"

primrec rand_options :: "u32 \<Rightarrow> string list \<Rightarrow> u32 \<Rightarrow> u32 option" where
  "rand_options now [] seed = Some seed"
| "rand_options now (arg # args) seed =
     (case rand_option now arg seed of None \<Rightarrow> None | Some s \<Rightarrow> rand_options now args s)"

definition rand_init :: "config_host \<Rightarrow> string list \<Rightarrow> machine \<Rightarrow> machine" where
  "rand_init ch args m =
     (case rand_options (ch_time ch) args 0 of
        None \<Rightarrow> die m
      | Some seed \<Rightarrow> m\<lparr>host_random := ch_random ch seed, random_pos := 0\<rparr>)"

text \<open>The \<open>ldi_init\<close> of a device, and \<open>devices[slot]\<close> set to the device it makes.\<close>

definition dev_init :: "config_host \<Rightarrow> dev_kind \<Rightarrow> nat \<Rightarrow> string list \<Rightarrow> machine \<Rightarrow> machine" where
  "dev_init ch k slot args m =
     (case k of
        Dev_oldmainboard \<Rightarrow>
          put_device slot (Mainboard True) (lamebus_commonmainboard_init True slot args (ch_cram ch) m)
      | Dev_mainboard \<Rightarrow>
          put_device slot (Mainboard False) (lamebus_commonmainboard_init False slot args (ch_cram ch) m)
      | Dev_timer \<Rightarrow> put_device slot (Timer (timer_init slot)) m
      | Dev_disk \<Rightarrow> disk_init slot args (ch_disk ch) m
      | Dev_serial \<Rightarrow> put_device slot (Serial (serial_init slot)) (m\<lparr>console_key := Some slot\<rparr>)
      | Dev_screen \<Rightarrow> die m
      | Dev_net \<Rightarrow> net_init slot args (ch_net ch slot) (ch_socket ch slot) m
      | Dev_emufs \<Rightarrow> emufs_init slot args m
      | Dev_trace \<Rightarrow> put_device slot Trace (trace_init args m)
      | Dev_random \<Rightarrow> put_device slot Random (rand_init ch args m))"

section \<open>Lines\<close>

text \<open>What \<open>fgets\<close> with a buffer of 1024 bytes reads, call by call: a line with its newline, or 1023
  characters of a longer one.\<close>

definition first_line :: "string \<Rightarrow> string" where
  "first_line s = take 1023 (takeWhile (\<lambda>c. c \<noteq> CHR 0x0a) s @ take 1 (dropWhile (\<lambda>c. c \<noteq> CHR 0x0a) s))"

lemma first_line_length: "s \<noteq> [] \<Longrightarrow> first_line s \<noteq> []"
  by (cases s) (simp_all add: first_line_def)

function fgets_lines :: "string \<Rightarrow> string list" where
  "fgets_lines s = (if s = [] then [] else first_line s # fgets_lines (drop (length (first_line s)) s))"
  by pat_completeness auto
termination
proof (relation "measure length", simp)
  fix s :: string
  assume "s \<noteq> []"
  then show "(drop (length (first_line s)) s, s) \<in> measure length"
    using diff_less [of "length (first_line s)" "length s"] first_line_length by simp
qed

declare fgets_lines.simps [simp del]

definition line_words :: "string \<Rightarrow> string list" where
  "line_words buf = strtok_words blanks (takeWhile (\<lambda>c. c \<noteq> CHR ''#'') (c_string buf))"

text \<open>A \<open>-C\<close> option \<open>slot:arg\<close>; \<open>None\<close> for one that has been used.\<close>

definition extra_slot :: "string \<Rightarrow> int" where
  "extra_slot e = c_atoi (takeWhile (\<lambda>c. c \<noteq> CHR '':'') e)"

definition extra_arg :: "string \<Rightarrow> string" where
  "extra_arg e = tl (dropWhile (\<lambda>c. c \<noteq> CHR '':'') e)"

text \<open>The options for this slot go behind the words of the line; the flag is false when there are too many.\<close>

primrec take_extras :: "int \<Rightarrow> string option list \<Rightarrow> string list \<Rightarrow> string list \<times> string option list \<times> bool" where
  "take_extras slot [] argv = (argv, [], True)"
| "take_extras slot (e # es) argv =
     (case e of
        None \<Rightarrow> (let (argv', es', ok) = take_extras slot es argv in (argv', None # es', ok))
      | Some s \<Rightarrow>
          if extra_slot s = slot then
            if length argv \<ge> MAXARGS then (argv, e # es, False)
            else let (argv', es', ok) = take_extras slot es (argv @ [extra_arg s]) in (argv', None # es', ok)
          else let (argv', es', ok) = take_extras slot es argv in (argv', e # es', ok))"

definition config_slot :: "string \<Rightarrow> int option" where
  "config_slot w =
     (let (v, rest, erange) = strtoll 0 w; slot = sint (word_of_int v :: u32) in
      if rest \<noteq> [] \<or> slot < 0 \<or> slot \<ge> BUS_SLOTS then None else Some slot)"

definition config_line :: "config_host \<Rightarrow> string \<Rightarrow> machine \<times> string option list \<Rightarrow> machine \<times> string option list" where
  "config_line ch buf s =
     (let (m, extras) = s; argv = line_words buf in
      if fault_state m \<noteq> None then s
      else if length argv \<ge> MAXARGS then (die m, extras)
      else if argv = [] then s
      else case config_slot (argv ! 0) of
        None \<Rightarrow> (die m, extras)
      | Some slot \<Rightarrow>
          if length argv = 1 then (die m, extras)
          else if devices m (nat slot) \<noteq> None then (die m, extras)
          else case find_dev (argv ! 1) of
            None \<Rightarrow> (die m, extras)
          | Some (kind, isbus) \<Rightarrow>
              let (argv', extras', ok) = take_extras slot extras argv in
              if \<not> ok then (die m, extras')
              else if isbus \<noteq> (nat slot = CONTROLLER_SLOT) then (die m, extras')
              else (dev_init ch kind (nat slot) (drop 2 argv') m, extras'))"

section \<open>The whole\<close>

definition check_extra :: "string \<Rightarrow> machine \<Rightarrow> machine" where
  "check_extra e =
     then_run (\<lambda>m. if CHR '':'' \<notin> set e then smoke m
       else if extra_slot e < 0 \<or> extra_slot e \<ge> BUS_SLOTS then die m else m)"

text \<open>The last checks, and the memory.\<close>

definition config_memory :: "config_host \<Rightarrow> machine \<Rightarrow> machine" where
  "config_memory ch =
     then_run (\<lambda>m.
       if bus_ramsize m = 0 then die m
       else if bus_ramsize m AND 0xfff \<noteq> 0 then die m
       else if bus_ramsize m > MAXMEM then die m
       else if \<not> ch_ram ch then die m
       else m\<lparr>ram := (\<lambda>_. 0)\<rparr>)"

text \<open>\<open>file\<close> is \<open>None\<close> when the configuration cannot be opened.\<close>

definition bus_config :: "config_host \<Rightarrow> string option \<Rightarrow> string list \<Rightarrow> machine \<Rightarrow> machine \<times> nat" where
  "bus_config ch file configextra m =
     (let m1 = fold check_extra configextra m in
      case file of
        None \<Rightarrow> (then_run die m1, ncpus m1)
      | Some conf \<Rightarrow>
          let (m2, extras) = fold (config_line ch) (fgets_lines conf) (m1, map Some configextra);
              m3 = then_run (\<lambda>m. if \<exists>e \<in> set extras. e \<noteq> None then die m else m) m2;
              m4 = config_memory ch m3
          in (m4, ncpus m4))"

section \<open>A configured bus\<close>

text \<open>The slot a device has noted for itself: the number it drives its interrupt line with.\<close>

definition noted_slot :: "device \<Rightarrow> nat option" where
  "noted_slot d = (case d of Timer td \<Rightarrow> Some (td_slot td) | Serial sd \<Rightarrow> Some (sd_slot sd)
     | Disk dd \<Rightarrow> Some (dd_slot dd) | Net nd \<Rightarrow> Some (nd_slot nd) | Emufs ed \<Rightarrow> Some (ed_slot ed) | _ \<Rightarrow> None)"

definition knows_slot :: "nat \<Rightarrow> device \<Rightarrow> bool" where
  "knows_slot slot d \<longleftrightarrow> (\<forall>s. noted_slot d = Some s \<longrightarrow> s = slot)"

text \<open>A device other than the controller is in a slot of its own, which is the one it has noted, and the
  controller is in the last one.\<close>

definition slots_ok :: "machine \<Rightarrow> bool" where
  "slots_ok m \<longleftrightarrow> (\<forall>slot d. devices m slot = Some d \<longrightarrow>
     slot < 32 \<and> (slot = CONTROLLER_SLOT \<longleftrightarrow> (\<exists>isold. d = Mainboard isold)) \<and> knows_slot slot d)"

text \<open>Between 1 and 32 cpus of which the first alone is on, with nothing pending.\<close>

definition cpus_fresh :: "machine \<Rightarrow> bool" where
  "cpus_fresh m \<longleftrightarrow> 1 \<le> ncpus m \<and> ncpus m \<le> 32 \<and>
     (\<forall>j < ncpus m. (cpu_enabled_flag (lb_cpus m j) \<longleftrightarrow> j = 0) \<and> \<not> cpu_interrupting (lb_cpus m j) \<and>
        \<not> cpu_ipi (lb_cpus m j) \<and> cpu_enabled_interrupts (lb_cpus m j) = 0xffffffff)"

definition bus_sound :: "machine \<Rightarrow> bool" where
  "bus_sound m \<longleftrightarrow> slots_ok m \<and> devices m CONTROLLER_SLOT \<noteq> None \<and> cpus_fresh m \<and>
     0 < bus_ramsize m \<and> bus_ramsize m AND 0xfff = 0 \<and> bus_ramsize m \<le> MAXMEM"

text \<open>What holds while lines are read: no memory before there is a controller.\<close>

definition config_inv :: "machine \<Rightarrow> bool" where
  "config_inv m \<longleftrightarrow> (fault_state m = None \<longrightarrow>
     slots_ok m \<and> (if devices m CONTROLLER_SLOT = None then bus_ramsize m = 0 else cpus_fresh m))"

lemma no_fault_after [simp]:
  "(fault_state (die m) = None) = False" "(fault_state (smoke m) = None) = False"
  "(fault_state (raise_fault f m) = None) = False"
  by (simp_all add: die_def smoke_def raise_fault_def split: option.split)

lemma bus_frames [simp]:
  "ncpus (run_sys c m) = ncpus m" "lb_cpus (run_sys c m) = lb_cpus m" "bus_ramsize (run_sys c m) = bus_ramsize m"
  "ncpus (schedule_event d s k h m) = ncpus m" "lb_cpus (schedule_event d s k h m) = lb_cpus m"
  "bus_ramsize (schedule_event d s k h m) = bus_ramsize m"
  by (simp_all add: run_sys_def do_sys_def schedule_event_def host_next_random_def Let_def
      cpu_stopcycling_def smoke_def raise_fault_def split: prod.split option.split)

text \<open>A card that starts fills its slot and leaves the rest of the bus alone.\<close>

definition fills :: "nat \<Rightarrow> machine \<Rightarrow> machine \<Rightarrow> bool" where
  "fills slot m m' \<longleftrightarrow> fault_state m' = None \<longrightarrow>
     bus_ramsize m' = bus_ramsize m \<and> ncpus m' = ncpus m \<and> lb_cpus m' = lb_cpus m \<and>
     (\<exists>d. devices m' = (devices m)(slot \<mapsto> d) \<and> (\<forall>isold. d \<noteq> Mainboard isold) \<and> knows_slot slot d)"

lemma upd_same: "f(a := x) = f(a := y) \<longleftrightarrow> x = y"
  by (metis fun_upd_same)

lemmas slot_defs = knows_slot_def noted_slot_def upd_same

lemma fills_put: "(\<And>isold. d \<noteq> Mainboard isold) \<Longrightarrow> knows_slot slot d \<Longrightarrow> fills slot m (put_device slot d m)"
  by (auto simp: fills_def put_device_def)

lemma fills_disk: "fills slot m (disk_init slot args host m)"
  by (auto simp: disk_init_def Let_def fills_def put_device_def slot_defs case_prod_beta
      dest: disk_open_keeps split: sum.splits option.splits geometry.splits if_splits)

lemma fills_net: "fills slot m (net_init slot args fresh sock m)"
  by (auto simp: net_init_def keepalive_def do_sys_eq Let_def fills_def upd_net_def put_device_def net_at_def slot_defs
      split: option.splits if_splits)

lemma fills_emufs: "fills slot m (emufs_init slot args m)"
  by (auto simp: emufs_init_def emufs_openfirst_def do_sys_eq Let_def fills_def upd_emufs_def put_device_def slot_defs
      emufs_count_def upd_stats_def emufs_at_def open_handle_def name_handle_def zero_emufs_def split: option.splits if_splits)

text \<open>The controller: what it needs is only that it goes into its own slot.\<close>

lemma board_cpu_frame:
  "ncpus (fold (board_cpu cram) js m) = ncpus m" "devices (fold (board_cpu cram) js m) = devices m"
  "fault_state (fold (board_cpu cram) js m) = fault_state m"
  by (induction js arbitrary: m) (simp_all add: board_cpu_def)

lemma board_cpus:
  "j < n \<Longrightarrow> lb_cpus (fold (board_cpu cram) [0..<n] m) j =
     \<lparr>cpu_enabled_flag = False, cpu_enabled_interrupts = 0xffffffff, cpu_interrupting = False,
      cpu_ipi = False, cpu_cram = cram j\<rparr>"
  by (induction n) (auto simp: board_cpu_def less_Suc_eq)

lemma board_init:
  assumes "fault_state (lamebus_commonmainboard_init isold slot args cram m) = None"
  shows "slot = CONTROLLER_SLOT"
    "devices (lamebus_commonmainboard_init isold slot args cram m) = devices m"
    "cpus_fresh (lamebus_commonmainboard_init isold slot args cram m)"
    "fault_state m = None"
proof -
  show s: "slot = CONTROLLER_SLOT" using assms by (simp add: lamebus_commonmainboard_init_def split: if_splits)
  obtain ramsize n cores where b: "board_options isold args (0, 1, 1) = Inr (ramsize, n, cores)" "n \<noteq> 0" "\<not> n > 32"
    using assms by (auto simp: lamebus_commonmainboard_init_def s split: sum.splits if_splits)
  define m1 where "m1 = m\<lparr>bus_ramsize := ramsize, ncpus := unat n\<rparr>"
  let ?m2 = "fold (board_cpu cram) [0..<unat n] m1"
  have i: "lamebus_commonmainboard_init isold slot args cram m =
      ?m2\<lparr>lb_cpus := (lb_cpus ?m2)(0 := (lb_cpus ?m2 0)\<lparr>cpu_enabled_flag := True\<rparr>)\<rparr>"
    using assms b by (simp add: lamebus_commonmainboard_init_def s m1_def Let_def split: if_splits)
  have f: "ncpus ?m2 = unat n" "devices ?m2 = devices m" "fault_state ?m2 = fault_state m"
    by (simp_all add: board_cpu_frame m1_def)
  have n: "0 < unat n" "unat n \<le> 32" using b(2,3) by (simp_all add: unat_gt_0 word_le_nat_alt not_less)
  show "devices (lamebus_commonmainboard_init isold slot args cram m) = devices m" "fault_state m = None"
    using assms f by (simp_all add: i)
  show "cpus_fresh (lamebus_commonmainboard_init isold slot args cram m)"
    using n board_cpus [of _ "unat n" cram m1] by (simp add: i f cpus_fresh_def)
qed

lemma find_dev_bus: "find_dev name = Some (k, isbus) \<Longrightarrow> isbus \<longleftrightarrow> k \<in> {Dev_oldmainboard, Dev_mainboard}"
  unfolding find_dev_def by (drule map_of_SomeD) (auto simp: devtable_def)

lemma dev_fills:
  assumes "k \<notin> {Dev_oldmainboard, Dev_mainboard}"
  shows "fills slot m (dev_init ch k slot args m)"
  using assms fills_disk fills_net fills_emufs
  by (cases k) (auto simp: dev_init_def fills_put fills_def put_device_def slot_defs timer_init_def serial_init_def trace_init_def rand_init_def split: option.splits)

lemma dev_init_inv:
  assumes "config_inv m" "fault_state m = None" "slot < 32" "devices m slot = None"
    and "find_dev name = Some (k, slot = CONTROLLER_SLOT)"
  shows "config_inv (dev_init ch k slot args m)"
proof (cases "k \<in> {Dev_oldmainboard, Dev_mainboard}")
  case True
  then have c: "slot = CONTROLLER_SLOT" using find_dev_bus [OF assms(5)] by simp
  obtain isold where d: "dev_init ch k slot args m =
      put_device slot (Mainboard isold) (lamebus_commonmainboard_init isold slot args (ch_cram ch) m)"
    using True by (auto simp: dev_init_def)
  let ?b = "lamebus_commonmainboard_init isold slot args (ch_cram ch) m"
  show ?thesis
    unfolding config_inv_def d
  proof
    assume "fault_state (put_device slot (Mainboard isold) ?b) = None"
    then have "fault_state ?b = None" by (simp add: put_device_def)
    note b = board_init [OF this]
    have "slots_ok m" using assms(1,2) by (simp add: config_inv_def)
    then show "slots_ok (put_device slot (Mainboard isold) ?b) \<and>
        (if devices (put_device slot (Mainboard isold) ?b) CONTROLLER_SLOT = None
         then bus_ramsize (put_device slot (Mainboard isold) ?b) = 0
         else cpus_fresh (put_device slot (Mainboard isold) ?b))"
      using b(2,3) c assms(3) by (auto simp: put_device_def slots_ok_def cpus_fresh_def slot_defs)
  qed
next
  case False
  then have c: "slot \<noteq> CONTROLLER_SLOT" using find_dev_bus [OF assms(5)] by simp
  show ?thesis
    unfolding config_inv_def
  proof
    let ?m = "dev_init ch k slot args m"
    assume "fault_state ?m = None"
    then obtain d where f: "bus_ramsize ?m = bus_ramsize m" "ncpus ?m = ncpus m" "lb_cpus ?m = lb_cpus m"
      "devices ?m = (devices m)(slot \<mapsto> d)" "\<forall>isold. d \<noteq> Mainboard isold" "knows_slot slot d"
      using dev_fills [OF False, of slot m ch args] by (auto simp: fills_def)
    have "slots_ok m" "if devices m CONTROLLER_SLOT = None then bus_ramsize m = 0 else cpus_fresh m"
      using assms(1,2) by (simp_all add: config_inv_def)
    then show "slots_ok ?m \<and> (if devices ?m CONTROLLER_SLOT = None then bus_ramsize ?m = 0 else cpus_fresh ?m)"
      using f c assms(3) by (auto simp: slots_ok_def cpus_fresh_def)
  qed
qed

lemma config_inv_fault: "fault_state m \<noteq> None \<Longrightarrow> config_inv m"
  by (auto simp: config_inv_def)

lemma config_slot_range: "config_slot w = Some n \<Longrightarrow> 0 \<le> n \<and> n < 32"
  by (auto simp: config_slot_def Let_def BUS_SLOTS_def split: prod.splits if_splits)

lemma config_line_inv:
  assumes "config_inv (fst s)"
  shows "config_inv (fst (config_line ch buf s))"
proof -
  obtain m extras where s: "s = (m, extras)" by fastforce
  let ?argv = "line_words buf"
  have d: "config_inv (die m)" by (simp add: config_inv_fault)
  show ?thesis
  proof (cases "fault_state m = None \<and> (\<exists>n k b. config_slot (?argv ! 0) = Some n \<and> devices m (nat n) = None \<and>
      find_dev (?argv ! 1) = Some (k, b) \<and> b = (nat n = CONTROLLER_SLOT))")
    case True
    then obtain n k where n: "fault_state m = None" "config_slot (?argv ! 0) = Some n" "devices m (nat n) = None"
      "find_dev (?argv ! 1) = Some (k, nat n = CONTROLLER_SLOT)" by blast
    have "nat n < 32" using config_slot_range [OF n(2)] by linarith
    then show ?thesis
      using dev_init_inv [OF _ n(1) _ n(3) n(4)] assms d n
      by (auto simp: config_line_def s Let_def split: prod.split)
  next
    case False
    then show ?thesis using assms d by (auto simp: config_line_def s Let_def split: prod.split option.split)
  qed
qed

lemma config_lines_inv:
  "config_inv (fst s) \<Longrightarrow> config_inv (fst (fold (config_line ch) bufs s))"
  by (induction bufs arbitrary: s) (simp_all add: config_line_inv)

lemma check_extras: "fold check_extra es m = m \<or> fault_state (fold check_extra es m) \<noteq> None"
proof (induction es arbitrary: m)
  case (Cons e es)
  have "check_extra e m = m \<or> fault_state (check_extra e m) \<noteq> None"
    by (simp add: check_extra_def then_run_def del: not_None_eq)
  moreover have "fault_state (fold check_extra es m) \<noteq> None" if "fault_state m \<noteq> None" for m
    using Cons.IH [of m] that by auto
  ultimately show ?case using Cons.IH [of "check_extra e m"] by auto
qed simp

lemma config_sound:
  assumes "fault_state m = None" "devices m = (\<lambda>_. None)" "bus_ramsize m = 0"
    and "bus_config ch file extras m = (m', n)" "fault_state m' = None"
  shows "bus_sound m' \<and> n = ncpus m' \<and> ram m' = (\<lambda>_. 0)"
proof -
  let ?m1 = "fold check_extra extras m"
  obtain conf where t: "file = Some conf"
    using assms(4,5) by (cases "file") (auto simp: bus_config_def then_run_def Let_def split: if_splits)
  obtain m2 es where f: "fold (config_line ch) (fgets_lines conf) (?m1, map Some extras) = (m2, es)" by fastforce
  define m3 where "m3 = then_run (\<lambda>m. if \<exists>e \<in> set es. e \<noteq> None then die m else m) m2"
  have m': "m' = config_memory ch m3" "n = ncpus m'"
    using assms(4) by (auto simp: bus_config_def t f m3_def Let_def)
  have "config_inv ?m1"
    using check_extras [of extras m] assms(1-3) by (auto simp: config_inv_def slots_ok_def)
  then have i2: "config_inv m2" using config_lines_inv [of "(?m1, map Some extras)" ch "fgets_lines conf"] f by simp
  have r: "bus_ramsize m3 \<noteq> 0" "bus_ramsize m3 AND 0xfff = 0" "bus_ramsize m3 \<le> MAXMEM" "fault_state m3 = None"
    "m' = m3\<lparr>ram := (\<lambda>_. 0)\<rparr>"
    using assms(5) by (auto simp: m'(1) config_memory_def then_run_def split: if_splits)
  have "m3 = m2" using r(4) by (auto simp: m3_def then_run_def split: if_splits)
  then have "slots_ok m3" "devices m3 CONTROLLER_SLOT \<noteq> None" "cpus_fresh m3"
    using i2 r(1,4) by (auto simp: config_inv_def split: if_splits)
  then show ?thesis
    using r(1-3) by (simp add: bus_sound_def m'(2) r(5) slots_ok_def cpus_fresh_def word_greater_zero_iff)
qed

text \<open>C10: What a configuration is good for. Whatever the configuration file, the \<open>-C\<close> options and the
  host, when \<open>bus_config\<close> returns there is a controller in slot 31 and in no other slot, every other
  device is in a slot below it and has noted that slot as its own, the memory is some number of whole
  pages up to 16 megabytes and zero, and there are between 1 and 32 cpus, as many as the function says,
  of which only cpu 0 is on, without pending interrupts.\<close>

theorem bus_config_sound:
  assumes "fault_state m = None" "devices m = (\<lambda>_. None)" "bus_ramsize m = 0"
    and "bus_config ch file extras m = (m', n)" "fault_state m' = None"
  shows "bus_sound m' \<and> n = ncpus m' \<and> ram m' = (\<lambda>_. 0)"
  using config_sound [OF assms] .

text \<open>Numbers that do not fit are cut and not refused: a memory of 4097 megabytes is one of one
  megabyte, and slot 4294967297 is slot 1.\<close>

theorem config_numbers_wrap:
  "board_option False ''ramsize=4097m'' (0, 1, 1) = Inr (0x100000, 1, 1) \<and> config_slot ''4294967297'' = Some 1"
proof -
  have d: "''4097m'' = dec_string 4097 @ ''m''" "''4294967297'' = dec_string 4294967297 @ []"
    by (simp_all add: dec_string.simps decimal_digits)
  have "getsize ''4097m'' = Inr (4097 * 1024 * 1024)"
    unfolding getsize_def strtoll_def d(1) by (subst c_number_dec) (simp_all add: digit_value_def size_unit_def)
  moreover have "strtoll 0 ''4294967297'' = (4294967297, [], False)"
    unfolding strtoll_def d(2) by (subst c_number_dec) simp_all
  ultimately show ?thesis
    by (simp add: board_option_def option_value_def config_slot_def BUS_SLOTS_def)
qed

end
