(* ===== verification/Meter_Ops.thy ===== *)
theory Meter_Ops
  imports Mainloop
begin

text \<open>
  Properties of the perfmeter: a connection has exactly one timed event until it is freed, an interval
  within the limits and a buffer that is not overrun (\<open>meters_ok\<close>); what a command does; and what
  becomes of a command that arrives in pieces.
\<close>

section \<open>Connections and their events\<close>

definition meter_ok :: "meter_data \<Rightarrow> bool" where
  "meter_ok me \<longleftrightarrow> MIN_METER_NSECS \<le> me_interval me \<and> me_interval me \<le> MAX_METER_NSECS \<and>
     length (me_buf me) = METER_BUFSIZE \<and> me_bufpos me \<le> METER_BUFSIZE"

definition meters_ok :: "machine \<Rightarrow> bool" where
  "meters_ok m \<longleftrightarrow> (\<forall>k. events_of F_meter_update k m = (case meters m k of None \<Rightarrow> 0 | Some _ \<Rightarrow> 1)) \<and>
     (\<forall>k me. meters m k = Some me \<longrightarrow> meter_ok me)"

lemma meter_say_sels [simp]:
  "meters (meter_say fd s m) = meters m" "event_queue (meter_say fd s m) = event_queue m"
  "ta_free (meter_say fd s m) = ta_free m" "fault_state (meter_say fd s m) = fault_state m"
  "g_stats (meter_say fd s m) = g_stats m" "ncpus (meter_say fd s m) = ncpus m"
  "host_log (meter_say fd s m) = Sys_write fd (map of_char s) # host_log m"
  "host_sys (meter_say fd s m) = host_sys m"
  by (simp_all add: meter_say_def) (simp_all add: run_sys_def do_sys_def)

lemma meters_run_sys [simp]: "meters (run_sys c m) = meters m"
  by (simp add: run_sys_def do_sys_def)

lemma meters_schedule [simp]: "meters (schedule_event d s c f m) = meters m"
  by (simp add: schedule_event_def host_next_random_def Let_def cpu_stopcycling_def smoke_def
      raise_fault_def split: prod.split)

lemma meter_report_sels [simp]:
  "meters (meter_report fd m) = meters m" "event_queue (meter_report fd m) = event_queue m"
  "ta_free (meter_report fd m) = ta_free m"
  by (simp_all add: meter_report_def smoke_def raise_fault_def split: option.split)

lemma processline_interval:
  "processline line iv = (iv', ans) \<Longrightarrow> iv' = iv \<or> MIN_METER_NSECS \<le> iv' \<and> iv' \<le> MAX_METER_NSECS"
  by (auto simp: processline_def Let_def not_less split: prod.splits if_splits)

declare strtok_cut.simps(2) [simp del]

lemma length_span: "length bs = length (takeWhile P bs) + length (dropWhile P bs)"
  by (simp flip: length_append)

lemma strtok_cut_length: "length (strtok_cut n bs) = length bs"
proof (induction n arbitrary: bs)
  case (Suc n)
  let ?delim = "\<lambda>b. char_of (unat b) \<in> blanks"
  let ?r = "dropWhile ?delim bs"
  let ?rest = "dropWhile (\<lambda>b. \<not> ?delim b) ?r"
  have g: "length (case r of [] \<Rightarrow> [] | d # bs' \<Rightarrow> 0 # strtok_cut n bs') = length r" for r
    by (cases r) (simp_all add: Suc)
  show ?case
    using g [of ?rest] length_span [of bs ?delim] length_span [of ?r "\<lambda>b. \<not> ?delim b"]
    unfolding strtok_cut.simps(2) Let_def length_append by linarith
qed simp

lemma meter_line_ok:
  assumes "meter_ok me" "line_end me = Some p" "meter_line p (me, m) = (me', m')"
  shows "meter_ok me'" "me_fd me' = me_fd me" "meters m' = meters m" "event_queue m' = event_queue m"
    "fault_state m' = fault_state m"
proof -
  have p: "p < me_bufpos me" "p < length (me_buf me)" using assms(2) by (auto simp: line_end_def Let_def split: if_splits)
  have l: "length (take pos (drop k bs) @ drop pos bs) = length bs" if "pos + k \<le> length bs" for pos k and bs :: "u8 list"
    using that by simp
  define buf where "buf = (me_buf me)[p := 0]"
  define line where "line = takeWhile (\<lambda>b. b \<noteq> 0) buf"
  obtain iv ans where pl: "processline (map (\<lambda>b. char_of (unat b)) line) (me_interval me) = (iv, ans)" by fastforce
  have lb: "length (strtok_cut (MAXWORDS + 1) line @ drop (length line) buf) = length (me_buf me)"
    using length_takeWhile_le [of "\<lambda>b. b \<noteq> 0" buf] by (simp add: strtok_cut_length line_def buf_def)
  define buf1 where "buf1 = strtok_cut (MAXWORDS + 1) line @ drop (length line) buf"
  have me': "me' = me\<lparr>me_interval := iv, me_buf := take (me_bufpos me - (p + 1)) (drop (p + 1) buf1)
        @ drop (me_bufpos me - (p + 1)) buf1, me_bufpos := me_bufpos me - (p + 1)\<rparr>"
    and m': "m' = (case ans of None \<Rightarrow> m | Some s \<Rightarrow> meter_say (me_fd me) (s @ crlf) m)"
    using assms(3) pl by (auto simp: meter_line_def buf_def line_def buf1_def Let_def)
  have "me_bufpos me - (p + 1) + (p + 1) \<le> length (me_buf me)"
    using p assms(1) by (simp add: meter_ok_def)
  then show "meter_ok me'"
    using assms(1) processline_interval [OF pl] l [of "me_bufpos me - (p + 1)" "p + 1" buf1] lb [folded buf1_def]
    unfolding me' meter_ok_def by (auto simp del: length_append)
  show "me_fd me' = me_fd me" "meters m' = meters m" "event_queue m' = event_queue m" "fault_state m' = fault_state m"
    by (simp_all add: me' m' split: option.split)
qed

lemma meter_lines_ok:
  assumes "meter_ok (fst mm)"
  shows "meter_ok (fst (meter_lines mm)) \<and> me_fd (fst (meter_lines mm)) = me_fd (fst mm) \<and>
    meters (snd (meter_lines mm)) = meters (snd mm) \<and> event_queue (snd (meter_lines mm)) = event_queue (snd mm) \<and>
    fault_state (snd (meter_lines mm)) = fault_state (snd mm)"
  using assms
proof (induction mm rule: meter_lines.induct)
  case (1 mm)
  show ?case
  proof (cases "line_end (fst mm)")
    case None
    then show ?thesis using 1(2) by (subst (1 2 3 4 5) meter_lines.simps) simp
  next
    case (Some p)
    obtain me m me' m' where mm: "mm = (me, m)" "meter_line p (me, m) = (me', m')" by fastforce
    note l = meter_line_ok [of me p m me' m'] and s = Some [unfolded mm(1)]
    have "meter_lines mm = meter_lines (me', m')" using Some mm by (subst meter_lines.simps) simp
    then show ?thesis using 1(1) [OF Some] 1(2) l s mm by simp
  qed
qed

lemma receive_meter_ok:
  assumes "meters m k = Some me" "meter_ok me"
  shows "\<exists>me'. meters (meter_receive k m) = (meters m)(k \<mapsto> me') \<and> meter_ok me' \<and>
    event_queue (meter_receive k m) = event_queue m \<and> fault_state (meter_receive k m) = fault_state m"
proof -
  define me1 where "me1 = (if me_bufpos me \<ge> METER_BUFSIZE then me\<lparr>me_bufpos := 0\<rparr> else me)"
  define m1 where "m1 = (if me_bufpos me \<ge> METER_BUFSIZE then meter_say (me_fd me) (''BAD Input overflow'' @ crlf) m else m)"
  define c where "c = Sys_read (me_fd me1) (METER_BUFSIZE - me_bufpos me1)"
  define a where "a = host_sys m1 (host_log m1) c"
  define bs where "bs = (if sys_ret a < 0 then [] else take (METER_BUFSIZE - me_bufpos me1) (sys_data a))"
  have me1: "meter_ok me1" "me_bufpos me1 < METER_BUFSIZE"
    using assms(2) by (auto simp: me1_def meter_ok_def METER_BUFSIZE_def)
  have m1: "meters m1 = meters m" "event_queue m1 = event_queue m" "fault_state m1 = fault_state m" by (simp_all add: m1_def)
  let ?mm = "(me1\<lparr>me_buf := bs @ drop (length bs) (me_buf me1), me_bufpos := me_bufpos me1 + length bs\<rparr>, run_sys c m1)"
  have r: "meter_receive k m = (if bs = [] then
      (let m2 = run_sys (Sys_close (me_fd me1)) (run_sys c m1) in m2\<lparr>meters := (meters m2)(k \<mapsto> me1\<lparr>me_fd := -1\<rparr>)\<rparr>)
     else (let (me2, m2) = meter_lines ?mm in m2\<lparr>meters := (meters m2)(k \<mapsto> me2)\<rparr>))"
    unfolding bs_def a_def c_def me1_def m1_def
    by (cases "me_bufpos me \<ge> METER_BUFSIZE")
      (simp only: meter_receive_def assms(1) option.case if_True if_False prod.case do_sys_eq Let_def)+
  show ?thesis
  proof (cases "bs = []")
    case True
    then show ?thesis
      using me1(1) m1 by (intro exI [of _ "me1\<lparr>me_fd := -1\<rparr>"]) (simp add: r Let_def meter_ok_def)
  next
    case False
    have "meter_ok (fst ?mm)" using me1 by (auto simp: meter_ok_def bs_def)
    from meter_lines_ok [OF this] show ?thesis using False m1 by (auto simp: r case_prod_beta)
  qed
qed

text \<open>An event that could be scheduled found room in the pool.\<close>

lemma schedule_room: "fault_state (schedule_event d s c f m) = None \<Longrightarrow> 0 < ta_free m"
  by (cases "ta_free m = 0") (simp_all add: schedule_event_def host_next_random_def smoke_def raise_fault_def split: option.splits)

lemma accept_meters_ok:
  assumes "meters_ok m" "fresh_meter mem m"
    and "m' = meter_accept fd mem m" "fault_state m' = None"
  shows "meters_ok m'"
proof (cases "fd < 0 \<or> mem = None")
  case True
  then show ?thesis
    using assms(1,2) by (auto simp: assms(3) meter_accept_def meters_ok_def events_of_def split: option.splits)
next
  case False
  then obtain k fresh where mem: "mem = Some (k, fresh)" "\<not> fd < 0" by auto
  define me where "me = \<lparr>me_interval = DEFAULT_METER_NSECS, me_fd = fd, me_buf = fresh, me_bufpos = 0\<rparr>"
  define m2 where "m2 = meter_report fd (meter_header fd (meter_hello fd (m\<lparr>meters := (meters m)(k \<mapsto> me)\<rparr>)))"
  have m2: "meters m2 = (meters m)(k \<mapsto> me)" "event_queue m2 = event_queue m"
    by (simp_all add: m2_def meter_header_def meter_hello_def)
  have m': "m' = schedule_event DEFAULT_METER_NSECS k 0 F_meter_update m2"
    using mem by (simp add: assms(3) meter_accept_def meter_update_def me_def m2_def Let_def meter_header_def meter_hello_def)
  have "meters m k = None" "meter_ok me"
    using assms(2) mem
    by (simp_all add: fresh_meter_def meter_ok_def me_def DEFAULT_METER_NSECS_def MIN_METER_NSECS_def MAX_METER_NSECS_def METER_BUFSIZE_def)
  then show ?thesis
    using assms(1) m2 events_of_queue [OF m2(2)]
      schedule_room [OF assms(4) [unfolded m']]
    by (auto simp: meters_ok_def m' events_of_schedule)
qed

lemma receive_meters_ok:
  assumes "meters_ok m" "meters m k \<noteq> None"
  shows "meters_ok (meter_receive k m)"
proof -
  obtain me where me: "meters m k = Some me" "meter_ok me" using assms by (auto simp: meters_ok_def)
  obtain me' where r: "meters (meter_receive k m) = (meters m)(k \<mapsto> me')" "meter_ok me'"
    "event_queue (meter_receive k m) = event_queue m"
    using receive_meter_ok [OF me] by blast
  show ?thesis using assms(1) r me events_of_queue [OF r(3)] by (auto simp: meters_ok_def)
qed

lemma update_meters_ok:
  assumes "meters_ok m" "event_queue m = ta # q" "ta_call ta = F_meter_update" "fault_state (queue_step m) = None"
  shows "meters_ok (queue_step m)"
proof -
  let ?k = "ta_data ta" and ?m = "m\<lparr>event_queue := q\<rparr>"
  have e: "events_of F_meter_update k m = (if k = ?k then 1 else 0) + events_of F_meter_update k ?m" for k
    using assms(2,3) by (simp add: events_of_def)
  then obtain me where me: "meters m ?k = Some me" "events_of F_meter_update ?k ?m = 0"
    using assms(1) by (force simp: meters_ok_def split: option.splits)
  have o: "events_of F_meter_update k ?m = (case meters m k of None \<Rightarrow> 0 | Some _ \<Rightarrow> 1)" if "k \<noteq> ?k" for k
    using assms(1) e [of k] that by (simp add: meters_ok_def)
  have qs: "queue_step m = acfree (meter_update ?k ?m)"
    using assms(2,3) by (simp add: queue_step_def run_event_def)
  have ac: "events_of f k (acfree m) = events_of f k m" "meters (acfree m) = meters m"
    "event_queue (acfree m) = event_queue m" "fault_state (acfree m) = fault_state m" for f k m
    by (simp_all add: events_of_def acfree_def)
  let ?r = "meter_report (me_fd me) ?m"
  have r: "events_of F_meter_update k ?r = events_of F_meter_update k ?m" for k by (simp add: events_of_def)
  show ?thesis
  proof (cases "me_fd me < 0")
    case True
    then have "meter_update ?k ?m = ?m\<lparr>meters := (meters m)(?k := None)\<rparr>" by (simp add: meter_update_def me(1))
    then show ?thesis
      using assms(1) me(2) o by (auto simp: qs meters_ok_def ac events_of_def)
  next
    case False
    then have u: "meter_update ?k ?m = schedule_event (me_interval me) ?k 0 F_meter_update ?r"
      by (simp add: meter_update_def me(1))
    have "fault_state (schedule_event (me_interval me) ?k 0 F_meter_update ?r) = None"
      using assms(4) by (simp only: qs ac u)
    note f = events_of_schedule [OF schedule_room [OF this]]
    show ?thesis
      using assms(1) me o by (auto simp: qs meters_ok_def ac u f r)
  qed
qed

text \<open>C27: A connection to the meter has one timed event as long as its structure exists, an interval
  between 10 microseconds and 2 seconds and a buffer that is not overrun, whatever the client sends and
  the host answers; and the event that finds the connection closed frees it and is the last.\<close>

theorem meters_stay_ok:
  assumes "meters_ok m" "fault_state m' = None"
    and "fresh_meter mem m \<and> m' = meter_accept fd mem m \<or>
      meters m k \<noteq> None \<and> m' = meter_receive k m \<or>
      event_queue m = ta # q \<and> ta_call ta = F_meter_update \<and> m' = queue_step m"
  shows "meters_ok m'"
  using assms accept_meters_ok receive_meters_ok update_meters_ok by blast

section \<open>Commands\<close>

text \<open>A word and what ends it.\<close>

lemma strtok_word:
  assumes "w \<noteq> []" "\<forall>c \<in> set w. c \<notin> delim" "rest = [] \<or> hd rest \<in> delim"
  shows "strtok_words delim (w @ rest) = w # strtok_words delim rest"
proof -
  have 1: "dropWhile (\<lambda>c. c \<in> delim) (w @ rest) = w @ rest" using assms(1,2) by (cases w) auto
  have 2: "takeWhile (\<lambda>c. c \<notin> delim) (w @ rest) = w" "dropWhile (\<lambda>c. c \<notin> delim) (w @ rest) = rest"
    using assms(2,3) by (cases rest; simp add: takeWhile_append dropWhile_append)+
  show ?thesis using assms(1) by (subst strtok_words.simps) (simp add: 1 2)
qed

lemma strtok_skip: "d \<in> delim \<Longrightarrow> strtok_words delim (d # r) = strtok_words delim r"
  by (subst (1 2) strtok_words.simps) simp

lemma strtok_end: "strtok_words delim [] = []"
  by (subst strtok_words.simps) simp

lemma dec_string_chars: "c \<in> set (dec_string n) \<Longrightarrow> c \<notin> blanks \<and> c \<noteq> CHR 0x0a \<and> c \<noteq> CHR 0x00"
proof -
  assume "c \<in> set (dec_string n)"
  then obtain d where "d < 10" "c = hex_digit d" using dec_string_digits by blast
  then have "of_char c = (48 + d :: nat)" by (simp add: hex_digit_def)
  then show ?thesis by (auto simp: blanks_def)
qed

lemma interval_words:
  assumes "strtok_words blanks line = [w, dec_string n]" "map tolower w = ''interval''"
    and "10000 \<le> n" "n \<le> 2000000000"
  shows "processline line iv = (of_nat n, None)"
proof -
  have n: "strtoul 0 (dec_string n) = (of_nat n, [], False)"
    using c_number_dec [of n "[]" 0] assms by (simp add: strtoul_def)
  have lim: "\<not> (of_nat n :: u64) < MIN_METER_NSECS" "\<not> (of_nat n :: u64) > MAX_METER_NSECS"
    using assms by (simp_all add: word_less_nat_alt MIN_METER_NSECS_def MAX_METER_NSECS_def unat_of_nat)
  show ?thesis
    using lim assms(2) unfolding processline_def assms(1) Let_def by (simp add: n MAXWORDS_def)
qed

lemma interval_line:
  assumes "10000 \<le> n" "n \<le> 2000000000"
  shows "processline (''interval '' @ dec_string n @ [CHR 0x0d]) iv = (of_nat n, None)"
proof (rule interval_words [OF _ _ assms])
  have b: "CHR '' '' \<in> blanks" "CHR 0x0d \<in> blanks" by (simp_all add: blanks_def)
  have w: "\<forall>c \<in> set ''interval''. c \<notin> blanks" by (simp add: blanks_def)
  have "strtok_words blanks (''interval'' @ CHR '' '' # dec_string n @ [CHR 0x0d]) = [''interval'', dec_string n]"
    using b w dec_string_chars dec_string_not_Nil [of n]
    by (subst strtok_word) (simp_all add: strtok_skip strtok_word strtok_end)
  then show "strtok_words blanks (''interval '' @ dec_string n @ [CHR 0x0d]) = [''interval'', dec_string n]"
    by simp
  show "map tolower ''interval'' = ''interval''" by (simp add: tolower_def)
qed

lemma unat_of_char: "unat (of_char c :: u8) = of_char c"
proof -
  have "(of_char c :: u8) = of_nat (of_char c)" by (rule of_nat_of_char [symmetric])
  moreover have "(of_char c :: nat) < 256" by (rule nat_of_char_less_256)
  ultimately show ?thesis by (simp add: unat_of_nat)
qed

lemma byte_neq: "c \<noteq> d \<Longrightarrow> (of_char c :: u8) \<noteq> of_char d"
  using unat_of_char [of c] unat_of_char [of d] of_char_eqI [of c d, where 'a = nat] by auto

lemma bytes_chars: "map (\<lambda>b. char_of (unat b)) (map of_char s :: u8 list) = s"
  by (induction s) (simp_all add: unat_of_char)

text \<open>A line that is the whole of what waits.\<close>

lemma one_line:
  assumes "length (me_buf me) = METER_BUFSIZE" "take (me_bufpos me) (me_buf me) = map of_char (l @ [CHR 0x0a])"
    and "me_bufpos me = Suc (length l)" "\<forall>c \<in> set l. c \<noteq> CHR 0x0a \<and> c \<noteq> CHR 0x00"
    and "processline l (me_interval me) = (iv, ans)"
  shows "me_interval (fst (meter_lines (me, m))) = iv \<and> me_bufpos (fst (meter_lines (me, m))) = 0 \<and>
    snd (meter_lines (me, m)) = (case ans of None \<Rightarrow> m | Some s \<Rightarrow> meter_say (me_fd me) (s @ crlf) m)"
proof -
  have ne: "(of_char c :: u8) \<noteq> 10" "(of_char c :: u8) \<noteq> 0" if "c \<in> set l" for c
    using assms(4) that byte_neq [of c "CHR 0x0a"] byte_neq [of c "CHR 0x00"] by simp_all
  have len: "length l < METER_BUFSIZE"
    using arg_cong [OF assms(2), of length] assms(1,3) by (simp add: min_def split: if_splits)
  have tk: "take (me_bufpos me) (me_buf me) = map of_char l @ [10]" using assms(2) by simp
  have "takeWhile (\<lambda>b. b \<noteq> 10) (map of_char l @ [10 :: u8]) = map of_char l"
    using ne(1) by (subst takeWhile_append2) auto
  then have le: "line_end me = Some (length l)"
    unfolding line_end_def tk Let_def using assms(1,3) len by simp
  have buf: "(me_buf me)[length l := 0] = map of_char l @ 0 # drop (Suc (length l)) (me_buf me)"
  proof -
    have "me_buf me = map of_char l @ 10 # drop (Suc (length l)) (me_buf me)"
      using tk assms(3) append_take_drop_id [of "Suc (length l)" "me_buf me"] by simp
    then show ?thesis by (metis length_map list_update_length)
  qed
  have line: "takeWhile (\<lambda>b. b \<noteq> 0) ((me_buf me)[length l := 0]) = map of_char l"
    unfolding buf using ne(2) by (subst takeWhile_append2) auto
  obtain me' m' where ml: "meter_line (length l) (me, m) = (me', m')" by fastforce
  have r: "me_interval me' = iv" "me_bufpos me' = 0"
    "m' = (case ans of None \<Rightarrow> m | Some s \<Rightarrow> meter_say (me_fd me) (s @ crlf) m)"
    using ml assms(3,5) by (auto simp: meter_line_def Let_def line bytes_chars simp del: map_map)
  have "meter_lines (me, m) = (me', m')"
    using le ml r(2) by (subst meter_lines.simps, simp, subst meter_lines.simps, simp add: line_end_def)
  then show ?thesis using r by simp
qed

text \<open>A client sets its interval. When nothing waits in its buffer and the whole command
  \<open>interval <n>\<close> arrives at once, with an \<open>n\<close> within the limits, that is the interval from then on, the
  buffer is empty again and nothing is answered.\<close>

theorem interval_command:
  assumes "meters m k = Some me" "meter_ok me" "me_bufpos me = 0" "10000 \<le> n" "n \<le> 2000000000"
    and "a = host_sys m (host_log m) (Sys_read (me_fd me) 128)" "0 \<le> sys_ret a"
    and "sys_data a = map of_char (''interval '' @ dec_string n @ crlf)"
  shows "\<exists>me'. meters (meter_receive k m) k = Some me' \<and> me_interval me' = of_nat n \<and> me_bufpos me' = 0 \<and>
    host_log (meter_receive k m) = Sys_read (me_fd me) 128 # host_log m"
proof -
  let ?l = "''interval '' @ dec_string n @ [CHR 0x0d]"
  let ?bs = "map of_char (?l @ [CHR 0x0a]) :: u8 list"
  let ?me = "me\<lparr>me_buf := ?bs @ drop (length ?bs) (me_buf me), me_bufpos := length ?bs\<rparr>"
  let ?m = "run_sys (Sys_read (me_fd me) 128) m"
  have "length (dec_string n) \<le> 10" using assms(5) by (intro dec_string_length) simp_all
  then have d: "sys_data a = ?bs" "length ?bs \<le> 128" using assms(8) by (simp_all add: crlf_def)
  have lb: "length (me_buf me) = 128" using assms(2) by (simp add: meter_ok_def METER_BUFSIZE_def)
  have "meter_receive k m = (let (me1, m2) = meter_lines (?me, ?m) in m2\<lparr>meters := (meters m2)(k \<mapsto> me1)\<rparr>)"
    using assms(3,7) d
    by (simp add: meter_receive_def assms(1) do_sys_eq METER_BUFSIZE_def assms(6) [symmetric] del: map_append)
  moreover have "me_interval (fst (meter_lines (?me, ?m))) = of_nat n \<and> me_bufpos (fst (meter_lines (?me, ?m))) = 0 \<and>
      snd (meter_lines (?me, ?m)) = (case None of None \<Rightarrow> ?m | Some s \<Rightarrow> meter_say (me_fd ?me) (s @ crlf) ?m)"
  proof (rule one_line)
    show "length (me_buf ?me) = METER_BUFSIZE" using d(2) lb by (simp add: METER_BUFSIZE_def)
    show "take (me_bufpos ?me) (me_buf ?me) = map of_char (?l @ [CHR 0x0a])" by simp
    show "\<forall>c \<in> set ?l. c \<noteq> CHR 0x0a \<and> c \<noteq> CHR 0x00" using dec_string_chars by auto
    show "processline ?l (me_interval ?me) = (of_nat n, None)" by (rule interval_line [OF assms(4,5)])
  qed simp
  ultimately show ?thesis by (auto simp: case_prod_beta)
qed

text \<open>C39: A command that arrives in pieces is lost. The bytes of a read go to the front of the buffer and
  not behind what waits there: when they are as many, two clients that differ only in what waits end up
  the same.\<close>

theorem waiting_bytes_lost:
  assumes "meters m k = Some me" "me_bufpos me < METER_BUFSIZE" "length w1 = me_bufpos me" "length w2 = me_bufpos me"
    and "a = host_sys m (host_log m) (Sys_read (me_fd me) (METER_BUFSIZE - me_bufpos me))" "0 \<le> sys_ret a"
    and "me_bufpos me \<le> length (sys_data a)" "length (sys_data a) \<le> METER_BUFSIZE - me_bufpos me" "sys_data a \<noteq> []"
    and "m1 = m\<lparr>meters := (meters m)(k \<mapsto> me\<lparr>me_buf := w1 @ rest\<rparr>)\<rparr>"
    and "m2 = m\<lparr>meters := (meters m)(k \<mapsto> me\<lparr>me_buf := w2 @ rest\<rparr>)\<rparr>"
  shows "meters (meter_receive k m1) k = meters (meter_receive k m2) k \<and>
    host_log (meter_receive k m1) = host_log (meter_receive k m2)"
proof -
  let ?bs = "sys_data a" and ?c = "Sys_read (me_fd me) (METER_BUFSIZE - me_bufpos me)"
  have r: "meter_receive k m' = (let (me1, m2) = meter_lines (me\<lparr>me_buf := ?bs @ drop (length ?bs - me_bufpos me) rest,
          me_bufpos := me_bufpos me + length ?bs\<rparr>, run_sys ?c m') in m2\<lparr>meters := (meters m2)(k \<mapsto> me1)\<rparr>)"
    if "m' = m\<lparr>meters := (meters m)(k \<mapsto> me\<lparr>me_buf := w @ rest\<rparr>)\<rparr>" "length w = me_bufpos me" for m' w
    using assms(2,6-9) that
    by (simp add: meter_receive_def do_sys_eq assms(5) [symmetric] not_le Let_def)
  have lines: "fst (meter_lines (x, m1')) = fst (meter_lines (x, m2')) \<and>
      host_log (snd (meter_lines (x, m1'))) = host_log (snd (meter_lines (x, m2')))"
    if "host_log m1' = host_log m2'" for x m1' m2'
    using that
  proof (induction "(x, m1')" arbitrary: x m1' m2' rule: meter_lines.induct)
    case 1
    show ?case
    proof (cases "line_end x")
      case None
      then show ?thesis using 1(2) by (subst (1 2 3 4) meter_lines.simps) simp
    next
      case (Some p)
      obtain x1 n1 x2 n2 where l: "meter_line p (x, m1') = (x1, n1)" "meter_line p (x, m2') = (x2, n2)" by fastforce
      have e: "x2 = x1" "host_log n1 = host_log n2"
        using l 1(2) by (auto simp: meter_line_def Let_def split: prod.splits option.split)
      have "meter_lines (x, m1') = meter_lines (x1, n1)" "meter_lines (x, m2') = meter_lines (x1, n2)"
        using Some l e(1) by (subst meter_lines.simps, simp)+
      then show ?thesis using 1(1) [of p x1 n1 n2] Some l e by simp
    qed
  qed
  have "host_log (run_sys ?c m1) = host_log (run_sys ?c m2)" by (simp add: assms(10,11))
  from lines [OF this] show ?thesis
    using r [OF assms(10,3)] r [OF assms(11,4)] by (simp add: case_prod_beta)
qed

end
