(* ===== verification/Stat161.thy ===== *)
theory Stat161
  imports Meter_Ops
begin

text \<open>
  The program \<open>stat161\<close> (\<open>src/stat161/stat161.c\<close>): it connects to the meter of a running simulator and
  prints how the numbers of its reports change. \<open>stat161_shows_meter\<close> puts it together with the meter:
  what \<open>Meter\<close> writes, in whatever pieces it arrives, comes out as the differences between reports.

  The buffer is the bytes that wait in it; what is printed is a list of lines.
\<close>

section \<open>Fields\<close>

definition MAXFIELDS :: nat where "MAXFIELDS = 16"
definition MAXHEADERLEN :: nat where "MAXHEADERLEN = 16"
definition PROTO_VERSION :: int where "PROTO_VERSION = 2"

record field =
  f_lastval :: u64
  f_width :: u32
  f_header :: string

record stat161 =
  st_fields :: "field list"
  st_nfields :: nat
  st_since :: nat
  st_warned :: bool
  st_out :: "string list"
  st_err :: "string list"
  st_exited :: bool

definition stat_reset :: "stat161 \<Rightarrow> stat161" where
  "stat_reset st = st\<lparr>st_fields := replicate MAXFIELDS \<lparr>f_lastval = 0, f_width = 0, f_header = ''??''\<rparr>,
     st_nfields := 0, st_since := 10000\<rparr>"

definition stat_print :: "string \<Rightarrow> stat161 \<Rightarrow> stat161" where
  "stat_print s st = st\<lparr>st_out := st_out st @ [s]\<rparr>"

definition stat_complain :: "string \<Rightarrow> stat161 \<Rightarrow> stat161" where
  "stat_complain s st = st\<lparr>st_err := st_err st @ [s]\<rparr>"

definition getval :: "string \<Rightarrow> u64" where
  "getval s = fold (\<lambda>c v. v * 10 + of_nat (digit_value c)) (takeWhile (\<lambda>c. digit_value c < 10) s) 0"

definition widen :: "u32 \<Rightarrow> field \<Rightarrow> field" where
  "widen w f = (if w > f_width f then f\<lparr>f_width := w\<rparr> else f)"

definition set_header :: "string \<Rightarrow> field \<Rightarrow> field" where
  "set_header w f =
     (let h = take (MAXHEADERLEN - 1) w in (widen (of_nat (length h)) f)\<lparr>f_header := h\<rparr>)"

definition setheaders :: "string list \<Rightarrow> stat161 \<Rightarrow> stat161" where
  "setheaders words st =
     (let st1 = (if length words > MAXFIELDS \<and> \<not> st_warned st
            then (stat_complain ''stat161: Too many data fields; increase MAXFIELDS and recompile'' st)\<lparr>st_warned := True\<rparr>
            else st);
          ws = take MAXFIELDS words
      in st1\<lparr>st_fields := map2 set_header ws (st_fields st1) @ drop (length ws) (st_fields st1),
           st_nfields := length ws\<rparr>)"

definition setwidths :: "string list \<Rightarrow> stat161 \<Rightarrow> stat161" where
  "setwidths words st =
     (let ws = take MAXFIELDS words
      in st\<lparr>st_fields := map2 (\<lambda>w. widen (word_of_int (c_atoi w))) ws (st_fields st) @ drop (length ws) (st_fields st)\<rparr>)"

text \<open>\<open>%-*s\<close>: a width that is negative as an \<open>int\<close> is one with another flag for the left.\<close>

definition pad_left :: "u32 \<Rightarrow> string \<Rightarrow> string" where
  "pad_left w s = s @ replicate (nat \<bar>sint w\<bar> - length s) CHR '' ''"

definition header_line :: "field list \<Rightarrow> string" where
  "header_line fs = concat (map (\<lambda>f. pad_left (f_width f) (f_header f) @ '' '') fs)"

definition show_field :: "string \<Rightarrow> field \<Rightarrow> field \<times> string" where
  "show_field w f =
     (let val = getval w;
          tmp = dec_string (unat (val - f_lastval f));
          f1 = widen (of_nat (length tmp)) (f\<lparr>f_lastval := val\<rparr>)
      in (f1, pad_left (f_width f1) tmp @ '' ''))"

definition showdata :: "string list \<Rightarrow> stat161 \<Rightarrow> stat161" where
  "showdata words st =
     (if length words \<noteq> st_nfields st then stat_print ''stat161: Invalid packet (wrong number of fields)'' st
      else
        let st1 = (if st_since st > 21
              then (stat_print (header_line (take (st_nfields st) (st_fields st))) (stat_print [] st))\<lparr>st_since := 0\<rparr>
              else st);
            shown = map2 show_field words (st_fields st1);
            st2 = st1\<lparr>st_fields := map fst shown @ drop (length words) (st_fields st1)\<rparr>
        in (stat_print (concat (map snd shown)) st2)\<lparr>st_since := st_since st1 + 1\<rparr>)"

section \<open>Lines\<close>

definition stat_line :: "string \<Rightarrow> stat161 \<Rightarrow> stat161" where
  "stat_line line st =
     (case take 32 (strtok_words blanks line) of
        [] \<Rightarrow> st
      | w0 # ws \<Rightarrow>
          let cmd = map tolower w0 in
          if cmd = ''error'' then st
          else if cmd = ''hello'' \<and> length ws = 1 then
            let ver = c_atoi (hd ws) in
            if ver \<noteq> PROTO_VERSION then
              (stat_complain (''stat161: Wrong protocol version '' @ (if ver < 0 then CHR ''-'' # dec_string (nat (- ver))
                else dec_string (nat ver))) st)\<lparr>st_exited := True\<rparr>
            else st
          else if cmd = ''head'' \<and> ws \<noteq> [] then setheaders ws st
          else if cmd = ''width'' \<and> ws \<noteq> [] then setwidths ws st
          else if cmd = ''data'' \<and> ws \<noteq> [] then showdata ws st
          else if cmd = ''ok'' then st
          else if cmd = ''bad'' then stat_print (''stat161: sys161 error:'' @ concat (map (\<lambda>w. '' '' @ w) ws)) st
          else stat_print ''stat161: Invalid packet (improper header)'' st)"

text \<open>The complete lines of the buffer; \<open>exit\<close> ends it all.\<close>

definition STAT_BUFSIZE :: nat where "STAT_BUFSIZE = 4096"

definition LF :: char where "LF = CHR 0x0a"

function stat_lines :: "string \<Rightarrow> stat161 \<Rightarrow> string \<times> stat161" where
  "stat_lines buf st =
     (if st_exited st then ([], st)
      else if LF \<notin> set buf then (buf, st)
      else stat_lines (tl (dropWhile (\<lambda>c. c \<noteq> LF) buf)) (stat_line (c_string (takeWhile (\<lambda>c. c \<noteq> LF) buf)) st))"
  by pat_completeness auto
termination
proof (relation "measure (\<lambda>(buf, st). length buf)", simp)
  fix buf :: string and st :: stat161
  assume "\<not> LF \<notin> set buf"
  then have "dropWhile (\<lambda>c. c \<noteq> LF) buf \<noteq> []" by (simp add: dropWhile_eq_Nil_conv)
  then have "length (tl (dropWhile (\<lambda>c. c \<noteq> LF) buf)) < length (dropWhile (\<lambda>c. c \<noteq> LF) buf)" by (cases "dropWhile (\<lambda>c. c \<noteq> LF) buf") simp_all
  also have "\<dots> \<le> length buf" by (rule length_dropWhile_le)
  finally show "((tl (dropWhile (\<lambda>c. c \<noteq> LF) buf), stat_line (c_string (takeWhile (\<lambda>c. c \<noteq> LF) buf)) st), buf, st)
      \<in> measure (\<lambda>(buf, st). length buf)" by simp
qed

declare stat_lines.simps [simp del]

section \<open>A connection\<close>

text \<open>The state of a connection is the bytes that wait, and the rest.\<close>

definition stat_receive :: "string \<Rightarrow> string \<times> stat161 \<Rightarrow> string \<times> stat161" where
  "stat_receive bytes s =
     (let (buf, st) = s in
      if st_exited st then s
      else
        let (buf1, st1) = (if length buf = STAT_BUFSIZE then ([], stat_complain ''stat161: Input overrun'' st) else (buf, st))
        in stat_lines (buf1 @ take (STAT_BUFSIZE - length buf1) bytes) st1)"

text \<open>What the reads return, one after the other; the end of the list is a read that has not returned.\<close>

datatype read_result = Got string | Read_eof | Read_error string

primrec stat_reads :: "read_result list \<Rightarrow> string \<times> stat161 \<Rightarrow> stat161" where
  "stat_reads [] s = snd s"
| "stat_reads (r # rs) s =
     (if st_exited (snd s) then snd s
      else case r of
        Got bytes \<Rightarrow> stat_reads rs (stat_receive bytes s)
      | Read_eof \<Rightarrow> snd s
      | Read_error err \<Rightarrow> stat_complain (''stat161: read: '' @ err) (snd s))"

definition interval_request :: "u32 \<Rightarrow> string" where
  "interval_request interval = ''INTERVAL '' @ dec_string (unat interval) @ crlf"

text \<open>\<open>written\<close> is the error of the \<open>write\<close> of the interval, if it failed.\<close>

definition dometer :: "string option \<Rightarrow> read_result list \<Rightarrow> stat161 \<Rightarrow> stat161" where
  "dometer written rs st =
     (case written of
        Some err \<Rightarrow> stat_complain (''stat161: write: '' @ err) st
      | None \<Rightarrow> stat_reads rs ([], st))"

text \<open>One connection of \<open>loop\<close>, over when the simulator ends it.\<close>

definition stat_session :: "string option \<Rightarrow> read_result list \<Rightarrow> stat161 \<Rightarrow> stat161" where
  "stat_session written rs st =
     (let st1 = dometer written rs (stat_reset (stat_print ''stat161: Connected.'' st))
      in if st_exited st1 then st1 else stat_print ''stat161: Disconnected.'' st1)"

text \<open>What comes of \<open>opensock\<close>, and of the connection if there is one.\<close>

datatype opened =
    Opened "string option" "read_result list"
  | Refused
  | Connect_error string
  | Socket_error string

definition stat_connection :: "opened \<Rightarrow> stat161 \<Rightarrow> stat161" where
  "stat_connection c st =
     (if st_exited st then st
      else case c of
        Opened written rs \<Rightarrow> stat_session written rs st
      | Refused \<Rightarrow> st
      | Connect_error err \<Rightarrow> stat_complain (''stat161: connect: '' @ err) st
      | Socket_error err \<Rightarrow> (stat_complain (''stat161: socket: '' @ err) st)\<lparr>st_exited := True\<rparr>)"

definition stat_loop :: "opened list \<Rightarrow> stat161 \<Rightarrow> stat161" where
  "stat_loop cs st = fold stat_connection cs (stat_print ''stat161: Connecting...'' st)"

text \<open>
  The options as \<open>getopt\<close> gives them. \<open>secs\<close> is the floating point arithmetic: whether the number is
  more than 2, and the number of nanoseconds.
\<close>

datatype stat_start = Stat_usage | Stat_refuse string | Stat_interval u32

primrec stat_options :: "(string \<Rightarrow> bool \<times> u32) \<Rightarrow> (char \<times> string) list \<Rightarrow> u32 \<Rightarrow> stat_start" where
  "stat_options secs [] nsecs = Stat_interval nsecs"
| "stat_options secs (opt # opts) nsecs =
     (if fst opt = CHR ''i'' then
        let (large, n) = secs (snd opt)
        in if large then Stat_refuse ''Sampling interval too large (max is 2)''
           else if n < 10000 then Stat_refuse ''Sampling interval too small (min is 0.00001)''
           else stat_options secs opts n
      else Stat_usage)"

definition stat_main :: "(string \<Rightarrow> bool \<times> u32) \<Rightarrow> (char \<times> string) list \<Rightarrow> stat_start" where
  "stat_main secs opts = stat_options secs opts 200000000"

section \<open>Pieces\<close>

lemma exited_lines: "st_exited st \<Longrightarrow> stat_lines buf st = ([], st)"
  by (simp add: stat_lines.simps)

lemma line_step:
  assumes "\<not> st_exited st"
  shows "LF \<notin> set a \<Longrightarrow> stat_lines a st = (a, st)"
    "LF \<notin> set a \<Longrightarrow> stat_lines (a @ LF # b) st = stat_lines b (stat_line (c_string a) st)"
proof -
  show "LF \<notin> set a \<Longrightarrow> stat_lines a st = (a, st)" using assms by (simp add: stat_lines.simps)
  assume "LF \<notin> set a"
  then have "takeWhile (\<lambda>c. c \<noteq> LF) (a @ LF # b) = a" "dropWhile (\<lambda>c. c \<noteq> LF) (a @ LF # b) = LF # b"
    by (induction a) auto
  then show "stat_lines (a @ LF # b) st = stat_lines b (stat_line (c_string a) st)"
    using assms by (subst stat_lines.simps) simp
qed

lemma first_LF: "LF \<in> set buf \<Longrightarrow> \<exists>a b. buf = a @ LF # b \<and> LF \<notin> set a"
  by (meson split_list_first)

text \<open>Lines that arrive in two pieces.\<close>

lemma stat_lines_append:
  "stat_lines (a @ b) st = stat_lines (fst (stat_lines a st) @ b) (snd (stat_lines a st))"
proof (induction a arbitrary: st rule: length_induct)
  case (1 a)
  show ?case
  proof (cases "st_exited st \<or> LF \<notin> set a")
    case True
    then show ?thesis by (cases "st_exited st") (simp_all add: exited_lines line_step(1))
  next
    case False
    then obtain x y where a: "a = x @ LF # y" "LF \<notin> set x" using first_LF by blast
    then show ?thesis using 1 False by (simp add: line_step(2))
  qed
qed

text \<open>What waits has no newline and is the end of what came.\<close>

lemma stat_lines_rest: "LF \<notin> set (fst (stat_lines a st)) \<and> (\<exists>p. a = p @ fst (stat_lines a st))"
proof (induction a arbitrary: st rule: length_induct)
  case (1 a)
  show ?case
  proof (cases "st_exited st \<or> LF \<notin> set a")
    case True
    then show ?thesis by (cases "st_exited st") (auto simp: exited_lines line_step(1))
  next
    case False
    then obtain x y where a: "a = x @ LF # y" "LF \<notin> set x" using first_LF by blast
    have "LF \<notin> set (fst (stat_lines y st')) \<and> (\<exists>p. y = p @ fst (stat_lines y st'))" for st'
      using 1 a(1) by simp
    then show ?thesis using False a by (simp add: line_step(2)) (metis append_assoc append_Cons)
  qed
qed

text \<open>Each read gives at least a byte, and no more than there is room for.\<close>

primrec reads_fit :: "string list \<Rightarrow> string \<times> stat161 \<Rightarrow> bool" where
  "reads_fit [] s \<longleftrightarrow> True"
| "reads_fit (c # cs) s \<longleftrightarrow> c \<noteq> [] \<and> length (fst s) + length c \<le> STAT_BUFSIZE \<and> reads_fit cs (stat_receive c s)"

lemma stat_receive_lines:
  assumes "length (fst (stat_lines t st)) + length c \<le> STAT_BUFSIZE" "c \<noteq> []"
  shows "stat_receive c (stat_lines t st) = stat_lines (t @ c) st"
proof -
  obtain buf st1 where s: "stat_lines t st = (buf, st1)" by fastforce
  have a: "stat_lines (t @ c) st = stat_lines (buf @ c) st1" using stat_lines_append [of t c st] by (simp add: s)
  show ?thesis
  proof (cases "st_exited st1")
    case True
    have "buf = []"
      using stat_lines_append [of t "[]" st] exited_lines [OF True] by (simp add: s)
    then show ?thesis using True by (simp add: a s stat_receive_def exited_lines)
  next
    case False
    obtain k where "length c = Suc k" using assms(2) by (cases c) auto
    then have "length buf \<noteq> STAT_BUFSIZE" "take (STAT_BUFSIZE - length buf) c = c" using assms(1) by (simp_all add: s)
    then show ?thesis using False by (simp add: a s stat_receive_def)
  qed
qed

lemma stat_pieces:
  "reads_fit cs (stat_lines t st) \<Longrightarrow> fold stat_receive cs (stat_lines t st) = stat_lines (t @ concat cs) st"
proof (induction cs arbitrary: t)
  case (Cons c cs)
  have "stat_receive c (stat_lines t st) = stat_lines (t @ c) st" using Cons.prems by (intro stat_receive_lines) simp_all
  then show ?case using Cons.IH [of "t @ c"] Cons.prems by simp
qed simp

section \<open>Reports\<close>

lemma getval_dec: "getval (dec_string n) = of_nat n"
proof -
  have t: "takeWhile (\<lambda>c. digit_value c < 10) (dec_string n) = dec_string n"
    using digits_split(1) [where n = n and rest = "[]"] by simp
  have "fold (\<lambda>c v. v * 10 + of_nat (digit_value c)) ds (of_nat v :: u64) = of_nat (foldl (\<lambda>n c. 10 * n + digit_value c) v ds)" for ds v
  proof (induction ds arbitrary: v)
    case (Cons c ds)
    have "(of_nat v * 10 + of_nat (digit_value c) :: u64) = of_nat (10 * v + digit_value c)" by simp
    then show ?case using Cons [of "10 * v + digit_value c"] by (simp only: fold_Cons foldl_Cons comp_def)
  qed simp
  from this [of "dec_string n" 0] show ?thesis
    using dec_string_number [of n] by (simp add: getval_def t digits_number_def)
qed

definition plain_word :: "string \<Rightarrow> bool" where
  "plain_word w \<longleftrightarrow> w \<noteq> [] \<and> (\<forall>c \<in> set w. c \<notin> blanks \<and> c \<noteq> LF \<and> c \<noteq> NUL)"

lemma dec_plain: "plain_word (dec_string n)"
  using dec_string_chars [of _ n] dec_string_not_Nil [of n] by (auto simp: plain_word_def LF_def NUL_def)

text \<open>Words with blanks behind them.\<close>

lemma strtok_blanks: "\<forall>c \<in> set bs. c \<in> blanks \<Longrightarrow> strtok_words blanks (bs @ r) = strtok_words blanks r"
  by (induction bs) (simp_all add: strtok_skip)

lemma strtok_column:
  assumes "plain_word w"
  shows "strtok_words blanks (pad_left k w @ '' '' @ r) = w # strtok_words blanks r"
proof -
  have b: "CHR '' '' \<in> blanks" by (simp add: blanks_def)
  have "strtok_words blanks (w @ (replicate j (CHR '' '') @ CHR '' '' # r)) = w # strtok_words blanks (replicate j (CHR '' '') @ CHR '' '' # r)" for j
    using assms b by (intro strtok_word) (auto simp: plain_word_def hd_append split: if_splits)
  moreover have "strtok_words blanks (replicate j (CHR '' '') @ CHR '' '' # r) = strtok_words blanks r" for j
    using b by (subst strtok_blanks) (auto simp: strtok_skip)
  ultimately show ?thesis by (simp add: pad_left_def)
qed

lemma strtok_columns:
  "\<forall>(w, k) \<in> set ws. plain_word w \<Longrightarrow> strtok_words blanks (concat (map (\<lambda>(w, k). pad_left k w @ '' '') ws)) = map fst ws"
proof (induction ws)
  case (Cons x ws)
  then show ?case using strtok_column [of "fst x" "snd x"] by (auto simp: case_prod_beta)
qed (simp add: strtok_end)

lemma strtok_spaced:
  "\<forall>w \<in> set ws. plain_word w \<Longrightarrow> strtok_words blanks (concat (map (\<lambda>w. '' '' @ w) ws) @ [CHR 0x0d]) = ws"
proof (induction ws)
  case Nil
  then show ?case by (simp add: strtok_skip strtok_end blanks_def)
next
  case (Cons w ws)
  have b: "CHR '' '' \<in> blanks" "CHR 0x0d \<in> blanks" by (simp_all add: blanks_def)
  have h: "hd (concat (map (\<lambda>w. '' '' @ w) ws) @ [CHR 0x0d]) \<in> blanks" using b by (cases ws) simp_all
  have "strtok_words blanks (w @ (concat (map (\<lambda>w. '' '' @ w) ws) @ [CHR 0x0d])) =
      w # strtok_words blanks (concat (map (\<lambda>w. '' '' @ w) ws) @ [CHR 0x0d])"
    using Cons.prems h by (intro strtok_word) (auto simp: plain_word_def)
  then show ?case using Cons b by (simp add: strtok_skip)
qed

text \<open>What the fields are while a connection lasts: headers and last values of the first of them.\<close>

definition fields_ok :: "string list \<Rightarrow> u64 list \<Rightarrow> stat161 \<Rightarrow> bool" where
  "fields_ok hs vs st \<longleftrightarrow> \<not> st_exited st \<and> length (st_fields st) = MAXFIELDS \<and> st_nfields st = length vs \<and>
     length hs = length vs \<and> length vs \<le> MAXFIELDS \<and>
     map f_header (take (length vs) (st_fields st)) = hs \<and> map f_lastval (take (length vs) (st_fields st)) = vs"

lemma widen_sels [simp]: "f_header (widen w f) = f_header f" "f_lastval (widen w f) = f_lastval f"
  by (simp_all add: widen_def)

lemma show_field_sels:
  "f_lastval (fst (show_field w f)) = getval w" "f_header (fst (show_field w f)) = f_header f"
  "snd (show_field w f) = pad_left (f_width (fst (show_field w f))) (dec_string (unat (getval w - f_lastval f))) @ '' ''"
  by (simp_all add: show_field_def Let_def)

lemma zip_take: "length xs = n \<Longrightarrow> zip xs ys = zip xs (take n ys)"
  by (rule nth_equalityI) auto

lemma headers_shown:
  assumes "fields_ok hs vs st" "\<forall>h \<in> set hs. plain_word h"
  shows "strtok_words blanks (header_line (take (st_nfields st) (st_fields st))) = hs"
proof -
  let ?fs = "take (length vs) (st_fields st)"
  have n: "st_nfields st = length vs" and h: "map f_header ?fs = hs" using assms(1) by (simp_all add: fields_ok_def)
  have "header_line ?fs = concat (map (\<lambda>(w, k). pad_left k w @ '' '') (map (\<lambda>f. (f_header f, f_width f)) ?fs))"
    by (simp add: header_line_def comp_def)
  moreover have "\<forall>(w, k) \<in> set (map (\<lambda>f. (f_header f, f_width f)) ?fs). plain_word w"
    using assms(2) unfolding h [symmetric] by auto
  ultimately show ?thesis using strtok_columns [of "map (\<lambda>f. (f_header f, f_width f)) ?fs"] h n by (simp add: comp_def)
qed

lemma data_shown:
  assumes "fields_ok hs vs st" "length ns = length vs" "\<forall>h \<in> set hs. plain_word h"
    and "st' = showdata (map dec_string ns) st"
  shows "\<exists>out. st_out st' = st_out st @ out \<and> fields_ok hs (map of_nat ns) st' \<and> st_err st' = st_err st \<and>
    st_since st' = (if st_since st > 21 then 1 else st_since st + 1) \<and>
    map (strtok_words blanks) out = (if st_since st > 21 then [[], hs] else []) @
      [map2 (\<lambda>n v. dec_string (unat (of_nat n - v))) ns vs]"
proof -
  let ?n = "length vs" and ?ws = "map dec_string ns"
  define fs where "fs = take ?n (st_fields st)"
  define shown where "shown = map2 show_field ?ws (st_fields st)"
  have l: "length (st_fields st) = MAXFIELDS" "?n \<le> MAXFIELDS" "st_nfields st = ?n" and h: "map f_header fs = hs" and v: "map f_lastval fs = vs"
    using assms(1) by (simp_all add: fields_ok_def fs_def)
  have lf: "length fs = length ns" using l assms(2) by (simp add: fs_def)
  have z: "zip ?ws (st_fields st) = zip ?ws fs" using zip_take [of ?ws ?n "st_fields st"] assms(2) by (simp add: fs_def)
  have zn: "zip ns (st_fields st) = zip ns fs" using zip_take [of ns ?n "st_fields st"] assms(2) by (simp add: fs_def)
  have vs: "map2 (\<lambda>n v. dec_string (unat (of_nat n - v))) ns vs = map2 (\<lambda>n f. dec_string (unat (of_nat n - f_lastval f))) ns fs"
    unfolding v [symmetric] by (simp add: zip_map2 case_prod_beta)
  have row: "strtok_words blanks (concat (map snd shown)) = map2 (\<lambda>n v. dec_string (unat (of_nat n - v))) ns vs"
  proof -
    let ?cs = "map2 (\<lambda>n f. (dec_string (unat (of_nat n - f_lastval f)), f_width (fst (show_field (dec_string n) f)))) ns fs"
    have "map snd shown = map (\<lambda>(w, k). pad_left k w @ '' '') ?cs"
      by (simp add: shown_def zn zip_map1 case_prod_beta comp_def show_field_sels(3) getval_dec)
    moreover have "\<forall>(w, k) \<in> set ?cs. plain_word w" using dec_plain by auto
    ultimately show ?thesis using strtok_columns [of ?cs] by (simp add: vs case_prod_beta)
  qed
  have shown: "length shown = length ns" "map f_header (map fst shown) = hs" "map f_lastval (map fst shown) = map of_nat ns"
  proof -
    show "length shown = length ns" using lf by (simp add: shown_def z)
    have "map (f_header \<circ> snd) (zip ?ws fs) = map f_header fs"
      using lf by (simp add: map_snd_zip flip: map_map)
    then show "map f_header (map fst shown) = hs"
      by (simp add: shown_def z h case_prod_beta comp_def show_field_sels(2))
    have "map (getval \<circ> fst) (zip ?ws fs) = map getval ?ws"
      using lf by (simp add: map_fst_zip flip: map_map)
    then show "map f_lastval (map fst shown) = map of_nat ns"
      by (simp add: shown_def z case_prod_beta comp_def show_field_sels(1) getval_dec)
  qed
  define st1 where "st1 = (if st_since st > 21
      then (stat_print (header_line (take (st_nfields st) (st_fields st))) (stat_print [] st))\<lparr>st_since := 0\<rparr> else st)"
  have st1: "st_fields st1 = st_fields st" "st_nfields st1 = st_nfields st" "st_exited st1 = st_exited st" "st_err st1 = st_err st"
    "st_since st1 = (if st_since st > 21 then 0 else st_since st)"
    "st_out st1 = st_out st @ (if st_since st > 21 then [[], header_line (take (st_nfields st) (st_fields st))] else [])"
    by (simp_all add: st1_def stat_print_def)
  have st': "st' = (stat_print (concat (map snd shown)) (st1\<lparr>st_fields := map fst shown @ drop (length ?ws) (st_fields st)\<rparr>))\<lparr>st_since := st_since st1 + 1\<rparr>"
    unfolding assms(4) showdata_def Let_def st1_def [symmetric] st1(1) shown_def using l(3) assms(2) by simp
  let ?out = "(if st_since st > 21 then [[], header_line (take (st_nfields st) (st_fields st))] else []) @ [concat (map snd shown)]"
  have "st_out st' = st_out st @ ?out" by (simp add: st' stat_print_def st1(6))
  moreover have "fields_ok hs (map of_nat ns) st'"
    using assms(1,2) shown l by (simp add: fields_ok_def st' stat_print_def st1)
  moreover have "map (strtok_words blanks) ?out = (if st_since st > 21 then [[], hs] else []) @
      [map2 (\<lambda>n v. dec_string (unat (of_nat n - v))) ns vs]"
    using headers_shown [OF assms(1,3)] row by (simp add: strtok_end)
  ultimately show ?thesis by (intro exI [of _ ?out]) (simp add: st' stat_print_def st1)
qed

lemma headers_set:
  assumes "st_fields st = replicate MAXFIELDS \<lparr>f_lastval = 0, f_width = 0, f_header = ''??''\<rparr>" "\<not> st_exited st"
    and "length hs \<le> MAXFIELDS" "\<forall>h \<in> set hs. length h < MAXHEADERLEN"
  shows "fields_ok hs (replicate (length hs) 0) (setheaders hs st)" "st_out (setheaders hs st) = st_out st"
    "st_err (setheaders hs st) = st_err st" "st_since (setheaders hs st) = st_since st"
proof -
  let ?f = "\<lparr>f_lastval = 0, f_width = 0, f_header = ''??''\<rparr>"
  have z: "zip hs (replicate MAXFIELDS ?f) = map (\<lambda>h. (h, ?f)) hs"
    using assms(3) by (intro nth_equalityI) simp_all
  have "map (\<lambda>h. f_header (set_header h ?f)) hs = hs"
    using assms(4) by (intro map_idI) (force simp: set_header_def Let_def MAXHEADERLEN_def)
  then show "fields_ok hs (replicate (length hs) 0) (setheaders hs st)"
    using assms(2,3) by (simp add: fields_ok_def setheaders_def assms(1) z comp_def set_header_def Let_def map_replicate_const)
  show "st_out (setheaders hs st) = st_out st" "st_err (setheaders hs st) = st_err st" "st_since (setheaders hs st) = st_since st"
    using assms(3) by (simp_all add: setheaders_def Let_def)
qed

lemma widths_set:
  assumes "fields_ok hs vs st" "length ws = length vs"
  shows "fields_ok hs vs (setwidths ws st)" "st_out (setwidths ws st) = st_out st"
    "st_err (setwidths ws st) = st_err st" "st_since (setwidths ws st) = st_since st"
proof -
  let ?fs = "take (length vs) (st_fields st)"
  have l: "length (st_fields st) = MAXFIELDS" "length vs \<le> MAXFIELDS" using assms(1) by (simp_all add: fields_ok_def)
  have z: "zip ws (st_fields st) = zip ws ?fs" by (rule zip_take) (rule assms(2))
  have "map (f \<circ> snd) (zip ws ?fs) = map f ?fs" for f :: "field \<Rightarrow> 'a"
    using l assms(2) by (simp add: map_snd_zip flip: map_map)
  then have "map f_header (map2 (\<lambda>w. widen (word_of_int (c_atoi w))) ws ?fs) = map f_header ?fs"
    "map f_lastval (map2 (\<lambda>w. widen (word_of_int (c_atoi w))) ws ?fs) = map f_lastval ?fs"
    by (simp_all add: case_prod_beta comp_def)
  then show "fields_ok hs vs (setwidths ws st)"
    using assms l by (simp add: fields_ok_def setwidths_def z)
  show "st_out (setwidths ws st) = st_out st" "st_err (setwidths ws st) = st_err st" "st_since (setwidths ws st) = st_since st"
    by (simp_all add: setwidths_def Let_def)
qed

section \<open>The meter and its client\<close>

lemma text_words:
  assumes "plain_word w" "\<forall>x \<in> set ws. plain_word x"
  shows "strtok_words blanks (concat (w # map (\<lambda>x. '' '' @ x) ws) @ [CHR 0x0d]) = w # ws"
    "LF \<notin> set (concat (w # map (\<lambda>x. '' '' @ x) ws) @ [CHR 0x0d])"
    "c_string (concat (w # map (\<lambda>x. '' '' @ x) ws) @ [CHR 0x0d]) = concat (w # map (\<lambda>x. '' '' @ x) ws) @ [CHR 0x0d]"
proof -
  let ?r = "concat (map (\<lambda>x. '' '' @ x) ws)"
  have h: "hd (?r @ [CHR 0x0d]) \<in> blanks" by (cases ws) (simp_all add: blanks_def)
  have "strtok_words blanks (w @ (?r @ [CHR 0x0d])) = w # strtok_words blanks (?r @ [CHR 0x0d])"
    using assms(1) h by (intro strtok_word) (auto simp: plain_word_def)
  then show "strtok_words blanks (concat (w # map (\<lambda>x. '' '' @ x) ws) @ [CHR 0x0d]) = w # ws"
    using strtok_spaced [OF assms(2)] by simp
  let ?l = "concat (w # map (\<lambda>x. '' '' @ x) ws) @ [CHR 0x0d]"
  have n: "CHR '' '' \<noteq> LF" "CHR '' '' \<noteq> NUL" "CHR 0x0d \<noteq> LF" "CHR 0x0d \<noteq> NUL" by (simp_all add: LF_def NUL_def)
  have "c \<noteq> LF \<and> c \<noteq> NUL" if "c \<in> set ?l" for c
  proof -
    have "c \<in> set w \<or> (\<exists>x \<in> set ws. c \<in> set x) \<or> c = CHR '' '' \<or> c = CHR 0x0d" using that by (auto split: if_splits)
    moreover have "plain_word x \<Longrightarrow> c \<in> set x \<Longrightarrow> c \<noteq> LF \<and> c \<noteq> NUL" for x by (simp add: plain_word_def)
    ultimately show ?thesis using assms(1,2) n by metis
  qed
  then show "LF \<notin> set ?l" "c_string ?l = ?l" unfolding c_string_def takeWhile_eq_all_conv by blast+
qed

lemma text_line:
  assumes "plain_word w" "\<forall>x \<in> set ws. plain_word x" "\<not> st_exited st"
  shows "stat_lines (concat (w # map (\<lambda>x. '' '' @ x) ws) @ crlf @ b) st =
    stat_lines b (stat_line (concat (w # map (\<lambda>x. '' '' @ x) ws) @ [CHR 0x0d]) st)"
proof -
  have "x @ crlf @ b = (x @ [CHR 0x0d]) @ LF # b" for x by (simp add: crlf_def LF_def)
  then show ?thesis using line_step(2) [OF assms(3) text_words(2) [OF assms(1,2)], of b]
    unfolding text_words(3) [OF assms(1,2)] by (simp only:)
qed

text \<open>
  The words of what stat161 prints of the reports \<open>nss\<close>, when the reports before them had the values
  \<open>vs\<close> and it has printed \<open>since\<close> rows since the last line of names.
\<close>

primrec stat_rows :: "string list \<Rightarrow> nat \<Rightarrow> u64 list \<Rightarrow> nat list list \<Rightarrow> string list list" where
  "stat_rows hs since vs [] = []"
| "stat_rows hs since vs (ns # nss) =
     (if since > 21 then [[], hs] else []) @ [map2 (\<lambda>n v. dec_string (unat (of_nat n - v))) ns vs] @
     stat_rows hs (if since > 21 then 1 else since + 1) (map of_nat ns) nss"

definition data_text :: "nat list \<Rightarrow> string" where
  "data_text ns = concat (''DATA'' # map (\<lambda>n. '' '' @ dec_string n) ns) @ crlf"

lemma data_line:
  assumes "\<not> st_exited st" "ns \<noteq> []" "length ns < 32"
  shows "stat_lines (data_text ns @ b) st = stat_lines b (showdata (map dec_string ns) st)"
proof -
  have p: "plain_word ''DATA''" "\<forall>x \<in> set (map dec_string ns). plain_word x"
    using dec_plain by (auto simp: plain_word_def blanks_def LF_def NUL_def)
  have "take 32 (''DATA'' # map dec_string ns) = ''DATA'' # map dec_string ns" using assms(3) by simp
  moreover have "map tolower ''DATA'' = ''data''" by code_simp
  ultimately show ?thesis
    using text_words(1) [OF p] text_line [OF p assms(1)] assms(2) by (simp add: data_text_def stat_line_def comp_def)
qed

lemma reports_shown:
  assumes "fields_ok hs vs st" "\<forall>h \<in> set hs. plain_word h" "vs \<noteq> []"
    and "\<forall>ns \<in> set nss. length ns = length vs"
  shows "\<exists>out st'. stat_lines (concat (map data_text nss)) st = ([], st') \<and> st_out st' = st_out st @ out \<and>
    map (strtok_words blanks) out = stat_rows hs (st_since st) vs nss \<and> st_err st' = st_err st \<and> \<not> st_exited st'"
  using assms
proof (induction nss arbitrary: st vs)
  case Nil
  then show ?case using line_step(1) [of st "[]"] by (intro exI [of _ "[]"]) (simp add: fields_ok_def)
next
  case (Cons ns nss)
  have l: "length ns = length vs" using Cons.prems by simp
  obtain out1 where o: "st_out (showdata (map dec_string ns) st) = st_out st @ out1"
    "fields_ok hs (map of_nat ns) (showdata (map dec_string ns) st)"
    "st_err (showdata (map dec_string ns) st) = st_err st"
    "st_since (showdata (map dec_string ns) st) = (if st_since st > 21 then 1 else st_since st + 1)"
    "map (strtok_words blanks) out1 = (if st_since st > 21 then [[], hs] else []) @
      [map2 (\<lambda>n v. dec_string (unat (of_nat n - v))) ns vs]"
    using data_shown [OF Cons.prems(1) l Cons.prems(2) refl] by blast
  have "map of_nat ns \<noteq> ([] :: u64 list)" "\<forall>xs \<in> set nss. length xs = length (map of_nat ns :: u64 list)"
    using Cons.prems l by auto
  from Cons.IH [OF o(2) Cons.prems(2) this] obtain out2 st' where
    i: "stat_lines (concat (map data_text nss)) (showdata (map dec_string ns) st) = ([], st')"
    "st_out st' = st_out st @ out1 @ out2"
    "map (strtok_words blanks) out2 = stat_rows hs (if st_since st > 21 then 1 else st_since st + 1) (map of_nat ns) nss"
    "st_err st' = st_err st" "\<not> st_exited st'"
    unfolding o(1,3,4) by auto
  have "\<not> st_exited st" "ns \<noteq> []" "length ns < 32"
    using Cons.prems(1,3) l by (auto simp: fields_ok_def MAXFIELDS_def)
  from data_line [OF this, of "concat (map data_text nss)"] i o(5) show ?case
    by (intro exI [of _ "out1 @ out2"] exI [of _ st']) simp
qed

text \<open>What was written to a connection between two states of the simulator.\<close>

definition written :: "int \<Rightarrow> machine \<Rightarrow> machine \<Rightarrow> string" where
  "written fd m m' =
     concat (map (\<lambda>c. case c of Sys_write f bs \<Rightarrow> if f = fd then map (\<lambda>b. char_of (unat b)) bs else [] | _ \<Rightarrow> [])
       (rev (take (length (host_log m') - length (host_log m)) (host_log m'))))"

lemma written_says:
  "written fd m (meter_say fd s m) = s"
  "written fd m (meter_say fd s3 (meter_say fd s2 (meter_say fd s1 m))) = s1 @ s2 @ s3"
  by (simp_all add: written_def unat_of_char comp_def)

definition meter_names :: "string list" where
  "meter_names = [''nsec'', ''kinsns'', ''uinsns'', ''udud'', ''idle'', ''irqs'', ''exns'', ''disk'', ''con'', ''emu'', ''net'']"

definition meter_widths :: "string list" where
  "meter_widths = [''11'', ''9'', ''9'', ''4'', ''9'', ''4'', ''4'', ''4'', ''5'', ''4'', ''4'']"

definition greeting :: string where
  "greeting = concat (''HELLO'' # map (\<lambda>x. '' '' @ x) [''2'']) @ crlf @ concat (''HEAD'' # map (\<lambda>x. '' '' @ x) meter_names) @ crlf @
     concat (''WIDTH'' # map (\<lambda>x. '' '' @ x) meter_widths) @ crlf"

lemma written_greeting: "written fd m (meter_header fd (meter_hello fd m)) = greeting"
proof -
  have "dec_string PROTOCOL_VERSION = ''2''" by code_simp
  then show ?thesis
    unfolding meter_hello_def meter_header_def written_says
    by (simp add: greeting_def crlf_def meter_names_def meter_widths_def)
qed

lemma written_report:
  assumes "fault_state (meter_report fd m) = None"
  shows "written fd m (meter_report fd m) = data_text (meter_numbers m)"
proof -
  have "meter_report fd m = meter_say fd (data_text (meter_numbers m)) m"
    using assms by (auto simp: meter_report_def data_text_def smoke_def raise_fault_def split: if_splits option.splits)
  then show ?thesis by (simp add: written_says)
qed

lemma stat_line_commands:
  assumes "strtok_words blanks l = w # ws" "length ws < 31" "ws \<noteq> []"
  shows "map tolower w = ''head'' \<Longrightarrow> stat_line l st = setheaders ws st"
    "map tolower w = ''width'' \<Longrightarrow> stat_line l st = setwidths ws st"
    "map tolower w = ''hello'' \<Longrightarrow> ws = [v] \<Longrightarrow> c_atoi v = PROTO_VERSION \<Longrightarrow> stat_line l st = st"
  using assms by (simp_all add: stat_line_def Let_def)

text \<open>The lines a connection starts with.\<close>

lemma connected_fields:
  "st_fields (stat_reset st) = replicate MAXFIELDS \<lparr>f_lastval = 0, f_width = 0, f_header = ''??''\<rparr>"
  "st_out (stat_reset st) = st_out st" "st_err (stat_reset st) = st_err st" "st_since (stat_reset st) = 10000"
  "st_exited (stat_reset st) = st_exited st"
  by (simp_all add: stat_reset_def)

lemma names_plain:
  "plain_word ''HELLO''" "plain_word ''HEAD''" "plain_word ''WIDTH''" "\<forall>x \<in> set [''2'']. plain_word x"
  "\<forall>x \<in> set meter_names. plain_word x" "\<forall>x \<in> set meter_widths. plain_word x"
  by (simp_all add: plain_word_def meter_names_def meter_widths_def blanks_def LF_def NUL_def)

lemma greeted:
  assumes "\<not> st_exited st"
  defines "st1 \<equiv> setwidths meter_widths (setheaders meter_names (stat_reset st))"
  shows "stat_lines (greeting @ b) (stat_reset st) = stat_lines b st1"
    "fields_ok meter_names (replicate 11 0) st1" "st_out st1 = st_out st" "st_err st1 = st_err st" "st_since st1 = 10000"
proof -
  let ?r = "stat_reset st"
  have r: "\<not> st_exited ?r" using assms(1) by (simp add: stat_reset_def)
  have "length meter_names = 11" "length meter_names \<le> MAXFIELDS" "\<forall>h \<in> set meter_names. length h < MAXHEADERLEN"
    by (simp_all add: meter_names_def MAXFIELDS_def MAXHEADERLEN_def)
  note h = headers_set [OF connected_fields(1) r this(2,3), unfolded this(1)]
  have "length meter_widths = length (replicate 11 0 :: u64 list)" by (simp add: meter_widths_def)
  note w = widths_set [OF h(1) this]
  have e: "\<not> st_exited (setheaders meter_names ?r)" using h(1) by (simp add: fields_ok_def)
  show "fields_ok meter_names (replicate 11 0) st1" "st_out st1 = st_out st" "st_err st1 = st_err st" "st_since st1 = 10000"
    using w h by (simp_all add: st1_def connected_fields)
  have m: "map tolower ''HELLO'' = ''hello''" "map tolower ''HEAD'' = ''head''" "map tolower ''WIDTH'' = ''width''" by code_simp+
  have v: "c_atoi ''2'' = PROTO_VERSION" by code_simp
  have n: "meter_names \<noteq> []" "meter_widths \<noteq> []" "length meter_names < 31" "length meter_widths < 31"
    by (simp_all add: meter_names_def meter_widths_def)
  have l1: "stat_line (concat (''HELLO'' # map (\<lambda>x. '' '' @ x) [''2'']) @ [CHR 0x0d]) ?r = ?r"
    by (rule stat_line_commands(3) [OF text_words(1) [OF names_plain(1,4)] _ _ m(1) refl v]) simp_all
  have l2: "stat_line (concat (''HEAD'' # map (\<lambda>x. '' '' @ x) meter_names) @ [CHR 0x0d]) ?r = setheaders meter_names ?r"
    by (rule stat_line_commands(1) [OF text_words(1) [OF names_plain(2,5)] n(3,1) m(2)])
  have l3: "stat_line (concat (''WIDTH'' # map (\<lambda>x. '' '' @ x) meter_widths) @ [CHR 0x0d]) s = setwidths meter_widths s" for s
    by (rule stat_line_commands(2) [OF text_words(1) [OF names_plain(3,6)] n(4,2) m(3)])
  show "stat_lines (greeting @ b) ?r = stat_lines b st1"
    unfolding greeting_def append_assoc text_line [OF names_plain(1,4) r] l1 text_line [OF names_plain(2,5) r] l2
      text_line [OF names_plain(3,6) e] l3 st1_def ..
qed

lemma session_reads:
  "\<not> st_exited (snd s) \<Longrightarrow> \<not> st_exited (snd (fold stat_receive cs s)) \<Longrightarrow>
   stat_reads (map Got cs @ [Read_eof]) s = snd (fold stat_receive cs s)"
proof (induction cs arbitrary: s)
  case (Cons c cs)
  have x: "st_exited (snd (fold stat_receive cs t))" if "st_exited (snd t)" for t
    using that by (induction cs arbitrary: t) (simp_all add: stat_receive_def case_prod_beta)
  then have "\<not> st_exited (snd (stat_receive c s))" using Cons.prems(2) by (metis fold_Cons comp_apply)
  then show ?case using Cons.IH [of "stat_receive c s"] Cons.prems by simp
qed simp

text \<open>C31: What the meter writes to a connection (its greeting, the names and widths of the columns, and a
  report in each of the states \<open>ms\<close>), cut into whatever reads fit the buffer, \<open>stat161\<close> prints as it
  should: the names of the columns, again after every 22 rows, and a row for each report, with the
  differences to the report before modulo 2 to the 64; it complains of nothing.\<close>

theorem stat161_shows_meter:
  assumes "concat cs = written fd m0 (meter_header fd (meter_hello fd m0)) @ concat (map (\<lambda>m. written fd m (meter_report fd m)) ms)"
    and "reads_fit cs ([], stat_reset (stat_print ''stat161: Connected.'' st))"
    and "\<forall>m \<in> set ms. fault_state (meter_report fd m) = None" "\<not> st_exited st"
  shows "\<exists>out. st_out (stat_session None (map Got cs @ [Read_eof]) st) =
      st_out st @ ''stat161: Connected.'' # out @ [''stat161: Disconnected.''] \<and>
    map (strtok_words blanks) out = stat_rows meter_names 10000 (replicate 11 0) (map meter_numbers ms) \<and>
    st_err (stat_session None (map Got cs @ [Read_eof]) st) = st_err st"
proof -
  define s0 where "s0 = stat_print ''stat161: Connected.'' st"
  have s0: "\<not> st_exited s0" "\<not> st_exited (stat_reset s0)" "st_out s0 = st_out st @ [''stat161: Connected.'']" "st_err s0 = st_err st"
    using assms(4) by (simp_all add: s0_def stat_print_def stat_reset_def)
  have t: "concat cs = greeting @ concat (map data_text (map meter_numbers ms))"
  proof -
    have "map (\<lambda>m. written fd m (meter_report fd m)) ms = map data_text (map meter_numbers ms)"
      using assms(3) written_report by simp
    then show ?thesis by (simp only: assms(1) written_greeting)
  qed
  have empty: "stat_lines [] (stat_reset s0) = ([], stat_reset s0)" using line_step(1) [OF s0(2), of "[]"] by simp
  note g = greeted [OF s0(1)]
  have "length (meter_numbers m) = length (replicate 11 (0 :: u64))" for m by (simp add: meter_numbers_def Let_def)
  then obtain out st' where o: "stat_lines (concat cs) (stat_reset s0) = ([], st')" "st_out st' = st_out s0 @ out"
    "map (strtok_words blanks) out = stat_rows meter_names 10000 (replicate 11 0) (map meter_numbers ms)"
    "st_err st' = st_err s0" "\<not> st_exited st'"
    using reports_shown [OF g(2) names_plain(5), of "map meter_numbers ms"] unfolding t g by auto
  have "fold stat_receive cs ([], stat_reset s0) = ([], st')"
    using stat_pieces [of cs "[]" "stat_reset s0"] assms(2) o(1) empty by (simp add: s0_def)
  then have "stat_reads (map Got cs @ [Read_eof]) ([], stat_reset s0) = st'"
    using session_reads [of "([], stat_reset s0)" cs] s0(2) o(5) by simp
  then have "stat_session None (map Got cs @ [Read_eof]) st = stat_print ''stat161: Disconnected.'' st'"
    using o(5) by (simp add: stat_session_def dometer_def s0_def)
  then show ?thesis using o s0 by (intro exI [of _ out]) (simp add: stat_print_def)
qed

section \<open>The interval\<close>

lemma options_limits:
  "stat_options secs opts n = Stat_interval n' \<Longrightarrow> \<forall>w. fst (secs w) \<or> snd (secs w) \<le> 2000000000 \<Longrightarrow>
   10000 \<le> n \<Longrightarrow> n \<le> 2000000000 \<Longrightarrow> 10000 \<le> n' \<and> n' \<le> 2000000000"
proof (induction opts arbitrary: n)
  case (Cons opt opts)
  have "fst (secs (snd opt)) \<or> snd (secs (snd opt)) \<le> 2000000000" using Cons.prems(2) by blast
  then show ?case using Cons.IH Cons.prems(1,2)
    by (cases "secs (snd opt)") (auto simp: not_less split: if_splits)
qed simp

text \<open>
  Whatever its options, what the program asks for is an interval the meter takes, if the arithmetic
  does not find a number of at most 2 to be more than 2000000000 nanoseconds.
\<close>

theorem interval_accepted:
  assumes "\<forall>w. fst (secs w) \<or> snd (secs w) \<le> 2000000000" "stat_main secs opts = Stat_interval n"
  shows "\<exists>line. interval_request n = line @ [LF] \<and> LF \<notin> set line \<and> c_string line = line \<and>
    processline line iv = (ucast n, None)"
proof -
  let ?l = "concat (''INTERVAL'' # map (\<lambda>x. '' '' @ x) [dec_string (unat n)]) @ [CHR 0x0d]"
  have "10000 \<le> n \<and> n \<le> 2000000000"
    using options_limits [of secs opts 200000000 n] assms by (simp add: stat_main_def)
  then have n: "10000 \<le> unat n" "unat n \<le> 2000000000" by (simp_all add: word_le_nat_alt)
  have p: "plain_word ''INTERVAL''" "\<forall>x \<in> set [dec_string (unat n)]. plain_word x"
    using dec_plain by (simp_all add: plain_word_def blanks_def LF_def NUL_def)
  have "map tolower ''INTERVAL'' = ''interval''" by code_simp
  from interval_words [OF text_words(1) [OF p] this n, of iv]
  have "processline ?l iv = (ucast n, None)" by simp
  moreover have "interval_request n = ?l @ [LF]" by (simp add: interval_request_def crlf_def LF_def)
  ultimately show ?thesis using text_words(2,3) [OF p] by blast
qed

end
