(* ===== verification/Tool_Witnesses.thy ===== *)
theory Tool_Witnesses
  imports Dev_Witnesses Net_Path Disk_Tool Bus_Config Meter_Ops Stat161
begin

text \<open>
  Concrete inputs for the properties of the network card, of the hub and of the other programs beside
  the simulator.
\<close>

section \<open>The hub\<close>

text \<open>The first packet of the card with address 9, for the card with address 5.\<close>

definition w_pk :: hub_packet where
  "w_pk = \<lparr>pk_data = w_frame, pk_sun = [1, 2], pk_unix = True, pk_rlen = 20\<rparr>"

lemma hub_start_ok: "hub_ok hub_start"
  by (simp add: hub_ok_def hub_start_def array_ok_def array_create_def array_list_def)



lemma hub_keeps_ok_witness: "hub_ok (hub_round (\<lambda>_. True) (\<lambda>_ _. True) (Some w_pk) hub_start)"
  using hub_keeps_ok [OF hub_start_ok] by blast


lemma w_pk_sels [simp]: "pk_data w_pk = w_frame" "pk_sun w_pk = [1, 2]" "pk_unix w_pk" "pk_rlen w_pk = 20"
  by (simp_all add: w_pk_def)


section \<open>The network card\<close>

text \<open>A card set up in slot 4, and the program starts a packet.\<close>

definition w_fresh :: machine where
  "w_fresh = w0\<lparr>host_sys := w_hub, ta_free := 10\<rparr>"

definition w_card :: machine where
  "w_card = net_init 4 [''hwaddr=5''] w_nd 3 w_fresh"

lemma w_card_options: "net_options HUB_ADDR [''hwaddr=5''] = Some 5"
  by code_simp

lemma w_card_facts:
  "fault_state w_card = None" "ta_free w_card = 9" "nd_control (net_at w_card 4) = 0"
proof -
  let ?m = "put_device 4 (Net (w_nd\<lparr>nd_slot := 4, nd_status := ND_STATUS 5 False, nd_socket := 3,
    nd_lostcarrier := True\<rparr>)) w_fresh"
  have w: "w_card = keepalive 4 ?m"
    unfolding w_card_def net_init_def w_card_options by (simp add: BROADCAST_ADDR_def HUB_ADDR_def)
  define m2 where "m2 = run_sys (Sys_sendto 3 (link_header (net_hwaddr (net_at ?m 4)) 8 HUB_ADDR)) ?m"
  have a: "sys_ret (host_sys ?m l (Sys_sendto fd bs)) = -1" "sys_errno (host_sys ?m l (Sys_sendto fd bs)) = EOTHER" for l fd bs
    by (simp_all add: put_device_def w_fresh_def no_answer_def)
  have k: "w_card = schedule_event 1000000000 4 0 F_keepalive m2"
    unfolding w keepalive_def do_sys_eq Let_def prod.case a by (simp add: m2_def net_at_put)
  have m2: "ta_free m2 = 10" "fault_state m2 = None" "nd_control (net_at m2 4) = 0"
    by (simp_all add: m2_def net_at_put) (simp_all add: put_device_def w_fresh_def w0_def zero_machine_def)
  then show "fault_state w_card = None" "ta_free w_card = 9" "nd_control (net_at w_card 4) = 0"
    using schedule_event_eq [of m2 1000000000 4 0 F_keepalive] by (auto simp: k)
qed

lemma w_card_run: "net_run 4 w_card"
proof (rule net_run.start [OF _ _ w_card_def w_card_facts(1)])
  show "events_of F_triggersend 4 w_fresh = 0"
    by (simp add: events_of_def w_fresh_def w0_def zero_machine_def)
qed simp

lemma net_sending_invariant_witness:
  "events_of F_triggersend 4 (fst (net_store 4 NETREG_CONTROL NDC_START w_card)) = 1"
proof -
  let ?m = "fst (net_store 4 NETREG_CONTROL NDC_START w_card)"
  have m: "?m = upd_net 4 (\<lambda>nd. nd\<lparr>nd_control := NDC_START\<rparr>)
      (schedule_event NETWORK_LATENCY 4 0 F_triggersend w_card)"
    using w_card_facts(3) by (simp add: net_store_def setctl_def NET_defs)
  have f: "fault_state ?m = None"
    using schedule_event_eq [of w_card NETWORK_LATENCY 4 0 F_triggersend] w_card_facts by (auto simp: m)
  have "nd_control (net_at ?m 4) AND NDC_START \<noteq> 0" by (simp add: m)
  then show ?thesis
    using net_sending_invariant [OF net_run.store [OF w_card_run refl f]] by simp
qed



section \<open>Disk images\<close>

text \<open>A host without files on which every system call works.\<close>

definition w_tool :: tool where
  "w_tool = \<lparr>tl_files = (\<lambda>_. None), tl_works = (\<lambda>_. True), tl_calls = 0, tl_pos = 0\<rparr>"

lemma w_size: "getsize ''64k'' = Inr 65536"
  by code_simp

lemma w_create: "fst (docreate ''d'' ''64k'' True w_tool) = Some ()"
  by (simp add: docreate_def and_then_def create_guard_def doopen_create_def next_call_def tl_put_def doflock_def
      tool_getsize_def w_size give_def checksize_def MINSIZE_def MAXSIZE_def dotruncate_def HEADERSIZE_def
      SECTSIZE_def tool_writeheader_def dolseek_def tool_write_def w_tool_def Let_def)

lemma created_image_opens_witness:
  "tl_files (snd (docreate ''d'' ''64k'' True w_tool)) ''d'' = Some (disk_header @ replicate 65536 0) \<and>
   image_sectors (disk_header @ replicate 65536 0) 128"
proof -
  have "docreate ''d'' ''64k'' True w_tool = (Some (), snd (docreate ''d'' ''64k'' True w_tool))"
    using w_create by (simp add: prod_eq_iff)
  from created_image_opens [OF this] show ?thesis by (simp add: w_size)
qed

text \<open>The image just created, grown by half its size.\<close>

definition w_tool2 :: tool where
  "w_tool2 = w_tool\<lparr>tl_files := (\<lambda>_. None)(''d'' \<mapsto> disk_header @ replicate 65536 0)\<rparr>"





lemma create_empties_locked_image_witness:
  "tl_files (snd (docreate ''d'' ''64k'' True (w_tool2\<lparr>tl_works := (\<lambda>n. n = 0)\<rparr>))) ''d'' = Some []"
  using create_empties_locked_image [of "w_tool2\<lparr>tl_works := (\<lambda>n. n = 0)\<rparr>" "''d''" "''64k''"]
  by (auto simp: w_tool2_def w_tool_def)

lemma getsize_reads_decimal_witness: "getsize (dec_string 64 @ ''k'') = Inr 65536"
  using getsize_reads_decimal [of 64 "''k''" 1024] by (simp add: size_unit_def)

text \<open>A disk on that image whose tracks have two sectors each.\<close>

definition w_disk_host :: disk_host where
  "w_disk_host = \<lparr>dh_file = Some (disk_header @ replicate 65536 0), dh_open = True, dh_lock = True,
     dh_read = True, dh_write = True, dh_trunc = True, dh_stat = True, dh_bad = [], dh_mem = (\<lambda>_. 0),
     dh_physsectors = (\<lambda>n. n), dh_tracksectors = (\<lambda>_ _. 3)\<rparr>"

lemma w_tracks: "track_sectors (\<lambda>_. 3) is ds = Geometry (ds @ replicate (length is) 2)"
  by (induction "is" arbitrary: ds) simp_all

lemma w_fold: "((\<lambda>tot. tot + 2) ^^ k) 0 = (2 * of_nat k :: u32)"
  by (induction k) (simp_all add: algebra_simps)

lemma w_geometry: "compute_sectors w_disk_host 128 = Geometry (replicate 320 2)"
  by (simp add: compute_sectors_def w_disk_host_def w_tracks w_fold NUMTRACKS_def)

lemma w0_fault: "fault_state w0 = None"
  by (simp add: w0_def zero_machine_def)

lemma w_disk_init: "fault_state (disk_init 3 [''file=d'', ''rpm=7200''] (\<lambda>_. w_disk_host) w0) = None"
proof -
  have o: "disk_options [''file=d'', ''rpm=7200''] disk_defaults =
      Inr (disk_defaults\<lparr>do_filename := Some ''d'', do_rpm := 7200\<rparr>)"
    by code_simp
  have d: "disk_defaults\<lparr>do_filename := Some ''d'', do_rpm := 7200\<rparr> =
      \<lparr>do_rpm = 7200, do_totsectors = 0, do_filename = Some ''d'', do_paranoid = False, do_usedoom = True\<rparr>"
    by (simp add: disk_defaults_def)
  have h: "header_text (disk_header @ replicate 65536 0) = map of_char HEADER_MESSAGE"
    by (rule header_text_new)
  have op: "disk_open w_disk_host 0 dd = Some (dd\<lparr>dd_file := image_file (disk_header @ replicate 65536 0),
      dd_badsects := [], dd_totsectors := 128\<rparr>)" for dd
    by (simp add: disk_open_def disk_open_file_def w_disk_host_def readheader_def h header_length HEADERSIZE_def SECTSIZE_def)
  show ?thesis
    by (simp add: disk_init_def o d op w_geometry put_device_def case_prod_beta Let_def w0_fault
        del: disk_options.simps)
qed

lemma disk_init_covers_witness:
  "\<exists>dd. devices (disk_init 3 [''file=d'', ''rpm=7200''] (\<lambda>_. w_disk_host) w0) 3 = Some (Disk dd) \<and>
     128 \<le> dd_totsectors dd \<and> locate_sector dd 5 \<noteq> None"
proof -
  obtain dd where dd: "devices (disk_init 3 [''file=d'', ''rpm=7200''] (\<lambda>_. w_disk_host) w0) 3 = Some (Disk dd)"
    "128 \<le> dd_totsectors dd" "\<forall>s < dd_totsectors dd. \<exists>tr off. locate_sector dd s = Some (tr, off)"
    using disk_init_covers [OF w0_fault w_disk_init] by blast
  have "(5 :: u32) < 128" by simp
  then have "5 < dd_totsectors dd" using dd(2) by (rule less_le_trans)
  with dd show ?thesis by blast
qed

section \<open>A configuration\<close>

text \<open>Two cpus, half a megabyte of memory and a timer in slot 1; the size comes from a \<open>-C\<close> option.\<close>

definition w_conf :: string where
  "w_conf = ''31 mainboard cpus=2 # board'' @ [CHR 0x0a] @ ''1 timer'' @ [CHR 0x0a]"

definition w_ch :: config_host where
  "w_ch = \<lparr>ch_disk = (\<lambda>_. w_disk_host), ch_cram = (\<lambda>_ _. 0), ch_net = zero_net, ch_socket = (\<lambda>_. 0),
     ch_random = (\<lambda>_ _. 0), ch_time = 0, ch_ram = True\<rparr>"

lemma w_conf_lines: "fgets_lines w_conf = [''31 mainboard cpus=2 # board'' @ [CHR 0x0a], ''1 timer'' @ [CHR 0x0a]]"
  by code_simp

lemma w_conf_words:
  "line_words (''31 mainboard cpus=2 # board'' @ [CHR 0x0a]) = [''31'', ''mainboard'', ''cpus=2'']"
  "line_words (''1 timer'' @ [CHR 0x0a]) = [''1'', ''timer'']"
  "config_slot ''31'' = Some 31" "config_slot ''1'' = Some 1"
  "find_dev ''mainboard'' = Some (Dev_mainboard, True)" "find_dev ''timer'' = Some (Dev_timer, False)"
  "take_extras 31 [Some ''31:ramsize=512k''] [''31'', ''mainboard'', ''cpus=2''] =
     ([''31'', ''mainboard'', ''cpus=2'', ''ramsize=512k''], [None], True)"
  "take_extras 1 [None] [''1'', ''timer''] = ([''1'', ''timer''], [None], True)"
  "board_options False [''cpus=2'', ''ramsize=512k''] (0, 1, 1) = Inr (0x80000, 2, 1)"
  "extra_slot ''31:ramsize=512k'' = 31"
  by code_simp+

lemma w_config_any:
  assumes "fault_state m = None" "devices m = (\<lambda>_. None)"
  shows "fault_state (fst (bus_config w_ch (Some w_conf) [''31:ramsize=512k''] m)) = None"
    "bus_ramsize (fst (bus_config w_ch (Some w_conf) [''31:ramsize=512k''] m)) = 0x80000"
    "host_sys (fst (bus_config w_ch (Some w_conf) [''31:ramsize=512k''] m)) = host_sys m"
proof -
  have e: "check_extra ''31:ramsize=512k'' m = m"
    by (simp add: check_extra_def then_run_def w_conf_words BUS_SLOTS_def)
  define w1 where "w1 = lamebus_commonmainboard_init False 31 [''cpus=2'', ''ramsize=512k''] (ch_cram w_ch) m"
  have u: "[0..<2] = [0, 1 :: nat]" by (simp add: upt_rec)
  have w1: "fault_state w1 = None" "devices w1 = devices m" "bus_ramsize w1 = 0x80000" "host_sys w1 = host_sys m"
    by (simp_all add: w1_def lamebus_commonmainboard_init_def w_conf_words CONTROLLER_SLOT_def board_cpu_frame assms(1)
        u board_cpu_def Let_def del: board_options.simps upt.simps)
  have r: "ch_ram w_ch" by (simp add: w_ch_def)
  have pd: "fault_state (put_device s d x) = fault_state x" "bus_ramsize (put_device s d x) = bus_ramsize x"
    "host_sys (put_device s d x) = host_sys x" for s d x
    by (simp_all add: put_device_def)
  have l1: "config_line w_ch (''31 mainboard cpus=2 # board'' @ [CHR 0x0a]) (m, [Some ''31:ramsize=512k'']) =
      (put_device 31 (Mainboard False) w1, [None])"
    by (simp add: config_line_def w_conf_words assms MAXARGS_def CONTROLLER_SLOT_def dev_init_def w1_def
        del: take_extras.simps append.simps)
  have l2: "config_line w_ch (''1 timer'' @ [CHR 0x0a]) (put_device 31 (Mainboard False) w1, [None]) =
      (put_device 1 (Timer (timer_init 1)) (put_device 31 (Mainboard False) w1), [None])"
    by (simp add: config_line_def w_conf_words w1 assms(2) put_device_def MAXARGS_def CONTROLLER_SLOT_def dev_init_def
        del: take_extras.simps append.simps)
  show "fault_state (fst (bus_config w_ch (Some w_conf) [''31:ramsize=512k''] m)) = None"
    "bus_ramsize (fst (bus_config w_ch (Some w_conf) [''31:ramsize=512k''] m)) = 0x80000"
    "host_sys (fst (bus_config w_ch (Some w_conf) [''31:ramsize=512k''] m)) = host_sys m"
    by (simp_all add: bus_config_def e w_conf_lines l1 l2 then_run_def config_memory_def r w1 pd MAXMEM_def
        Let_def del: append.simps)
qed

lemma w_config: "fault_state (fst (bus_config w_ch (Some w_conf) [''31:ramsize=512k''] w0)) = None"
  by (rule w_config_any) (simp_all add: w0_def zero_machine_def)

lemma bus_config_sound_witness: "bus_sound (fst (bus_config w_ch (Some w_conf) [''31:ramsize=512k''] w0))"
  using bus_config_sound [OF _ _ _ prod.collapse [symmetric] w_config] by (simp add: w0_def zero_machine_def)

section \<open>The meter\<close>

text \<open>A first client of the meter, and one that sends a command.\<close>

definition w_free :: machine where "w_free = w0\<lparr>ta_free := 5\<rparr>"

definition w_me :: meter_data where
  "w_me = \<lparr>me_interval = DEFAULT_METER_NSECS, me_fd = 3, me_buf = replicate 128 0, me_bufpos = 0\<rparr>"

lemma w_me_ok: "meter_ok w_me"
  by (simp add: meter_ok_def w_me_def METER_BUFSIZE_def DEFAULT_METER_NSECS_def MIN_METER_NSECS_def MAX_METER_NSECS_def)

lemma w_accept: "fault_state (meter_accept 3 (Some (0, replicate 128 0)) w_free) = None"
  by (simp add: meter_accept_def meter_update_def Let_def meter_header_def meter_hello_def meter_report_def meter_say_def
      percpu_total_def w_free_def w0_simps run_sys_def do_sys_def schedule_event_def host_next_random_def no_answer_def
      DEFAULT_METER_NSECS_def)

lemma meters_stay_ok_witness: "meters_ok (meter_accept 3 (Some (0, replicate 128 0)) w_free)"
proof -
  have "meters_ok w_free" by (simp add: meters_ok_def events_of_def w_free_def w0_simps)
  moreover have "fresh_meter (Some (0, replicate 128 0)) w_free"
    by (simp add: fresh_meter_def w_free_def w0_simps METER_BUFSIZE_def)
  ultimately show ?thesis using meters_stay_ok [OF _ w_accept] by blast
qed

definition w_answer :: "string \<Rightarrow> sys_answer" where
  "w_answer s = no_answer\<lparr>sys_ret := int (length s), sys_data := map of_char s\<rparr>"

definition w_client :: "string \<Rightarrow> machine" where
  "w_client s = w0\<lparr>host_sys := (\<lambda>_ _. w_answer s), meters := [0 \<mapsto> w_me]\<rparr>"

lemma w_client_sels [simp]:
  "meters (w_client s) 0 = Some w_me" "host_sys (w_client s) l c = w_answer s" "host_log (w_client s) = []"
  by (simp_all add: w_client_def w0_simps)

lemma w_digits: "hex_digit 5 = CHR ''5''" "hex_digit 0 = CHR ''0''"
  by code_simp+

lemma w_dec: "dec_string 50000 = ''50000''"
  by (simp add: dec_string.simps [of 50000] dec_string.simps [of 5000] dec_string.simps [of 500] dec_string.simps [of 50]
      dec_string.simps [of 5] w_digits)

lemma interval_command_witness:
  "\<exists>me. meters (meter_receive 0 (w_client (''interval 50000'' @ crlf))) 0 = Some me \<and> me_interval me = 50000"
proof -
  let ?s = "''interval 50000'' @ crlf"
  have d: "sys_data (w_answer ?s) = map of_char (''interval '' @ dec_string 50000 @ crlf)"
    unfolding w_answer_def w_dec by simp
  have "\<exists>me. meters (meter_receive 0 (w_client ?s)) 0 = Some me \<and> me_interval me = of_nat 50000 \<and> me_bufpos me = 0 \<and>
      host_log (meter_receive 0 (w_client ?s)) = Sys_read (me_fd w_me) 128 # host_log (w_client ?s)"
  proof (rule interval_command [OF w_client_sels(1) w_me_ok _ _ _ w_client_sels(2) [symmetric] _ d])
    show "me_bufpos w_me = 0" by (simp add: w_me_def)
    show "0 \<le> sys_ret (w_answer ?s)" by (simp add: w_answer_def)
  qed simp_all
  then show ?thesis by auto
qed

text \<open>The second half of a command, behind a first half of which nothing is left.\<close>

lemma waiting_bytes_lost_witness:
  "meters (meter_receive 0 (w_client ''val 50000''\<lparr>meters := [0 \<mapsto> w_me\<lparr>me_buf := map of_char ''inter'' @ replicate 123 0, me_bufpos := 5\<rparr>]\<rparr>)) 0 =
   meters (meter_receive 0 (w_client ''val 50000''\<lparr>meters := [0 \<mapsto> w_me\<lparr>me_buf := map of_char ''XXXXX'' @ replicate 123 0, me_bufpos := 5\<rparr>]\<rparr>)) 0"
proof -
  let ?me = "w_me\<lparr>me_bufpos := 5\<rparr>"
  let ?m = "w_client ''val 50000''\<lparr>meters := [0 \<mapsto> ?me]\<rparr>"
  have r: "w_client ''val 50000''\<lparr>meters := [0 \<mapsto> w_me\<lparr>me_buf := b, me_bufpos := 5\<rparr>]\<rparr> =
      ?m\<lparr>meters := (meters ?m)(0 \<mapsto> ?me\<lparr>me_buf := b\<rparr>)\<rparr>" for b
    by (simp add: w_me_def)
  show ?thesis
    unfolding r
    by (rule waiting_bytes_lost [where me = ?me and m = ?m and rest = "replicate 123 0" and a = "w_answer ''val 50000''"
          and ?w1.0 = "map of_char ''inter''" and ?w2.0 = "map of_char ''XXXXX''", THEN conjunct1])
      (simp_all add: METER_BUFSIZE_def w_answer_def)
qed

section \<open>The client of the meter\<close>

text \<open>Two reports, between which there were five interrupts; all in one piece.\<close>

definition w_report :: "u32 \<Rightarrow> machine" where
  "w_report n = w0\<lparr>g_stats := zero_stats\<lparr>s_irqs := n\<rparr>\<rparr>"

definition w_stat :: stat161 where
  "w_stat = \<lparr>st_fields = [], st_nfields = 0, st_since = 100000, st_warned = False, st_out = [], st_err = [], st_exited = False\<rparr>"

lemma w_total: "percpu_total sp_ucycles (w_report n) = 0" "percpu_total sp_kcycles (w_report n) = 0"
  "percpu_total sp_uretired (w_report n) = 0" "percpu_total sp_kretired (w_report n) = 0"
  "percpu_total (\<lambda>p. sp_icycles p + s_tot_icycles (g_stats (w_report n))) (w_report n) = 0"
  by (simp_all add: percpu_total_def w_report_def w0_def zero_machine_def zero_stats_def zero_percpu_def)

lemma w_meter_report: "fault_state (meter_report fd (w_report n)) = None"
  by (simp add: meter_report_def w_total) (simp add: w_report_def w0_def zero_machine_def)

lemma w_numbers: "meter_numbers (w_report n) = [0, 0, 0, 0, 0, unat n, 0, 0, 0, 0, 0]"
  unfolding meter_numbers_def Let_def w_total
  by (simp add: clock_monotime_def) (simp add: w_report_def w0_def zero_machine_def zero_stats_def clock_vnow_def)

lemma stat161_shows_meter_witness:
  "\<exists>cs out. st_out (stat_session None (map Got cs @ [Read_eof]) w_stat) = ''stat161: Connected.'' # out @ [''stat161: Disconnected.''] \<and>
   map (strtok_words blanks) out = [[], meter_names,
     map dec_string [0, 0, 0, 0, 0, 7, 0, 0, 0, 0, 0], map dec_string [0, 0, 0, 0, 0, 5, 0, 0, 0, 0, 0]]"
proof -
  let ?ms = "[w_report 7, w_report 12]"
  let ?c = "written 3 w0 (meter_header 3 (meter_hello 3 w0)) @ concat (map (\<lambda>m. written 3 m (meter_report 3 m)) ?ms)"
  have "?c = greeting @ data_text (meter_numbers (w_report 7)) @ data_text (meter_numbers (w_report 12))"
    by (simp add: written_greeting written_report w_meter_report)
  moreover have "dec_string 0 = ''0''" "dec_string 7 = ''7''" "dec_string 12 = ''12''" by code_simp+
  ultimately have "length ?c = 158" unfolding w_numbers greeting_def data_text_def
    by (simp add: crlf_def meter_names_def meter_widths_def)
  then have "?c \<noteq> []" "length ?c \<le> STAT_BUFSIZE" by (auto simp: STAT_BUFSIZE_def)
  then have "reads_fit [?c] ([], stat_reset (stat_print ''stat161: Connected.'' w_stat))" by simp
  from stat161_shows_meter [OF _ this, of 3 w0 ?ms] obtain out where
    o: "st_out (stat_session None (map Got [?c] @ [Read_eof]) w_stat) = ''stat161: Connected.'' # out @ [''stat161: Disconnected.'']"
    "map (strtok_words blanks) out = stat_rows meter_names 10000 (replicate 11 0) (map meter_numbers ?ms)"
    by (auto simp: w_meter_report w_stat_def)
  have "replicate 11 (0 :: u64) = [0, 0, 0, 0, 0, 0, 0, 0, 0, 0, 0]" by (simp add: numeral_eq_Suc)
  then have "map (strtok_words blanks) out = [[], meter_names,
      map dec_string [0, 0, 0, 0, 0, 7, 0, 0, 0, 0, 0], map dec_string [0, 0, 0, 0, 0, 5, 0, 0, 0, 0, 0]]"
    using o(2) by (simp add: w_numbers)
  then show ?thesis using o(1) by (intro exI [of _ "[?c]"] exI [of _ out] conjI)
qed

end
