(* ===== verification/Console.thy ===== *)
theory Console
  imports C_Text
begin

text \<open>
  The console (\<open>main/console.c\<close>): where the characters of the simulated console, the simulator's own
  messages and the traces go, how they share lines, and the settings of the terminal.

  A \<open>FILE\<close> is the text that was written to it and how much of it was flushed. The three outputs are
  \<open>None\<close> where the code has NULL. A message is its text, formatted; the formats are their callers'.
  Of the terminal the code reads and writes the settings, here the flags it touches, and asks whether it
  is in the foreground.
\<close>

section \<open>Outputs\<close>

datatype msgtypes = MT_CONSOLE | MT_MSG | MT_CPUTRACE | MT_HWTRACE

record out_file =
  o_text :: string
  o_flushed :: nat
  o_fd :: int
  o_needs_close :: bool
  o_is_tty :: bool
  o_needs_crs :: bool
  o_at_bol :: bool
  o_last_msgtype :: msgtypes
  o_last_cpunum :: nat

text \<open>The settings of a terminal; \<open>None\<close> for a file that is none.\<close>

record termios =
  c_xcase :: bool
  c_icanon :: bool
  c_echo :: bool
  c_echonl :: bool
  c_noflsh :: bool
  c_isig :: bool
  c_icrnl :: bool
  c_inlcr :: bool
  c_cread :: bool
  c_onlcr :: bool
  c_vtime :: nat
  c_vmin :: nat

definition tty_checkcrs :: "termios option \<Rightarrow> out_file \<Rightarrow> out_file" where
  "tty_checkcrs tios o1 =
     (case tios of
        None \<Rightarrow> o1\<lparr>o_is_tty := False, o_needs_crs := False\<rparr>
      | Some t \<Rightarrow> o1\<lparr>o_is_tty := True, o_needs_crs := c_onlcr t\<rparr>)"

definition output_create :: "int \<Rightarrow> bool \<Rightarrow> termios option \<Rightarrow> out_file" where
  "output_create fd needs_close tios =
     tty_checkcrs tios \<lparr>o_text = [], o_flushed = 0, o_fd = fd, o_needs_close = needs_close, o_is_tty = False,
       o_needs_crs = False, o_at_bol = True, o_last_msgtype = MT_MSG, o_last_cpunum = 0\<rparr>"

definition newline :: char where "newline = CHR 0x0a"

definition file_flush :: "out_file \<Rightarrow> out_file" where
  "file_flush o1 = o1\<lparr>o_flushed := length (o_text o1)\<rparr>"

definition output_say :: "string \<Rightarrow> out_file \<Rightarrow> out_file" where
  "output_say s o1 = o1\<lparr>o_text := o_text o1 @ s\<rparr>"

text \<open>\<open>fputc\<close> writes the low byte of its argument.\<close>

definition output_putc :: "u32 \<Rightarrow> out_file \<Rightarrow> out_file" where
  "output_putc c o1 = output_say [char_of (unat c)] o1"

definition output_eol :: "out_file \<Rightarrow> out_file" where
  "output_eol o1 = output_putc 10 (if o_needs_crs o1 then output_putc 13 o1 else o1)"

definition output_flush :: "out_file \<Rightarrow> out_file" where
  "output_flush o1 = file_flush (if o_at_bol o1 then o1 else (output_eol o1)\<lparr>o_at_bol := True\<rparr>)"

text \<open>A line that something else has begun ends first.\<close>

definition output_switch :: "msgtypes \<Rightarrow> nat \<Rightarrow> out_file \<Rightarrow> out_file" where
  "output_switch mt cpu o1 =
     (if \<not> o_at_bol o1 \<and> (o_last_msgtype o1 \<noteq> mt \<or> cpu \<noteq> o_last_cpunum o1)
      then (output_eol o1)\<lparr>o_at_bol := True\<rparr> else o1)"

definition output_char :: "msgtypes \<Rightarrow> nat \<Rightarrow> u32 \<Rightarrow> out_file \<Rightarrow> out_file" where
  "output_char mt cpu c o1 =
     (let o2 = output_switch mt cpu o1;
          o3 = (if c = 10 then (output_putc c (if o_needs_crs o2 then output_putc 13 o2 else o2))\<lparr>o_at_bol := True\<rparr>
                else (output_putc c o2)\<lparr>o_at_bol := False\<rparr>)
      in o3\<lparr>o_last_msgtype := mt, o_last_cpunum := cpu\<rparr>)"

definition msg_prefix :: "msgtypes \<Rightarrow> nat \<Rightarrow> string" where
  "msg_prefix mt cpu =
     (case mt of
        MT_CONSOLE \<Rightarrow> ''console: ''
      | MT_MSG \<Rightarrow> ''sys161: ''
      | MT_CPUTRACE \<Rightarrow> ''trace: '' @ hex_pad 2 cpu @ '' ''
      | MT_HWTRACE \<Rightarrow> ''trace: -- '')"

definition output_vmsgl :: "msgtypes \<Rightarrow> nat \<Rightarrow> string \<Rightarrow> out_file \<Rightarrow> out_file" where
  "output_vmsgl mt cpu s o1 =
     (let o2 = output_switch mt cpu o1;
          o3 = (if o_at_bol o2 then output_say (msg_prefix mt cpu) o2 else o2)
      in (output_say s o3)\<lparr>o_at_bol := False, o_last_msgtype := mt, o_last_cpunum := cpu\<rparr>)"

definition output_vmsg :: "msgtypes \<Rightarrow> nat \<Rightarrow> string \<Rightarrow> out_file \<Rightarrow> out_file" where
  "output_vmsg mt cpu s o1 = (output_eol (output_vmsgl mt cpu s o1))\<lparr>o_at_bol := True\<rparr>"

section \<open>The console\<close>

datatype out_id = To_stdout | To_stderr | To_tracefile

text \<open>The signals the code names, and what it does with them.\<close>

datatype sig = SIGHUP | SIGINT | SIGQUIT | SIGILL | SIGABRT | SIGFPE | SIGKILL | SIGBUS | SIGSEGV | SIGALRM
  | SIGTERM | SIGURG | SIGUSR1 | SIGUSR2 | SIGXCPU | SIGXFSZ | SIGVTALRM | SIGPROF | SIGPWR | SIGPIPE
  | SIGTSTP | SIGCONT | SIGSTOP

datatype sig_handler = SIG_DFL | SIG_IGN | Console_sig | On_stop | On_cont

text \<open>\<open>con_term\<close> has the settings of the terminal now, if standard input is one, and \<open>con_foreground\<close>
  whether the simulator is in its foreground; \<open>con_fds\<close> the settings \<open>tcgetattr\<close> finds for a file;
  \<open>con_polled\<close> whether \<open>onselect\<close> watches standard input; \<open>con_raised\<close> the signals it raised itself, the
  latest first, \<open>con_released\<close> the outputs that were given up, \<open>con_smoked\<close> whether it aborted in a signal handler, and \<open>con_undefined\<close> whether it used an output that is NULL.\<close>

record console =
  con_stdout :: "out_file option"
  con_stderr :: "out_file option"
  con_tracefile :: "out_file option"
  con_trace_to :: out_id
  stdin_generates_signals :: bool
  stdin_is_tty :: bool
  stdin_tty_active :: bool
  got_stdin_tios :: bool
  stdin_savetios :: termios
  stdin_runtios :: termios
  console_up :: bool
  con_evil :: bool
  con_term :: "termios option"
  con_foreground :: bool
  con_fds :: "int \<Rightarrow> termios option"
  con_polled :: bool
  con_handlers :: "sig \<Rightarrow> sig_handler"
  con_raised :: "sig list"
  con_released :: "out_file list"
  con_smoked :: bool
  con_undefined :: bool

definition upd_stdout :: "(out_file \<Rightarrow> out_file) \<Rightarrow> console \<Rightarrow> console" where
  "upd_stdout f c =
     (case con_stdout c of None \<Rightarrow> c\<lparr>con_undefined := True\<rparr> | Some o1 \<Rightarrow> c\<lparr>con_stdout := Some (f o1)\<rparr>)"

definition upd_tracefile :: "(out_file \<Rightarrow> out_file) \<Rightarrow> console \<Rightarrow> console" where
  "upd_tracefile f c =
     (case con_tracefile c of None \<Rightarrow> c\<lparr>con_undefined := True\<rparr> | Some o1 \<Rightarrow> c\<lparr>con_tracefile := Some (f o1)\<rparr>)"

text \<open>\<open>o_stderr ? o_stderr : o_stdout\<close>, where messages go.\<close>

definition upd_stderr :: "(out_file \<Rightarrow> out_file) \<Rightarrow> console \<Rightarrow> console" where
  "upd_stderr f c =
     (case con_stderr c of None \<Rightarrow> upd_stdout f c | Some o1 \<Rightarrow> c\<lparr>con_stderr := Some (f o1)\<rparr>)"

definition upd_trace :: "(out_file \<Rightarrow> out_file) \<Rightarrow> console \<Rightarrow> console" where
  "upd_trace f c =
     (case con_trace_to c of
        To_stdout \<Rightarrow> upd_stdout f c
      | To_stderr \<Rightarrow> (case con_stderr c of None \<Rightarrow> c\<lparr>con_undefined := True\<rparr> | Some o1 \<Rightarrow> c\<lparr>con_stderr := Some (f o1)\<rparr>)
      | To_tracefile \<Rightarrow> upd_tracefile f c)"

definition msg :: "string \<Rightarrow> console \<Rightarrow> console" where
  "msg s = upd_stderr (output_vmsg MT_MSG 0 s)"

definition msgl :: "string \<Rightarrow> console \<Rightarrow> console" where
  "msgl s = upd_stderr (output_vmsgl MT_MSG 0 s)"

definition cputrace :: "nat \<Rightarrow> string \<Rightarrow> console \<Rightarrow> console" where
  "cputrace cpu s = upd_trace (output_vmsg MT_CPUTRACE cpu s)"

definition cputracel :: "nat \<Rightarrow> string \<Rightarrow> console \<Rightarrow> console" where
  "cputracel cpu s = upd_trace (output_vmsgl MT_CPUTRACE cpu s)"

definition hwtrace :: "string \<Rightarrow> console \<Rightarrow> console" where
  "hwtrace s = upd_trace (output_vmsg MT_HWTRACE 0 s)"

definition hwtracel :: "string \<Rightarrow> console \<Rightarrow> console" where
  "hwtracel s = upd_trace (output_vmsgl MT_HWTRACE 0 s)"

text \<open>How the trace file shows a character.\<close>

definition char_shown :: "u32 \<Rightarrow> string" where
  "char_shown c =
     (if 32 \<le> c \<and> c < 127 \<or> 160 \<le> c \<and> c < 255 then [char_of (unat c)]
      else CHR 0x5c #
        (if c = 7 then ''a'' else if c = 8 then ''b'' else if c = 9 then ''t'' else if c = 10 then ''n''
         else if c = 11 then ''v'' else if c = 12 then ''f'' else if c = 13 then ''r''
         else take 2 (hex_pad 2 (unat c))))"

definition dec_int :: "int \<Rightarrow> string" where
  "dec_int n = (if n < 0 then CHR ''-'' # dec_string (nat (- n)) else dec_string (nat n))"

definition char_report :: "u32 \<Rightarrow> string" where
  "char_report c =
     CHR 0x60 # char_shown c @ CHR 0x27 # '' ('' @ dec_int (sint c) @ '' / 0x'' @ hex_string (unat c) @ '')''"

definition con_putc :: "u32 \<Rightarrow> console \<Rightarrow> console" where
  "con_putc ch c =
     (let c1 = upd_stdout (output_char MT_CONSOLE 0 ch) c;
          c2 = (if con_tracefile c1 = None then c1
                else upd_tracefile (output_vmsg MT_CONSOLE 0 (char_report ch)) c1)
      in upd_stdout file_flush c2)"

definition console_beep :: "console \<Rightarrow> console" where
  "console_beep c =
     (case con_stdout c of
        None \<Rightarrow> c\<lparr>con_undefined := True\<rparr>
      | Some o1 \<Rightarrow>
          if o_is_tty o1 then
            let c1 = con_putc 7 c in
            if con_tracefile c1 = None then c1 else upd_tracefile (output_vmsg MT_MSG 0 ''[BEEP]'') c1
          else msg ''[BEEP]'' c)"

section \<open>The terminal\<close>

definition run_settings :: "bool \<Rightarrow> termios \<Rightarrow> termios" where
  "run_settings signals t =
     t\<lparr>c_xcase := False, c_icanon := False, c_echo := False, c_echonl := False, c_noflsh := False,
       c_isig := signals, c_icrnl := False, c_inlcr := False, c_cread := True, c_vtime := 0, c_vmin := 0\<rparr>"

definition tty_get_tios :: "console \<Rightarrow> console" where
  "tty_get_tios c =
     (case con_term c of
        None \<Rightarrow> c
      | Some t \<Rightarrow> c\<lparr>stdin_savetios := t, stdin_runtios := run_settings (stdin_generates_signals c) t,
          got_stdin_tios := True\<rparr>)"

text \<open>\<open>tcsetattr\<close> changes the settings of a terminal and of nothing else.\<close>

definition set_term :: "termios \<Rightarrow> console \<Rightarrow> console" where
  "set_term t c = (case con_term c of None \<Rightarrow> c | Some _ \<Rightarrow> c\<lparr>con_term := Some t\<rparr>)"

definition tty_activate :: "console \<Rightarrow> console \<times> bool" where
  "tty_activate c =
     (if stdin_is_tty c \<and> \<not> stdin_tty_active c \<and> con_foreground c then
        let c1 = (if got_stdin_tios c then c else tty_get_tios c)
        in ((set_term (stdin_runtios c1) c1)\<lparr>stdin_tty_active := True\<rparr>, True)
      else (c, False))"

text \<open>The assertion that the settings were read is the flag.\<close>

definition tty_deactivate :: "console \<Rightarrow> console \<times> bool" where
  "tty_deactivate c =
     (if stdin_is_tty c \<and> stdin_tty_active c then
        if \<not> got_stdin_tios c then (c\<lparr>con_undefined := True\<rparr>, True)
        else ((set_term (stdin_savetios c) c)\<lparr>stdin_tty_active := False\<rparr>, True)
      else (c, False))"

definition tty_init :: "console \<Rightarrow> console" where
  "tty_init c =
     (case con_term c of
        None \<Rightarrow> c
      | Some _ \<Rightarrow>
          let c1 = c\<lparr>stdin_is_tty := True\<rparr>
          in if con_foreground c1 then tty_get_tios c1 else c1)"

definition tty_cleanup :: "console \<Rightarrow> console" where
  "tty_cleanup c = fst (tty_deactivate c)"

section \<open>Signals\<close>

definition output_checktty :: "console \<Rightarrow> out_file \<Rightarrow> out_file" where
  "output_checktty c o1 = tty_checkcrs (con_fds c (o_fd o1)) o1"

definition get_bg_signals :: "console \<Rightarrow> console" where
  "get_bg_signals c = c\<lparr>con_handlers := (con_handlers c)(SIGTSTP := On_stop, SIGCONT := On_cont)\<rparr>"

text \<open>\<open>if (tty_activate()) onselect(...)\<close>\<close>

definition tty_poll :: "console \<Rightarrow> console" where
  "tty_poll c = (let (c1, now) = tty_activate c in if now then c1\<lparr>con_polled := True\<rparr> else c1)"

definition check_outputs :: "console \<Rightarrow> console" where
  "check_outputs c =
     (let c1 = upd_stdout (output_checktty c) c in
      case con_stderr c1 of None \<Rightarrow> c1 | Some o1 \<Rightarrow> c1\<lparr>con_stderr := Some (output_checktty c1 o1)\<rparr>)"

definition oncont :: "console \<Rightarrow> console" where
  "oncont c = get_bg_signals (check_outputs (tty_poll c))"

definition console_sig :: "sig \<Rightarrow> console \<Rightarrow> console" where
  "console_sig s c =
     (let c1 = (if con_evil c then c
                else (c\<lparr>con_evil := True\<rparr>)\<lparr>con_tracefile := map_option file_flush (con_tracefile c)\<rparr>)
      in c1\<lparr>con_handlers := (con_handlers c1)(s := SIG_DFL), con_raised := s # con_raised c1\<rparr>)"

definition console_getsignals :: "console \<Rightarrow> console" where
  "console_getsignals c =
     c\<lparr>con_handlers :=
        (fold (\<lambda>s h. h(s := Console_sig))
          [SIGHUP, SIGINT, SIGQUIT, SIGILL, SIGABRT, SIGFPE, SIGKILL, SIGBUS, SIGSEGV, SIGALRM, SIGTERM, SIGURG,
           SIGUSR1, SIGUSR2, SIGXCPU, SIGXFSZ, SIGVTALRM, SIGPROF, SIGPWR] (con_handlers c))(SIGPIPE := SIG_IGN)\<rparr>"

section \<open>Setting up and cleaning up\<close>

text \<open>\<open>same\<close> tells that standard output and standard error are the same file. The result is false when
  one of them cannot be looked at.\<close>

definition console_earlyinit :: "bool \<Rightarrow> bool \<Rightarrow> console \<Rightarrow> console \<times> bool" where
  "console_earlyinit works same c =
     (if \<not> works then (c, False)
      else
        (c\<lparr>con_stdout := Some (output_create 1 False (con_fds c 1)),
           con_stderr := (if same then None else Some (output_create 2 False (con_fds c 2))),
           con_tracefile := None, con_trace_to := (if same then To_stdout else To_stderr)\<rparr>, True))"

definition output_destroy :: "out_file \<Rightarrow> out_file" where
  "output_destroy o1 = (if o_needs_close o1 then (file_flush o1)\<lparr>o_fd := -1\<rparr> else file_flush o1)"

definition console_cleanup :: "console \<Rightarrow> console" where
  "console_cleanup c =
     (let c1 = c\<lparr>con_stdout := map_option output_flush (con_stdout c),
                 con_stderr := map_option output_flush (con_stderr c),
                 con_tracefile := map_option output_flush (con_tracefile c)\<rparr>;
          c2 = (tty_cleanup c1)\<lparr>console_up := False\<rparr>;
          c3 = (case con_tracefile c2 of None \<Rightarrow> c2
                | Some o1 \<Rightarrow> c2\<lparr>con_released := output_destroy o1 # con_released c2, con_tracefile := None,
                    con_trace_to := (if con_stderr c2 = None then To_stdout else To_stderr)\<rparr>);
          c4 = (case con_stderr c3 of None \<Rightarrow> c3
                | Some o1 \<Rightarrow> c3\<lparr>con_released := output_destroy o1 # con_released c3, con_stderr := None\<rparr>)
      in case con_stdout c4 of None \<Rightarrow> c4\<lparr>con_undefined := True\<rparr>
         | Some o1 \<Rightarrow> c4\<lparr>con_released := output_destroy o1 # con_released c4, con_stdout := None\<rparr>)"

definition smoke_msgs :: "string \<Rightarrow> console \<Rightarrow> console" where
  "smoke_msgs s c =
     console_cleanup (msg ''In real life this is where the smoke starts pouring out.''
       (msg ''The hardware has failed.'' (msg s c)))"

text \<open>End of file on standard input: it is no longer watched.\<close>

definition console_eof :: "console \<Rightarrow> console" where
  "console_eof c = c\<lparr>con_polled := False\<rparr>"

text \<open>The handler of \<open>SIGTSTP\<close>; \<open>notonselect\<close> aborts when it does not find what is to be forgotten.\<close>

definition onstop :: "console \<Rightarrow> console" where
  "onstop c =
     (let (c1, was) = tty_deactivate c;
          c2 = (if \<not> was then c1
                else if con_polled c1 then c1\<lparr>con_polled := False\<rparr>
                else (smoke_msgs ''notonselect: fd 0 not found'' c1)\<lparr>con_smoked := True\<rparr>)
      in if con_smoked c2 then c2 else c2\<lparr>con_raised := SIGSTOP # con_raised c2\<rparr>)"

text \<open>What \<open>hang\<close> writes; \<open>Control.hang\<close> has what it does to the processors.\<close>

definition hang_msgs :: "string \<Rightarrow> console \<Rightarrow> console" where
  "hang_msgs s c =
     (let c1 = msg ''or maybe start to act strangely.''
            (msg ''In real life the machine would hang for no apparent reason,''
            (msg (''You did something the hardware didn'' @ CHR 0x27 # ''t like.'') (msg s c)));
          c2 = upd_stdout output_flush c1
      in c2\<lparr>con_stderr := map_option output_flush (con_stderr c2),
            con_tracefile := map_option output_flush (con_tracefile c2)\<rparr>)"

text \<open>The second argument tells whether \<open>smoke\<close> was called: the simulator is there only once.\<close>

definition console_init :: "bool \<Rightarrow> bool \<Rightarrow> console \<Rightarrow> console \<times> bool" where
  "console_init pass_signals tracing c =
     (if console_up c then (smoke_msgs ''Multiple calls to console_init'' c, False)
      else
        let c1 = (if tracing then console_getsignals c
                  else c\<lparr>con_handlers := (con_handlers c)(SIGPIPE := SIG_IGN)\<rparr>);
            c2 = tty_poll (tty_init (c1\<lparr>stdin_generates_signals := \<not> pass_signals\<rparr>))
        in ((get_bg_signals c2)\<lparr>console_up := True\<rparr>, True))"

datatype tracefile = Trace_set | Trace_smoke | Trace_die

text \<open>\<open>opened\<close> is the file that \<open>fopen\<close> gives, with its settings if it is a terminal, or what \<open>strerror\<close>
  says of the failure.\<close>

definition set_tracefile :: "string option \<Rightarrow> string + int \<times> termios option \<Rightarrow> console \<Rightarrow> console \<times> tracefile" where
  "set_tracefile filename opened c =
     (if con_tracefile c \<noteq> None then (smoke_msgs ''Multiple calls to set_tracefile'' c, Trace_smoke)
      else case filename of
        None \<Rightarrow> (c\<lparr>con_trace_to := (if con_stderr c = None then To_stdout else To_stderr)\<rparr>, Trace_set)
      | Some name \<Rightarrow>
          if name = ''-'' then (c\<lparr>con_trace_to := To_stdout\<rparr>, Trace_set)
          else case opened of
            Inl err \<Rightarrow> (console_cleanup (msg (''Cannot open tracefile '' @ name @ '': '' @ err) c), Trace_die)
          | Inr (fd, tios) \<Rightarrow>
              (c\<lparr>con_tracefile := Some ((output_create fd True tios)\<lparr>o_last_msgtype := MT_HWTRACE\<rparr>),
                 con_trace_to := To_tracefile\<rparr>, Trace_set))"

section \<open>Lines\<close>

text \<open>What is written to an output: a character, a message, or the beginning of one.\<close>

datatype out_op = Put u32 | Line string | Part string

definition output_op :: "msgtypes \<Rightarrow> nat \<Rightarrow> out_op \<Rightarrow> out_file \<Rightarrow> out_file" where
  "output_op mt cpu op1 =
     (case op1 of Put ch \<Rightarrow> output_char mt cpu ch | Line s \<Rightarrow> output_vmsg mt cpu s | Part s \<Rightarrow> output_vmsgl mt cpu s)"

definition run_ops :: "(msgtypes \<times> nat \<times> out_op) list \<Rightarrow> out_file \<Rightarrow> out_file" where
  "run_ops ops o1 = fold (\<lambda>(mt, cpu, op1). output_op mt cpu op1) ops o1"

definition eol_text :: "out_file \<Rightarrow> string" where
  "eol_text o1 = (if o_needs_crs o1 then [CHR 0x0d, newline] else [newline])"

definition at_start :: "string \<Rightarrow> bool" where
  "at_start t \<longleftrightarrow> t = [] \<or> last t = newline"

text \<open>What an operation itself writes; \<open>fresh\<close> tells that it begins a line.\<close>

definition op_text :: "bool \<Rightarrow> msgtypes \<Rightarrow> nat \<Rightarrow> out_op \<Rightarrow> out_file \<Rightarrow> string" where
  "op_text fresh mt cpu op1 o1 =
     (let prefix = (if fresh then msg_prefix mt cpu else [])
      in case op1 of
           Put ch \<Rightarrow> if ch = 10 then eol_text o1 else [char_of (unat ch)]
         | Line s \<Rightarrow> prefix @ s @ eol_text o1
         | Part s \<Rightarrow> prefix @ s)"

lemma char_codes [simp]: "char_of (10 :: nat) = newline" "char_of (13 :: nat) = CHR 0x0d"
  unfolding newline_def by code_simp+

lemma out_sels [simp]:
  "o_text (output_say s o1) = o_text o1 @ s" "o_needs_crs (output_say s o1) = o_needs_crs o1"
  "o_at_bol (output_say s o1) = o_at_bol o1" "o_last_msgtype (output_say s o1) = o_last_msgtype o1"
  "o_last_cpunum (output_say s o1) = o_last_cpunum o1"
  "o_text (output_eol o1) = o_text o1 @ eol_text o1" "o_needs_crs (output_eol o1) = o_needs_crs o1"
  "o_at_bol (output_eol o1) = o_at_bol o1" "o_last_msgtype (output_eol o1) = o_last_msgtype o1"
  "o_last_cpunum (output_eol o1) = o_last_cpunum o1"
  by (simp_all add: output_say_def output_eol_def output_putc_def eol_text_def)

lemma switch_sels [simp]:
  "o_needs_crs (output_switch mt cpu o1) = o_needs_crs o1"
  "o_last_msgtype (output_switch mt cpu o1) = o_last_msgtype o1"
  "eol_text (output_switch mt cpu o1) = eol_text o1"
  by (simp_all add: output_switch_def eol_text_def)

lemma op_sels:
  "o_text (output_op mt cpu op1 o1) = o_text (output_switch mt cpu o1) @ op_text (o_at_bol (output_switch mt cpu o1)) mt cpu op1 o1"
  "o_last_msgtype (output_op mt cpu op1 o1) = mt" "o_last_cpunum (output_op mt cpu op1 o1) = cpu"
  "o_needs_crs (output_op mt cpu op1 o1) = o_needs_crs o1"
  by (cases op1; simp add: output_op_def output_char_def output_vmsg_def output_vmsgl_def Let_def op_text_def
      output_putc_def eol_text_def)+

lemma at_start_eol [simp]: "at_start (t @ eol_text o1)"
  by (simp add: at_start_def eol_text_def)

lemma op_bol: "o_at_bol (output_op mt cpu op1 o1) \<Longrightarrow> at_start (o_text (output_op mt cpu op1 o1))"
  by (cases op1) (auto simp: output_op_def output_char_def output_vmsg_def output_vmsgl_def Let_def
      output_putc_def at_start_def eol_text_def split: if_splits)

lemma run_bol: "(o_at_bol o1 \<Longrightarrow> at_start (o_text o1)) \<Longrightarrow> o_at_bol (run_ops ops o1) \<Longrightarrow> at_start (o_text (run_ops ops o1))"
  unfolding run_ops_def
proof (induction ops arbitrary: o1)
  case (Cons a ops)
  then show ?case using op_bol by (cases a) simp
qed simp

text \<open>The source of the line that is unfinished after these operations, if one is: a character other than
  the newline and the beginning of a message leave theirs open.\<close>

definition unfinished :: "(msgtypes \<times> nat \<times> out_op) list \<Rightarrow> (msgtypes \<times> nat) option" where
  "unfinished ops =
     (if ops = [] then None
      else case last ops of (mt, cpu, op1) \<Rightarrow>
        (case op1 of Put ch \<Rightarrow> if ch = 10 then None else Some (mt, cpu) | Line s \<Rightarrow> None | Part s \<Rightarrow> Some (mt, cpu)))"

lemma op_leaves: "o_at_bol (output_op mt cpu op1 o1) \<longleftrightarrow> unfinished (ops @ [(mt, cpu, op1)]) = None"
  by (cases op1) (simp_all add: output_op_def output_char_def output_vmsg_def output_vmsgl_def Let_def unfinished_def)

lemma unfinished_source: "unfinished (ops @ [(mt, cpu, op1)]) = Some src \<Longrightarrow> src = (mt, cpu)"
  by (cases op1) (auto simp: unfinished_def split: if_splits)

lemma run_ops_source:
  assumes "o1 = run_ops ops (output_create fd needs_close tios)"
  shows "(o_at_bol o1 \<longleftrightarrow> unfinished ops = None) \<and>
    (\<forall>src. unfinished ops = Some src \<longrightarrow> src = (o_last_msgtype o1, o_last_cpunum o1))"
proof (cases ops rule: rev_cases)
  case Nil
  then show ?thesis
    by (simp add: assms run_ops_def unfinished_def output_create_def tty_checkcrs_def split: option.split)
next
  case (snoc ops1 a)
  obtain mt cpu op1 where a: "a = (mt, cpu, op1)" by (cases a)
  have o1: "o1 = output_op mt cpu op1 (run_ops ops1 (output_create fd needs_close tios))"
    by (simp add: assms snoc a run_ops_def)
  show ?thesis
    using op_leaves [of mt cpu op1 _ ops1] unfinished_source [of ops1 mt cpu op1] unfolding o1 snoc a op_sels(2,3) by blast
qed

text \<open>C33: Lines have one source. Whatever went to an output before, what a character or message writes
  is this: if a line of another source is unfinished, that line's end; then the name of its source, if
  it is a message and begins a line; then itself. A line is unfinished when the last thing written was a
  character other than a newline or the beginning of a message; where no line is, or one of another
  source was, a new line begins.\<close>

theorem lines_have_one_source:
  assumes "o1 = run_ops ops (output_create fd needs_close tios)" "o2 = output_op mt cpu op1 o1"
    and "sep = (if unfinished ops = None \<or> unfinished ops = Some (mt, cpu) then [] else eol_text o1)"
  shows "o_text o2 = o_text o1 @ sep @ op_text (unfinished ops \<noteq> Some (mt, cpu)) mt cpu op1 o1 \<and>
    (unfinished ops \<noteq> Some (mt, cpu) \<longrightarrow> at_start (o_text o1 @ sep))"
proof -
  note src = run_ops_source [OF assms(1)]
  have b: "o_at_bol o1 \<Longrightarrow> at_start (o_text o1)"
    unfolding assms(1) by (rule run_bol) (simp_all add: output_create_def tty_checkcrs_def at_start_def split: option.split)
  have sw: "o_text (output_switch mt cpu o1) = o_text o1 @ sep"
    "o_at_bol (output_switch mt cpu o1) \<longleftrightarrow> unfinished ops \<noteq> Some (mt, cpu)"
    using src by (cases "unfinished ops"; auto simp: output_switch_def assms(3))+
  show ?thesis using b src by (auto simp: assms(2) op_sels(1) sw) (auto simp: assms(3))
qed

section \<open>Characters of the console\<close>

text \<open>A character on standard output, and the line it makes in the trace file.\<close>

definition shown_char :: "out_file \<Rightarrow> u32 \<Rightarrow> string" where
  "shown_char o1 ch = (if ch = 10 then eol_text o1 else [char_of (unat ch)])"

definition trace_line :: "out_file \<Rightarrow> u32 \<Rightarrow> string" where
  "trace_line o1 ch = ''console: '' @ char_report ch @ eol_text o1"

lemma con_putc_step:
  assumes "con_stdout c = Some o1" "o_at_bol o1 \<or> o_last_msgtype o1 = MT_CONSOLE \<and> o_last_cpunum o1 = 0"
    and "con_tracefile c = Some tf" "o_at_bol tf"
  shows "\<exists>o2 tf2. con_stdout (con_putc ch c) = Some o2 \<and> o_text o2 = o_text o1 @ shown_char o1 ch \<and>
    o_flushed o2 = length (o_text o2) \<and> o_last_msgtype o2 = MT_CONSOLE \<and> o_last_cpunum o2 = 0 \<and>
    o_needs_crs o2 = o_needs_crs o1 \<and> con_tracefile (con_putc ch c) = Some tf2 \<and> o_at_bol tf2 \<and>
    o_text tf2 = o_text tf @ trace_line tf ch \<and> o_needs_crs tf2 = o_needs_crs tf \<and>
    con_stderr (con_putc ch c) = con_stderr c"
  using assms
  by (auto simp: con_putc_def upd_stdout_def upd_tracefile_def Let_def output_char_def output_switch_def output_vmsg_def
      output_vmsgl_def msg_prefix_def file_flush_def shown_char_def trace_line_def eol_text_def output_putc_def)

text \<open>What the simulated console writes comes out on standard output character by character, a newline
  with a return before it exactly where the terminal wants one, and nothing is left in a buffer; each
  character is a line of the trace file as well, and nothing goes to standard error.\<close>

theorem console_characters_arrive:
  assumes "con_stdout c = Some o1" "o_at_bol o1 \<or> o_last_msgtype o1 = MT_CONSOLE \<and> o_last_cpunum o1 = 0"
    and "con_tracefile c = Some tf" "o_at_bol tf" "chs \<noteq> []" "c' = fold con_putc chs c"
  shows "\<exists>o2 tf2. con_stdout c' = Some o2 \<and> o_text o2 = o_text o1 @ concat (map (shown_char o1) chs) \<and>
    o_flushed o2 = length (o_text o2) \<and> con_tracefile c' = Some tf2 \<and>
    o_text tf2 = o_text tf @ concat (map (trace_line tf) chs) \<and> con_stderr c' = con_stderr c"
  using assms
proof (induction chs arbitrary: c o1 tf)
  case (Cons ch chs)
  obtain o2 tf2 where s: "con_stdout (con_putc ch c) = Some o2" "o_text o2 = o_text o1 @ shown_char o1 ch"
    "o_flushed o2 = length (o_text o2)" "o_last_msgtype o2 = MT_CONSOLE" "o_last_cpunum o2 = 0"
    "o_needs_crs o2 = o_needs_crs o1" "con_tracefile (con_putc ch c) = Some tf2" "o_at_bol tf2"
    "o_text tf2 = o_text tf @ trace_line tf ch" "o_needs_crs tf2 = o_needs_crs tf"
    "con_stderr (con_putc ch c) = con_stderr c"
    using con_putc_step [OF Cons.prems(1-4)] by blast
  have e: "shown_char o2 = shown_char o1" "trace_line tf2 = trace_line tf"
    using s(6,10) by (simp_all add: fun_eq_iff shown_char_def trace_line_def eol_text_def)
  show ?case
  proof (cases "chs = []")
    case True
    then show ?thesis using s Cons.prems(6) by simp
  next
    case False
    have "c' = fold con_putc chs (con_putc ch c)" using Cons.prems(6) by simp
    from Cons.IH [OF s(1) _ s(7,8) False this] show ?thesis using s e by simp
  qed
qed simp

section \<open>The terminal gets its settings back\<close>

text \<open>What may happen to a running simulator: it is stopped or continued, it gets or loses the
  foreground, or it writes.\<close>

datatype term_event = Stop | Continue | Foreground bool | Console_char u32 | Message string

definition term_event :: "term_event \<Rightarrow> console \<Rightarrow> console" where
  "term_event ev c =
     (case ev of Stop \<Rightarrow> onstop c | Continue \<Rightarrow> oncont c | Foreground b \<Rightarrow> c\<lparr>con_foreground := b\<rparr>
      | Console_char ch \<Rightarrow> con_putc ch c | Message s \<Rightarrow> msg s c)"

definition term_ok :: "bool \<Rightarrow> termios \<Rightarrow> console \<Rightarrow> bool" where
  "term_ok signals t c \<longleftrightarrow> stdin_is_tty c \<and> con_polled c = stdin_tty_active c \<and>
     con_term c = Some (if stdin_tty_active c then run_settings signals t else t) \<and>
     stdin_generates_signals c = signals \<and> (stdin_tty_active c \<longrightarrow> got_stdin_tios c) \<and>
     (got_stdin_tios c \<longrightarrow> stdin_savetios c = t \<and> stdin_runtios c = run_settings signals t)"

text \<open>What the terminal part sees of the console.\<close>

definition term_same :: "console \<Rightarrow> console \<Rightarrow> bool" where
  "term_same c c' \<longleftrightarrow> stdin_is_tty c' = stdin_is_tty c \<and> con_polled c' = con_polled c \<and>
     stdin_tty_active c' = stdin_tty_active c \<and> con_term c' = con_term c \<and>
     stdin_generates_signals c' = stdin_generates_signals c \<and> got_stdin_tios c' = got_stdin_tios c \<and>
     stdin_savetios c' = stdin_savetios c \<and> stdin_runtios c' = stdin_runtios c \<and>
     con_foreground c' = con_foreground c"

lemma term_ok_same: "term_ok s t c \<Longrightarrow> term_same c c' \<Longrightarrow> term_ok s t c'"
  by (simp add: term_ok_def term_same_def)

lemma term_same_trans: "term_same c1 c2 \<Longrightarrow> term_same c2 c3 \<Longrightarrow> term_same c1 c3"
  by (simp add: term_same_def)

lemma term_same_upd:
  "term_same c (upd_stdout f c)" "term_same c (upd_stderr f c)" "term_same c (upd_tracefile f c)"
  "term_same c (msg s c)" "term_same c (get_bg_signals c)"
  by (auto simp: term_same_def upd_stdout_def upd_stderr_def upd_tracefile_def msg_def get_bg_signals_def
      split: option.split)

lemma term_same_putc: "term_same c (con_putc ch c)"
  using term_same_upd term_same_trans unfolding con_putc_def Let_def by (smt (verit))

lemma term_same_check: "term_same c (check_outputs c)"
  using term_same_upd(1) [of c] by (auto simp: check_outputs_def Let_def term_same_def split: option.split)

lemma poll_ok: "term_ok s t c \<Longrightarrow> term_ok s t (tty_poll c)"
  by (auto simp: tty_poll_def tty_activate_def term_ok_def set_term_def tty_get_tios_def Let_def split: if_splits)

lemma cleanup_term: "con_term (console_cleanup c) = con_term (tty_cleanup c)"
proof -
  have "con_term (tty_cleanup (c\<lparr>con_stdout := x, con_stderr := y, con_tracefile := z\<rparr>)) = con_term (tty_cleanup c)" for x y z
    by (simp add: tty_cleanup_def tty_deactivate_def set_term_def split: option.split)
  then show ?thesis by (simp add: console_cleanup_def Let_def split: option.split)
qed

lemma deactivate_ok:
  assumes "term_ok s t c"
  shows "term_ok s t (onstop c)"
  using assms by (auto simp: onstop_def tty_deactivate_def term_ok_def set_term_def Let_def)

lemma term_event_ok:
  assumes "term_ok s t c"
  shows "term_ok s t (term_event ev c)"
proof (cases ev)
  case Continue
  have "term_same (tty_poll c) (oncont c)"
    unfolding oncont_def by (rule term_same_trans [OF term_same_check term_same_upd(5)])
  then show ?thesis using term_ok_same poll_ok [OF assms] by (simp add: Continue term_event_def)
next
  case Stop
  then show ?thesis using deactivate_ok [OF assms] by (simp add: term_event_def)
next
  case (Foreground b)
  then show ?thesis using assms by (simp add: term_event_def term_ok_def)
next
  case (Console_char ch)
  then show ?thesis using term_ok_same [OF assms term_same_putc] by (simp add: term_event_def)
next
  case (Message s)
  then show ?thesis using term_ok_same [OF assms term_same_upd(4)] by (simp add: term_event_def)
qed

lemma term_events_ok: "term_ok s t c \<Longrightarrow> term_ok s t (fold term_event evs c)"
  by (induction evs arbitrary: c) (simp_all add: term_event_ok)

text \<open>Whether the simulator is in the foreground after these events, and whether the terminal is its own:
  since it was last stopped it was started, or continued, in the foreground.\<close>

definition foreground_after :: "bool \<Rightarrow> term_event list \<Rightarrow> bool" where
  "foreground_after fg evs = fold (\<lambda>ev fg. case ev of Foreground b \<Rightarrow> b | _ \<Rightarrow> fg) evs fg"

lemma foreground_after_snoc:
  "foreground_after fg (evs @ [ev]) = (case ev of Foreground b \<Rightarrow> b | _ \<Rightarrow> foreground_after fg evs)"
  by (cases ev) (simp_all add: foreground_after_def)

definition has_terminal :: "bool \<Rightarrow> term_event list \<Rightarrow> bool" where
  "has_terminal fg evs \<longleftrightarrow> Stop \<notin> set evs \<and> fg \<or>
     (\<exists>before after. evs = before @ Continue # after \<and> Stop \<notin> set after \<and> foreground_after fg before)"

lemma has_terminal_snoc:
  "has_terminal fg (evs @ [ev]) \<longleftrightarrow>
     ev \<noteq> Stop \<and> (has_terminal fg evs \<or> ev = Continue \<and> foreground_after fg evs)"
proof -
  have "(\<exists>before after. evs @ [ev] = before @ Continue # after \<and> Stop \<notin> set after \<and> foreground_after fg before) \<longleftrightarrow>
      ev \<noteq> Stop \<and> (\<exists>before after. evs = before @ Continue # after \<and> Stop \<notin> set after \<and> foreground_after fg before) \<or>
      ev = Continue \<and> foreground_after fg evs" (is "(\<exists>before after. ?P before after) \<longleftrightarrow> ?R")
  proof
    assume "\<exists>before after. ?P before after"
    then obtain before "after" where p: "?P before after" by blast
    then show ?R by (cases "after" rule: rev_cases) auto
  next
    assume ?R
    then consider before "after" where "ev \<noteq> Stop" "evs = before @ Continue # after" "Stop \<notin> set after"
        "foreground_after fg before" | "ev = Continue" "foreground_after fg evs" by blast
    then show "\<exists>before after. ?P before after"
    proof cases
      case 1
      then show ?thesis by (intro exI [of _ before] exI [of _ "after @ [ev]"]) simp
    next
      case 2
      then show ?thesis by (intro exI [of _ evs] exI [of _ "[]"]) simp
    qed
  qed
  then show ?thesis by (auto simp: has_terminal_def)
qed

lemma term_event_active:
  assumes "term_ok s t c"
  shows "stdin_tty_active (term_event ev c) \<longleftrightarrow> ev \<noteq> Stop \<and> (stdin_tty_active c \<or> ev = Continue \<and> con_foreground c)"
    "con_foreground (term_event ev c) = (case ev of Foreground b \<Rightarrow> b | _ \<Rightarrow> con_foreground c)"
proof -
  have c: "term_same (tty_poll c) (oncont c)"
    unfolding oncont_def by (rule term_same_trans [OF term_same_check term_same_upd(5)])
  have p: "stdin_tty_active (tty_poll c) \<longleftrightarrow> stdin_tty_active c \<or> con_foreground c"
    "con_foreground (tty_poll c) = con_foreground c"
    using assms by (auto simp: tty_poll_def tty_activate_def term_ok_def set_term_def tty_get_tios_def Let_def)
  have st: "\<not> stdin_tty_active (onstop c)" "con_foreground (onstop c) = con_foreground c"
    using assms by (auto simp: onstop_def tty_deactivate_def term_ok_def set_term_def Let_def split: if_splits)
  show "stdin_tty_active (term_event ev c) \<longleftrightarrow> ev \<noteq> Stop \<and> (stdin_tty_active c \<or> ev = Continue \<and> con_foreground c)"
    "con_foreground (term_event ev c) = (case ev of Foreground b \<Rightarrow> b | _ \<Rightarrow> con_foreground c)"
    using c p st term_same_putc [of c] term_same_upd(4) [of c]
    by (cases ev; simp add: term_event_def term_same_def)+
qed

lemma term_events_active:
  assumes "term_ok s t c" "stdin_tty_active c = con_foreground c"
  shows "stdin_tty_active (fold term_event evs c) = has_terminal (con_foreground c) evs \<and>
    con_foreground (fold term_event evs c) = foreground_after (con_foreground c) evs"
proof (induction evs rule: rev_induct)
  case Nil
  show ?case using assms(2) by (simp add: has_terminal_def foreground_after_def)
next
  case (snoc ev evs)
  note a = term_event_active [OF term_events_ok [OF assms(1)], of ev evs]
  show ?case using a snoc by (cases ev) (simp_all add: has_terminal_snoc foreground_after_snoc)
qed

text \<open>C32: The terminal is given back. The simulator may be stopped and continued, get and lose the
  foreground, and write, in any order. Its own settings are on the terminal, and standard input is
  watched, exactly if since it was last stopped it was started or continued in the foreground. So the
  terminal has the settings of before while the simulator is stopped and as long as it has not been in
  the foreground, and it has them when the console is cleaned up.\<close>

theorem terminal_restored:
  assumes "con_term c = Some t" "\<not> console_up c" "\<not> stdin_tty_active c" "\<not> got_stdin_tios c" "\<not> con_polled c"
    and "console_init pass tracing c = (c1, True)" "c2 = fold term_event evs c1"
  shows "con_term c2 = Some (if has_terminal (con_foreground c) evs then run_settings (\<not> pass) t else t) \<and>
    con_polled c2 = has_terminal (con_foreground c) evs \<and>
    con_term (console_cleanup c2) = Some t"
proof -
  define c0 where "c0 = (if tracing then console_getsignals c else c\<lparr>con_handlers := (con_handlers c)(SIGPIPE := SIG_IGN)\<rparr>)"
  have c0: "con_term c0 = Some t" "\<not> stdin_tty_active c0" "\<not> got_stdin_tios c0" "\<not> con_polled c0"
    using assms(1-5) by (simp_all add: c0_def console_getsignals_def)
  define c9 where "c9 = tty_init (c0\<lparr>stdin_generates_signals := \<not> pass\<rparr>)"
  have "term_ok (\<not> pass) t c9"
    using c0 by (auto simp: c9_def tty_init_def tty_get_tios_def term_ok_def Let_def)
  note ok = poll_ok [OF this]
  have "c1 = (get_bg_signals (tty_poll c9))\<lparr>console_up := True\<rparr>"
    using assms(2,6) unfolding c0_def c9_def by (auto simp: console_init_def Let_def)
  then have "term_ok (\<not> pass) t c1"
    by (intro term_ok_same [OF ok]) (simp add: term_same_def get_bg_signals_def)
  moreover have "stdin_tty_active c1 = con_foreground c1" "con_foreground c1 = con_foreground c"
    using c0 \<open>c1 = _\<close> by (auto simp: c9_def c0_def tty_poll_def tty_activate_def tty_init_def tty_get_tios_def
        set_term_def get_bg_signals_def console_getsignals_def Let_def)
  ultimately have ok2: "term_ok (\<not> pass) t c2" and act: "stdin_tty_active c2 = has_terminal (con_foreground c) evs"
    unfolding assms(7) using term_events_ok term_events_active by force+
  have "con_term (console_cleanup c2) = con_term (tty_cleanup c2)" by (rule cleanup_term)
  also have "\<dots> = Some t"
    using ok2 by (auto simp: tty_cleanup_def tty_deactivate_def term_ok_def set_term_def)
  finally show ?thesis using ok2 by (simp add: term_ok_def act)
qed

text \<open>After an end of file on the terminal, stopping the simulator aborts it.\<close>

theorem stop_after_eof_smokes:
  assumes "stdin_is_tty c" "stdin_tty_active c" "got_stdin_tios c"
  shows "con_smoked (onstop (console_eof c))"
  using assms by (simp add: onstop_def console_eof_def tty_deactivate_def set_term_def Let_def split: option.split)

end
