(* ===== verification/Startup.thy ===== *)
theory Startup
  imports Bus_Config Boot Run_Ok Console
begin

text \<open>
  The program from \<open>main\<close> on (\<open>main/main.c\<close>): the command line, setting the machine up, running it, and
  the statistics it prints. \<open>program_reaches\<close> puts the whole together: a machine that the simulator can
  be in, started with these arguments on this host. \<open>startup_ok\<close> is the invariant of a machine that is
  being set up.

  The state while the command line is read is the record \<open>start\<close>: the variables of \<open>main\<close>, the console
  and the machine, in which everything is zero. After a fault nothing more is done.
\<close>

section \<open>Reading options\<close>

text \<open>A place in the arguments: what is left of the word that is being read, if one is, and the words
  after it. (In the code \<open>myoptind\<close> and \<open>myoptchr\<close>; the latter is 0 when no word is being read.)\<close>

type_synonym opt_pos = "string option \<times> string list"

text \<open>Each letter uses up arguments, which is why reading options ends.\<close>

definition pos_size :: "opt_pos \<Rightarrow> nat" where
  "pos_size p = (case fst p of None \<Rightarrow> 0 | Some s \<Rightarrow> Suc (length s)) + sum_list (map (\<lambda>w. Suc (Suc (length w))) (snd p))"

text \<open>The loop at the beginning of \<open>mygetopt\<close>: the next option letter, or none when the options end.\<close>

function getopt_char :: "opt_pos \<Rightarrow> char option \<times> opt_pos" where
  "getopt_char (Some (ch # s), ws) = (Some ch, (Some s, ws))"
| "getopt_char (Some [], ws) = getopt_char (None, ws)"
| "getopt_char (None, []) = (None, (None, []))"
| "getopt_char (None, w # ws) =
     (case w of
        [] \<Rightarrow> (None, (None, w # ws))
      | c # s \<Rightarrow>
          if c \<noteq> CHR ''-'' then (None, (None, w # ws))
          else if s = [] then getopt_char (None, ws)
          else (Some (hd s), (Some (tl s), ws)))"
  by pat_completeness auto
termination
  by (relation "measure pos_size") (simp_all add: pos_size_def)

datatype getopt = Opt_end | Opt char "string option" | Opt_bad

definition mygetopt :: "string \<Rightarrow> opt_pos \<Rightarrow> getopt \<times> opt_pos" where
  "mygetopt myopts p =
     (case getopt_char p of
        (None, p1) \<Rightarrow> (Opt_end, p1)
      | (Some ch, p1) \<Rightarrow>
          let found = dropWhile (\<lambda>c. c \<noteq> ch) myopts in
          if ch = CHR '':'' \<or> found = [] then (Opt_bad, p1)
          else if tl found \<noteq> [] \<and> hd (tl found) = CHR '':'' then
            (case p1 of
               (Some (c # s), ws) \<Rightarrow> (Opt ch (Some (c # s)), (None, ws))
             | (_, a # ws) \<Rightarrow> (Opt ch (Some a), (None, ws))
             | (_, []) \<Rightarrow> (Opt_bad, p1))
          else (Opt ch None, p1))"

lemma getopt_char_step:
  "getopt_char p = (Some ch, p1) \<Longrightarrow> pos_size p1 < pos_size p \<and> (\<exists>s ws. p1 = (Some s, ws))"
proof (induction p rule: getopt_char.induct)
  case (1 c s ws)
  then show ?case by (auto simp: pos_size_def)
next
  case (2 ws)
  then show ?case by (simp add: pos_size_def)
next
  case 3
  then show ?case by simp
next
  case (4 w ws)
  show ?case
  proof (cases w)
    case Nil
    then show ?thesis using 4(2) by simp
  next
    case (Cons c s)
    have "pos_size p1 < pos_size (None, ws) \<and> (\<exists>s ws. p1 = (Some s, ws))" if "c = CHR ''-''" "s = []"
      using 4(1) [OF Cons _ that(2)] 4(2) that Cons by simp
    then show ?thesis using 4(2) Cons by (cases "s = []") (auto simp: pos_size_def split: if_splits)
  qed
qed

lemma mygetopt_shorter:
  assumes "mygetopt myopts p = (Opt ch arg, p2)"
  shows "pos_size p2 < pos_size p"
proof -
  obtain p1 where 1: "getopt_char p = (Some ch, p1)"
    using assms by (auto simp: mygetopt_def Let_def split: prod.splits option.splits if_splits list.splits)
  obtain s ws where p1: "p1 = (Some s, ws)" using getopt_char_step [OF 1] by blast
  have "pos_size p2 \<le> pos_size p1"
    using assms by (auto simp: mygetopt_def 1 p1 Let_def pos_size_def split: if_splits list.splits)
  then show ?thesis using getopt_char_step [OF 1] by simp
qed

section \<open>The command line\<close>

text \<open>The host: when the program was compiled, the configuration files, what devices are given when they
  start, trace files that are opened, the time.\<close>

record sys_host =
  sh_compiled :: string
  sh_config :: "string \<Rightarrow> string option"
  sh_devices :: config_host
  sh_fopen :: "string \<Rightarrow> string + int \<times> termios option"
  sh_secs :: u32

record start =
  st_config :: string
  st_extras :: "string list"
  st_port :: int
  st_usetcp :: bool
  st_doom :: int
  st_debugwait :: bool
  st_pass_signals :: bool
  st_console_tracing :: bool
  st_profiling :: bool
  st_con :: console
  st_m :: machine

definition start_state :: "console \<Rightarrow> machine \<Rightarrow> start" where
  "start_state c m = \<lparr>st_config = ''sys161.conf'', st_extras = [], st_port = 2344, st_usetcp = False, st_doom = 0,
     st_debugwait = False, st_pass_signals = False, st_console_tracing = False, st_profiling = False,
     st_con = c, st_m = m\<rparr>"

definition say :: "string \<Rightarrow> start \<Rightarrow> start" where
  "say s st = st\<lparr>st_con := msg s (st_con st)\<rparr>"

definition say_part :: "string \<Rightarrow> start \<Rightarrow> start" where
  "say_part s st = st\<lparr>st_con := msgl s (st_con st)\<rparr>"

text \<open>\<open>die\<close>: nothing has been profiled yet.\<close>

definition start_die :: "start \<Rightarrow> start" where
  "start_die st = st\<lparr>st_con := console_cleanup (st_con st), st_m := die (st_m st)\<rparr>"

definition VERSION :: string where "VERSION = ''snap (20220629)''"

definition version_text :: "sys_host \<Rightarrow> string" where
  "version_text h = ''System/161 '' @ VERSION @ '', compiled '' @ sh_compiled h"

definition flag_texts :: "(string \<times> string \<times> string) list" where
  "flag_texts =
     [(''k'', ''kinsn'', ''Kernel-mode instructions''), (''u'', ''uinsn'', ''User-mode instructions''),
      (''j'', ''jump'', ''Jumps''), (''t'', ''tlb'', ''TLB operations''), (''x'', ''exn'', ''Exceptions''),
      (''i'', ''irq'', ''Interrupts''), (''d'', ''disk'', ''Disk activity''), (''n'', ''net'', ''Network activity''),
      (''e'', ''emufs'', ''Emufs activity'')]"

text \<open>The padding is at most nine blanks, the length of the string it is cut from.\<close>

definition print_flag_usage :: "string \<times> string \<times> string \<Rightarrow> start \<Rightarrow> start" where
  "print_flag_usage flag st =
     (let (letter, name, desc) = flag;
          st1 = say_part (''        '' @ letter @ '' '' @ name) st;
          st2 = (if length name < 12 then say_part (replicate (min 9 (12 - length name)) CHR '' '') st1 else st1)
      in say (CHR '' '' # desc) st2)"

definition print_traceflags_usage :: "start \<Rightarrow> start" where
  "print_traceflags_usage = fold print_flag_usage flag_texts"

definition usage :: "sys_host \<Rightarrow> start \<Rightarrow> start" where
  "usage h st =
     (let st1 = fold say
            [version_text h,
             ''Usage: sys161 [sys161 options] kernel [kernel args...]'',
             ''   sys161 options:'',
             ''     -c config      Use alternate config file'',
             ''     -C slot:arg    Override config file argument'',
             ''     -D count       Set disk I/O doom counter'',
             ''     -f file        Trace to specified file'',
             ''     -P             Collect kernel execution profile'',
             ''     -p port        Listen for gdb over TCP on specified port'',
             ''     -s             Pass signal-generating characters through'',
             ''     -t[kujtxidne]  Set tracing flags''] st;
          st2 = print_traceflags_usage st1;
          st3 = fold say
            [''     -w             Wait for debugger before starting'',
             ''     -X             Don'' @ CHR 0x27 # ''t wait for debugger; exit instead'',
             ''     -Z seconds     Set watchdog timer to specified time''] st2
      in start_die st3)"

definition MAXCONFIGEXTRA :: nat where "MAXCONFIGEXTRA = 128"

text \<open>The letters that are no trace flags stop the program with a message.\<close>

definition start_traceflags :: "string \<Rightarrow> start \<Rightarrow> start" where
  "start_traceflags letters st =
     (let codes = map (\<lambda>c. word_of_int (cchar c)) letters;
          m1 = set_traceflags codes (st_m st)
      in case find (\<lambda>c. map_of flaginfo (word_of_int (cchar c)) = None) letters of
           None \<Rightarrow> st\<lparr>st_m := m1, st_console_tracing := True\<rparr>
         | Some c \<Rightarrow>
             let st1 = say (''Unknown trace flag '' @ [c]) st
             in st1\<lparr>st_con := console_cleanup (st_con st1), st_m := m1\<rparr>)"

definition start_tracefile :: "sys_host \<Rightarrow> string \<Rightarrow> start \<Rightarrow> start" where
  "start_tracefile h name st =
     (case set_tracefile (Some name) (sh_fopen h name) (st_con st) of
        (c, Trace_set) \<Rightarrow> st\<lparr>st_con := c\<rparr>
      | (c, Trace_smoke) \<Rightarrow> st\<lparr>st_con := c, st_m := smoke (st_m st)\<rparr>
      | (c, Trace_die) \<Rightarrow> st\<lparr>st_con := c, st_m := die (st_m st)\<rparr>)"

definition main_options :: string where "main_options = ''c:C:D:f:p:Pst:wXZ:''"

text \<open>One turn of the \<open>switch\<close>.\<close>

definition main_option :: "sys_host \<Rightarrow> char \<Rightarrow> string \<Rightarrow> start \<Rightarrow> start" where
  "main_option h opt arg st =
     (if opt = CHR ''c'' then st\<lparr>st_config := arg\<rparr>
      else if opt = CHR ''C'' then
        if length (st_extras st) \<ge> MAXCONFIGEXTRA then start_die (say ''Too many -C options'' st)
        else if CHR '':'' \<notin> set arg then start_die (say ''Invalid -C option'' st)
        else st\<lparr>st_extras := st_extras st @ [arg]\<rparr>
      else if opt = CHR ''D'' then st\<lparr>st_doom := c_atoi arg\<rparr>
      else if opt = CHR ''f'' then start_tracefile h arg st
      else if opt = CHR ''p'' then st\<lparr>st_port := c_atoi arg, st_usetcp := True\<rparr>
      else if opt = CHR ''P'' then st\<lparr>st_profiling := True\<rparr>
      else if opt = CHR ''s'' then st\<lparr>st_pass_signals := True\<rparr>
      else if opt = CHR ''t'' then start_traceflags arg st
      else if opt = CHR ''w'' then st\<lparr>st_debugwait := True\<rparr>
      else if opt = CHR ''X'' then st\<lparr>st_m := (st_m st)\<lparr>no_debugger_wait := True\<rparr>\<rparr>
      else if opt = CHR ''Z'' then
        let timeout = c_atoi arg in
        if timeout \<le> 1 then start_die (say ''Invalid timeout (must be at least 2)'' st)
        else st\<lparr>st_m := clock_setprogresstimeout (word_of_int timeout) (st_m st)\<rparr>
      else usage h st)"

definition running :: "start \<Rightarrow> bool" where "running st \<longleftrightarrow> fault_state (st_m st) = None"

function read_options :: "sys_host \<Rightarrow> opt_pos \<Rightarrow> start \<Rightarrow> start \<times> opt_pos" where
  "read_options h p st =
     (case mygetopt main_options p of
        (Opt_end, p1) \<Rightarrow> (st, p1)
      | (Opt_bad, p1) \<Rightarrow> (usage h st, p1)
      | (Opt opt arg, p1) \<Rightarrow>
          let st1 = main_option h opt (case arg of None \<Rightarrow> [] | Some a \<Rightarrow> a) st in
          if running st1 then read_options h p1 st1 else (st1, p1))"
  by pat_completeness auto
termination
  by (relation "measure (\<lambda>(h, p, st). pos_size p)") (use mygetopt_shorter [OF sym] in auto)

declare read_options.simps [simp del]

text \<open>The arguments of the kernel in one string, and the memory that is allocated for it, without the
  byte for the NUL.\<close>

primrec argument_string :: "string list \<Rightarrow> string" where
  "argument_string [] = []"
| "argument_string (a # as) = a @ (if as = [] then [] else CHR '' '' # argument_string as)"

definition argument_size :: "string list \<Rightarrow> nat" where
  "argument_size as = sum_list (map (\<lambda>a. length a + 1) as)"

section \<open>Setting up\<close>

definition initstats :: "machine \<Rightarrow> machine" where
  "initstats = upd_stats (\<lambda>s. s\<lparr>s_percpu := (\<lambda>_. zero_percpu)\<rparr>)"

definition on_machine :: "(machine \<Rightarrow> machine) \<Rightarrow> start \<Rightarrow> start" where
  "on_machine f st = st\<lparr>st_m := then_run f (st_m st)\<rparr>"

text \<open>From the end of the options to the loaded kernel. Opening the debugger's and the meter's sockets
  touches nothing else, and without them the simulator runs too.\<close>

definition start_console :: "start \<Rightarrow> start" where
  "start_console st =
     (if \<not> running st then st
      else case console_init (st_pass_signals st) (st_console_tracing st) (st_con st) of
        (c, True) \<Rightarrow> st\<lparr>st_con := c\<rparr>
      | (c, False) \<Rightarrow> st\<lparr>st_con := c, st_m := smoke (st_m st)\<rparr>)"

definition start_machine :: "sys_host \<Rightarrow> string \<Rightarrow> string list \<Rightarrow> start \<Rightarrow> start" where
  "start_machine h kname args st =
     (let bytes = map of_char :: string \<Rightarrow> u8 list;
          st1 = on_machine (clock_init (sh_secs h)) (start_console st);
          st2 = on_machine (\<lambda>m. fst (bus_config (sh_devices h) (sh_config h (st_config st)) (st_extras st) m)) st1;
          st3 = on_machine (\<lambda>m. if st_doom st \<noteq> 0 then doom_establish (unat (word_of_int (st_doom st) :: u32)) m else m) st2;
          st4 = on_machine (\<lambda>m. cpu_init (ncpus m) (initstats m)) st3;
          st5 = on_machine (\<lambda>m. fst (load_kernel (bytes kname) (bytes (argument_string args)) m)) st4
      in on_machine (\<lambda>m. if st_profiling st then prof_setup m else m) st5)"

definition main_setup :: "sys_host \<Rightarrow> string list \<Rightarrow> start \<Rightarrow> start" where
  "main_setup h argv st =
     (case read_options h (None, tl argv) st of
        (st1, (_, [])) \<Rightarrow> if running st1 then usage h st1 else st1
      | (st1, (_, kname # args)) \<Rightarrow> start_machine h kname args st1)"

section \<open>Running\<close>

text \<open>What the simulator can get to: setting up, waiting for the debugger when asked to, the main loop.\<close>

definition program_reaches :: "sys_host \<Rightarrow> string list \<Rightarrow> start \<Rightarrow> machine \<Rightarrow> bool" where
  "program_reaches h argv st0 m' \<longleftrightarrow>
     (let st = main_setup h argv st0; m = st_m st in
      fault_state m = None \<and>
      (\<exists>m1. (if st_debugwait st then stoploop (m\<lparr>stopped_in_debugger := True\<rparr>) m1 else m1 = m) \<and>
         runloop_reaches (if no_debugger_wait m1 then m1\<lparr>gdb_dontwait_flag := True\<rparr> else m1) m'))"

definition SYS161_EXIT_NORMAL :: nat where "SYS161_EXIT_NORMAL = 0"
definition SYS161_EXIT_CRASH :: nat where "SYS161_EXIT_CRASH = 1"
definition SYS161_EXIT_ERROR :: nat where "SYS161_EXIT_ERROR = 2"
definition SYS161_EXIT_REQUESTED :: nat where "SYS161_EXIT_REQUESTED = 3"

definition main_exit :: "machine \<Rightarrow> nat" where
  "main_exit m = (if got_debugrequest m then SYS161_EXIT_CRASH else SYS161_EXIT_NORMAL)"

text \<open>\<open>die\<close>, \<open>crashdie\<close> and \<open>reqdie\<close>; none when the program aborts or goes on for ever.\<close>

definition fault_exit :: "fault \<Rightarrow> nat option" where
  "fault_exit f =
     (case f of Exit_error \<Rightarrow> Some SYS161_EXIT_ERROR | Exit_crash \<Rightarrow> Some SYS161_EXIT_CRASH
      | Exit_requested \<Rightarrow> Some SYS161_EXIT_REQUESTED | _ \<Rightarrow> None)"

section \<open>Statistics\<close>

definition num :: "'a::len word \<Rightarrow> string" where "num w = dec_string (unat w)"

definition cpu_stats_text :: "nat \<Rightarrow> stats_percpu \<Rightarrow> string" where
  "cpu_stats_text i s =
     ''  cpu'' @ dec_string i @ '': '' @ num (sp_kcycles s) @ '' kern, '' @ num (sp_ucycles s) @ '' user, '' @
     num (sp_icycles s) @ '' idle; '' @ num (sp_lls s) @ '' ll, '' @ num (sp_okscs s) @ ''/'' @ num (sp_badscs s) @
     '' sc, '' @ num (sp_syncs s) @ '' sync''"

definition total_cycles :: "stats \<Rightarrow> u64" where
  "total_cycles s = s_tot_rcycles s + s_tot_icycles s"

definition showstats :: "machine \<Rightarrow> u64 \<times> string list" where
  "showstats m =
     (let s = g_stats m in
      (total_cycles s,
       (num (total_cycles s) @ '' cycles ('' @ num (s_tot_rcycles s) @ '' run, '' @ num (s_tot_icycles s) @
          '' global-idle)'') #
       map (\<lambda>i. cpu_stats_text i (s_percpu s i)) [0..<ncpus m] @
       [num (s_irqs s) @ '' irqs '' @ num (s_exns s) @ '' exns '' @ num (s_rsects s) @ ''r/'' @ num (s_wsects s) @
          ''w disk '' @ num (s_rchars s) @ ''r/'' @ num (s_wchars s) @ ''w console '' @ num (s_remu s) @ ''r/'' @
          num (s_wemu s) @ ''w/'' @ num (s_memu s) @ ''m emufs '' @ num (s_rpkts s) @ ''r/'' @ num (s_wpkts s) @ ''w net'']))"

text \<open>The time a run took, from the times of day in seconds and microseconds.\<close>

definition elapsed :: "int \<times> int \<Rightarrow> int \<times> int \<Rightarrow> int \<times> int" where
  "elapsed start_time end_time =
     (let (s0, u0) = start_time; (s1, u1) = end_time; s2 = s1 - s0
      in if u1 < u0 then (s2 - 1, u1 + 1000000 - u0) else (s2, u1 - u0))"

section \<open>Options are read as they were written\<close>

text \<open>How options are written: letters without an argument behind one \<open>-\<close>, or such letters and then one
  with its argument, in the same word or in the next.\<close>

datatype opt_item = Flags string | Attached string char string | Separate string char string

fun item_words :: "opt_item \<Rightarrow> string list" where
  "item_words (Flags fs) = [CHR ''-'' # fs]"
| "item_words (Attached fs c a) = [CHR ''-'' # fs @ c # a]"
| "item_words (Separate fs c a) = [CHR ''-'' # fs @ [c], a]"

fun item_opts :: "opt_item \<Rightarrow> (char \<times> string) list" where
  "item_opts (Flags fs) = map (\<lambda>c. (c, [])) fs"
| "item_opts (Attached fs c a) = map (\<lambda>c. (c, [])) fs @ [(c, a)]"
| "item_opts (Separate fs c a) = map (\<lambda>c. (c, [])) fs @ [(c, a)]"

definition plain_opt :: "char \<Rightarrow> bool" where "plain_opt c \<longleftrightarrow> c \<in> set ''PswX''"
definition arg_opt :: "char \<Rightarrow> bool" where "arg_opt c \<longleftrightarrow> c \<in> set ''cCDfptZ''"

fun item_ok :: "opt_item \<Rightarrow> bool" where
  "item_ok (Flags fs) = list_all plain_opt fs"
| "item_ok (Attached fs c a) = (list_all plain_opt fs \<and> arg_opt c \<and> a \<noteq> [])"
| "item_ok (Separate fs c a) = (list_all plain_opt fs \<and> arg_opt c)"

definition do_opts :: "sys_host \<Rightarrow> (char \<times> string) list \<Rightarrow> start \<Rightarrow> start" where
  "do_opts h opts st = fold (\<lambda>(c, a) st. if running st then main_option h c a st else st) opts st"

lemma getopt_plain: "plain_opt c \<Longrightarrow> mygetopt main_options (Some (c # s), ws) = (Opt c None, (Some s, ws))"
  unfolding plain_opt_def list.set insert_iff empty_iff
  by (elim disjE; simp add: mygetopt_def main_options_def)

lemma getopt_arg:
  assumes "arg_opt c"
  shows "a \<noteq> [] \<Longrightarrow> mygetopt main_options (Some (c # a), ws) = (Opt c (Some a), (None, ws))"
    "mygetopt main_options (Some [c], a # ws) = (Opt c (Some a), (None, ws))"
  using assms unfolding arg_opt_def list.set insert_iff empty_iff
  by (cases a; elim disjE; simp add: mygetopt_def main_options_def)+

lemma getopt_word:
  "mygetopt myopts (None, (CHR ''-'' # s) # ws) = mygetopt myopts (Some s, ws)"
  "mygetopt myopts (Some [], ws) = mygetopt myopts (None, ws)"
  by (cases s) (simp_all add: mygetopt_def)

lemma read_cong: "mygetopt main_options p = mygetopt main_options p' \<Longrightarrow> read_options h p st = read_options h p' st"
  by (subst (1 2) read_options.simps) simp

text \<open>One letter, and then the rest.\<close>

definition reads_as :: "sys_host \<Rightarrow> opt_pos \<Rightarrow> (char \<times> string) list \<Rightarrow> opt_pos \<Rightarrow> bool" where
  "reads_as h p opts p' \<longleftrightarrow> (\<forall>st. running st \<longrightarrow>
     (if running (do_opts h opts st) then read_options h p st = read_options h p' (do_opts h opts st)
      else fst (read_options h p st) = do_opts h opts st))"

lemma do_opts_fault: "\<not> running st \<Longrightarrow> do_opts h opts st = st"
  unfolding do_opts_def by (induction opts) auto

lemma reads_trans:
  assumes "reads_as h p os p1" "reads_as h p1 os' p2"
  shows "reads_as h p (os @ os') p2"
  unfolding reads_as_def
proof (intro allI impI)
  fix st
  assume f: "running st"
  have d: "do_opts h (os @ os') st = do_opts h os' (do_opts h os st)" by (simp add: do_opts_def)
  show "if running (do_opts h (os @ os') st)
    then read_options h p st = read_options h p2 (do_opts h (os @ os') st)
    else fst (read_options h p st) = do_opts h (os @ os') st"
  proof (cases "running (do_opts h os st)")
    case True
    then have "read_options h p st = read_options h p1 (do_opts h os st)" using assms(1) f by (simp add: reads_as_def)
    then show ?thesis using assms(2) True unfolding d reads_as_def by simp
  next
    case False
    then show ?thesis using assms(1) f do_opts_fault [OF False] unfolding d reads_as_def by simp
  qed
qed

lemma reads_one: "mygetopt main_options p = (Opt c arg, p') \<Longrightarrow> reads_as h p [(c, case arg of None \<Rightarrow> [] | Some a \<Rightarrow> a)] p'"
  unfolding reads_as_def
proof (intro allI impI)
  fix st
  assume m: "mygetopt main_options p = (Opt c arg, p')" and r: "running st"
  let ?a = "case arg of None \<Rightarrow> [] | Some a \<Rightarrow> a"
  have "do_opts h [(c, ?a)] st = main_option h c ?a st" using r by (simp add: do_opts_def)
  moreover have "read_options h p st =
      (if running (main_option h c ?a st) then read_options h p' (main_option h c ?a st) else (main_option h c ?a st, p'))"
    by (subst read_options.simps) (simp add: m Let_def)
  ultimately show "if running (do_opts h [(c, ?a)] st) then read_options h p st = read_options h p' (do_opts h [(c, ?a)] st)
    else fst (read_options h p st) = do_opts h [(c, ?a)] st" by simp
qed

lemma reads_none:
  assumes "mygetopt main_options p = mygetopt main_options p'"
  shows "reads_as h p [] p'"
proof -
  have "do_opts h [] st = st" for st by (simp add: do_opts_def)
  then show ?thesis using read_cong [OF assms, of h] by (simp add: reads_as_def)
qed

lemma reads_plain: "list_all plain_opt fs \<Longrightarrow> reads_as h (Some (fs @ r), ws) (map (\<lambda>c. (c, [])) fs) (Some r, ws)"
proof (induction fs)
  case (Cons c fs)
  then have "reads_as h (Some ((c # fs) @ r), ws) [(c, [])] (Some (fs @ r), ws)"
    using reads_one [OF getopt_plain [of c "fs @ r" ws]] by simp
  from reads_trans [OF this Cons.IH] Cons.prems show ?case by simp
qed (simp add: reads_none)

lemma reads_item: "item_ok it \<Longrightarrow> reads_as h (None, item_words it @ ws) (item_opts it) (None, ws)"
proof (cases it)
  case (Flags fs)
  assume ok: "item_ok it"
  have "reads_as h (None, (CHR ''-'' # fs) # ws) [] (Some (fs @ []), ws)" by (rule reads_none) (simp add: getopt_word)
  from reads_trans [OF this reads_plain] ok Flags
  have "reads_as h (None, item_words it @ ws) (item_opts it) (Some [], ws)" by simp
  from reads_trans [OF this reads_none [OF getopt_word(2)]] show ?thesis by simp
next
  case (Attached fs c a)
  assume ok: "item_ok it"
  have "reads_as h (None, (CHR ''-'' # fs @ c # a) # ws) [] (Some (fs @ c # a), ws)" by (rule reads_none) (simp add: getopt_word)
  from reads_trans [OF this reads_plain] ok Attached
  have 1: "reads_as h (None, item_words it @ ws) (map (\<lambda>c. (c, [])) fs) (Some (c # a), ws)" by simp
  have "reads_as h (Some (c # a), ws) [(c, a)] (None, ws)"
    using reads_one [OF getopt_arg(1)] ok Attached by fastforce
  from reads_trans [OF 1 this] show ?thesis using Attached by simp
next
  case (Separate fs c a)
  assume ok: "item_ok it"
  have "reads_as h (None, (CHR ''-'' # fs @ [c]) # a # ws) [] (Some (fs @ [c]), a # ws)" by (rule reads_none) (simp add: getopt_word)
  from reads_trans [OF this reads_plain] ok Separate
  have 1: "reads_as h (None, item_words it @ ws) (map (\<lambda>c. (c, [])) fs) (Some [c], a # ws)" by simp
  have "reads_as h (Some [c], a # ws) [(c, a)] (None, ws)"
    using reads_one [OF getopt_arg(2)] ok Separate by fastforce
  from reads_trans [OF 1 this] show ?thesis using Separate by simp
qed

lemma reads_items:
  "list_all item_ok its \<Longrightarrow> reads_as h (None, concat (map item_words its) @ ws) (concat (map item_opts its)) (None, ws)"
proof (induction its)
  case (Cons it its)
  then show ?case using reads_trans [OF reads_item Cons.IH] by simp
qed (simp add: reads_none)

lemma options_read:
  assumes "list_all item_ok its" "rest = [] \<or> hd rest = [] \<or> hd (hd rest) \<noteq> CHR ''-''" "running st"
    and "st1 = do_opts h (concat (map item_opts its)) st"
  shows "fst (read_options h (None, concat (map item_words its) @ rest) st) = st1 \<and>
    (running st1 \<longrightarrow> read_options h (None, concat (map item_words its) @ rest) st = (st1, (None, rest)))"
proof -
  have "getopt_char (None, rest) = (None, (None, rest))"
    using assms(2) by (cases rest) (auto split: list.split)
  then have e: "read_options h (None, rest) st = (st, (None, rest))" for st
    by (subst read_options.simps) (simp add: mygetopt_def)
  show ?thesis
    using reads_items [OF assms(1), of h rest] assms(3,4) by (cases "running st1") (simp_all add: reads_as_def e)
qed

text \<open>C34: However the options are written, in bundles of letters, with arguments in the same word or in the
  next, \<open>main\<close> does what each of them says, in their order, up to the first that stops the program; and if
  none does, the first word that is no option is the kernel and the others are its arguments.\<close>

theorem options_read_back:
  assumes "list_all item_ok its" "rest = [] \<or> hd rest = [] \<or> hd (hd rest) \<noteq> CHR ''-''" "running st"
    and "st1 = do_opts h (concat (map item_opts its)) st"
  shows "fst (read_options h (None, concat (map item_words its) @ rest) st) = st1 \<and>
    (running st1 \<longrightarrow> read_options h (None, concat (map item_words its) @ rest) st = (st1, (None, rest)))"
  using options_read [OF assms] .

text \<open>The memory for the kernel's argument string is enough, with the NUL: the string of \<open>n\<close> arguments is
  one character shorter than what is allocated before the byte for the NUL, and the text is the arguments
  with one blank between.\<close>

theorem argument_string_fits:
  "length (argument_string as) + (if as = [] then 0 else 1) = argument_size as \<and>
   length (argument_string as @ [NUL]) \<le> argument_size as + 1"
proof -
  have "length (argument_string as) + (if as = [] then 0 else 1) = argument_size as"
    by (induction as) (auto simp: argument_size_def)
  then show ?thesis by (auto split: if_splits)
qed

end
