(* ===== verification/Startup_Ok.thy ===== *)
theory Startup_Ok
  imports Startup
begin

text \<open>
  From the command line to the running machine: whatever the arguments, the configuration and the host,
  the machine that \<open>main\<close> sets up satisfies the invariant of \<open>Run_Ok\<close>, and with it every machine the
  simulator gets to.
\<close>

section \<open>A machine that is being set up\<close>

text \<open>No interrupt is raised, the timed events are in order, and none is lost of the \<open>k\<close> there are.\<close>

definition startup_ok :: "nat \<Rightarrow> machine \<Rightarrow> bool" where
  "startup_ok k m \<longleftrightarrow>
     events_sorted (event_queue m) \<and> ta_free m + length (event_queue m) = k \<and> bus_raised_interrupts m = 0"

definition events_same :: "machine \<Rightarrow> machine \<Rightarrow> bool" where
  "events_same m m' \<longleftrightarrow> event_queue m' = event_queue m \<and> ta_free m' = ta_free m \<and>
     bus_raised_interrupts m' = bus_raised_interrupts m"

lemma startup_same: "startup_ok k m \<Longrightarrow> events_same m m' \<Longrightarrow> startup_ok k m'"
  by (simp add: startup_ok_def events_same_def)

lemma startup_event:
  assumes "startup_ok k m"
  shows "startup_ok k (schedule_event d dat code f m)"
proof (cases "ta_free m = 0")
  case True
  then have "events_same m (schedule_event d dat code f m)"
    by (simp add: schedule_event_def host_next_random_def smoke_def raise_fault_def events_same_def split: option.split)
  then show ?thesis by (rule startup_same [OF assms])
next
  case False
  then show ?thesis
    using schedule_event_eq [of m d dat code f] assms by (auto simp: startup_ok_def event_insert_sorted)
qed

lemma startup_frames [simp]:
  "startup_ok k (put_device s d m) = startup_ok k m" "startup_ok k (raise_fault f m) = startup_ok k m"
  "startup_ok k (die m) = startup_ok k m" "startup_ok k (smoke m) = startup_ok k m"
  "startup_ok k (run_sys c m) = startup_ok k m" "startup_ok k (upd_net s g m) = startup_ok k m"
  "startup_ok k (upd_emufs s e m) = startup_ok k m" "startup_ok k (emufs_count h m) = startup_ok k m"
  "startup_ok k (m\<lparr>console_key := c'\<rparr>) = startup_ok k m"
  by (simp_all add: startup_ok_def put_device_def raise_fault_def die_def smoke_def run_sys_def do_sys_def
      upd_net_def upd_emufs_def emufs_count_def upd_stats_def split: option.split)

lemma startup_cpus [simp]: "startup_ok k (fold (board_cpu cram) js m) = startup_ok k m"
  by (induction js arbitrary: m) (simp_all add: board_cpu_def startup_ok_def)

lemma startup_board:
  assumes "startup_ok k m"
  shows "startup_ok k (lamebus_commonmainboard_init isold slot args cram m)"
proof -
  have "startup_ok k (m\<lparr>bus_ramsize := r, ncpus := n\<rparr>)" for r n using assms by (simp add: startup_ok_def)
  then have "startup_ok k ((fold (board_cpu cram) [0..<j] (m\<lparr>bus_ramsize := r, ncpus := n\<rparr>))\<lparr>lb_cpus := l\<rparr>)" for j r n l
    using startup_cpus [of k cram "[0..<j]" "m\<lparr>bus_ramsize := r, ncpus := n\<rparr>"] by (simp add: startup_ok_def)
  then show ?thesis using assms by (simp add: lamebus_commonmainboard_init_def Let_def split: sum.split prod.split)
qed

lemma startup_dev:
  assumes "startup_ok k m"
  shows "startup_ok k (dev_init ch kind slot args m)"
proof -
  have "startup_ok k (disk_init slot args host m)" for host
    using assms by (simp add: disk_init_def Let_def case_prod_beta split: sum.split option.split geometry.split)
  moreover have "startup_ok k (net_init slot args fresh sock m)" for fresh sock
    using assms by (auto simp: net_init_def keepalive_def do_sys_eq Let_def intro!: startup_event split: option.split)
  moreover have "startup_ok k (emufs_init slot args m)"
    using assms by (simp add: emufs_init_def emufs_openfirst_def do_sys_eq Let_def split: option.split)
  moreover have "startup_ok k (rand_init ch args m)"
    using assms by (simp add: rand_init_def startup_ok_def die_def raise_fault_def split: option.split)
  ultimately show ?thesis
    using assms startup_board by (cases kind) (simp_all add: dev_init_def trace_init_def)
qed

lemma startup_line: "startup_ok k (fst s) \<Longrightarrow> startup_ok k (fst (config_line ch buf s))"
  by (cases s) (auto simp: config_line_def Let_def startup_dev split: prod.split option.split)

lemma startup_lines: "startup_ok k (fst s) \<Longrightarrow> startup_ok k (fst (fold (config_line ch) bufs s))"
  by (induction bufs arbitrary: s) (simp_all add: startup_line)

lemma startup_extras: "startup_ok k m \<Longrightarrow> startup_ok k (fold check_extra es m)"
  by (induction es arbitrary: m) (simp_all add: check_extra_def then_run_def)

lemma startup_bus:
  assumes "startup_ok k m"
  shows "startup_ok k (fst (bus_config ch conf extras m))"
proof (cases conf)
  case None
  then show ?thesis using startup_extras [OF assms] by (simp add: bus_config_def then_run_def Let_def)
next
  case (Some conf')
  obtain m2 es where f: "fold (config_line ch) (fgets_lines conf') (fold check_extra extras m, map Some extras) = (m2, es)"
    by fastforce
  have "startup_ok k m2"
    using startup_lines [of k "(fold check_extra extras m, map Some extras)"] startup_extras [OF assms] f by (metis fst_conv)
  moreover have "startup_ok k (config_memory ch m)" if "startup_ok k m" for m
    using that by (simp add: config_memory_def then_run_def) (simp add: startup_ok_def)
  ultimately show ?thesis by (simp add: bus_config_def Some f then_run_def Let_def)
qed

section \<open>Options\<close>

text \<open>What reading the options leaves alone of the machine.\<close>

definition untouched :: "machine \<Rightarrow> machine \<Rightarrow> bool" where
  "untouched m m' \<longleftrightarrow> events_same m m' \<and> devices m' = devices m \<and> bus_ramsize m' = bus_ramsize m"

lemma untouched_refl: "untouched m m"
  by (simp add: untouched_def events_same_def)

lemma untouched_trans: "untouched m1 m2 \<Longrightarrow> untouched m2 m3 \<Longrightarrow> untouched m1 m3"
  by (simp add: untouched_def events_same_def)

lemma untouched_fault: "untouched m (raise_fault f m)" "untouched m (die m)" "untouched m (smoke m)"
  by (simp_all add: untouched_def events_same_def raise_fault_def die_def smoke_def split: option.split)

lemma untouched_flags: "untouched m (set_traceflags chs m)"
proof (induction chs arbitrary: m)
  case (Cons ch chs)
  have "untouched m (update_cpu_tracing (m\<lparr>g_traceflags := fl\<rparr>))" for fl
    by (simp add: untouched_def events_same_def update_cpu_tracing_def cpu_set_tracing_def)
  from untouched_trans [OF this Cons] show ?case
    using untouched_fault by (simp add: set_traceflag_def split: option.split)
qed (simp add: untouched_refl)

lemma say_machine: "st_m (say s st) = st_m st" "st_m (say_part s st) = st_m st"
  by (simp_all add: say_def say_part_def)

lemma says_machine: "st_m (fold say ss st) = st_m st"
  by (induction ss arbitrary: st) (simp_all add: say_machine)

lemma flags_machine: "st_m (fold print_flag_usage flags st) = st_m st"
  by (induction flags arbitrary: st) (simp_all add: print_flag_usage_def Let_def say_machine split: prod.split)

lemma usage_machine: "st_m (usage h st) = die (st_m st)"
  unfolding usage_def print_traceflags_usage_def Let_def start_die_def
  by (simp add: says_machine flags_machine del: fold.simps fold_simps)

lemma untouched_option: "untouched (st_m st) (st_m (main_option h opt arg st))"
proof -
  have "untouched (st_m st) (st_m (start_tracefile h arg st))"
    using untouched_refl untouched_fault by (simp add: start_tracefile_def split: prod.split tracefile.split)
  moreover have "untouched (st_m st) (st_m (start_traceflags arg st))"
    using untouched_flags by (simp add: start_traceflags_def Let_def split: option.split)
  moreover have "untouched (st_m st) ((st_m st)\<lparr>no_debugger_wait := True\<rparr>)"
    "untouched (st_m st) (clock_setprogresstimeout v (st_m st))" for v
    by (simp_all add: untouched_def events_same_def clock_setprogresstimeout_def clock_newprogressdeadline_def)
  ultimately show ?thesis
    using untouched_refl untouched_fault
    by (simp add: main_option_def Let_def start_die_def say_machine usage_machine)
qed

lemma untouched_options: "untouched (st_m st) (st_m (fst (read_options h p st)))"
proof (induction h p st rule: read_options.induct)
  case (1 h p st)
  obtain r p1 where Pair: "mygetopt main_options p = (r, p1)" by (cases "mygetopt main_options p")
  show ?case
  proof (cases r)
    case (Opt opt arg)
    let ?st1 = "main_option h opt (case arg of None \<Rightarrow> [] | Some a \<Rightarrow> a) st"
    have o: "untouched (st_m st) (st_m ?st1)" by (rule untouched_option)
    have "running ?st1 \<Longrightarrow> untouched (st_m ?st1) (st_m (fst (read_options h p1 ?st1)))"
      using 1 [OF Pair [symmetric] Opt refl] by simp
    then show ?thesis
      using o untouched_trans [OF o] by (subst read_options.simps) (simp add: Pair Opt Let_def)
  qed (subst read_options.simps; simp add: Pair usage_machine untouched_refl untouched_fault(2))+
qed

section \<open>The machine is ready\<close>

lemma acfree_all: "fold (\<lambda>i. acfree) js m = m\<lparr>ta_free := ta_free m + length js\<rparr>"
  by (induction js arbitrary: m) (simp_all add: acfree_def)

lemma clock_ready:
  assumes "event_queue m = []" "ta_free m = 0" "bus_raised_interrupts m = 0"
  shows "startup_ok MAXACTIONS (clock_init t m)" "devices (clock_init t m) = devices m"
    "bus_ramsize (clock_init t m) = bus_ramsize m" "fault_state (clock_init t m) = fault_state m"
proof -
  have q: "check_queue m = m" if "event_queue m = []" for m
    unfolding check_queue_def by (subst while_option_unfold) (simp add: queue_due_def that)
  show "startup_ok MAXACTIONS (clock_init t m)" "devices (clock_init t m) = devices m"
    "bus_ramsize (clock_init t m) = bus_ramsize m" "fault_state (clock_init t m) = fault_state m"
    using assms
    by (simp_all add: clock_init_def acalloc_init_def acfree_all clock_coreinit_def host_next_random_def Let_def
        clock_vadvance_def q startup_ok_def events_sorted_def)
qed

lemma mips_inits_frame:
  "lb_cpus (fold mips_init js m) = lb_cpus m" "event_queue (fold mips_init js m) = event_queue m"
  "ta_free (fold mips_init js m) = ta_free m" "bus_raised_interrupts (fold mips_init js m) = bus_raised_interrupts m"
  by (induction js arbitrary: m) (simp_all add: mips_init_lookup)

lemma cpus_ready:
  assumes "startup_ok k m" "cpus_fresh m"
  shows "machine_ok k (ncpus m) (cpu_init (ncpus m) (initstats m))"
proof -
  let ?n = "ncpus m" and ?z = "(initstats m)\<lparr>ncpus := ncpus m\<rparr>" and ?m = "cpu_init (ncpus m) (initstats m)"
  have n: "0 < ?n" "?n \<le> 32" using assms(2) by (simp_all add: cpus_fresh_def)
  have i: "cpus_ok ?m" "ncpus ?m = ?n" using cpu_init_establishes [OF n, of "initstats m"] by (simp_all add: Let_def)
  have f: "lb_cpus ?m = lb_cpus m" "event_queue ?m = event_queue m" "ta_free ?m = ta_free m" "bus_raised_interrupts ?m = 0"
    using assms(1) n by (simp_all add: cpu_init_def Let_def mips_inits_frame initstats_def upd_stats_def startup_ok_def)
  have c: "\<not> irq_lamebus (mycpus ?m j)" "\<not> irq_ipi (mycpus ?m j)" if "j < ?n" for j
    using that n fold_mips_init [of ?n ?z j]
    by (cases "j = 0"; simp add: cpu_init_def Let_def mips_init_regs_def)+
  have "irq_ok ?m"
    using assms(2) c by (simp add: irq_ok_def lines_ok_def irq_pending_def f i(2) cpus_fresh_def)
  then show ?thesis using i f assms(1) by (simp add: machine_ok_def startup_ok_def)
qed

lemma ok_die: "machine_ok k n m \<Longrightarrow> machine_ok k n (die m)" "machine_ok k n m \<Longrightarrow> machine_ok k n (smoke m)"
  by (simp_all add: die_def smoke_def ok_fault)

lemma ok_sys: "machine_ok k n m \<Longrightarrow> machine_ok k n (run_sys c m)"
  by (erule ok_core) (simp add: core_same_def run_sys_def do_sys_def)

lemma ok_read: "machine_ok k n m \<Longrightarrow> machine_ok k n (fst (elf_read fd pos len m))"
  by (simp add: elf_read_def do_sys_eq Let_def ok_sys ok_die split: option.split)

lemma ok_ram_put: "machine_ok k n m \<Longrightarrow> machine_ok k n (ram_put off bs m)"
  by (erule ok_core) (simp add: core_same_def ram_put_def Let_def raise_fault_def split: option.split)

lemma ok_upd_prof: "machine_ok k n m \<Longrightarrow> machine_ok k n (upd_prof f m)"
  by (erule ok_core) (simp add: core_same_def upd_prof_def)

lemma ok_addtext: "machine_ok k n m \<Longrightarrow> machine_ok k n (prof_addtext b s m)"
  by (simp add: prof_addtext_def Let_def ok_upd_prof ok_die)

lemma ok_segment: "machine_ok k n m \<Longrightarrow> machine_ok k n (fst (load_segment fd ph m))"
proof -
  assume ok: "machine_ok k n m"
  have "machine_ok k n m2" if "elf_read fd pos len m1 = (m2, r)" "machine_ok k n m1" for pos len m1 m2 r
    using ok_read [OF that(2), of fd pos len] that(1) by simp
  then show ?thesis
    using ok ok_addtext [OF ok]
    by (auto simp: load_segment_def Let_def ok_die ok_ram_put split: option.split prod.split)
qed

lemma ok_segments: "machine_ok k n m \<Longrightarrow> machine_ok k n (fst (load_segments fd eh js m))"
proof (induction js arbitrary: m)
  case (Cons i js)
  obtain m1 r where e: "elf_read fd (e_phoff eh + of_nat i * ucast (e_phentsize eh)) PHDR_SIZE m = (m1, r)" by fastforce
  have m1: "machine_ok k n m1" using ok_read [OF Cons.prems] e by (metis fst_conv)
  show ?case
  proof (cases r)
    case None
    then show ?thesis using m1 e by simp
  next
    case (Some bs)
    obtain m2 b where l: "load_segment fd (elf_phdr bs) m1 = (m2, b)" by fastforce
    have "machine_ok k n m2" using ok_segment [OF m1] l by (metis fst_conv)
    then show ?thesis using Cons.IH e Some l by (cases b) simp_all
  qed
qed simp

lemma ok_load: "machine_ok k n m \<Longrightarrow> machine_ok k n (fst (load_kernel path argument m))"
proof -
  assume ok: "machine_ok k n m"
  have elf: "machine_ok k n (fst (load_elf fd m))" if "machine_ok k n m" for fd m
  proof -
    obtain m1 r where e: "elf_read fd 0 EHDR_SIZE m = (m1, r)" by fastforce
    have m1: "machine_ok k n m1" using ok_read [OF that] e by (metis fst_conv)
    have "machine_ok k n m2" if "load_segments fd eh js m1 = (m2, b)" for eh js m2 b
      using ok_segments [OF m1] that by (metis fst_conv)
    then show ?thesis using m1 e by (auto simp: load_elf_def Let_def ok_die split: option.split prod.split bool.split)
  qed
  have stack: "machine_ok k n (cpu_set_stack 0 s a m)" if "machine_ok k n m" for s a m
    using that ok_quiet [of "\<lambda>c. c\<lparr>regs := (regs c)(29 := s, 4 := a)\<rparr>"]
    by (simp add: cpu_set_stack_def smoke_def ok_fault cpu_quiet_def)
  have set: "machine_ok k n (fst (setstack argument m))" if "machine_ok k n m" for m
    using that by (auto simp: setstack_def Let_def ok_die ok_ram_put stack split: option.split)
  obtain m2 b where l: "load_elf (sys_ret (host_sys m (host_log m) (Sys_open path 0))) (run_sys (Sys_open path 0) m) = (m2, b)"
    by fastforce
  have "machine_ok k n m2" using elf [OF ok_sys [OF ok]] l by (metis fst_conv)
  then show ?thesis
    using ok l by (cases b) (simp_all add: load_kernel_def do_sys_eq Let_def ok_die ok_sys set)
qed

lemma ok_prof: "machine_ok k n m \<Longrightarrow> machine_ok k n (prof_setup m)"
  by (simp add: prof_setup_def Let_def ok_die ok_event ok_upd_prof)

section \<open>The whole program\<close>

lemma on_running: "running (on_machine f st) \<Longrightarrow> running st \<and> st_m (on_machine f st) = f (st_m st)"
  by (auto simp: running_def on_machine_def then_run_def split: if_splits)

lemma on_fields [simp]: "st_extras (on_machine f st) = st_extras st" "st_doom (on_machine f st) = st_doom st"
  by (simp_all add: on_machine_def)

lemma smoke_fault: "fault_state (smoke m) \<noteq> None"
  by (simp add: smoke_def raise_fault_def split: option.split)

lemma console_running: "running (start_console st) \<Longrightarrow> running st \<and> st_m (start_console st) = st_m st"
  using smoke_fault [of "st_m st"]
  by (cases "running st"; cases "console_init (st_pass_signals st) (st_console_tracing st) (st_con st)"; cases "snd (console_init (st_pass_signals st) (st_console_tracing st) (st_con st))")
    (simp_all add: start_console_def running_def)

lemma machine_ready:
  assumes "running (start_machine h kname args st)"
    and "event_queue (st_m st) = []" "ta_free (st_m st) = 0" "bus_raised_interrupts (st_m st) = 0"
    and "devices (st_m st) = (\<lambda>_. None)" "bus_ramsize (st_m st) = 0"
  shows "\<exists>n. 1 \<le> n \<and> n \<le> 32 \<and> machine_ok MAXACTIONS n (st_m (start_machine h kname args st))"
proof -
  define bytes where "bytes = (map of_char :: string \<Rightarrow> u8 list)"
  define st1 where "st1 = on_machine (clock_init (sh_secs h)) (start_console st)"
  define st2 where "st2 = on_machine (\<lambda>m. fst (bus_config (sh_devices h) (sh_config h (st_config st)) (st_extras st) m)) st1"
  define st3 where "st3 = on_machine (\<lambda>m. if st_doom st \<noteq> 0 then doom_establish (unat (word_of_int (st_doom st) :: u32)) m else m) st2"
  define st4 where "st4 = on_machine (\<lambda>m. cpu_init (ncpus m) (initstats m)) st3"
  define st5 where "st5 = on_machine (\<lambda>m. fst (load_kernel (bytes kname) (bytes (argument_string args)) m)) st4"
  define st6 where "st6 = on_machine (\<lambda>m. if st_profiling st then prof_setup m else m) st5"
  have e: "start_machine h kname args st = st6"
    unfolding start_machine_def Let_def st6_def st5_def st4_def st3_def st2_def st1_def bytes_def ..
  have "running st6" using assms(1) by (simp add: e)
  note 6 = on_running [OF this [unfolded st6_def]]
  note 5 = on_running [OF 6 [THEN conjunct1, unfolded st5_def]]
  note 4 = on_running [OF 5 [THEN conjunct1, unfolded st4_def]]
  note 3 = on_running [OF 4 [THEN conjunct1, unfolded st3_def]]
  note 2 = on_running [OF 3 [THEN conjunct1, unfolded st2_def]]
  note 1 = on_running [OF 2 [THEN conjunct1, unfolded st1_def]]
  note 0 = console_running [OF 1 [THEN conjunct1]]
  have m1: "st_m st1 = clock_init (sh_secs h) (st_m st)" using 0 1 by (simp add: st1_def)
  have f1: "fault_state (st_m st1) = None" using 2 by (simp add: running_def)
  have s1: "startup_ok MAXACTIONS (st_m st1)" "devices (st_m st1) = (\<lambda>_. None)" "bus_ramsize (st_m st1) = 0"
    using clock_ready [OF assms(2-4)] assms(5,6) by (simp_all add: m1)
  obtain m2 n where b: "bus_config (sh_devices h) (sh_config h (st_config st)) (st_extras st) (st_m st1) = (m2, n)" by fastforce
  have m2: "st_m st2 = m2" using 2 b by (simp add: st2_def)
  have "fault_state m2 = None" using 3 m2 by (simp add: running_def)
  then have s2: "cpus_fresh m2" "startup_ok MAXACTIONS m2"
    using config_sound [OF f1 s1(2,3) b] startup_bus [OF s1(1), of "sh_devices h" "sh_config h (st_config st)" "st_extras st"] b
    by (simp_all add: bus_sound_def)
  have s3: "cpus_fresh (st_m st3)" "startup_ok MAXACTIONS (st_m st3)"
    using s2 3 by (auto simp: st3_def m2 doom_establish_def cpus_fresh_def startup_ok_def)
  have s4: "machine_ok MAXACTIONS (ncpus (st_m st3)) (st_m st4)" using cpus_ready [OF s3(2,1)] 4 by (simp add: st4_def)
  then have "machine_ok MAXACTIONS (ncpus (st_m st3)) (st_m st5)" using ok_load 5 by (simp add: st5_def)
  then have "machine_ok MAXACTIONS (ncpus (st_m st3)) (st_m st6)" using ok_prof 6 by (simp add: st6_def)
  then show ?thesis using s3(1) by (auto simp: e cpus_fresh_def)
qed

text \<open>C1: Whatever the command line, the configuration file, the kernel and the host, in every state the
  simulator gets to there are between 1 and 32 cpus, the running mask and the interrupt lines are right,
  the timed events are in order, all event structures are in the queue or in the pool, and no cpu with
  an interrupt pending sleeps.\<close>

theorem program_keeps_machine_ok:
  assumes "program_reaches h argv (start_state c (zero_machine rnd jit sys)) m'"
  shows "\<exists>n. 1 \<le> n \<and> n \<le> 32 \<and> machine_ok MAXACTIONS n m' \<and>
    (\<forall>i<n. irq_pending m' i \<or> cpu_ipi (lb_cpus m' i) \<longrightarrow> cpu_state (mycpus m' i) \<noteq> CPU_IDLE)"
proof -
  let ?init = "start_state c (zero_machine rnd jit sys)" and ?st = "main_setup h argv (start_state c (zero_machine rnd jit sys))"
  obtain st1 pos where r: "read_options h (None, tl argv) ?init = (st1, pos)"
    by (cases "read_options h (None, tl argv) ?init")
  have "untouched (st_m ?init) (st_m st1)" using untouched_options [of ?init h "(None, tl argv)"] r by simp
  then have z: "event_queue (st_m st1) = []" "ta_free (st_m st1) = 0" "bus_raised_interrupts (st_m st1) = 0"
    "devices (st_m st1) = (\<lambda>_. None)" "bus_ramsize (st_m st1) = 0"
    by (simp_all add: untouched_def events_same_def start_state_def zero_machine_def)
  have run: "running ?st" using assms by (simp add: program_reaches_def running_def Let_def)
  then obtain kname args where "?st = start_machine h kname args st1"
    by (auto simp: main_setup_def r running_def usage_machine split: prod.splits list.splits if_splits)
  then obtain n where n: "1 \<le> n" "n \<le> 32" "machine_ok MAXACTIONS n (st_m ?st)"
    using machine_ready [OF _ z] run by metis
  have s: "machine_ok MAXACTIONS n ((st_m ?st)\<lparr>stopped_in_debugger := True\<rparr>)"
    by (rule ok_core [OF n(3)]) (simp add: core_same_def)
  obtain m1 where m1: "if st_debugwait ?st then stoploop ((st_m ?st)\<lparr>stopped_in_debugger := True\<rparr>) m1 else m1 = st_m ?st"
    "runloop_reaches (if no_debugger_wait m1 then m1\<lparr>gdb_dontwait_flag := True\<rparr> else m1) m'"
    using assms by (auto simp: program_reaches_def Let_def)
  have "machine_ok MAXACTIONS n m1"
    using m1(1) n(3) ok_stopped [OF _ ok_connection(4) [OF s]] by (auto simp: stoploop_def split: if_splits)
  then have "machine_ok MAXACTIONS n (if no_debugger_wait m1 then m1\<lparr>gdb_dontwait_flag := True\<rparr> else m1)"
    by (auto intro: ok_core simp: core_same_def)
  then have "machine_ok MAXACTIONS n m'" using m1(2) ok_rounds by (fastforce simp: runloop_reaches_def)
  then show ?thesis using n(1,2) by (auto simp: machine_ok_def irq_ok_def lines_ok_def)
qed

end
