(* ===== verification/Run_Witnesses.thy ===== *)
theory Run_Witnesses
  imports Tool_Witnesses Startup_Ok
begin

text \<open>
  Concrete inputs for the properties of the console and of the whole program: a terminal, a command line, a host
  with a kernel that has no segments.
\<close>

section \<open>The console\<close>

text \<open>A terminal in the foreground, with standard output on it and a trace file.\<close>

definition w_tios :: termios where
  "w_tios = \<lparr>c_xcase = False, c_icanon = True, c_echo = True, c_echonl = False, c_noflsh = False, c_isig = True,
     c_icrnl = True, c_inlcr = False, c_cread = True, c_onlcr = True, c_vtime = 0, c_vmin = 1\<rparr>"

definition w_con :: console where
  "w_con = \<lparr>con_stdout = Some (output_create 1 False (Some w_tios)), con_stderr = None,
     con_tracefile = Some (output_create 5 True None), con_trace_to = To_tracefile,
     stdin_generates_signals = False, stdin_is_tty = False, stdin_tty_active = False, got_stdin_tios = False,
     stdin_savetios = w_tios, stdin_runtios = w_tios, console_up = False, con_evil = False,
     con_term = Some w_tios, con_foreground = True, con_fds = (\<lambda>_. None), con_polled = False,
     con_handlers = (\<lambda>_. SIG_DFL), con_raised = [], con_released = [], con_smoked = False, con_undefined = False\<rparr>"

lemma lines_have_one_source_witness:
  "o_text (output_op MT_MSG 0 (Line ''late'') (run_ops [(MT_CONSOLE, 0, Put 0x41)] (output_create 1 False None))) =
     ''A'' @ [newline] @ ''sys161: late'' @ [newline]"
proof -
  let ?o = "run_ops [(MT_CONSOLE, 0, Put 0x41)] (output_create 1 False None)"
  have c: "char_of (0x41 :: nat) = CHR ''A''" by code_simp
  have o: "o_text ?o = ''A''" "\<not> o_needs_crs ?o"
    by (simp_all add: run_ops_def output_op_def output_char_def output_switch_def output_create_def tty_checkcrs_def
        output_putc_def output_say_def c)
  have u: "unfinished [(MT_CONSOLE, 0, Put 0x41)] = Some (MT_CONSOLE, 0)" by (simp add: unfinished_def)
  from lines_have_one_source [OF refl refl refl, where ops = "[(MT_CONSOLE, 0, Put 0x41)]" and fd = 1 and needs_close = False
      and tios = None and mt = MT_MSG and cpu = 0 and ?op1.0 = "Line ''late''"]
  show ?thesis by (simp add: u o op_text_def msg_prefix_def eol_text_def)
qed

lemma w_con_outs: "con_stdout w_con = Some (output_create 1 False (Some w_tios))" "con_tracefile w_con = Some (output_create 5 True None)"
  "o_at_bol (output_create fd nc t)"
  by (simp_all add: w_con_def output_create_def tty_checkcrs_def split: option.split)

lemma console_characters_arrive_witness:
  "\<exists>o2. con_stdout (fold con_putc [0x41, 10] w_con) = Some o2 \<and> o_text o2 = ''A'' @ [CHR 0x0d, newline] \<and> o_flushed o2 = 3"
proof -
  let ?o = "output_create 1 False (Some w_tios)"
  have c: "char_of (0x41 :: nat) = CHR ''A''" by code_simp
  have o: "o_needs_crs ?o" "o_text ?o = []" by (simp_all add: output_create_def tty_checkcrs_def w_tios_def)
  from console_characters_arrive [OF w_con_outs(1) _ w_con_outs(2) _ _ refl, of "[0x41, 10]"]
  obtain o2 where "con_stdout (fold con_putc [0x41, 10] w_con) = Some o2"
    "o_text o2 = o_text ?o @ concat (map (shown_char ?o) [0x41, 10])" "o_flushed o2 = length (o_text o2)"
    using w_con_outs(3) by blast
  then show ?thesis by (intro exI [of _ o2]) (simp add: o shown_char_def eol_text_def c)
qed

lemma terminal_restored_witness:
  "con_term (fold term_event [Continue, Stop, Foreground False, Continue] (fst (console_init False False w_con))) =
     Some w_tios \<and>
   con_term (fold term_event [Stop, Continue, Message ''hi''] (fst (console_init False False w_con))) =
     Some (run_settings True w_tios)"
proof -
  have i: "console_init False False w_con = (fst (console_init False False w_con), True)"
    by (simp add: console_init_def w_con_def Let_def)
  have c: "con_term w_con = Some w_tios" "\<not> console_up w_con" "\<not> stdin_tty_active w_con" "\<not> got_stdin_tios w_con"
    "\<not> con_polled w_con" "con_foreground w_con"
    by (simp_all add: w_con_def)
  have h: "\<not> has_terminal True [Continue, Stop, Foreground False, Continue]" "has_terminal True [Stop, Continue, Message ''hi'']"
    using has_terminal_snoc [of True "[Continue, Stop, Foreground False]" Continue]
      has_terminal_snoc [of True "[Continue, Stop]" "Foreground False"] has_terminal_snoc [of True "[Continue]" Stop]
      has_terminal_snoc [of True "[Stop, Continue]" "Message ''hi''"] has_terminal_snoc [of True "[Stop]" Continue]
    by (simp_all add: foreground_after_def)
  show ?thesis
    using terminal_restored [OF c(1-5) i refl] c(6) h by (simp del: fold.simps)
qed

section \<open>A command line\<close>

definition w_argv :: "string list" where "w_argv = [''sys161'', ''-s'', ''-C31:ramsize=512k'', ''kernel'', ''arg'']"

text \<open>A header without segments, for an entry point in the boot ROM; and a host that answers every call with it.\<close>

definition w_hdr :: "u8 list" where
  "w_hdr = [0x7f, 0x45, 0x4c, 0x46, 1, 2, 1, 0, 0, 0, 0, 0, 0, 0, 0, 0, 0, 2, 0, 8, 0, 0, 0, 1, 0xbf, 0xc0, 0, 0] @ replicate 24 0"

definition w_sys :: "syscall list \<Rightarrow> syscall \<Rightarrow> sys_answer" where
  "w_sys = (\<lambda>_ _. no_answer\<lparr>sys_ret := 52, sys_data := w_hdr\<rparr>)"

definition w_host :: sys_host where
  "w_host = \<lparr>sh_compiled = ''today'', sh_config = (\<lambda>_. Some w_conf), sh_devices = w_ch, sh_fopen = (\<lambda>_. Inl ''no''), sh_secs = 0\<rparr>"

definition w_start :: start where "w_start = start_state w_con (zero_machine (\<lambda>_. 0) (\<lambda>_ _. 0) w_sys)"

definition w_opts :: start where
  "w_opts = w_start\<lparr>st_pass_signals := True, st_debugwait := False, st_extras := [''31:ramsize=512k'']\<rparr>"

lemma w_opt_facts:
  "list_all item_ok [Flags ''s'', Attached [] CHR ''C'' ''31:ramsize=512k'']" "running w_start" "running w_opts"
  "w_opts = do_opts w_host (concat (map item_opts [Flags ''s'', Attached [] CHR ''C'' ''31:ramsize=512k''])) w_start"
proof -
  show r: "running w_start" "running w_opts"
    by (simp_all add: running_def w_opts_def w_start_def start_state_def zero_machine_def)
  show "list_all item_ok [Flags ''s'', Attached [] CHR ''C'' ''31:ramsize=512k'']" by (simp add: plain_opt_def arg_opt_def)
  show "w_opts = do_opts w_host (concat (map item_opts [Flags ''s'', Attached [] CHR ''C'' ''31:ramsize=512k''])) w_start"
    using r by (simp add: do_opts_def main_option_def w_opts_def running_def w_start_def start_state_def MAXCONFIGEXTRA_def zero_machine_def)
qed

lemma options_read_back_witness:
  "read_options w_host (None, [''-s'', ''-C31:ramsize=512k'', ''kernel'', ''arg'']) w_start =
     (w_opts, (None, [''kernel'', ''arg'']))"
  using options_read_back [OF w_opt_facts(1) _ w_opt_facts(2,4), of "[''kernel'', ''arg'']"] w_opt_facts(3) by simp

section \<open>The program starts\<close>

lemma w_entry:
  assumes "0 < ncpus m" "\<not> current_usermode (mycpu m 0)"
  shows "fault_state (cpu_set_entrypoint 0 0xbfc00000 m) = fault_state m" "bus_ramsize (cpu_set_entrypoint 0 0xbfc00000 m) = bus_ramsize m"
    "ncpus (cpu_set_entrypoint 0 0xbfc00000 m) = ncpus m"
proof -
  let ?m1 = "upd_cpu 0 (entry_regs 0xbfc00000) m"
  let ?m2 = "upd_cpu 0 (\<lambda>c. c\<lparr>pcpage := Some (Rom_page 0), pcoff := 0\<rparr>) ?m1"
  have pc: "pc (mycpu ?m1 0) = 0xbfc00000" "nextpc (mycpu ?m2 0) = 0xbfc00004"
    "current_usermode (mycpu ?m1 0) = False" "current_usermode (mycpu ?m2 0) = False"
    using assms(2) by (simp_all add: entry_regs_def)
  have "translatemem_with (exception 0) 0 0xbfc00000 False ?m1 = (?m1, Some 0x1fc00000)"
    by (simp only: translatemem_with_def Let_def pc) simp
  from precompute_pc_ok [of "exception 0" 0 ?m1, unfolded pc, OF this, of "Rom_page 0"]
  have 1: "precompute_pc 0 ?m1 = (?m2, True)"
    by (simp add: precompute_pc_def mapmem_def bootrom_map_def ROMWORDS_def)
  have "translatemem_with (exception 0) 0 0xbfc00004 False ?m2 = (?m2, Some 0x1fc00004)"
    by (simp only: translatemem_with_def Let_def pc) simp
  from precompute_nextpc_ok [of "exception 0" 0 ?m2, unfolded pc, OF this, of "Rom_page 0"]
  have 2: "precompute_nextpc 0 ?m2 = (upd_cpu 0 (\<lambda>c. c\<lparr>nextpcpage := Some (Rom_page 0), nextpcoff := 4\<rparr>) ?m2, True)"
    by (simp add: precompute_nextpc_def mapmem_def bootrom_map_def ROMWORDS_def)
  have "cpu_set_entrypoint 0 0xbfc00000 m = upd_cpu 0 (\<lambda>c. c\<lparr>nextpcpage := Some (Rom_page 0), nextpcoff := 4\<rparr>) ?m2"
    using assms(1) by (simp add: cpu_set_entrypoint_def Let_def 1 2 del: upd_cpu_upd_cpu)
  then show "fault_state (cpu_set_entrypoint 0 0xbfc00000 m) = fault_state m" "bus_ramsize (cpu_set_entrypoint 0 0xbfc00000 m) = bus_ramsize m"
    "ncpus (cpu_set_entrypoint 0 0xbfc00000 m) = ncpus m" by simp_all
qed

lemma w_sys_run [simp]: "host_sys (run_sys c m) = host_sys m" "fault_state (run_sys c m) = fault_state m"
  "ncpus (run_sys c m) = ncpus m" "bus_ramsize (run_sys c m) = bus_ramsize m" "mycpus (run_sys c m) = mycpus m"
  by (simp_all add: run_sys_def do_sys_def)

lemma w_load:
  assumes "host_sys m = w_sys" "0 < ncpus m" "\<not> current_usermode (mycpu m 0)" "bus_ramsize m = 0x80000"
  shows "fault_state (fst (load_kernel path (map of_char ''arg'') m)) = fault_state m"
proof -
  have b: "bytes_read 52 (no_answer\<lparr>sys_ret := 52, sys_data := w_hdr\<rparr>) = Some w_hdr" "length w_hdr = 52"
    by (simp_all add: bytes_read_def w_hdr_def no_answer_def)
  have r: "elf_read 52 0 EHDR_SIZE x = (run_sys (Sys_read 52 52) (run_sys (Sys_lseek 52 0) x), Some w_hdr)"
    if "host_sys x = w_sys" for x
    using that b by (simp add: elf_read_def do_sys_eq w_sys_def EHDR_SIZE_def Let_def)
  have h: "elf_accepts (elf_ehdr w_hdr)" "e_phnum (elf_ehdr w_hdr) = 0" "e_entry (elf_ehdr w_hdr) = 0xbfc00000"
    by code_simp+
  define m1 where "m1 = run_sys (Sys_read 52 52) (run_sys (Sys_lseek 52 0) (run_sys (Sys_open path 0) m))"
  have m1: "0 < ncpus m1" "\<not> current_usermode (mycpu m1 0)" "fault_state m1 = fault_state m" "bus_ramsize m1 = 0x80000"
    using assms by (simp_all add: m1_def)
  have e: "load_elf 52 (run_sys (Sys_open path 0) m) = (cpu_set_entrypoint 0 0xbfc00000 m1, True)"
    using r [of "run_sys (Sys_open path 0) m"] assms(1) h by (simp add: load_elf_def Let_def m1_def)
  define m2 where "m2 = run_sys (Sys_close 52) (cpu_set_entrypoint 0 0xbfc00000 m1)"
  have m2: "fault_state m2 = fault_state m" "bus_ramsize m2 = 0x80000" "0 < ncpus m2"
    using w_entry [OF m1(1,2)] m1 by (simp_all add: m2_def)
  have "load_kernel path (map of_char ''arg'') m = setstack (map of_char ''arg'') m2"
    using assms(1) e by (simp add: load_kernel_def do_sys_eq w_sys_def m2_def Let_def)
  moreover have "fault_state (fst (setstack (map of_char ''arg'') m2)) = fault_state m2"
    using m2 by (simp add: setstack_def Let_def cpu_get_ram_paddr_def cpu_get_load_vaddr_def between_def KSEG0_def KSEG1_def
        ram_put_def cpu_set_stack_def)
  ultimately show ?thesis using m2(1) by simp
qed

lemma upd_cpu_host [simp]: "host_sys (upd_cpu cn f m) = host_sys m"
  by (simp add: upd_cpu_def)

lemma mips_inits_host:
  "host_sys (fold mips_init js m) = host_sys m" "bus_ramsize (fold mips_init js m) = bus_ramsize m"
  by (induction js arbitrary: m) (simp_all add: mips_init_lookup)

lemma w_read: "main_setup w_host w_argv w_start = start_machine w_host ''kernel'' [''arg''] w_opts"
  using options_read [OF w_opt_facts(1) _ w_opt_facts(2,4), of "[''kernel'', ''arg'']"] w_opt_facts(3)
  by (simp add: main_setup_def w_argv_def)

lemma w_runs: "fault_state (st_m (main_setup w_host w_argv w_start)) = None"
proof -
  define m0 where "m0 = st_m w_opts"
  have z: "event_queue m0 = []" "ta_free m0 = 0" "bus_raised_interrupts m0 = 0" "fault_state m0 = None"
    "devices m0 = (\<lambda>_. None)" "bus_ramsize m0 = 0" "host_sys m0 = w_sys"
    by (simp_all add: m0_def w_opts_def w_start_def start_state_def zero_machine_def)
  define m1 where "m1 = clock_init 0 m0"
  have h1: "host_sys m1 = w_sys"
  proof -
    have q: "check_queue m = m" if "event_queue m = []" for m
      unfolding check_queue_def by (subst while_option_unfold) (simp add: queue_due_def that)
    show ?thesis
      using z by (simp add: m1_def clock_init_def acalloc_init_def acfree_all clock_coreinit_def host_next_random_def Let_def
          clock_vadvance_def q)
  qed
  have 1: "fault_state m1 = None" "devices m1 = (\<lambda>_. None)" "bus_ramsize m1 = 0"
    using clock_ready [OF z(1-3)] z by (simp_all add: m1_def)
  define m2 where "m2 = fst (bus_config w_ch (Some w_conf) [''31:ramsize=512k''] m1)"
  note 2 = w_config_any [OF 1(1,2), folded m2_def]
  have "bus_sound m2"
    using config_sound [OF 1 prod.collapse [symmetric] 2(1) [unfolded m2_def]] by (simp add: m2_def)
  then have n: "0 < ncpus m2" "ncpus m2 \<le> 32" by (simp_all add: bus_sound_def cpus_fresh_def)
  define m4 where "m4 = cpu_init (ncpus m2) (initstats m2)"
  have 4: "fault_state m4 = None" "0 < ncpus m4" "\<not> current_usermode (mycpu m4 0)"
    using cpu_init_establishes [OF n, of "initstats m2"] 2(1) n(1) by (simp_all add: Let_def m4_def initstats_def)
  have 5: "host_sys m4 = w_sys" "bus_ramsize m4 = 0x80000"
    using 2 h1 n by (simp_all add: m4_def cpu_init_def Let_def mips_inits_host initstats_def upd_stats_def)
  have 6: "fault_state (fst (load_kernel p (map of_char ''arg'') m4)) = None" for p
    using w_load [OF 5(1) 4(2,3) 5(2)] 4(1) by simp
  have c: "start_console w_opts = w_opts\<lparr>st_con := fst (console_init True False w_con)\<rparr>"
    using w_opt_facts(3) by (simp add: start_console_def w_opts_def w_start_def start_state_def console_init_def w_con_def Let_def)
  have o: "st_doom w_opts = 0" "st_profiling w_opts = False" "st_extras w_opts = [''31:ramsize=512k'']"
    by (simp_all add: w_opts_def w_start_def start_state_def)
  have h: "sh_secs w_host = 0" "sh_devices w_host = w_ch" "sh_config w_host f = Some w_conf" for f
    by (simp_all add: w_host_def)
  have "st_m (start_machine w_host ''kernel'' [''arg''] w_opts) =
      fst (load_kernel (map of_char ''kernel'') (map of_char ''arg'') m4)"
    using z(4) 1(1) 2(1) 4(1) 6
    by (simp add: start_machine_def Let_def on_machine_def c o h then_run_def m0_def [symmetric] m1_def [symmetric]
        m2_def [symmetric] m4_def [symmetric] del: list.map)
  then show ?thesis using 6 by (simp add: w_read del: list.map)
qed

lemma w_no_wait: "\<not> st_debugwait (main_setup w_host w_argv w_start)"
  unfolding w_read
  by (simp add: start_machine_def Let_def on_machine_def start_console_def w_opts_def w_start_def start_state_def
      split: prod.split bool.split)

lemma program_keeps_machine_ok_witness:
  "\<exists>n m. 1 \<le> n \<and> n \<le> 32 \<and> machine_ok MAXACTIONS n m \<and> program_reaches w_host w_argv w_start m"
proof -
  let ?m = "st_m (main_setup w_host w_argv w_start)"
  let ?m' = "if no_debugger_wait ?m then ?m\<lparr>gdb_dontwait_flag := True\<rparr> else ?m"
  have "runloop_reaches ?m' ?m'" unfolding runloop_reaches_def by (blast intro: run_rounds.start)
  then have r: "program_reaches w_host w_argv w_start ?m'"
    using w_runs w_no_wait unfolding program_reaches_def Let_def by auto
  then show ?thesis using program_keeps_machine_ok unfolding w_start_def by blast
qed

end
