(* ===== verification/Rv_State.thy ===== *)
theory Rv_State
  imports Memory Control
begin

text \<open>
  The state of the RISC-V build (\<open>riscv/riscv.c\<close>, \<open>riscv/riscv-csr.h\<close>, \<open>riscv/bootrom.c\<close>): the
  record of one cpu, the control registers as words, and physical memory. \<open>struct rvm\<close> below is
  this build's machine: its own \<open>mycpus\<close>, and for everything that \<open>riscv.c\<close> shares with the
  other components (RAM, statistics, the running mask, the flags of the main loop) the record of
  \<open>Machine\<close>. The number of cpus is kept there too.

  The host and this processor are both little-endian, so \<open>ctoh32\<close> and \<open>htoc32\<close> are the
  identity. The I/O space of LAMEbus is reached through the two functions of \<open>bus.h\<close>. They call
  back into the processor (\<open>cpu_set_irqs\<close>, \<open>cpu_enable\<close>), and the devices of the other theories
  are those of the MIPS build, so they are an argument here: a \<open>bus_io\<close>.
\<close>

section \<open>One cpu\<close>

text \<open>\<open>struct riscvcpu\<close>. The fields that have a namesake in the MIPS build begin with \<open>rc_\<close>;
  \<open>x\<close> is \<open>xreg\<close>. Registers are kept as words and read as signed with \<open>sint\<close>.\<close>

record riscvcpu =
  rc_state :: cpustates
  rc_cpunum :: nat
  super :: bool
  Cext :: bool
  xreg :: "nat \<Rightarrow> u32"
  rc_pc :: u32
  rc_pcoff :: u32
  rc_pcpage :: "page option"
  rc_nextpc :: u32
  rc_nextpcoff :: u32
  trapped :: bool
  mmu_enable :: bool
  mmu_asid :: u32
  mmu_ptbase_pa :: u32
  mmu_pttoppage :: "page option"
  mmu_cached_vpage :: u32
  mmu_cached_ppage :: u32
  mmu_cached_readable :: bool
  mmu_cached_writeable :: bool
  mmu_cached_executable :: bool
  status_mxr :: bool
  status_sum :: bool
  status_spp :: bool
  status_sie :: bool
  status_spie :: bool
  status_uie :: bool
  status_upie :: bool
  ie_seie :: bool
  ie_stie :: bool
  ie_ssie :: bool
  rc_irq_lamebus :: bool
  rc_irq_timer :: bool
  rc_irq_ipi :: bool
  stvec :: u32
  sscratch :: u32
  scause_interrupt :: bool
  scause_trapcode :: u32
  stval :: u32
  sepc :: u32
  cyclecount :: u64
  cycletrigger :: u64
  lr_active :: bool
  lr_addr :: u32
  lr_value :: u32
  rc_hit_breakpoint :: bool

definition zero_rvcpu :: riscvcpu where
  "zero_rvcpu = \<lparr>
     rc_state = CPU_DISABLED, rc_cpunum = 0, super = False, Cext = False, xreg = (\<lambda>_. 0),
     rc_pc = 0, rc_pcoff = 0, rc_pcpage = None, rc_nextpc = 0, rc_nextpcoff = 0,
     trapped = False, mmu_enable = False, mmu_asid = 0, mmu_ptbase_pa = 0,
     mmu_pttoppage = None, mmu_cached_vpage = 0, mmu_cached_ppage = 0,
     mmu_cached_readable = False, mmu_cached_writeable = False,
     mmu_cached_executable = False, status_mxr = False, status_sum = False,
     status_spp = False, status_sie = False, status_spie = False, status_uie = False,
     status_upie = False, ie_seie = False, ie_stie = False, ie_ssie = False,
     rc_irq_lamebus = False, rc_irq_timer = False, rc_irq_ipi = False, stvec = 0,
     sscratch = 0, scause_interrupt = False, scause_trapcode = 0, stval = 0, sepc = 0,
     cyclecount = 0, cycletrigger = 0, lr_active = False, lr_addr = 0, lr_value = 0,
     rc_hit_breakpoint = False\<rparr>"

section \<open>The machine\<close>

record rvm =
  rvcpus :: "nat \<Rightarrow> riscvcpu"
  rv_sys :: machine

record bus_io =
  io_fetch :: "nat \<Rightarrow> u32 \<Rightarrow> rvm \<Rightarrow> rvm \<times> fetched"
  io_store :: "nat \<Rightarrow> u32 \<Rightarrow> u32 \<Rightarrow> rvm \<Rightarrow> rvm \<times> bool"

definition upd_rv :: "nat \<Rightarrow> (riscvcpu \<Rightarrow> riscvcpu) \<Rightarrow> rvm \<Rightarrow> rvm" where
  "upd_rv cn f s = s\<lparr>rvcpus := (rvcpus s)(cn := f (rvcpus s cn))\<rparr>"

definition upd_sys :: "(machine \<Rightarrow> machine) \<Rightarrow> rvm \<Rightarrow> rvm" where
  "upd_sys f s = s\<lparr>rv_sys := f (rv_sys s)\<rparr>"

abbreviation rvcpu :: "rvm \<Rightarrow> nat \<Rightarrow> riscvcpu" where
  "rvcpu s cn \<equiv> rvcpus s cn"

abbreviation rv_fault :: "fault \<Rightarrow> rvm \<Rightarrow> rvm" where
  "rv_fault f s \<equiv> upd_sys (raise_fault f) s"

abbreviation rv_smoke :: "rvm \<Rightarrow> rvm" where
  "rv_smoke s \<equiv> upd_sys smoke s"

lemma rvcpus_upd_rv [simp]:
  "rvcpus (upd_rv cn f s) i = (if i = cn then f (rvcpus s cn) else rvcpus s i)"
  by (simp add: upd_rv_def)

lemma upd_rv_sys [simp]: "rv_sys (upd_rv cn f s) = rv_sys s"
  by (simp add: upd_rv_def)

lemma upd_sys_cpus [simp]: "rvcpus (upd_sys f s) = rvcpus s"
  by (simp add: upd_sys_def)

lemma upd_sys_sys [simp]: "rv_sys (upd_sys f s) = f (rv_sys s)"
  by (simp add: upd_sys_def)

lemma upd_rv_upd_rv [simp]: "upd_rv cn f (upd_rv cn g s) = upd_rv cn (\<lambda>c. f (g c)) s"
  by (simp add: upd_rv_def)

lemma upd_sys_upd_sys [simp]: "upd_sys f (upd_sys g s) = upd_sys (\<lambda>m. f (g m)) s"
  by (simp add: upd_sys_def)

lemma upd_sys_upd_rv: "upd_sys f (upd_rv cn g s) = upd_rv cn g (upd_sys f s)"
  by (simp add: upd_sys_def upd_rv_def)

lemma rvm_eqI: "rvcpus s = rvcpus t \<Longrightarrow> rv_sys s = rv_sys t \<Longrightarrow> (s :: rvm) = t"
  by (cases s; cases t) simp

definition rv_mask_off :: "nat \<Rightarrow> rvm \<Rightarrow> rvm" where
  "rv_mask_off n s =
     upd_sys (\<lambda>m. m\<lparr>cpu_running_mask := cpu_running_mask m AND NOT (push_bit n 1)\<rparr>) s"

definition rv_mask_on :: "nat \<Rightarrow> rvm \<Rightarrow> rvm" where
  "rv_mask_on n s =
     upd_sys (\<lambda>m. m\<lparr>cpu_running_mask := cpu_running_mask m OR push_bit n 1\<rparr>) s"

section \<open>Memory layout and the boot ROM\<close>

definition PADDR_RAMBASE :: u32 where "PADDR_RAMBASE = 0xc0000000"
definition PADDR_ROMBASE :: u32 where "PADDR_ROMBASE = 0xffc00000"
definition PADDR_BUSBASE :: u32 where "PADDR_BUSBASE = 0xffe00000"

lemmas PADDR_defs = PADDR_RAMBASE_def PADDR_ROMBASE_def PADDR_BUSBASE_def

definition NOP :: u32 where "NOP = 0x00000013"
definition EBREAK :: u32 where "EBREAK = 0x00100073"

text \<open>\<open>fakerom\<close>: no-ops, and a breakpoint in the last word.\<close>

definition rv_fakerom :: "nat \<Rightarrow> u32" where
  "rv_fakerom i = (if i = 1023 then EBREAK else NOP)"

definition rv_bootrom_fetch :: "u32 \<Rightarrow> u32 option" where
  "rv_bootrom_fetch offset =
     (if offset \<ge> of_nat (1024 * 4) then None else Some (rv_fakerom (unat offset div 4)))"

definition rv_bootrom_map :: "u32 \<Rightarrow> page option" where
  "rv_bootrom_map offset =
     (if offset \<ge> of_nat (1024 * 4) then None
      else Some (Rom_page (of_nat (4 * (unat offset div 4)))))"

text \<open>The accessors of \<open>inlinemem.h\<close> in this build.\<close>

definition rv_mem_fetch :: "machine \<Rightarrow> u32 \<Rightarrow> u32 option" where
  "rv_mem_fetch m offset =
     (if offset \<ge> bus_ramsize m then None else Some (host_load32 (ram m) offset))"

definition rv_mem_store :: "u32 \<Rightarrow> u32 \<Rightarrow> machine \<Rightarrow> machine option" where
  "rv_mem_store offset val m =
     (if offset \<ge> bus_ramsize m then None
      else Some (m\<lparr>ram := host_store32 (ram m) offset val\<rparr>))"

fun rv_use_map :: "machine \<Rightarrow> page \<Rightarrow> u32 \<Rightarrow> u32" where
  "rv_use_map m (Ram_page base) pageoffset =
     host_load32 (ram m) (base + (pageoffset AND NOT 3))"
| "rv_use_map m (Rom_page base) pageoffset =
     rv_fakerom (unat base div 4 + unat pageoffset div 4)"

interpretation rv_ram: word_store rv_mem_fetch rv_mem_store
proof
  show "rv_mem_store a v m = None \<longleftrightarrow> rv_mem_fetch m a = None" for a v m
    by (simp add: rv_mem_store_def rv_mem_fetch_def)
  show "rv_mem_fetch m' a = Some v" if "rv_mem_store a v m = Some m'" for a v m m'
    using that by (auto simp: rv_mem_store_def rv_mem_fetch_def split: if_splits)
  show "rv_mem_fetch m' b = rv_mem_fetch m b"
    if "rv_mem_store a v m = Some m'" "a AND 3 = 0" "b AND 3 = 0" "a \<noteq> b" for a v m m' b
    using that
    by (auto simp: rv_mem_store_def rv_mem_fetch_def host_load32_store32_other split: if_splits)
qed

text \<open>A pointer to an entire page, for instruction fetch and for the top-level page table.\<close>

definition rv_mapmem :: "u32 \<Rightarrow> rvm \<Rightarrow> page option" where
  "rv_mapmem paddr0 s =
     (let paddr = paddr0 AND 0xfffff000 in
      if paddr < 0xc0000000 then None
      else if paddr < 0xffc00000 then bus_mem_map (rv_sys s) (paddr - 0xc0000000)
      else if paddr < 0xffe00000 then rv_bootrom_map (paddr - 0xffc00000)
      else None)"

section \<open>Control registers\<close>

definition STATUS_MXR :: u32 where "STATUS_MXR = 0x00080000"
definition STATUS_SUM :: u32 where "STATUS_SUM = 0x00040000"
definition STATUS_SPP :: u32 where "STATUS_SPP = 0x00000100"
definition STATUS_SPIE :: u32 where "STATUS_SPIE = 0x00000020"
definition STATUS_UPIE :: u32 where "STATUS_UPIE = 0x00000010"
definition STATUS_SIE :: u32 where "STATUS_SIE = 0x00000002"
definition STATUS_UIE :: u32 where "STATUS_UIE = 0x00000001"
definition IE_SEIE :: u32 where "IE_SEIE = 0x00000200"
definition IE_STIE :: u32 where "IE_STIE = 0x00000020"
definition IE_SSIE :: u32 where "IE_SSIE = 0x00000002"
definition IP_SEIP :: u32 where "IP_SEIP = 0x00000200"
definition IP_STIP :: u32 where "IP_STIP = 0x00000020"
definition IP_SSIP :: u32 where "IP_SSIP = 0x00000002"
definition CAUSE_IRQ :: u32 where "CAUSE_IRQ = 0x80000000"
definition CAUSE_CODE :: u32 where "CAUSE_CODE = 0x7fffffff"
definition SATP_MODE :: u32 where "SATP_MODE = 0x80000000"
definition SATP_PPN :: u32 where "SATP_PPN = 0x003fffff"
definition SATP_ASID_SHIFT :: nat where "SATP_ASID_SHIFT = 22"

lemmas CSR_bits =
  STATUS_MXR_def STATUS_SUM_def STATUS_SPP_def STATUS_SPIE_def STATUS_UPIE_def STATUS_SIE_def
  STATUS_UIE_def IE_SEIE_def IE_STIE_def IE_SSIE_def IP_SEIP_def IP_STIP_def IP_SSIP_def
  CAUSE_IRQ_def CAUSE_CODE_def SATP_MODE_def SATP_PPN_def SATP_ASID_SHIFT_def

definition read_csr_sstatus :: "riscvcpu \<Rightarrow> u32" where
  "read_csr_sstatus c =
     (if status_mxr c then STATUS_MXR else 0) OR (if status_sum c then STATUS_SUM else 0)
       OR (if status_spp c then STATUS_SPP else 0) OR (if status_spie c then STATUS_SPIE else 0)
       OR (if status_upie c then STATUS_UPIE else 0) OR (if status_sie c then STATUS_SIE else 0)
       OR (if status_uie c then STATUS_UIE else 0)"

definition write_csr_sstatus :: "u32 \<Rightarrow> riscvcpu \<Rightarrow> riscvcpu" where
  "write_csr_sstatus val c = c\<lparr>
     status_mxr := val AND STATUS_MXR \<noteq> 0, status_sum := val AND STATUS_SUM \<noteq> 0,
     status_spp := val AND STATUS_SPP \<noteq> 0, status_spie := val AND STATUS_SPIE \<noteq> 0,
     status_upie := val AND STATUS_UPIE \<noteq> 0, status_sie := val AND STATUS_SIE \<noteq> 0,
     status_uie := val AND STATUS_UIE \<noteq> 0\<rparr>"

definition read_csr_sie :: "riscvcpu \<Rightarrow> u32" where
  "read_csr_sie c =
     (if ie_seie c then IE_SEIE else 0) OR (if ie_stie c then IE_STIE else 0)
       OR (if ie_ssie c then IE_SSIE else 0)"

definition write_csr_sie :: "u32 \<Rightarrow> riscvcpu \<Rightarrow> riscvcpu" where
  "write_csr_sie val c = c\<lparr>
     ie_seie := val AND IE_SEIE \<noteq> 0, ie_stie := val AND IE_STIE \<noteq> 0,
     ie_ssie := val AND IE_SSIE \<noteq> 0\<rparr>"

definition read_csr_sip :: "riscvcpu \<Rightarrow> u32" where
  "read_csr_sip c =
     (if rc_irq_lamebus c then IP_SEIP else 0) OR (if rc_irq_timer c then IP_STIP else 0)
       OR (if rc_irq_ipi c then IP_SSIP else 0)"

definition write_csr_sip :: "u32 \<Rightarrow> riscvcpu \<Rightarrow> riscvcpu" where
  "write_csr_sip val c = c\<lparr>rc_irq_ipi := val AND IP_SSIP \<noteq> 0\<rparr>"

definition read_csr_sepc :: "riscvcpu \<Rightarrow> u32" where
  "read_csr_sepc c = (if \<not> Cext c then sepc c AND 0xfffffffc else sepc c)"

definition write_csr_sepc :: "u32 \<Rightarrow> riscvcpu \<Rightarrow> riscvcpu" where
  "write_csr_sepc val c = c\<lparr>sepc := val AND 0xfffffffe\<rparr>"

definition read_csr_scause :: "riscvcpu \<Rightarrow> u32" where
  "read_csr_scause c = (if scause_interrupt c then CAUSE_IRQ else 0) OR scause_trapcode c"

definition write_csr_scause :: "u32 \<Rightarrow> riscvcpu \<Rightarrow> riscvcpu" where
  "write_csr_scause val c = c\<lparr>
     scause_interrupt := val AND CAUSE_IRQ \<noteq> 0, scause_trapcode := (val AND CAUSE_CODE) AND 0xf\<rparr>"

definition read_csr_satp :: "riscvcpu \<Rightarrow> u32" where
  "read_csr_satp c =
     (if mmu_enable c then SATP_MODE else 0) OR push_bit SATP_ASID_SHIFT (mmu_asid c)
       OR drop_bit 12 (mmu_ptbase_pa c)"

definition write_csr_satp :: "u32 \<Rightarrow> riscvcpu \<Rightarrow> riscvcpu" where
  "write_csr_satp val c = c\<lparr>
     mmu_enable := val AND SATP_MODE \<noteq> 0,
     mmu_asid := drop_bit SATP_ASID_SHIFT val AND 0x1ff,
     mmu_ptbase_pa := push_bit 12 ((val AND SATP_PPN) AND 0xfffff),
     mmu_cached_vpage := 0xffffffff\<rparr>"

end
