(* ===== verification/Rv_Mmu.thy ===== *)
theory Rv_Mmu
  imports Rv_State
begin

text \<open>
  Traps and address translation of the RISC-V processor (\<open>riscv/riscvcore.h\<close>). Entering a trap
  looks up the page of the handler, which may itself trap: the C functions \<open>trap\<close>,
  \<open>translatemem\<close> and \<open>precompute_pc\<close> call each other. The recursion is bounded by the test for a
  trap at the handler's own address; here it has fuel 2, and \<open>trap_fuel\<close> shows that more makes
  no difference. \<open>translatemem\<close> is the walk of the page table (\<open>pt_walk\<close>), the checks on the leaf
  entry it found (\<open>leaf_fault\<close>), and the one-entry cache. Modelled is the build without tracing.
\<close>

section \<open>Exceptions and interrupts\<close>

definition EX_IALIGN :: u32 where "EX_IALIGN = 0"
definition EX_IACCESS :: u32 where "EX_IACCESS = 1"
definition EX_ILLINST :: u32 where "EX_ILLINST = 2"
definition EX_BREAKPOINT :: u32 where "EX_BREAKPOINT = 3"
definition EX_LALIGN :: u32 where "EX_LALIGN = 4"
definition EX_LACCESS :: u32 where "EX_LACCESS = 5"
definition EX_SACCESS :: u32 where "EX_SACCESS = 7"
definition EX_UCALL :: u32 where "EX_UCALL = 8"
definition EX_IPAGE :: u32 where "EX_IPAGE = 12"
definition EX_LPAGE :: u32 where "EX_LPAGE = 13"
definition EX_SPAGE :: u32 where "EX_SPAGE = 15"
definition IRQ_SSOFT :: u32 where "IRQ_SSOFT = 1"
definition IRQ_STIMER :: u32 where "IRQ_STIMER = 5"
definition IRQ_SEXTERN :: u32 where "IRQ_SEXTERN = 9"

lemmas RV_EX_defs =
  EX_IALIGN_def EX_IACCESS_def EX_ILLINST_def EX_BREAKPOINT_def EX_LALIGN_def EX_LACCESS_def
  EX_SACCESS_def EX_UCALL_def EX_IPAGE_def EX_LPAGE_def EX_SPAGE_def IRQ_SSOFT_def
  IRQ_STIMER_def IRQ_SEXTERN_def

text \<open>\<open>enum memrwx\<close>, and the two kinds of fault with their codes.\<close>

datatype memrwx = RWX_READ | RWX_WRITE | RWX_EXECUTE

datatype mmu_fault = Page_fault | Access_fault

fun pagefault :: "memrwx \<Rightarrow> u32" where
  "pagefault RWX_READ = EX_LPAGE"
| "pagefault RWX_WRITE = EX_SPAGE"
| "pagefault RWX_EXECUTE = EX_IPAGE"

fun accessfault :: "memrwx \<Rightarrow> u32" where
  "accessfault RWX_READ = EX_LACCESS"
| "accessfault RWX_WRITE = EX_SACCESS"
| "accessfault RWX_EXECUTE = EX_IACCESS"

definition fault_code :: "mmu_fault \<Rightarrow> memrwx \<Rightarrow> u32" where
  "fault_code f rwx = (case f of Page_fault \<Rightarrow> pagefault rwx | Access_fault \<Rightarrow> accessfault rwx)"

section \<open>Physical memory\<close>

definition rv_accessmem_fetch :: "bus_io \<Rightarrow> nat \<Rightarrow> u32 \<Rightarrow> rvm \<Rightarrow> rvm \<times> fetched" where
  "rv_accessmem_fetch io cn paddr s =
     (if paddr < PADDR_RAMBASE then (s, Bus_error)
      else if paddr < PADDR_ROMBASE then
        (s, case rv_mem_fetch (rv_sys s) (paddr - PADDR_RAMBASE) of
              Some v \<Rightarrow> Fetched v | None \<Rightarrow> Bus_error)
      else if paddr < PADDR_BUSBASE then
        (s, case rv_bootrom_fetch (paddr - PADDR_ROMBASE) of
              Some v \<Rightarrow> Fetched v | None \<Rightarrow> Bus_error)
      else io_fetch io (rc_cpunum (rvcpu s cn)) (paddr - PADDR_BUSBASE) s)"

definition rv_accessmem_store :: "bus_io \<Rightarrow> nat \<Rightarrow> u32 \<Rightarrow> u32 \<Rightarrow> rvm \<Rightarrow> rvm \<times> bool" where
  "rv_accessmem_store io cn paddr val s =
     (if paddr < PADDR_RAMBASE then (s, False)
      else if paddr < PADDR_ROMBASE then
        (case rv_mem_store (paddr - PADDR_RAMBASE) val (rv_sys s) of
           Some m' \<Rightarrow> (s\<lparr>rv_sys := m'\<rparr>, True) | None \<Rightarrow> (s, False))
      else if paddr < PADDR_BUSBASE then (s, False)
      else io_store io (rc_cpunum (rvcpu s cn)) (paddr - PADDR_BUSBASE) val s)"

section \<open>The page table\<close>

definition PTE_V :: u32 where "PTE_V = 0x00000001"
definition PTE_R :: u32 where "PTE_R = 0x00000002"
definition PTE_W :: u32 where "PTE_W = 0x00000004"
definition PTE_X :: u32 where "PTE_X = 0x00000008"
definition PTE_U :: u32 where "PTE_U = 0x00000010"
definition PTE_A :: u32 where "PTE_A = 0x00000040"
definition PTE_D :: u32 where "PTE_D = 0x00000080"
definition PTE_PPN :: u32 where "PTE_PPN = 0x3ffffc00"
definition PTE_UPPER_PPN :: u32 where "PTE_UPPER_PPN = 0xc0000000"

lemmas PTE_defs =
  PTE_V_def PTE_R_def PTE_W_def PTE_X_def PTE_U_def PTE_A_def PTE_D_def PTE_PPN_def
  PTE_UPPER_PPN_def

text \<open>What the walk finds: the variables \<open>entry\<close>, \<open>upperbits\<close>, \<open>paddr\<close>, \<open>offset\<close> and \<open>superpage\<close>.\<close>

record leaf =
  lf_entry :: u32
  lf_upperbits :: u32
  lf_paddr :: u32
  lf_offset :: u32
  lf_superpage :: bool

text \<open>The second level. A fetch that succeeds without writing its result leaves the top-level
  entry in the variable.\<close>

definition pt_leaf :: "bus_io \<Rightarrow> nat \<Rightarrow> u32 \<Rightarrow> u32 \<Rightarrow> rvm \<Rightarrow> rvm \<times> (mmu_fault + leaf)" where
  "pt_leaf io cn vaddr entry0 s =
     (if entry0 AND PTE_UPPER_PPN \<noteq> 0 then (s, Inl Access_fault)
      else
        let ptpaddr = push_bit 2 (entry0 AND PTE_PPN);
            ix = drop_bit 10 (vaddr AND 0x003ff000);
            (s1, r) = rv_accessmem_fetch io cn (ptpaddr + ix) s;
            entry = (case r of Fetched v \<Rightarrow> v | _ \<Rightarrow> entry0)
        in if r = Bus_error then (s1, Inl Access_fault)
           else if entry AND PTE_V = 0 then (s1, Inl Page_fault)
           else if entry AND PTE_UPPER_PPN \<noteq> 0 then (s1, Inl Access_fault)
           else (s1, Inr \<lparr>lf_entry = entry, lf_upperbits = entry AND PTE_UPPER_PPN,
                   lf_paddr = push_bit 2 (entry AND PTE_PPN), lf_offset = vaddr AND 0x00000fff,
                   lf_superpage = False\<rparr>))"

definition pt_walk :: "bus_io \<Rightarrow> nat \<Rightarrow> u32 \<Rightarrow> rvm \<Rightarrow> rvm \<times> (mmu_fault + leaf)" where
  "pt_walk io cn vaddr s =
     (case mmu_pttoppage (rvcpu s cn) of
        None \<Rightarrow> (s, Inl Access_fault)
      | Some toppage \<Rightarrow>
          let ix = drop_bit 20 (vaddr AND 0xffc00000);
              entry = rv_use_map (rv_sys s) toppage ix
          in if entry AND PTE_V = 0 then (s, Inl Page_fault)
             else if entry AND (PTE_R OR PTE_W OR PTE_X) \<noteq> 0 then
               let paddr = push_bit 2 (entry AND PTE_PPN) in
               if paddr AND 0x003ff000 \<noteq> 0 then (s, Inl Page_fault)
               else (s, Inr \<lparr>lf_entry = entry, lf_upperbits = entry AND PTE_UPPER_PPN,
                       lf_paddr = paddr, lf_offset = vaddr AND 0x003fffff, lf_superpage = True\<rparr>)
             else pt_leaf io cn vaddr entry s)"

fun pte_allows :: "u32 \<Rightarrow> memrwx \<Rightarrow> bool" where
  "pte_allows entry RWX_READ = (entry AND PTE_R \<noteq> 0)"
| "pte_allows entry RWX_WRITE = (entry AND PTE_W \<noteq> 0)"
| "pte_allows entry RWX_EXECUTE = (entry AND PTE_X \<noteq> 0)"

text \<open>The checks on the mode, which the debugger's translation leaves out, and those it shares.\<close>

definition mode_fault :: "riscvcpu \<Rightarrow> memrwx \<Rightarrow> u32 \<Rightarrow> bool" where
  "mode_fault c rwx entry \<longleftrightarrow>
     (if super c \<and> entry AND PTE_U \<noteq> 0 then rwx = RWX_EXECUTE \<or> \<not> status_sum c
      else \<not> super c \<and> entry AND PTE_U = 0)"

definition leaf_fault :: "memrwx \<Rightarrow> leaf \<Rightarrow> mmu_fault option" where
  "leaf_fault rwx lf =
     (if \<not> pte_allows (lf_entry lf) rwx then Some Page_fault
      else if rwx = RWX_WRITE \<and> lf_entry lf AND PTE_D = 0 then Some Page_fault
      else if lf_entry lf AND PTE_A = 0 then Some Page_fault
      else if lf_upperbits lf \<noteq> 0 then Some Access_fault
      else None)"

fun cached_allows :: "riscvcpu \<Rightarrow> memrwx \<Rightarrow> bool" where
  "cached_allows c RWX_READ = mmu_cached_readable c"
| "cached_allows c RWX_WRITE = mmu_cached_writeable c"
| "cached_allows c RWX_EXECUTE = mmu_cached_executable c"

definition cache_leaf :: "u32 \<Rightarrow> leaf \<Rightarrow> riscvcpu \<Rightarrow> riscvcpu" where
  "cache_leaf vpage lf c =
     (if lf_superpage lf then c
      else c\<lparr>mmu_cached_vpage := vpage, mmu_cached_ppage := lf_paddr lf,
             mmu_cached_readable := lf_entry lf AND PTE_R \<noteq> 0,
             mmu_cached_writeable := lf_entry lf AND (PTE_W OR PTE_D) = PTE_W OR PTE_D,
             mmu_cached_executable := lf_entry lf AND PTE_X \<noteq> 0\<rparr>)"

text \<open>\<open>translatemem\<close> up to the exception it takes.\<close>

definition mmu_lookup :: "bus_io \<Rightarrow> nat \<Rightarrow> u32 \<Rightarrow> memrwx \<Rightarrow> rvm \<Rightarrow> rvm \<times> (mmu_fault + u32)" where
  "mmu_lookup io cn vaddr rwx s =
     (let c = rvcpu s cn; vpage = vaddr AND 0xfffff000 in
      if \<not> mmu_enable c then (s, Inr vaddr)
      else if vpage = mmu_cached_vpage c then
        (s, if cached_allows c rwx then Inr (mmu_cached_ppage c OR (vaddr AND 0x00000fff))
            else Inl Page_fault)
      else case pt_walk io cn vaddr s of
        (s1, Inl f) \<Rightarrow> (s1, Inl f)
      | (s1, Inr lf) \<Rightarrow>
          if mode_fault (rvcpu s1 cn) rwx (lf_entry lf) then (s1, Inl Page_fault)
          else case leaf_fault rwx lf of
            Some f \<Rightarrow> (s1, Inl f)
          | None \<Rightarrow> (upd_rv cn (cache_leaf vpage lf) s1, Inr (lf_paddr lf OR lf_offset lf)))"

text \<open>An exception handler as an argument: \<open>exc code value\<close>.\<close>

definition translate_with ::
  "(u32 \<Rightarrow> u32 \<Rightarrow> rvm \<Rightarrow> rvm) \<Rightarrow> bus_io \<Rightarrow> nat \<Rightarrow> u32 \<Rightarrow> memrwx \<Rightarrow> rvm \<Rightarrow> rvm \<times> u32 option" where
  "translate_with exc io cn vaddr rwx s =
     (let s0 = (if vaddr AND 1 \<noteq> 0 then rv_smoke s else s) in
      case mmu_lookup io cn vaddr rwx s0 of
        (s1, Inl f) \<Rightarrow> (exc (fault_code f rwx) vaddr s1, None)
      | (s1, Inr paddr) \<Rightarrow> (s1, Some paddr))"

text \<open>The debugger's translation keeps the state of the cpu; a fetch from the page table may
  still go to the bus.\<close>

definition rv_debug_translatemem ::
  "bus_io \<Rightarrow> nat \<Rightarrow> u32 \<Rightarrow> memrwx \<Rightarrow> rvm \<Rightarrow> rvm \<times> u32 option" where
  "rv_debug_translatemem io cn vaddr rwx s =
     (let c = rvcpu s cn; vpage = vaddr AND 0xfffff000 in
      if vaddr AND 3 \<noteq> 0 then (s, None)
      else if \<not> mmu_enable c then (s, Some vaddr)
      else if vpage = mmu_cached_vpage c then
        (s, if cached_allows c rwx then Some (mmu_cached_ppage c OR (vaddr AND 0x00000fff))
            else None)
      else case pt_walk io cn vaddr s of
        (s1, Inl _) \<Rightarrow> (s1, None)
      | (s1, Inr lf) \<Rightarrow>
          (s1, if leaf_fault rwx lf = None then Some (lf_paddr lf OR lf_offset lf) else None))"

section \<open>Entering a trap\<close>

definition rv_precompute_with ::
  "(u32 \<Rightarrow> u32 \<Rightarrow> rvm \<Rightarrow> rvm) \<Rightarrow> bus_io \<Rightarrow> nat \<Rightarrow> rvm \<Rightarrow> rvm \<times> bool" where
  "rv_precompute_with exc io cn s =
     (case translate_with exc io cn (rc_pc (rvcpu s cn)) RWX_EXECUTE s of
        (s1, None) \<Rightarrow> (s1, False)
      | (s1, Some physpc) \<Rightarrow>
          let s2 = upd_rv cn (\<lambda>c. c\<lparr>rc_pcpage := rv_mapmem physpc s1\<rparr>) s1 in
          if rc_pcpage (rvcpu s2 cn) = None then
            let s3 = exc EX_IACCESS (rc_pc (rvcpu s2 cn)) s2 in
            (if rc_pcpage (rvcpu s3 cn) = None then rv_smoke s3 else s3, False)
          else
            (upd_rv cn (\<lambda>c. c\<lparr>rc_pcoff := physpc AND 0xfff, rc_nextpcoff := physpc AND 0xfff\<rparr>) s2,
             True))"

text \<open>What a trap does to the registers of its cpu.\<close>

definition trap_regs :: "bool \<Rightarrow> u32 \<Rightarrow> u32 \<Rightarrow> riscvcpu \<Rightarrow> riscvcpu" where
  "trap_regs isirq code val c = c\<lparr>
     scause_interrupt := isirq, scause_trapcode := code, stval := val,
     status_spp := super c, status_spie := status_sie c, status_sie := False, super := True,
     sepc := rc_pc c, rc_pc := stvec c, rc_nextpc := stvec c, trapped := True\<rparr>"

definition count_trap :: "bool \<Rightarrow> rvm \<Rightarrow> rvm" where
  "count_trap isirq s =
     upd_sys (upd_stats (\<lambda>st. if isirq then st\<lparr>s_irqs := s_irqs st + 1\<rparr>
       else st\<lparr>s_exns := s_exns st + 1\<rparr>)) s"

primrec trap_f :: "nat \<Rightarrow> bus_io \<Rightarrow> nat \<Rightarrow> bool \<Rightarrow> u32 \<Rightarrow> u32 \<Rightarrow> rvm \<Rightarrow> rvm" where
  "trap_f 0 io cn isirq code val s = rv_fault No_return s"
| "trap_f (Suc n) io cn isirq code val s =
     (let s1 = count_trap isirq s in
      if rc_pc (rvcpu s1 cn) = stvec (rvcpu s1 cn) then rv_fault Exit_crash (upd_sys hang s1)
      else fst (rv_precompute_with (trap_f n io cn False) io cn
             (upd_rv cn (trap_regs isirq code val) s1)))"

definition trap :: "bus_io \<Rightarrow> nat \<Rightarrow> bool \<Rightarrow> u32 \<Rightarrow> u32 \<Rightarrow> rvm \<Rightarrow> rvm" where
  "trap io cn isirq code val s = trap_f 2 io cn isirq code val s"

definition rv_exception :: "bus_io \<Rightarrow> nat \<Rightarrow> u32 \<Rightarrow> u32 \<Rightarrow> rvm \<Rightarrow> rvm" where
  "rv_exception io cn code val s = trap io cn False code val s"

definition rv_interrupt :: "bus_io \<Rightarrow> nat \<Rightarrow> u32 \<Rightarrow> rvm \<Rightarrow> rvm" where
  "rv_interrupt io cn code s = trap io cn True code 0 s"

definition rv_translatemem :: "bus_io \<Rightarrow> nat \<Rightarrow> u32 \<Rightarrow> memrwx \<Rightarrow> rvm \<Rightarrow> rvm \<times> u32 option" where
  "rv_translatemem io cn vaddr rwx s = translate_with (rv_exception io cn) io cn vaddr rwx s"

definition rv_precompute_pc :: "bus_io \<Rightarrow> nat \<Rightarrow> rvm \<Rightarrow> rvm \<times> bool" where
  "rv_precompute_pc io cn s = rv_precompute_with (rv_exception io cn) io cn s"

definition rv_domem_fetch ::
  "bus_io \<Rightarrow> nat \<Rightarrow> u32 \<Rightarrow> memrwx \<Rightarrow> rvm \<Rightarrow> rvm \<times> fetched" where
  "rv_domem_fetch io cn vaddr willrwx s =
     (case rv_translatemem io cn vaddr willrwx s of
        (s1, None) \<Rightarrow> (s1, Bus_error)
      | (s1, Some paddr) \<Rightarrow>
          case rv_accessmem_fetch io cn paddr s1 of
            (s2, Bus_error) \<Rightarrow> (rv_exception io cn (accessfault willrwx) vaddr s2, Bus_error)
          | r \<Rightarrow> r)"

definition rv_domem_store ::
  "bus_io \<Rightarrow> nat \<Rightarrow> u32 \<Rightarrow> u32 \<Rightarrow> memrwx \<Rightarrow> rvm \<Rightarrow> rvm \<times> bool" where
  "rv_domem_store io cn vaddr val willrwx s =
     (case rv_translatemem io cn vaddr willrwx s of
        (s1, None) \<Rightarrow> (s1, False)
      | (s1, Some paddr) \<Rightarrow>
          case rv_accessmem_store io cn paddr val s1 of
            (s2, False) \<Rightarrow> (rv_exception io cn (accessfault willrwx) vaddr s2, False)
          | (s2, True) \<Rightarrow> (s2, True))"

definition reload_pagetables :: "bus_io \<Rightarrow> nat \<Rightarrow> rvm \<Rightarrow> rvm \<times> bool" where
  "reload_pagetables io cn s =
     (let s1 = upd_rv cn (\<lambda>c. c\<lparr>mmu_pttoppage := rv_mapmem (mmu_ptbase_pa c) s\<rparr>) s in
      if mmu_pttoppage (rvcpu s1 cn) = None
      then (rv_exception io cn EX_LACCESS (rc_pc (rvcpu s1 cn)) s1, False)
      else (s1, True))"

section \<open>Breakpoints\<close>

definition rv_bp_region :: "u32 \<times> u32" where
  "rv_bp_region = (PADDR_RAMBASE, PADDR_ROMBASE)"

definition rv_gdb_canhandle :: "u32 \<Rightarrow> machine \<Rightarrow> bool" where
  "rv_gdb_canhandle pcaddr m =
     (if \<not> gdb_listening m then False
      else if \<not> gdb_ctx_inuse m \<and> gdb_dontwait_flag m then False
      else fst rv_bp_region \<le> pcaddr \<and> pcaddr < snd rv_bp_region)"

definition try_breakpoint :: "nat \<Rightarrow> rvm \<Rightarrow> rvm \<times> bool" where
  "try_breakpoint cn s =
     (if rv_gdb_canhandle (rc_pc (rvcpu s cn)) (rv_sys s) then
        (upd_rv cn (\<lambda>c. c\<lparr>cyclecount := cyclecount c - 1, rc_hit_breakpoint := True,
             rc_nextpc := rc_pc c, rc_nextpcoff := rc_pcoff c\<rparr>)
           (upd_sys (\<lambda>m. main_enter_debugger False (cpu_stopcycling m)) s), True)
      else (s, False))"

end
