(* ===== verification/Rv_Core.thy ===== *)
theory Rv_Core
  imports Rv_Mmu
begin

text \<open>
  Loads and stores of the RISC-V processor (\<open>doload\<close> and \<open>dostore\<close> of \<open>riscv/riscvcore.h\<close>).
  Unaligned accesses are allowed: a half word or word that crosses a word boundary takes two
  accesses to memory. A load returns \<open>fetched\<close>: \<open>Bus_error\<close> means that a trap was taken,
  \<open>Not_written\<close> that the bus reported success and left the caller's variable as it was. Using
  such a variable is the fault \<open>Undefined\<close>.
\<close>

section \<open>Registers\<close>

definition rv_getreg :: "rvm \<Rightarrow> nat \<Rightarrow> nat \<Rightarrow> u32" where
  "rv_getreg s cn n = xreg (rvcpu s cn) n"

text \<open>Register 0 is never written.\<close>

definition rv_setreg :: "nat \<Rightarrow> nat \<Rightarrow> u32 \<Rightarrow> rvm \<Rightarrow> rvm" where
  "rv_setreg cn rd v s =
     (if rd \<noteq> 0 then upd_rv cn (\<lambda>c. c\<lparr>xreg := (xreg c)(rd := v)\<rparr>) s else s)"

definition rv_signedshift :: "u32 \<Rightarrow> nat \<Rightarrow> u32" where
  "rv_signedshift val amt =
     (if val AND 0x80000000 \<noteq> 0 then drop_bit amt val OR push_bit (31 - amt) 0xffffffff
      else drop_bit amt val)"

section \<open>Loads\<close>

text \<open>\<open>enum memstyles\<close>\<close>

datatype rv_memstyles = Rv_SBYTE | Rv_UBYTE | Rv_SHALF | Rv_UHALF | Rv_WORD

definition rv_load_byte :: "u32 \<Rightarrow> u32 \<Rightarrow> u8" where
  "rv_load_byte addr val =
     (if addr AND 3 = 0 then ucast (val AND 0x000000ff)
      else if addr AND 3 = 1 then ucast (drop_bit 8 (val AND 0x0000ff00))
      else if addr AND 3 = 2 then ucast (drop_bit 16 (val AND 0x00ff0000))
      else ucast (drop_bit 24 (val AND 0xff000000)))"

definition rv_load_half :: "u32 \<Rightarrow> u32 \<Rightarrow> u16" where
  "rv_load_half addr val =
     (if addr AND 3 = 0 then ucast (val AND 0x0000ffff)
      else if addr AND 3 = 1 then ucast (drop_bit 8 (val AND 0x00ffff00))
      else if addr AND 3 = 2 then ucast (drop_bit 16 (val AND 0xffff0000))
      else ucast (drop_bit 24 (val AND 0xff000000)))"

text \<open>The half word and the word that cross a word boundary, from the two words.\<close>

definition rv_join_half :: "u32 \<Rightarrow> u32 \<Rightarrow> u16" where
  "rv_join_half val1 val2 =
     ucast (drop_bit 24 (val1 AND 0xff000000)) OR ucast (push_bit 8 (val2 AND 0xff))"

definition rv_join_word :: "u32 \<Rightarrow> u32 \<Rightarrow> u32 \<Rightarrow> u32" where
  "rv_join_word addr val1 val2 =
     (if addr AND 3 = 1 then
        drop_bit 8 (val1 AND 0xffffff00) OR push_bit 24 (val2 AND 0x000000ff)
      else if addr AND 3 = 2 then
        drop_bit 16 (val1 AND 0xffff0000) OR push_bit 16 (val2 AND 0x0000ffff)
      else drop_bit 24 (val1 AND 0xff000000) OR push_bit 8 (val2 AND 0x00ffffff))"

definition willrwx :: "bool \<Rightarrow> memrwx" where
  "willrwx willbewrite = (if willbewrite then RWX_WRITE else RWX_READ)"

text \<open>A \<open>domem\<close> fetch into an uninitialised local whose value is then used by \<open>k\<close>.\<close>

definition rv_domem_use ::
  "bus_io \<Rightarrow> nat \<Rightarrow> u32 \<Rightarrow> memrwx \<Rightarrow> (u32 \<Rightarrow> rvm \<Rightarrow> rvm \<times> 'a) \<Rightarrow> 'a \<Rightarrow> rvm \<Rightarrow> rvm \<times> 'a" where
  "rv_domem_use io cn vaddr rwx k fail s =
     (case rv_domem_fetch io cn vaddr rwx s of
        (s1, Bus_error) \<Rightarrow> (s1, fail)
      | (s1, Not_written) \<Rightarrow> (rv_fault Undefined s1, fail)
      | (s1, Fetched val) \<Rightarrow> k val s1)"

definition rv_load_half_at :: "bus_io \<Rightarrow> nat \<Rightarrow> (u16 \<Rightarrow> u32) \<Rightarrow> memrwx \<Rightarrow> u32 \<Rightarrow> rvm \<Rightarrow> rvm \<times> fetched" where
  "rv_load_half_at io cn ext rwx addr s =
     rv_domem_use io cn (addr AND 0xfffffffc) rwx
       (\<lambda>val s1.
          if addr AND 3 = 3 then
            rv_domem_use io cn ((addr AND 0xfffffffc) + 4) rwx
              (\<lambda>val2 s2. (s2, Fetched (ext (rv_join_half val val2)))) Bus_error s1
          else (s1, Fetched (ext (rv_load_half addr val)))) Bus_error s"

definition rv_load_byte_at :: "bus_io \<Rightarrow> nat \<Rightarrow> (u8 \<Rightarrow> u32) \<Rightarrow> memrwx \<Rightarrow> u32 \<Rightarrow> rvm \<Rightarrow> rvm \<times> fetched" where
  "rv_load_byte_at io cn ext rwx addr s =
     rv_domem_use io cn (addr AND 0xfffffffc) rwx
       (\<lambda>val s1. (s1, Fetched (ext (rv_load_byte addr val)))) Bus_error s"

text \<open>The value of the unaligned word is computed after both fetches.\<close>

definition rv_load_word_at :: "bus_io \<Rightarrow> nat \<Rightarrow> memrwx \<Rightarrow> u32 \<Rightarrow> rvm \<Rightarrow> rvm \<times> fetched" where
  "rv_load_word_at io cn rwx addr s =
     (if addr AND 3 = 0 then rv_domem_fetch io cn (addr AND 0xfffffffc) rwx s
      else case rv_domem_fetch io cn (addr AND 0xfffffffc) rwx s of
        (s1, Bus_error) \<Rightarrow> (s1, Bus_error)
      | (s1, r1) \<Rightarrow>
          (case rv_domem_fetch io cn ((addr AND 0xfffffffc) + 4) rwx s1 of
             (s2, Bus_error) \<Rightarrow> (s2, Bus_error)
           | (s2, r2) \<Rightarrow>
               (case (r1, r2) of
                  (Fetched val1, Fetched val2) \<Rightarrow> (s2, Fetched (rv_join_word addr val1 val2))
                | _ \<Rightarrow> (rv_fault Undefined s2, Bus_error))))"

definition rv_doload :: "bus_io \<Rightarrow> nat \<Rightarrow> rv_memstyles \<Rightarrow> bool \<Rightarrow> u32 \<Rightarrow> rvm \<Rightarrow> rvm \<times> fetched" where
  "rv_doload io cn ms willbewrite addr s0 =
     (let s = upd_rv cn (\<lambda>c. c\<lparr>lr_active := False\<rparr>) s0; rwx = willrwx willbewrite in
      case ms of
        Rv_SBYTE \<Rightarrow> rv_load_byte_at io cn scast rwx addr s
      | Rv_UBYTE \<Rightarrow> rv_load_byte_at io cn ucast rwx addr s
      | Rv_SHALF \<Rightarrow> rv_load_half_at io cn scast rwx addr s
      | Rv_UHALF \<Rightarrow> rv_load_half_at io cn ucast rwx addr s
      | Rv_WORD \<Rightarrow> rv_load_word_at io cn rwx addr s)"

section \<open>Stores\<close>

text \<open>The word after the store of a byte or of a half word inside it.\<close>

definition rv_put_byte :: "u32 \<Rightarrow> u32 \<Rightarrow> u32 \<Rightarrow> u32" where
  "rv_put_byte addr val wval =
     (let (msk, shift) =
        (if addr AND 3 = 0 then (0x000000ff, 0)
         else if addr AND 3 = 1 then (0x0000ff00, 8)
         else if addr AND 3 = 2 then (0x00ff0000, 16)
         else (0xff000000, 24))
      in (wval AND NOT msk) OR push_bit shift (val AND 0xff))"

definition rv_put_half :: "u32 \<Rightarrow> u32 \<Rightarrow> u32 \<Rightarrow> u32" where
  "rv_put_half addr val wval =
     (let (msk, shift) =
        (if addr AND 3 = 0 then (0x0000ffff, 0)
         else if addr AND 3 = 1 then (0x00ffff00, 8)
         else (0xffff0000, 16))
      in (wval AND NOT msk) OR push_bit shift (val AND 0xffff))"

text \<open>The two words after the store of a word across them, as the code computes them.\<close>

definition rv_split_word :: "u32 \<Rightarrow> u32 \<Rightarrow> u32 \<Rightarrow> u32 \<Rightarrow> u32 \<times> u32" where
  "rv_split_word addr val val1 val2 =
     (if addr AND 3 = 1 then
        ((val1 AND 0x000000ff) OR drop_bit 8 (val AND 0xffffff00),
         (val2 AND 0xffffff00) OR push_bit 24 (val AND 0x000000ff))
      else if addr AND 3 = 2 then
        ((val1 AND 0x0000ffff) OR drop_bit 16 (val AND 0xffff0000),
         (val2 AND 0xffff0000) OR push_bit 16 (val AND 0x0000ffff))
      else
        ((val1 AND 0x00ffffff) OR drop_bit 24 (val AND 0xff000000),
         (val2 AND 0xff000000) OR push_bit 8 (val AND 0x00ffffff)))"

text \<open>Read the word, change it, write it back.\<close>

definition rv_modify :: "bus_io \<Rightarrow> nat \<Rightarrow> (u32 \<Rightarrow> u32) \<Rightarrow> u32 \<Rightarrow> rvm \<Rightarrow> rvm \<times> bool" where
  "rv_modify io cn f addr s =
     rv_domem_use io cn (addr AND 0xfffffffc) RWX_WRITE
       (\<lambda>wval s1. rv_domem_store io cn (addr AND 0xfffffffc) (f wval) RWX_WRITE s1) False s"

definition rv_store_byte :: "bus_io \<Rightarrow> nat \<Rightarrow> u32 \<Rightarrow> u32 \<Rightarrow> rvm \<Rightarrow> rvm \<times> bool" where
  "rv_store_byte io cn addr val s =
     rv_modify io cn (rv_put_byte addr val) addr (upd_rv cn (\<lambda>c. c\<lparr>lr_active := False\<rparr>) s)"

definition rv_store_word :: "bus_io \<Rightarrow> nat \<Rightarrow> u32 \<Rightarrow> u32 \<Rightarrow> rvm \<Rightarrow> rvm \<times> bool" where
  "rv_store_word io cn addr val s =
     (if addr AND 3 = 0 then rv_domem_store io cn addr val RWX_WRITE s
      else case rv_domem_fetch io cn (addr AND 0xfffffffc) RWX_WRITE s of
        (s1, Bus_error) \<Rightarrow> (s1, False)
      | (s1, r1) \<Rightarrow>
          (case rv_domem_fetch io cn ((addr AND 0xfffffffc) + 4) RWX_WRITE s1 of
             (s2, Bus_error) \<Rightarrow> (s2, False)
           | (s2, r2) \<Rightarrow>
               (case (r1, r2) of
                  (Fetched val1, Fetched val2) \<Rightarrow>
                    (let (w1, w2) = rv_split_word addr val val1 val2 in
                     case rv_domem_store io cn (addr AND 0xfffffffc) w1 RWX_WRITE s2 of
                       (s3, False) \<Rightarrow> (s3, False)
                     | (s3, True) \<Rightarrow>
                         rv_domem_store io cn ((addr AND 0xfffffffc) + 4) w2 RWX_WRITE s3)
                | _ \<Rightarrow> (rv_fault Undefined s2, False))))"

definition rv_dostore :: "bus_io \<Rightarrow> nat \<Rightarrow> rv_memstyles \<Rightarrow> u32 \<Rightarrow> u32 \<Rightarrow> rvm \<Rightarrow> rvm \<times> bool" where
  "rv_dostore io cn ms addr val s0 =
     (let s = upd_rv cn (\<lambda>c. c\<lparr>lr_active := False\<rparr>) s0 in
      case ms of
        Rv_UBYTE \<Rightarrow> rv_store_byte io cn addr val s0
      | Rv_UHALF \<Rightarrow>
          if addr AND 3 = 3 then
            (case rv_store_byte io cn addr (val AND 0xff) s of
               (s1, False) \<Rightarrow> (s1, False)
             | (s1, True) \<Rightarrow> rv_store_byte io cn (addr + 1) (drop_bit 8 val AND 0xff) s1)
          else rv_modify io cn (rv_put_half addr val) addr s
      | Rv_WORD \<Rightarrow> rv_store_word io cn addr val s
      | _ \<Rightarrow> (rv_smoke s, True))"

end
