(* ===== verification/Rv_Insns.thy ===== *)
theory Rv_Insns
  imports Rv_Core
begin

text \<open>
  The instructions of the RISC-V processor (\<open>riscv/riscvcore.h\<close>): for each the function that
  does the work on operands (\<open>rx_do_...\<close>), which the 16-bit encodings share, and the function
  that takes the operands from a 32-bit instruction word (\<open>rx_...\<close>). The acquire and release
  flags of the atomic instructions and the operands of the fences have no effect in the code and
  are left out. A control register access returns \<open>None\<close> where the C returns -1.
\<close>

section \<open>Arithmetic on operands\<close>

definition rx_do_addi :: "nat \<Rightarrow> nat \<Rightarrow> nat \<Rightarrow> u32 \<Rightarrow> rvm \<Rightarrow> rvm" where
  "rx_do_addi cn rd rs1 imm s =
     rv_setreg cn rd (rv_getreg s cn rs1 + imm) s"

definition rx_do_slti :: "nat \<Rightarrow> nat \<Rightarrow> nat \<Rightarrow> u32 \<Rightarrow> rvm \<Rightarrow> rvm" where
  "rx_do_slti cn rd rs1 imm s =
     rv_setreg cn rd (of_bool (sint (rv_getreg s cn rs1) < sint imm)) s"

definition rx_do_sltiu :: "nat \<Rightarrow> nat \<Rightarrow> nat \<Rightarrow> u32 \<Rightarrow> rvm \<Rightarrow> rvm" where
  "rx_do_sltiu cn rd rs1 imm s =
     rv_setreg cn rd (of_bool (rv_getreg s cn rs1 < imm)) s"

definition rx_do_andi :: "nat \<Rightarrow> nat \<Rightarrow> nat \<Rightarrow> u32 \<Rightarrow> rvm \<Rightarrow> rvm" where
  "rx_do_andi cn rd rs1 imm s =
     rv_setreg cn rd (rv_getreg s cn rs1 AND imm) s"

definition rx_do_ori :: "nat \<Rightarrow> nat \<Rightarrow> nat \<Rightarrow> u32 \<Rightarrow> rvm \<Rightarrow> rvm" where
  "rx_do_ori cn rd rs1 imm s =
     rv_setreg cn rd (rv_getreg s cn rs1 OR imm) s"

definition rx_do_xori :: "nat \<Rightarrow> nat \<Rightarrow> nat \<Rightarrow> u32 \<Rightarrow> rvm \<Rightarrow> rvm" where
  "rx_do_xori cn rd rs1 imm s =
     rv_setreg cn rd (rv_getreg s cn rs1 XOR imm) s"

definition rx_do_slli :: "nat \<Rightarrow> nat \<Rightarrow> nat \<Rightarrow> u32 \<Rightarrow> rvm \<Rightarrow> rvm" where
  "rx_do_slli cn rd rs1 imm s =
     rv_setreg cn rd (push_bit (unat imm) (rv_getreg s cn rs1)) s"

definition rx_do_srli :: "nat \<Rightarrow> nat \<Rightarrow> nat \<Rightarrow> u32 \<Rightarrow> rvm \<Rightarrow> rvm" where
  "rx_do_srli cn rd rs1 imm s =
     rv_setreg cn rd (drop_bit (unat imm) (rv_getreg s cn rs1)) s"

definition rx_do_srai :: "nat \<Rightarrow> nat \<Rightarrow> nat \<Rightarrow> u32 \<Rightarrow> rvm \<Rightarrow> rvm" where
  "rx_do_srai cn rd rs1 imm s =
     rv_setreg cn rd (rv_signedshift (rv_getreg s cn rs1) (unat imm)) s"

definition rx_do_lui :: "nat \<Rightarrow> nat \<Rightarrow> u32 \<Rightarrow> rvm \<Rightarrow> rvm" where
  "rx_do_lui cn rd imm s =
     rv_setreg cn rd (imm) s"

definition rx_do_auipc :: "nat \<Rightarrow> nat \<Rightarrow> u32 \<Rightarrow> rvm \<Rightarrow> rvm" where
  "rx_do_auipc cn rd imm s =
     rv_setreg cn rd (rc_pc (rvcpu s cn) + imm) s"

definition rx_do_add :: "nat \<Rightarrow> nat \<Rightarrow> nat \<Rightarrow> nat \<Rightarrow> rvm \<Rightarrow> rvm" where
  "rx_do_add cn rd rs1 rs2 s =
     rv_setreg cn rd (rv_getreg s cn rs1 + rv_getreg s cn rs2) s"

definition rx_do_sub :: "nat \<Rightarrow> nat \<Rightarrow> nat \<Rightarrow> nat \<Rightarrow> rvm \<Rightarrow> rvm" where
  "rx_do_sub cn rd rs1 rs2 s =
     rv_setreg cn rd (rv_getreg s cn rs1 - rv_getreg s cn rs2) s"

definition rx_do_slt :: "nat \<Rightarrow> nat \<Rightarrow> nat \<Rightarrow> nat \<Rightarrow> rvm \<Rightarrow> rvm" where
  "rx_do_slt cn rd rs1 rs2 s =
     rv_setreg cn rd (of_bool (sint (rv_getreg s cn rs1) < sint (rv_getreg s cn rs2))) s"

definition rx_do_sltu :: "nat \<Rightarrow> nat \<Rightarrow> nat \<Rightarrow> nat \<Rightarrow> rvm \<Rightarrow> rvm" where
  "rx_do_sltu cn rd rs1 rs2 s =
     rv_setreg cn rd (of_bool (rv_getreg s cn rs1 < rv_getreg s cn rs2)) s"

definition rx_do_and :: "nat \<Rightarrow> nat \<Rightarrow> nat \<Rightarrow> nat \<Rightarrow> rvm \<Rightarrow> rvm" where
  "rx_do_and cn rd rs1 rs2 s =
     rv_setreg cn rd (rv_getreg s cn rs1 AND rv_getreg s cn rs2) s"

definition rx_do_or :: "nat \<Rightarrow> nat \<Rightarrow> nat \<Rightarrow> nat \<Rightarrow> rvm \<Rightarrow> rvm" where
  "rx_do_or cn rd rs1 rs2 s =
     rv_setreg cn rd (rv_getreg s cn rs1 OR rv_getreg s cn rs2) s"

definition rx_do_xor :: "nat \<Rightarrow> nat \<Rightarrow> nat \<Rightarrow> nat \<Rightarrow> rvm \<Rightarrow> rvm" where
  "rx_do_xor cn rd rs1 rs2 s =
     rv_setreg cn rd (rv_getreg s cn rs1 XOR rv_getreg s cn rs2) s"

definition rx_do_sll :: "nat \<Rightarrow> nat \<Rightarrow> nat \<Rightarrow> nat \<Rightarrow> rvm \<Rightarrow> rvm" where
  "rx_do_sll cn rd rs1 rs2 s =
     rv_setreg cn rd (push_bit (unat (rv_getreg s cn rs2 AND 31)) (rv_getreg s cn rs1)) s"

definition rx_do_srl :: "nat \<Rightarrow> nat \<Rightarrow> nat \<Rightarrow> nat \<Rightarrow> rvm \<Rightarrow> rvm" where
  "rx_do_srl cn rd rs1 rs2 s =
     rv_setreg cn rd (drop_bit (unat (rv_getreg s cn rs2 AND 31)) (rv_getreg s cn rs1)) s"

definition rx_do_sra :: "nat \<Rightarrow> nat \<Rightarrow> nat \<Rightarrow> nat \<Rightarrow> rvm \<Rightarrow> rvm" where
  "rx_do_sra cn rd rs1 rs2 s =
     rv_setreg cn rd (rv_signedshift (rv_getreg s cn rs1) (unat (rv_getreg s cn rs2 AND 31))) s"

section \<open>Jumps and branches\<close>

text \<open>The flag is true when the function returned 0.\<close>

definition rx_jump :: "bus_io \<Rightarrow> nat \<Rightarrow> u32 \<Rightarrow> rvm \<Rightarrow> rvm \<times> bool" where
  "rx_jump io cn dest s =
     (if \<not> Cext (rvcpu s cn) \<and> dest AND 2 \<noteq> 0 then (rv_exception io cn EX_IALIGN dest s, False)
      else rv_precompute_pc io cn (upd_rv cn (\<lambda>c. c\<lparr>rc_pc := dest, rc_nextpc := dest\<rparr>) s))"

definition rv_jump_link :: "bus_io \<Rightarrow> nat \<Rightarrow> nat \<Rightarrow> u32 \<Rightarrow> u32 \<Rightarrow> rvm \<Rightarrow> rvm" where
  "rv_jump_link io cn rd dest retpc s =
     (case rx_jump io cn dest s of
        (s1, True) \<Rightarrow> rv_setreg cn rd retpc s1
      | (s1, False) \<Rightarrow> s1)"

definition rx_do_jal :: "bus_io \<Rightarrow> nat \<Rightarrow> nat \<Rightarrow> u32 \<Rightarrow> u32 \<Rightarrow> rvm \<Rightarrow> rvm" where
  "rx_do_jal io cn rd imm retpc s =
     rv_jump_link io cn rd ((rc_pc (rvcpu s cn) + imm) AND 0xfffffffe) retpc s"

definition rx_do_jalr :: "bus_io \<Rightarrow> nat \<Rightarrow> nat \<Rightarrow> nat \<Rightarrow> u32 \<Rightarrow> u32 \<Rightarrow> rvm \<Rightarrow> rvm" where
  "rx_do_jalr io cn rd rs1 imm retpc s =
     rv_jump_link io cn rd ((rv_getreg s cn rs1 + imm) AND 0xfffffffe) retpc s"

definition rv_branch :: "bus_io \<Rightarrow> nat \<Rightarrow> bool \<Rightarrow> u32 \<Rightarrow> rvm \<Rightarrow> rvm" where
  "rv_branch io cn taken imm s =
     (if taken then fst (rx_jump io cn (rc_pc (rvcpu s cn) + imm) s) else s)"

definition rx_do_beq :: "bus_io \<Rightarrow> nat \<Rightarrow> nat \<Rightarrow> nat \<Rightarrow> u32 \<Rightarrow> rvm \<Rightarrow> rvm" where
  "rx_do_beq io cn rs1 rs2 imm s =
     rv_branch io cn (rv_getreg s cn rs1 = rv_getreg s cn rs2) imm s"

definition rx_do_bne :: "bus_io \<Rightarrow> nat \<Rightarrow> nat \<Rightarrow> nat \<Rightarrow> u32 \<Rightarrow> rvm \<Rightarrow> rvm" where
  "rx_do_bne io cn rs1 rs2 imm s =
     rv_branch io cn (rv_getreg s cn rs1 \<noteq> rv_getreg s cn rs2) imm s"

definition rx_do_blt :: "bus_io \<Rightarrow> nat \<Rightarrow> nat \<Rightarrow> nat \<Rightarrow> u32 \<Rightarrow> rvm \<Rightarrow> rvm" where
  "rx_do_blt io cn rs1 rs2 imm s =
     rv_branch io cn (sint (rv_getreg s cn rs1) < sint (rv_getreg s cn rs2)) imm s"

definition rx_do_bltu :: "bus_io \<Rightarrow> nat \<Rightarrow> nat \<Rightarrow> nat \<Rightarrow> u32 \<Rightarrow> rvm \<Rightarrow> rvm" where
  "rx_do_bltu io cn rs1 rs2 imm s =
     rv_branch io cn (rv_getreg s cn rs1 < rv_getreg s cn rs2) imm s"

definition rx_do_bge :: "bus_io \<Rightarrow> nat \<Rightarrow> nat \<Rightarrow> nat \<Rightarrow> u32 \<Rightarrow> rvm \<Rightarrow> rvm" where
  "rx_do_bge io cn rs1 rs2 imm s =
     rv_branch io cn (sint (rv_getreg s cn rs1) \<ge> sint (rv_getreg s cn rs2)) imm s"

definition rx_do_bgeu :: "bus_io \<Rightarrow> nat \<Rightarrow> nat \<Rightarrow> nat \<Rightarrow> u32 \<Rightarrow> rvm \<Rightarrow> rvm" where
  "rx_do_bgeu io cn rs1 rs2 imm s =
     rv_branch io cn (rv_getreg s cn rs1 \<ge> rv_getreg s cn rs2) imm s"

section \<open>Loads and stores\<close>

definition rv_load_to :: "bus_io \<Rightarrow> nat \<Rightarrow> rv_memstyles \<Rightarrow> nat \<Rightarrow> u32 \<Rightarrow> rvm \<Rightarrow> rvm" where
  "rv_load_to io cn ms rd addr s =
     (case rv_doload io cn ms False addr s of
        (s1, Bus_error) \<Rightarrow> s1
      | (s1, Not_written) \<Rightarrow> (if rd \<noteq> 0 then rv_fault Undefined s1 else s1)
      | (s1, Fetched v) \<Rightarrow> rv_setreg cn rd v s1)"

definition rx_do_lb :: "bus_io \<Rightarrow> nat \<Rightarrow> nat \<Rightarrow> nat \<Rightarrow> u32 \<Rightarrow> rvm \<Rightarrow> rvm" where
  "rx_do_lb io cn rd rs1 imm s =
     rv_load_to io cn Rv_SBYTE rd (rv_getreg s cn rs1 + imm) s"

definition rx_do_lbu :: "bus_io \<Rightarrow> nat \<Rightarrow> nat \<Rightarrow> nat \<Rightarrow> u32 \<Rightarrow> rvm \<Rightarrow> rvm" where
  "rx_do_lbu io cn rd rs1 imm s =
     rv_load_to io cn Rv_UBYTE rd (rv_getreg s cn rs1 + imm) s"

definition rx_do_lh :: "bus_io \<Rightarrow> nat \<Rightarrow> nat \<Rightarrow> nat \<Rightarrow> u32 \<Rightarrow> rvm \<Rightarrow> rvm" where
  "rx_do_lh io cn rd rs1 imm s =
     rv_load_to io cn Rv_SHALF rd (rv_getreg s cn rs1 + imm) s"

definition rx_do_lhu :: "bus_io \<Rightarrow> nat \<Rightarrow> nat \<Rightarrow> nat \<Rightarrow> u32 \<Rightarrow> rvm \<Rightarrow> rvm" where
  "rx_do_lhu io cn rd rs1 imm s =
     rv_load_to io cn Rv_UHALF rd (rv_getreg s cn rs1 + imm) s"

definition rx_do_lw :: "bus_io \<Rightarrow> nat \<Rightarrow> nat \<Rightarrow> nat \<Rightarrow> u32 \<Rightarrow> rvm \<Rightarrow> rvm" where
  "rx_do_lw io cn rd rs1 imm s =
     rv_load_to io cn Rv_WORD rd (rv_getreg s cn rs1 + imm) s"

definition rx_do_sb :: "bus_io \<Rightarrow> nat \<Rightarrow> nat \<Rightarrow> nat \<Rightarrow> u32 \<Rightarrow> rvm \<Rightarrow> rvm" where
  "rx_do_sb io cn rs2 rs1 imm s =
     fst (rv_dostore io cn Rv_UBYTE (rv_getreg s cn rs1 + imm) (rv_getreg s cn rs2) s)"

definition rx_do_sh :: "bus_io \<Rightarrow> nat \<Rightarrow> nat \<Rightarrow> nat \<Rightarrow> u32 \<Rightarrow> rvm \<Rightarrow> rvm" where
  "rx_do_sh io cn rs2 rs1 imm s =
     fst (rv_dostore io cn Rv_UHALF (rv_getreg s cn rs1 + imm) (rv_getreg s cn rs2) s)"

definition rx_do_sw :: "bus_io \<Rightarrow> nat \<Rightarrow> nat \<Rightarrow> nat \<Rightarrow> u32 \<Rightarrow> rvm \<Rightarrow> rvm" where
  "rx_do_sw io cn rs2 rs1 imm s =
     fst (rv_dostore io cn Rv_WORD (rv_getreg s cn rs1 + imm) (rv_getreg s cn rs2) s)"

section \<open>Fences and calls\<close>

definition rx_do_fencetso :: "rvm \<Rightarrow> rvm" where
  "rx_do_fencetso s = s"

definition rx_do_fence :: "rvm \<Rightarrow> rvm" where
  "rx_do_fence s = s"

definition rx_do_fencei :: "rvm \<Rightarrow> rvm" where
  "rx_do_fencei s = s"

definition rx_do_ecall :: "bus_io \<Rightarrow> nat \<Rightarrow> rvm \<Rightarrow> rvm" where
  "rx_do_ecall io cn s = rv_exception io cn EX_UCALL 0 s"

definition rx_do_ebreak :: "bus_io \<Rightarrow> nat \<Rightarrow> rvm \<Rightarrow> rvm" where
  "rx_do_ebreak io cn s = rv_exception io cn EX_BREAKPOINT 0 s"

section \<open>Multiplication and division\<close>

definition rv_mulhsu :: "u32 \<Rightarrow> u32 \<Rightarrow> u32" where
  "rv_mulhsu a b =
     (let neg = sint a < 0;
          rs1val = (if neg then of_int (- sint a) else ucast a) :: u64;
          res = rs1val * ucast b
      in ucast (drop_bit 32 (if neg then of_int (- sint res) else res)))"

definition rv_div :: "u32 \<Rightarrow> u32 \<Rightarrow> u32" where
  "rv_div a b =
     (if sint b = 0 then 0xffffffff
      else if a = 0x80000000 \<and> sint b = -1 then 0x80000000
      else of_int (sint a sdiv sint b))"

definition rv_divu :: "u32 \<Rightarrow> u32 \<Rightarrow> u32" where
  "rv_divu a b = (if b = 0 then 0xffffffff else a div b)"

definition rv_rem :: "u32 \<Rightarrow> u32 \<Rightarrow> u32" where
  "rv_rem a b =
     (if sint b = 0 then a
      else if a = 0x80000000 \<and> sint b = -1 then 0
      else of_int (sint a smod sint b))"

definition rv_remu :: "u32 \<Rightarrow> u32 \<Rightarrow> u32" where
  "rv_remu a b = (if b = 0 then a else a mod b)"

definition rx_do_mul :: "nat \<Rightarrow> nat \<Rightarrow> nat \<Rightarrow> nat \<Rightarrow> rvm \<Rightarrow> rvm" where
  "rx_do_mul cn rd rs1 rs2 s =
     rv_setreg cn rd (rv_getreg s cn rs1 * rv_getreg s cn rs2) s"

definition rx_do_mulh :: "nat \<Rightarrow> nat \<Rightarrow> nat \<Rightarrow> nat \<Rightarrow> rvm \<Rightarrow> rvm" where
  "rx_do_mulh cn rd rs1 rs2 s =
     rv_setreg cn rd (ucast (drop_bit 32 (of_int (sint (rv_getreg s cn rs1) * sint (rv_getreg s cn rs2)) :: u64))) s"

definition rx_do_mulhu :: "nat \<Rightarrow> nat \<Rightarrow> nat \<Rightarrow> nat \<Rightarrow> rvm \<Rightarrow> rvm" where
  "rx_do_mulhu cn rd rs1 rs2 s =
     rv_setreg cn rd (ucast (drop_bit 32 (ucast (rv_getreg s cn rs1) * ucast (rv_getreg s cn rs2) :: u64))) s"

definition rx_do_mulhsu :: "nat \<Rightarrow> nat \<Rightarrow> nat \<Rightarrow> nat \<Rightarrow> rvm \<Rightarrow> rvm" where
  "rx_do_mulhsu cn rd rs1 rs2 s =
     rv_setreg cn rd (rv_mulhsu (rv_getreg s cn rs1) (rv_getreg s cn rs2)) s"

definition rx_do_div :: "nat \<Rightarrow> nat \<Rightarrow> nat \<Rightarrow> nat \<Rightarrow> rvm \<Rightarrow> rvm" where
  "rx_do_div cn rd rs1 rs2 s =
     rv_setreg cn rd (rv_div (rv_getreg s cn rs1) (rv_getreg s cn rs2)) s"

definition rx_do_divu :: "nat \<Rightarrow> nat \<Rightarrow> nat \<Rightarrow> nat \<Rightarrow> rvm \<Rightarrow> rvm" where
  "rx_do_divu cn rd rs1 rs2 s =
     rv_setreg cn rd (rv_divu (rv_getreg s cn rs1) (rv_getreg s cn rs2)) s"

definition rx_do_rem :: "nat \<Rightarrow> nat \<Rightarrow> nat \<Rightarrow> nat \<Rightarrow> rvm \<Rightarrow> rvm" where
  "rx_do_rem cn rd rs1 rs2 s =
     rv_setreg cn rd (rv_rem (rv_getreg s cn rs1) (rv_getreg s cn rs2)) s"

definition rx_do_remu :: "nat \<Rightarrow> nat \<Rightarrow> nat \<Rightarrow> nat \<Rightarrow> rvm \<Rightarrow> rvm" where
  "rx_do_remu cn rd rs1 rs2 s =
     rv_setreg cn rd (rv_remu (rv_getreg s cn rs1) (rv_getreg s cn rs2)) s"

section \<open>Atomic operations\<close>

definition rv_count :: "nat \<Rightarrow> (stats_percpu \<Rightarrow> stats_percpu) \<Rightarrow> rvm \<Rightarrow> rvm" where
  "rv_count cn f s = upd_sys (upd_percpu (rc_cpunum (rvcpu s cn)) f) s"

definition rx_do_lr :: "bus_io \<Rightarrow> nat \<Rightarrow> nat \<Rightarrow> nat \<Rightarrow> rvm \<Rightarrow> rvm" where
  "rx_do_lr io cn rd rs1 s =
     (let addr = rv_getreg s cn rs1 in
      if addr AND 3 \<noteq> 0 then rv_exception io cn EX_LALIGN addr s
      else case rv_domem_fetch io cn addr RWX_READ s of
        (s1, Bus_error) \<Rightarrow> s1
      | (s1, Not_written) \<Rightarrow> rv_fault Undefined s1
      | (s1, Fetched val) \<Rightarrow>
          rv_setreg cn rd val
            (rv_count cn (\<lambda>p. p\<lparr>sp_lls := sp_lls p + 1\<rparr>)
              (upd_rv cn (\<lambda>c. c\<lparr>lr_active := True, lr_addr := addr, lr_value := val\<rparr>) s1)))"

definition rv_sc_fail :: "nat \<Rightarrow> nat \<Rightarrow> rvm \<Rightarrow> rvm" where
  "rv_sc_fail cn rd s =
     rv_count cn (\<lambda>p. p\<lparr>sp_badscs := sp_badscs p + 1\<rparr>) (rv_setreg cn rd 0 s)"

definition rv_sc_success :: "nat \<Rightarrow> nat \<Rightarrow> rvm \<Rightarrow> rvm" where
  "rv_sc_success cn rd s =
     rv_count cn (\<lambda>p. p\<lparr>sp_okscs := sp_okscs p + 1\<rparr>) (rv_setreg cn rd 1 s)"

definition rx_do_sc :: "bus_io \<Rightarrow> nat \<Rightarrow> nat \<Rightarrow> nat \<Rightarrow> nat \<Rightarrow> rvm \<Rightarrow> rvm" where
  "rx_do_sc io cn rd rs1 rs2 s =
     (let addr = rv_getreg s cn rs1; val = rv_getreg s cn rs2 in
      if addr AND 3 \<noteq> 0 then rv_exception io cn EX_LALIGN addr s
      else if \<not> lr_active (rvcpu s cn) then rv_sc_fail cn rd s
      else
        let s1 = upd_rv cn (\<lambda>c. c\<lparr>lr_active := False\<rparr>) s in
        if lr_addr (rvcpu s1 cn) \<noteq> addr then rv_sc_fail cn rd s1
        else case rv_domem_fetch io cn addr RWX_WRITE s1 of
          (s2, Bus_error) \<Rightarrow> s2
        | (s2, Not_written) \<Rightarrow> rv_fault Undefined s2
        | (s2, Fetched temp) \<Rightarrow>
            if temp \<noteq> lr_value (rvcpu s2 cn) then rv_sc_fail cn rd s2
            else (case rv_domem_store io cn addr val RWX_WRITE s2 of
              (s3, False) \<Rightarrow> s3
            | (s3, True) \<Rightarrow> rv_sc_success cn rd s3))"

text \<open>The operations that compute with the value in memory, and \<open>amoswap\<close>, which only returns it.
  The C reads the two registers again for the store.\<close>

definition rv_amo :: "bus_io \<Rightarrow> nat \<Rightarrow> nat \<Rightarrow> nat \<Rightarrow> nat \<Rightarrow> (u32 \<Rightarrow> u32 \<Rightarrow> u32) \<Rightarrow> rvm \<Rightarrow> rvm" where
  "rv_amo io cn rd rs1 rs2 f s =
     (case rv_doload io cn Rv_WORD True (rv_getreg s cn rs1) s of
        (s1, Bus_error) \<Rightarrow> s1
      | (s1, Not_written) \<Rightarrow> rv_fault Undefined s1
      | (s1, Fetched memval) \<Rightarrow>
          (case rv_dostore io cn Rv_WORD (rv_getreg s1 cn rs1) (f memval (rv_getreg s1 cn rs2)) s1 of
             (s2, False) \<Rightarrow> s2
           | (s2, True) \<Rightarrow> rv_setreg cn rd memval s2))"

definition rx_do_amoswap :: "bus_io \<Rightarrow> nat \<Rightarrow> nat \<Rightarrow> nat \<Rightarrow> nat \<Rightarrow> rvm \<Rightarrow> rvm" where
  "rx_do_amoswap io cn rd rs1 rs2 s =
     (case rv_doload io cn Rv_WORD True (rv_getreg s cn rs1) s of
        (s1, Bus_error) \<Rightarrow> s1
      | (s1, r) \<Rightarrow>
          (case rv_dostore io cn Rv_WORD (rv_getreg s1 cn rs1) (rv_getreg s1 cn rs2) s1 of
             (s2, False) \<Rightarrow> s2
           | (s2, True) \<Rightarrow>
               (case r of
                  Fetched memval \<Rightarrow> rv_setreg cn rd memval s2
                | _ \<Rightarrow> if rd \<noteq> 0 then rv_fault Undefined s2 else s2)))"

definition rx_do_amoadd :: "bus_io \<Rightarrow> nat \<Rightarrow> nat \<Rightarrow> nat \<Rightarrow> nat \<Rightarrow> rvm \<Rightarrow> rvm" where
  "rx_do_amoadd io cn rd rs1 rs2 s =
     rv_amo io cn rd rs1 rs2 (\<lambda>a b. a + b) s"

definition rx_do_amoand :: "bus_io \<Rightarrow> nat \<Rightarrow> nat \<Rightarrow> nat \<Rightarrow> nat \<Rightarrow> rvm \<Rightarrow> rvm" where
  "rx_do_amoand io cn rd rs1 rs2 s =
     rv_amo io cn rd rs1 rs2 (\<lambda>a b. a AND b) s"

definition rx_do_amoor :: "bus_io \<Rightarrow> nat \<Rightarrow> nat \<Rightarrow> nat \<Rightarrow> nat \<Rightarrow> rvm \<Rightarrow> rvm" where
  "rx_do_amoor io cn rd rs1 rs2 s =
     rv_amo io cn rd rs1 rs2 (\<lambda>a b. a OR b) s"

definition rx_do_amoxor :: "bus_io \<Rightarrow> nat \<Rightarrow> nat \<Rightarrow> nat \<Rightarrow> nat \<Rightarrow> rvm \<Rightarrow> rvm" where
  "rx_do_amoxor io cn rd rs1 rs2 s =
     rv_amo io cn rd rs1 rs2 (\<lambda>a b. a XOR b) s"

definition rx_do_amomax :: "bus_io \<Rightarrow> nat \<Rightarrow> nat \<Rightarrow> nat \<Rightarrow> nat \<Rightarrow> rvm \<Rightarrow> rvm" where
  "rx_do_amomax io cn rd rs1 rs2 s =
     rv_amo io cn rd rs1 rs2 (\<lambda>a b. if sint a > sint b then a else b) s"

definition rx_do_amomaxu :: "bus_io \<Rightarrow> nat \<Rightarrow> nat \<Rightarrow> nat \<Rightarrow> nat \<Rightarrow> rvm \<Rightarrow> rvm" where
  "rx_do_amomaxu io cn rd rs1 rs2 s =
     rv_amo io cn rd rs1 rs2 (\<lambda>a b. if a > b then a else b) s"

definition rx_do_amomin :: "bus_io \<Rightarrow> nat \<Rightarrow> nat \<Rightarrow> nat \<Rightarrow> nat \<Rightarrow> rvm \<Rightarrow> rvm" where
  "rx_do_amomin io cn rd rs1 rs2 s =
     rv_amo io cn rd rs1 rs2 (\<lambda>a b. if sint a < sint b then a else b) s"

definition rx_do_amominu :: "bus_io \<Rightarrow> nat \<Rightarrow> nat \<Rightarrow> nat \<Rightarrow> nat \<Rightarrow> rvm \<Rightarrow> rvm" where
  "rx_do_amominu io cn rd rs1 rs2 s =
     rv_amo io cn rd rs1 rs2 (\<lambda>a b. if a < b then a else b) s"

section \<open>Supervisor instructions\<close>

definition sret_regs :: "riscvcpu \<Rightarrow> riscvcpu" where
  "sret_regs c =
     (let dest = (if \<not> Cext c then sepc c AND 0xfffffffc else sepc c) in
      c\<lparr>status_sie := status_spie c, status_spie := True, super := status_spp c,
        rc_pc := dest, rc_nextpc := dest\<rparr>)"

definition rx_do_sret :: "bus_io \<Rightarrow> nat \<Rightarrow> rvm \<Rightarrow> rvm" where
  "rx_do_sret io cn s = fst (rv_precompute_pc io cn (upd_rv cn sret_regs s))"

definition wfi_pending :: "riscvcpu \<Rightarrow> bool" where
  "wfi_pending c \<longleftrightarrow>
     (let eie = (if super c then ie_seie c else True);
          tie = (if super c then ie_stie c else True);
          sie = (if super c then ie_ssie c else True)
      in (rc_irq_lamebus c \<and> eie) \<or> (rc_irq_timer c \<and> tie) \<or> (rc_irq_ipi c \<and> sie))"

definition rx_do_wfi :: "nat \<Rightarrow> rvm \<Rightarrow> rvm" where
  "rx_do_wfi cn s =
     (if wfi_pending (rvcpu s cn) then s
      else rv_mask_off (rc_cpunum (rvcpu s cn)) (upd_rv cn (\<lambda>c. c\<lparr>rc_state := CPU_IDLE\<rparr>) s))"

definition rx_do_sfence_vma :: "bus_io \<Rightarrow> nat \<Rightarrow> rvm \<Rightarrow> rvm" where
  "rx_do_sfence_vma io cn s =
     (case reload_pagetables io cn s of
        (s1, False) \<Rightarrow> s1
      | (s1, True) \<Rightarrow> upd_rv cn (\<lambda>c. c\<lparr>mmu_cached_vpage := 0xffffffff\<rparr>) s1)"

section \<open>Control registers\<close>

definition CSR_SSTATUS :: u32 where "CSR_SSTATUS = 0x100"
definition CSR_SIE :: u32 where "CSR_SIE = 0x104"
definition CSR_STVEC :: u32 where "CSR_STVEC = 0x105"
definition CSR_SSCRATCH :: u32 where "CSR_SSCRATCH = 0x140"
definition CSR_SEPC :: u32 where "CSR_SEPC = 0x141"
definition CSR_SCAUSE :: u32 where "CSR_SCAUSE = 0x142"
definition CSR_STVAL :: u32 where "CSR_STVAL = 0x143"
definition CSR_SIP :: u32 where "CSR_SIP = 0x144"
definition CSR_SATP :: u32 where "CSR_SATP = 0x180"
definition CSR_MVENDORID :: u32 where "CSR_MVENDORID = 0xf11"
definition CSR_MARCHID :: u32 where "CSR_MARCHID = 0xf12"
definition CSR_MIMPID :: u32 where "CSR_MIMPID = 0xf13"
definition CSR_MHARTID :: u32 where "CSR_MHARTID = 0xf14"
definition CSR_SYS161_TIMER :: u32 where "CSR_SYS161_TIMER = 0x9c0"

lemmas CSR_numbers =
  CSR_SSTATUS_def CSR_SIE_def CSR_STVEC_def CSR_SSCRATCH_def CSR_SEPC_def CSR_SCAUSE_def
  CSR_STVAL_def CSR_SIP_def CSR_SATP_def CSR_MVENDORID_def CSR_MARCHID_def CSR_MIMPID_def
  CSR_MHARTID_def CSR_SYS161_TIMER_def

text \<open>The registers that supervisor mode can read and those it can write. Every other number of
  the two \<open>switch\<close> statements ends in the error return, except the custom timer, which user mode
  can read.\<close>

definition csr_readers :: "(u32 \<times> (riscvcpu \<Rightarrow> u32)) list" where
  "csr_readers =
     [(CSR_SSTATUS, read_csr_sstatus), (CSR_SIE, read_csr_sie), (CSR_STVEC, stvec),
      (CSR_SSCRATCH, sscratch), (CSR_SEPC, read_csr_sepc), (CSR_SCAUSE, read_csr_scause),
      (CSR_STVAL, stval), (CSR_SIP, read_csr_sip), (CSR_SATP, read_csr_satp),
      (CSR_MVENDORID, \<lambda>c. 0), (CSR_MARCHID, \<lambda>c. 0), (CSR_MIMPID, \<lambda>c. 0),
      (CSR_MHARTID, \<lambda>c. of_nat (rc_cpunum c))]"

definition csr_writers :: "(u32 \<times> (u32 \<Rightarrow> riscvcpu \<Rightarrow> riscvcpu)) list" where
  "csr_writers =
     [(CSR_SSTATUS, write_csr_sstatus), (CSR_SIE, write_csr_sie),
      (CSR_STVEC, \<lambda>val c. c\<lparr>stvec := val AND 0xfffffffc\<rparr>),
      (CSR_SSCRATCH, \<lambda>val c. c\<lparr>sscratch := val\<rparr>), (CSR_SEPC, write_csr_sepc),
      (CSR_SCAUSE, write_csr_scause), (CSR_STVAL, \<lambda>val c. c\<lparr>stval := val\<rparr>),
      (CSR_SIP, write_csr_sip), (CSR_SATP, write_csr_satp),
      (CSR_SYS161_TIMER, \<lambda>val c. c\<lparr>cycletrigger := cyclecount c + ucast val, rc_irq_timer := False\<rparr>)]"

definition csrread :: "riscvcpu \<Rightarrow> u32 \<Rightarrow> u32 option" where
  "csrread c csr0 =
     (let csr = csr0 AND 0xfff in
      if csr = CSR_SYS161_TIMER then Some (ucast (cycletrigger c))
      else case map_of csr_readers csr of
        None \<Rightarrow> None
      | Some f \<Rightarrow> if \<not> super c then None else Some (f c))"

definition csrwrite :: "riscvcpu \<Rightarrow> u32 \<Rightarrow> u32 \<Rightarrow> riscvcpu option" where
  "csrwrite c csr0 val =
     (let csr = csr0 AND 0xfff in
      case map_of csr_writers csr of
        None \<Rightarrow> None
      | Some f \<Rightarrow> if \<not> super c then None else Some (f val c))"

definition rx_do_csr_r :: "nat \<Rightarrow> nat \<Rightarrow> u32 \<Rightarrow> rvm \<Rightarrow> rvm option" where
  "rx_do_csr_r cn rd csr s =
     (case csrread (rvcpu s cn) csr of
        None \<Rightarrow> None
      | Some val \<Rightarrow> Some (rv_setreg cn rd val s))"

definition rx_do_csr_w :: "nat \<Rightarrow> u32 \<Rightarrow> u32 \<Rightarrow> rvm \<Rightarrow> rvm option" where
  "rx_do_csr_w cn val csr s =
     (case csrwrite (rvcpu s cn) csr val of
        None \<Rightarrow> None
      | Some c' \<Rightarrow> Some (upd_rv cn (\<lambda>_. c') s))"

definition rx_do_csr_x :: "nat \<Rightarrow> nat \<Rightarrow> u32 \<Rightarrow> u32 \<Rightarrow> rvm \<Rightarrow> rvm option" where
  "rx_do_csr_x cn rd val csr s =
     (case csrread (rvcpu s cn) csr of
        None \<Rightarrow> None
      | Some oldval \<Rightarrow>
          (case csrwrite (rvcpu s cn) csr val of
             None \<Rightarrow> None
           | Some c' \<Rightarrow> Some (rv_setreg cn rd oldval (upd_rv cn (\<lambda>_. c') s))))"

definition rx_do_csr_rc :: "nat \<Rightarrow> nat \<Rightarrow> u32 \<Rightarrow> bool \<Rightarrow> u32 \<Rightarrow> rvm \<Rightarrow> rvm option" where
  "rx_do_csr_rc cn rd msk doset csr s =
     (case csrread (rvcpu s cn) csr of
        None \<Rightarrow> None
      | Some oldval \<Rightarrow>
          let newval = (if doset then oldval OR msk else oldval AND NOT msk) in
          (case csrwrite (rvcpu s cn) csr newval of
             None \<Rightarrow> None
           | Some c' \<Rightarrow> Some (rv_setreg cn rd oldval (upd_rv cn (\<lambda>_. c') s))))"

definition rx_do_csrrw :: "nat \<Rightarrow> nat \<Rightarrow> nat \<Rightarrow> u32 \<Rightarrow> rvm \<Rightarrow> rvm option" where
  "rx_do_csrrw cn rd rs1 csr s =
     (if rd \<noteq> 0 then rx_do_csr_x cn rd (rv_getreg s cn rs1) csr s
      else rx_do_csr_w cn (rv_getreg s cn rs1) csr s)"

definition rx_do_csrrwi :: "nat \<Rightarrow> nat \<Rightarrow> nat \<Rightarrow> u32 \<Rightarrow> rvm \<Rightarrow> rvm option" where
  "rx_do_csrrwi cn rd imm csr s =
     (if rd \<noteq> 0 then rx_do_csr_x cn rd (of_nat imm) csr s
      else rx_do_csr_w cn (of_nat imm) csr s)"

definition rx_do_csrrs :: "nat \<Rightarrow> nat \<Rightarrow> nat \<Rightarrow> u32 \<Rightarrow> rvm \<Rightarrow> rvm option" where
  "rx_do_csrrs cn rd rs1 csr s =
     (if rs1 \<noteq> 0 then rx_do_csr_rc cn rd (rv_getreg s cn rs1) True csr s
      else rx_do_csr_r cn rd csr s)"

definition rx_do_csrrsi :: "nat \<Rightarrow> nat \<Rightarrow> nat \<Rightarrow> u32 \<Rightarrow> rvm \<Rightarrow> rvm option" where
  "rx_do_csrrsi cn rd imm csr s =
     (if imm \<noteq> 0 then rx_do_csr_rc cn rd (of_nat imm) True csr s
      else rx_do_csr_r cn rd csr s)"

definition rx_do_csrrc :: "nat \<Rightarrow> nat \<Rightarrow> nat \<Rightarrow> u32 \<Rightarrow> rvm \<Rightarrow> rvm option" where
  "rx_do_csrrc cn rd rs1 csr s =
     (if rs1 \<noteq> 0 then rx_do_csr_rc cn rd (rv_getreg s cn rs1) False csr s
      else rx_do_csr_r cn rd csr s)"

definition rx_do_csrrci :: "nat \<Rightarrow> nat \<Rightarrow> nat \<Rightarrow> u32 \<Rightarrow> rvm \<Rightarrow> rvm option" where
  "rx_do_csrrci cn rd imm csr s =
     (if imm \<noteq> 0 then rx_do_csr_rc cn rd (of_nat imm) False csr s
      else rx_do_csr_r cn rd csr s)"

end
