(* ===== verification/Rv_Decode.thy ===== *)
theory Rv_Decode
  imports Rv_Insns
begin

text \<open>
  Decoding the instructions of the RISC-V processor (\<open>riscv/riscv-insn.h\<close>, and \<open>insn32\<close> and
  \<open>insn16\<close> of \<open>riscv/riscvcore.h\<close>): the fields and immediates of an instruction word, the
  functions \<open>rx_...\<close> that hand them to the operations of \<open>Rv_Insns\<close>, the \<open>switch\<close> statements as
  tables, and the 16-bit instructions.
\<close>

section \<open>Opcodes\<close>

definition OP32_LOAD :: u32 where "OP32_LOAD = 0"
definition OP32_LOADFP :: u32 where "OP32_LOADFP = 1"
definition OP32_MISCMEM :: u32 where "OP32_MISCMEM = 3"
definition OP32_OPIMM :: u32 where "OP32_OPIMM = 4"
definition OP32_AUIPC :: u32 where "OP32_AUIPC = 5"
definition OP32_OPIMM32 :: u32 where "OP32_OPIMM32 = 6"
definition OP32_STORE :: u32 where "OP32_STORE = 8"
definition OP32_STOREFP :: u32 where "OP32_STOREFP = 9"
definition OP32_AMO :: u32 where "OP32_AMO = 11"
definition OP32_OP :: u32 where "OP32_OP = 12"
definition OP32_LUI :: u32 where "OP32_LUI = 13"
definition OP32_OP32 :: u32 where "OP32_OP32 = 14"
definition OP32_MADD :: u32 where "OP32_MADD = 16"
definition OP32_MSUB :: u32 where "OP32_MSUB = 17"
definition OP32_NMSUB :: u32 where "OP32_NMSUB = 18"
definition OP32_NMADD :: u32 where "OP32_NMADD = 19"
definition OP32_OPFP :: u32 where "OP32_OPFP = 20"
definition OP32_BRANCH :: u32 where "OP32_BRANCH = 24"
definition OP32_JALR :: u32 where "OP32_JALR = 25"
definition OP32_JAL :: u32 where "OP32_JAL = 27"
definition OP32_SYSTEM :: u32 where "OP32_SYSTEM = 28"
definition OPOP_ARITH :: u32 where "OPOP_ARITH = 0"
definition OPOP_MULDIV :: u32 where "OPOP_MULDIV = 1"
definition OPOP_NARITH :: u32 where "OPOP_NARITH = 32"
definition OPAMO_AMOADD :: u32 where "OPAMO_AMOADD = 0"
definition OPAMO_AMOSWAP :: u32 where "OPAMO_AMOSWAP = 1"
definition OPAMO_LR :: u32 where "OPAMO_LR = 2"
definition OPAMO_SC :: u32 where "OPAMO_SC = 3"
definition OPAMO_AMOXOR :: u32 where "OPAMO_AMOXOR = 4"
definition OPAMO_AMOAND :: u32 where "OPAMO_AMOAND = 8"
definition OPAMO_AMOOR :: u32 where "OPAMO_AMOOR = 12"
definition OPAMO_AMOMIN :: u32 where "OPAMO_AMOMIN = 16"
definition OPAMO_AMOMAX :: u32 where "OPAMO_AMOMAX = 20"
definition OPAMO_AMOMINU :: u32 where "OPAMO_AMOMINU = 24"
definition OPAMO_AMOMAXU :: u32 where "OPAMO_AMOMAXU = 28"
definition OPLOAD_LB :: u32 where "OPLOAD_LB = 0"
definition OPLOAD_LH :: u32 where "OPLOAD_LH = 1"
definition OPLOAD_LW :: u32 where "OPLOAD_LW = 2"
definition OPLOAD_LBU :: u32 where "OPLOAD_LBU = 4"
definition OPLOAD_LHU :: u32 where "OPLOAD_LHU = 5"
definition OPMISCMEM_FENCE :: u32 where "OPMISCMEM_FENCE = 0"
definition OPMISCMEM_FENCEI :: u32 where "OPMISCMEM_FENCEI = 1"
definition OPOPIMM_ADDI :: u32 where "OPOPIMM_ADDI = 0"
definition OPOPIMM_SLI :: u32 where "OPOPIMM_SLI = 1"
definition OPOPIMM_SLTI :: u32 where "OPOPIMM_SLTI = 2"
definition OPOPIMM_SLTIU :: u32 where "OPOPIMM_SLTIU = 3"
definition OPOPIMM_XORI :: u32 where "OPOPIMM_XORI = 4"
definition OPOPIMM_SRI :: u32 where "OPOPIMM_SRI = 5"
definition OPOPIMM_ORI :: u32 where "OPOPIMM_ORI = 6"
definition OPOPIMM_ANDI :: u32 where "OPOPIMM_ANDI = 7"
definition OPSTORE_SB :: u32 where "OPSTORE_SB = 0"
definition OPSTORE_SH :: u32 where "OPSTORE_SH = 1"
definition OPSTORE_SW :: u32 where "OPSTORE_SW = 2"
definition OPAMO_32 :: u32 where "OPAMO_32 = 2"
definition OPARITH_ADD :: u32 where "OPARITH_ADD = 0"
definition OPARITH_SLL :: u32 where "OPARITH_SLL = 1"
definition OPARITH_SLT :: u32 where "OPARITH_SLT = 2"
definition OPARITH_SLTU :: u32 where "OPARITH_SLTU = 3"
definition OPARITH_XOR :: u32 where "OPARITH_XOR = 4"
definition OPARITH_SRL :: u32 where "OPARITH_SRL = 5"
definition OPARITH_OR :: u32 where "OPARITH_OR = 6"
definition OPARITH_AND :: u32 where "OPARITH_AND = 7"
definition OPNARITH_SUB :: u32 where "OPNARITH_SUB = 0"
definition OPNARITH_SRA :: u32 where "OPNARITH_SRA = 5"
definition OPMULDIV_MUL :: u32 where "OPMULDIV_MUL = 0"
definition OPMULDIV_MULH :: u32 where "OPMULDIV_MULH = 1"
definition OPMULDIV_MULHSU :: u32 where "OPMULDIV_MULHSU = 2"
definition OPMULDIV_MULHU :: u32 where "OPMULDIV_MULHU = 3"
definition OPMULDIV_DIV :: u32 where "OPMULDIV_DIV = 4"
definition OPMULDIV_DIVU :: u32 where "OPMULDIV_DIVU = 5"
definition OPMULDIV_REM :: u32 where "OPMULDIV_REM = 6"
definition OPMULDIV_REMU :: u32 where "OPMULDIV_REMU = 7"
definition OPBRANCH_BEQ :: u32 where "OPBRANCH_BEQ = 0"
definition OPBRANCH_BNE :: u32 where "OPBRANCH_BNE = 1"
definition OPBRANCH_BLT :: u32 where "OPBRANCH_BLT = 4"
definition OPBRANCH_BGE :: u32 where "OPBRANCH_BGE = 5"
definition OPBRANCH_BLTU :: u32 where "OPBRANCH_BLTU = 6"
definition OPBRANCH_BGEU :: u32 where "OPBRANCH_BGEU = 7"
definition OPSYSTEM_PRIV :: u32 where "OPSYSTEM_PRIV = 0"
definition OPSYSTEM_CSRRW :: u32 where "OPSYSTEM_CSRRW = 1"
definition OPSYSTEM_CSRRS :: u32 where "OPSYSTEM_CSRRS = 2"
definition OPSYSTEM_CSRRC :: u32 where "OPSYSTEM_CSRRC = 3"
definition OPSYSTEM_CSRRWI :: u32 where "OPSYSTEM_CSRRWI = 5"
definition OPSYSTEM_CSRRSI :: u32 where "OPSYSTEM_CSRRSI = 6"
definition OPSYSTEM_CSRRCI :: u32 where "OPSYSTEM_CSRRCI = 7"
definition OPPRIV_USER :: u32 where "OPPRIV_USER = 0"
definition OPPRIV_SYSTEM :: u32 where "OPPRIV_SYSTEM = 8"
definition OPPRIV_SFENCE_VMA :: u32 where "OPPRIV_SFENCE_VMA = 9"
definition OPUSER_ECALL :: u32 where "OPUSER_ECALL = 0"
definition OPUSER_EBREAK :: u32 where "OPUSER_EBREAK = 1"
definition OPUSER_URET :: u32 where "OPUSER_URET = 2"
definition OPSYSTEM_SRET :: u32 where "OPSYSTEM_SRET = 2"
definition OPSYSTEM_WFI :: u32 where "OPSYSTEM_WFI = 5"

lemmas RV_OP_defs =
  OP32_LOAD_def OP32_LOADFP_def OP32_MISCMEM_def OP32_OPIMM_def OP32_AUIPC_def OP32_OPIMM32_def
  OP32_STORE_def OP32_STOREFP_def OP32_AMO_def OP32_OP_def OP32_LUI_def OP32_OP32_def
  OP32_MADD_def OP32_MSUB_def OP32_NMSUB_def OP32_NMADD_def OP32_OPFP_def OP32_BRANCH_def
  OP32_JALR_def OP32_JAL_def OP32_SYSTEM_def OPOP_ARITH_def OPOP_MULDIV_def OPOP_NARITH_def
  OPAMO_AMOADD_def OPAMO_AMOSWAP_def OPAMO_LR_def OPAMO_SC_def OPAMO_AMOXOR_def OPAMO_AMOAND_def
  OPAMO_AMOOR_def OPAMO_AMOMIN_def OPAMO_AMOMAX_def OPAMO_AMOMINU_def OPAMO_AMOMAXU_def
  OPLOAD_LB_def OPLOAD_LH_def OPLOAD_LW_def OPLOAD_LBU_def OPLOAD_LHU_def OPMISCMEM_FENCE_def
  OPMISCMEM_FENCEI_def OPOPIMM_ADDI_def OPOPIMM_SLI_def OPOPIMM_SLTI_def OPOPIMM_SLTIU_def
  OPOPIMM_XORI_def OPOPIMM_SRI_def OPOPIMM_ORI_def OPOPIMM_ANDI_def OPSTORE_SB_def OPSTORE_SH_def
  OPSTORE_SW_def OPAMO_32_def OPARITH_ADD_def OPARITH_SLL_def OPARITH_SLT_def OPARITH_SLTU_def
  OPARITH_XOR_def OPARITH_SRL_def OPARITH_OR_def OPARITH_AND_def OPNARITH_SUB_def
  OPNARITH_SRA_def OPMULDIV_MUL_def OPMULDIV_MULH_def OPMULDIV_MULHSU_def OPMULDIV_MULHU_def
  OPMULDIV_DIV_def OPMULDIV_DIVU_def OPMULDIV_REM_def OPMULDIV_REMU_def OPBRANCH_BEQ_def
  OPBRANCH_BNE_def OPBRANCH_BLT_def OPBRANCH_BGE_def OPBRANCH_BLTU_def OPBRANCH_BGEU_def
  OPSYSTEM_PRIV_def OPSYSTEM_CSRRW_def OPSYSTEM_CSRRS_def OPSYSTEM_CSRRC_def OPSYSTEM_CSRRWI_def
  OPSYSTEM_CSRRSI_def OPSYSTEM_CSRRCI_def OPPRIV_USER_def OPPRIV_SYSTEM_def OPPRIV_SFENCE_VMA_def
  OPUSER_ECALL_def OPUSER_EBREAK_def OPUSER_URET_def OPSYSTEM_SRET_def OPSYSTEM_WFI_def

section \<open>Fields and immediates\<close>

definition rv_rs1 :: "u32 \<Rightarrow> nat" where "rv_rs1 insn = unat (drop_bit 15 (insn AND 0x000f8000))"
definition rv_rs2 :: "u32 \<Rightarrow> nat" where "rv_rs2 insn = unat (drop_bit 20 (insn AND 0x01f00000))"
definition rv_rd :: "u32 \<Rightarrow> nat" where "rv_rd insn = unat (drop_bit 7 (insn AND 0x00000f80))"
definition rv_op :: "u32 \<Rightarrow> u32" where "rv_op insn = drop_bit 2 (insn AND 0x0000007c)"
definition rv_funct3 :: "u32 \<Rightarrow> u32" where "rv_funct3 insn = drop_bit 12 (insn AND 0x00007000)"
definition rv_funct7 :: "u32 \<Rightarrow> u32" where "rv_funct7 insn = drop_bit 25 (insn AND 0xfe000000)"

definition rv_signext :: "u32 \<Rightarrow> nat \<Rightarrow> u32" where
  "rv_signext insn k = (if insn AND 0x80000000 \<noteq> 0 then push_bit k 0xffffffff else 0)"

definition rv_i_imm :: "u32 \<Rightarrow> u32" where
  "rv_i_imm insn = rv_signext insn 12 OR drop_bit 20 insn"

definition rv_s_imm :: "u32 \<Rightarrow> u32" where
  "rv_s_imm insn =
     rv_signext insn 12 OR drop_bit 20 (insn AND 0xfe000000) OR drop_bit 7 (insn AND 0x00000f80)"

definition rv_b_imm :: "u32 \<Rightarrow> u32" where
  "rv_b_imm insn =
     rv_signext insn 12 OR drop_bit 20 (insn AND 0x7e000000) OR drop_bit 7 (insn AND 0x00000f00)
       OR push_bit 4 (insn AND 0x00000080)"

definition rv_u_imm :: "u32 \<Rightarrow> u32" where
  "rv_u_imm insn = insn AND 0xfffff000"

definition rv_j_imm :: "u32 \<Rightarrow> u32" where
  "rv_j_imm insn =
     rv_signext insn 19 OR (insn AND 0x000ff000) OR drop_bit 9 (insn AND 0x00100000)
       OR drop_bit 20 (insn AND 0x7fe00000)"

definition rv_sh_imm :: "u32 \<Rightarrow> u32" where
  "rv_sh_imm insn = rv_i_imm insn AND 31"

section \<open>The instructions\<close>

type_synonym rv_insn = "bus_io \<Rightarrow> nat \<Rightarrow> u32 \<Rightarrow> rvm \<Rightarrow> rvm"

definition rx_addi :: rv_insn where
  "rx_addi io cn insn s = rx_do_addi cn (rv_rd insn) (rv_rs1 insn) (rv_i_imm insn) s"

definition rx_slti :: rv_insn where
  "rx_slti io cn insn s = rx_do_slti cn (rv_rd insn) (rv_rs1 insn) (rv_i_imm insn) s"

definition rx_sltiu :: rv_insn where
  "rx_sltiu io cn insn s = rx_do_sltiu cn (rv_rd insn) (rv_rs1 insn) (rv_i_imm insn) s"

definition rx_andi :: rv_insn where
  "rx_andi io cn insn s = rx_do_andi cn (rv_rd insn) (rv_rs1 insn) (rv_i_imm insn) s"

definition rx_ori :: rv_insn where
  "rx_ori io cn insn s = rx_do_ori cn (rv_rd insn) (rv_rs1 insn) (rv_i_imm insn) s"

definition rx_xori :: rv_insn where
  "rx_xori io cn insn s = rx_do_xori cn (rv_rd insn) (rv_rs1 insn) (rv_i_imm insn) s"

definition rx_slli :: rv_insn where
  "rx_slli io cn insn s = rx_do_slli cn (rv_rd insn) (rv_rs1 insn) (rv_sh_imm insn) s"

definition rx_srli :: rv_insn where
  "rx_srli io cn insn s = rx_do_srli cn (rv_rd insn) (rv_rs1 insn) (rv_sh_imm insn) s"

definition rx_srai :: rv_insn where
  "rx_srai io cn insn s = rx_do_srai cn (rv_rd insn) (rv_rs1 insn) (rv_sh_imm insn) s"

definition rx_lui :: rv_insn where
  "rx_lui io cn insn s = rx_do_lui cn (rv_rd insn) (rv_u_imm insn) s"

definition rx_auipc :: rv_insn where
  "rx_auipc io cn insn s = rx_do_auipc cn (rv_rd insn) (rv_u_imm insn) s"

definition rx_add :: rv_insn where
  "rx_add io cn insn s = rx_do_add cn (rv_rd insn) (rv_rs1 insn) (rv_rs2 insn) s"

definition rx_slt :: rv_insn where
  "rx_slt io cn insn s = rx_do_slt cn (rv_rd insn) (rv_rs1 insn) (rv_rs2 insn) s"

definition rx_sltu :: rv_insn where
  "rx_sltu io cn insn s = rx_do_sltu cn (rv_rd insn) (rv_rs1 insn) (rv_rs2 insn) s"

definition rx_and :: rv_insn where
  "rx_and io cn insn s = rx_do_and cn (rv_rd insn) (rv_rs1 insn) (rv_rs2 insn) s"

definition rx_or :: rv_insn where
  "rx_or io cn insn s = rx_do_or cn (rv_rd insn) (rv_rs1 insn) (rv_rs2 insn) s"

definition rx_xor :: rv_insn where
  "rx_xor io cn insn s = rx_do_xor cn (rv_rd insn) (rv_rs1 insn) (rv_rs2 insn) s"

definition rx_sll :: rv_insn where
  "rx_sll io cn insn s = rx_do_sll cn (rv_rd insn) (rv_rs1 insn) (rv_rs2 insn) s"

definition rx_srl :: rv_insn where
  "rx_srl io cn insn s = rx_do_srl cn (rv_rd insn) (rv_rs1 insn) (rv_rs2 insn) s"

definition rx_sra :: rv_insn where
  "rx_sra io cn insn s = rx_do_sra cn (rv_rd insn) (rv_rs1 insn) (rv_rs2 insn) s"

definition rx_sub :: rv_insn where
  "rx_sub io cn insn s = rx_do_sub cn (rv_rd insn) (rv_rs1 insn) (rv_rs2 insn) s"

definition rx_jal :: rv_insn where
  "rx_jal io cn insn s = 
     rx_do_jal io cn (rv_rd insn) (rv_j_imm insn) (rc_pc (rvcpu s cn) + 4) s"

definition rx_jalr :: rv_insn where
  "rx_jalr io cn insn s = 
     rx_do_jalr io cn (rv_rd insn) (rv_rs1 insn) (rv_i_imm insn) (rc_pc (rvcpu s cn) + 4) s"

definition rx_beq :: rv_insn where
  "rx_beq io cn insn s = rx_do_beq io cn (rv_rs1 insn) (rv_rs2 insn) (rv_b_imm insn) s"

definition rx_bne :: rv_insn where
  "rx_bne io cn insn s = rx_do_bne io cn (rv_rs1 insn) (rv_rs2 insn) (rv_b_imm insn) s"

definition rx_blt :: rv_insn where
  "rx_blt io cn insn s = rx_do_blt io cn (rv_rs1 insn) (rv_rs2 insn) (rv_b_imm insn) s"

definition rx_bltu :: rv_insn where
  "rx_bltu io cn insn s = rx_do_bltu io cn (rv_rs1 insn) (rv_rs2 insn) (rv_b_imm insn) s"

definition rx_bge :: rv_insn where
  "rx_bge io cn insn s = rx_do_bge io cn (rv_rs1 insn) (rv_rs2 insn) (rv_b_imm insn) s"

definition rx_bgeu :: rv_insn where
  "rx_bgeu io cn insn s = rx_do_bgeu io cn (rv_rs1 insn) (rv_rs2 insn) (rv_b_imm insn) s"

definition rx_lb :: rv_insn where
  "rx_lb io cn insn s = rx_do_lb io cn (rv_rd insn) (rv_rs1 insn) (rv_i_imm insn) s"

definition rx_lbu :: rv_insn where
  "rx_lbu io cn insn s = rx_do_lbu io cn (rv_rd insn) (rv_rs1 insn) (rv_i_imm insn) s"

definition rx_lh :: rv_insn where
  "rx_lh io cn insn s = rx_do_lh io cn (rv_rd insn) (rv_rs1 insn) (rv_i_imm insn) s"

definition rx_lhu :: rv_insn where
  "rx_lhu io cn insn s = rx_do_lhu io cn (rv_rd insn) (rv_rs1 insn) (rv_i_imm insn) s"

definition rx_lw :: rv_insn where
  "rx_lw io cn insn s = rx_do_lw io cn (rv_rd insn) (rv_rs1 insn) (rv_i_imm insn) s"

definition rx_sb :: rv_insn where
  "rx_sb io cn insn s = rx_do_sb io cn (rv_rs2 insn) (rv_rs1 insn) (rv_s_imm insn) s"

definition rx_sh :: rv_insn where
  "rx_sh io cn insn s = rx_do_sh io cn (rv_rs2 insn) (rv_rs1 insn) (rv_s_imm insn) s"

definition rx_sw :: rv_insn where
  "rx_sw io cn insn s = rx_do_sw io cn (rv_rs2 insn) (rv_rs1 insn) (rv_s_imm insn) s"

definition rx_fence :: rv_insn where
  "rx_fence io cn insn s = 
     (let imm = rv_i_imm insn; fm = drop_bit 8 imm; pred = drop_bit 4 imm AND 0xf; succ = imm AND 0xf
      in if fm = 8 \<and> pred = 3 \<and> succ = 3 then rx_do_fencetso s else rx_do_fence s)"

definition rx_ecall :: rv_insn where
  "rx_ecall io cn insn s = rx_do_ecall io cn s"

definition rx_ebreak :: rv_insn where
  "rx_ebreak io cn insn s = rx_do_ebreak io cn s"

definition rx_sret :: rv_insn where
  "rx_sret io cn insn s = rx_do_sret io cn s"

definition rx_wfi :: rv_insn where
  "rx_wfi io cn insn s = rx_do_wfi cn s"

definition rx_sfence_vma :: rv_insn where
  "rx_sfence_vma io cn insn s = rx_do_sfence_vma io cn s"

definition rx_fencei :: rv_insn where
  "rx_fencei io cn insn s = rx_do_fencei s"

definition rx_mul :: rv_insn where
  "rx_mul io cn insn s = rx_do_mul cn (rv_rd insn) (rv_rs1 insn) (rv_rs2 insn) s"

definition rx_mulh :: rv_insn where
  "rx_mulh io cn insn s = rx_do_mulh cn (rv_rd insn) (rv_rs1 insn) (rv_rs2 insn) s"

definition rx_mulhu :: rv_insn where
  "rx_mulhu io cn insn s = rx_do_mulhu cn (rv_rd insn) (rv_rs1 insn) (rv_rs2 insn) s"

definition rx_mulhsu :: rv_insn where
  "rx_mulhsu io cn insn s = rx_do_mulhsu cn (rv_rd insn) (rv_rs1 insn) (rv_rs2 insn) s"

definition rx_div :: rv_insn where
  "rx_div io cn insn s = rx_do_div cn (rv_rd insn) (rv_rs1 insn) (rv_rs2 insn) s"

definition rx_divu :: rv_insn where
  "rx_divu io cn insn s = rx_do_divu cn (rv_rd insn) (rv_rs1 insn) (rv_rs2 insn) s"

definition rx_rem :: rv_insn where
  "rx_rem io cn insn s = rx_do_rem cn (rv_rd insn) (rv_rs1 insn) (rv_rs2 insn) s"

definition rx_remu :: rv_insn where
  "rx_remu io cn insn s = rx_do_remu cn (rv_rd insn) (rv_rs1 insn) (rv_rs2 insn) s"

definition rx_lr :: rv_insn where
  "rx_lr io cn insn s = rx_do_lr io cn (rv_rd insn) (rv_rs1 insn) s"

definition rx_sc :: rv_insn where
  "rx_sc io cn insn s = rx_do_sc io cn (rv_rd insn) (rv_rs1 insn) (rv_rs2 insn) s"

definition rx_amoswap :: rv_insn where
  "rx_amoswap io cn insn s = rx_do_amoswap io cn (rv_rd insn) (rv_rs1 insn) (rv_rs2 insn) s"

definition rx_amoadd :: rv_insn where
  "rx_amoadd io cn insn s = rx_do_amoadd io cn (rv_rd insn) (rv_rs1 insn) (rv_rs2 insn) s"

definition rx_amoand :: rv_insn where
  "rx_amoand io cn insn s = rx_do_amoand io cn (rv_rd insn) (rv_rs1 insn) (rv_rs2 insn) s"

definition rx_amoor :: rv_insn where
  "rx_amoor io cn insn s = rx_do_amoor io cn (rv_rd insn) (rv_rs1 insn) (rv_rs2 insn) s"

definition rx_amoxor :: rv_insn where
  "rx_amoxor io cn insn s = rx_do_amoxor io cn (rv_rd insn) (rv_rs1 insn) (rv_rs2 insn) s"

definition rx_amomax :: rv_insn where
  "rx_amomax io cn insn s = rx_do_amomax io cn (rv_rd insn) (rv_rs1 insn) (rv_rs2 insn) s"

definition rx_amomaxu :: rv_insn where
  "rx_amomaxu io cn insn s = rx_do_amomaxu io cn (rv_rd insn) (rv_rs1 insn) (rv_rs2 insn) s"

definition rx_amomin :: rv_insn where
  "rx_amomin io cn insn s = rx_do_amomin io cn (rv_rd insn) (rv_rs1 insn) (rv_rs2 insn) s"

definition rx_amominu :: rv_insn where
  "rx_amominu io cn insn s = rx_do_amominu io cn (rv_rd insn) (rv_rs1 insn) (rv_rs2 insn) s"

text \<open>The instruction is illegal when the access to the control register is refused.\<close>

definition rv_csr_result :: "bus_io \<Rightarrow> nat \<Rightarrow> u32 \<Rightarrow> rvm \<Rightarrow> rvm option \<Rightarrow> rvm" where
  "rv_csr_result io cn insn s r =
     (case r of None \<Rightarrow> rv_exception io cn EX_ILLINST insn s | Some s' \<Rightarrow> s')"

definition rx_csrrw :: rv_insn where
  "rx_csrrw io cn insn s = 
     rv_csr_result io cn insn s (rx_do_csrrw cn (rv_rd insn) (rv_rs1 insn) (rv_i_imm insn) s)"

definition rx_csrrs :: rv_insn where
  "rx_csrrs io cn insn s = 
     rv_csr_result io cn insn s (rx_do_csrrs cn (rv_rd insn) (rv_rs1 insn) (rv_i_imm insn) s)"

definition rx_csrrc :: rv_insn where
  "rx_csrrc io cn insn s = 
     rv_csr_result io cn insn s (rx_do_csrrc cn (rv_rd insn) (rv_rs1 insn) (rv_i_imm insn) s)"

definition rx_csrrwi :: rv_insn where
  "rx_csrrwi io cn insn s = 
     rv_csr_result io cn insn s (rx_do_csrrwi cn (rv_rd insn) (rv_rs1 insn) (rv_i_imm insn) s)"

definition rx_csrrsi :: rv_insn where
  "rx_csrrsi io cn insn s = 
     rv_csr_result io cn insn s (rx_do_csrrsi cn (rv_rd insn) (rv_rs1 insn) (rv_i_imm insn) s)"

definition rx_csrrci :: rv_insn where
  "rx_csrrci io cn insn s = 
     rv_csr_result io cn insn s (rx_do_csrrci cn (rv_rd insn) (rv_rs1 insn) (rv_i_imm insn) s)"

definition rx_ill :: rv_insn where
  "rx_ill io cn insn s = rv_exception io cn EX_ILLINST insn s"

section \<open>32-bit instructions\<close>

definition load_table :: "(u32 \<times> rv_insn) list" where
  "load_table =
     [(OPLOAD_LB, rx_lb), (OPLOAD_LH, rx_lh), (OPLOAD_LW, rx_lw), (OPLOAD_LBU, rx_lbu),
      (OPLOAD_LHU, rx_lhu)]"

definition miscmem_table :: "(u32 \<times> rv_insn) list" where
  "miscmem_table =
     [(OPMISCMEM_FENCE, rx_fence), (OPMISCMEM_FENCEI, rx_fencei)]"

definition sri_table :: "(u32 \<times> rv_insn) list" where
  "sri_table =
     [(0, rx_srli), (32, rx_srai)]"

definition store_table :: "(u32 \<times> rv_insn) list" where
  "store_table =
     [(OPSTORE_SB, rx_sb), (OPSTORE_SH, rx_sh), (OPSTORE_SW, rx_sw)]"

definition amo_table :: "(u32 \<times> rv_insn) list" where
  "amo_table =
     [(OPAMO_AMOADD, rx_amoadd), (OPAMO_AMOSWAP, rx_amoswap), (OPAMO_LR, rx_lr),
      (OPAMO_SC, rx_sc), (OPAMO_AMOXOR, rx_amoxor), (OPAMO_AMOAND, rx_amoand),
      (OPAMO_AMOOR, rx_amoor), (OPAMO_AMOMIN, rx_amomin), (OPAMO_AMOMAX, rx_amomax),
      (OPAMO_AMOMINU, rx_amominu), (OPAMO_AMOMAXU, rx_amomaxu)]"

definition arith_table :: "(u32 \<times> rv_insn) list" where
  "arith_table =
     [(OPARITH_ADD, rx_add), (OPARITH_SLL, rx_sll), (OPARITH_SLT, rx_slt),
      (OPARITH_SLTU, rx_sltu), (OPARITH_XOR, rx_xor), (OPARITH_SRL, rx_srl), (OPARITH_OR, rx_or),
      (OPARITH_AND, rx_and)]"

definition narith_table :: "(u32 \<times> rv_insn) list" where
  "narith_table =
     [(OPNARITH_SUB, rx_sub), (OPNARITH_SRA, rx_sra)]"

definition muldiv_table :: "(u32 \<times> rv_insn) list" where
  "muldiv_table =
     [(OPMULDIV_MUL, rx_mul), (OPMULDIV_MULH, rx_mulh), (OPMULDIV_MULHSU, rx_mulhsu),
      (OPMULDIV_MULHU, rx_mulhu), (OPMULDIV_DIV, rx_div), (OPMULDIV_DIVU, rx_divu),
      (OPMULDIV_REM, rx_rem), (OPMULDIV_REMU, rx_remu)]"

definition branch_table :: "(u32 \<times> rv_insn) list" where
  "branch_table =
     [(OPBRANCH_BEQ, rx_beq), (OPBRANCH_BNE, rx_bne), (OPBRANCH_BLT, rx_blt),
      (OPBRANCH_BGE, rx_bge), (OPBRANCH_BLTU, rx_bltu), (OPBRANCH_BGEU, rx_bgeu)]"

definition csr_table :: "(u32 \<times> rv_insn) list" where
  "csr_table =
     [(OPSYSTEM_CSRRW, rx_csrrw), (OPSYSTEM_CSRRS, rx_csrrs), (OPSYSTEM_CSRRC, rx_csrrc),
      (OPSYSTEM_CSRRWI, rx_csrrwi), (OPSYSTEM_CSRRSI, rx_csrrsi), (OPSYSTEM_CSRRCI, rx_csrrci)]"

text \<open>The cases of the primary opcode. \<open>OPIMM\<close> has no default case and needs none.\<close>

definition op_load :: rv_insn where
  "op_load io cn insn = switch load_table rx_ill (rv_funct3 insn) io cn insn"

definition op_miscmem :: rv_insn where
  "op_miscmem io cn insn = switch miscmem_table rx_ill (rv_funct3 insn) io cn insn"

definition op_sli :: rv_insn where
  "op_sli io cn insn = (if rv_funct7 insn = 0 then rx_slli io cn insn else rx_ill io cn insn)"

definition op_sri :: rv_insn where
  "op_sri io cn insn = switch sri_table rx_ill (rv_funct7 insn) io cn insn"

definition opimm_table :: "(u32 \<times> rv_insn) list" where
  "opimm_table =
     [(OPOPIMM_ADDI, rx_addi), (OPOPIMM_SLI, op_sli), (OPOPIMM_SLTI, rx_slti),
      (OPOPIMM_SLTIU, rx_sltiu), (OPOPIMM_XORI, rx_xori), (OPOPIMM_SRI, op_sri),
      (OPOPIMM_ORI, rx_ori), (OPOPIMM_ANDI, rx_andi)]"

definition op_none :: rv_insn where
  "op_none io cn insn s = s"

definition op_opimm :: rv_insn where
  "op_opimm io cn insn = switch opimm_table op_none (rv_funct3 insn) io cn insn"

definition op_store :: rv_insn where
  "op_store io cn insn = switch store_table rx_ill (rv_funct3 insn) io cn insn"

definition op_amo :: rv_insn where
  "op_amo io cn insn =
     (if rv_funct3 insn \<noteq> OPAMO_32 then rx_ill io cn insn
      else switch amo_table rx_ill (drop_bit 2 (rv_funct7 insn)) io cn insn)"

definition op_op :: rv_insn where
  "op_op io cn insn =
     (if rv_funct7 insn = OPOP_ARITH then switch arith_table rx_ill (rv_funct3 insn) io cn insn
      else if rv_funct7 insn = OPOP_NARITH then
        switch narith_table rx_ill (rv_funct3 insn) io cn insn
      else if rv_funct7 insn = OPOP_MULDIV then
        switch muldiv_table rx_ill (rv_funct3 insn) io cn insn
      else rx_ill io cn insn)"

definition op_branch :: rv_insn where
  "op_branch io cn insn = switch branch_table rx_ill (rv_funct3 insn) io cn insn"

definition op_jalr :: rv_insn where
  "op_jalr io cn insn = (if rv_funct3 insn \<noteq> 0 then rx_ill io cn insn else rx_jalr io cn insn)"

definition super_only :: "rv_insn \<Rightarrow> rv_insn" where
  "super_only f io cn insn s = (if super (rvcpu s cn) then f io cn insn s else rx_ill io cn insn s)"

definition op_system_priv :: rv_insn where
  "op_system_priv io cn insn =
     (if rv_funct7 insn = OPPRIV_SYSTEM then
        (if drop_bit 20 (insn AND 0x01f00000) = OPSYSTEM_SRET then super_only rx_sret io cn insn
         else if drop_bit 20 (insn AND 0x01f00000) = OPSYSTEM_WFI then super_only rx_wfi io cn insn
         else rx_ill io cn insn)
      else if rv_funct7 insn = OPPRIV_SFENCE_VMA then super_only rx_sfence_vma io cn insn
      else rx_ill io cn insn)"

text \<open>The flag is the result of the C: whether the debugger's breakpoint was hit.\<close>

definition op_user :: "bus_io \<Rightarrow> nat \<Rightarrow> u32 \<Rightarrow> rvm \<Rightarrow> rvm \<times> bool" where
  "op_user io cn insn s =
     (let fld = drop_bit 20 (insn AND 0x01f00000) in
      if fld = OPUSER_ECALL then (rx_ecall io cn insn s, False)
      else if fld = OPUSER_EBREAK then
        (case try_breakpoint cn s of
           (s1, True) \<Rightarrow> (s1, True)
         | (s1, False) \<Rightarrow> (rx_ebreak io cn insn s1, False))
      else (rx_ill io cn insn s, False))"

definition op_system :: "bus_io \<Rightarrow> nat \<Rightarrow> u32 \<Rightarrow> rvm \<Rightarrow> rvm \<times> bool" where
  "op_system io cn insn s =
     (if rv_funct3 insn = OPSYSTEM_PRIV then
        (if rv_funct7 insn = OPPRIV_USER then op_user io cn insn s
         else (op_system_priv io cn insn s, False))
      else (switch csr_table rx_ill (rv_funct3 insn) io cn insn s, False))"

definition op32_table :: "(u32 \<times> rv_insn) list" where
  "op32_table =
     [(OP32_LOAD, op_load), (OP32_LOADFP, rx_ill), (OP32_MISCMEM, op_miscmem),
      (OP32_OPIMM, op_opimm), (OP32_AUIPC, rx_auipc), (OP32_OPIMM32, rx_ill),
      (OP32_STORE, op_store), (OP32_STOREFP, rx_ill), (OP32_AMO, op_amo), (OP32_OP, op_op),
      (OP32_LUI, rx_lui), (OP32_OP32, rx_ill), (OP32_MADD, rx_ill), (OP32_MSUB, rx_ill),
      (OP32_NMADD, rx_ill), (OP32_NMSUB, rx_ill), (OP32_OPFP, rx_ill), (OP32_BRANCH, op_branch),
      (OP32_JALR, op_jalr), (OP32_JAL, rx_jal)]"

definition insn32 :: "bus_io \<Rightarrow> nat \<Rightarrow> u32 \<Rightarrow> rvm \<Rightarrow> rvm \<times> bool" where
  "insn32 io cn insn s =
     (if rv_op insn = OP32_SYSTEM then op_system io cn insn s
      else (switch op32_table op_none (rv_op insn) io cn insn s, False))"

section \<open>16-bit instructions\<close>

text \<open>The three-bit register fields, as the code computes them: with \<open>>\<close> for a shift.\<close>

definition c_reg1 :: "u32 \<Rightarrow> nat" where
  "c_reg1 insn = unat (0x8 OR of_bool (insn AND 0x0380 > 7) :: u32)"

definition c_reg2 :: "u32 \<Rightarrow> nat" where
  "c_reg2 insn = unat (0x8 OR of_bool (insn AND 0x001c > 2) :: u32)"

definition c_rd :: "u32 \<Rightarrow> nat" where
  "c_rd insn = unat (drop_bit 7 (insn AND 0x0f80))"

definition c_rs2 :: "u32 \<Rightarrow> nat" where
  "c_rs2 insn = unat (drop_bit 2 (insn AND 0x007c))"

definition c_sign :: "u32 \<Rightarrow> u32 \<Rightarrow> u32 \<Rightarrow> u32" where
  "c_sign insn ext imm = (if insn AND 0x1000 \<noteq> 0 then imm OR ext else imm)"

definition c_addi4spn_imm :: "u32 \<Rightarrow> u32" where
  "c_addi4spn_imm insn =
     drop_bit 1 (insn AND 0x0780) OR drop_bit 7 (insn AND 0x1800) OR drop_bit 2 (insn AND 0x0020)
       OR drop_bit 4 (insn AND 0x0040)"

definition c_lw_imm :: "u32 \<Rightarrow> u32" where
  "c_lw_imm insn =
     push_bit 1 (insn AND 0x0020) OR drop_bit 7 (insn AND 0x1c00) OR drop_bit 2 (insn AND 0x0010)"

definition c_imm6 :: "u32 \<Rightarrow> u32" where
  "c_imm6 insn = drop_bit 2 (insn AND 0x007c) OR drop_bit 7 (insn AND 0x1000)"

definition c_j_imm :: "u32 \<Rightarrow> u32" where
  "c_j_imm insn =
     c_sign insn 0xfffff000
       (drop_bit 1 (insn AND 0x1000) OR push_bit 2 (insn AND 0x0100) OR drop_bit 1 (insn AND 0x0600)
        OR push_bit 1 (insn AND 0x0040) OR drop_bit 1 (insn AND 0x0080)
        OR push_bit 3 (insn AND 0x0004) OR drop_bit 7 (insn AND 0x0800)
        OR drop_bit 2 (insn AND 0x0038))"

definition c_addi16sp_imm :: "u32 \<Rightarrow> u32" where
  "c_addi16sp_imm insn =
     c_sign insn 0xfffffe00
       (drop_bit 3 (insn AND 0x1000) OR push_bit 4 (insn AND 0x0018) OR push_bit 1 (insn AND 0x0020)
        OR push_bit 3 (insn AND 0x0004) OR drop_bit 2 (insn AND 0x0040))"

definition c_lui_imm :: "u32 \<Rightarrow> u32" where
  "c_lui_imm insn =
     c_sign insn 0xfffc0000 (push_bit 10 (insn AND 0x007c) OR push_bit 5 (insn AND 0x1000))"

definition c_b_imm :: "u32 \<Rightarrow> u32" where
  "c_b_imm insn =
     c_sign insn 0xfffffe00
       (drop_bit 4 (insn AND 0x1000) OR push_bit 1 (insn AND 0x0060) OR push_bit 3 (insn AND 0x0004)
        OR drop_bit 7 (insn AND 0x0c00) OR drop_bit 2 (insn AND 0x0018))"

definition c_lwsp_imm :: "u32 \<Rightarrow> u32" where
  "c_lwsp_imm insn =
     drop_bit 7 (insn AND 0x1000) OR drop_bit 2 (insn AND 0x0070) OR push_bit 4 (insn AND 0x000c)"

definition c_swsp_imm :: "u32 \<Rightarrow> u32" where
  "c_swsp_imm insn = drop_bit 1 (insn AND 0x0180) OR drop_bit 7 (insn AND 0x1e00)"

definition c_op :: "u32 \<Rightarrow> u32" where
  "c_op insn = drop_bit 13 (insn AND 0xe000)"

definition c_ill :: rv_insn where
  "c_ill io cn insn s = rx_ill io cn (insn AND 0xffff) s"

definition c_quadrant0 :: rv_insn where
  "c_quadrant0 io cn insn s =
     (if c_op insn = 0 then
        (if c_addi4spn_imm insn = 0 then c_ill io cn insn s
         else rx_do_addi cn (c_reg2 insn) 2 (c_addi4spn_imm insn) s)
      else if c_op insn = 2 then rx_do_lw io cn (c_reg2 insn) (c_reg1 insn) (c_lw_imm insn) s
      else if c_op insn = 6 then rx_do_sw io cn (c_reg2 insn) (c_reg1 insn) (c_lw_imm insn) s
      else c_ill io cn insn s)"

definition c_lui :: rv_insn where
  "c_lui io cn insn s =
     (if c_rd insn = 0 then s
      else if c_rd insn = 2 then
        (if c_addi16sp_imm insn = 0 then c_ill io cn insn s
         else rx_do_addi cn 2 2 (c_addi16sp_imm insn) s)
      else if c_lui_imm insn = 0 then c_ill io cn insn s
      else rx_do_lui cn (c_rd insn) (c_lui_imm insn) s)"

definition c_misc_alu :: rv_insn where
  "c_misc_alu io cn insn s =
     (let r1 = c_reg1 insn; r2 = c_reg2 insn; imm = c_imm6 insn;
          sel = drop_bit 10 (insn AND 0x0c00); fn = drop_bit 5 (insn AND 0x0060) in
      if sel = 2 then rx_do_andi cn r1 r1 (c_sign insn 0xffffffc0 imm) s
      else if insn AND 0x1000 \<noteq> 0 then c_ill io cn insn s
      else if sel = 0 then rx_do_srli cn r1 r1 imm s
      else if sel = 1 then rx_do_srai cn r1 r1 imm s
      else if fn = 0 then rx_do_sub cn r1 r1 r2 s
      else if fn = 1 then rx_do_xor cn r1 r1 r2 s
      else if fn = 2 then rx_do_or cn r1 r1 r2 s
      else rx_do_and cn r1 r1 r2 s)"

definition c_branch :: rv_insn where
  "c_branch io cn insn s =
     (if insn AND 0x2000 \<noteq> 0 then rx_do_beq io cn (c_reg1 insn) 0 (c_b_imm insn) s
      else rx_do_bne io cn (c_reg1 insn) 0 (c_b_imm insn) s)"

definition c_quadrant1 :: rv_insn where
  "c_quadrant1 io cn insn s =
     (if c_op insn = 0 then
        rx_do_addi cn (c_rd insn) (c_rd insn) (c_sign insn 0xffffffc0 (c_imm6 insn)) s
      else if c_op insn = 1 then
        rx_do_jal io cn 1 (c_j_imm insn) (rc_pc (rvcpu s cn) + 2) s
      else if c_op insn = 2 then
        (if c_rd insn = 0 then s
         else rx_do_addi cn (c_rd insn) 0 (c_sign insn 0xffffffc0 (c_imm6 insn)) s)
      else if c_op insn = 3 then c_lui io cn insn s
      else if c_op insn = 4 then c_misc_alu io cn insn s
      else if c_op insn = 5 then
        rx_do_jal io cn 0 (c_j_imm insn) (rc_pc (rvcpu s cn) + 2) s
      else c_branch io cn insn s)"

definition c_jump_move :: "bus_io \<Rightarrow> nat \<Rightarrow> u32 \<Rightarrow> rvm \<Rightarrow> rvm \<times> bool" where
  "c_jump_move io cn insn s =
     (let rd = c_rd insn; rs2 = c_rs2 insn in
      if insn AND 0x1000 \<noteq> 0 then
        (if rd = 0 \<and> rs2 = 0 then
           (case try_breakpoint cn s of
              (s1, True) \<Rightarrow> (s1, True)
            | (s1, False) \<Rightarrow> (rx_do_ebreak io cn s1, False))
         else if rs2 = 0 then
           (rx_do_jalr io cn 1 rd 0 (rc_pc (rvcpu s cn) + 2) s, False)
         else (rx_do_add cn rd rd rs2 s, False))
      else if rs2 = 0 \<and> rd = 0 then (c_ill io cn insn s, False)
      else if rs2 = 0 then (rx_do_jalr io cn 0 rd 0 0 s, False)
      else (rx_do_add cn rd 0 rs2 s, False))"

definition c_quadrant2 :: "bus_io \<Rightarrow> nat \<Rightarrow> u32 \<Rightarrow> rvm \<Rightarrow> rvm \<times> bool" where
  "c_quadrant2 io cn insn s =
     (let rd = c_rd insn; rs2 = c_rs2 insn in
      if c_op insn = 0 then
        (if insn AND 0x1000 \<noteq> 0 then (c_ill io cn insn s, False)
         else (rx_do_sll cn rd rd rs2 s, False))
      else if c_op insn = 2 then
        (if rd = 0 then (c_ill io cn insn s, False)
         else (rx_do_lw io cn rd 2 (c_lwsp_imm insn) s, False))
      else if c_op insn = 4 then c_jump_move io cn insn s
      else if c_op insn = 6 then (rx_do_sw io cn rs2 2 (c_swsp_imm insn) s, False)
      else (c_ill io cn insn s, False))"

definition insn16 :: "bus_io \<Rightarrow> nat \<Rightarrow> u32 \<Rightarrow> rvm \<Rightarrow> rvm \<times> bool" where
  "insn16 io cn insn s =
     (if insn AND 3 = 0 then (c_quadrant0 io cn insn s, False)
      else if insn AND 3 = 1 then (c_quadrant1 io cn insn s, False)
      else if insn AND 3 = 2 then c_quadrant2 io cn insn s
      else (rv_smoke s, False))"

end
