(* ===== verification/Rv_Cycle.thy ===== *)
theory Rv_Cycle
  imports Rv_Decode "HOL-Library.While_Combinator"
begin

text \<open>
  One cycle of every RISC-V processor (\<open>cpu_cycle\<close> and \<open>cpu_cycles\<close> of \<open>riscv/riscvcore.h\<close>):
  interrupts, instruction fetch through the page of the pc, execution, and the bookkeeping after
  it.
\<close>

section \<open>The start of a cycle\<close>

text \<open>The interrupt a cpu takes: the bus first, then the timer, then the other cpus.\<close>

definition rv_irq_code :: "riscvcpu \<Rightarrow> u32 option" where
  "rv_irq_code c =
     (if \<not> status_sie c then None
      else if rc_irq_lamebus c \<and> ie_seie c then Some IRQ_SEXTERN
      else if rc_irq_timer c \<and> ie_stie c then Some IRQ_STIMER
      else if rc_irq_ipi c \<and> ie_ssie c then Some IRQ_SSOFT
      else None)"

definition rv_take_interrupt :: "bus_io \<Rightarrow> nat \<Rightarrow> rvm \<Rightarrow> rvm" where
  "rv_take_interrupt io cn s =
     (case rv_irq_code (rvcpu s cn) of
        None \<Rightarrow> s
      | Some code \<Rightarrow> rv_interrupt io cn code s)"

definition rv_count_cycle :: "nat \<Rightarrow> rvm \<Rightarrow> rvm" where
  "rv_count_cycle cn s =
     (if \<not> super (rvcpu s cn) then rv_count cn (\<lambda>p. p\<lparr>sp_ucycles := sp_ucycles p + 1\<rparr>) s
      else rv_count cn (\<lambda>p. p\<lparr>sp_kcycles := sp_kcycles p + 1\<rparr>) s)"

section \<open>Instruction fetch\<close>

text \<open>\<open>bus_use_map\<close> on the page of the pc. Reading through \<open>NULL\<close>, or beyond the page, has no
  meaning.\<close>

definition rv_fetch_word :: "nat \<Rightarrow> u32 \<Rightarrow> rvm \<Rightarrow> rvm \<times> u32" where
  "rv_fetch_word cn off s =
     (case rc_pcpage (rvcpu s cn) of
        None \<Rightarrow> (rv_fault Undefined s, 0)
      | Some pg \<Rightarrow>
          if off \<ge> 0x1000 then (rv_fault Undefined s, 0)
          else (s, rv_use_map (rv_sys s) pg off))"

text \<open>The other half of a 32-bit instruction that does not begin on a word boundary; \<open>None\<close> when
  looking for it took a trap.\<close>

definition rv_second_half :: "bus_io \<Rightarrow> nat \<Rightarrow> rvm \<Rightarrow> rvm \<times> u32 option" where
  "rv_second_half io cn s =
     (let pcoff2 = rc_pcoff (rvcpu s cn) + 2 in
      if pcoff2 = 0x1000 then
        (case rv_precompute_pc io cn (upd_rv cn (\<lambda>c. c\<lparr>rc_pc := rc_pc c + 2\<rparr>) s) of
           (s1, False) \<Rightarrow> (upd_rv cn (\<lambda>c. c\<lparr>sepc := sepc c - 2\<rparr>) s1, None)
         | (s1, True) \<Rightarrow>
             (case rv_fetch_word cn (rc_pcoff (rvcpu s1 cn)) s1 of
                (s2, insn2) \<Rightarrow>
                  (upd_rv cn (\<lambda>c. c\<lparr>rc_pc := rc_pc c - 2, rc_pcoff := rc_pcoff c - 2\<rparr>) s2,
                   Some insn2)))
      else (case rv_fetch_word cn pcoff2 s of (s1, insn2) \<Rightarrow> (s1, Some insn2)))"

definition rv_set_next :: "nat \<Rightarrow> u32 \<Rightarrow> rvm \<Rightarrow> rvm" where
  "rv_set_next cn k s =
     upd_rv cn (\<lambda>c. c\<lparr>rc_nextpc := rc_pc c + k, rc_nextpcoff := rc_pcoff c + k\<rparr>) s"

text \<open>Fetch and execute: whether a breakpoint was hit, or \<open>None\<close> when the cycle of this cpu ends
  here.\<close>

definition rv_execute :: "bus_io \<Rightarrow> nat \<Rightarrow> rvm \<Rightarrow> rvm \<times> bool option" where
  "rv_execute io cn s =
     (case rv_fetch_word cn (rc_pcoff (rvcpu s cn) AND 0xfffffffc) s of
        (s1, w) \<Rightarrow>
          let half = rc_pcoff (rvcpu s1 cn) AND 2 \<noteq> 0;
              insn = (if half then drop_bit 16 w else w)
          in if insn AND 3 \<noteq> 3 then map_prod id Some (insn16 io cn insn (rv_set_next cn 2 s1))
             else if insn AND 0x1c = 0x1c then (rx_ill io cn insn s1, Some False)
             else if half then
               (case rv_second_half io cn s1 of
                  (s2, None) \<Rightarrow> (s2, None)
                | (s2, Some insn2) \<Rightarrow>
                    map_prod id Some
                      (insn32 io cn (insn OR push_bit 16 (insn2 AND 0x0000ffff))
                        (rv_set_next cn 4 s2)))
             else map_prod id Some (insn32 io cn insn (rv_set_next cn 4 s1)))"

section \<open>The end of a cycle\<close>

text \<open>The flag is false when the new pc has no page and a trap was taken.\<close>

definition rv_update_pc :: "bus_io \<Rightarrow> nat \<Rightarrow> rvm \<Rightarrow> rvm \<times> bool" where
  "rv_update_pc io cn s =
     (let s1 = upd_rv cn (\<lambda>c. c\<lparr>rc_pc := rc_nextpc c\<rparr>) s in
      if rc_pc (rvcpu s1 cn) AND 0xfff = 0 then rv_precompute_pc io cn s1
      else (upd_rv cn (\<lambda>c. c\<lparr>rc_pcoff := rc_nextpcoff c\<rparr>) s1, True))"

definition rv_tick :: "riscvcpu \<Rightarrow> riscvcpu" where
  "rv_tick c =
     (let c1 = c\<lparr>cyclecount := cyclecount c + 1\<rparr> in
      if cyclecount c1 = cycletrigger c1 then c1\<lparr>rc_irq_timer := True\<rparr> else c1)"

definition rv_retire :: "nat \<Rightarrow> bool \<Rightarrow> rvm \<Rightarrow> rvm" where
  "rv_retire cn retire_usermode s =
     (if trapped (rvcpu s cn) then s
      else if retire_usermode then
        upd_sys (\<lambda>m. m\<lparr>progress := True\<rparr>)
          (rv_count cn (\<lambda>p. p\<lparr>sp_uretired := sp_uretired p + 1\<rparr>) s)
      else rv_count cn (\<lambda>p. p\<lparr>sp_kretired := sp_kretired p + 1\<rparr>) s)"

definition rv_begin :: "bus_io \<Rightarrow> nat \<Rightarrow> rvm \<Rightarrow> rvm" where
  "rv_begin io cn s =
     upd_rv cn (\<lambda>c. c\<lparr>trapped := False, rc_hit_breakpoint := False\<rparr>)
       (rv_count_cycle cn (rv_take_interrupt io cn s))"

definition rv_finish :: "bus_io \<Rightarrow> nat \<Rightarrow> bool \<Rightarrow> rvm \<Rightarrow> rvm" where
  "rv_finish io cn retire_usermode s =
     (case rv_update_pc io cn s of
        (s1, False) \<Rightarrow> s1
      | (s1, True) \<Rightarrow> rv_retire cn retire_usermode (upd_rv cn rv_tick s1))"

section \<open>Cycles of the machine\<close>

text \<open>The body of the loop over the processors, and whether it hit a breakpoint.\<close>

definition rv_cycle_one :: "bus_io \<Rightarrow> nat \<Rightarrow> rvm \<Rightarrow> rvm \<times> bool" where
  "rv_cycle_one io cn s =
     (if rc_state (rvcpu s cn) \<noteq> CPU_RUNNING then
        (rv_count cn (\<lambda>p. p\<lparr>sp_icycles := sp_icycles p + 1\<rparr>) s, False)
      else
        let s1 = rv_begin io cn s; retire_usermode = \<not> super (rvcpu s1 cn) in
        case rv_execute io cn s1 of
          (s2, None) \<Rightarrow> (s2, False)
        | (s2, Some b) \<Rightarrow> (rv_finish io cn retire_usermode s2, b))"

definition rv_count_break :: "bus_io \<Rightarrow> nat \<Rightarrow> rvm \<times> nat \<Rightarrow> rvm \<times> nat" where
  "rv_count_break io cn r =
     (let (s, breakpoints) = r; (s1, b) = rv_cycle_one io cn s
      in (s1, if b then breakpoints + 1 else breakpoints))"

definition rv_cpu_cycle :: "bus_io \<Rightarrow> rvm \<Rightarrow> rvm \<times> bool" where
  "rv_cpu_cycle io s =
     (let (s1, breakpoints) = fold (rv_count_break io) [0..<ncpus (rv_sys s)] (s, 0)
      in (s1, breakpoints = 0 \<or> breakpoints = ncpus (rv_sys s1)))"

definition rv_cycles_more :: "u64 \<Rightarrow> rvm \<times> u64 \<Rightarrow> bool" where
  "rv_cycles_more maxcycles r \<longleftrightarrow> snd r < maxcycles \<and> cpu_cycling (rv_sys (fst r))"

definition rv_cycles_step :: "bus_io \<Rightarrow> u64 \<Rightarrow> rvm \<times> u64 \<Rightarrow> rvm \<times> u64" where
  "rv_cycles_step io maxcycles r =
     (let (s, i) = r;
          (s1, counts) = rv_cpu_cycle io s;
          (s2, i2) =
            (if counts then (upd_sys (\<lambda>m. m\<lparr>cpu_cycles_count := i + 1\<rparr>) s1, i + 1) else (s1, i))
      in if cpu_running_mask (rv_sys s2) = 0 \<and> cpu_cycling (rv_sys s2) then
           (upd_sys (upd_stats (\<lambda>st. st\<lparr>s_tot_icycles := s_tot_icycles st + (maxcycles - i2)\<rparr>)) s2,
            maxcycles)
         else (s2, i2))"

definition rv_cpu_cycles :: "bus_io \<Rightarrow> u64 \<Rightarrow> rvm \<Rightarrow> rvm \<times> u64" where
  "rv_cpu_cycles io maxcycles s =
     (case while_option (rv_cycles_more maxcycles) (rv_cycles_step io maxcycles)
        (upd_sys (\<lambda>m. m\<lparr>cpu_cycling := True\<rparr>) s, 0) of
        Some (s1, i) \<Rightarrow> (upd_sys (\<lambda>m. m\<lparr>cpu_cycles_count := 0\<rparr>) s1, i)
      | None \<Rightarrow> (rv_fault No_return s, 0))"

end
