(* ===== verification/Rv_Control.thy ===== *)
theory Rv_Control
  imports Rv_Cycle
begin

text \<open>
  The interface of the RISC-V processor to the rest of the simulator (\<open>riscv/riscv.c\<close>): reset,
  turning cpus on and off, interrupt lines, loading a kernel, and the debugger's access.
\<close>

section \<open>Reset\<close>

text \<open>\<open>riscv_init\<close> up to the lookup of the pc.\<close>

definition riscv_init_regs :: "nat \<Rightarrow> riscvcpu \<Rightarrow> riscvcpu" where
  "riscv_init_regs n c = c\<lparr>
     rc_state := CPU_DISABLED, rc_cpunum := n, super := True, Cext := True,
     xreg := (\<lambda>i. if i < 32 then 0 else xreg c i),
     rc_pc := PADDR_ROMBASE + 0x100, rc_nextpc := 0, rc_nextpcoff := 0, trapped := False,
     mmu_enable := False, mmu_asid := 0, mmu_ptbase_pa := 0, mmu_pttoppage := None,
     mmu_cached_vpage := 0xffffffff, mmu_cached_ppage := 0, mmu_cached_readable := False,
     mmu_cached_writeable := False, mmu_cached_executable := False,
     status_mxr := False, status_sum := False, status_spp := False, status_sie := False,
     status_spie := False, status_uie := False, status_upie := False,
     ie_seie := False, ie_stie := False, ie_ssie := False,
     rc_irq_lamebus := False, rc_irq_timer := False, rc_irq_ipi := False,
     stvec := PADDR_ROMBASE, sscratch := 0,
     scause_interrupt := False, scause_trapcode := 0, stval := 0, sepc := 0,
     cyclecount := 0, cycletrigger := - 1,
     lr_active := False, lr_addr := 0, lr_value := 0, rc_hit_breakpoint := False\<rparr>"

definition riscv_init :: "bus_io \<Rightarrow> nat \<Rightarrow> rvm \<Rightarrow> rvm" where
  "riscv_init io n s =
     (case rv_precompute_pc io n (upd_rv n (riscv_init_regs n) s) of
        (s1, True) \<Rightarrow> s1
      | (s1, False) \<Rightarrow> rv_smoke s1)"

definition rv_cpu_init :: "bus_io \<Rightarrow> nat \<Rightarrow> rvm \<Rightarrow> rvm" where
  "rv_cpu_init io numcpus s =
     (if \<not> numcpus \<le> 32 then rv_smoke s
      else
        let s1 = upd_sys (\<lambda>m. m\<lparr>ncpus := numcpus\<rparr>) s;
            s2 = fold (riscv_init io) [0..<numcpus] s1;
            s3 = upd_rv 0 (\<lambda>c. c\<lparr>rc_state := CPU_RUNNING\<rparr>) s2
        in upd_sys (\<lambda>m. m\<lparr>cpu_running_mask := 1\<rparr>) s3)"

section \<open>Loading and starting a kernel\<close>

text \<open>\<open>BETWEEN\<close> with its 32-bit arithmetic.\<close>

definition rv_between :: "u32 \<Rightarrow> u32 \<Rightarrow> u32 \<Rightarrow> u32 \<Rightarrow> bool" where
  "rv_between addr sz base lim \<longleftrightarrow> addr \<ge> base \<and> sz \<le> lim - base \<and> addr + sz < lim"

definition rv_get_load_paddr :: "u32 \<Rightarrow> u32 \<Rightarrow> u32 option" where
  "rv_get_load_paddr vaddr sz =
     (if \<not> rv_between vaddr sz PADDR_RAMBASE PADDR_ROMBASE then None else Some vaddr)"

definition rv_get_load_vaddr :: "u32 \<Rightarrow> u32 \<Rightarrow> u32 option" where
  "rv_get_load_vaddr paddr sz =
     (if \<not> rv_between paddr sz PADDR_RAMBASE PADDR_ROMBASE then None else Some paddr)"

definition rv_get_ram_paddr :: u32 where
  "rv_get_ram_paddr = 0xc0000000"

definition rv_set_entrypoint :: "bus_io \<Rightarrow> nat \<Rightarrow> u32 \<Rightarrow> rvm \<Rightarrow> rvm" where
  "rv_set_entrypoint io n addr0 s =
     (if \<not> n < ncpus (rv_sys s) then rv_smoke s
      else
        let alignmask = (if Cext (rvcpu s n) then 0xfffffffe else 0xfffffffc);
            bad = addr0 AND alignmask \<noteq> addr0;
            s1 = (if bad then upd_sys hang s else s);
            addr = (if bad then addr0 AND alignmask else addr0)
        in case rv_precompute_pc io n (upd_rv n (\<lambda>c. c\<lparr>rc_pc := addr\<rparr>) s1) of
             (s2, True) \<Rightarrow> s2
           | (s2, False) \<Rightarrow> upd_sys hang s2)"

definition rv_set_stack :: "nat \<Rightarrow> u32 \<Rightarrow> u32 \<Rightarrow> rvm \<Rightarrow> rvm" where
  "rv_set_stack n stackaddr argument s =
     (if \<not> n < ncpus (rv_sys s) then rv_smoke s
      else upd_rv n (\<lambda>c. c\<lparr>xreg := (xreg c)(2 := stackaddr, 10 := argument)\<rparr>) s)"

definition rv_secondary_start_stack :: "u32 \<Rightarrow> u32" where
  "rv_secondary_start_stack lboffset = PADDR_BUSBASE + lboffset"

section \<open>Turning cpus on and off\<close>

definition rv_set_irqs :: "nat \<Rightarrow> bool \<Rightarrow> bool \<Rightarrow> rvm \<Rightarrow> rvm" where
  "rv_set_irqs n lamebus ipi s =
     (if \<not> n < ncpus (rv_sys s) then rv_smoke s
      else
        let s1 = upd_rv n (\<lambda>c. c\<lparr>rc_irq_lamebus := lamebus, rc_irq_ipi := ipi\<rparr>) s;
            c = rvcpu s1 n;
            eie = (if super c then ie_seie c else True);
            sie = (if super c then ie_ssie c else True)
        in if rc_state c = CPU_IDLE \<and> (lamebus \<and> eie \<or> ipi \<and> sie)
           then rv_mask_on n (upd_rv n (\<lambda>c. c\<lparr>rc_state := CPU_RUNNING\<rparr>) s1)
           else s1)"

definition rv_cpu_enable :: "nat \<Rightarrow> rvm \<Rightarrow> rvm" where
  "rv_cpu_enable n s =
     (if \<not> n < ncpus (rv_sys s) then rv_smoke s
      else rv_mask_on n (upd_rv n (\<lambda>c. c\<lparr>rc_state := CPU_RUNNING\<rparr>) s))"

definition rv_cpu_disable :: "nat \<Rightarrow> rvm \<Rightarrow> rvm" where
  "rv_cpu_disable n s =
     (if \<not> n < ncpus (rv_sys s) then rv_smoke s
      else rv_mask_off n (upd_rv n (\<lambda>c. c\<lparr>rc_state := CPU_DISABLED\<rparr>) s))"

definition rv_cpu_enabled :: "nat \<Rightarrow> rvm \<Rightarrow> rvm \<times> bool" where
  "rv_cpu_enabled n s =
     (if \<not> n < ncpus (rv_sys s) then (rv_smoke s, False)
      else (s, rc_state (rvcpu s n) \<noteq> CPU_DISABLED))"

definition rv_numcpus :: "rvm \<Rightarrow> nat" where
  "rv_numcpus s = ncpus (rv_sys s)"

definition rv_cpuprof_sample :: "rvm \<Rightarrow> u32" where
  "rv_cpuprof_sample s = rc_pc (rvcpu s 0)"

section \<open>The debugger's access\<close>

definition rv_get_break_cpu :: "rvm \<Rightarrow> nat" where
  "rv_get_break_cpu s =
     (case find (\<lambda>i. rc_hit_breakpoint (rvcpu s i)) [0..<ncpus (rv_sys s)] of
        Some i \<Rightarrow> i | None \<Rightarrow> 0)"

text \<open>The offset in RAM of a physical address.\<close>

definition rv_ram_offset :: "u32 \<Rightarrow> u32 option" where
  "rv_ram_offset pa =
     (if pa < PADDR_RAMBASE \<or> pa \<ge> PADDR_ROMBASE then None else Some (pa - PADDR_RAMBASE))"

definition rv_fetch_byte :: "bus_io \<Rightarrow> nat \<Rightarrow> u32 \<Rightarrow> rvm \<Rightarrow> rvm \<times> u8 option" where
  "rv_fetch_byte io n va s =
     (if \<not> n < ncpus (rv_sys s) then (rv_smoke s, None)
      else case rv_debug_translatemem io n (va AND 0xfffffffc) RWX_READ s of
        (s1, None) \<Rightarrow> (s1, None)
      | (s1, Some pa) \<Rightarrow>
          (s1, case rv_ram_offset (pa OR (va AND 3)) of
                 None \<Rightarrow> None | Some off \<Rightarrow> bus_mem_fetchbyte (rv_sys s1) off))"

definition rv_debug_fetch_word :: "bus_io \<Rightarrow> nat \<Rightarrow> u32 \<Rightarrow> rvm \<Rightarrow> rvm \<times> u32 option" where
  "rv_debug_fetch_word io n va s =
     (if \<not> n < ncpus (rv_sys s) then (rv_smoke s, None)
      else case rv_debug_translatemem io n va RWX_READ s of
        (s1, None) \<Rightarrow> (s1, None)
      | (s1, Some pa) \<Rightarrow>
          (s1, case rv_ram_offset pa of
                 None \<Rightarrow> None | Some off \<Rightarrow> rv_mem_fetch (rv_sys s1) off))"

text \<open>The flag is true when the function returned 0.\<close>

definition rv_debug_store :: "(u32 \<Rightarrow> machine \<Rightarrow> machine option) \<Rightarrow> bus_io \<Rightarrow> nat \<Rightarrow> u32 \<Rightarrow> rvm \<Rightarrow> rvm \<times> bool" where
  "rv_debug_store put io n va s =
     (if \<not> n < ncpus (rv_sys s) then (rv_smoke s, False)
      else case rv_debug_translatemem io n va RWX_WRITE s of
        (s1, None) \<Rightarrow> (s1, False)
      | (s1, Some pa) \<Rightarrow>
          (case rv_ram_offset pa of
             None \<Rightarrow> (s1, False)
           | Some off \<Rightarrow>
               (case put off (rv_sys s1) of
                  None \<Rightarrow> (s1, False)
                | Some m' \<Rightarrow> (s1\<lparr>rv_sys := m'\<rparr>, True))))"

definition rv_debug_store_byte :: "bus_io \<Rightarrow> nat \<Rightarrow> u32 \<Rightarrow> u8 \<Rightarrow> rvm \<Rightarrow> rvm \<times> bool" where
  "rv_debug_store_byte io n va b s = rv_debug_store (\<lambda>off. bus_mem_storebyte off b) io n va s"

definition rv_debug_store_word :: "bus_io \<Rightarrow> nat \<Rightarrow> u32 \<Rightarrow> u32 \<Rightarrow> rvm \<Rightarrow> rvm \<times> bool" where
  "rv_debug_store_word io n va w s = rv_debug_store (\<lambda>off. rv_mem_store off w) io n va s"

definition rv_getregs :: "nat \<Rightarrow> nat \<Rightarrow> rvm \<Rightarrow> rvm \<times> u32 list \<times> nat" where
  "rv_getregs n maxregs s =
     (let s0 = (if \<not> n < ncpus (rv_sys s) then rv_smoke s else s);
          vals = map (xreg (rvcpu s0 n)) [0..<32] @ [rc_pc (rvcpu s0 n)]
      in (s0, take maxregs vals, length vals))"

end
