(* ===== verification/Rv_Bus.thy ===== *)
theory Rv_Bus
  imports Rv_Control
begin

text \<open>
  What LAMEbus can do to the RISC-V processors. Whatever device answers an access, the bus touches
  the processors only through the functions of \<open>include/cpu.h\<close>: an access is a change of the
  bus's own state together with a list of calls. \<open>bus_of\<close> makes a \<open>bus_io\<close> from any such
  reaction, so that a theorem about \<open>bus_of F\<close> for every \<open>F\<close> covers every set of devices. The
  locales state what a property must survive to survive a cycle of the machine, and
  are interpreted here on the invariant of \<open>cpu_running_mask\<close> and on the cycling flag.
\<close>

section \<open>The calls\<close>

text \<open>The calls in \<open>bus/lamebus.c\<close> (\<open>irqupdate\<close>, \<open>set_cpue\<close> and the store to a cpu's region).
  A fetch can only raise and lower interrupts.\<close>

datatype cpu_call =
    Call_set_irqs nat bool bool
  | Call_disable nat
  | Call_set_entrypoint nat u32
  | Call_set_stack nat u32 u32
  | Call_enable nat

record bus_react =
  react_fetch :: "nat \<Rightarrow> u32 \<Rightarrow> machine \<Rightarrow> machine \<times> (nat \<times> bool \<times> bool) list \<times> fetched"
  react_store :: "nat \<Rightarrow> u32 \<Rightarrow> u32 \<Rightarrow> machine \<Rightarrow> machine \<times> cpu_call list \<times> bool"

text \<open>The bus has no other access to the variables of the processors. It can stop the cycling.\<close>

definition bus_part :: "machine \<Rightarrow> machine \<Rightarrow> machine" where
  "bus_part m m' = m'\<lparr>ncpus := ncpus m, cpu_running_mask := cpu_running_mask m,
     cpu_cycling := cpu_cycling m \<and> cpu_cycling m'\<rparr>"

definition do_irq_call :: "nat \<times> bool \<times> bool \<Rightarrow> rvm \<Rightarrow> rvm" where
  "do_irq_call r s = (let (n, lamebus, ipi) = r in rv_set_irqs n lamebus ipi s)"

definition bus_fetch :: "bus_react \<Rightarrow> nat \<Rightarrow> u32 \<Rightarrow> rvm \<Rightarrow> rvm \<times> fetched" where
  "bus_fetch F cn off s =
     (let (m', calls, r) = react_fetch F cn off (rv_sys s)
      in (fold do_irq_call calls (upd_sys (\<lambda>m. bus_part m m') s), r))"

definition fetch_only :: "bus_react \<Rightarrow> bus_io" where
  "fetch_only F = \<lparr>io_fetch = bus_fetch F, io_store = (\<lambda>_ _ _ s. (s, False))\<rparr>"

primrec do_call :: "bus_react \<Rightarrow> cpu_call \<Rightarrow> rvm \<Rightarrow> rvm" where
  "do_call F (Call_set_irqs n lamebus ipi) s = rv_set_irqs n lamebus ipi s"
| "do_call F (Call_disable n) s = rv_cpu_disable n s"
| "do_call F (Call_set_entrypoint n addr) s = rv_set_entrypoint (fetch_only F) n addr s"
| "do_call F (Call_set_stack n stackaddr argument) s = rv_set_stack n stackaddr argument s"
| "do_call F (Call_enable n) s = rv_cpu_enable n s"

definition bus_store :: "bus_react \<Rightarrow> nat \<Rightarrow> u32 \<Rightarrow> u32 \<Rightarrow> rvm \<Rightarrow> rvm \<times> bool" where
  "bus_store F cn off val s =
     (let (m', calls, ok) = react_store F cn off val (rv_sys s)
      in (fold (do_call F) calls (upd_sys (\<lambda>m. bus_part m m') s), ok))"

definition bus_of :: "bus_react \<Rightarrow> bus_io" where
  "bus_of F = \<lparr>io_fetch = bus_fetch F, io_store = bus_store F\<rparr>"

section \<open>A fetch leaves the program alone\<close>

text \<open>What a fetch from the bus cannot change: everything of a cpu but its state and the two
  interrupt lines.\<close>

definition core_of :: "riscvcpu \<Rightarrow> riscvcpu" where
  "core_of c = c\<lparr>rc_state := CPU_RUNNING, rc_irq_lamebus := False, rc_irq_ipi := False\<rparr>"

locale bus_contract =
  fixes io :: bus_io
  assumes fetch_core: "core_of (rvcpu (fst (io_fetch io n off s)) i) = core_of (rvcpu s i)"

lemma core_of_sels [simp]:
  "rc_pc (core_of c) = rc_pc c"
  "stvec (core_of c) = stvec c"
  "sepc (core_of c) = sepc c"
  "super (core_of c) = super c"
  "status_sie (core_of c) = status_sie c"
  "status_spie (core_of c) = status_spie c"
  "status_spp (core_of c) = status_spp c"
  "Cext (core_of c) = Cext c"
  "xreg (core_of c) = xreg c"
  "scause_trapcode (core_of c) = scause_trapcode c"
  "scause_interrupt (core_of c) = scause_interrupt c"
  "stval (core_of c) = stval c"
  "rc_nextpc (core_of c) = rc_nextpc c"
  "mmu_enable (core_of c) = mmu_enable c"
  "lr_active (core_of c) = lr_active c"
  "lr_addr (core_of c) = lr_addr c"
  "lr_value (core_of c) = lr_value c"
  "rc_pcpage (core_of c) = rc_pcpage c"
  by (simp_all add: core_of_def)

lemma core_of_fields:
  assumes "core_of c = core_of d"
  shows "rc_pc c = rc_pc d" "stvec c = stvec d" "sepc c = sepc d" "super c = super d"
    "status_sie c = status_sie d" "status_spie c = status_spie d" "status_spp c = status_spp d"
    "Cext c = Cext d" "xreg c = xreg d" "scause_trapcode c = scause_trapcode d"
    "scause_interrupt c = scause_interrupt d" "stval c = stval d" "rc_nextpc c = rc_nextpc d"
    "mmu_enable c = mmu_enable d" "lr_active c = lr_active d" "lr_addr c = lr_addr d"
    "lr_value c = lr_value d" "rc_pcpage c = rc_pcpage d"
  using arg_cong [where f = rc_pc, OF assms]
    arg_cong [where f = stvec, OF assms]
    arg_cong [where f = sepc, OF assms]
    arg_cong [where f = super, OF assms]
    arg_cong [where f = status_sie, OF assms]
    arg_cong [where f = status_spie, OF assms]
    arg_cong [where f = status_spp, OF assms]
    arg_cong [where f = Cext, OF assms]
    arg_cong [where f = xreg, OF assms]
    arg_cong [where f = scause_trapcode, OF assms]
    arg_cong [where f = scause_interrupt, OF assms]
    arg_cong [where f = stval, OF assms]
    arg_cong [where f = rc_nextpc, OF assms]
    arg_cong [where f = mmu_enable, OF assms]
    arg_cong [where f = lr_active, OF assms]
    arg_cong [where f = lr_addr, OF assms]
    arg_cong [where f = lr_value, OF assms]
    arg_cong [where f = rc_pcpage, OF assms]
  by simp_all

lemma set_irqs_core: "core_of (rvcpu (rv_set_irqs n lb ipi s) i) = core_of (rvcpu s i)"
  by (simp add: rv_set_irqs_def Let_def rv_mask_on_def core_of_def)

lemma fold_irq_core: "core_of (rvcpu (fold do_irq_call calls s) i) = core_of (rvcpu s i)"
  by (induction calls arbitrary: s) (simp_all add: do_irq_call_def set_irqs_core split: prod.split)

lemma bus_fetch_core: "core_of (rvcpu (fst (bus_fetch F n off s)) i) = core_of (rvcpu s i)"
  by (simp add: bus_fetch_def fold_irq_core split: prod.split)

interpretation any_bus: bus_contract "bus_of F" for F
  by unfold_locales (simp add: bus_of_def bus_fetch_core)

interpretation any_fetch: bus_contract "fetch_only F" for F
  by unfold_locales (simp add: fetch_only_def bus_fetch_core)

end
