(* ===== verification/Rv_Closure.thy ===== *)
theory Rv_Closure
  imports Rv_Bus
begin

text \<open>
  Which properties of the RISC-V machine survive running it. \<open>rv_quiet\<close> is the contract of a
  property with traps, translation and memory, \<open>rv_exec\<close> with the instructions and a cycle. They
  are interpreted on the invariant \<open>rv_ok\<close> (the running mask, the numbers of the cpus, register 0)
  and on the cycling flag, which gives the termination of \<open>cpu_cycles\<close>.
\<close>

named_theorems rvc

section \<open>Traps and memory\<close>

text \<open>An update of a cpu that leaves its state, its number and register 0; one of the rest of the
  simulator that leaves the number of cpus and the running mask, and does not start the cycling.\<close>

definition quiet_cpu :: "(riscvcpu \<Rightarrow> riscvcpu) \<Rightarrow> bool" where
  "quiet_cpu f \<longleftrightarrow> (\<forall>c. rc_state (f c) = rc_state c \<and> rc_cpunum (f c) = rc_cpunum c \<and> xreg (f c) 0 = xreg c 0)"

definition quiet_sys :: "(machine \<Rightarrow> machine) \<Rightarrow> bool" where
  "quiet_sys f \<longleftrightarrow>
     (\<forall>m. ncpus (f m) = ncpus m \<and> cpu_running_mask (f m) = cpu_running_mask m \<and>
        (cpu_cycling (f m) \<longrightarrow> cpu_cycling m))"

lemma quiet_cpuI:
  "(\<And>c. rc_state (f c) = rc_state c \<and> rc_cpunum (f c) = rc_cpunum c \<and> xreg (f c) 0 = xreg c 0) \<Longrightarrow>
   quiet_cpu f"
  by (simp add: quiet_cpu_def)

lemma quiet_sys_simps [simp]:
  "quiet_sys (raise_fault e)" "quiet_sys smoke" "quiet_sys hang" "quiet_sys (upd_stats g)"
  "quiet_sys (upd_percpu n h)" "quiet_sys (\<lambda>m. m\<lparr>progress := b\<rparr>)"
  "quiet_sys (\<lambda>m. main_enter_debugger l (cpu_stopcycling m))"
  "quiet_sys (\<lambda>m. m\<lparr>cpu_cycles_count := i\<rparr>)" "quiet_sys (\<lambda>m. bus_part m m')"
  by (simp_all add: quiet_sys_def raise_fault_def smoke_def hang_def main_enter_debugger_def
      cpu_stopcycling_def upd_stats_def upd_percpu_def bus_part_def)

text \<open>Setting a cpu to a value that is quiet at this cpu.\<close>

lemma upd_rv_const:
  assumes "rc_state c' = rc_state (rvcpu s cn)" "rc_cpunum c' = rc_cpunum (rvcpu s cn)"
    "xreg c' 0 = xreg (rvcpu s cn) 0"
  obtains f where "quiet_cpu f" "upd_rv cn (\<lambda>_. c') s = upd_rv cn f s"
proof (rule that)
  let ?f = "\<lambda>d. if d = rvcpu s cn then c' else d"
  show "quiet_cpu ?f" using assms by (auto simp: quiet_cpu_def)
  show "upd_rv cn (\<lambda>_. c') s = upd_rv cn ?f s" by (simp add: upd_rv_def)
qed

locale rv_quiet =
  fixes io :: bus_io and P :: "rvm \<Rightarrow> bool"
  assumes fetch: "P s \<Longrightarrow> P (fst (io_fetch io n off s))"
    and cpu: "P s \<Longrightarrow> quiet_cpu f \<Longrightarrow> P (upd_rv i f s)"
    and sys: "P s \<Longrightarrow> quiet_sys g \<Longrightarrow> P (upd_sys g s)"
begin

lemma fault_closed [rvc]: "P s \<Longrightarrow> P (rv_fault e s)" "P s \<Longrightarrow> P (rv_smoke s)" "P s \<Longrightarrow> P (upd_sys hang s)"
  by (simp_all add: sys)

lemma ram_closed: "P s \<Longrightarrow> rv_mem_store off v (rv_sys s) = Some m' \<Longrightarrow> P (s\<lparr>rv_sys := m'\<rparr>)"
proof -
  assume p: "P s" and "rv_mem_store off v (rv_sys s) = Some m'"
  then have "m' = (rv_sys s)\<lparr>ram := ram m'\<rparr>" by (auto simp: rv_mem_store_def split: if_splits)
  then have "s\<lparr>rv_sys := m'\<rparr> = upd_sys (\<lambda>m. m\<lparr>ram := ram m'\<rparr>) s" by (simp add: upd_sys_def)
  moreover have "quiet_sys (\<lambda>m. m\<lparr>ram := ram m'\<rparr>)" by (simp add: quiet_sys_def)
  ultimately show ?thesis using sys [OF p] by simp
qed

lemma accessmem_fetch_closed [rvc]: "P s \<Longrightarrow> P (fst (rv_accessmem_fetch io cn pa s))"
  by (simp add: rv_accessmem_fetch_def fetch)

lemma pt_leaf_closed [rvc]: "P s \<Longrightarrow> P (fst (pt_leaf io cn va e s))"
  using accessmem_fetch_closed [of s cn "push_bit 2 (e AND PTE_PPN) + drop_bit 10 (va AND 0x003ff000)"]
  by (simp only: pt_leaf_def Let_def split_beta) (simp split: fetched.split)

lemma pt_walk_closed [rvc]: "P s \<Longrightarrow> P (fst (pt_walk io cn va s))"
  by (simp add: pt_walk_def Let_def rvc split: option.split)

lemma quiet_cache: "quiet_cpu (cache_leaf vpage lf)"
  by (simp add: quiet_cpu_def cache_leaf_def)

lemma mmu_lookup_closed [rvc]: "P s \<Longrightarrow> P (fst (mmu_lookup io cn va rwx s))"
  using pt_walk_closed [of s cn va]
  by (simp add: mmu_lookup_def Let_def split_beta cpu quiet_cache split: sum.split option.split)

lemma translate_with_closed:
  assumes "P s" "\<And>code val t. P t \<Longrightarrow> P (exc code val t)"
  shows "P (fst (translate_with exc io cn va rwx s))"
  using assms mmu_lookup_closed [of "rv_smoke s" cn va rwx] mmu_lookup_closed [of s cn va rwx]
  by (simp add: translate_with_def Let_def split_beta rvc split: sum.split)

lemma precompute_with_closed:
  assumes "P s" "\<And>code val t. P t \<Longrightarrow> P (exc code val t)"
  shows "P (fst (rv_precompute_with exc io cn s))"
proof -
  obtain s1 r where t: "translate_with exc io cn (rc_pc (rvcpu s cn)) RWX_EXECUTE s = (s1, r)" by fastforce
  moreover have "P (fst (translate_with exc io cn (rc_pc (rvcpu s cn)) RWX_EXECUTE s))"
    by (rule translate_with_closed) (rule assms, assumption?)+
  ultimately have "P s1" by simp
  then show ?thesis
    by (simp add: rv_precompute_with_def t Let_def assms(2) cpu quiet_cpu_def rvc split: option.split)
qed

lemma quiet_trap: "quiet_cpu (trap_regs isirq code val)"
  by (simp add: quiet_cpu_def trap_regs_def)

lemma trap_f_closed: "P s \<Longrightarrow> P (trap_f n io cn isirq code val s)"
proof (induction n arbitrary: isirq code val s)
  case 0
  then show ?case by (simp add: rvc)
next
  case (Suc n)
  have "P (count_trap isirq s)" using Suc.prems by (simp add: count_trap_def sys)
  then show ?case
    using Suc.IH by (simp add: Let_def rvc precompute_with_closed cpu quiet_trap del: upd_sys_upd_sys)
qed

lemma rv_trap_closed [rvc]: "P s \<Longrightarrow> P (trap io cn isirq code val s)"
  by (simp add: trap_def trap_f_closed)

lemma rv_exception_closed [rvc]: "P s \<Longrightarrow> P (rv_exception io cn code val s)" "P s \<Longrightarrow> P (rv_interrupt io cn code s)"
  by (simp_all add: rv_exception_def rv_interrupt_def rvc)

lemma precompute_closed [rvc]: "P s \<Longrightarrow> P (fst (rv_precompute_pc io cn s))"
  by (simp add: rv_precompute_pc_def precompute_with_closed rvc)

lemma rv_translatemem_closed [rvc]: "P s \<Longrightarrow> P (fst (rv_translatemem io cn va rwx s))"
  by (simp add: rv_translatemem_def translate_with_closed rvc)

lemma domem_fetch_closed [rvc]: "P s \<Longrightarrow> P (fst (rv_domem_fetch io cn va rwx s))"
  by (simp add: rv_domem_fetch_def split_beta rvc split: option.split fetched.split)

lemma accessmem_store_ram: "P s \<Longrightarrow> pa < PADDR_BUSBASE \<Longrightarrow> P (fst (rv_accessmem_store io cn pa v s))"
  by (auto simp: rv_accessmem_store_def split: option.split intro: ram_closed)

lemma rv_entrypoint_closed: "P s \<Longrightarrow> P (rv_set_entrypoint io n addr s)"
  by (simp add: rv_set_entrypoint_def Let_def split_beta rvc cpu quiet_cpu_def split: bool.split)

lemma stack_closed: "P s \<Longrightarrow> P (rv_set_stack n a b s)"
  by (simp add: rv_set_stack_def rvc cpu quiet_cpu_def)

lemma setreg_closed [rvc]: "P s \<Longrightarrow> P (rv_setreg cn rd v s)"
  by (simp add: rv_setreg_def cpu quiet_cpu_def)

lemma count_closed [rvc]: "P s \<Longrightarrow> P (rv_count cn g s)"
  by (simp add: rv_count_def sys)

lemma try_breakpoint_closed [rvc]: "P s \<Longrightarrow> P (fst (try_breakpoint cn s))"
  by (simp add: try_breakpoint_def cpu sys quiet_cpu_def)

lemma reload_closed [rvc]: "P s \<Longrightarrow> P (fst (reload_pagetables io cn s))"
  by (simp add: reload_pagetables_def Let_def rvc cpu quiet_cpu_def)

end

section \<open>Instructions\<close>

text \<open>The contract with the processor \<open>cn\<close>: beyond \<open>rv_quiet\<close>, a store to the bus and going
  to sleep.\<close>

locale rv_exec = rv_quiet +
  fixes cn :: nat
  assumes store: "P s \<Longrightarrow> P (fst (io_store io n off v s))"
    and wfi: "P s \<Longrightarrow> P (rx_do_wfi cn s)"
begin

lemma accessmem_store_closed [rvc]: "P s \<Longrightarrow> P (fst (rv_accessmem_store io cn pa v s))"
  by (simp add: rv_accessmem_store_def store ram_closed split: option.split)

lemma domem_store_closed [rvc]: "P s \<Longrightarrow> P (fst (rv_domem_store io cn va v rwx s))"
  by (simp add: rv_domem_store_def split_beta rvc split: option.split bool.split)

lemma clear_lr_closed [rvc]: "P s \<Longrightarrow> P (upd_rv i (\<lambda>c. c\<lparr>lr_active := False\<rparr>) s)"
  by (simp add: cpu quiet_cpu_def)

lemma domem_use_closed:
  assumes "P s" "\<And>val t. P t \<Longrightarrow> P (fst (k val t))"
  shows "P (fst (rv_domem_use io cn va rwx k fail s))"
  using assms by (simp add: rv_domem_use_def split_beta rvc split: fetched.split)

lemma load_at_closed [rvc]:
  "P s \<Longrightarrow> P (fst (rv_load_byte_at io cn ext8 rwx addr s))"
  "P s \<Longrightarrow> P (fst (rv_load_half_at io cn ext16 rwx addr s))"
  "P s \<Longrightarrow> P (fst (rv_load_word_at io cn rwx addr s))"
  by (simp_all add: rv_load_byte_at_def rv_load_half_at_def rv_load_word_at_def domem_use_closed
      split_beta rvc split: fetched.split)

lemma doload_closed [rvc]: "P s \<Longrightarrow> P (fst (rv_doload io cn ms w addr s))"
  by (simp add: rv_doload_def Let_def rvc split: rv_memstyles.split)

lemma modify_closed [rvc]: "P s \<Longrightarrow> P (fst (rv_modify io cn f addr s))"
  by (simp add: rv_modify_def domem_use_closed rvc)

lemma store_byte_closed [rvc]: "P s \<Longrightarrow> P (fst (rv_store_byte io cn addr v s))"
  by (simp add: rv_store_byte_def rvc)

lemma store_word_closed [rvc]: "P s \<Longrightarrow> P (fst (rv_store_word io cn addr v s))"
  by (simp add: rv_store_word_def Let_def split_beta rvc split: fetched.split bool.split)

lemma dostore_closed [rvc]: "P s \<Longrightarrow> P (fst (rv_dostore io cn ms addr v s))"
  by (simp add: rv_dostore_def Let_def split_beta rvc split: rv_memstyles.split bool.split)

subsection \<open>The operations\<close>

lemma rv_arith_closed [rvc]:
  "P s \<Longrightarrow> P (rx_do_addi cn rd rs1 imm s)" "P s \<Longrightarrow> P (rx_do_slti cn rd rs1 imm s)"
  "P s \<Longrightarrow> P (rx_do_sltiu cn rd rs1 imm s)" "P s \<Longrightarrow> P (rx_do_andi cn rd rs1 imm s)"
  "P s \<Longrightarrow> P (rx_do_ori cn rd rs1 imm s)" "P s \<Longrightarrow> P (rx_do_xori cn rd rs1 imm s)"
  "P s \<Longrightarrow> P (rx_do_slli cn rd rs1 imm s)" "P s \<Longrightarrow> P (rx_do_srli cn rd rs1 imm s)"
  "P s \<Longrightarrow> P (rx_do_srai cn rd rs1 imm s)" "P s \<Longrightarrow> P (rx_do_lui cn rd imm s)"
  "P s \<Longrightarrow> P (rx_do_auipc cn rd imm s)"
  by (simp_all add: rx_do_addi_def rx_do_slti_def rx_do_sltiu_def rx_do_andi_def rx_do_ori_def
      rx_do_xori_def rx_do_slli_def rx_do_srli_def rx_do_srai_def rx_do_lui_def rx_do_auipc_def rvc)

lemma op_closed [rvc]:
  "P s \<Longrightarrow> P (rx_do_add cn rd rs1 rs2 s)" "P s \<Longrightarrow> P (rx_do_sub cn rd rs1 rs2 s)"
  "P s \<Longrightarrow> P (rx_do_slt cn rd rs1 rs2 s)" "P s \<Longrightarrow> P (rx_do_sltu cn rd rs1 rs2 s)"
  "P s \<Longrightarrow> P (rx_do_and cn rd rs1 rs2 s)" "P s \<Longrightarrow> P (rx_do_or cn rd rs1 rs2 s)"
  "P s \<Longrightarrow> P (rx_do_xor cn rd rs1 rs2 s)" "P s \<Longrightarrow> P (rx_do_sll cn rd rs1 rs2 s)"
  "P s \<Longrightarrow> P (rx_do_srl cn rd rs1 rs2 s)" "P s \<Longrightarrow> P (rx_do_sra cn rd rs1 rs2 s)"
  "P s \<Longrightarrow> P (rx_do_mul cn rd rs1 rs2 s)" "P s \<Longrightarrow> P (rx_do_mulh cn rd rs1 rs2 s)"
  "P s \<Longrightarrow> P (rx_do_mulhu cn rd rs1 rs2 s)" "P s \<Longrightarrow> P (rx_do_mulhsu cn rd rs1 rs2 s)"
  "P s \<Longrightarrow> P (rx_do_div cn rd rs1 rs2 s)" "P s \<Longrightarrow> P (rx_do_divu cn rd rs1 rs2 s)"
  "P s \<Longrightarrow> P (rx_do_rem cn rd rs1 rs2 s)" "P s \<Longrightarrow> P (rx_do_remu cn rd rs1 rs2 s)"
  by (simp_all add: rx_do_add_def rx_do_sub_def rx_do_slt_def rx_do_sltu_def rx_do_and_def
      rx_do_or_def rx_do_xor_def rx_do_sll_def rx_do_srl_def rx_do_sra_def rx_do_mul_def
      rx_do_mulh_def rx_do_mulhu_def rx_do_mulhsu_def rx_do_div_def rx_do_divu_def rx_do_rem_def
      rx_do_remu_def rvc)

lemma rv_jump_closed [rvc]: "P s \<Longrightarrow> P (fst (rx_jump io cn dest s))"
  by (simp add: rx_jump_def rvc cpu quiet_cpu_def)

lemma rv_branch_closed [rvc]: "P s \<Longrightarrow> P (rv_branch io cn b imm s)" "P s \<Longrightarrow> P (rv_jump_link io cn rd dest ret s)"
  by (simp_all add: rv_branch_def rv_jump_link_def split_beta rvc split: bool.split)

lemma control_closed [rvc]:
  "P s \<Longrightarrow> P (rx_do_jal io cn rd imm ret s)" "P s \<Longrightarrow> P (rx_do_jalr io cn rd rs1 imm ret s)"
  "P s \<Longrightarrow> P (rx_do_beq io cn rs1 rs2 imm s)" "P s \<Longrightarrow> P (rx_do_bne io cn rs1 rs2 imm s)"
  "P s \<Longrightarrow> P (rx_do_blt io cn rs1 rs2 imm s)" "P s \<Longrightarrow> P (rx_do_bltu io cn rs1 rs2 imm s)"
  "P s \<Longrightarrow> P (rx_do_bge io cn rs1 rs2 imm s)" "P s \<Longrightarrow> P (rx_do_bgeu io cn rs1 rs2 imm s)"
  by (simp_all add: rx_do_jal_def rx_do_jalr_def rx_do_beq_def rx_do_bne_def rx_do_blt_def
      rx_do_bltu_def rx_do_bge_def rx_do_bgeu_def rvc)

lemma load_to_closed [rvc]: "P s \<Longrightarrow> P (rv_load_to io cn ms rd addr s)"
  by (simp add: rv_load_to_def split_beta rvc split: fetched.split)

lemma rv_memory_closed [rvc]:
  "P s \<Longrightarrow> P (rx_do_lb io cn rd rs1 imm s)" "P s \<Longrightarrow> P (rx_do_lbu io cn rd rs1 imm s)"
  "P s \<Longrightarrow> P (rx_do_lh io cn rd rs1 imm s)" "P s \<Longrightarrow> P (rx_do_lhu io cn rd rs1 imm s)"
  "P s \<Longrightarrow> P (rx_do_lw io cn rd rs1 imm s)" "P s \<Longrightarrow> P (rx_do_sb io cn rs2 rs1 imm s)"
  "P s \<Longrightarrow> P (rx_do_sh io cn rs2 rs1 imm s)" "P s \<Longrightarrow> P (rx_do_sw io cn rs2 rs1 imm s)"
  by (simp_all add: rx_do_lb_def rx_do_lbu_def rx_do_lh_def rx_do_lhu_def rx_do_lw_def rx_do_sb_def
      rx_do_sh_def rx_do_sw_def rvc)

lemma fence_closed [rvc]:
  "P s \<Longrightarrow> P (rx_do_fencetso s)" "P s \<Longrightarrow> P (rx_do_fence s)" "P s \<Longrightarrow> P (rx_do_fencei s)"
  "P s \<Longrightarrow> P (rx_do_ecall io cn s)" "P s \<Longrightarrow> P (rx_do_ebreak io cn s)"
  by (simp_all add: rx_do_fencetso_def rx_do_fence_def rx_do_fencei_def rx_do_ecall_def
      rx_do_ebreak_def rvc)

lemma rv_sc_closed [rvc]: "P s \<Longrightarrow> P (rv_sc_fail cn rd s)" "P s \<Longrightarrow> P (rv_sc_success cn rd s)"
  by (simp_all add: rv_sc_fail_def rv_sc_success_def rvc)

lemma lr_sc_closed [rvc]: "P s \<Longrightarrow> P (rx_do_lr io cn rd rs1 s)" "P s \<Longrightarrow> P (rx_do_sc io cn rd rs1 rs2 s)"
  by (simp_all add: rx_do_lr_def rx_do_sc_def Let_def split_beta rvc cpu quiet_cpu_def
      split: fetched.split bool.split)

lemma amo_closed [rvc]: "P s \<Longrightarrow> P (rv_amo io cn rd rs1 rs2 f s)"
  by (simp add: rv_amo_def split_beta rvc split: fetched.split bool.split)

lemma amos_closed [rvc]:
  "P s \<Longrightarrow> P (rx_do_amoswap io cn rd rs1 rs2 s)" "P s \<Longrightarrow> P (rx_do_amoadd io cn rd rs1 rs2 s)"
  "P s \<Longrightarrow> P (rx_do_amoand io cn rd rs1 rs2 s)" "P s \<Longrightarrow> P (rx_do_amoor io cn rd rs1 rs2 s)"
  "P s \<Longrightarrow> P (rx_do_amoxor io cn rd rs1 rs2 s)" "P s \<Longrightarrow> P (rx_do_amomax io cn rd rs1 rs2 s)"
  "P s \<Longrightarrow> P (rx_do_amomaxu io cn rd rs1 rs2 s)" "P s \<Longrightarrow> P (rx_do_amomin io cn rd rs1 rs2 s)"
  "P s \<Longrightarrow> P (rx_do_amominu io cn rd rs1 rs2 s)"
  by (simp_all add: rx_do_amoswap_def rx_do_amoadd_def rx_do_amoand_def rx_do_amoor_def
      rx_do_amoxor_def rx_do_amomax_def rx_do_amomaxu_def rx_do_amomin_def rx_do_amominu_def rvc
      split_beta split: fetched.split bool.split)

lemma system_closed [rvc]:
  "P s \<Longrightarrow> P (rx_do_sret io cn s)" "P s \<Longrightarrow> P (rx_do_sfence_vma io cn s)"
  by (simp_all add: rx_do_sret_def rx_do_sfence_vma_def split_beta rvc cpu quiet_cpu_def sret_regs_def
      Let_def split: bool.split)

subsection \<open>Control registers\<close>

lemma csrwrite_quiet:
  assumes "csrwrite c csr v = Some c'"
  shows "rc_state c' = rc_state c" "rc_cpunum c' = rc_cpunum c" "xreg c' 0 = xreg c 0"
proof -
  have "\<exists>f. (csr AND 0xfff, f) \<in> set csr_writers \<and> c' = f v c"
    using assms by (auto simp: csrwrite_def Let_def dest!: map_of_SomeD split: option.splits if_splits)
  then show "rc_state c' = rc_state c" "rc_cpunum c' = rc_cpunum c" "xreg c' 0 = xreg c 0"
    by (auto simp: csr_writers_def write_csr_sstatus_def write_csr_sie_def write_csr_sepc_def
        write_csr_scause_def write_csr_sip_def write_csr_satp_def)
qed

lemma csrset_closed:
  assumes "P s" "csrwrite (rvcpu s cn) csr v = Some c'"
  shows "P (upd_rv cn (\<lambda>_. c') s)"
proof -
  obtain f where "quiet_cpu f" "upd_rv cn (\<lambda>_. c') s = upd_rv cn f s"
    using upd_rv_const [of c' s cn] csrwrite_quiet [OF assms(2)] by metis
  then show ?thesis using cpu [OF assms(1)] by metis
qed

lemma csr_ops_closed:
  "P s \<Longrightarrow> pred_option P (rx_do_csr_r cn rd csr s)"
  "P s \<Longrightarrow> pred_option P (rx_do_csr_w cn v csr s)"
  "P s \<Longrightarrow> pred_option P (rx_do_csr_x cn rd v csr s)"
  "P s \<Longrightarrow> pred_option P (rx_do_csr_rc cn rd msk b csr s)"
  by (simp_all add: rx_do_csr_r_def rx_do_csr_w_def rx_do_csr_x_def rx_do_csr_rc_def Let_def rvc
      csrset_closed split: option.split)

lemma csr_result_closed: "P s \<Longrightarrow> pred_option P r \<Longrightarrow> P (rv_csr_result io cn insn s r)"
  by (cases r) (simp_all add: rv_csr_result_def rvc)

lemma csr_insns_closed [rvc]:
  "P s \<Longrightarrow> P (rx_csrrw io cn insn s)" "P s \<Longrightarrow> P (rx_csrrs io cn insn s)"
  "P s \<Longrightarrow> P (rx_csrrc io cn insn s)" "P s \<Longrightarrow> P (rx_csrrwi io cn insn s)"
  "P s \<Longrightarrow> P (rx_csrrsi io cn insn s)" "P s \<Longrightarrow> P (rx_csrrci io cn insn s)"
  by (simp_all add: rx_csrrw_def rx_do_csrrw_def rx_csrrs_def rx_do_csrrs_def rx_csrrc_def rx_do_csrrc_def
      rx_csrrwi_def rx_do_csrrwi_def rx_csrrsi_def rx_do_csrrsi_def
      rx_csrrci_def rx_do_csrrci_def csr_result_closed csr_ops_closed)

subsection \<open>Decoding\<close>

lemma ill_closed [rvc]: "P s \<Longrightarrow> P (rx_ill io cn insn s)" "P s \<Longrightarrow> P (c_ill io cn insn s)"
  by (simp_all add: rx_ill_def c_ill_def rvc)

lemma insns_closed [rvc]:
  "P s \<Longrightarrow> P (rx_addi io cn insn s)" "P s \<Longrightarrow> P (rx_slti io cn insn s)"
  "P s \<Longrightarrow> P (rx_sltiu io cn insn s)" "P s \<Longrightarrow> P (rx_andi io cn insn s)"
  "P s \<Longrightarrow> P (rx_ori io cn insn s)" "P s \<Longrightarrow> P (rx_xori io cn insn s)"
  "P s \<Longrightarrow> P (rx_slli io cn insn s)" "P s \<Longrightarrow> P (rx_srli io cn insn s)"
  "P s \<Longrightarrow> P (rx_srai io cn insn s)" "P s \<Longrightarrow> P (rx_lui io cn insn s)"
  "P s \<Longrightarrow> P (rx_auipc io cn insn s)" "P s \<Longrightarrow> P (rx_add io cn insn s)"
  "P s \<Longrightarrow> P (rx_slt io cn insn s)" "P s \<Longrightarrow> P (rx_sltu io cn insn s)"
  "P s \<Longrightarrow> P (rx_and io cn insn s)" "P s \<Longrightarrow> P (rx_or io cn insn s)"
  "P s \<Longrightarrow> P (rx_xor io cn insn s)" "P s \<Longrightarrow> P (rx_sll io cn insn s)"
  "P s \<Longrightarrow> P (rx_srl io cn insn s)" "P s \<Longrightarrow> P (rx_sra io cn insn s)"
  "P s \<Longrightarrow> P (rx_sub io cn insn s)" "P s \<Longrightarrow> P (rx_jal io cn insn s)"
  "P s \<Longrightarrow> P (rx_jalr io cn insn s)" "P s \<Longrightarrow> P (rx_beq io cn insn s)"
  "P s \<Longrightarrow> P (rx_bne io cn insn s)" "P s \<Longrightarrow> P (rx_blt io cn insn s)"
  "P s \<Longrightarrow> P (rx_bltu io cn insn s)" "P s \<Longrightarrow> P (rx_bge io cn insn s)"
  "P s \<Longrightarrow> P (rx_bgeu io cn insn s)" "P s \<Longrightarrow> P (rx_lb io cn insn s)"
  "P s \<Longrightarrow> P (rx_lbu io cn insn s)" "P s \<Longrightarrow> P (rx_lh io cn insn s)"
  "P s \<Longrightarrow> P (rx_lhu io cn insn s)" "P s \<Longrightarrow> P (rx_lw io cn insn s)"
  "P s \<Longrightarrow> P (rx_sb io cn insn s)" "P s \<Longrightarrow> P (rx_sh io cn insn s)"
  "P s \<Longrightarrow> P (rx_sw io cn insn s)" "P s \<Longrightarrow> P (rx_fence io cn insn s)"
  "P s \<Longrightarrow> P (rx_ecall io cn insn s)" "P s \<Longrightarrow> P (rx_ebreak io cn insn s)"
  "P s \<Longrightarrow> P (rx_sret io cn insn s)" "P s \<Longrightarrow> P (rx_wfi io cn insn s)"
  "P s \<Longrightarrow> P (rx_sfence_vma io cn insn s)" "P s \<Longrightarrow> P (rx_fencei io cn insn s)"
  "P s \<Longrightarrow> P (rx_mul io cn insn s)" "P s \<Longrightarrow> P (rx_mulh io cn insn s)"
  "P s \<Longrightarrow> P (rx_mulhu io cn insn s)" "P s \<Longrightarrow> P (rx_mulhsu io cn insn s)"
  "P s \<Longrightarrow> P (rx_div io cn insn s)" "P s \<Longrightarrow> P (rx_divu io cn insn s)"
  "P s \<Longrightarrow> P (rx_rem io cn insn s)" "P s \<Longrightarrow> P (rx_remu io cn insn s)"
  "P s \<Longrightarrow> P (rx_lr io cn insn s)" "P s \<Longrightarrow> P (rx_sc io cn insn s)"
  "P s \<Longrightarrow> P (rx_amoswap io cn insn s)" "P s \<Longrightarrow> P (rx_amoadd io cn insn s)"
  "P s \<Longrightarrow> P (rx_amoand io cn insn s)" "P s \<Longrightarrow> P (rx_amoor io cn insn s)"
  "P s \<Longrightarrow> P (rx_amoxor io cn insn s)" "P s \<Longrightarrow> P (rx_amomax io cn insn s)"
  "P s \<Longrightarrow> P (rx_amomaxu io cn insn s)" "P s \<Longrightarrow> P (rx_amomin io cn insn s)"
  "P s \<Longrightarrow> P (rx_amominu io cn insn s)"
  by (simp_all add: rx_addi_def rx_slti_def rx_sltiu_def rx_andi_def rx_ori_def rx_xori_def rx_slli_def
      rx_srli_def rx_srai_def rx_lui_def rx_auipc_def rx_add_def rx_slt_def rx_sltu_def
      rx_and_def rx_or_def rx_xor_def rx_sll_def rx_srl_def rx_sra_def rx_sub_def rx_jal_def
      rx_jalr_def rx_beq_def rx_bne_def rx_blt_def rx_bltu_def rx_bge_def rx_bgeu_def rx_lb_def
      rx_lbu_def rx_lh_def rx_lhu_def rx_lw_def rx_sb_def rx_sh_def rx_sw_def rx_fence_def
      rx_ecall_def rx_ebreak_def rx_sret_def rx_wfi_def rx_sfence_vma_def rx_fencei_def
      rx_mul_def rx_mulh_def rx_mulhu_def rx_mulhsu_def rx_div_def rx_divu_def rx_rem_def
      rx_remu_def rx_lr_def rx_sc_def rx_amoswap_def rx_amoadd_def rx_amoand_def rx_amoor_def
      rx_amoxor_def rx_amomax_def rx_amomaxu_def rx_amomin_def rx_amominu_def Let_def rvc wfi)

lemma rv_switch_closed:
  assumes "list_all (\<lambda>(k, f). P (f io cn insn s)) table" "P (dflt io cn insn s)"
  shows "P (switch table dflt opc io cn insn s)"
  using assms map_of_SomeD [of table opc]
  by (auto simp: switch_def list_all_iff split: option.split)

lemma tables_closed:
  "P s \<Longrightarrow> list_all (\<lambda>(k, f). P (f io cn insn s)) load_table"
  "P s \<Longrightarrow> list_all (\<lambda>(k, f). P (f io cn insn s)) miscmem_table"
  "P s \<Longrightarrow> list_all (\<lambda>(k, f). P (f io cn insn s)) sri_table"
  "P s \<Longrightarrow> list_all (\<lambda>(k, f). P (f io cn insn s)) store_table"
  "P s \<Longrightarrow> list_all (\<lambda>(k, f). P (f io cn insn s)) amo_table"
  "P s \<Longrightarrow> list_all (\<lambda>(k, f). P (f io cn insn s)) arith_table"
  "P s \<Longrightarrow> list_all (\<lambda>(k, f). P (f io cn insn s)) narith_table"
  "P s \<Longrightarrow> list_all (\<lambda>(k, f). P (f io cn insn s)) muldiv_table"
  "P s \<Longrightarrow> list_all (\<lambda>(k, f). P (f io cn insn s)) branch_table"
  "P s \<Longrightarrow> list_all (\<lambda>(k, f). P (f io cn insn s)) csr_table"
  by (simp_all add: load_table_def miscmem_table_def sri_table_def store_table_def amo_table_def
      arith_table_def narith_table_def muldiv_table_def branch_table_def csr_table_def rvc)

lemma ops_closed [rvc]:
  "P s \<Longrightarrow> P (op_load io cn insn s)" "P s \<Longrightarrow> P (op_miscmem io cn insn s)"
  "P s \<Longrightarrow> P (op_sli io cn insn s)" "P s \<Longrightarrow> P (op_sri io cn insn s)"
  "P s \<Longrightarrow> P (op_none io cn insn s)" "P s \<Longrightarrow> P (op_store io cn insn s)"
  "P s \<Longrightarrow> P (op_amo io cn insn s)" "P s \<Longrightarrow> P (op_op io cn insn s)"
  "P s \<Longrightarrow> P (op_branch io cn insn s)" "P s \<Longrightarrow> P (op_jalr io cn insn s)"
  by (simp_all add: op_load_def op_miscmem_def op_sli_def op_sri_def op_none_def op_store_def
      op_amo_def op_op_def op_branch_def op_jalr_def rv_switch_closed tables_closed rvc)

lemma opimm_closed [rvc]: "P s \<Longrightarrow> P (op_opimm io cn insn s)"
  by (simp add: op_opimm_def opimm_table_def rv_switch_closed rvc)

lemma op_system_closed [rvc]:
  "P s \<Longrightarrow> P (op_system_priv io cn insn s)" "P s \<Longrightarrow> P (fst (op_user io cn insn s))"
  by (simp_all add: op_system_priv_def super_only_def op_user_def Let_def split_beta rvc
      split: bool.split)

lemma insn32_closed [rvc]: "P s \<Longrightarrow> P (fst (insn32 io cn insn s))"
  by (simp add: insn32_def op_system_def op32_table_def rv_switch_closed tables_closed rvc)

lemma quadrants_closed [rvc]:
  "P s \<Longrightarrow> P (c_quadrant0 io cn insn s)" "P s \<Longrightarrow> P (c_quadrant1 io cn insn s)"
  "P s \<Longrightarrow> P (fst (c_quadrant2 io cn insn s))"
  by (simp_all add: c_quadrant0_def c_quadrant1_def c_quadrant2_def c_lui_def c_misc_alu_def
      c_branch_def c_jump_move_def Let_def split_beta rvc split: bool.split)

lemma insn16_closed [rvc]: "P s \<Longrightarrow> P (fst (insn16 io cn insn s))"
  by (simp add: insn16_def rvc)

subsection \<open>A cycle\<close>

lemma fetch_word_closed [rvc]: "P s \<Longrightarrow> P (fst (rv_fetch_word cn off s))"
  by (simp add: rv_fetch_word_def rvc split: option.split)

lemma second_half_closed [rvc]: "P s \<Longrightarrow> P (fst (rv_second_half io cn s))"
  by (simp add: rv_second_half_def Let_def split_beta rvc cpu quiet_cpu_def split: bool.split)

lemma set_next_closed [rvc]: "P s \<Longrightarrow> P (rv_set_next cn k s)"
  by (simp add: rv_set_next_def cpu quiet_cpu_def)

lemma execute_closed [rvc]: "P s \<Longrightarrow> P (fst (rv_execute io cn s))"
  by (simp add: rv_execute_def Let_def split_beta rvc split: option.split)

lemma begin_closed [rvc]: "P s \<Longrightarrow> P (rv_begin io cn s)"
  by (simp add: rv_begin_def rv_count_cycle_def rv_take_interrupt_def rvc cpu quiet_cpu_def
      split: option.split)

lemma rv_update_pc_closed [rvc]: "P s \<Longrightarrow> P (fst (rv_update_pc io cn s))"
  by (simp add: rv_update_pc_def Let_def rvc cpu quiet_cpu_def)

lemma retire_closed [rvc]: "P s \<Longrightarrow> P (rv_retire cn b s)"
  by (simp add: rv_retire_def rvc sys del: upd_sys_upd_sys)

lemma finish_closed [rvc]: "P s \<Longrightarrow> P (rv_finish io cn b s)"
  by (simp add: rv_finish_def split_beta rvc cpu quiet_cpu_def rv_tick_def Let_def split: bool.split)

lemma rv_cycle_one_closed [rvc]: "P s \<Longrightarrow> P (fst (rv_cycle_one io cn s))"
  by (simp add: rv_cycle_one_def Let_def split_beta rvc split: option.split)

end

end
