(* ===== verification/Rv_Run.thy ===== *)
theory Rv_Run
  imports Rv_Closure
begin

text \<open>
  Running the RISC-V machine, whatever devices are on its bus: the invariant of the cpus
  (\<open>rv_ok\<close>), and that \<open>cpu_cycles\<close> (\<open>riscv/riscvcore.h\<close>) returns.
\<close>

section \<open>The invariant of the processors\<close>

text \<open>At most 32 cpus, each with its own number and a register 0 that is 0, and the running mask
  has exactly the bits of the cpus that are running.\<close>

definition rv_ok :: "nat \<Rightarrow> rvm \<Rightarrow> bool" where
  "rv_ok n s \<longleftrightarrow>
     ncpus (rv_sys s) = n \<and> n \<le> 32 \<and>
     (\<forall>i. i < n \<longrightarrow> rc_cpunum (rvcpu s i) = i \<and> xreg (rvcpu s i) 0 = 0) \<and>
     (\<forall>i. bit (cpu_running_mask (rv_sys s)) i \<longleftrightarrow> i < n \<and> rc_state (rvcpu s i) = CPU_RUNNING)"

lemma rv_ok_cpu: "rv_ok n s \<Longrightarrow> quiet_cpu f \<Longrightarrow> rv_ok n (upd_rv i f s)"
  by (simp add: rv_ok_def quiet_cpu_def)

lemma rv_ok_sys: "rv_ok n s \<Longrightarrow> quiet_sys g \<Longrightarrow> rv_ok n (upd_sys g s)"
  by (simp add: rv_ok_def quiet_sys_def)

lemma bit_one_push: "bit (2 ^ n :: u32) i \<longleftrightarrow> i = n \<and> n < 32"
  by (auto simp: bit_simps)

lemma rv_ok_mask_on:
  assumes "rv_ok n s" "i < n"
  shows "rv_ok n (rv_mask_on i (upd_rv i (\<lambda>c. c\<lparr>rc_state := CPU_RUNNING\<rparr>) s))"
  using assms by (auto simp: rv_ok_def rv_mask_on_def bit_or_iff bit_one_push)

lemma rv_ok_mask_off:
  assumes "rv_ok n s" "i < n" "st \<noteq> CPU_RUNNING"
  shows "rv_ok n (rv_mask_off i (upd_rv i (\<lambda>c. c\<lparr>rc_state := st\<rparr>) s))"
  using assms
  by (auto simp: rv_ok_def rv_mask_off_def bit_and_iff bit_not_iff bit_one_push
      dest: bit_imp_le_length)

lemma rv_ok_set_irqs:
  assumes "rv_ok n s"
  shows "rv_ok n (rv_set_irqs i lb ipi s)"
proof -
  have "rv_ok n (upd_rv i (\<lambda>c. c\<lparr>rc_irq_lamebus := lb, rc_irq_ipi := ipi\<rparr>) s)"
    using assms by (simp add: rv_ok_cpu quiet_cpu_def)
  then show ?thesis
    using assms rv_ok_mask_on [of n "upd_rv i (\<lambda>c. c\<lparr>rc_irq_lamebus := lb, rc_irq_ipi := ipi\<rparr>) s" i]
    by (simp add: rv_set_irqs_def Let_def rv_ok_sys rv_ok_def [of n s])
qed

lemma rv_ok_enable:
  assumes "rv_ok n s"
  shows "rv_ok n (rv_cpu_enable i s)" "rv_ok n (rv_cpu_disable i s)"
  using assms rv_ok_mask_on [OF assms, of i] rv_ok_mask_off [OF assms, of i CPU_DISABLED]
  by (simp_all add: rv_cpu_enable_def rv_cpu_disable_def rv_ok_sys rv_ok_def [of n s])

lemma rv_ok_wfi:
  assumes "rv_ok n s" "i < n"
  shows "rv_ok n (rx_do_wfi i s)"
  using assms rv_ok_mask_off [OF assms, of CPU_IDLE]
  by (simp add: rx_do_wfi_def rv_ok_def [of n s])

text \<open>The bus.\<close>

lemma rv_ok_irq_calls: "rv_ok n s \<Longrightarrow> rv_ok n (fold do_irq_call calls s)"
  by (induction calls arbitrary: s) (simp_all add: do_irq_call_def rv_ok_set_irqs split: prod.split)

lemma rv_ok_bus_fetch: "rv_ok n s \<Longrightarrow> rv_ok n (fst (bus_fetch F i off s))"
  by (simp add: bus_fetch_def rv_ok_irq_calls rv_ok_sys split: prod.split)

interpretation ok_fetch: rv_quiet "fetch_only F" "rv_ok n" for F n
  by unfold_locales (simp_all add: fetch_only_def rv_ok_bus_fetch rv_ok_cpu rv_ok_sys)

lemma rv_ok_call: "rv_ok n s \<Longrightarrow> rv_ok n (do_call F c s)"
  by (cases c)
    (simp_all add: rv_ok_set_irqs rv_ok_enable ok_fetch.rv_entrypoint_closed ok_fetch.stack_closed)

lemma rv_ok_calls: "rv_ok n s \<Longrightarrow> rv_ok n (fold (do_call F) calls s)"
  by (induction calls arbitrary: s) (simp_all add: rv_ok_call)

lemma rv_ok_bus_store: "rv_ok n s \<Longrightarrow> rv_ok n (fst (bus_store F i off v s))"
  by (simp add: bus_store_def rv_ok_calls rv_ok_sys split: prod.split)

interpretation ok_all: rv_quiet "bus_of F" "rv_ok n" for F n
  by unfold_locales (simp_all add: bus_of_def rv_ok_bus_fetch rv_ok_cpu rv_ok_sys)

text \<open>With a processor that exists; one that does not has no cycles.\<close>

interpretation ok_insn: rv_exec "bus_of F" "\<lambda>s. i < n \<and> rv_ok n s" i for F i n
  by unfold_locales
    (simp_all add: bus_of_def rv_ok_bus_fetch rv_ok_cpu rv_ok_sys rv_ok_bus_store rv_ok_wfi)

section \<open>The cycling flag\<close>

text \<open>Nothing the processors or the bus do sets the cycling flag.\<close>

definition rv_stopped :: "nat \<Rightarrow> rvm \<Rightarrow> bool" where
  "rv_stopped n s \<longleftrightarrow> \<not> cpu_cycling (rv_sys s) \<and> ncpus (rv_sys s) = n"

lemma stopped_cpu: "rv_stopped n s \<Longrightarrow> rv_stopped n (upd_rv i f s)"
  by (simp add: rv_stopped_def)

lemma stopped_sys: "rv_stopped n s \<Longrightarrow> quiet_sys g \<Longrightarrow> rv_stopped n (upd_sys g s)"
  by (auto simp: rv_stopped_def quiet_sys_def)

lemma stopped_mask: "rv_stopped n s \<Longrightarrow> rv_stopped n (rv_mask_on i s)" "rv_stopped n s \<Longrightarrow> rv_stopped n (rv_mask_off i s)"
  by (simp_all add: rv_stopped_def rv_mask_on_def rv_mask_off_def)

lemma stopped_irq_calls: "rv_stopped n s \<Longrightarrow> rv_stopped n (fold do_irq_call calls s)"
  by (induction calls arbitrary: s)
    (simp_all add: do_irq_call_def rv_set_irqs_def Let_def stopped_cpu stopped_mask stopped_sys split: prod.split)

lemma stopped_bus_fetch: "rv_stopped n s \<Longrightarrow> rv_stopped n (fst (bus_fetch F i off s))"
  by (simp add: bus_fetch_def stopped_irq_calls stopped_sys split: prod.split)

interpretation stopped_fetch: rv_quiet "fetch_only F" "rv_stopped n" for F n
  by unfold_locales (simp_all add: fetch_only_def stopped_bus_fetch stopped_cpu stopped_sys)

lemma stopped_call: "rv_stopped n s \<Longrightarrow> rv_stopped n (do_call F c s)"
  by (cases c)
    (simp_all add: rv_set_irqs_def rv_cpu_enable_def rv_cpu_disable_def Let_def stopped_cpu stopped_mask
      stopped_sys stopped_fetch.rv_entrypoint_closed stopped_fetch.stack_closed)

lemma stopped_calls: "rv_stopped n s \<Longrightarrow> rv_stopped n (fold (do_call F) calls s)"
  by (induction calls arbitrary: s) (simp_all add: stopped_call)

lemma stopped_bus_store: "rv_stopped n s \<Longrightarrow> rv_stopped n (fst (bus_store F i off v s))"
  by (simp add: bus_store_def stopped_calls stopped_sys split: prod.split)

lemma stopped_wfi: "rv_stopped n s \<Longrightarrow> rv_stopped n (rx_do_wfi i s)"
  by (simp add: rx_do_wfi_def stopped_cpu stopped_mask)

interpretation halting: rv_exec "bus_of F" "rv_stopped n" i for F n i
  by unfold_locales
    (simp_all add: bus_of_def stopped_bus_fetch stopped_cpu stopped_sys stopped_bus_store stopped_wfi)

section \<open>A cycle that does not count is the last\<close>

lemma try_breakpoint_stops: "snd (try_breakpoint cn s) \<Longrightarrow> \<not> cpu_cycling (rv_sys (fst (try_breakpoint cn s)))"
  by (auto simp: try_breakpoint_def main_enter_debugger_def cpu_stopcycling_def split: if_splits)

lemma insn_breakpoint:
  "snd (insn32 io cn w s) \<Longrightarrow> \<not> cpu_cycling (rv_sys (fst (insn32 io cn w s)))"
  "snd (insn16 io cn w s) \<Longrightarrow> \<not> cpu_cycling (rv_sys (fst (insn16 io cn w s)))"
  using try_breakpoint_stops [of cn s]
  by (auto simp: insn32_def op_system_def op_user_def insn16_def c_quadrant2_def c_jump_move_def Let_def
      split: if_splits prod.splits bool.splits)

lemma execute_breakpoint:
  "snd (rv_execute io cn s) = Some True \<Longrightarrow> \<not> cpu_cycling (rv_sys (fst (rv_execute io cn s)))"
  using insn_breakpoint
  by (auto simp: rv_execute_def Let_def split_beta split: if_splits option.splits)

lemma breakpoint_stops:
  assumes "snd (rv_cycle_one (bus_of F) cn s)"
  shows "\<not> cpu_cycling (rv_sys (fst (rv_cycle_one (bus_of F) cn s)))"
proof -
  let ?r = "rv_execute (bus_of F) cn (rv_begin (bus_of F) cn s)"
  have r: "snd ?r = Some True" and c: "rc_state (rvcpu s cn) = CPU_RUNNING"
    using assms by (auto simp: rv_cycle_one_def Let_def split_beta split: if_splits option.splits)
  have "rv_stopped (ncpus (rv_sys (fst ?r))) (fst ?r)"
    using execute_breakpoint [OF r] by (simp add: rv_stopped_def)
  then have "rv_stopped (ncpus (rv_sys (fst ?r))) (rv_finish (bus_of F) cn b (fst ?r))" for b
    by (rule halting.finish_closed)
  then show ?thesis using r c by (simp add: rv_cycle_one_def Let_def split_beta rv_stopped_def)
qed

abbreviation broke :: "rvm \<times> nat \<Rightarrow> bool" where
  "broke r \<equiv> snd r \<noteq> 0 \<longrightarrow> \<not> cpu_cycling (rv_sys (fst r))"

lemma count_break_stops: "broke r \<Longrightarrow> broke (rv_count_break (bus_of F) cn r)"
  using breakpoint_stops [of F cn "fst r"]
    halting.rv_cycle_one_closed [of "ncpus (rv_sys (fst r))" "fst r" F cn]
  by (auto simp: rv_count_break_def Let_def split_beta rv_stopped_def split: if_splits)

lemma all_break_stops: "broke r \<Longrightarrow> broke (fold (rv_count_break (bus_of F)) cns r)"
  by (induction cns arbitrary: r) (simp_all add: count_break_stops)

lemma uncounted_stops:
  "\<not> snd (rv_cpu_cycle (bus_of F) s) \<Longrightarrow> \<not> cpu_cycling (rv_sys (fst (rv_cpu_cycle (bus_of F) s)))"
  using all_break_stops [of "(s, 0)" F "[0..<ncpus (rv_sys s)]"]
  by (auto simp: rv_cpu_cycle_def Let_def split_beta)

section \<open>The loop\<close>

lemma rv_step_cases:
  assumes "i < n" "rv_cycles_step (bus_of F) n (s, i) = (s', i')"
  shows "i' = n \<or> i' = i + 1 \<or> i' = i \<and> \<not> cpu_cycling (rv_sys s')"
  using assms uncounted_stops [of F s]
  by (auto simp: rv_cycles_step_def Let_def split_beta split: if_splits)

lemma rv_cycles_loop:
  "\<exists>r'. while_option (rv_cycles_more n) (rv_cycles_step (bus_of F) n) (s, 0) = Some r' \<and>
     snd r' \<le> n \<and> \<not> rv_cycles_more n r'"
proof (rule counted_loop)
  show "snd r < n" if "rv_cycles_more n r" for r
    using that by (simp add: rv_cycles_more_def)
  show "snd (rv_cycles_step (bus_of F) n r) = n \<or> snd (rv_cycles_step (bus_of F) n r) = snd r + 1 \<or>
      snd (rv_cycles_step (bus_of F) n r) = snd r \<and> \<not> rv_cycles_more n (rv_cycles_step (bus_of F) n r)"
    if "rv_cycles_more n r" for r
    using that rv_step_cases [of "snd r" n F "fst r"]
    by (cases "rv_cycles_step (bus_of F) n r") (auto simp: rv_cycles_more_def)
qed

text \<open>C6: Running the RISC-V machine for some cycles ends, whatever the devices do: the loop
  returns after at most that many, and after fewer only if something stopped the cycling.\<close>

theorem rv_cpu_cycles_terminates:
  "\<exists>s' i. while_option (rv_cycles_more n) (rv_cycles_step (bus_of F) n)
       (upd_sys (\<lambda>m. m\<lparr>cpu_cycling := True\<rparr>) s, 0) = Some (s', i) \<and>
     rv_cpu_cycles (bus_of F) n s = (upd_sys (\<lambda>m. m\<lparr>cpu_cycles_count := 0\<rparr>) s', i) \<and>
     i \<le> n \<and> \<not> (i < n \<and> cpu_cycling (rv_sys s'))"
  using rv_cycles_loop [of n F "upd_sys (\<lambda>m. m\<lparr>cpu_cycling := True\<rparr>) s"]
  by (auto simp: rv_cpu_cycles_def rv_cycles_more_def)

section \<open>The invariant of a run\<close>

lemma ok_all_cycles:
  "rv_ok n (fst r) \<Longrightarrow> \<forall>i\<in>set cns. i < n \<Longrightarrow> rv_ok n (fst (fold (rv_count_break (bus_of F)) cns r))"
  by (induction cns arbitrary: r)
    (simp_all add: rv_count_break_def Let_def split_beta ok_insn.rv_cycle_one_closed)

lemma ok_cycle: "rv_ok n s \<Longrightarrow> rv_ok n (fst (rv_cpu_cycle (bus_of F) s))"
  using ok_all_cycles [of n "(s, 0)" "[0..<n]" F]
  by (simp add: rv_cpu_cycle_def split_beta rv_ok_def [of n s])

lemma ok_step: "rv_ok n (fst r) \<Longrightarrow> rv_ok n (fst (rv_cycles_step (bus_of F) k r))"
  using ok_cycle [of n "fst r" F] by (simp add: rv_cycles_step_def Let_def split_beta rv_ok_sys)

text \<open>C2: Running the RISC-V machine keeps the invariant of its processors, whatever the devices
  do: the running mask has the bits of the cpus that are running and no others, every cpu keeps
  its number, and register 0 stays 0.\<close>

theorem rv_run_keeps_ok:
  assumes "rv_ok n s"
  shows "rv_ok n (fst (rv_cpu_cycles (bus_of F) k s))"
proof -
  let ?s = "upd_sys (\<lambda>m. m\<lparr>cpu_cycling := True\<rparr>) s"
  obtain r where r: "while_option (rv_cycles_more k) (rv_cycles_step (bus_of F) k) (?s, 0) = Some r"
    using rv_cycles_loop [of k F ?s] by blast
  have "rv_ok n (fst (?s, 0::u64))" using assms by (simp add: rv_ok_def)
  then have "rv_ok n (fst r)"
    by (intro while_option_rule [OF _ r, where P = "\<lambda>r. rv_ok n (fst r)"]) (simp_all add: ok_step)
  then show ?thesis by (simp add: rv_cpu_cycles_def r split_beta rv_ok_sys)
qed

section \<open>Reset\<close>

definition rv_is_reset :: "nat \<Rightarrow> cpustates \<Rightarrow> riscvcpu \<Rightarrow> bool" where
  "rv_is_reset n st c \<longleftrightarrow>
     rc_state c = st \<and> rc_cpunum c = n \<and> super c \<and> \<not> mmu_enable c \<and> (\<forall>i<32. xreg c i = 0) \<and>
     rc_pc c = 0xffc00100 \<and> rc_pcpage c = Some (Rom_page 0) \<and> rc_pcoff c = 0x100"

text \<open>Without translation the page of the pc is a page of memory.\<close>

lemma precompute_unmapped:
  assumes "\<not> mmu_enable (rvcpu s cn)" "rc_pc (rvcpu s cn) AND 1 = 0"
    and "rv_mapmem (rc_pc (rvcpu s cn)) s = Some pg"
  shows "rv_precompute_pc io cn s =
    (upd_rv cn (\<lambda>c. c\<lparr>rc_pcpage := Some pg, rc_pcoff := rc_pc c AND 0xfff, rc_nextpcoff := rc_pc c AND 0xfff\<rparr>) s,
     True)"
  using assms
  by (simp add: rv_precompute_pc_def rv_precompute_with_def translate_with_def mmu_lookup_def Let_def)
    (simp add: upd_rv_def)

lemma rv_init_one:
  "riscv_init io n s =
     upd_rv n (\<lambda>c. (riscv_init_regs n c)\<lparr>rc_pcpage := Some (Rom_page 0), rc_pcoff := 0x100,
       rc_nextpcoff := 0x100\<rparr>) s"
proof -
  have "rv_mapmem (PADDR_ROMBASE + 0x100) s = Some (Rom_page 0)" for s
    by (simp add: rv_mapmem_def PADDR_defs rv_bootrom_map_def Let_def)
  then show ?thesis
    by (simp add: riscv_init_def precompute_unmapped riscv_init_regs_def PADDR_defs)
qed

lemma rv_init_all:
  "rv_sys (fold (riscv_init io) [0..<k] s) = rv_sys s"
  "i < k \<Longrightarrow> rv_is_reset i CPU_DISABLED (rvcpu (fold (riscv_init io) [0..<k] s) i)"
proof (induction k)
  case (Suc k)
  { case 1 show ?case using Suc by (simp add: rv_init_one) }
  { case 2 show ?case
      using Suc 2 by (auto simp: rv_init_one rv_is_reset_def riscv_init_regs_def PADDR_defs less_Suc_eq) }
qed simp_all

text \<open>After \<open>cpu_init\<close> cpu 0 runs and every other is disabled, each in supervisor mode
  without translation, its registers 0 and its pc in the boot ROM; the invariant holds and the
  rest of the simulator has learnt only the number of cpus and the mask.\<close>

theorem rv_reset_state:
  assumes "0 < n" "n \<le> 32"
  shows "rv_ok n (rv_cpu_init io n s) \<and>
    rv_is_reset 0 CPU_RUNNING (rvcpu (rv_cpu_init io n s) 0) \<and>
    (\<forall>i. 0 < i \<and> i < n \<longrightarrow> rv_is_reset i CPU_DISABLED (rvcpu (rv_cpu_init io n s) i)) \<and>
    rv_sys (rv_cpu_init io n s) = (rv_sys s)\<lparr>ncpus := n, cpu_running_mask := 1\<rparr>"
proof -
  let ?f = "fold (riscv_init io) [0..<n] (upd_sys (\<lambda>m. m\<lparr>ncpus := n\<rparr>) s)"
  have r: "rv_is_reset i CPU_DISABLED (rvcpu ?f i)" if "i < n" for i
    by (rule rv_init_all(2) [OF that])
  have sys: "rv_sys (rv_cpu_init io n s) = (rv_sys s)\<lparr>ncpus := n, cpu_running_mask := 1\<rparr>"
    using assms by (simp add: rv_cpu_init_def rv_init_all)
  have cpu: "rv_is_reset i (if i = 0 then CPU_RUNNING else CPU_DISABLED) (rvcpu (rv_cpu_init io n s) i)"
    if "i < n" for i
    using assms r [OF that] by (auto simp: rv_cpu_init_def Let_def rv_is_reset_def)
  have "rv_ok n (rv_cpu_init io n s)"
    unfolding rv_ok_def sys
    using assms cpu by (auto simp: rv_is_reset_def bit_1_iff split: if_splits)
  then show ?thesis using sys cpu assms(1) by (metis less_numeral_extra(3))
qed

section \<open>When every cpu sleeps\<close>

abbreviation count_idle :: "stats_percpu \<Rightarrow> stats_percpu" where
  "count_idle \<equiv> \<lambda>p. p\<lparr>sp_icycles := sp_icycles p + 1\<rparr>"

lemma idle_count:
  assumes "rc_state (rvcpu (fst r) cn) \<noteq> CPU_RUNNING"
  shows "rv_count_break io cn r =
    (upd_sys (upd_percpu (rc_cpunum (rvcpu (fst r) cn)) count_idle) (fst r), snd r)"
proof -
  have "rv_cycle_one io cn (fst r) = (rv_count cn count_idle (fst r), False)"
    using assms by (simp only: rv_cycle_one_def if_True not_False_eq_True)
  then show ?thesis by (simp only: rv_count_break_def split_beta Let_def rv_count_def) simp
qed

lemma idle_cycle:
  assumes "\<forall>i\<in>set cns. rc_state (rvcpu (fst r) i) \<noteq> CPU_RUNNING"
  shows "snd (fold (rv_count_break io) cns r) = snd r \<and>
    rvcpus (fst (fold (rv_count_break io) cns r)) = rvcpus (fst r) \<and>
    (\<exists>g. rv_sys (fst (fold (rv_count_break io) cns r)) = upd_stats g (rv_sys (fst r)))"
  using assms
proof (induction cns arbitrary: r)
  case Nil
  have "rv_sys (fst r) = upd_stats id (rv_sys (fst r))" by (simp add: upd_stats_def)
  then show ?case unfolding fold.simps(1) id_apply by blast
next
  case (Cons cn cns)
  let ?f = "upd_percpu (rc_cpunum (rvcpu (fst r) cn)) count_idle"
  have f: "rv_count_break io cn r = (upd_sys ?f (fst r), snd r)"
    using Cons.prems by (intro idle_count) simp
  then obtain g where "rv_sys (fst (fold (rv_count_break io) cns (rv_count_break io cn r))) =
      upd_stats g (?f (rv_sys (fst r)))"
    using Cons.IH [of "rv_count_break io cn r"] Cons.prems by auto
  then have "\<exists>g. rv_sys (fst (fold (rv_count_break io) cns (rv_count_break io cn r))) =
      upd_stats g (rv_sys (fst r))"
    by (auto simp: upd_percpu_def upd_stats_def)
  then show ?case using Cons.IH [of "rv_count_break io cn r"] Cons.prems by (simp add: f)
qed

lemma idle_step:
  assumes "rv_ok n s" "cpu_running_mask (rv_sys s) = 0" "cpu_cycling (rv_sys s)"
  shows "rvcpus (fst (rv_cycles_step io k (s, i))) = rvcpus s \<and> snd (rv_cycles_step io k (s, i)) = k"
proof -
  have "rc_state (rvcpu s j) \<noteq> CPU_RUNNING" if "j < ncpus (rv_sys s)" for j
    using assms(1,2) that by (auto simp: rv_ok_def)
  then obtain t g where t: "fold (rv_count_break io) [0..<ncpus (rv_sys s)] (s, 0) = (t, 0)"
      "rvcpus t = rvcpus s" "rv_sys t = upd_stats g (rv_sys s)"
    using idle_cycle [of "[0..<ncpus (rv_sys s)]" "(s, 0)" io] by (auto simp: prod_eq_iff)
  moreover have "cpu_running_mask (upd_stats g (rv_sys s)) = 0" "cpu_cycling (upd_stats g (rv_sys s))"
    using assms by (simp_all add: upd_stats_def)
  ultimately show ?thesis
    by (simp add: rv_cycles_step_def rv_cpu_cycle_def)
qed

text \<open>When every RISC-V cpu sleeps, \<open>cpu_cycles\<close> takes all the time it is given and changes
  nothing of the processors: their cycle counters stand still, so the timer of a cpu in WFI,
  which compares that counter, never comes due and cannot wake it.\<close>

theorem rv_sleep_stops_timers:
  assumes "rv_ok n s" "cpu_running_mask (rv_sys s) = 0" "0 < k"
  shows "rvcpus (fst (rv_cpu_cycles io k s)) = rvcpus s \<and> snd (rv_cpu_cycles io k s) = k"
proof -
  let ?s = "upd_sys (\<lambda>m. m\<lparr>cpu_cycling := True\<rparr>) s" and ?step = "rv_cycles_step io k"
  have ok: "rv_ok n ?s" "cpu_running_mask (rv_sys ?s) = 0" "cpu_cycling (rv_sys ?s)"
    using assms by (simp_all add: rv_ok_def)
  note step = idle_step [OF ok, of io k 0]
  have "rv_cycles_more k (?s, 0)" using assms(3) by (simp add: rv_cycles_more_def)
  moreover have "\<not> rv_cycles_more k (?step (?s, 0))" using step by (simp add: rv_cycles_more_def)
  ultimately have "while_option (rv_cycles_more k) ?step (?s, 0) = Some (?step (?s, 0))"
    by (simp add: while_option_unfold)
  then show ?thesis using step by (simp add: rv_cpu_cycles_def split_beta)
qed

end
