(* ===== verification/Rv_Paging.thy ===== *)
theory Rv_Paging
  imports Rv_Mmu
begin

text \<open>
  The page table of the RISC-V processor against the Sv32 translation of the privileged
  architecture. The specification walks a two-level table in a physical memory whose addresses
  are numbers (34 bits in the architecture), so an address that the 32-bit bus does not have is
  one where the memory has nothing. \<open>mmu_refines_sv32\<close> is the functional refinement; the
  theorems after it show where the code leaves the architecture.
\<close>

section \<open>The specification\<close>

type_synonym phys = "nat \<Rightarrow> u32 option"

definition sv_vpn :: "u32 \<Rightarrow> nat \<Rightarrow> nat" where
  "sv_vpn va i = unat va div 2 ^ (12 + 10 * i) mod 1024"

definition sv_ppn :: "u32 \<Rightarrow> nat" where
  "sv_ppn pte = unat pte div 1024"

definition sv_valid :: "u32 \<Rightarrow> bool" where
  "sv_valid pte \<longleftrightarrow> bit pte 0 \<and> \<not> (bit pte 2 \<and> \<not> bit pte 1)"

definition sv_is_leaf :: "u32 \<Rightarrow> bool" where
  "sv_is_leaf pte \<longleftrightarrow> bit pte 1 \<or> bit pte 3"

text \<open>The leaf entry and its level, from level \<open>i\<close> of a table at \<open>a\<close>.\<close>

primrec sv32_walk :: "phys \<Rightarrow> u32 \<Rightarrow> nat \<Rightarrow> nat \<Rightarrow> mmu_fault + u32 \<times> nat" where
  "sv32_walk mem va 0 a = Inl Page_fault"
| "sv32_walk mem va (Suc i) a =
     (case mem (a + 4 * sv_vpn va i) of
        None \<Rightarrow> Inl Access_fault
      | Some pte \<Rightarrow>
          if \<not> sv_valid pte then Inl Page_fault
          else if sv_is_leaf pte then Inr (pte, i)
          else sv32_walk mem va i (4096 * sv_ppn pte))"

definition sv_permitted :: "bool \<Rightarrow> bool \<Rightarrow> memrwx \<Rightarrow> u32 \<Rightarrow> bool" where
  "sv_permitted smode smbit rwx pte \<longleftrightarrow>
     (if smode then bit pte 4 \<longrightarrow> rwx \<noteq> RWX_EXECUTE \<and> smbit else bit pte 4) \<and>
     (case rwx of RWX_READ \<Rightarrow> bit pte 1 | RWX_WRITE \<Rightarrow> bit pte 2 | RWX_EXECUTE \<Rightarrow> bit pte 3) \<and>
     bit pte 6 \<and> (rwx = RWX_WRITE \<longrightarrow> bit pte 7)"

definition sv_addr :: "u32 \<Rightarrow> u32 \<Rightarrow> nat \<Rightarrow> nat" where
  "sv_addr va pte i = 4096 * (sv_ppn pte div 1024 ^ i * 1024 ^ i) + unat va mod (4096 * 1024 ^ i)"

definition sv32 :: "phys \<Rightarrow> nat \<Rightarrow> bool \<Rightarrow> bool \<Rightarrow> u32 \<Rightarrow> memrwx \<Rightarrow> mmu_fault + nat" where
  "sv32 mem root smode smbit va rwx =
     (case sv32_walk mem va 2 root of
        Inl f \<Rightarrow> Inl f
      | Inr (pte, i) \<Rightarrow>
          if \<not> sv_permitted smode smbit rwx pte then Inl Page_fault
          else if sv_ppn pte mod 1024 ^ i \<noteq> 0 then Inl Page_fault
          else if sv_addr va pte i \<ge> 2 ^ 32 then Inl Access_fault
          else Inr (sv_addr va pte i))"

section \<open>Words and numbers\<close>

lemma and_bit_zero:
  fixes e :: u32
  shows "(e AND 1 = 0) = (\<not> bit e 0)" "(e AND 2 = 0) = (\<not> bit e 1)" "(e AND 4 = 0) = (\<not> bit e 2)"
    "(e AND 8 = 0) = (\<not> bit e 3)" "(e AND 0x10 = 0) = (\<not> bit e 4)"
    "(e AND 0x40 = 0) = (\<not> bit e 6)" "(e AND 0x80 = 0) = (\<not> bit e 7)"
  using and_exp_eq_0_iff_not_bit [of e 0] and_exp_eq_0_iff_not_bit [of e 1]
    and_exp_eq_0_iff_not_bit [of e 2] and_exp_eq_0_iff_not_bit [of e 3]
    and_exp_eq_0_iff_not_bit [of e 4] and_exp_eq_0_iff_not_bit [of e 6]
    and_exp_eq_0_iff_not_bit [of e 7]
  by simp_all

lemma and_rwx_zero:
  fixes e :: u32
  shows "(e AND 14 = 0) \<longleftrightarrow> \<not> bit e 1 \<and> \<not> bit e 2 \<and> \<not> bit e 3"
proof -
  have "(14 :: u32) = 2 OR 4 OR 8" by simp
  then have "e AND 14 = (e AND 2) OR (e AND 4) OR (e AND 8)"
    by (simp only: bit.conj_disj_distrib)
  then show ?thesis using and_bit_zero [of e] by (auto simp: or_eq_0_iff)
qed

section \<open>Memory\<close>

definition rv_phys :: "machine \<Rightarrow> phys" where
  "rv_phys m pa =
     (if pa < 0xc0000000 then None
      else if pa < 0xffc00000 then rv_mem_fetch m (of_nat (pa - 0xc0000000))
      else if pa < 0xffe00000 then rv_bootrom_fetch (of_nat (pa - 0xffc00000))
      else None)"

lemma page_factor:
  assumes "(a :: u32) AND 0xfff = 0"
  obtains k where "unat a = 4096 * k" "k < 2 ^ 20"
proof -
  have "unat a mod 4096 = 0"
    using unat_and_mask [of a 12] assms by (simp add: mask_eq_exp_minus_1)
  then obtain k where k: "unat a = 4096 * k" by (auto simp: mod_eq_0_iff_dvd dvd_def)
  have "unat a < 2 ^ 32" using unsigned_less [of a, where 'a=nat] by simp
  with k have "k < 2 ^ 20" by simp
  with k that show ?thesis by blast
qed

lemma unat_page_base: "unat (a AND 0xfffff000 :: u32) = 4096 * (unat a div 4096)"
proof -
  have "a AND 0xfffff000 = push_bit 12 (drop_bit 12 a)"
    by (rule bit_word_eqI) (auto simp: bit_simps)
  moreover have "unat a div 4096 * 4096 < 2 ^ 32"
    using unsigned_less [of a, where 'a=nat] by simp
  ultimately show ?thesis
    by (simp add: push_bit_eq_mult unat_word_ariths unat_drop unsigned_push_bit_eq take_bit_eq_mod)
qed

lemma same_page: "v < 1024 \<Longrightarrow> 4096 * l \<le> 4096 * j + 4 * v \<longleftrightarrow> 4096 * l \<le> 4096 * (j :: nat)"
  by (cases "l \<le> j") auto

lemma top_entry:
  assumes "root AND 0xfff = 0" "bus_ramsize m AND 0xfff = 0" "v < 1024" "m = rv_sys s"
  shows "map_option (\<lambda>pg. rv_use_map m pg (of_nat (4 * v))) (rv_mapmem root s) =
    rv_phys m (unat root + 4 * v)"
proof -
  obtain k where k: "unat root = 4096 * k" "k < 2 ^ 20" using assms(1) by (rule page_factor)
  obtain l where l: "unat (bus_ramsize m) = 4096 * l" "l < 2 ^ 20" using assms(2) by (rule page_factor)
  have root: "root AND 0xfffff000 = root"
    by (rule word_unat_eq_iff [THEN iffD2]) (simp add: unat_page_base k)
  have ix: "unat (of_nat (4 * v) :: u32) = 4 * v"
    using assms(3) by (intro unat_of_small) simp
  have ix4: "(of_nat (4 * v) :: u32) AND NOT 3 = of_nat (4 * v)"
  proof -
    have "(of_nat (4 * v) :: u32) = push_bit 2 (of_nat v)"
      by (simp add: push_bit_eq_mult)
    moreover have "push_bit 2 (of_nat v :: u32) AND NOT 3 = push_bit 2 (of_nat v)"
      by (rule bit_word_eqI) (auto simp: bit_simps)
    ultimately show ?thesis by simp
  qed
  consider (low) "k < 0xc0000" | (mem) "0xc0000 \<le> k" "k < 0xffc00"
    | (rom) "0xffc00 \<le> k" "k < 0xffe00" | (high) "0xffe00 \<le> k" by linarith
  then show ?thesis
  proof cases
    case low
    then show ?thesis using k assms(3)
      by (simp add: rv_mapmem_def root rv_phys_def word_less_nat_alt)
  next
    case mem
    have d: "unat (root - 0xc0000000) = 4096 * (k - 0xc0000)"
      using mem k by (simp add: unat_sub word_le_nat_alt)
    have e: "(of_nat (unat root + 4 * v - 0xc0000000) :: u32) = root - 0xc0000000 + of_nat (4 * v)"
    proof -
      have "root = of_nat (unat root)" by simp
      then show ?thesis using mem k(1) by (simp add: of_nat_diff)
    qed
    have u: "unat (root - 0xc0000000 + of_nat (4 * v)) = 4096 * (k - 0xc0000) + 4 * v"
    proof -
      have "4096 * (k - 0xc0000) + 4 * v < 2 ^ 32" using mem assms(3) by simp
      then show ?thesis by (simp add: unat_plus_if_size word_size d ix del: of_nat_mult)
    qed
    have g: "root - 0xc0000000 + of_nat (4 * v) \<ge> bus_ramsize m \<longleftrightarrow> root - 0xc0000000 \<ge> bus_ramsize m"
      using same_page [OF assms(3), of l "k - 0xc0000"] by (simp only: word_le_nat_alt d u l(1))
    have n: "\<not> root < 0xc0000000" "root < 0xffc00000"
      using mem k by (simp_all add: word_less_nat_alt)
    have p: "rv_phys m (unat root + 4 * v) = rv_mem_fetch m (root - 0xc0000000 + of_nat (4 * v))"
    proof -
      have "\<not> unat root + 4 * v < 0xc0000000" "unat root + 4 * v < 0xffc00000"
        using mem k(1) assms(3) by simp_all
      then show ?thesis by (simp only: rv_phys_def e if_True if_False)
    qed
    show ?thesis
      unfolding p rv_mapmem_def Let_def root
      using n g ix4 by (simp add: bus_mem_map_def rv_mem_fetch_def assms(4))
  next
    case rom
    have d: "unat (root - 0xffc00000) = 4096 * (k - 0xffc00)"
      using rom k by (simp add: unat_sub word_le_nat_alt)
    have u: "unat (of_nat (unat root + 4 * v - 0xffc00000) :: u32) = 4096 * (k - 0xffc00) + 4 * v"
    proof -
      have "unat root + 4 * v - 0xffc00000 = 4096 * (k - 0xffc00) + 4 * v" using rom k by simp
      moreover have "4096 * (k - 0xffc00) + 4 * v < 2 ^ 32" using rom assms(3) by simp
      ultimately show ?thesis by (simp only: unat_of_small)
    qed
    have n: "\<not> root < 0xffc00000" "root < 0xffe00000" "\<not> root < 0xc0000000"
      using rom k by (simp_all add: word_less_nat_alt)
    show ?thesis
      unfolding rv_mapmem_def Let_def root
      using n d u rom k(1) assms(3) ix
      by (cases "k = 0xffc00")
        (simp_all add: rv_bootrom_map_def rv_bootrom_fetch_def rv_phys_def word_le_nat_alt)
  next
    case high
    then show ?thesis using k assms(3)
      by (simp add: rv_mapmem_def root rv_phys_def word_less_nat_alt)
  qed
qed

lemma word_of_nat_unat_id: "of_nat (unat w) = (w :: u32)"
  by simp

section \<open>The fields of an address and of an entry\<close>

lemma of_nat_four: "(of_nat (4 * n) :: u32) = push_bit 2 (of_nat n)"
  by (simp add: push_bit_eq_mult)

lemma vpn_index:
  "drop_bit 20 (va AND 0xffc00000 :: u32) = of_nat (4 * sv_vpn va 1)"
  "drop_bit 10 (va AND 0x003ff000 :: u32) = of_nat (4 * sv_vpn va 0)"
proof -
  have m: "bit (0xffc00000 :: int) n \<longleftrightarrow> 22 \<le> n \<and> n < 32" "bit (0x003ff000 :: int) n \<longleftrightarrow> 12 \<le> n \<and> n < 22" for n
    using bit_ones [of 22 10 n] bit_ones [of 12 10 n] by (simp_all add: mask_eq_exp_minus_1 push_bit_eq_mult)
  have "drop_bit 20 (va AND 0xffc00000) = push_bit 2 (drop_bit 22 va)"
    by (rule bit_word_eqI, unfold bit_ops) (auto simp: m bit_simps dest: bit_imp_le_length)
  moreover have "sv_vpn va 1 = unat (drop_bit 22 va)"
    using unsigned_less [of va, where 'a = nat] by (simp add: sv_vpn_def unat_drop)
  ultimately show "drop_bit 20 (va AND 0xffc00000) = of_nat (4 * sv_vpn va 1)"
    by (simp only: of_nat_four word_of_nat_unat_id)
  have "drop_bit 10 (va AND 0x003ff000) = push_bit 2 (drop_bit 12 va AND mask 10)"
    by (rule bit_word_eqI, unfold bit_ops) (auto simp: m bit_simps dest: bit_imp_le_length)
  moreover have "sv_vpn va 0 = unat (drop_bit 12 va AND mask 10)"
    by (simp add: sv_vpn_def unat_and_mask unat_drop)
  ultimately show "drop_bit 10 (va AND 0x003ff000) = of_nat (4 * sv_vpn va 0)"
    by (simp only: of_nat_four word_of_nat_unat_id)
qed

lemma sv_vpn_less: "sv_vpn va i < 1024"
  by (simp add: sv_vpn_def)

lemma upper_ppn_iff: "(e AND PTE_UPPER_PPN = 0) \<longleftrightarrow> sv_ppn e < 2 ^ 20"
proof -
  have m: "bit (0xc0000000 :: int) n \<longleftrightarrow> 30 \<le> n \<and> n < 32" for n
    using bit_ones [of 30 2 n] by (simp add: mask_eq_exp_minus_1 push_bit_eq_mult)
  have "e AND PTE_UPPER_PPN = push_bit 30 (drop_bit 30 e)"
    unfolding PTE_UPPER_PPN_def by (rule bit_word_eqI, unfold bit_ops) (auto simp: m bit_simps dest: bit_imp_le_length)
  also have "\<dots> = 0 \<longleftrightarrow> drop_bit 30 e = 0"
  proof
    assume "push_bit 30 (drop_bit 30 e) = 0"
    then have "drop_bit 30 (push_bit 30 (drop_bit 30 e)) = 0" by simp
    moreover have "drop_bit 30 (push_bit 30 (drop_bit 30 e)) = drop_bit 30 e"
      by (rule bit_word_eqI, unfold bit_ops) (auto dest: bit_imp_le_length)
    ultimately show "drop_bit 30 e = 0" by simp
  qed simp
  also have "\<dots> \<longleftrightarrow> unat e div 2 ^ 30 = 0"
    using unat_drop [of 30 e] by (simp only: unat_eq_0 [symmetric])
  also have "\<dots> \<longleftrightarrow> sv_ppn e < 2 ^ 20"
    by (simp add: sv_ppn_def div_less_iff_less_mult div_eq_0_iff)
  finally show ?thesis .
qed

lemma ppn_paddr:
  assumes "sv_ppn e < 2 ^ 20"
  shows "unat (push_bit 2 (e AND PTE_PPN)) = 4096 * sv_ppn e"
proof -
  have m: "bit (0x3ffffc00 :: int) n \<longleftrightarrow> 10 \<le> n \<and> n < 30" for n
    using bit_ones [of 10 20 n] by (simp add: mask_eq_exp_minus_1 push_bit_eq_mult)
  have "push_bit 2 (e AND PTE_PPN) = push_bit 12 (drop_bit 10 e)"
    unfolding PTE_PPN_def by (rule bit_word_eqI, unfold bit_ops) (auto simp: m bit_simps dest: bit_imp_le_length)
  also have "\<dots> = of_nat (4096 * sv_ppn e)"
    by (simp add: push_bit_eq_mult sv_ppn_def flip: unat_drop [of 10 e, simplified])
  finally show ?thesis using assms unat_of_small [of "4096 * sv_ppn e"] by simp
qed

lemma or_offset:
  assumes "unat p = 2 ^ n * k" "p AND mask n = (0 :: u32)" "n \<le> 32"
  shows "unat (p OR (va AND mask n)) = 2 ^ n * k + unat va mod 2 ^ n"
proof -
  have d: "p AND (va AND mask n) = 0"
  proof -
    have "p AND (va AND mask n) = (p AND mask n) AND va" by (simp only: ac_simps)
    then show ?thesis by (simp add: assms(2))
  qed
  then have "p OR (va AND mask n) = p + (va AND mask n)" by (simp add: disjunctive_add_eq_or)
  moreover have "unat (p + (va AND mask n)) = unat p + unat (va AND mask n)"
  proof -
    have "2 ^ n * k < 2 ^ n * 2 ^ (32 - n)"
      using unsigned_less [of p, where 'a = nat] assms(1,3) by (simp flip: power_add)
    then have "Suc k \<le> 2 ^ (32 - n)" by simp
    then have "2 ^ n * Suc k \<le> 2 ^ n * 2 ^ (32 - n)" by (rule mult_le_mono2)
    then have "2 ^ n * k + 2 ^ n \<le> 2 ^ 32" using assms(3) by (simp flip: power_add)
    moreover have "unat (va AND mask n) < 2 ^ n" by (simp add: unat_and_mask)
    ultimately have "unat p + unat (va AND mask n) < 2 ^ 32" using assms(1) by linarith
    then show ?thesis by (simp add: unat_plus_if_size word_size)
  qed
  ultimately show ?thesis by (simp add: assms(1) unat_and_mask)
qed

section \<open>The walk\<close>

text \<open>What the specification asks of the table for one address: no entry with the reserved
  encoding (writable and not readable), the second-level table not in the I/O space, and no
  second-level entry with a frame number that the 32-bit bus does not have.\<close>

definition sv32_conforms :: "phys \<Rightarrow> u32 \<Rightarrow> nat \<Rightarrow> bool" where
  "sv32_conforms mem va root \<longleftrightarrow>
     (case mem (root + 4 * sv_vpn va 1) of
        None \<Rightarrow> True
      | Some pte \<Rightarrow>
          \<not> (bit pte 2 \<and> \<not> bit pte 1) \<and>
          (sv_is_leaf pte \<or> sv_ppn pte \<ge> 2 ^ 20 \<or>
             4096 * sv_ppn pte < 0xffe00000 \<and>
             (case mem (4096 * sv_ppn pte + 4 * sv_vpn va 0) of
                None \<Rightarrow> True
              | Some pte2 \<Rightarrow> \<not> (bit pte2 2 \<and> \<not> bit pte2 1) \<and> sv_ppn pte2 < 2 ^ 20)))"

lemma phys_fetch:
  assumes "pa < 0xffe00000"
  shows "rv_accessmem_fetch io cn (of_nat pa) s =
    (s, case rv_phys (rv_sys s) pa of Some v \<Rightarrow> Fetched v | None \<Rightarrow> Bus_error)"
proof -
  have u: "unat (of_nat pa :: u32) = pa" using assms by (intro unat_of_small) simp
  have c: "(of_nat pa :: u32) < PADDR_RAMBASE \<longleftrightarrow> pa < 0xc0000000"
    "(of_nat pa :: u32) < PADDR_ROMBASE \<longleftrightarrow> pa < 0xffc00000"
    "(of_nat pa :: u32) < PADDR_BUSBASE"
    using assms by (simp_all add: word_less_nat_alt u PADDR_defs)
  have "(of_nat pa - PADDR_RAMBASE :: u32) = of_nat (pa - 0xc0000000)" if "\<not> pa < 0xc0000000"
    using that by (simp add: of_nat_diff PADDR_defs)
  moreover have "(of_nat pa - PADDR_ROMBASE :: u32) = of_nat (pa - 0xffc00000)" if "\<not> pa < 0xffc00000"
    using that by (simp add: of_nat_diff PADDR_defs)
  ultimately show ?thesis using assms
    by (simp add: rv_accessmem_fetch_def c rv_phys_def)
qed

lemma phys_none: "0xffe00000 \<le> pa \<Longrightarrow> rv_phys m pa = None"
  by (simp add: rv_phys_def)

definition leaf_of :: "u32 \<Rightarrow> u32 \<times> nat \<Rightarrow> leaf" where
  "leaf_of va r =
     (let (pte, i) = r in
      \<lparr>lf_entry = pte, lf_upperbits = pte AND PTE_UPPER_PPN, lf_paddr = push_bit 2 (pte AND PTE_PPN),
       lf_offset = va AND mask (12 + 10 * i), lf_superpage = (i = 1)\<rparr>)"

text \<open>The two levels of the C: the second one finds a leaf or an entry without any permission.\<close>

lemma pt_leaf_walk:
  assumes "\<not> sv_is_leaf pte" "\<not> (bit pte 2 \<and> \<not> bit pte 1)"
    and "sv_ppn pte \<ge> 2 ^ 20 \<or> 4096 * sv_ppn pte < 0xffe00000 \<and>
      (case rv_phys (rv_sys s) (4096 * sv_ppn pte + 4 * sv_vpn va 0) of
         None \<Rightarrow> True
       | Some pte2 \<Rightarrow> \<not> (bit pte2 2 \<and> \<not> bit pte2 1) \<and> sv_ppn pte2 < 2 ^ 20)"
  shows "pt_leaf io cn va pte s =
    (s, if sv_ppn pte \<ge> 2 ^ 20 then Inl Access_fault
        else case rv_phys (rv_sys s) (4096 * sv_ppn pte + 4 * sv_vpn va 0) of
          None \<Rightarrow> Inl Access_fault
        | Some pte2 \<Rightarrow> if \<not> bit pte2 0 then Inl Page_fault else Inr (leaf_of va (pte2, 0)))"
proof (cases "sv_ppn pte \<ge> 2 ^ 20")
  case True
  then show ?thesis by (simp add: pt_leaf_def upper_ppn_iff)
next
  case False
  then have p: "sv_ppn pte < 2 ^ 20" and lt: "4096 * sv_ppn pte < 0xffe00000" using assms(3) by simp_all
  have pa: "4096 * sv_ppn pte + 4 * sv_vpn va 0 < 0xffe00000"
    using lt sv_vpn_less [of va 0] by simp
  have a: "push_bit 2 (pte AND PTE_PPN) + drop_bit 10 (va AND 0x003ff000) =
      of_nat (4096 * sv_ppn pte + 4 * sv_vpn va 0)"
  proof -
    have "push_bit 2 (pte AND PTE_PPN) = of_nat (4096 * sv_ppn pte)"
      using ppn_paddr [OF p] word_of_nat_unat_id by metis
    then show ?thesis by (simp only: vpn_index of_nat_add)
  qed
  note step = pt_leaf_def Let_def upper_ppn_iff a phys_fetch [OF pa] prod.case
  show ?thesis
  proof (cases "rv_phys (rv_sys s) (4096 * sv_ppn pte + 4 * sv_vpn va 0)")
    case None
    then show ?thesis using p by (simp only: step) simp
  next
    case (Some pte2)
    then have "sv_ppn pte2 < 2 ^ 20" using assms(3) False by simp
    then show ?thesis using p Some
      by (simp only: step option.case)
        (simp add: PTE_V_def and_bit_zero leaf_of_def mask_eq_exp_minus_1)
  qed
qed

lemma pt_walk_sv32:
  fixes s cn va
  defines "c \<equiv> rvcpu s cn" and "mem \<equiv> rv_phys (rv_sys s)"
  assumes "mmu_pttoppage c = rv_mapmem root s" "root AND 0xfff = 0"
    and "bus_ramsize (rv_sys s) AND 0xfff = 0" "sv32_conforms mem va (unat root)"
  shows "pt_walk io cn va s = (s,
    case mem (unat root + 4 * sv_vpn va 1) of
      None \<Rightarrow> Inl Access_fault
    | Some pte \<Rightarrow>
        if \<not> bit pte 0 then Inl Page_fault
        else if sv_is_leaf pte then
          if sv_ppn pte mod 1024 \<noteq> 0 then Inl Page_fault else Inr (leaf_of va (pte, 1))
        else if sv_ppn pte \<ge> 2 ^ 20 then Inl Access_fault
        else case mem (4096 * sv_ppn pte + 4 * sv_vpn va 0) of
          None \<Rightarrow> Inl Access_fault
        | Some pte2 \<Rightarrow> if \<not> bit pte2 0 then Inl Page_fault else Inr (leaf_of va (pte2, 0)))"
proof -
  have top: "map_option (\<lambda>pg. rv_use_map (rv_sys s) pg (drop_bit 20 (va AND 0xffc00000)))
      (mmu_pttoppage c) = mem (unat root + 4 * sv_vpn va 1)"
    unfolding mem_def assms(3) vpn_index by (rule top_entry [OF assms(4,5) sv_vpn_less]) simp
  show ?thesis
  proof (cases "mmu_pttoppage c")
    case None
    then show ?thesis using top by (simp add: pt_walk_def c_def)
  next
    case (Some pg)
    define pte where "pte = rv_use_map (rv_sys s) pg (drop_bit 20 (va AND 0xffc00000))"
    have m: "mem (unat root + 4 * sv_vpn va 1) = Some pte" using top Some by (simp add: pte_def)
    then have conf: "\<not> (bit pte 2 \<and> \<not> bit pte 1)"
      and conf2: "sv_is_leaf pte \<or> sv_ppn pte \<ge> 2 ^ 20 \<or> 4096 * sv_ppn pte < 0xffe00000 \<and>
        (case mem (4096 * sv_ppn pte + 4 * sv_vpn va 0) of None \<Rightarrow> True
         | Some pte2 \<Rightarrow> \<not> (bit pte2 2 \<and> \<not> bit pte2 1) \<and> sv_ppn pte2 < 2 ^ 20)"
      using assms(6) by (simp_all add: sv32_conforms_def)
    have leaf: "(pte AND (PTE_R OR PTE_W OR PTE_X) \<noteq> 0) \<longleftrightarrow> sv_is_leaf pte"
      using conf by (auto simp: and_rwx_zero sv_is_leaf_def PTE_R_def PTE_W_def PTE_X_def)
    have v: "(pte AND PTE_V = 0) \<longleftrightarrow> \<not> bit pte 0" by (simp add: PTE_V_def and_bit_zero)
    have ali: "(push_bit 2 (pte AND PTE_PPN) AND 0x003ff000 = 0) \<longleftrightarrow> sv_ppn pte mod 1024 = 0"
    proof -
      have b: "bit (0x3ffffc00 :: int) n \<longleftrightarrow> 10 \<le> n \<and> n < 30" "bit (0x003ff000 :: int) n \<longleftrightarrow> 12 \<le> n \<and> n < 22" for n
        using bit_ones [of 10 20 n] bit_ones [of 12 10 n] by (simp_all add: mask_eq_exp_minus_1 push_bit_eq_mult)
      have "push_bit 2 (pte AND PTE_PPN) AND 0x003ff000 = push_bit 12 (drop_bit 10 pte AND mask 10)"
        unfolding PTE_PPN_def by (rule bit_word_eqI, unfold bit_ops) (auto simp: b bit_simps dest: bit_imp_le_length)
      also have "\<dots> = 0 \<longleftrightarrow> drop_bit 10 pte AND mask 10 = 0"
      proof
        assume "push_bit 12 (drop_bit 10 pte AND mask 10) = 0"
        moreover have "drop_bit 12 (push_bit 12 (drop_bit 10 pte AND mask 10)) = drop_bit 10 pte AND mask 10"
          by (rule bit_word_eqI, unfold bit_ops) (auto simp: bit_simps)
        ultimately show "drop_bit 10 pte AND mask 10 = 0" by simp
      qed simp
      also have "\<dots> \<longleftrightarrow> sv_ppn pte mod 1024 = 0"
        by (simp add: unat_eq_0 [symmetric] unat_and_mask unat_drop sv_ppn_def)
      finally show ?thesis .
    qed
    have walk: "pt_walk io cn va s =
        (if \<not> bit pte 0 then (s, Inl Page_fault)
         else if sv_is_leaf pte then
           (if sv_ppn pte mod 1024 \<noteq> 0 then (s, Inl Page_fault) else (s, Inr (leaf_of va (pte, 1))))
         else pt_leaf io cn va pte s)"
      using ali
      by (simp only: pt_walk_def Some [unfolded c_def] option.case Let_def pte_def [symmetric] v leaf)
        (simp add: leaf_of_def mask_eq_exp_minus_1)
    show ?thesis
    proof (cases "sv_is_leaf pte")
      case True
      then show ?thesis by (simp only: walk m option.case if_True) simp
    next
      case False
      have "pt_leaf io cn va pte s = (s, if sv_ppn pte \<ge> 2 ^ 20 then Inl Access_fault
          else case mem (4096 * sv_ppn pte + 4 * sv_vpn va 0) of None \<Rightarrow> Inl Access_fault
          | Some pte2 \<Rightarrow> if \<not> bit pte2 0 then Inl Page_fault else Inr (leaf_of va (pte2, 0)))"
        unfolding mem_def using conf2 False by (intro pt_leaf_walk conf) (simp_all add: mem_def)
      then show ?thesis using False by (simp only: walk m option.case if_False) simp
    qed
  qed
qed

section \<open>The checks\<close>

lemma sv_permitted_iff:
  "sv_permitted (super c) (status_sum c) rwx pte \<longleftrightarrow>
    \<not> mode_fault c rwx pte \<and> pte_allows pte rwx \<and> (rwx = RWX_WRITE \<longrightarrow> pte AND PTE_D \<noteq> 0) \<and>
    pte AND PTE_A \<noteq> 0"
  by (cases rwx)
    (auto simp: sv_permitted_def mode_fault_def PTE_R_def PTE_W_def PTE_X_def PTE_U_def PTE_A_def
      PTE_D_def and_bit_zero)

lemma leaf_fault_permitted:
  assumes "\<not> mode_fault c rwx pte" "lf_entry lf = pte"
  shows "leaf_fault rwx lf =
    (if \<not> sv_permitted (super c) (status_sum c) rwx pte then Some Page_fault
     else if lf_upperbits lf \<noteq> 0 then Some Access_fault else None)"
  using assms by (auto simp: leaf_fault_def sv_permitted_iff)

lemma sv_addr_aligned:
  assumes "sv_ppn pte mod 1024 ^ i = 0"
  shows "sv_addr va pte i = 4096 * sv_ppn pte + unat va mod (4096 * 1024 ^ i)"
  using assms by (simp add: sv_addr_def mod_0_imp_dvd)

lemma sv_addr_bound:
  assumes "sv_ppn pte mod 1024 ^ i = 0" "i \<le> 1"
  shows "sv_addr va pte i < 2 ^ 32 \<longleftrightarrow> sv_ppn pte < 2 ^ 20"
proof -
  let ?n = "4096 * 1024 ^ i :: nat"
  obtain k where k: "sv_ppn pte = 1024 ^ i * k" using assms(1) by (auto simp: mod_eq_0_iff_dvd dvd_def)
  have a: "sv_addr va pte i = ?n * k + unat va mod ?n" by (simp add: sv_addr_aligned [OF assms(1)] k)
  have l: "unat va mod ?n < ?n" by simp
  have i: "i = 0 \<or> i = 1" using assms(2) by linarith
  show ?thesis
  proof
    assume "sv_addr va pte i < 2 ^ 32"
    then have "?n * k < 2 ^ 32" using a by linarith
    then show "sv_ppn pte < 2 ^ 20" using i by (auto simp: k)
  next
    assume "sv_ppn pte < 2 ^ 20"
    with i have "Suc k \<le> 2 ^ 20 div 1024 ^ i" by (auto simp: k)
    then have "?n * Suc k \<le> ?n * (2 ^ 20 div 1024 ^ i)" by (rule mult_le_mono2)
    also have "\<dots> = 2 ^ 32" using i by auto
    finally show "sv_addr va pte i < 2 ^ 32" using l a by (simp only: mult_Suc_right)
  qed
qed

lemma leaf_address:
  assumes "sv_ppn pte mod 1024 ^ i = 0" "i \<le> 1" "sv_ppn pte < 2 ^ 20"
  shows "unat (lf_paddr (leaf_of va (pte, i)) OR lf_offset (leaf_of va (pte, i))) = sv_addr va pte i"
proof -
  have n: "(2 :: nat) ^ (12 + 10 * i) = 4096 * 1024 ^ i" by (simp add: power_add power_mult)
  obtain k where k: "sv_ppn pte = 1024 ^ i * k" using assms(1) by (auto simp: mod_eq_0_iff_dvd dvd_def)
  have p: "unat (push_bit 2 (pte AND PTE_PPN)) = 2 ^ (12 + 10 * i) * k"
    unfolding ppn_paddr [OF assms(3)] n by (simp add: k)
  have "unat (push_bit 2 (pte AND PTE_PPN) AND mask (12 + 10 * i)) = 0"
    by (simp only: unat_and_mask p) simp
  then have z: "push_bit 2 (pte AND PTE_PPN) AND mask (12 + 10 * i) = 0" by (simp only: unat_eq_0)
  have le: "12 + 10 * i \<le> 32" using assms(2) by linarith
  show ?thesis
    by (simp only: leaf_of_def Let_def prod.case leaf.simps or_offset [OF p z le] sv_addr_aligned [OF assms(1)] n)
      (simp add: k)
qed

text \<open>The checks of the C on a valid leaf are those of the architecture.\<close>

lemma leaf_checked:
  assumes "sv_ppn pte mod 1024 ^ i = 0" "i \<le> 1"
  shows "map_sum id unat
    (if mode_fault c rwx pte then Inl Page_fault
     else case leaf_fault rwx (leaf_of va (pte, i)) of
       Some f \<Rightarrow> Inl f
     | None \<Rightarrow> Inr (lf_paddr (leaf_of va (pte, i)) OR lf_offset (leaf_of va (pte, i)))) =
    (if \<not> sv_permitted (super c) (status_sum c) rwx pte then Inl Page_fault
     else if sv_ppn pte mod 1024 ^ i \<noteq> 0 then Inl Page_fault
     else if sv_addr va pte i \<ge> 2 ^ 32 then Inl Access_fault
     else Inr (sv_addr va pte i))"
proof (cases "mode_fault c rwx pte")
  case True
  then show ?thesis by (simp add: sv_permitted_iff)
next
  case False
  have e: "lf_entry (leaf_of va (pte, i)) = pte" "lf_upperbits (leaf_of va (pte, i)) = pte AND PTE_UPPER_PPN"
    by (simp_all add: leaf_of_def)
  have u: "pte AND PTE_UPPER_PPN \<noteq> 0 \<longleftrightarrow> sv_addr va pte i \<ge> 2 ^ 32"
    using sv_addr_bound [OF assms, of va] by (simp only: upper_ppn_iff not_less [symmetric])
  show ?thesis
  proof (cases "sv_ppn pte < 2 ^ 20")
    case True
    then have "\<not> sv_addr va pte i \<ge> 2 ^ 32" "pte AND PTE_UPPER_PPN = 0"
      using u upper_ppn_iff by simp_all
    then show ?thesis using False leaf_address [OF assms True, of va]
      by (simp add: leaf_fault_permitted [OF False e(1)] e(2) assms(1))
  next
    case up: False
    then have "sv_addr va pte i \<ge> 2 ^ 32" "pte AND PTE_UPPER_PPN \<noteq> 0"
      using u upper_ppn_iff by simp_all
    then show ?thesis using False
      by (simp add: leaf_fault_permitted [OF False e(1)] e(2) assms(1))
  qed
qed

text \<open>The cached page number of an empty cache matches no address.\<close>

lemma empty_cache_misses: "va AND 0xfffff000 \<noteq> (0xffffffff :: u32)"
proof
  assume "va AND 0xfffff000 = (0xffffffff :: u32)"
  then have "bit (va AND 0xfffff000) 0 = bit (0xffffffff :: u32) 0" by simp
  then show False by (simp add: bit_simps)
qed

lemma mmu_lookup_sv32:
  assumes "mmu_enable (rvcpu s cn)" "mmu_cached_vpage (rvcpu s cn) = 0xffffffff"
    and "mmu_pttoppage (rvcpu s cn) = rv_mapmem (mmu_ptbase_pa (rvcpu s cn)) s"
    and "mmu_ptbase_pa (rvcpu s cn) AND 0xfff = 0" "bus_ramsize (rv_sys s) AND 0xfff = 0"
    and "sv32_conforms (rv_phys (rv_sys s)) va (unat (mmu_ptbase_pa (rvcpu s cn)))"
  shows "map_sum id unat (snd (mmu_lookup io cn va rwx s)) =
    sv32 (rv_phys (rv_sys s)) (unat (mmu_ptbase_pa (rvcpu s cn))) (super (rvcpu s cn))
      (status_sum (rvcpu s cn)) va rwx"
proof -
  let ?c = "rvcpu s cn" and ?mem = "rv_phys (rv_sys s)"
  let ?root = "unat (mmu_ptbase_pa ?c)"
  define chk where "chk lf = (if mode_fault ?c rwx (lf_entry lf) then Inl Page_fault
     else case leaf_fault rwx lf of Some f \<Rightarrow> Inl f | None \<Rightarrow> Inr (lf_paddr lf OR lf_offset lf))" for lf
  define spec where "spec pte i = (if \<not> sv_permitted (super ?c) (status_sum ?c) rwx pte then Inl Page_fault
     else if sv_ppn pte mod 1024 ^ i \<noteq> 0 then Inl Page_fault
     else if sv_addr va pte i \<ge> 2 ^ 32 then Inl Access_fault
     else Inr (sv_addr va pte i))" for pte i
  have e: "lf_entry (leaf_of va x) = fst x" for x by (cases x) (simp add: leaf_of_def)
  have checked: "map_sum id unat (chk (leaf_of va (pte, i))) = spec pte i"
    if "sv_ppn pte mod 1024 ^ i = 0" "i \<le> 1" for pte i
    using leaf_checked [OF that, of ?c rwx va] by (simp only: chk_def spec_def e fst_conv)
  have checked0: "map_sum id unat (chk (leaf_of va (pte, 0))) = spec pte 0" for pte
    by (rule checked) simp_all
  have checked1: "sv_ppn pte mod 1024 = 0 \<Longrightarrow> map_sum id unat (chk (leaf_of va (pte, Suc 0))) = spec pte (Suc 0)" for pte
    by (rule checked) simp_all
  have unaligned: "sv_ppn pte mod 1024 \<noteq> 0 \<Longrightarrow> spec pte (Suc 0) = Inl Page_fault" for pte
    by (simp add: spec_def)
  from empty_cache_misses have miss: "va AND 0xfffff000 \<noteq> mmu_cached_vpage ?c" using assms(2) by simp
  have look: "pt_walk io cn va s = (s, r) \<Longrightarrow> snd (mmu_lookup io cn va rwx s) =
      (case r of Inl f \<Rightarrow> Inl f | Inr lf \<Rightarrow> chk lf)" for r
    using assms(1) miss by (cases r) (simp_all add: mmu_lookup_def Let_def chk_def split: option.split)
  note walk = look [OF pt_walk_sv32 [OF assms(3-6)]]
  have sv2: "sv32 ?mem ?root (super ?c) (status_sum ?c) va rwx =
      (case sv32_walk ?mem va 2 ?root of Inl f \<Rightarrow> Inl f | Inr (pte, i) \<Rightarrow> spec pte i)"
    by (simp add: sv32_def spec_def split: sum.split)
  note sv = sv2 [unfolded numeral_2_eq_2]
  have denied: "spec pte 0 = Inl Page_fault" if "\<not> sv_is_leaf pte" "\<not> (bit pte 2 \<and> \<not> bit pte 1)" for pte
    using that by (cases rwx) (auto simp: spec_def sv_permitted_def sv_is_leaf_def)
  show ?thesis
  proof (cases "?mem (?root + 4 * sv_vpn va 1)")
    case None
    then show ?thesis by (simp add: walk sv)
  next
    case (Some pte)
    then have nr: "\<not> (bit pte 2 \<and> \<not> bit pte 1)" using assms(6) by (simp add: sv32_conforms_def)
    consider (bad) "\<not> bit pte 0" | (super) "bit pte 0" "sv_is_leaf pte"
      | (far) "bit pte 0" "\<not> sv_is_leaf pte" "sv_ppn pte \<ge> 2 ^ 20"
      | (inner) "bit pte 0" "\<not> sv_is_leaf pte" "\<not> sv_ppn pte \<ge> 2 ^ 20" by blast
    then show ?thesis
    proof cases
      case bad
      then show ?thesis using Some by (simp add: walk sv sv_valid_def)
    next
      case super
      then show ?thesis using Some nr checked1 unaligned
        by (cases "sv_ppn pte mod 1024 = 0") (simp_all add: walk sv sv_valid_def)
    next
      case far
      then have "?mem (4096 * sv_ppn pte + 4 * sv_vpn va 0) = None" by (intro phys_none) simp
      then show ?thesis using Some nr far
        by (simp add: walk sv sv_valid_def)
    next
      case inner
      show ?thesis
      proof (cases "?mem (4096 * sv_ppn pte + 4 * sv_vpn va 0)")
        case None
        then show ?thesis using Some inner nr by (simp add: walk sv sv_valid_def)
      next
        case two: (Some pte2)
        then have nr2: "\<not> (bit pte2 2 \<and> \<not> bit pte2 1)" using Some inner assms(6) by (simp add: sv32_conforms_def)
        show ?thesis
          using Some inner nr nr2 two checked0 [of pte2] denied [OF _ nr2]
          by (cases "sv_is_leaf pte2") (simp_all add: walk sv sv_valid_def)
      qed
    qed
  qed
qed

text \<open>C4: With the translation cache empty and a page-aligned root table loaded, a lookup gives
  what the Sv32 walk of the architecture gives on the memory the bus shows, with MXR clear: the same
  physical address or the same kind of fault, where the entries on the way are none of those at which
  the code departs from the architecture (\<open>sv32_conforms\<close>): no entry that is writable and not
  readable, no second-level table in the I/O space, no second-level entry with a frame number beyond
  20 bits.\<close>

theorem mmu_refines_sv32:
  assumes "mmu_enable (rvcpu s cn)" "mmu_cached_vpage (rvcpu s cn) = 0xffffffff"
    and "mmu_pttoppage (rvcpu s cn) = rv_mapmem (mmu_ptbase_pa (rvcpu s cn)) s"
    and "mmu_ptbase_pa (rvcpu s cn) AND 0xfff = 0" "bus_ramsize (rv_sys s) AND 0xfff = 0"
    and "sv32_conforms (rv_phys (rv_sys s)) va (unat (mmu_ptbase_pa (rvcpu s cn)))"
  shows "map_sum id unat (snd (mmu_lookup io cn va rwx s)) =
    sv32 (rv_phys (rv_sys s)) (unat (mmu_ptbase_pa (rvcpu s cn))) (super (rvcpu s cn))
      (status_sum (rvcpu s cn)) va rwx"
  using assms by (rule mmu_lookup_sv32)

section \<open>Where the cache leaves the architecture\<close>

lemma and_single: "bit e k \<Longrightarrow> e AND 2 ^ k = (2 ^ k :: u32)"
  by (rule bit_word_eqI) (auto simp: bit_simps)

text \<open>A translation that filled the cache is repeated from the cache.\<close>

lemma mmu_lookup_cached:
  assumes "mmu_enable (rvcpu s cn)" "mmu_cached_vpage (rvcpu s cn) \<noteq> va AND 0xfffff000"
    and "mmu_lookup io cn va rwx s = (s1, Inr pa)" "pt_walk io cn va s = (s, r)"
    and "mmu_cached_vpage (rvcpu s1 cn) = va AND 0xfffff000"
  shows "cached_allows (rvcpu s1 cn) rwx" "mmu_cached_ppage (rvcpu s1 cn) OR (va AND 0xfff) = pa"
    "mmu_enable (rvcpu s1 cn)"
proof -
  obtain lf where lf: "pt_walk io cn va s = (s, Inr lf)" "leaf_fault rwx lf = None"
    "s1 = upd_rv cn (cache_leaf (va AND 0xfffff000) lf) s" "pa = lf_paddr lf OR lf_offset lf"
    using assms(1-4) by (cases r) (auto simp: mmu_lookup_def Let_def split: if_splits option.splits)
  have page: "\<not> lf_superpage lf"
    using assms(2,5) by (auto simp: lf(3) cache_leaf_def split: if_splits)
  moreover have "lf_superpage lf \<or> lf_offset lf = va AND 0xfff"
    using lf(1) by (auto simp: pt_walk_def pt_leaf_def Let_def split: if_splits option.splits prod.splits)
  ultimately show "mmu_cached_ppage (rvcpu s1 cn) OR (va AND 0xfff) = pa"
    by (simp add: lf(3,4) cache_leaf_def)
  have "\<not> (rwx = RWX_WRITE \<and> lf_entry lf AND PTE_D = 0)" "pte_allows (lf_entry lf) rwx"
    using lf(2) by (auto simp: leaf_fault_def split: if_splits)
  moreover have "e AND (PTE_W OR PTE_D) = PTE_W OR PTE_D" if "e AND PTE_W \<noteq> 0" "e AND PTE_D \<noteq> 0" for e
  proof -
    have "e AND PTE_W = PTE_W" "e AND PTE_D = PTE_D"
      using that and_bit_zero [of e] and_single [of e 2] and_single [of e 7]
      by (simp_all add: PTE_W_def PTE_D_def)
    then show ?thesis by (simp add: bit.conj_disj_distrib)
  qed
  ultimately show "cached_allows (rvcpu s1 cn) rwx"
    using page by (cases rwx) (simp_all add: lf(3) cache_leaf_def)
  show "mmu_enable (rvcpu s1 cn)" using assms(1) by (simp add: lf(3) cache_leaf_def)
qed

text \<open>A page that supervisor mode reaches without \<open>SUM\<close> is closed to user mode.\<close>

lemma sv32_kernel_page:
  "sv32 mem root True False va rwx = Inr x \<Longrightarrow> sv32 mem root False smbit va rwx = Inl Page_fault"
  by (auto simp: sv32_def sv_permitted_def split: sum.splits if_splits)

text \<open>C40: The one-entry cache holds no mode. A page of the kernel that supervisor mode has just
  used is found in the cache from user mode, with the access the kernel had, where the
  architecture faults.\<close>

theorem cached_kernel_page_from_user:
  assumes "mmu_enable (rvcpu s cn)" "mmu_cached_vpage (rvcpu s cn) = 0xffffffff"
    and "mmu_pttoppage (rvcpu s cn) = rv_mapmem (mmu_ptbase_pa (rvcpu s cn)) s"
    and "mmu_ptbase_pa (rvcpu s cn) AND 0xfff = 0" "bus_ramsize (rv_sys s) AND 0xfff = 0"
    and "sv32_conforms (rv_phys (rv_sys s)) va (unat (mmu_ptbase_pa (rvcpu s cn)))"
    and "super (rvcpu s cn)" "\<not> status_sum (rvcpu s cn)"
    and "mmu_lookup io cn va rwx s = (s1, Inr pa)"
    and "mmu_cached_vpage (rvcpu s1 cn) = va AND 0xfffff000"
  shows "snd (mmu_lookup io cn va rwx (upd_rv cn (\<lambda>c. c\<lparr>super := False\<rparr>) s1)) = Inr pa \<and>
    sv32 (rv_phys (rv_sys s)) (unat (mmu_ptbase_pa (rvcpu s cn))) False False va rwx = Inl Page_fault"
proof
  have "Inr (unat pa) = sv32 (rv_phys (rv_sys s)) (unat (mmu_ptbase_pa (rvcpu s cn))) True False va rwx"
    using mmu_lookup_sv32 [OF assms(1-6), of io rwx] by (simp add: assms(7-9))
  then show "sv32 (rv_phys (rv_sys s)) (unat (mmu_ptbase_pa (rvcpu s cn))) False False va rwx = Inl Page_fault"
    by (intro sv32_kernel_page [OF sym])
  have miss: "mmu_cached_vpage (rvcpu s cn) \<noteq> va AND 0xfffff000"
    using empty_cache_misses [of va] assms(2) by simp
  note hit = mmu_lookup_cached [OF assms(1) miss assms(9) pt_walk_sv32 [OF assms(3-6)] assms(10)]
  have c: "cached_allows (c\<lparr>super := b\<rparr>) rwx = cached_allows c rwx" for c b by (cases rwx) simp_all
  show "snd (mmu_lookup io cn va rwx (upd_rv cn (\<lambda>c. c\<lparr>super := False\<rparr>) s1)) = Inr pa"
    using hit by (simp add: mmu_lookup_def Let_def assms(10) c)
qed

end
