(* ===== verification/Rv_Trap.thy ===== *)
theory Rv_Trap
  imports Rv_Bus
begin

text \<open>
  Traps of the RISC-V processor: the mutual recursion of \<open>trap\<close> and \<open>precompute_pc\<close> ends after one
  level, a trap at the handler's own address stops the machine, and \<open>SRET\<close> undoes a trap.
\<close>

section \<open>What a lookup keeps\<close>

text \<open>A cpu without what an instruction fetch or a translation may change.\<close>

definition ctl_of :: "riscvcpu \<Rightarrow> riscvcpu" where
  "ctl_of c = (core_of c)\<lparr>rc_pcpage := None, rc_pcoff := 0, rc_nextpcoff := 0,
     mmu_cached_vpage := 0, mmu_cached_ppage := 0, mmu_cached_readable := False,
     mmu_cached_writeable := False, mmu_cached_executable := False\<rparr>"

lemma ctl_of_sels [simp]:
  "rc_pc (ctl_of c) = rc_pc c" "stvec (ctl_of c) = stvec c" "sepc (ctl_of c) = sepc c"
  "super (ctl_of c) = super c" "status_sie (ctl_of c) = status_sie c"
  "status_spie (ctl_of c) = status_spie c" "status_spp (ctl_of c) = status_spp c"
  "Cext (ctl_of c) = Cext c" "xreg (ctl_of c) = xreg c"
  "scause_trapcode (ctl_of c) = scause_trapcode c"
  "scause_interrupt (ctl_of c) = scause_interrupt c" "stval (ctl_of c) = stval c"
  "rc_nextpc (ctl_of c) = rc_nextpc c"
  by (simp_all add: ctl_of_def)

lemma ctl_of_fields:
  assumes "ctl_of c = ctl_of d"
  shows "rc_pc c = rc_pc d" "stvec c = stvec d" "sepc c = sepc d" "super c = super d"
    "status_sie c = status_sie d" "status_spie c = status_spie d" "status_spp c = status_spp d"
    "Cext c = Cext d" "xreg c = xreg d" "scause_trapcode c = scause_trapcode d"
    "scause_interrupt c = scause_interrupt d" "stval c = stval d" "rc_nextpc c = rc_nextpc d"
  using ctl_of_sels [of c] ctl_of_sels [of d] by (simp_all only: assms)

lemma ctl_of_cache_leaf [simp]: "ctl_of (cache_leaf vpage lf c) = ctl_of c"
  by (simp add: cache_leaf_def ctl_of_def core_of_def)

lemma ctl_of_core: "core_of c = core_of d \<Longrightarrow> ctl_of c = ctl_of d"
  by (simp add: ctl_of_def)

lemma ctl_of_pcpage [simp]: "ctl_of (c\<lparr>rc_pcpage := pg\<rparr>) = ctl_of c"
  by (simp add: ctl_of_def core_of_def)

lemma ctl_of_pcoff [simp]: "ctl_of (c\<lparr>rc_pcoff := a, rc_nextpcoff := b\<rparr>) = ctl_of c"
  by (simp add: ctl_of_def core_of_def)

context bus_contract begin

lemma accessmem_fetch_core:
  "core_of (rvcpu (fst (rv_accessmem_fetch io cn pa s)) i) = core_of (rvcpu s i)"
  by (simp add: rv_accessmem_fetch_def fetch_core)

lemma pt_walk_core: "core_of (rvcpu (fst (pt_walk io cn va s)) i) = core_of (rvcpu s i)"
proof -
  have "core_of (rvcpu (fst (pt_leaf io cn va e t)) i) = core_of (rvcpu t i)" for e t
    using accessmem_fetch_core [of cn "push_bit 2 (e AND PTE_PPN) + drop_bit 10 (va AND 0x003ff000)" t i]
    by (simp only: pt_leaf_def Let_def split_beta) (simp split: fetched.split)
  then show ?thesis by (simp only: pt_walk_def Let_def) (simp split: option.split)
qed

lemma mmu_lookup_ctl: "ctl_of (rvcpu (fst (mmu_lookup io cn va rwx s)) i) = ctl_of (rvcpu s i)"
  using pt_walk_core [of cn va s i, THEN ctl_of_core]
  by (cases "i = cn") (simp_all add: mmu_lookup_def Let_def split_beta split: sum.split option.split)

section \<open>Looking up the pc\<close>

lemma precompute_with_ctl:
  assumes "rv_precompute_with exc io cn s = (s1, True)"
  shows "ctl_of (rvcpu s1 i) = ctl_of (rvcpu s i)" "rc_pcpage (rvcpu s1 cn) \<noteq> None"
proof -
  let ?s0 = "if rc_pc (rvcpu s cn) AND 1 \<noteq> 0 then rv_smoke s else s"
  have "rvcpus ?s0 = rvcpus s" by simp
  with mmu_lookup_ctl [of cn "rc_pc (rvcpu s cn)" RWX_EXECUTE ?s0 i]
  show "ctl_of (rvcpu s1 i) = ctl_of (rvcpu s i)" "rc_pcpage (rvcpu s1 cn) \<noteq> None"
    using assms
    by (auto simp: rv_precompute_with_def translate_with_def Let_def
        split: prod.splits option.splits sum.splits if_splits)
qed

text \<open>The exception handler is only called at the pc that is looked up.\<close>

lemma precompute_with_cong:
  assumes "\<And>code val t. rc_pc (rvcpu t cn) = rc_pc (rvcpu s cn) \<Longrightarrow>
      stvec (rvcpu t cn) = stvec (rvcpu s cn) \<Longrightarrow> e code val t = e' code val t"
  shows "rv_precompute_with e io cn s = rv_precompute_with e' io cn s"
proof -
  let ?s0 = "if rc_pc (rvcpu s cn) AND 1 \<noteq> 0 then rv_smoke s else s"
  obtain s1 r where l: "mmu_lookup io cn (rc_pc (rvcpu s cn)) RWX_EXECUTE ?s0 = (s1, r)" by fastforce
  have "ctl_of (rvcpu s1 cn) = ctl_of (rvcpu s cn)"
    using mmu_lookup_ctl [of cn "rc_pc (rvcpu s cn)" RWX_EXECUTE ?s0 cn] by (simp add: l)
  then have e: "e code val s1 = e' code val s1"
    "e code val (upd_rv cn (\<lambda>c. c\<lparr>rc_pcpage := pg\<rparr>) s1) = e' code val (upd_rv cn (\<lambda>c. c\<lparr>rc_pcpage := pg\<rparr>) s1)"
    for code val pg
    by (auto intro!: assms dest: ctl_of_fields)
  show ?thesis
    by (simp only: rv_precompute_with_def translate_with_def Let_def l prod.case e split: sum.split option.split) auto
qed

lemma trap_f_fuel: "trap_f (Suc (Suc k)) io cn isirq code val s = trap io cn isirq code val s"
proof -
  have crash: "trap_f (Suc j) io cn False code val t = trap_f (Suc 0) io cn False code val t"
    if "rc_pc (rvcpu t cn) = stvec (rvcpu t cn)" for j code val t
    using that by (simp add: count_trap_def)
  let ?s1 = "upd_rv cn (trap_regs isirq code val) (count_trap isirq s)"
  have at: "rc_pc (rvcpu ?s1 cn) = stvec (rvcpu ?s1 cn)" by (simp add: trap_regs_def)
  have "rv_precompute_with (trap_f (Suc k) io cn False) io cn ?s1 =
      rv_precompute_with (trap_f (Suc 0) io cn False) io cn ?s1"
    by (rule precompute_with_cong, rule crash) (simp only: at)
  then show ?thesis by (simp add: trap_def numeral_2_eq_2 Let_def)
qed

section \<open>Trap and return\<close>

lemma trap_registers:
  assumes "rc_pc (rvcpu s cn) \<noteq> stvec (rvcpu s cn)"
    and "rv_precompute_with (trap_f (Suc 0) io cn False) io cn
      (upd_rv cn (trap_regs isirq code val) (count_trap isirq s)) = (s1, True)"
  shows "trap io cn isirq code val s = s1"
    "ctl_of (rvcpu s1 cn) = ctl_of (trap_regs isirq code val (rvcpu s cn))"
  using assms precompute_with_ctl(1) [OF assms(2), of cn]
  by (simp_all add: trap_def numeral_2_eq_2 count_trap_def Let_def)

end

text \<open>C8: Whatever is on the bus, one trap inside a trap is the most that can happen: the
  recursion between \<open>trap\<close> and \<open>precompute_pc\<close> is over after two levels.\<close>

theorem trap_recursion_bounded:
  "trap_f (Suc (Suc k)) (bus_of F) cn isirq code val s = trap (bus_of F) cn isirq code val s"
  by (rule any_bus.trap_f_fuel)

text \<open>C13: A trap that finds its handler mapped enters supervisor mode there with interrupts off and
  records cause, value and pc; \<open>SRET\<close> to a mapped address then goes back to the instruction, the
  mode and the interrupt enable from before.\<close>

theorem trap_sret_roundtrip:
  fixes s cn
  defines "c \<equiv> rvcpu s cn"
  assumes "rc_pc c \<noteq> stvec c" "Cext c \<or> rc_pc c AND 3 = 0"
    and "rv_precompute_with (trap_f (Suc 0) (bus_of F) cn False) (bus_of F) cn
      (upd_rv cn (trap_regs isirq code val) (count_trap isirq s)) = (s1, True)"
    and "rv_precompute_pc (bus_of F) cn (upd_rv cn sret_regs s1) = (s2, True)"
  shows "let c1 = rvcpu (trap (bus_of F) cn isirq code val s) cn;
      c2 = rvcpu (rx_do_sret (bus_of F) cn (trap (bus_of F) cn isirq code val s)) cn
    in rc_pc c1 = stvec c \<and> super c1 \<and> \<not> status_sie c1 \<and> sepc c1 = rc_pc c \<and>
       scause_interrupt c1 = isirq \<and> scause_trapcode c1 = code \<and> stval c1 = val \<and>
       rc_pc c2 = rc_pc c \<and> rc_nextpc c2 = rc_pc c \<and> super c2 = super c \<and>
       status_sie c2 = status_sie c \<and> xreg c2 = xreg c"
proof -
  note t = any_bus.trap_registers [OF assms(2,4) [unfolded c_def]]
  note c1 = ctl_of_fields [OF t(2)]
  have r: "rx_do_sret (bus_of F) cn s1 = s2" by (simp add: rx_do_sret_def assms(5))
  have "ctl_of (rvcpu s2 cn) = ctl_of (sret_regs (rvcpu s1 cn))"
    using any_bus.precompute_with_ctl(1) [OF assms(5) [unfolded rv_precompute_pc_def], of cn] by simp
  note c2 = ctl_of_fields [OF this]
  have dest: "rc_pc c AND 0xfffffffc = rc_pc c" if "\<not> Cext c"
  proof -
    have "(NOT 0xfffffffc :: u32) = 3" by simp
    then show ?thesis using assms(3) that by (simp only: and_eq_self_iff_bits) simp
  qed
  have "rc_pc (rvcpu s1 cn) = stvec c" "super (rvcpu s1 cn)" "\<not> status_sie (rvcpu s1 cn)"
    "sepc (rvcpu s1 cn) = rc_pc c" "scause_interrupt (rvcpu s1 cn) = isirq"
    "scause_trapcode (rvcpu s1 cn) = code" "stval (rvcpu s1 cn) = val"
    "Cext (rvcpu s1 cn) = Cext c" "status_spp (rvcpu s1 cn) = super c"
    "status_spie (rvcpu s1 cn) = status_sie c" "xreg (rvcpu s1 cn) = xreg c"
    using c1 by (simp_all add: trap_regs_def c_def)
  then show ?thesis using dest by (simp add: t(1) r c2 sret_regs_def Let_def)
qed

text \<open>A trap taken at the trap handler's own address ends the simulation: the processors stop,
  the debugger is told and the simulator exits.\<close>

theorem trap_in_handler_is_fatal:
  assumes "rc_pc (rvcpu s cn) = stvec (rvcpu s cn)" "fault_state (rv_sys s) = None"
  shows "fault_state (rv_sys (trap io cn isirq code val s)) = Some Exit_crash \<and>
    \<not> cpu_cycling (rv_sys (trap io cn isirq code val s)) \<and>
    rvcpus (trap io cn isirq code val s) = rvcpus s"
  using assms by (simp add: trap_def numeral_2_eq_2 count_trap_def raise_fault_def upd_stats_def)

end
