(* ===== verification/Rv_Formats.thy ===== *)
theory Rv_Formats
  imports Rv_Decode
begin

text \<open>
  The immediates of the RISC-V instructions (\<open>riscv/riscv-insn.h\<close>, and \<open>insn16\<close> of
  \<open>riscv/riscvcore.h\<close>) against the layout of the instruction formats in the RISC-V manual: for
  every bit of an immediate the bit of the instruction it comes from.
\<close>

text \<open>Bit \<open>i\<close> of an immediate is bit \<open>p\<close> of the instruction, or 0 where the format has none.\<close>

type_synonym layout = "nat \<Rightarrow> nat option"

definition from_insn :: "layout \<Rightarrow> u32 \<Rightarrow> nat \<Rightarrow> bool" where
  "from_insn L insn i \<longleftrightarrow> i < 32 \<and> (case L i of Some p \<Rightarrow> bit insn p | None \<Rightarrow> False)"

definition i_layout :: layout where
  "i_layout i = Some (if i < 11 then i + 20 else 31)"

definition s_layout :: layout where
  "s_layout i = Some (if i < 5 then i + 7 else if i < 11 then i + 20 else 31)"

definition b_layout :: layout where
  "b_layout i =
     (if i = 0 then None
      else Some (if i < 5 then i + 7 else if i < 11 then i + 20 else if i = 11 then 7 else 31))"

definition u_layout :: layout where
  "u_layout i = (if i < 12 then None else Some i)"

definition j_layout :: layout where
  "j_layout i =
     (if i = 0 then None
      else Some (if i < 11 then i + 20 else if i = 11 then 20 else if i < 20 then i else 31))"

lemmas layouts = from_insn_def i_layout_def s_layout_def b_layout_def u_layout_def j_layout_def

lemma word_single_bit: "(w::u32) AND 2 ^ k \<noteq> 0 \<longleftrightarrow> bit w k"
  by (auto simp: and_exp_eq_0_iff_not_bit)

lemma sign_bit: "(w::u32) AND 0x80000000 \<noteq> 0 \<longleftrightarrow> bit w 31"
  using word_single_bit [of w 31] by simp

lemma bit_signext: "bit (rv_signext insn k) i \<longleftrightarrow> bit insn 31 \<and> k \<le> i \<and> i < 32"
proof -
  have ones: "(0xffffffff :: u32) = - 1" by simp
  show ?thesis
    unfolding rv_signext_def sign_bit ones by (auto simp: bit_not_iff bit_mask_iff not_less)
qed

lemma from_insn_less: "from_insn L insn i \<Longrightarrow> i < 32"
  by (simp add: from_insn_def)

lemma no_bit_32: "32 \<le> n \<Longrightarrow> \<not> bit (w::u32) n"
  using bit_imp_le_length [of w n] by auto

lemma i_imm_bits: "bit (rv_i_imm insn) i \<longleftrightarrow> from_insn i_layout insn i"
  unfolding rv_i_imm_def
  by (rule word_bits_eqI, unfold bit_ops bit_signext, simp add: layouts no_bit_32, erule from_insn_less)

lemma s_imm_bits: "bit (rv_s_imm insn) i \<longleftrightarrow> from_insn s_layout insn i"
  unfolding rv_s_imm_def
  by (rule word_bits_eqI, unfold bit_ops bit_signext, simp add: layouts, erule from_insn_less)

lemma b_imm_bits: "bit (rv_b_imm insn) i \<longleftrightarrow> from_insn b_layout insn i"
  unfolding rv_b_imm_def
  by (rule word_bits_eqI, unfold bit_ops bit_signext, simp add: layouts, erule from_insn_less)

lemma u_imm_bits: "bit (rv_u_imm insn) i \<longleftrightarrow> from_insn u_layout insn i"
  unfolding rv_u_imm_def
  by (rule word_bits_eqI, unfold bit_ops, simp add: layouts, erule from_insn_less)

lemma j_imm_bits:
  "bit (rv_j_imm insn) i \<longleftrightarrow> from_insn j_layout insn i \<or> i = 19 \<and> bit insn 31"
  unfolding rv_j_imm_def
  by (rule word_bits_eqI, unfold bit_ops bit_signext, simp add: layouts, auto dest: from_insn_less)

section \<open>16-bit formats\<close>

text \<open>A signed layout repeats bit 12 of the instruction above its top bit.\<close>

definition compressed :: "(nat \<times> nat) list \<Rightarrow> layout" where
  "compressed ps i = map_of ps i"

definition compressed_signed :: "nat \<Rightarrow> (nat \<times> nat) list \<Rightarrow> layout" where
  "compressed_signed n ps i = (if n \<le> i then Some 12 else map_of ps i)"

definition addi4spn_layout :: layout where
  "addi4spn_layout = compressed [(2, 6), (3, 5), (4, 11), (5, 12), (6, 7), (7, 8), (8, 9), (9, 10)]"

definition clw_layout :: layout where
  "clw_layout = compressed [(2, 6), (3, 10), (4, 11), (5, 12), (6, 5)]"

definition imm6_layout :: layout where
  "imm6_layout = compressed_signed 5 [(0, 2), (1, 3), (2, 4), (3, 5), (4, 6)]"

definition cj_layout :: layout where
  "cj_layout =
     compressed_signed 11
       [(1, 3), (2, 4), (3, 5), (4, 11), (5, 2), (6, 7), (7, 6), (8, 9), (9, 10), (10, 8)]"

definition addi16sp_layout :: layout where
  "addi16sp_layout = compressed_signed 9 [(4, 6), (5, 2), (6, 5), (7, 3), (8, 4)]"

definition clui_layout :: layout where
  "clui_layout = compressed_signed 17 [(12, 2), (13, 3), (14, 4), (15, 5), (16, 6)]"

definition cb_layout :: layout where
  "cb_layout = compressed_signed 8 [(1, 3), (2, 4), (3, 10), (4, 11), (5, 2), (6, 5), (7, 6)]"

definition lwsp_layout :: layout where
  "lwsp_layout = compressed [(2, 4), (3, 5), (4, 6), (5, 12), (6, 2), (7, 3)]"

definition swsp_layout :: layout where
  "swsp_layout = compressed [(2, 9), (3, 10), (4, 11), (5, 12), (6, 7), (7, 8)]"

text \<open>The amounts of shifts: five bits in the 32-bit instructions, six of which the last is always 0 in
  legal 16-bit ones. C.SLLI takes the five.\<close>

definition sh_layout :: layout where
  "sh_layout i = (if i < 5 then Some (i + 20) else None)"

definition shamt_layout :: layout where
  "shamt_layout = compressed [(0, 2), (1, 3), (2, 4), (3, 5), (4, 6), (5, 12)]"

definition slli_layout :: layout where
  "slli_layout = compressed [(0, 2), (1, 3), (2, 4), (3, 5), (4, 6)]"

lemmas c_layouts =
  from_insn_def compressed_def compressed_signed_def addi4spn_layout_def clw_layout_def
  imm6_layout_def cj_layout_def addi16sp_layout_def clui_layout_def cb_layout_def lwsp_layout_def
  swsp_layout_def sh_layout_def shamt_layout_def slli_layout_def

lemma c_sign_bit: "(w::u32) AND 0x1000 \<noteq> 0 \<longleftrightarrow> bit w 12"
  using word_single_bit [of w 12] by simp

lemma bit_c_sign: "bit (c_sign w ext imm) i \<longleftrightarrow> bit imm i \<or> bit w 12 \<and> bit ext i"
  unfolding c_sign_def c_sign_bit by (auto simp: bit_or_iff)

lemmas c_imm_defs =
  c_addi4spn_imm_def c_lw_imm_def c_imm6_def c_j_imm_def c_addi16sp_imm_def c_lui_imm_def
  c_b_imm_def c_lwsp_imm_def c_swsp_imm_def

lemma addi4spn_bits: "bit (c_addi4spn_imm insn) i \<longleftrightarrow> from_insn addi4spn_layout insn i"
  unfolding c_imm_defs
  by (rule word_bits_eqI, unfold bit_ops, simp add: c_layouts, erule from_insn_less)

lemma lwsp_bits: "bit (c_lwsp_imm insn) i \<longleftrightarrow> from_insn lwsp_layout insn i"
  unfolding c_imm_defs
  by (rule word_bits_eqI, unfold bit_ops, simp add: c_layouts, erule from_insn_less)

lemma swsp_bits: "bit (c_swsp_imm insn) i \<longleftrightarrow> from_insn swsp_layout insn i"
  unfolding c_imm_defs
  by (rule word_bits_eqI, unfold bit_ops, simp add: c_layouts, erule from_insn_less)

lemma imm6_bits: "bit (c_sign insn 0xffffffc0 (c_imm6 insn)) i \<longleftrightarrow> from_insn imm6_layout insn i"
  unfolding c_imm_defs
  by (rule word_bits_eqI, unfold bit_ops bit_c_sign,
    (simp add: c_layouts; simp add: eval_nat_numeral), erule from_insn_less)

lemma cj_bits: "bit (c_j_imm insn) i \<longleftrightarrow> from_insn cj_layout insn i"
  unfolding c_imm_defs
  by (rule word_bits_eqI, unfold bit_ops bit_c_sign,
    (simp add: c_layouts; simp add: eval_nat_numeral), erule from_insn_less)

lemma addi16sp_bits: "bit (c_addi16sp_imm insn) i \<longleftrightarrow> from_insn addi16sp_layout insn i"
  unfolding c_imm_defs
  by (rule word_bits_eqI, unfold bit_ops bit_c_sign,
    (simp add: c_layouts; simp add: eval_nat_numeral), erule from_insn_less)

lemma clui_bits: "bit (c_lui_imm insn) i \<longleftrightarrow> from_insn clui_layout insn i"
  unfolding c_imm_defs
  by (rule word_bits_eqI, unfold bit_ops bit_c_sign,
    (simp add: c_layouts; simp add: eval_nat_numeral), erule from_insn_less)

lemma cb_bits: "bit (c_b_imm insn) i \<longleftrightarrow> from_insn cb_layout insn i"
  unfolding c_imm_defs
  by (rule word_bits_eqI, unfold bit_ops bit_c_sign,
    (simp add: c_layouts; simp add: eval_nat_numeral), erule from_insn_less)

lemma shamt_bits: "bit (c_imm6 insn) i \<longleftrightarrow> from_insn shamt_layout insn i"
  unfolding c_imm_defs
  by (rule word_bits_eqI, unfold bit_ops,
    (simp add: c_layouts; simp add: eval_nat_numeral), erule from_insn_less)

lemma sh_bits: "bit (rv_sh_imm insn) i \<longleftrightarrow> from_insn sh_layout insn i"
proof -
  have "bit (31 :: u32) i \<longleftrightarrow> i < 5"
    by (simp add: bit_mask_iff [where 'a = "32 word", of 5, simplified mask_eq_exp_minus_1, simplified]) (auto)
  then show ?thesis unfolding rv_sh_imm_def bit_and_iff i_imm_bits by (auto simp: c_layouts i_layout_def)
qed

lemma slli_bits: "bit (of_nat (c_rs2 insn) :: u32) i \<longleftrightarrow> from_insn slli_layout insn i"
proof -
  have "(of_nat (c_rs2 insn) :: u32) = drop_bit 2 (insn AND 0x007c)" by (simp add: c_rs2_def)
  then show ?thesis
  by (simp only:) (rule word_bits_eqI, unfold bit_ops,
    (simp add: c_layouts; simp add: eval_nat_numeral), erule from_insn_less)
qed

lemma c_lw_bits:
  "bit (c_lw_imm insn) i \<longleftrightarrow> (if i = 2 then bit insn 4 else from_insn clw_layout insn i)"
  by (rule word_bits_eqI, unfold c_imm_defs bit_ops, simp add: c_layouts)
    (auto dest: from_insn_less split: if_splits)

text \<open>C17: Every bit of the immediate of an I, S, B or U format, of the amount of a shift, and of the
  immediates of all 16-bit instructions but C.LW and C.SW (C.ADDI4SPN; C.ADDI, C.LI and C.ANDI; C.JAL and
  C.J; C.ADDI16SP; C.LUI; C.BEQZ and C.BNEZ; C.LWSP; C.SWSP; C.SRLI and C.SRAI; C.SLLI), comes from the bit
  of the instruction that the RISC-V manual says, the sign bit repeated to the top.\<close>

theorem rv_immediates_match_manual:
  "bit (rv_i_imm insn) i = from_insn i_layout insn i \<and>
   bit (rv_s_imm insn) i = from_insn s_layout insn i \<and>
   bit (rv_b_imm insn) i = from_insn b_layout insn i \<and>
   bit (rv_u_imm insn) i = from_insn u_layout insn i \<and>
   bit (c_addi4spn_imm insn) i = from_insn addi4spn_layout insn i \<and>
   bit (c_sign insn 0xffffffc0 (c_imm6 insn)) i = from_insn imm6_layout insn i \<and>
   bit (c_j_imm insn) i = from_insn cj_layout insn i \<and>
   bit (c_addi16sp_imm insn) i = from_insn addi16sp_layout insn i \<and>
   bit (c_lui_imm insn) i = from_insn clui_layout insn i \<and>
   bit (c_b_imm insn) i = from_insn cb_layout insn i \<and>
   bit (c_lwsp_imm insn) i = from_insn lwsp_layout insn i \<and>
   bit (c_swsp_imm insn) i = from_insn swsp_layout insn i \<and>
   bit (rv_sh_imm insn) i = from_insn sh_layout insn i \<and>
   bit (c_imm6 insn) i = from_insn shamt_layout insn i \<and>
   bit (of_nat (c_rs2 insn) :: u32) i = from_insn slli_layout insn i"
  by (intro conjI i_imm_bits s_imm_bits b_imm_bits u_imm_bits addi4spn_bits lwsp_bits
      swsp_bits imm6_bits cj_bits addi16sp_bits clui_bits cb_bits sh_bits shamt_bits slli_bits)

section \<open>Fields decoded wrongly\<close>

lemma above_field:
  fixes x :: u32
  shows "x AND 7 = 0 \<Longrightarrow> 7 < x \<longleftrightarrow> x \<noteq> 0" "x AND 3 = 0 \<Longrightarrow> 2 < x \<longleftrightarrow> x \<noteq> 0"
proof -
  have mod: "take_bit k x = x" if "unat x < 2 ^ k" for k
    using that by (simp add: word_eq_iff_unsigned [where 'a = nat] unsigned_take_bit_eq take_bit_nat_eq_self)
  then have "take_bit 3 x = x" if "\<not> 7 < x"
    using mod [of 3] that by (simp add: word_less_nat_alt)
  moreover have "take_bit 2 x = x" if "\<not> 2 < x"
    using mod [of 2] that by (simp add: word_less_nat_alt)
  ultimately show "x AND 7 = 0 \<Longrightarrow> 7 < x \<longleftrightarrow> x \<noteq> 0" "x AND 3 = 0 \<Longrightarrow> 2 < x \<longleftrightarrow> x \<noteq> 0"
    by (auto simp: take_bit_eq_mask mask_eq_exp_minus_1)
qed

text \<open>Four fields of RISC-V instructions are decoded wrongly. A JAL with a negative offset has
  bit 19 of the offset set whatever the instruction says; the offset of C.LW and C.SW takes its
  bit 2 from the wrong bit; and the three-bit register fields, compared instead of shifted,
  always name register 8 or 9.\<close>

theorem rv_misdecoded_fields:
  "bit (rv_j_imm insn) i = (from_insn j_layout insn i \<or> i = 19 \<and> bit insn 31) \<and>
   bit (c_lw_imm insn) i = (if i = 2 then bit insn 4 else from_insn clw_layout insn i) \<and>
   c_reg1 insn = (if insn AND 0x0380 = 0 then 8 else 9) \<and>
   c_reg2 insn = (if insn AND 0x001c = 0 then 8 else 9)"
  using above_field(1) [of "insn AND 0x0380"] above_field(2) [of "insn AND 0x001c"]
  by (auto simp: j_imm_bits c_lw_bits c_reg1_def c_reg2_def and.assoc)

end
