(* ===== verification/Rv_Arith.thy ===== *)
theory Rv_Arith
  imports Rv_Insns
begin

text \<open>
  What the arithmetic of the RISC-V instructions computes, against the integers: the high half of a
  product, division and remainder with the results the manual gives for a divisor of 0 and for the
  overflow, the arithmetic right shift, and the words of an unaligned access.
\<close>

section \<open>Multiplication\<close>

text \<open>The high half of a product of integers, as a machine word.\<close>

definition high_half :: "int \<Rightarrow> u32" where
  "high_half k = word_of_int (k div 2 ^ 32)"

lemma high_of_u64: "(ucast (drop_bit 32 (word_of_int k :: u64)) :: u32) = high_half k"
proof (rule bit_word_eqI)
  fix n assume n: "n < LENGTH(32)"
  have "bit (high_half k) n = bit (drop_bit 32 k) n"
    using n by (simp add: high_half_def bit_word_of_int_iff drop_bit_eq_div)
  then show "bit (ucast (drop_bit 32 (word_of_int k :: u64)) :: u32) n = bit (high_half k) n"
    using n by (simp add: bit_unsigned_iff bit_drop_bit_eq bit_word_of_int_iff)
qed

lemma mulhsu_value: "rv_mulhsu a b = high_half (sint a * uint b)"
proof -
  let ?x = "(if sint a < 0 then of_int (- sint a) else ucast a) :: u64"
  let ?res = "?x * ucast b :: u64"
  have "\<not> sint a < 0 \<Longrightarrow> uint a = sint a" using uint_lt2p [of a] by (simp add: sint32 split: if_splits)
  then have x: "?x = word_of_int \<bar>sint a\<bar>"
    by (cases "sint a < 0") (simp_all only: if_True if_False ucast_eq abs_if simp_thms True_implies_equals)
  have res: "?res = word_of_int (\<bar>sint a\<bar> * uint b)"
    unfolding x ucast_eq [of b] by (rule wi_hom_mult)
  have "(if sint a < 0 then of_int (- sint ?res) else ?res) = word_of_int (sint a * uint b)"
  proof (cases "sint a < 0")
    case True
    have "of_int (- sint ?res) = - ?res" by simp
    also have "\<dots> = word_of_int (- (\<bar>sint a\<bar> * uint b))" unfolding res by (rule wi_hom_neg)
    finally show ?thesis using True by (simp only: if_True abs_of_neg minus_mult_left minus_minus)
  next
    case False
    then show ?thesis unfolding res by (simp only: if_False abs_if)
  qed
  then show ?thesis unfolding rv_mulhsu_def Let_def high_of_u64 [symmetric] by (simp only:)
qed

lemma ucast_product: "(ucast (a::u32) * ucast (b::u32) :: u64) = word_of_int (uint a * uint b)"
  unfolding ucast_eq by (rule wi_hom_mult)

section \<open>Division\<close>

lemma sint_zero: "sint (b::u32) = 0 \<longleftrightarrow> b = 0"
  by (metis signed_0 signed_word_eqI)

lemma sint_lowest: "a = (0x80000000::u32) \<longleftrightarrow> sint a = - (2 ^ 31)"
proof
  assume a: "sint a = - (2 ^ 31)"
  have "sint (0x80000000::u32) = - (2 ^ 31)" by simp
  then show "a = 0x80000000" using a by (metis signed_word_eqI)
qed simp

text \<open>The high halves of products are those of the exact product of the operands, signed,
  unsigned or one of each, and the low half is the product.\<close>

theorem rv_mul_exact:
  "rx_do_mul cn rd rs1 rs2 s =
     rv_setreg cn rd (word_of_int (sint (rv_getreg s cn rs1) * sint (rv_getreg s cn rs2))) s \<and>
   rx_do_mulh cn rd rs1 rs2 s =
     rv_setreg cn rd (high_half (sint (rv_getreg s cn rs1) * sint (rv_getreg s cn rs2))) s \<and>
   rx_do_mulhu cn rd rs1 rs2 s =
     rv_setreg cn rd (high_half (uint (rv_getreg s cn rs1) * uint (rv_getreg s cn rs2))) s \<and>
   rx_do_mulhsu cn rd rs1 rs2 s =
     rv_setreg cn rd (high_half (sint (rv_getreg s cn rs1) * uint (rv_getreg s cn rs2))) s"
proof (intro conjI)
  show "rx_do_mul cn rd rs1 rs2 s =
     rv_setreg cn rd (word_of_int (sint (rv_getreg s cn rs1) * sint (rv_getreg s cn rs2))) s"
    by (simp add: rx_do_mul_def)
qed (simp_all only: rx_do_mulh_def rx_do_mulhu_def rx_do_mulhsu_def mulhsu_value high_of_u64 ucast_product)

text \<open>Division and remainder give the results of the RISC-V manual for all operands: signed
  division truncates towards 0, a divisor of 0 gives all ones and leaves the dividend as the
  remainder, and the one overflow gives the dividend and the remainder 0.\<close>

theorem rv_div_exact:
  "sint (rv_div a b) =
     (if b = 0 then - 1 else if sint a = - (2 ^ 31) \<and> sint b = - 1 then - (2 ^ 31) else sint a sdiv sint b) \<and>
   sint (rv_rem a b) =
     (if b = 0 then sint a else if sint a = - (2 ^ 31) \<and> sint b = - 1 then 0 else sint a smod sint b) \<and>
   uint (rv_divu a b) = (if b = 0 then 2 ^ 32 - 1 else uint a div uint b) \<and>
   uint (rv_remu a b) = (if b = 0 then uint a else uint a mod uint b)"
proof (intro conjI)
  let ?over = "sint a = - (2 ^ 31) \<and> sint b = - 1"
  note r = sint32_range [of a] sint32_range [of b]
  have d: "sint (of_int (sint a sdiv sint b) :: u32) = sint a sdiv sint b" if "b \<noteq> 0" "\<not> ?over"
    using sdiv_range [of "sint a" "sint b"] r that by (intro sint_of_range) (simp_all add: sint_zero)
  have m: "sint (of_int (sint a smod sint b) :: u32) = sint a smod sint b" if "b \<noteq> 0"
    using smod_range(1) [of "sint b" "sint a"] r that by (intro sint_of_range) (simp_all add: sint_zero)
  show "sint (rv_div a b) = (if b = 0 then - 1 else if ?over then - (2 ^ 31) else sint a sdiv sint b)"
    unfolding rv_div_def sint_zero sint_lowest
    using d by (cases "b = 0"; cases ?over) (simp_all only: if_True if_False simp_thms, simp_all)
  show "sint (rv_rem a b) = (if b = 0 then sint a else if ?over then 0 else sint a smod sint b)"
    unfolding rv_rem_def sint_zero sint_lowest
    using m by (cases "b = 0"; cases ?over) (simp_all only: if_True if_False simp_thms, simp_all)
  show "uint (rv_divu a b) = (if b = 0 then 2 ^ 32 - 1 else uint a div uint b)"
    by (simp add: rv_divu_def uint_div)
  show "uint (rv_remu a b) = (if b = 0 then uint a else uint a mod uint b)"
    by (simp add: rv_remu_def uint_mod)
qed

section \<open>Unaligned words\<close>

text \<open>What is read back of a word stored one, two and three bytes off a word boundary.\<close>

lemma read_back_1:
  fixes v val1 val2 :: u32
  shows "drop_bit 8 (((val1 AND 0x000000ff) OR drop_bit 8 (v AND 0xffffff00)) AND 0xffffff00) OR
      push_bit 24 (((val2 AND 0xffffff00) OR push_bit 24 (v AND 0x000000ff)) AND 0x000000ff) = drop_bit 16 v"
  by (rule bit_word_eqI, unfold bit_ops) (auto dest: bit_imp_le_length)

lemma read_back_2:
  fixes v val1 val2 :: u32
  shows "drop_bit 16 (((val1 AND 0x0000ffff) OR drop_bit 16 (v AND 0xffff0000)) AND 0xffff0000) OR
      push_bit 16 (((val2 AND 0xffff0000) OR push_bit 16 (v AND 0x0000ffff)) AND 0x0000ffff) = 0"
  by (rule bit_word_eqI, unfold bit_ops) (auto dest: bit_imp_le_length)

lemma read_back_3:
  fixes v val1 val2 :: u32
  shows "drop_bit 24 (((val1 AND 0x00ffffff) OR drop_bit 24 (v AND 0xff000000)) AND 0xff000000) OR
      push_bit 8 (((val2 AND 0xff000000) OR push_bit 8 (v AND 0x00ffffff)) AND 0x00ffffff) = push_bit 16 v"
  by (rule bit_word_eqI, unfold bit_ops) (auto dest: bit_imp_le_length)

lemmas read_back = read_back_1 read_back_2 read_back_3

text \<open>A word stored across two words of memory does not come back: the code ORs the low bytes
  of the value, shifted down, into the bytes it means to keep. One byte off, the upper half is
  read back in the place of the lower; two bytes off, 0; three bytes off, the lower half in the
  place of the upper.\<close>

theorem rv_unaligned_store_lost:
  "rv_join_word addr (fst (rv_split_word addr v val1 val2)) (snd (rv_split_word addr v val1 val2)) =
     (if addr AND 3 = 1 then drop_bit 16 v else if addr AND 3 = 2 then 0 else push_bit 16 v)"
proof -
  consider "addr AND 3 = 1" | "\<not> addr AND 3 = 1" "addr AND 3 = 2"
    | "\<not> addr AND 3 = 1" "\<not> addr AND 3 = 2" by blast
  then show ?thesis
  proof cases
    case 1
    show ?thesis
      by (simp only: rv_join_word_def rv_split_word_def if_P [OF 1] fst_conv snd_conv read_back)
  next
    case 2
    show ?thesis
      by (simp only: rv_join_word_def rv_split_word_def if_not_P [OF 2(1)] if_P [OF 2(2)] fst_conv
          snd_conv read_back)
  next
    case 3
    show ?thesis
      by (simp only: rv_join_word_def rv_split_word_def if_not_P [OF 3(1)] if_not_P [OF 3(2)] fst_conv
          snd_conv read_back)
  qed
qed

end
