(* ===== verification/Rv_Csr.thy ===== *)
theory Rv_Csr
  imports Rv_Insns
begin

text \<open>
  The control registers of the RISC-V processor (\<open>riscv/riscv-csr.h\<close> and \<open>csrread\<close>, \<open>csrwrite\<close> of
  \<open>riscv/riscvcore.h\<close>): what is read back of a value written, and what user mode can reach.
\<close>

definition csr_reread :: "riscvcpu \<Rightarrow> u32 \<Rightarrow> u32 \<Rightarrow> u32 option" where
  "csr_reread c csr v = Option.bind (csrwrite c csr v) (\<lambda>c'. csrread c' csr)"

lemma flag_tests:
  "(w::u32) AND 0x1 = 0 \<longleftrightarrow> \<not> bit w 0" "w AND 0x2 = 0 \<longleftrightarrow> \<not> bit w 1" "w AND 0x10 = 0 \<longleftrightarrow> \<not> bit w 4"
  "w AND 0x20 = 0 \<longleftrightarrow> \<not> bit w 5" "w AND 0x100 = 0 \<longleftrightarrow> \<not> bit w 8" "w AND 0x200 = 0 \<longleftrightarrow> \<not> bit w 9"
  "w AND 0x40000 = 0 \<longleftrightarrow> \<not> bit w 18" "w AND 0x80000 = 0 \<longleftrightarrow> \<not> bit w 19"
  "w AND 0x80000000 = 0 \<longleftrightarrow> \<not> bit w 31"
  using and_exp_eq_0_iff_not_bit [of w 0] and_exp_eq_0_iff_not_bit [of w 1]
    and_exp_eq_0_iff_not_bit [of w 4] and_exp_eq_0_iff_not_bit [of w 5]
    and_exp_eq_0_iff_not_bit [of w 8] and_exp_eq_0_iff_not_bit [of w 9]
    and_exp_eq_0_iff_not_bit [of w 18] and_exp_eq_0_iff_not_bit [of w 19]
    and_exp_eq_0_iff_not_bit [of w 31]
  by simp_all

lemma sstatus_reread: "read_csr_sstatus (write_csr_sstatus v c) = v AND 0x000c0133"
proof (rule bit_word_eqI)
  fix i
  show "bit (read_csr_sstatus (write_csr_sstatus v c)) i = bit (v AND 0x000c0133) i"
    by (rule word_bits_eqI, unfold read_csr_sstatus_def write_csr_sstatus_def bit_ops,
        simp add: CSR_bits flag_tests, auto simp: bit_ops dest: bit_imp_le_length)
qed

lemma sie_reread: "read_csr_sie (write_csr_sie v c) = v AND 0x00000222"
proof (rule bit_word_eqI)
  fix i
  show "bit (read_csr_sie (write_csr_sie v c)) i = bit (v AND 0x00000222) i"
    by (rule word_bits_eqI, unfold read_csr_sie_def write_csr_sie_def bit_ops,
        simp add: CSR_bits flag_tests, auto simp: bit_ops dest: bit_imp_le_length)
qed

lemma scause_reread: "read_csr_scause (write_csr_scause v c) = v AND 0x8000000f"
proof (rule bit_word_eqI)
  fix i
  show "bit (read_csr_scause (write_csr_scause v c)) i = bit (v AND 0x8000000f) i"
    by (rule word_bits_eqI, unfold read_csr_scause_def write_csr_scause_def bit_ops,
        simp add: CSR_bits flag_tests, auto simp: bit_ops dest: bit_imp_le_length)
qed

lemma satp_reread: "read_csr_satp (write_csr_satp v c) = v AND 0xffcfffff"
proof (rule bit_word_eqI)
  fix i
  show "bit (read_csr_satp (write_csr_satp v c)) i = bit (v AND 0xffcfffff) i"
    by (rule word_bits_eqI, unfold read_csr_satp_def write_csr_satp_def bit_ops,
        simp add: CSR_bits flag_tests, auto simp: bit_ops dest: bit_imp_le_length)
qed

lemma sepc_reread:
  "read_csr_sepc (write_csr_sepc v c) = v AND (if Cext c then 0xfffffffe else 0xfffffffc)"
  by (simp add: read_csr_sepc_def write_csr_sepc_def and.assoc)

lemma sip_reread:
  "read_csr_sip (write_csr_sip v c) = (read_csr_sip c AND 0xfffffffd) OR (v AND 0x2)"
proof (rule bit_word_eqI)
  fix i
  show "bit (read_csr_sip (write_csr_sip v c)) i = bit ((read_csr_sip c AND 0xfffffffd) OR (v AND 0x2)) i"
    by (rule word_bits_eqI, unfold read_csr_sip_def write_csr_sip_def bit_ops,
        simp add: CSR_bits flag_tests, auto simp: bit_ops dest: bit_imp_le_length)
qed

lemma csr_access:
  assumes "super c" "(csr, r) \<in> set csr_readers" "(csr, w) \<in> set csr_writers"
  shows "csr_reread c csr v = Some (r (w v c))"
proof -
  have d: "distinct (map fst csr_readers)" "distinct (map fst csr_writers)"
    by (simp_all add: csr_readers_def csr_writers_def CSR_numbers)
  have k: "csr AND 0xfff = csr \<and> csr \<noteq> CSR_SYS161_TIMER \<and> super (w v c)"
    using assms
    by (auto simp: csr_readers_def csr_writers_def CSR_numbers write_csr_sstatus_def write_csr_sie_def
        write_csr_sepc_def write_csr_scause_def write_csr_sip_def write_csr_satp_def)
  have "map_of csr_readers csr = Some r" "map_of csr_writers csr = Some w"
    using assms d by simp_all
  then show ?thesis using assms(1) k by (simp add: csr_reread_def csrwrite_def csrread_def)
qed

text \<open>In supervisor mode every control register that can be written reads back as the value
  written, restricted to the bits the register implements.\<close>

theorem rv_csr_roundtrip:
  assumes "super c"
  shows "csr_reread c CSR_SSTATUS v = Some (v AND 0x000c0133) \<and>
    csr_reread c CSR_SIE v = Some (v AND 0x00000222) \<and>
    csr_reread c CSR_STVEC v = Some (v AND 0xfffffffc) \<and>
    csr_reread c CSR_SSCRATCH v = Some v \<and>
    csr_reread c CSR_SEPC v = Some (v AND (if Cext c then 0xfffffffe else 0xfffffffc)) \<and>
    csr_reread c CSR_SCAUSE v = Some (v AND 0x8000000f) \<and>
    csr_reread c CSR_STVAL v = Some v \<and>
    csr_reread c CSR_SIP v = Some ((read_csr_sip c AND 0xfffffffd) OR (v AND 0x2)) \<and>
    csr_reread c CSR_SATP v = Some (v AND 0xffcfffff)"
proof -
  note a = csr_access [OF assms]
  have "csr_reread c CSR_SSTATUS v = Some (read_csr_sstatus (write_csr_sstatus v c))"
    "csr_reread c CSR_SIE v = Some (read_csr_sie (write_csr_sie v c))"
    "csr_reread c CSR_SEPC v = Some (read_csr_sepc (write_csr_sepc v c))"
    "csr_reread c CSR_SCAUSE v = Some (read_csr_scause (write_csr_scause v c))"
    "csr_reread c CSR_SIP v = Some (read_csr_sip (write_csr_sip v c))"
    "csr_reread c CSR_SATP v = Some (read_csr_satp (write_csr_satp v c))"
    by (rule a; simp add: csr_readers_def csr_writers_def)+
  moreover have "csr_reread c CSR_STVEC v = Some (stvec (c\<lparr>stvec := v AND 0xfffffffc\<rparr>))"
    "csr_reread c CSR_SSCRATCH v = Some (sscratch (c\<lparr>sscratch := v\<rparr>))"
    "csr_reread c CSR_STVAL v = Some (stval (c\<lparr>stval := v\<rparr>))"
    by (simp_all add: csr_reread_def csrwrite_def csrread_def csr_readers_def csr_writers_def
        CSR_numbers assms)
  ultimately show ?thesis
    by (simp only: sstatus_reread sie_reread sepc_reread scause_reread sip_reread satp_reread) simp
qed

text \<open>User mode can write no control register, and can read none but the cycle trigger of the
  timer, which the code lets it read.\<close>

theorem rv_csr_user_mode:
  assumes "\<not> super c"
  shows "csrwrite c csr v = None \<and>
    csrread c csr = (if csr AND 0xfff = CSR_SYS161_TIMER then Some (ucast (cycletrigger c)) else None)"
  using assms by (auto simp: csrwrite_def csrread_def Let_def split: option.split)

end
