(* ===== verification/Rv_Atomic.thy ===== *)
theory Rv_Atomic
  imports Rv_Insns
begin

text \<open>
  Memory accesses of the RISC-V processor to RAM without translation, and on them the load
  reserved, the store conditional and the atomic operations of \<open>riscv/riscvcore.h\<close>.
\<close>

section \<open>Accesses to RAM\<close>

text \<open>A cpu that does not translate, and the address of an aligned word of its RAM.\<close>

definition ram_word :: "rvm \<Rightarrow> nat \<Rightarrow> u32 \<Rightarrow> bool" where
  "ram_word s cn a \<longleftrightarrow>
     \<not> mmu_enable (rvcpu s cn) \<and> a AND 3 = 0 \<and> PADDR_RAMBASE \<le> a \<and> a < PADDR_ROMBASE \<and>
     a - PADDR_RAMBASE < bus_ramsize (rv_sys s)"

abbreviation word_at :: "rvm \<Rightarrow> u32 \<Rightarrow> u32" where
  "word_at s a \<equiv> host_load32 (ram (rv_sys s)) (a - PADDR_RAMBASE)"

definition set_word :: "u32 \<Rightarrow> u32 \<Rightarrow> rvm \<Rightarrow> rvm" where
  "set_word a v s = upd_sys (\<lambda>m. m\<lparr>ram := host_store32 (ram m) (a - PADDR_RAMBASE) v\<rparr>) s"

definition drop_lr :: "nat \<Rightarrow> rvm \<Rightarrow> rvm" where
  "drop_lr cn s = upd_rv cn (\<lambda>c. c\<lparr>lr_active := False\<rparr>) s"

lemma ram_even: "a AND 3 = 0 \<Longrightarrow> (a::u32) AND 1 = 0"
proof -
  assume "a AND 3 = 0"
  then have "(a AND 3) AND 1 = 0" by simp
  then show ?thesis by (simp add: and.assoc)
qed

lemma translate_ram: "ram_word s cn a \<Longrightarrow> rv_translatemem io cn a rwx s = (s, Some a)"
  by (simp add: ram_word_def rv_translatemem_def translate_with_def mmu_lookup_def ram_even)

lemma domem_ram:
  assumes "ram_word s cn a"
  shows "rv_domem_fetch io cn a rwx s = (s, Fetched (word_at s a))"
    and "rv_domem_store io cn a v rwx s = (set_word a v s, True)"
  using assms
  by (simp_all add: rv_domem_fetch_def rv_domem_store_def translate_ram)
    (simp_all add: ram_word_def rv_accessmem_fetch_def rv_accessmem_store_def rv_mem_fetch_def
      rv_mem_store_def set_word_def upd_sys_def not_less [symmetric])

lemma ram_word_same [simp]:
  "ram_word (set_word b v s) cn a = ram_word s cn a"
  "ram_word (drop_lr n s) cn a = ram_word s cn a"
  by (simp_all add: ram_word_def set_word_def drop_lr_def)

section \<open>Loads of any alignment\<close>

lemma join_words:
  "a AND 3 = 1 \<Longrightarrow> rv_join_word a (host_load32 b p) (host_load32 b (p + 4)) = host_load32 b (p + 1)"
  "a AND 3 = 2 \<Longrightarrow> rv_join_word a (host_load32 b p) (host_load32 b (p + 4)) = host_load32 b (p + 2)"
  "a AND 3 = 3 \<Longrightarrow> rv_join_word a (host_load32 b p) (host_load32 b (p + 4)) = host_load32 b (p + 3)"
proof -
  assume a: "a AND 3 = 1"
  show "rv_join_word a (host_load32 b p) (host_load32 b (p + 4)) = host_load32 b (p + 1)"
  proof (rule bit_word_eqI)
    show "bit (rv_join_word a (host_load32 b p) (host_load32 b (p + 4))) n = bit (host_load32 b (p + 1)) n" for n
      unfolding rv_join_word_def if_P [OF a]
      by (rule word_bits_eqI, unfold bit_ops bit_host_load32, simp add: add.commute, auto split: if_splits)
  qed
next
  assume a: "a AND 3 = 2"
  then have b: "\<not> a AND 3 = 1" by simp
  show "rv_join_word a (host_load32 b p) (host_load32 b (p + 4)) = host_load32 b (p + 2)"
  proof (rule bit_word_eqI)
    show "bit (rv_join_word a (host_load32 b p) (host_load32 b (p + 4))) n = bit (host_load32 b (p + 2)) n" for n
      unfolding rv_join_word_def if_P [OF a] if_not_P [OF b]
      by (rule word_bits_eqI, unfold bit_ops bit_host_load32, simp add: add.commute, auto split: if_splits)
  qed
next
  assume a: "a AND 3 = 3"
  then have b: "\<not> a AND 3 = 1" "\<not> a AND 3 = 2" by simp_all
  show "rv_join_word a (host_load32 b p) (host_load32 b (p + 4)) = host_load32 b (p + 3)"
  proof (rule bit_word_eqI)
    show "bit (rv_join_word a (host_load32 b p) (host_load32 b (p + 4))) n = bit (host_load32 b (p + 3)) n" for n
      unfolding rv_join_word_def if_not_P [OF b(1)] if_not_P [OF b(2)]
      by (rule word_bits_eqI, unfold bit_ops bit_host_load32, simp add: add.commute, auto split: if_splits)
  qed
qed

lemma join_word_at:
  assumes "\<not> a AND 3 = 0"
  shows "rv_join_word a (host_load32 b p) (host_load32 b (p + 4)) = host_load32 b (p + (a AND 3))"
proof (cases rule: and3_cases [of a])
  case 1
  then show ?thesis using assms by simp
next
  case 2
  then show ?thesis using join_words(1) [OF 2] by simp
next
  case 3
  then show ?thesis using join_words(2) [OF 3] by simp
next
  case 4
  then show ?thesis using join_words(3) [OF 4] by simp
qed

lemma load_byte_at: "rv_load_byte a (host_load32 b p) = ucast (host_load32 b (p + (a AND 3)))"
  by (cases rule: and3_cases [of a])
    (auto intro!: bit_word_eqI simp: rv_load_byte_def bit_ops bit_host_load32)

lemma bit_ucast16: "bit (ucast (w::u32) :: u16) n \<longleftrightarrow> n < 16 \<and> bit w n"
  by (auto simp: bit_unsigned_iff)

lemma half_eqI:
  fixes v w :: u32
  assumes "\<And>n. n < 8 \<Longrightarrow> bit v n = bit w n" "\<And>n. n < 8 \<Longrightarrow> bit v (n + 8) = bit w (n + 8)"
  shows "(ucast v :: u16) = ucast w"
proof (rule bit_word_eqI)
  fix n assume "n < LENGTH(16)"
  then show "bit (ucast v :: u16) n = bit (ucast w :: u16) n"
    using assms(1) [of n] assms(2) [of "n - 8"] by (cases "n < 8") (simp_all add: bit_ucast16)
qed

lemma half_parts:
  fixes v :: u32
  shows "(ucast (v AND 0x0000ffff) :: u16) = ucast v"
    "(ucast (drop_bit 8 (v AND 0x00ffff00)) :: u16) = ucast (drop_bit 8 v)"
    "(ucast (drop_bit 16 (v AND 0xffff0000)) :: u16) = ucast (drop_bit 16 v)"
proof -
  have m: "bit (0x00ffff00 :: int) n \<longleftrightarrow> 8 \<le> n \<and> n < 24" for n
    using bit_ones [of 8 16 n] by (simp add: mask_eq_exp_minus_1 push_bit_eq_mult)
  show "(ucast (v AND 0x0000ffff) :: u16) = ucast v"
    by (rule half_eqI; unfold bit_ops; simp)
  show "(ucast (drop_bit 8 (v AND 0x00ffff00)) :: u16) = ucast (drop_bit 8 v)"
    by (rule half_eqI; unfold bit_ops; simp add: m)
  show "(ucast (drop_bit 16 (v AND 0xffff0000)) :: u16) = ucast (drop_bit 16 v)"
    by (rule half_eqI; unfold bit_ops; simp)
qed

lemma shifted_half:
  "(ucast (drop_bit 8 (host_load32 b p)) :: u16) = ucast (host_load32 b (p + 1))"
  "(ucast (drop_bit 16 (host_load32 b p)) :: u16) = ucast (host_load32 b (p + 2))"
  by (rule half_eqI; unfold bit_ops bit_host_load32; simp add: add.commute)+

lemma load_half_at:
  "\<not> a AND 3 = 3 \<Longrightarrow> rv_load_half a (host_load32 b p) = ucast (host_load32 b (p + (a AND 3)))"
  by (cases rule: and3_cases [of a]) (simp_all add: rv_load_half_def half_parts shifted_half)

lemma join_half_at:
  "rv_join_half (host_load32 b p) (host_load32 b (p + 4)) = ucast (host_load32 b (p + 3))"
proof -
  have j: "rv_join_half v w = ucast (drop_bit 24 (v AND 0xff000000) OR push_bit 8 (w AND 0xff))" for v w
    by (rule bit_word_eqI) (auto simp: rv_join_half_def bit_ops)
  show ?thesis
    unfolding j by (rule half_eqI; unfold bit_ops bit_host_load32; simp add: add.commute)
qed

text \<open>The address in the RAM of a byte is that of its word and the byte's place in the word.\<close>

lemma byte_offset: "((a AND 0xfffffffc) - PADDR_RAMBASE) + (a AND 3) = a - PADDR_RAMBASE"
  using align_split [of a] by (simp add: algebra_simps)

lemma next_word_offset:
  "((a AND 0xfffffffc) + 4) - PADDR_RAMBASE = ((a AND 0xfffffffc) - PADDR_RAMBASE) + 4"
  by simp

definition loaded_word :: "rv_memstyles \<Rightarrow> u32 \<Rightarrow> u32" where
  "loaded_word ms x =
     (case ms of Rv_SBYTE \<Rightarrow> scast (ucast x :: u8) | Rv_UBYTE \<Rightarrow> ucast (ucast x :: u8)
      | Rv_SHALF \<Rightarrow> scast (ucast x :: u16) | Rv_UHALF \<Rightarrow> ucast (ucast x :: u16) | Rv_WORD \<Rightarrow> x)"

text \<open>The widths and addresses that need the next word too.\<close>

definition spans_words :: "rv_memstyles \<Rightarrow> u32 \<Rightarrow> bool" where
  "spans_words ms a \<longleftrightarrow>
     (case ms of Rv_WORD \<Rightarrow> a AND 3 \<noteq> 0 | Rv_SHALF \<Rightarrow> a AND 3 = 3 | Rv_UHALF \<Rightarrow> a AND 3 = 3 | _ \<Rightarrow> False)"

lemma ram_fetch:
  assumes "ram_word s cn b"
  shows "rv_domem_fetch io cn b rwx (drop_lr cn s) = (drop_lr cn s, Fetched (host_load32 (ram (rv_sys s)) (b - PADDR_RAMBASE)))"
proof -
  have "ram_word (drop_lr cn s) cn b" using assms by simp
  from domem_ram(1) [OF this] show ?thesis by (simp add: drop_lr_def)
qed

lemma word_offset:
  "host_load32 (ram (rv_sys s)) (((a AND 0xfffffffc) - PADDR_RAMBASE) + (a AND 3)) = word_at s a"
  by (simp only: byte_offset)

lemma load_half_word_at:
  assumes "ram_word s cn (a AND 0xfffffffc)" "a AND 3 = 3 \<Longrightarrow> ram_word s cn ((a AND 0xfffffffc) + 4)"
  shows "rv_load_half_at io cn ext rwx a (drop_lr cn s) = (drop_lr cn s, Fetched (ext (ucast (word_at s a))))"
proof (cases "a AND 3 = 3")
  case True
  then show ?thesis
    using word_offset [of s a] True
    unfolding rv_load_half_at_def rv_domem_use_def ram_fetch [OF assms(1)] ram_fetch [OF assms(2) [OF True]]
      prod.case fetched.case if_P [OF True] next_word_offset join_half_at
    by simp
next
  case False
  then show ?thesis
    unfolding rv_load_half_at_def rv_domem_use_def ram_fetch [OF assms(1)] prod.case fetched.case
      if_not_P [OF False] load_half_at [OF False] word_offset
    by simp
qed

lemma load_word_word_at:
  assumes "ram_word s cn (a AND 0xfffffffc)" "a AND 3 \<noteq> 0 \<Longrightarrow> ram_word s cn ((a AND 0xfffffffc) + 4)"
  shows "rv_load_word_at io cn rwx a (drop_lr cn s) = (drop_lr cn s, Fetched (word_at s a))"
proof (cases "a AND 3 = 0")
  case True
  then show ?thesis
    using word_offset [of s a] unfolding rv_load_word_at_def if_P [OF True] ram_fetch [OF assms(1)] by simp
next
  case False
  then show ?thesis
    using join_word_at [OF False, of "ram (rv_sys s)" "(a AND 0xfffffffc) - PADDR_RAMBASE", unfolded word_offset]
      ram_fetch [OF assms(1)] ram_fetch [OF assms(2) [OF False], unfolded next_word_offset]
    unfolding rv_load_word_at_def if_not_P [OF False] by simp
qed

text \<open>C18: With translation off, a load of any width and alignment whose bytes are all in RAM reads the
  bytes from its address on in little-endian order, also when they lie in two words, extends the sign if
  the instruction says so, and drops the cpu's reservation; nothing else changes.\<close>

theorem rv_load_little_endian:
  assumes "ram_word s cn (a AND 0xfffffffc)"
    and "spans_words ms a \<Longrightarrow> ram_word s cn ((a AND 0xfffffffc) + 4)"
  shows "rv_doload io cn ms willbewrite a s = (drop_lr cn s, Fetched (loaded_word ms (word_at s a)))"
proof -
  have "rv_load_byte_at io cn ext rwx a (drop_lr cn s) = (drop_lr cn s, Fetched (ext (ucast (word_at s a))))" for ext rwx
    by (simp only: rv_load_byte_at_def rv_domem_use_def ram_fetch [OF assms(1)] load_byte_at word_offset prod.case fetched.case)
  then show ?thesis
    using load_half_word_at [OF assms(1)] load_word_word_at [OF assms(1)] assms(2)
    unfolding rv_doload_def Let_def drop_lr_def [symmetric] loaded_word_def
    by (cases ms) (simp_all add: spans_words_def)
qed

section \<open>Reservations and atomic operations\<close>

lemma drop_lr_idem: "\<not> lr_active (rvcpu s cn) \<Longrightarrow> drop_lr cn s = s"
proof -
  assume "\<not> lr_active (rvcpu s cn)"
  then have "(rvcpu s cn)\<lparr>lr_active := False\<rparr> = rvcpu s cn"
    by (cases "rvcpu s cn") simp
  then show ?thesis by (simp add: drop_lr_def upd_rv_def)
qed

lemma lr_sels [simp]:
  "lr_active (rvcpu (drop_lr cn s) cn) = False" "lr_addr (rvcpu (drop_lr cn s) cn) = lr_addr (rvcpu s cn)"
  "lr_value (rvcpu (drop_lr cn s) cn) = lr_value (rvcpu s cn)" "rv_sys (drop_lr cn s) = rv_sys s"
  "rv_getreg (drop_lr cn s) cn n = rv_getreg s cn n"
  by (simp_all add: drop_lr_def rv_getreg_def)

text \<open>C19: A store conditional at an aligned address stores its operand and counts a success exactly when the
  cpu holds a reservation of that address and the word still has the value the load reserved saw, where
  a reserved address is that of a word of RAM with translation off. Otherwise, and without any such
  condition on an address that is not reserved, it counts a failure and leaves memory alone. Either way
  the reservation is gone and nothing else is written.\<close>

theorem rv_sc_result:
  assumes "rv_getreg s cn rs1 AND 3 = 0"
    and "lr_active (rvcpu s cn) \<Longrightarrow> lr_addr (rvcpu s cn) = rv_getreg s cn rs1 \<Longrightarrow> ram_word s cn (rv_getreg s cn rs1)"
  shows "rx_do_sc io cn rd rs1 rs2 s =
    (if lr_active (rvcpu s cn) \<and> lr_addr (rvcpu s cn) = rv_getreg s cn rs1 \<and>
        lr_value (rvcpu s cn) = word_at s (rv_getreg s cn rs1)
     then rv_sc_success cn rd (set_word (rv_getreg s cn rs1) (rv_getreg s cn rs2) (drop_lr cn s))
     else rv_sc_fail cn rd (drop_lr cn s))"
proof (cases "lr_active (rvcpu s cn) \<and> lr_addr (rvcpu s cn) = rv_getreg s cn rs1")
  case False
  then show ?thesis
    using assms(1) by (auto simp: rx_do_sc_def Let_def drop_lr_idem simp flip: drop_lr_def)
next
  case True
  then have r: "ram_word (drop_lr cn s) cn (rv_getreg s cn rs1)" using assms(2) by simp
  show ?thesis
    using True assms(1)
    by (simp only: rx_do_sc_def Let_def drop_lr_def [symmetric] domem_ram [OF r] prod.case fetched.case
        bool.case lr_sels) auto
qed

lemma store_word_ram:
  assumes "ram_word s cn a"
  shows "rv_dostore io cn Rv_WORD a v s = (set_word a v (drop_lr cn s), True)"
proof -
  have r: "ram_word (drop_lr cn s) cn a" and al: "a AND 3 = 0"
    using assms by (simp_all add: ram_word_def drop_lr_def)
  show ?thesis
    unfolding rv_dostore_def Let_def drop_lr_def [symmetric]
    using al by (simp add: rv_store_word_def domem_ram(2) [OF r])
qed

lemma load_word_ram:
  assumes "ram_word s cn a"
  shows "rv_doload io cn Rv_WORD b a s = (drop_lr cn s, Fetched (word_at s a))"
proof -
  have r: "ram_word (drop_lr cn s) cn a" and al: "a AND 3 = 0"
    using assms by (simp_all add: ram_word_def drop_lr_def)
  have "a AND 0xfffffffc = a" using align_split [of a] al by simp
  then show ?thesis
    unfolding rv_doload_def Let_def drop_lr_def [symmetric]
    using al by (simp add: rv_load_word_at_def domem_ram(1) [OF r])
qed

text \<open>An atomic operation on a word of RAM leaves there its function of the old word and the
  register, and the old word in the result register; a swap leaves the register.\<close>

theorem rv_amo_result:
  assumes "ram_word s cn (rv_getreg s cn rs1)"
  shows "rv_amo io cn rd rs1 rs2 f s =
      rv_setreg cn rd (word_at s (rv_getreg s cn rs1))
        (set_word (rv_getreg s cn rs1) (f (word_at s (rv_getreg s cn rs1)) (rv_getreg s cn rs2)) (drop_lr cn s)) \<and>
    rx_do_amoswap io cn rd rs1 rs2 s =
      rv_setreg cn rd (word_at s (rv_getreg s cn rs1))
        (set_word (rv_getreg s cn rs1) (rv_getreg s cn rs2) (drop_lr cn s))"
proof -
  have r: "ram_word (drop_lr cn s) cn (rv_getreg s cn rs1)" using assms by simp
  have d: "drop_lr cn (drop_lr cn s) = drop_lr cn s" by (rule drop_lr_idem) simp
  have "rv_amo io cn rd rs1 rs2 f s =
      rv_setreg cn rd (word_at s (rv_getreg s cn rs1))
        (set_word (rv_getreg s cn rs1) (f (word_at s (rv_getreg s cn rs1)) (rv_getreg s cn rs2)) (drop_lr cn s))"
    by (simp add: rv_amo_def load_word_ram [OF assms] store_word_ram [OF r] d)
  moreover have "rx_do_amoswap io cn rd rs1 rs2 s =
      rv_setreg cn rd (word_at s (rv_getreg s cn rs1))
        (set_word (rv_getreg s cn rs1) (rv_getreg s cn rs2) (drop_lr cn s))"
    by (simp add: rx_do_amoswap_def load_word_ram [OF assms] store_word_ram [OF r] d)
  ultimately show ?thesis by blast
qed

end
