(* ===== verification/Rv_Witnesses.thy ===== *)
theory Rv_Witnesses
  imports Rv_Run Rv_Paging Rv_Trap Rv_Formats Rv_Arith Rv_Csr Rv_Atomic
begin

text \<open>
  Concrete RISC-V machines on which the hypotheses of the properties hold, each property applied
  there.
\<close>

definition rv0 :: rvm where
  "rv0 = \<lparr>rvcpus = (\<lambda>n. zero_rvcpu\<lparr>rc_cpunum := n\<rparr>), rv_sys = zero_machine (\<lambda>_. 0) (\<lambda>_ _. 0) (\<lambda>_ _. no_answer)\<rparr>"

lemmas rv0_simps = rv0_def zero_rvcpu_def zero_machine_def

text \<open>A bus that answers nothing.\<close>

definition silent_bus :: bus_react where
  "silent_bus = \<lparr>react_fetch = (\<lambda>_ _ m. (m, [], Bus_error)), react_store = (\<lambda>_ _ _ m. (m, [], False))\<rparr>"

section \<open>Paging\<close>

text \<open>Supervisor mode, with a page table in the first two pages of RAM that maps the page at 0x1000
  for the kernel only.\<close>

definition rv_mapped :: rvm where
  "rv_mapped =
     upd_rv 0 (\<lambda>c. c\<lparr>super := True, mmu_enable := True, mmu_cached_vpage := 0xffffffff,
       mmu_ptbase_pa := 0xc0000000, mmu_pttoppage := Some (Ram_page 0)\<rparr>)
     (upd_sys (\<lambda>m. m\<lparr>bus_ramsize := 0x3000,
       ram := (\<lambda>_. 0)(0 := 0x01, 1 := 0x04, 3 := 0x30, 0x1004 := 0xcf, 0x1005 := 0x08, 0x1007 := 0x30)\<rparr>) rv0)"

lemma rv_mapped_hyps:
  "mmu_enable (rvcpu rv_mapped 0)" "mmu_cached_vpage (rvcpu rv_mapped 0) = 0xffffffff"
  "mmu_pttoppage (rvcpu rv_mapped 0) = rv_mapmem (mmu_ptbase_pa (rvcpu rv_mapped 0)) rv_mapped"
  "mmu_ptbase_pa (rvcpu rv_mapped 0) AND 0xfff = 0" "bus_ramsize (rv_sys rv_mapped) AND 0xfff = 0"
  "super (rvcpu rv_mapped 0)" "\<not> status_sum (rvcpu rv_mapped 0)"
  "mmu_ptbase_pa (rvcpu rv_mapped 0) = 0xc0000000"
  by (simp_all add: rv_mapped_def rv_mapmem_def bus_mem_map_def Let_def rv0_simps)

lemma rv_mapped_phys:
  "rv_phys (rv_sys rv_mapped) 0xc0000000 = Some 0x30000401"
  "rv_phys (rv_sys rv_mapped) 0xc0001004 = Some 0x300008cf"
  by (simp_all add: rv_phys_def rv_mem_fetch_def rv_mapped_def host_load32_def rv0_simps)

lemma rv_mapped_conforms:
  "sv32_conforms (rv_phys (rv_sys rv_mapped)) 0x1004 (unat (mmu_ptbase_pa (rvcpu rv_mapped 0)))"
  by (simp add: sv32_conforms_def rv_mapped_hyps(8) sv_vpn_def rv_mapped_phys sv_is_leaf_def sv_ppn_def)

lemma sv32_walk_two: "sv32_walk mem va 2 a = sv32_walk mem va (Suc (Suc 0)) a"
  by (simp only: numeral_2_eq_2)

lemma mmu_refines_sv32_witness:
  "map_sum id unat (snd (mmu_lookup (fetch_only silent_bus) 0 0x1004 RWX_READ rv_mapped)) = Inr 0xc0002004"
  using mmu_refines_sv32 [OF rv_mapped_hyps(1-5) rv_mapped_conforms, of "fetch_only silent_bus" RWX_READ]
  by (simp add: rv_mapped_hyps sv32_def sv32_walk_two sv_vpn_def rv_mapped_phys sv_valid_def
      sv_is_leaf_def sv_ppn_def sv_permitted_def sv_addr_def)

lemma cached_kernel_page_from_user_witness:
  "\<exists>s1. snd (mmu_lookup (fetch_only silent_bus) 0 0x1004 RWX_READ (upd_rv 0 (\<lambda>c. c\<lparr>super := False\<rparr>) s1)) =
      Inr 0xc0002004 \<and>
    sv32 (rv_phys (rv_sys rv_mapped)) 0xc0000000 False False 0x1004 RWX_READ = Inl Page_fault"
proof -
  let ?r = "mmu_lookup (fetch_only silent_bus) 0 0x1004 RWX_READ rv_mapped"
  have r: "snd ?r = Inr 0xc0002004 \<and> mmu_cached_vpage (rvcpu (fst ?r) 0) = 0x1000"
    by (simp add: mmu_lookup_def pt_walk_def pt_leaf_def rv_mapped_def Let_def PTE_defs rv_accessmem_fetch_def
        PADDR_defs rv_mem_fetch_def host_load32_def mode_fault_def leaf_fault_def cache_leaf_def rv0_simps)
  obtain s1 where s1: "?r = (s1, Inr 0xc0002004)" using r by (metis prod.collapse)
  then have "mmu_cached_vpage (rvcpu s1 0) = 0x1004 AND 0xfffff000" using r by simp
  from cached_kernel_page_from_user [OF rv_mapped_hyps(1-5) rv_mapped_conforms rv_mapped_hyps(6,7) s1 this]
  show ?thesis by (auto simp: rv_mapped_hyps(8))
qed

section \<open>Traps\<close>

text \<open>A user program at the start of RAM, its handler in the boot ROM.\<close>

definition rv_user :: rvm where
  "rv_user =
     upd_rv 0 (\<lambda>c. c\<lparr>stvec := 0xffc00000, rc_pc := 0xc0000000, status_sie := True, rc_state := CPU_RUNNING\<rparr>)
     (upd_sys (\<lambda>m. m\<lparr>bus_ramsize := 0x3000, ncpus := 1, cpu_running_mask := 1\<rparr>) rv0)"

lemma precompute_with_unmapped:
  assumes "\<not> mmu_enable (rvcpu s cn)" "rc_pc (rvcpu s cn) AND 1 = 0"
    and "rv_mapmem (rc_pc (rvcpu s cn)) s = Some pg"
  shows "\<exists>t. rv_precompute_with exc io cn s = (t, True) \<and> rvcpus t cn = (rvcpu s cn)\<lparr>rc_pcpage := Some pg,
    rc_pcoff := rc_pc (rvcpu s cn) AND 0xfff, rc_nextpcoff := rc_pc (rvcpu s cn) AND 0xfff\<rparr> \<and> rv_sys t = rv_sys s"
  using assms
  by (auto simp: rv_precompute_with_def translate_with_def mmu_lookup_def Let_def upd_rv_def)

lemma trap_sret_roundtrip_witness:
  "super (rvcpu (trap (bus_of silent_bus) 0 False 8 0 rv_user) 0) \<and>
   rc_pc (rvcpu (rx_do_sret (bus_of silent_bus) 0 (trap (bus_of silent_bus) 0 False 8 0 rv_user)) 0) = 0xc0000000"
proof -
  let ?io = "bus_of silent_bus"
  let ?s = "upd_rv 0 (trap_regs False 8 0) (count_trap False rv_user)"
  have "\<exists>t. rv_precompute_with (trap_f (Suc 0) ?io 0 False) ?io 0 ?s = (t, True) \<and>
     rvcpus t 0 = (rvcpu ?s 0)\<lparr>rc_pcpage := Some (Rom_page 0), rc_pcoff := rc_pc (rvcpu ?s 0) AND 0xfff,
       rc_nextpcoff := rc_pc (rvcpu ?s 0) AND 0xfff\<rparr> \<and> rv_sys t = rv_sys ?s"
    by (rule precompute_with_unmapped)
      (simp_all add: rv_user_def rv0_simps trap_regs_def count_trap_def rv_mapmem_def rv_bootrom_map_def Let_def)
  then obtain s1 where s1: "rv_precompute_with (trap_f (Suc 0) ?io 0 False) ?io 0 ?s = (s1, True)"
      "rvcpus s1 0 = (rvcpu ?s 0)\<lparr>rc_pcpage := Some (Rom_page 0), rc_pcoff := rc_pc (rvcpu ?s 0) AND 0xfff,
       rc_nextpcoff := rc_pc (rvcpu ?s 0) AND 0xfff\<rparr>" "rv_sys s1 = rv_sys ?s" by blast
  let ?t = "upd_rv 0 sret_regs s1"
  have "\<exists>t. rv_precompute_with (rv_exception ?io 0) ?io 0 ?t = (t, True) \<and>
     rvcpus t 0 = (rvcpu ?t 0)\<lparr>rc_pcpage := Some (Ram_page 0), rc_pcoff := rc_pc (rvcpu ?t 0) AND 0xfff,
       rc_nextpcoff := rc_pc (rvcpu ?t 0) AND 0xfff\<rparr> \<and> rv_sys t = rv_sys ?t"
    by (rule precompute_with_unmapped)
      (simp_all add: s1(2,3) rv_user_def rv0_simps trap_regs_def sret_regs_def count_trap_def rv_mapmem_def
        bus_mem_map_def upd_stats_def Let_def)
  then obtain s2 where s2: "rv_precompute_pc ?io 0 ?t = (s2, True)"
    unfolding rv_precompute_pc_def by blast
  have "rc_pc (rvcpu rv_user 0) = 0xc0000000" "rc_pc (rvcpu rv_user 0) \<noteq> stvec (rvcpu rv_user 0)"
    by (simp_all add: rv_user_def)
  with trap_sret_roundtrip [OF _ _ s1(1) s2] show ?thesis by (simp add: Let_def)
qed

section \<open>Running\<close>

lemma rv_user_ok: "rv_ok 1 rv_user"
  by (auto simp: rv_ok_def rv_user_def rv0_simps bit_1_iff)

lemma rv_run_keeps_ok_witness:
  "rv_ok 1 (fst (rv_cpu_cycles (bus_of silent_bus) 1000 rv_user))"
  by (rule rv_run_keeps_ok [OF rv_user_ok])

lemma rv_reset_state_witness:
  "rv_is_reset 0 CPU_RUNNING (rvcpu (rv_cpu_init (bus_of silent_bus) 2 rv0) 0) \<and>
   rv_is_reset 1 CPU_DISABLED (rvcpu (rv_cpu_init (bus_of silent_bus) 2 rv0) 1)"
  using rv_reset_state [of 2 "bus_of silent_bus" rv0] by auto

text \<open>A cpu in WFI with its timer about to expire.\<close>

definition rv_waiting :: rvm where
  "rv_waiting =
     upd_rv 0 (\<lambda>c. c\<lparr>rc_state := CPU_IDLE, ie_stie := True, cyclecount := 9, cycletrigger := 10\<rparr>)
     (upd_sys (\<lambda>m. m\<lparr>ncpus := 1\<rparr>) rv0)"

section \<open>Control registers and memory\<close>

lemma rv_csr_roundtrip_witness:
  "csr_reread (zero_rvcpu\<lparr>super := True\<rparr>) CSR_SSTATUS 0xffffffff = Some 0x000c0133"
  using rv_csr_roundtrip [of "zero_rvcpu\<lparr>super := True\<rparr>" "0xffffffff"] by simp

lemma rv_load_little_endian_witness:
  "snd (rv_doload (bus_of silent_bus) 0 Rv_WORD False 0xc0001002
     (upd_rv 0 (\<lambda>c. c\<lparr>mmu_enable := False\<rparr>) rv_mapped)) = Fetched 0x08cf0000"
proof -
  let ?s = "upd_rv 0 (\<lambda>c. c\<lparr>mmu_enable := False\<rparr>) rv_mapped"
  have "ram_word ?s 0 (0xc0001002 AND 0xfffffffc)" "ram_word ?s 0 ((0xc0001002 AND 0xfffffffc) + 4)"
    by (simp_all add: ram_word_def rv_mapped_def PADDR_defs)
  note l = rv_load_little_endian [OF this, of "bus_of silent_bus" Rv_WORD False]
  have "word_at ?s 0xc0001002 = 0x08cf0000"
    by (simp add: rv_mapped_def host_load32_def PADDR_defs)
  then show ?thesis unfolding l snd_conv loaded_word_def by simp
qed

text \<open>A reservation of a word that still has its value.\<close>

definition rv_reserved :: rvm where
  "rv_reserved = upd_rv 0 (\<lambda>c. c\<lparr>mmu_enable := False, xreg := (\<lambda>_. 0)(5 := 0xc0001004, 6 := 7),
     lr_active := True, lr_addr := 0xc0001004, lr_value := 0x300008cf\<rparr>) rv_mapped"

lemma rv_reserved_ram: "ram_word rv_reserved 0 (rv_getreg rv_reserved 0 5)"
  by (simp add: ram_word_def rv_reserved_def rv_getreg_def rv_mapped_def PADDR_defs)

lemma rv_sc_result_witness:
  "rx_do_sc (bus_of silent_bus) 0 7 5 6 rv_reserved =
     rv_sc_success 0 7 (set_word 0xc0001004 7 (drop_lr 0 rv_reserved))"
  using rv_sc_result [OF _ rv_reserved_ram, of "bus_of silent_bus" 7 6]
  by (simp add: rv_reserved_def rv_getreg_def rv_mapped_def host_load32_def PADDR_defs)

end
