(* ===== verification/Spec2Isabelle.thy ===== *)
theory Spec2Isabelle
  imports Dev_Witnesses Tool_Witnesses Run_Witnesses Rv_Witnesses
begin

text \<open>
  \<^bold>\<open>System/161\<close>

  System/161 simulates a small multiprocessor: MIPS r3000 or RISC-V processors, memory, the LAMEbus
  with its devices, and a remote debugger. This library models the simulator as a function on one record,
  \<open>machine\<close>, in which every static variable and every heap object of the C is a field. A C function
  that changes state is a HOL function from machines to machines (with its result beside it, and the
  machine as its last argument); a pointer to a processor is its number, a device's data pointer its
  slot. The simulator is compiled for a little-endian host. Integers keep their width: \<open>u8\<close>, \<open>u16\<close>,
  \<open>u32\<close> and \<open>u64\<close> are words, and a C \<open>int\<close> that only holds small values is \<open>int\<close> or \<open>nat\<close>.

  \<^bold>\<open>What stops the simulator.\<close> The field \<open>fault_state\<close> records the first event after which the C has no
  next state: \<open>smoke\<close> and failed assertions abort, \<open>die\<close> and \<open>reqdie\<close> exit, a call may never return,
  and an operation may be undefined in C. What a function computes after a fault says nothing of the code;
  theorems speak of machines without one, or say when one comes. \<open>hang\<close> is not a fault: it stops the
  processors and enters the debugger.

  \<^bold>\<open>The theories, from the bottom up\<close>

  \<^item> \<open>Prelude\<close>: word types, bit lemmas, loops with a counter, signed division, \<open>switch\<close>
    tables, the collections of simplification rules.
  \<^item> \<open>C_Text\<close> (\<open>main/util.c\<close> and the string functions of C): numbers read and printed, words, sizes.
  \<^item> \<open>Machine\<close>: the records (\<open>struct mipscpu\<close>, \<open>lamebus_cpu\<close>, the device structures, \<open>timed_action\<close>,
    \<open>stats\<close>) and the machine with everything zero.
  \<^item> \<open>Memory\<close> (\<open>include/inlinemem.h\<close>, \<open>include/bswap.h\<close>, \<open>mipseb/bootrom.c\<close>): RAM as bytes, the boot ROM.
    The locale \<open>word_store\<close> states what a memory of words promises; RAM is one.
  \<^item> \<open>Control\<close>: faults, \<open>hang\<close>, entering and leaving the debugger, updates of one processor.
  \<^item> \<open>Host\<close>: system calls, and bytes between the host and the simulator's buffers.
  \<^item> \<open>Mips_Tlb\<close>, \<open>Mips_Exn\<close>, \<open>Mips_Cop0\<close> (\<open>mipseb/mipscore.h\<close>, \<open>mipseb/mips.c\<close>): the TLB, translation,
    exceptions, coprocessor 0. In the C translation, the page lookups of the program counters and
    exceptions call each other; \<open>exception_f\<close> follows these calls to a depth that is its first
    argument. Depth four is enough: the vectors lie in unmapped segments, so that a second level only
    arises when the vector has no page, and then the C recurses for ever (\<open>No_return\<close>). The locale
    \<open>exn_closed\<close> proves once that a relation kept by the register updates is kept by all of them.
  \<^item> \<open>Cpu_Control\<close> (\<open>mipseb/mips.c\<close>): reset, starting and stopping processors, interrupt lines, the
    debugger's access to memory and registers.
  \<^item> \<open>Clock\<close> and \<open>Dispatch\<close> (\<open>main/clock.c\<close>): virtual time, the pool and queue of timed events, running
    those that are due, the progress monitor.
  \<^item> \<open>Prof\<close> (\<open>main/prof.c\<close>, \<open>main/gmon.h\<close>): the profiler's samples and call graph, and its file.
  \<^item> \<open>Irq\<close> and \<open>Lamebus\<close> (\<open>bus/lamebus.c\<close>): interrupt lines (locale \<open>irq_lines\<close>), the controller's registers,
    the dispatch of loads and stores to the slots.
  \<^item> \<open>Timer_Dev\<close>, \<open>Serial_Dev\<close>, \<open>Disk_Dev\<close> (\<open>bus/dev_timer.c\<close>, \<open>dev_random.c\<close>, \<open>dev_serial.c\<close>,
    \<open>dev_disk.c\<close>): the devices; \<open>Disk_Image\<close> sets a disk up: options, image file, geometry, and that
    the disk is \<open>disk_sound\<close>, so that its operations end. The locale \<open>bounded_fifo\<close> is the receiver's
    buffer; the ring provides it.
  \<^item> \<open>Trace_Dev\<close> (\<open>bus/dev_trace.c\<close>, \<open>main/trace.c\<close>): trace flags and the trace control card.
  \<^item> \<open>Net_Dev\<close> and \<open>Emufs_Dev\<close> (\<open>bus/dev_net.c\<close>, \<open>bus/dev_emufs.c\<close>): the network card and the emulator
    file system, which reach the hub and the host's files by system calls. \<open>Card_Events\<close>, \<open>Net_Ops\<close> and
    \<open>Emufs_Ops\<close> hold their properties; the locale \<open>emufs_frame\<close> carries what the single steps of a file
    operation keep to the whole of it.
  \<^item> \<open>Bus_Config\<close> (\<open>bus/lamebus.c\<close>): the configuration file and the \<open>-C\<close> options, the boards and the
    devices they name, and that a machine so configured is sound.
  \<^item> \<open>Meter\<close> and \<open>Meter_Ops\<close> (\<open>main/meter.c\<close>): the connections of the perfmeter, and their properties.
  \<^item> \<open>Boot\<close> (\<open>bus/boot.c\<close>, \<open>include/elf.h\<close>): loading the kernel's ELF file.
  \<^item> \<open>Mips_Core\<close>, \<open>Mips_Insns\<close>, \<open>Mips_Cycle\<close> (\<open>mipseb/mipscore.h\<close>, \<open>mipseb/mips-insn.h\<close>): loads, stores and
    branches; every instruction; decoding and the cycle of the machine.
  \<^item> \<open>Gdb\<close> (\<open>gdb/gdb_be.c\<close>, \<open>gdb/gdb_fe.c\<close>): the debugger's packets and commands.
  \<^item> \<open>Mainloop\<close> (\<open>main/main.c\<close>, \<open>main/onsel.c\<close>, \<open>main/console.c\<close>): the main loop, as an inductive relation
    because it waits for the host.
  \<^item> \<open>Closure\<close>: contracts between a property of machines and the simulator, one inside the other: the
    devices (\<open>device_closed\<close>), the bus (\<open>bus_closed\<close>), an instruction (\<open>insn_closed\<close>), a cycle of one
    processor (\<open>cycle_closed\<close>) and of all (\<open>machine_closed\<close>). A property that survives the single updates
    of the code survives whatever is built from them.
  \<^item> \<open>Halting\<close>, \<open>Isolation\<close>, \<open>Run_Ok\<close> interpret them: \<open>cpu_cycles\<close> returns; a user program cannot touch
    the kernel's state; the invariant of the machine holds in every state the main loop reaches.
  \<^item> \<open>Console\<close> (\<open>main/console.c\<close>): the outputs and the lines they share, the trace file, the terminal and its
    settings, signals; a state of its own, which the rest of the simulator writes to and never reads.
  \<^item> \<open>Startup\<close> (\<open>main/main.c\<close>): the command line, setting up, \<open>program_reaches\<close> for everything the simulator
    can get to, exit codes, statistics. \<open>Startup_Ok\<close>: the invariant from \<open>main\<close> on.
  \<^item> \<open>Witnesses\<close>, \<open>Dev_Witnesses\<close>, \<open>Run_Witnesses\<close> and \<open>Rv_Witnesses\<close>: machines on which the hypotheses of the properties hold.

  \<^bold>\<open>The RISC-V processor\<close> is compiled into the simulator instead of the MIPS one, in a build of its
  own with little-endian words. Its state is the record \<open>rvm\<close>: the processors beside the same
  \<open>machine\<close> for the rest of the simulator. It meets the devices only through \<open>bus_io_fetch\<close> and
  \<open>bus_io_store\<close>, which are an argument of its definitions, a record \<open>bus_io\<close>; theorems hold for
  every such bus, or for those (\<open>bus_of F\<close>) that answer a load or a store, as far as the processors can
  see, by calls of \<open>cpu_set_irqs\<close>, \<open>cpu_enable\<close>, \<open>cpu_disable\<close> and the like, by changes of the rest
  of the machine and by stopping.

  \<^item> \<open>Rv_State\<close> (\<open>riscv/riscv.c\<close>, \<open>riscv/bootrom.c\<close>): \<open>struct riscvcpu\<close>, the boot ROM, the control
    registers.
  \<^item> \<open>Rv_Mmu\<close> (\<open>riscv/riscvcore.h\<close>): Sv32 translation, traps, breakpoints. A trap looks up the page of
    its handler, which may trap; \<open>trap_f\<close> follows this to a depth that is its first argument, and two
    is enough, because a trap in the handler stops the simulator.
  \<^item> \<open>Rv_Core\<close>, \<open>Rv_Insns\<close>, \<open>Rv_Decode\<close>, \<open>Rv_Cycle\<close>: loads and stores, every instruction, the
    decoders of 32-bit and 16-bit instructions, the cycle of the machine.
  \<^item> \<open>Rv_Control\<close> (\<open>riscv/riscv.c\<close>): reset, starting and stopping, interrupt lines, the debugger.
  \<^item> \<open>Rv_Paging\<close>: the Sv32 walk of the architecture on physical memory and the proof that translation
    follows it. \<open>Rv_Formats\<close>: the immediates against the manual's table of instruction formats.
    \<open>Rv_Arith\<close>, \<open>Rv_Csr\<close>, \<open>Rv_Atomic\<close>: multiplication and division, control registers, memory.
  \<^item> \<open>Rv_Bus\<close>, \<open>Rv_Trap\<close>, \<open>Rv_Closure\<close>, \<open>Rv_Run\<close>: what the bus may do, what it leaves of the processors,
    the contracts (\<open>rv_quiet\<close>, \<open>rv_exec\<close>) under which a property survives a cycle, and the
    invariant \<open>rv_ok\<close> of the running machine.

  \<^bold>\<open>The other programs.\<close> \<open>Hub\<close> (\<open>src/hub161/\<close>) is the hub between the network cards of several
  simulators: the growing array behind its table of senders, which provides the interface \<open>table\<close>, and a
  round of its loop. \<open>Net_Path\<close> has the start bit and the send event of a card from \<open>net_init\<close> on
  (\<open>net_run\<close>), and follows a packet from its buffer through \<open>hub_round\<close> to the cards that take it. \<open>Disk_Tool\<close> (\<open>src/disk161/\<close>) is the program that makes, checks and resizes disk images, on a
  record \<open>tool\<close> with the files and whether each system call works; its commands may stop, so they are
  functions that return no result then. \<open>Stat161\<close> (\<open>src/stat161/\<close>) is the client of the meter: its lines,
  put together from pieces, and the rows it prints of the meter's reports. \<open>Tool_Witnesses\<close> has the inputs on which the hypotheses of the properties hold.

  \<^bold>\<open>Loops.\<close> A loop over a fixed range is \<open>fold\<close> or recursion on a number. A loop that may not end is
  \<open>while_option\<close> or \<open>partial_function\<close>, and not ending is the fault \<open>No_return\<close> (\<open>check_queue\<close>,
  \<open>cpu_cycles\<close>, the catch-up loops of the disk, the memory commands of the debugger, opening a file that the host
  keeps changing and reading a directory in the emulator file system).

  \<^bold>\<open>Parameters.\<close> The host's \<open>random()\<close> is a stream and the rounding of the floating point product in
  \<open>schedule_event\<close> a function (\<open>host_random\<close>, \<open>host_jitter\<close>); the disk image is a map from offsets to bytes
  with a list of sectors the host cannot access; a system call is answered by \<open>host_sys\<close>, a function of
  the calls made so far (\<open>host_log\<close>), and theorems hold for every such function; what the host does while the simulator sleeps is an
  argument of the steps of the main loop. Setting up takes what the host does with files from the
  records \<open>disk_host\<close>, which also has the floating point part of the geometry, and \<open>config_host\<close>, which has
  the memory that \<open>malloc\<close> gives. The square root in \<open>disk_seektime\<close> is the real one.

  \<^bold>\<open>Not modelled.\<close> Tracing and disassembly, which only print; opening sockets; the state dumps; what the
  devices say on the console when they fail; the table of \<open>onselect\<close>.
\<close>

end
